(* ===== verification/Utf8.thy ===== *)
theory Utf8
  imports Prelude
begin

text \<open>
  Python text and its UTF-8 codec. A \<open>str\<close> is the list of its code points, a
  \<open>bytes\<close> a list of octets. \<open>utf8_encode\<close> and \<open>utf8_decode\<close> are
  \<open>str.encode("utf-8")\<close> and \<open>bytes.decode("utf-8")\<close> in their default strict
  mode: surrogates cannot be encoded, and over-long forms, surrogates, values above
  U+10FFFF, stray continuation octets and truncated sequences cannot be decoded. The lemmas
  show that the two are inverse to each other on their domains.
\<close>

type_synonym byte = "8 word"
type_synonym bytes = "byte list"
type_synonym pytext = "nat list"

text \<open>The errors the wire layer raises; all of them are \<open>ValueError\<close> in Python.\<close>

datatype wire_error =
    ByteRange \<comment> \<open>\<open>bytearray.append\<close> outside 0..255\<close>
  | UnterminatedVarint
  | Fixed64ExceedsPayload
  | LengthExceedsPayload
  | UnsupportedWireType int
  | UnicodeEncodeError
  | UnicodeDecodeError
  | FieldCardinality int \<comment> \<open>a field occurs the wrong number of times or with the wrong type\<close>
  | UnsupportedPayloadKind
  | PayloadCount
  | PayloadRepeated
  | InvalidEnumValue int

section \<open>Definitions\<close>

definition octet :: "nat \<Rightarrow> byte" where
  "octet n = of_nat n"

definition is_surrogate :: "nat \<Rightarrow> bool" where
  "is_surrogate c = (0xD800 \<le> c \<and> c \<le> 0xDFFF)"

definition scalar_value :: "nat \<Rightarrow> bool" where
  "scalar_value c = (c < 0x110000 \<and> \<not> is_surrogate c)"

definition utf8_encode_char :: "nat \<Rightarrow> wire_error + bytes" where
  "utf8_encode_char c =
     (if c < 0x80 then Inr [octet c]
      else if c < 0x800 then Inr [octet (0xC0 + c div 64), octet (0x80 + c mod 64)]
      else if \<not> scalar_value c then Inl UnicodeEncodeError
      else if c < 0x10000 then
        Inr [octet (0xE0 + c div 4096), octet (0x80 + c div 64 mod 64), octet (0x80 + c mod 64)]
      else
        Inr [octet (0xF0 + c div 262144), octet (0x80 + c div 4096 mod 64),
             octet (0x80 + c div 64 mod 64), octet (0x80 + c mod 64)])"

definition utf8_encode :: "pytext \<Rightarrow> wire_error + bytes" where
  "utf8_encode s = bind_r (map_r utf8_encode_char s) (\<lambda>bss. Inr (concat bss))"

definition is_cont :: "nat \<Rightarrow> bool" where
  "is_cont b = (0x80 \<le> b \<and> b < 0xC0)"

text \<open>One character from the front of the octets: the code point and how many octets it used.\<close>

definition utf8_head :: "nat list \<Rightarrow> (nat \<times> nat) option" where
  "utf8_head bs =
     (case bs of
        [] \<Rightarrow> None
      | b0 # r0 \<Rightarrow>
         (if b0 < 0x80 then Some (b0, 1)
          else if 0xC2 \<le> b0 \<and> b0 < 0xE0 then
            (case r0 of
               b1 # _ \<Rightarrow> if is_cont b1 then Some ((b0 - 0xC0) * 64 + (b1 - 0x80), 2) else None
             | [] \<Rightarrow> None)
          else if 0xE0 \<le> b0 \<and> b0 < 0xF0 then
            (case r0 of
               b1 # b2 # _ \<Rightarrow>
                 (let c = (b0 - 0xE0) * 4096 + (b1 - 0x80) * 64 + (b2 - 0x80)
                  in if is_cont b1 \<and> is_cont b2 \<and> 0x800 \<le> c \<and> \<not> is_surrogate c
                     then Some (c, 3) else None)
             | _ \<Rightarrow> None)
          else if 0xF0 \<le> b0 \<and> b0 < 0xF5 then
            (case r0 of
               b1 # b2 # b3 # _ \<Rightarrow>
                 (let c = (b0 - 0xF0) * 262144 + (b1 - 0x80) * 4096 + (b2 - 0x80) * 64 + (b3 - 0x80)
                  in if is_cont b1 \<and> is_cont b2 \<and> is_cont b3 \<and> 0x10000 \<le> c \<and> c < 0x110000
                     then Some (c, 4) else None)
             | _ \<Rightarrow> None)
          else None))"

lemma utf8_head_pos: "utf8_head bs = Some (c, n) \<Longrightarrow> 0 < n \<and> n \<le> length bs"
  by (auto simp: utf8_head_def Let_def split: list.splits if_splits)

function utf8_decode_octets :: "nat list \<Rightarrow> wire_error + pytext" where
  "utf8_decode_octets bs =
     (if bs = [] then Inr []
      else (case utf8_head bs of
              None \<Rightarrow> Inl UnicodeDecodeError
            | Some (c, n) \<Rightarrow> bind_r (utf8_decode_octets (drop n bs)) (\<lambda>cs. Inr (c # cs))))"
  by pat_completeness auto
termination
  by (relation "measure length") (auto dest!: utf8_head_pos)

declare utf8_decode_octets.simps [simp del]

definition utf8_decode :: "bytes \<Rightarrow> wire_error + pytext" where
  "utf8_decode bs = utf8_decode_octets (map unat bs)"

definition encodable :: "pytext \<Rightarrow> bool" where
  "encodable s = list_all scalar_value s"

section \<open>Round trips\<close>

lemma unat_octet [simp]: "n < 256 \<Longrightarrow> unat (octet n) = n"
  by (simp add: octet_def unat_of_nat)

lemma octet_unat [simp]: "octet (unat b) = b"
  by (simp add: octet_def)

lemma unat_byte_less [simp]: "unat (b :: byte) < 256"
  using unsigned_less [of b] by simp

lemma utf8_encode_char_ok: "scalar_value c \<Longrightarrow> \<exists>bs. utf8_encode_char c = Inr bs"
  by (simp add: utf8_encode_char_def)

lemma utf8_encode_char_scalar: "utf8_encode_char c = Inr bs \<Longrightarrow> scalar_value c"
  by (auto simp: utf8_encode_char_def scalar_value_def is_surrogate_def split: if_splits)

lemma utf8_encode_Inr_iff: "(\<exists>bs. utf8_encode s = Inr bs) \<longleftrightarrow> encodable s"
proof -
  have "(\<exists>bs. utf8_encode s = Inr bs) \<longleftrightarrow> (\<exists>bss. map_r utf8_encode_char s = Inr bss)"
    by (auto simp: utf8_encode_def bind_r_eq_Inr)
  also have "\<dots> \<longleftrightarrow> (\<forall>c\<in>set s. \<exists>bs. utf8_encode_char c = Inr bs)"
    by (rule map_r_Inr_iff)
  also have "\<dots> \<longleftrightarrow> encodable s"
    by (auto simp: encodable_def list_all_iff utf8_encode_char_ok dest: utf8_encode_char_scalar)
  finally show ?thesis .
qed

lemma utf8_encode_Nil [simp]: "utf8_encode [] = Inr []"
  by (simp add: utf8_encode_def)

lemma utf8_encode_Cons:
  "utf8_encode (c # s) =
     bind_r (utf8_encode_char c) (\<lambda>b. bind_r (utf8_encode s) (\<lambda>bs. Inr (b @ bs)))"
  by (auto simp: utf8_encode_def bind_r_def split: sum.splits)


lemma split_base64: "(c :: nat) div 64 * 64 + c mod 64 = c"
  by simp

lemma split_base64_2: "(c :: nat) div 4096 * 4096 + c div 64 mod 64 * 64 + c mod 64 = c"
proof -
  have "(c div 4096 * 64 + c div 64 mod 64) * 64 + c mod 64 = c"
    using split_base64 [of "c div 64"] by (simp flip: div_mult2_eq)
  then show ?thesis by (simp only: add_mult_distrib mult.assoc)
qed

lemma split_base64_3:
  "(c :: nat) div 262144 * 262144 + c div 4096 mod 64 * 4096 + c div 64 mod 64 * 64 + c mod 64 = c"
proof -
  have "(c div 262144 * 4096 + c div 4096 mod 64 * 64 + c div 64 mod 64) * 64 + c mod 64 = c"
    using split_base64_2 [of "c div 64"] by (simp flip: div_mult2_eq)
  then show ?thesis by (simp only: add_mult_distrib mult.assoc)
qed

lemma join_base64:
  assumes "z < 64" and "c = (q :: nat) * 64 + z"
  shows "c div 64 = q" "c mod 64 = z"
  using assms by simp_all

lemma join_base64_2:
  assumes "y < 64" "z < 64" and c: "c = (x :: nat) * 4096 + y * 64 + z"
  shows "c div 4096 = x" "c div 64 mod 64 = y" "c mod 64 = z"
proof -
  have "c = (x * 64 + y) * 64 + z" by (simp add: c)
  note 1 = join_base64 [OF assms(2) this]
  show "c div 64 mod 64 = y" "c mod 64 = z" using assms(1) 1 by simp_all
  have "c div 4096 = c div 64 div 64" by (simp flip: div_mult2_eq)
  then show "c div 4096 = x" using assms(1) by (simp add: 1)
qed

lemma join_base64_3:
  assumes "w < 64" "y < 64" "z < 64" and c: "c = (x :: nat) * 262144 + w * 4096 + y * 64 + z"
  shows "c div 262144 = x" "c div 4096 mod 64 = w" "c div 64 mod 64 = y" "c mod 64 = z"
proof -
  have "c = (x * 4096 + w * 64 + y) * 64 + z" by (simp add: c)
  note 1 = join_base64 [OF assms(3) this]
  note 2 = join_base64_2 [OF assms(1,2) 1(1)]
  have "c div 262144 = c div 64 div 4096" "c div 4096 = c div 64 div 64"
    by (simp_all flip: div_mult2_eq)
  then show "c div 262144 = x" "c div 4096 mod 64 = w" "c div 64 mod 64 = y" "c mod 64 = z"
    using 1 2 by simp_all
qed

lemma utf8_head_encode_char:
  assumes "utf8_encode_char c = Inr bs"
  shows "utf8_head (map unat bs @ rest) = Some (c, length bs)"
proof -
  consider "c < 0x80" | "0x80 \<le> c" "c < 0x800" | "0x800 \<le> c" "c < 0x10000" | "0x10000 \<le> c"
    by linarith
  then show ?thesis
  proof cases
    case 1
    with assms show ?thesis by (auto simp: utf8_encode_char_def utf8_head_def)
  next
    case 2
    then have "c div 64 < 32" "2 \<le> c div 64" by (simp_all add: div_less_iff_less_mult less_eq_div_iff_mult_less_eq)
    with 2 assms show ?thesis
      by (auto simp: utf8_encode_char_def utf8_head_def is_cont_def)
  next
    case 3
    then have "c div 4096 < 16" by (simp add: div_less_iff_less_mult)
    with 3 assms show ?thesis
      using split_base64_2 [of c]
      by (auto simp: utf8_encode_char_def utf8_head_def is_cont_def Let_def scalar_value_def
          split: if_splits)
  next
    case 4
    from assms have "c < 0x110000"
      by (auto dest: utf8_encode_char_scalar simp: scalar_value_def)
    with 4 have "c div 262144 < 5" by (simp add: div_less_iff_less_mult)
    with 4 assms \<open>c < 0x110000\<close> show ?thesis
      using split_base64_3 [of c]
      by (auto simp: utf8_encode_char_def utf8_head_def is_cont_def Let_def scalar_value_def
          split: if_splits)
  qed
qed

lemma utf8_encode_char_head:
  assumes "utf8_head bs = Some (c, n)" and "\<forall>b\<in>set bs. b < 256"
  shows "utf8_encode_char c = Inr (map octet (take n bs))"
proof (cases bs)
  case Nil
  with assms(1) show ?thesis by (simp add: utf8_head_def)
next
  case (Cons b0 r0)
  from assms(1) consider "b0 < 0x80" "c = b0" "n = 1"
    | b1 r1 where "r0 = b1 # r1" "0xC2 \<le> b0" "b0 < 0xE0" "is_cont b1" "n = 2"
        "c = (b0 - 0xC0) * 64 + (b1 - 0x80)"
    | b1 b2 r1 where "r0 = b1 # b2 # r1" "0xE0 \<le> b0" "b0 < 0xF0" "is_cont b1" "is_cont b2"
        "n = 3" "c = (b0 - 0xE0) * 4096 + (b1 - 0x80) * 64 + (b2 - 0x80)" "0x800 \<le> c"
        "\<not> is_surrogate c"
    | b1 b2 b3 r1 where "r0 = b1 # b2 # b3 # r1" "0xF0 \<le> b0" "b0 < 0xF5" "is_cont b1"
        "is_cont b2" "is_cont b3" "n = 4" "0x10000 \<le> c" "c < 0x110000"
        "c = (b0 - 0xF0) * 262144 + (b1 - 0x80) * 4096 + (b2 - 0x80) * 64 + (b3 - 0x80)"
    by (auto simp: Cons utf8_head_def Let_def split: list.splits if_splits)
  then show ?thesis
  proof cases
    case 1
    then show ?thesis by (simp add: Cons utf8_encode_char_def)
  next
    case 2
    define y where "y = b1 - 0x80"
    have "y < 64" using 2 by (auto simp: y_def is_cont_def)
    moreover have c: "c = (b0 - 0xC0) * 64 + y" using 2 by (simp add: y_def)
    ultimately have "c div 64 = b0 - 0xC0" "c mod 64 = y" "0x80 \<le> c" "c < 0x800"
      using 2 by simp_all
    then show ?thesis
      using 2(1-5) by (auto simp: Cons utf8_encode_char_def is_cont_def y_def)
  next
    case 3
    define y z where "y = b1 - 0x80" and "z = b2 - 0x80"
    have yz: "y < 64" "z < 64" using 3 by (auto simp: y_def z_def is_cont_def)
    have c: "c = (b0 - 0xE0) * 4096 + y * 64 + z" using 3 by (simp add: y_def z_def)
    have "c < 0x10000" using c yz \<open>b0 < 0xF0\<close> by simp
    with join_base64_2 [OF yz c] show ?thesis
      using 3(1-6,8,9) by (auto simp: Cons utf8_encode_char_def is_cont_def scalar_value_def y_def z_def)
  next
    case 4
    define x y z where "x = b1 - 0x80" and "y = b2 - 0x80" and "z = b3 - 0x80"
    have xyz: "x < 64" "y < 64" "z < 64" using 4(4-6) by (auto simp: x_def y_def z_def is_cont_def)
    have c: "c = (b0 - 0xF0) * 262144 + x * 4096 + y * 64 + z"
      using 4 by (simp add: x_def y_def z_def)
    from join_base64_3 [OF xyz c] show ?thesis
      using 4(1-9) by (auto simp: Cons utf8_encode_char_def is_cont_def scalar_value_def
          is_surrogate_def x_def y_def z_def)
  qed
qed

lemma utf8_encode_char_nonempty: "utf8_encode_char c = Inr bs \<Longrightarrow> bs \<noteq> []"
  by (auto simp: utf8_encode_char_def split: if_splits)

lemma utf8_decode_encode: "utf8_encode s = Inr bs \<Longrightarrow> utf8_decode bs = Inr s"
proof (induction s arbitrary: bs)
  case Nil
  then show ?case by (simp add: utf8_decode_def utf8_decode_octets.simps)
next
  case (Cons c s)
  then obtain b bs' where b: "utf8_encode_char c = Inr b" and s: "utf8_encode s = Inr bs'"
    and bs: "bs = b @ bs'"
    by (auto simp: utf8_encode_Cons bind_r_eq_Inr)
  have "utf8_decode_octets (map unat bs') = Inr s"
    using Cons.IH [OF s] by (simp add: utf8_decode_def)
  then show ?case
    using utf8_head_encode_char [OF b, of "map unat bs'"] utf8_encode_char_nonempty [OF b]
    by (simp add: bs utf8_decode_def utf8_decode_octets.simps [of "map unat b @ map unat bs'"])
qed

lemma utf8_encode_decode_octets:
  "utf8_decode_octets bs = Inr s \<Longrightarrow> \<forall>b\<in>set bs. b < 256 \<Longrightarrow> utf8_encode s = Inr (map octet bs)"
proof (induction bs arbitrary: s rule: utf8_decode_octets.induct)
  case (1 bs)
  show ?case
  proof (cases "bs = []")
    case True
    with "1.prems" show ?thesis by (simp add: utf8_decode_octets.simps)
  next
    case False
    with "1.prems"(1) obtain c n cs where h: "utf8_head bs = Some (c, n)"
      and r: "utf8_decode_octets (drop n bs) = Inr cs" and s: "s = c # cs"
      by (subst (asm) utf8_decode_octets.simps) (auto simp: bind_r_eq_Inr split: option.splits)
    have "utf8_encode cs = Inr (map octet (drop n bs))"
      using "1.IH" [OF False h refl r] "1.prems"(2) by (auto dest: in_set_dropD)
    moreover have "utf8_encode_char c = Inr (map octet (take n bs))"
      using utf8_encode_char_head [OF h "1.prems"(2)] .
    ultimately show ?thesis
      by (simp add: s utf8_encode_Cons flip: map_append)
  qed
qed

lemma utf8_encode_decode: "utf8_decode bs = Inr s \<Longrightarrow> utf8_encode s = Inr bs"
  using utf8_encode_decode_octets [of "map unat bs" s] by (simp add: utf8_decode_def o_def)

section \<open>Properties\<close>

text \<open>
  Texts and their octets are in bijection: decoding yields a text exactly when encoding that
  text yields those octets, so no overlong, truncated or surrogate sequence is ever decoded; and
  the texts that can be encoded are those without surrogates, up to U+10FFFF.
\<close>

theorem utf8_bijection:
  "(utf8_decode bs = Inr s \<longleftrightarrow> utf8_encode s = Inr bs) \<and>
   ((\<exists>bs'. utf8_encode s = Inr bs') \<longleftrightarrow> list_all (\<lambda>c. c \<le> 0x10FFFF \<and> \<not> (0xD800 \<le> c \<and> c \<le> 0xDFFF)) s)"
proof
  show "utf8_decode bs = Inr s \<longleftrightarrow> utf8_encode s = Inr bs"
    using utf8_decode_encode utf8_encode_decode by blast
  show "(\<exists>bs'. utf8_encode s = Inr bs') \<longleftrightarrow> list_all (\<lambda>c. c \<le> 0x10FFFF \<and> \<not> (0xD800 \<le> c \<and> c \<le> 0xDFFF)) s"
    unfolding utf8_encode_Inr_iff encodable_def list_all_iff scalar_value_def is_surrogate_def by fastforce
qed

end
