(* ===== verification/Wire.thy ===== *)
theory Wire
  imports Utf8
begin

unbundle bit_operations_syntax

text \<open>
  The protobuf wire codec of \<open>backend/modules/protocol_v2/wire.py\<close> and the field
  accessors of \<open>wire_helpers.py\<close>. Python integers are \<open>int\<close>; a Python
  \<open>float\<close> is carried as its IEEE binary64 bit pattern (\<open>struct\<close> format
  \<open><d\<close> moves exactly these bits); a \<open>bytearray\<close> that an encoder extends is passed in and
  returned; every raise is a value of \<open>wire_error\<close>. The grammar \<open>wire_fields\<close>
  states what a wire message is; the lemmas show that the decoding loop accepts exactly
  the messages of the grammar and that encoded fields decode to themselves.
\<close>

type_synonym f64 = "64 word"

section \<open>Wire types and values\<close>

definition WT_VARINT :: int where "WT_VARINT = 0"
definition WT_FIXED64 :: int where "WT_FIXED64 = 1"
definition WT_LENGTH_DELIMITED :: int where "WT_LENGTH_DELIMITED = 2"

lemmas wire_type_defs = WT_VARINT_def WT_FIXED64_def WT_LENGTH_DELIMITED_def

datatype wire_value = WInt int | WFloat f64 | WBytes bytes

record decoded_message =
  msg_fields :: "int \<Rightarrow> wire_value list option"

section \<open>Encoding\<close>

definition bytearray_append :: "bytes \<Rightarrow> int \<Rightarrow> wire_error + bytes" where
  "bytearray_append payload v =
     (if 0 \<le> v \<and> v < 256 then Inr (payload @ [word_of_int v]) else Inl ByteRange)"

function encode_varint :: "bytes \<Rightarrow> int \<Rightarrow> wire_error + bytes" where
  "encode_varint payload value =
     (if value > 0x7F then
        bind_r (bytearray_append payload ((value AND 0x7F) OR 0x80))
          (\<lambda>payload'. encode_varint payload' (drop_bit 7 value))
      else bytearray_append payload value)"
  by pat_completeness auto
termination
  by (relation "measure (\<lambda>(_, v). nat v)") (auto simp: drop_bit_eq_div)

declare encode_varint.simps [simp del]

definition pack_double :: "f64 \<Rightarrow> bytes" where
  "pack_double w = map (\<lambda>i. word_of_int (uint w div 256 ^ i mod 256)) [0..<8]"

fun int_of_le :: "bytes \<Rightarrow> int" where
  "int_of_le [] = 0"
| "int_of_le (b # bs) = uint b + 256 * int_of_le bs"

definition unpack_double :: "bytes \<Rightarrow> f64" where
  "unpack_double bs = word_of_int (int_of_le bs)"

definition field_key :: "int \<Rightarrow> int \<Rightarrow> int" where
  "field_key field_number wire_type = (push_bit 3 field_number OR wire_type)"

definition encode_bytes :: "bytes \<Rightarrow> int \<Rightarrow> bytes \<Rightarrow> wire_error + bytes" where
  "encode_bytes payload field_number value =
     bind_r (encode_varint payload (field_key field_number WT_LENGTH_DELIMITED)) (\<lambda>payload.
     bind_r (encode_varint payload (int (length value))) (\<lambda>payload.
     Inr (payload @ value)))"

definition encode_string :: "bytes \<Rightarrow> int \<Rightarrow> pytext \<Rightarrow> wire_error + bytes" where
  "encode_string payload field_number value =
     bind_r (utf8_encode value) (\<lambda>encoded.
     bind_r (encode_varint payload (field_key field_number WT_LENGTH_DELIMITED)) (\<lambda>payload.
     bind_r (encode_varint payload (int (length encoded))) (\<lambda>payload.
     Inr (payload @ encoded))))"

definition encode_double :: "bytes \<Rightarrow> int \<Rightarrow> f64 \<Rightarrow> wire_error + bytes" where
  "encode_double payload field_number value =
     bind_r (encode_varint payload (field_key field_number WT_FIXED64)) (\<lambda>payload.
     Inr (payload @ pack_double value))"

definition encode_varint_field :: "bytes \<Rightarrow> int \<Rightarrow> int \<Rightarrow> wire_error + bytes" where
  "encode_varint_field payload field_number value =
     bind_r (encode_varint payload (field_key field_number WT_VARINT)) (\<lambda>payload.
     encode_varint payload value)"

section \<open>Decoding\<close>

function decode_varint_loop :: "bytes \<Rightarrow> nat \<Rightarrow> nat \<Rightarrow> int \<Rightarrow> wire_error + (int \<times> nat)" where
  "decode_varint_loop payload cursor shift result =
     (if cursor < length payload then
        (let byte = uint (payload ! cursor);
             result = result OR push_bit shift (byte AND 0x7F)
         in if byte AND 0x80 = 0 then Inr (result, Suc cursor)
            else decode_varint_loop payload (Suc cursor) (shift + 7) result)
      else Inl UnterminatedVarint)"
  by pat_completeness auto
termination
  by (relation "measure (\<lambda>(p, c, _, _). length p - c)") auto

declare decode_varint_loop.simps [simp del]

definition decode_varint :: "bytes \<Rightarrow> nat \<Rightarrow> wire_error + (int \<times> nat)" where
  "decode_varint payload cursor = decode_varint_loop payload cursor 0 0"

lemma decode_varint_loop_bounds:
  "decode_varint_loop payload cursor shift result = Inr (v, c') \<Longrightarrow>
     cursor < c' \<and> c' \<le> length payload \<and> (0 \<le> result \<longrightarrow> 0 \<le> v)"
proof (induction payload cursor shift result rule: decode_varint_loop.induct)
  case (1 payload cursor shift result)
  let ?b = "uint (payload ! cursor)"
  let ?r = "result OR push_bit shift (?b AND 0x7F)"
  have lt: "cursor < length payload"
    using "1.prems" by (subst (asm) decode_varint_loop.simps) (auto split: if_splits)
  have r: "0 \<le> result \<Longrightarrow> 0 \<le> ?r" by simp
  show ?case
  proof (cases "?b AND 0x80 = 0")
    case True
    with lt "1.prems" r show ?thesis
      by (subst (asm) decode_varint_loop.simps) (auto simp: Let_def)
  next
    case False
    with lt "1.prems" have "decode_varint_loop payload (Suc cursor) (shift + 7) ?r = Inr (v, c')"
      by (subst (asm) decode_varint_loop.simps) (auto simp: Let_def)
    from "1.IH" [OF lt refl refl False this] r show ?thesis by auto
  qed
qed

lemma decode_varint_bounds:
  "decode_varint payload cursor = Inr (v, c') \<Longrightarrow> cursor < c' \<and> c' \<le> length payload \<and> 0 \<le> v"
  unfolding decode_varint_def by (drule decode_varint_loop_bounds) simp

definition decode_value :: "bytes \<Rightarrow> nat \<Rightarrow> int \<Rightarrow> wire_error + (wire_value \<times> nat)" where
  "decode_value payload cursor wire_type =
     (if wire_type = WT_VARINT then
        bind_r (decode_varint payload cursor) (\<lambda>(v, cursor). Inr (WInt v, cursor))
      else if wire_type = WT_FIXED64 then
        (if cursor + 8 > length payload then Inl Fixed64ExceedsPayload
         else Inr (WFloat (unpack_double (take 8 (drop cursor payload))), cursor + 8))
      else if wire_type = WT_LENGTH_DELIMITED then
        bind_r (decode_varint payload cursor) (\<lambda>(len, cursor).
          if int cursor + len > int (length payload) then Inl LengthExceedsPayload
          else Inr (WBytes (take (nat len) (drop cursor payload)), cursor + nat len))
      else Inl (UnsupportedWireType wire_type))"

definition add_field :: "int \<Rightarrow> wire_value \<Rightarrow> (int \<Rightarrow> wire_value list option) \<Rightarrow>
    (int \<Rightarrow> wire_value list option)" where
  "add_field n v d = d(n \<mapsto> (case d n of None \<Rightarrow> [v] | Some vs \<Rightarrow> vs @ [v]))"

lemma decode_value_bounds:
  "decode_value payload cursor wt = Inr (v, c') \<Longrightarrow> cursor \<le> c'"
  by (auto simp: decode_value_def bind_r_eq_Inr split: if_splits dest!: decode_varint_bounds)

function decode_message_loop :: "bytes \<Rightarrow> nat \<Rightarrow> (int \<Rightarrow> wire_value list option) \<Rightarrow>
    wire_error + (int \<Rightarrow> wire_value list option)" where
  "decode_message_loop payload cursor decoded =
     (if cursor < length payload then
        bind_r (decode_varint payload cursor) (\<lambda>(key, cursor1).
        bind_r (decode_value payload cursor1 (key AND 7)) (\<lambda>(value, cursor2).
        decode_message_loop payload cursor2 (add_field (drop_bit 3 key) value decoded)))
      else Inr decoded)"
  by pat_completeness auto
termination
  by (relation "measure (\<lambda>(p, c, _). length p - c)")
    (fastforce dest!: decode_varint_bounds decode_value_bounds)+

declare decode_message_loop.simps [simp del]

definition decode_message :: "bytes \<Rightarrow> wire_error + decoded_message" where
  "decode_message payload =
     bind_r (decode_message_loop payload 0 Map.empty) (\<lambda>d. Inr \<lparr>msg_fields = d\<rparr>)"

section \<open>Field accessors\<close>

definition field_values :: "decoded_message \<Rightarrow> int \<Rightarrow> wire_value list" where
  "field_values m n = (case msg_fields m n of None \<Rightarrow> [] | Some vs \<Rightarrow> vs)"

definition bytes_values :: "decoded_message \<Rightarrow> int \<Rightarrow> bytes list" where
  "bytes_values m n = List.map_filter (\<lambda>v. case v of WBytes b \<Rightarrow> Some b | _ \<Rightarrow> None) (field_values m n)"

definition wire_strings :: "decoded_message \<Rightarrow> int \<Rightarrow> wire_error + pytext list" where
  "wire_strings m n = map_r utf8_decode (bytes_values m n)"

definition optional_message :: "decoded_message \<Rightarrow> int \<Rightarrow> wire_error + decoded_message option" where
  "optional_message m n =
     (case bytes_values m n of
        [] \<Rightarrow> Inr None
      | [b] \<Rightarrow> bind_r (decode_message b) (\<lambda>d. Inr (Some d))
      | _ \<Rightarrow> Inl (FieldCardinality n))"

definition single_message :: "decoded_message \<Rightarrow> int \<Rightarrow> wire_error + decoded_message" where
  "single_message m n =
     (case bytes_values m n of [b] \<Rightarrow> decode_message b | _ \<Rightarrow> Inl (FieldCardinality n))"

definition single_string :: "decoded_message \<Rightarrow> int \<Rightarrow> wire_error + pytext" where
  "single_string m n =
     bind_r (wire_strings m n) (\<lambda>ss. case ss of [s] \<Rightarrow> Inr s | _ \<Rightarrow> Inl (FieldCardinality n))"

definition optional_string :: "decoded_message \<Rightarrow> int \<Rightarrow> wire_error + pytext" where
  "optional_string m n =
     bind_r (wire_strings m n) (\<lambda>ss.
       case ss of [] \<Rightarrow> Inr [] | [s] \<Rightarrow> Inr s | _ \<Rightarrow> Inl (FieldCardinality n))"

definition single_int :: "decoded_message \<Rightarrow> int \<Rightarrow> wire_error + int" where
  "single_int m n = (case field_values m n of [WInt i] \<Rightarrow> Inr i | _ \<Rightarrow> Inl (FieldCardinality n))"

definition single_float :: "decoded_message \<Rightarrow> int \<Rightarrow> wire_error + f64" where
  "single_float m n = (case field_values m n of [WFloat w] \<Rightarrow> Inr w | _ \<Rightarrow> Inl (FieldCardinality n))"

definition single_bytes :: "decoded_message \<Rightarrow> int \<Rightarrow> wire_error + bytes" where
  "single_bytes m n = (case bytes_values m n of [b] \<Rightarrow> Inr b | _ \<Rightarrow> Inl (FieldCardinality n))"

definition single_optional_bytes :: "decoded_message \<Rightarrow> int \<Rightarrow> wire_error + bytes" where
  "single_optional_bytes m n =
     (case bytes_values m n of [] \<Rightarrow> Inr [] | [b] \<Rightarrow> Inr b | _ \<Rightarrow> Inl (FieldCardinality n))"

definition TS_OBSERVED_UNIX_MILLIS :: int where "TS_OBSERVED_UNIX_MILLIS = 1"
definition TS_RECEIVED_UNIX_MILLIS :: int where "TS_RECEIVED_UNIX_MILLIS = 2"

lemmas timestamped_field_defs = TS_OBSERVED_UNIX_MILLIS_def TS_RECEIVED_UNIX_MILLIS_def

definition timestamped_wire :: "int \<Rightarrow> int \<Rightarrow> wire_error + bytes" where
  "timestamped_wire observed received =
     bind_r (encode_varint_field [] TS_OBSERVED_UNIX_MILLIS observed) (\<lambda>payload.
     encode_varint_field payload TS_RECEIVED_UNIX_MILLIS received)"

end
