(* ===== verification/Wire_Correct.thy ===== *)
theory Wire_Correct
  imports Wire
begin

unbundle bit_operations_syntax

text \<open>
  What a wire message is (the grammar \<open>wire_fields\<close>), and that the codec of
  \<open>Wire\<close> implements it: the decoding loop accepts exactly the octets the grammar
  derives and returns the fields of the derivation; encoded fields are derivable, so
  encoding then decoding returns the fields.
\<close>

named_theorems wire_emit \<open>encoders as appended field octets\<close>

section \<open>The grammar\<close>

text \<open>A varint is its base-128 digits, least significant first, all but the last marked.\<close>

inductive varint_rel :: "bytes \<Rightarrow> int \<Rightarrow> bool" where
  varint_last: "uint b < 128 \<Longrightarrow> varint_rel [b] (uint b)"
| varint_more: "128 \<le> uint b \<Longrightarrow> varint_rel bs v \<Longrightarrow> varint_rel (b # bs) (uint b - 128 + 128 * v)"

inductive value_rel :: "int \<Rightarrow> bytes \<Rightarrow> wire_value \<Rightarrow> bool" where
  value_varint: "varint_rel bs v \<Longrightarrow> value_rel WT_VARINT bs (WInt v)"
| value_fixed64: "length bs = 8 \<Longrightarrow> value_rel WT_FIXED64 bs (WFloat (unpack_double bs))"
| value_bytes: "varint_rel ls (int (length bs)) \<Longrightarrow> value_rel WT_LENGTH_DELIMITED (ls @ bs) (WBytes bs)"

inductive wire_fields :: "bytes \<Rightarrow> (int \<times> wire_value) list \<Rightarrow> bool" where
  fields_empty: "wire_fields [] []"
| fields_more: "varint_rel ks key \<Longrightarrow> value_rel (key mod 8) bs v \<Longrightarrow> wire_fields rest fs \<Longrightarrow>
     wire_fields (ks @ bs @ rest) ((key div 8, v) # fs)"

inductive_simps value_rel_simps: "value_rel wt bs v"
inductive_cases wire_fields_NilE: "wire_fields [] fs"

definition collect_fields :: "(int \<times> wire_value) list \<Rightarrow> (int \<Rightarrow> wire_value list option) \<Rightarrow>
    (int \<Rightarrow> wire_value list option)" where
  "collect_fields fs d = fold (\<lambda>(n, v). add_field n v) fs d"

function varint_bytes :: "int \<Rightarrow> bytes" where
  "varint_bytes v =
     (if v > 0x7F then word_of_int (v mod 128 + 128) # varint_bytes (v div 128) else [word_of_int v])"
  by pat_completeness auto
termination
  by (relation "measure nat") auto

declare varint_bytes.simps [simp del]

fun emit :: "int \<times> wire_value \<Rightarrow> bytes" where
  "emit (n, WInt i) = varint_bytes (8 * n + WT_VARINT) @ varint_bytes i"
| "emit (n, WFloat w) = varint_bytes (8 * n + WT_FIXED64) @ pack_double w"
| "emit (n, WBytes b) = varint_bytes (8 * n + WT_LENGTH_DELIMITED) @ varint_bytes (int (length b)) @ b"

fun wf_field :: "int \<times> wire_value \<Rightarrow> bool" where
  "wf_field (n, WInt i) = (0 \<le> n \<and> 0 \<le> i)"
| "wf_field (n, _) = (0 \<le> n)"

definition message_of :: "(int \<times> wire_value) list \<Rightarrow> decoded_message" where
  "message_of fs = \<lparr>msg_fields = collect_fields fs Map.empty\<rparr>"

definition wire_message :: "(int \<times> wire_value) list \<Rightarrow> bytes" where
  "wire_message fs = concat (map emit fs)"

section \<open>Bits of an octet\<close>

lemma and_7F: "(x :: int) AND 0x7F = x mod 128"
  using take_bit_eq_mask [of 7 x] by (simp add: take_bit_eq_mod mask_eq_exp_minus_1)

lemma and_7: "(x :: int) AND 7 = x mod 8"
  using take_bit_eq_mask [of 3 x] by (simp add: take_bit_eq_mod mask_eq_exp_minus_1)

lemma or_push_bit_disjoint:
  assumes "0 \<le> (x :: int)" "x < 2 ^ n"
  shows "x OR push_bit n v = x + 2 ^ n * v"
proof -
  have "take_bit n x = x" using assms by (simp add: take_bit_int_eq_self)
  then have "bit x m \<Longrightarrow> m < n" for m by (metis bit_take_bit_iff)
  then have "x AND push_bit n v = 0"
    by (force intro!: bit_eqI simp: bit_and_iff bit_push_bit_iff_int)
  then have "x + push_bit n v = x OR push_bit n v"
    by (rule disjunctive_add_eq_or)
  then show ?thesis by (simp add: push_bit_eq_mult mult.commute)
qed

lemma or_80: "(x mod 128 :: int) OR 0x80 = x mod 128 + 128"
  using or_push_bit_disjoint [of "x mod 128" 7 1] by simp

lemma and_80_iff:
  assumes "0 \<le> (x :: int)" "x < 256"
  shows "x AND 0x80 = 0 \<longleftrightarrow> x < 128"
proof -
  have "bit x 7 \<longleftrightarrow> \<not> x < 128"
  proof (cases "x < 128")
    case True
    then have "x div 128 = 0" using assms by simp
    then show ?thesis using True by (simp add: bit_iff_odd)
  next
    case False
    then have "x div 128 = 1" using assms by simp
    then show ?thesis using False by (simp add: bit_iff_odd)
  qed
  then show ?thesis using and_exp_eq_0_iff_not_bit [of x 7] by simp
qed

lemma uint_byte_less [simp]: "uint (b :: byte) < 256"
  using unsigned_less [of b] by simp

lemma uint_word_of_int_byte [simp]: "0 \<le> x \<Longrightarrow> x < 256 \<Longrightarrow> uint (word_of_int x :: byte) = x"
  by (simp add: uint_word_of_int take_bit_int_eq_self)

section \<open>Varints\<close>

lemma encode_varint_emit [wire_emit]:
  "0 \<le> v \<Longrightarrow> encode_varint payload v = Inr (payload @ varint_bytes v)"
proof (induction payload v rule: encode_varint.induct)
  case (1 payload v)
  show ?case
  proof (cases "v > 0x7F")
    case True
    have app: "bytearray_append payload ((v AND 0x7F) OR 0x80)
        = Inr (payload @ [word_of_int (v mod 128 + 128)])"
      using pos_mod_bound [of 128 v] pos_mod_sign [of 128 v]
      by (simp add: bytearray_append_def and_7F or_80)
    have "encode_varint (payload @ [word_of_int (v mod 128 + 128)]) (v div 128)
        = Inr (payload @ varint_bytes v)"
      using "1.IH" [OF True app] True
      by (simp add: drop_bit_eq_div varint_bytes.simps [of v])
    with True app show ?thesis
      by (subst encode_varint.simps) (simp add: drop_bit_eq_div)
  next
    case False
    with "1.prems" show ?thesis
      by (subst encode_varint.simps) (simp add: bytearray_append_def varint_bytes.simps)
  qed
qed

lemma encode_varint_negative: "v < 0 \<Longrightarrow> encode_varint payload v = Inl ByteRange"
  by (subst encode_varint.simps) (simp add: bytearray_append_def)

lemma varint_rel_nonneg: "varint_rel bs v \<Longrightarrow> 0 \<le> v"
  by (induction rule: varint_rel.induct) auto

lemma varint_rel_varint_bytes: "0 \<le> v \<Longrightarrow> varint_rel (varint_bytes v) v"
proof (induction v rule: varint_bytes.induct)
  case (1 v)
  show ?case
  proof (cases "v > 0x7F")
    case True
    let ?b = "word_of_int (v mod 128 + 128) :: byte"
    have b: "uint ?b = v mod 128 + 128"
      using pos_mod_bound [of 128 v] pos_mod_sign [of 128 v]
      by (intro uint_word_of_int_byte) simp_all
    have "varint_rel (varint_bytes (v div 128)) (v div 128)" using 1 True by simp
    then have "varint_rel (?b # varint_bytes (v div 128)) (uint ?b - 128 + 128 * (v div 128))"
      using b pos_mod_sign [of 128 v] by (intro varint_more) linarith+
    moreover have "uint ?b - 128 + 128 * (v div 128) = v" unfolding b by simp
    ultimately show ?thesis using True by (simp only: varint_bytes.simps [of v] if_True)
  next
    case False
    with "1.prems" varint_last [of "word_of_int v"] show ?thesis
      by (simp add: varint_bytes.simps)
  qed
qed

lemma drop_Cons_conv:
  "drop c xs = y # ys \<longleftrightarrow> c < length xs \<and> xs ! c = y \<and> drop (Suc c) xs = ys"
  by (metis Cons_nth_drop_Suc drop_eq_Nil list.distinct(1) list.inject not_le)

lemma decode_varint_loop_step:
  assumes "drop cursor payload = b # rest"
  shows "decode_varint_loop payload cursor shift result =
     (if uint b < 128 then Inr (result OR push_bit shift (uint b), Suc cursor)
      else decode_varint_loop payload (Suc cursor) (shift + 7)
             (result OR push_bit shift (uint b - 128)))"
proof -
  have "uint b mod 128 = (if uint b < 128 then uint b else uint b - 128)"
    using uint_byte_less [of b] mod_pos_pos_trivial [of "uint b - 128" 128] by simp
  with assms show ?thesis
    by (subst decode_varint_loop.simps) (simp add: drop_Cons_conv Let_def and_80_iff and_7F)
qed

lemma or_push_bit_more:
  assumes "0 \<le> x" "x < 128"
  shows "(r OR push_bit s x) OR push_bit (s + 7) v = r OR push_bit s (x + 128 * v :: int)"
proof -
  have "x + 128 * v = x OR push_bit 7 v" using or_push_bit_disjoint [of x 7 v] assms by simp
  then show ?thesis by (simp add: or.assoc add.commute)
qed

lemma decode_varint_loop_complete:
  "varint_rel bs v \<Longrightarrow> drop cursor payload = bs @ post \<Longrightarrow>
     decode_varint_loop payload cursor shift result
       = Inr (result OR push_bit shift v, cursor + length bs)"
proof (induction arbitrary: cursor shift result rule: varint_rel.induct)
  case (varint_last b)
  then show ?case by (simp add: decode_varint_loop_step)
next
  case (varint_more b bs v)
  then have d: "drop cursor payload = b # (bs @ post)" by simp
  then have "drop (Suc cursor) payload = bs @ post" by (simp add: drop_Cons_conv)
  from varint_more.IH [OF this, of "shift + 7" "result OR push_bit shift (uint b - 128)"]
  show ?case
    using or_push_bit_more [of "uint b - 128" result shift v] varint_more.hyps(1)
    by (simp add: decode_varint_loop_step [OF d])
qed

lemma decode_varint_loop_sound:
  "decode_varint_loop payload cursor shift result = Inr (v', c') \<Longrightarrow>
     \<exists>bs post v. drop cursor payload = bs @ post \<and> varint_rel bs v \<and>
       v' = result OR push_bit shift v \<and> c' = cursor + length bs"
proof (induction payload cursor shift result rule: decode_varint_loop.induct)
  case (1 payload cursor shift result)
  show ?case
  proof (cases "drop cursor payload")
    case Nil
    with "1.prems" show ?thesis by (subst (asm) decode_varint_loop.simps) simp
  next
    case (Cons b rest)
    note step = decode_varint_loop_step [OF Cons, of shift result]
    show ?thesis
    proof (cases "uint b < 128")
      case True
      with "1.prems" step have "v' = result OR push_bit shift (uint b)" "c' = cursor + length [b]"
        by simp_all
      moreover have "drop cursor payload = [b] @ rest" using Cons by simp
      ultimately show ?thesis using varint_last [OF True] by blast
    next
      case False
      let ?r = "result OR push_bit shift (uint b - 128)"
      have lt: "cursor < length payload" and nth: "payload ! cursor = b"
        using Cons by (simp_all add: drop_Cons_conv)
      have "uint b mod 128 = uint b - 128"
        using False uint_byte_less [of b] mod_pos_pos_trivial [of "uint b - 128" 128] by simp
      then have r: "result OR push_bit shift (uint (payload ! cursor) AND 0x7F) = ?r"
        by (simp add: nth and_7F)
      have nz: "uint (payload ! cursor) AND 0x80 \<noteq> 0"
        using False by (simp add: nth and_80_iff)
      have "decode_varint_loop payload (Suc cursor) (shift + 7) ?r = Inr (v', c')"
        using "1.prems" step False by simp
      then obtain bs post v where *: "drop (Suc cursor) payload = bs @ post"
        "varint_rel bs v" "v' = ?r OR push_bit (shift + 7) v" "c' = Suc cursor + length bs"
        using "1.IH" [OF lt refl refl nz] r by auto
      then have "drop cursor payload = (b # bs) @ post" "c' = cursor + length (b # bs)"
        using Cons by (simp_all add: drop_Cons_conv)
      moreover have "varint_rel (b # bs) (uint b - 128 + 128 * v)"
        using False *(2) by (simp add: varint_more)
      moreover have "v' = result OR push_bit shift (uint b - 128 + 128 * v)"
        using or_push_bit_more [of "uint b - 128" result shift v] False *(3) by simp
      ultimately show ?thesis by blast
    qed
  qed
qed

lemma decode_varint_iff:
  "decode_varint payload cursor = Inr (v, c') \<longleftrightarrow>
     (\<exists>bs post. drop cursor payload = bs @ post \<and> varint_rel bs v \<and> c' = cursor + length bs)"
proof
  assume "decode_varint payload cursor = Inr (v, c')"
  then show "\<exists>bs post. drop cursor payload = bs @ post \<and> varint_rel bs v \<and> c' = cursor + length bs"
    using decode_varint_loop_sound [of payload cursor 0 0 v c'] by (simp add: decode_varint_def)
next
  assume "\<exists>bs post. drop cursor payload = bs @ post \<and> varint_rel bs v \<and> c' = cursor + length bs"
  then show "decode_varint payload cursor = Inr (v, c')"
    using decode_varint_loop_complete [of _ v cursor payload _ 0 0] by (auto simp: decode_varint_def)
qed


section \<open>Values and messages\<close>

lemma varint_rel_nonempty: "varint_rel bs v \<Longrightarrow> bs \<noteq> []"
  by (induction rule: varint_rel.induct) auto

lemma length_delimited_iff:
  assumes "0 \<le> len" and that: "c \<le> length p"
  shows "int c + len \<le> int (length p) \<longleftrightarrow> (\<exists>bs post. drop c p = bs @ post \<and> int (length bs) = len)"
proof
  assume "int c + len \<le> int (length p)"
  then have "int (length (take (nat len) (drop c p))) = len" using assms that by simp
  then show "\<exists>bs post. drop c p = bs @ post \<and> int (length bs) = len"
    by (metis append_take_drop_id)
next
  assume "\<exists>bs post. drop c p = bs @ post \<and> int (length bs) = len"
  then obtain bs post where "drop c p = bs @ post" "int (length bs) = len" by blast
  then have "length p - c = length bs + length post" by (metis length_append length_drop)
  then show "int c + len \<le> int (length p)" using \<open>int (length bs) = len\<close> that by linarith
qed

lemma decode_value_iff:
  assumes "c \<le> length p"
  shows "decode_value p c wt = Inr (v, c') \<longleftrightarrow>
     (\<exists>bs post. drop c p = bs @ post \<and> value_rel wt bs v \<and> c' = c + length bs)"
    (is "?L \<longleftrightarrow> ?R")
proof -
  consider "wt = WT_VARINT" | "wt = WT_FIXED64" | "wt = WT_LENGTH_DELIMITED"
    | "wt \<noteq> WT_VARINT" "wt \<noteq> WT_FIXED64" "wt \<noteq> WT_LENGTH_DELIMITED" by blast
  then show ?thesis
  proof cases
    case 1
    then show ?thesis
      by (auto simp: decode_value_def value_rel_simps wire_type_defs bind_r_eq_Inr decode_varint_iff)
  next
    case 2
    have "?L \<longleftrightarrow> c + 8 \<le> length p \<and> v = WFloat (unpack_double (take 8 (drop c p))) \<and> c' = c + 8"
      using 2 by (auto simp: decode_value_def wire_type_defs)
    also have "\<dots> \<longleftrightarrow> (\<exists>bs post. drop c p = bs @ post \<and> length bs = 8 \<and>
        v = WFloat (unpack_double bs) \<and> c' = c + length bs)"
    proof
      assume "c + 8 \<le> length p \<and> v = WFloat (unpack_double (take 8 (drop c p))) \<and> c' = c + 8"
      then show "\<exists>bs post. drop c p = bs @ post \<and> length bs = 8 \<and>
          v = WFloat (unpack_double bs) \<and> c' = c + length bs"
        using append_take_drop_id [of 8 "drop c p", symmetric] by fastforce
    next
      assume "\<exists>bs post. drop c p = bs @ post \<and> length bs = 8 \<and>
          v = WFloat (unpack_double bs) \<and> c' = c + length bs"
      then obtain bs post where *: "drop c p = bs @ post" "length bs = 8"
        "v = WFloat (unpack_double bs)" "c' = c + length bs" by blast
      then have "length p - c = length bs + length post" by (metis length_append length_drop)
      with * show "c + 8 \<le> length p \<and> v = WFloat (unpack_double (take 8 (drop c p))) \<and> c' = c + 8"
        by simp
    qed
    finally show ?thesis using 2 by (auto simp: value_rel_simps wire_type_defs)
  next
    case 3
    show ?thesis
    proof
      assume ?L
      then obtain len c1 where d: "decode_varint p c = Inr (len, c1)"
        and le: "int c1 + len \<le> int (length p)"
        and v: "v = WBytes (take (nat len) (drop c1 p))" and c': "c' = c1 + nat len"
        using 3 by (auto simp: decode_value_def wire_type_defs bind_r_eq_Inr split: if_splits)
      from d obtain ls post where ls: "drop c p = ls @ post" "varint_rel ls len" "c1 = c + length ls"
        by (auto simp: decode_varint_iff)
      let ?b = "take (nat len) (drop c1 p)"
      have post: "drop c1 p = post" using ls by (metis add.commute append_eq_conv_conj drop_drop)
      have len: "int (length ?b) = len"
        using le decode_varint_bounds [OF d] by simp
      have "drop c p = (ls @ ?b) @ drop (nat len) post" using ls(1) post by simp
      moreover have "value_rel wt (ls @ ?b) v"
        using value_bytes [of ls ?b] ls(2) len v 3 by simp
      moreover have "c' = c + length (ls @ ?b)" using c' ls(3) len by auto
      ultimately show ?R by blast
    next
      assume ?R
      then obtain ls b post where *: "drop c p = ls @ b @ post" "varint_rel ls (int (length b))"
        "v = WBytes b" "c' = c + length ls + length b"
        using 3 by (auto simp: value_rel_simps wire_type_defs)
      have d: "decode_varint p c = Inr (int (length b), c + length ls)"
        using *(1,2) by (auto simp: decode_varint_iff)
      have post: "drop (c + length ls) p = b @ post"
        using *(1) by (metis add.commute append_eq_conv_conj drop_drop)
      have "int (c + length ls) + int (length b) \<le> int (length p)"
        using length_delimited_iff [of "int (length b)" "c + length ls" p] post
          decode_varint_bounds [OF d] by auto
      then show ?L using 3 * d post
        by (simp add: decode_value_def wire_type_defs)
    qed
  next
    case 4
    then show ?thesis by (auto simp: decode_value_def value_rel_simps)
  qed
qed

lemma decode_message_loop_complete:
  "wire_fields bs fs \<Longrightarrow> drop c p = bs \<Longrightarrow> c \<le> length p \<Longrightarrow>
     decode_message_loop p c d = Inr (collect_fields fs d)"
proof (induction arbitrary: c d rule: wire_fields.induct)
  case fields_empty
  then show ?case by (subst decode_message_loop.simps) (simp add: collect_fields_def)
next
  case (fields_more ks key bs v rest fs)
  have k: "decode_varint p c = Inr (key, c + length ks)"
    using fields_more by (auto simp: decode_varint_iff)
  have d1: "drop (c + length ks) p = bs @ rest"
    using fields_more.prems by (metis add.commute append_eq_conv_conj drop_drop)
  have l1: "c + length ks \<le> length p" using decode_varint_bounds [OF k] by simp
  have v: "decode_value p (c + length ks) (key mod 8) = Inr (v, c + length ks + length bs)"
    using decode_value_iff [OF l1] d1 fields_more.hyps(2) by blast
  have d2: "drop (c + length ks + length bs) p = rest"
    using d1 by (metis add.commute append_eq_conv_conj drop_drop)
  have "length p - (c + length ks) = length bs + length rest"
    using d1 by (metis length_append length_drop)
  then have l2: "c + length ks + length bs \<le> length p" using l1 by linarith
  have "c < length p"
    using decode_varint_bounds [OF k] by linarith
  then show ?case
    using fields_more.IH [OF d2 l2] k v
    by (subst decode_message_loop.simps) (simp add: and_7 drop_bit_eq_div collect_fields_def)
qed

lemma decode_message_loop_sound:
  "decode_message_loop p c d = Inr d' \<Longrightarrow> c \<le> length p \<Longrightarrow>
     \<exists>fs. wire_fields (drop c p) fs \<and> d' = collect_fields fs d"
proof (induction p c d rule: decode_message_loop.induct)
  case (1 p c d)
  show ?case
  proof (cases "c < length p")
    case False
    with "1.prems" have "d' = d" by (subst (asm) decode_message_loop.simps) simp
    with False show ?thesis
      by (intro exI [of _ "[]"]) (simp add: collect_fields_def fields_empty)
  next
    case True
    with "1.prems"(1) obtain key c1 v c2 where k: "decode_varint p c = Inr (key, c1)"
      and v: "decode_value p c1 (key mod 8) = Inr (v, c2)"
      and r: "decode_message_loop p c2 (add_field (key div 8) v d) = Inr d'"
      by (subst (asm) decode_message_loop.simps)
        (auto simp: bind_r_eq_Inr and_7 drop_bit_eq_div)
    from k obtain ks post where ks: "drop c p = ks @ post" "varint_rel ks key" "c1 = c + length ks"
      by (auto simp: decode_varint_iff)
    have l1: "c1 \<le> length p" using decode_varint_bounds [OF k] by simp
    from v obtain bs post' where bs: "drop c1 p = bs @ post'" "value_rel (key mod 8) bs v"
      "c2 = c1 + length bs" using decode_value_iff [OF l1] by blast
    have "drop c1 p = post" using ks by (metis add.commute append_eq_conv_conj drop_drop)
    have d2: "drop c2 p = post'" using bs by (metis add.commute append_eq_conv_conj drop_drop)
    have "length p - c1 = length bs + length post'" using bs(1) by (metis length_append length_drop)
    then have "c2 \<le> length p" using bs(3) l1 by linarith
    with "1.IH" [OF True k refl _ refl _] v r obtain fs where
      fs: "wire_fields (drop c2 p) fs" "d' = collect_fields fs (add_field (key div 8) v d)"
      by (auto simp: and_7 drop_bit_eq_div)
    have "wire_fields (ks @ bs @ drop c2 p) ((key div 8, v) # fs)"
      by (rule fields_more [OF ks(2) bs(2) fs(1)])
    moreover have "ks @ bs @ drop c2 p = drop c p"
      using ks(1) bs(1) d2 \<open>drop c1 p = post\<close> by simp
    ultimately show ?thesis using fs(2) by (auto simp: collect_fields_def)
  qed
qed

lemma decode_message_iff:
  "decode_message p = Inr m \<longleftrightarrow> (\<exists>fs. wire_fields p fs \<and> m = message_of fs)"
proof
  assume "decode_message p = Inr m"
  then obtain d where d: "decode_message_loop p 0 Map.empty = Inr d" and m: "m = \<lparr>msg_fields = d\<rparr>"
    by (auto simp: decode_message_def bind_r_eq_Inr)
  from decode_message_loop_sound [OF d] m show "\<exists>fs. wire_fields p fs \<and> m = message_of fs"
    by (auto simp: message_of_def)
next
  assume "\<exists>fs. wire_fields p fs \<and> m = message_of fs"
  then show "decode_message p = Inr m"
    using decode_message_loop_complete [of p _ 0 p Map.empty]
    by (auto simp: decode_message_def message_of_def)
qed


section \<open>Doubles\<close>

lemma int_of_le_digits:
  "int_of_le (map (\<lambda>i. word_of_int (u div 256 ^ i mod 256)) [0..<n]) = u mod 256 ^ n"
proof (induction n arbitrary: u)
  case (Suc n)
  have "[0..<Suc n] = 0 # map Suc [0..<n]" by (simp add: upt_conv_Cons map_Suc_upt)
  then have "int_of_le (map (\<lambda>i. word_of_int (u div 256 ^ i mod 256)) [0..<Suc n])
      = u mod 256 + 256 * int_of_le (map (\<lambda>i. word_of_int (u div 256 div 256 ^ i mod 256)) [0..<n])"
    by (simp add: o_def zdiv_zmult2_eq uint_word_of_int take_bit_eq_mod)
  also have "\<dots> = u mod 256 + 256 * (u div 256 mod 256 ^ n)" by (simp only: Suc.IH)
  also have "\<dots> = u mod 256 ^ Suc n" by (simp add: zmod_zmult2_eq add.commute)
  finally show ?case .
qed simp

lemma unpack_pack_double [simp]: "unpack_double (pack_double w) = w"
proof -
  have "uint w < 256 ^ 8" using unsigned_less [of w] by simp
  then have "int_of_le (pack_double w) = uint w"
    unfolding pack_double_def int_of_le_digits by simp
  then show ?thesis by (simp add: unpack_double_def)
qed

lemma length_pack_double [simp]: "length (pack_double w) = 8"
  by (simp add: pack_double_def)

section \<open>Encoders as emitted fields\<close>

lemma field_key_eq: "0 \<le> n \<Longrightarrow> 0 \<le> wt \<Longrightarrow> wt < 8 \<Longrightarrow> field_key n wt = 8 * n + wt"
  using or_push_bit_disjoint [of wt 3 n] by (simp add: field_key_def or.commute)

lemma encode_bytes_emit [wire_emit]:
  "0 \<le> n \<Longrightarrow> encode_bytes payload n b = Inr (payload @ emit (n, WBytes b))"
  by (simp add: encode_bytes_def field_key_eq wire_type_defs encode_varint_emit)

lemma encode_double_emit [wire_emit]:
  "0 \<le> n \<Longrightarrow> encode_double payload n w = Inr (payload @ emit (n, WFloat w))"
  by (simp add: encode_double_def field_key_eq wire_type_defs encode_varint_emit)

lemma encode_varint_field_emit [wire_emit]:
  "0 \<le> n \<Longrightarrow> 0 \<le> i \<Longrightarrow> encode_varint_field payload n i = Inr (payload @ emit (n, WInt i))"
  by (simp add: encode_varint_field_def field_key_eq wire_type_defs encode_varint_emit)

lemma encode_varint_field_negative:
  "0 \<le> n \<Longrightarrow> i < 0 \<Longrightarrow> encode_varint_field payload n i = Inl ByteRange"
  by (simp add: encode_varint_field_def field_key_eq wire_type_defs encode_varint_emit
      encode_varint_negative)

lemma encode_string_emit [wire_emit]:
  "0 \<le> n \<Longrightarrow> utf8_encode s = Inr b \<Longrightarrow> encode_string payload n s = Inr (payload @ emit (n, WBytes b))"
  by (simp add: encode_string_def field_key_eq wire_type_defs encode_varint_emit)

lemma emit_rel:
  assumes "wf_field f" and "wire_fields rest fs"
  shows "wire_fields (emit f @ rest) (f # fs)"
proof (cases f)
  case (Pair n v)
  have key: "varint_rel (varint_bytes (8 * n + wt)) (8 * n + wt)" if "0 \<le> wt" for wt
    using assms(1) Pair that by (cases v) (simp_all add: varint_rel_varint_bytes)
  have "\<exists>wt bs. 0 \<le> wt \<and> wt < 8 \<and> emit f = varint_bytes (8 * n + wt) @ bs \<and> value_rel wt bs v"
  proof (cases v)
    case (WInt i)
    with assms(1) Pair show ?thesis
      by (intro exI [of _ WT_VARINT]) (auto simp: wire_type_defs value_rel_simps varint_rel_varint_bytes)
  next
    case (WFloat w)
    with Pair show ?thesis
      by (intro exI [of _ WT_FIXED64]) (auto simp: wire_type_defs value_rel_simps)
  next
    case (WBytes b)
    with Pair show ?thesis
      by (intro exI [of _ WT_LENGTH_DELIMITED])
        (auto simp: wire_type_defs value_rel_simps varint_rel_varint_bytes)
  qed
  then obtain wt bs where wt: "0 \<le> wt" "wt < 8"
    and e: "emit f = varint_bytes (8 * n + wt) @ bs" and v: "value_rel wt bs v" by blast
  have m: "(8 * n + wt) mod 8 = wt" "(8 * n + wt) div 8 = n"
    using wt by simp_all
  have "wire_fields (varint_bytes (8 * n + wt) @ bs @ rest) (((8 * n + wt) div 8, v) # fs)"
    by (rule fields_more [OF key [OF wt(1)] _ assms(2)]) (simp only: m v)
  with e m Pair show ?thesis by simp
qed

lemma wire_fields_emit: "list_all wf_field fs \<Longrightarrow> wire_fields (wire_message fs) fs"
  by (induction fs) (auto simp: wire_message_def intro: emit_rel fields_empty)

lemma decode_message_emit [simp]:
  "list_all wf_field fs \<Longrightarrow> decode_message (wire_message fs) = Inr (message_of fs)"
  by (auto simp: decode_message_iff intro: wire_fields_emit)

section \<open>Reading fields back\<close>

lemma collect_fields_lookup:
  "collect_fields fs d n =
     (let vs = map snd (filter (\<lambda>f. fst f = n) fs)
      in case d n of None \<Rightarrow> if vs = [] then None else Some vs | Some us \<Rightarrow> Some (us @ vs))"
proof (induction fs arbitrary: d)
  case Nil
  then show ?case by (simp add: collect_fields_def split: option.split)
next
  case (Cons f fs)
  obtain m v where f: "f = (m, v)" by (cases f)
  have "collect_fields (f # fs) d n = collect_fields fs (add_field m v d) n"
    by (simp add: collect_fields_def f)
  then show ?case
    by (auto simp: Cons.IH f add_field_def Let_def split: option.split)
qed

lemma field_values_message_of:
  "field_values (message_of fs) n = map snd (filter (\<lambda>f. fst f = n) fs)"
  by (simp add: field_values_def message_of_def collect_fields_lookup Let_def)

definition bytes_of_values :: "wire_value list \<Rightarrow> bytes list" where
  "bytes_of_values vs = List.map_filter (\<lambda>v. case v of WBytes b \<Rightarrow> Some b | _ \<Rightarrow> None) vs"

lemma bytes_of_values_simps [simp]:
  "bytes_of_values [] = []"
  "bytes_of_values (WBytes b # vs) = b # bytes_of_values vs"
  "bytes_of_values (WInt i # vs) = bytes_of_values vs"
  "bytes_of_values (WFloat w # vs) = bytes_of_values vs"
  by (simp_all add: bytes_of_values_def List.map_filter_simps)

lemma bytes_of_values_append [simp]: "bytes_of_values (us @ vs) = bytes_of_values us @ bytes_of_values vs"
  by (induction us) (auto simp: bytes_of_values_def List.map_filter_simps split: option.split)

lemma bytes_of_values_map [simp]: "bytes_of_values (map WBytes bs) = bs"
  by (induction bs) simp_all

lemma bytes_values_message_of:
  "bytes_values (message_of fs) n = bytes_of_values (map snd (filter (\<lambda>f. fst f = n) fs))"
  by (simp add: bytes_values_def field_values_message_of bytes_of_values_def)

lemma map_r_utf8_decode_encode:
  "map_r utf8_encode ss = Inr bs \<Longrightarrow> map_r utf8_decode bs = Inr ss"
  by (induction ss arbitrary: bs) (auto simp: bind_r_eq_Inr utf8_decode_encode)

lemmas wire_access =
  single_message_def single_string_def optional_string_def single_int_def single_float_def
  single_bytes_def single_optional_bytes_def optional_message_def wire_strings_def
  field_values_message_of bytes_values_message_of

lemma varint_step_bound:
  fixes b v q :: int
  assumes "b < 256" and "v < q"
  shows "b - 128 + 128 * v < 128 * q"
  using assms by linarith

lemma varint_rel_bound: "varint_rel bs v \<Longrightarrow> v < 128 ^ length bs"
proof (induction rule: varint_rel.induct)
  case (varint_more b bs v)
  have "uint b < 256" using uint_bounded [of b] by simp
  from varint_step_bound [OF this varint_more.IH] show ?case by (simp only: list.size(4) add_Suc_right add_0_right power_Suc)
qed simp


section \<open>Properties\<close>

text \<open>
  C6: The decoder implements the wire grammar: \<open>decode_message\<close> accepts exactly the octet
  sequences that are a sequence of fields (a key varint and a varint, eight octets of a double, or
  a length and that many octets), and returns, for every field number, the values in their order.
\<close>

theorem decoder_implements_grammar:
  "decode_message p = Inr m \<longleftrightarrow> (\<exists>fs. wire_fields p fs \<and> m = message_of fs)"
  by (rule decode_message_iff)

text \<open>
  Varints are read within bounds: \<open>decode_varint\<close> always moves the cursor forward, never past
  the end, and the value it returns needs at most seven bits per octet it read.
\<close>

theorem decode_varint_within_bounds:
  assumes "decode_varint p c = Inr (v, c')" and "c \<le> length p"
  shows "c < c' \<and> c' \<le> length p \<and> 0 \<le> v \<and> v < 128 ^ (c' - c)"
proof -
  from assms(1) obtain bs post where d: "drop c p = bs @ post" "varint_rel bs v" "c' = c + length bs"
    by (auto simp: decode_varint_iff)
  have "length bs + length post = length p - c" using d(1) by (metis length_append length_drop)
  with d assms(2) show ?thesis
    using varint_rel_nonempty [OF d(2)] varint_rel_nonneg [OF d(2)] varint_rel_bound [OF d(2)] by auto
qed

theorem decode_varint_within_bounds_witness:
  "(1::nat) < 3 \<and> 3 \<le> length [8, 172, 2 :: byte] \<and> 0 \<le> (300::int) \<and> (300::int) < 128 ^ (3 - 1 :: nat)"
proof (rule decode_varint_within_bounds)
  show "decode_varint [8, 172, 2 :: byte] 1 = Inr (300, 3)"
    using varint_more [of "172 :: byte" "[2]" 2] varint_last [of "2 :: byte"]
    by (simp add: decode_varint_iff) (rule exI [of _ "[172, 2]"], simp)
qed simp

end
