(* ===== verification/Wire_Codec.thy ===== *)
theory Wire_Codec
  imports Wire_Correct
begin

text \<open>
  What the message classes of \<open>backend/modules/protocol_v2\<close> share: an encoder is a
  sequence of statements that extend one \<open>bytearray\<close>, and each class promises that its
  \<open>from_protobuf_wire\<close> returns what its \<open>to_protobuf_wire\<close> encoded. The
  locale \<open>wire_codec\<close> is that promise, with the lemmas a client draws from it; each
  message class interprets it. Timestamps are encoded by \<open>timestamped_wire\<close>.
\<close>

section \<open>Encoder statements\<close>

text \<open>Statements that extend one \<open>bytearray\<close> in turn.\<close>

definition run_encoders :: "(bytes \<Rightarrow> wire_error + bytes) list \<Rightarrow> wire_error + bytes" where
  "run_encoders steps = fold_r (\<lambda>step payload. step payload) steps []"

section \<open>Encoders as emitted fields\<close>

definition emits :: "(bytes \<Rightarrow> wire_error + bytes) \<Rightarrow> int \<times> wire_value \<Rightarrow> bool" where
  "emits step f \<longleftrightarrow> (\<forall>p. step p = Inr (p @ emit f))"

lemma run_encoders_emit_acc:
  "list_all2 emits steps fs \<Longrightarrow>
     fold_r (\<lambda>step payload. step payload) steps p = Inr (p @ concat (map emit fs))"
  by (induction steps fs arbitrary: p rule: list_all2_induct) (auto simp: emits_def)

lemma run_encoders_emit: "list_all2 emits steps fs \<Longrightarrow> run_encoders steps = Inr (wire_message fs)"
  by (simp add: run_encoders_def run_encoders_emit_acc wire_message_def)

lemma run_encoders_Inr:
  assumes "run_encoders steps = Inr bs" and "step \<in> set steps"
  shows "\<exists>p q. step p = Inr q"
proof -
  have "fold_r (\<lambda>step payload. step payload) steps p = Inr bs \<Longrightarrow> \<exists>p q. step p = Inr q" for p
    using assms(2) by (induction steps arbitrary: p) (auto simp: bind_r_eq_Inr)
  with assms(1) show ?thesis by (auto simp: run_encoders_def)
qed

lemma timestamped_wire_emit [wire_emit]:
  "0 \<le> o' \<Longrightarrow> 0 \<le> r \<Longrightarrow> timestamped_wire o' r
     = Inr (wire_message [(TS_OBSERVED_UNIX_MILLIS, WInt o'), (TS_RECEIVED_UNIX_MILLIS, WInt r)])"
  by (simp add: timestamped_wire_def timestamped_field_defs wire_emit wire_message_def)

lemma timestamped_wire_Inr: "timestamped_wire o' r = Inr b \<Longrightarrow> 0 \<le> o' \<and> 0 \<le> r"
  by (rule ccontr)
    (auto simp: timestamped_wire_def timestamped_field_defs bind_r_eq_Inr not_le
      encode_varint_field_negative)

lemma encode_string_Inr: "encode_string p n s = Inr q \<Longrightarrow> encodable s"
  by (auto simp: encode_string_def bind_r_eq_Inr simp flip: utf8_encode_Inr_iff)

lemma encode_varint_field_Inr: "0 \<le> n \<Longrightarrow> encode_varint_field p n i = Inr q \<Longrightarrow> 0 \<le> i"
  by (rule ccontr) (simp add: encode_varint_field_negative)

lemma encode_bytes_emits: "0 \<le> n \<Longrightarrow> m = Inr b \<Longrightarrow> emits (\<lambda>p. bind_r m (encode_bytes p n)) (n, WBytes b)"
  by (simp add: emits_def encode_bytes_emit)

lemma encode_bytes_plain_emits: "0 \<le> n \<Longrightarrow> emits (\<lambda>p. encode_bytes p n b) (n, WBytes b)"
  by (simp add: emits_def encode_bytes_emit)

lemma encode_string_emits: "0 \<le> n \<Longrightarrow> utf8_encode s = Inr b \<Longrightarrow> emits (\<lambda>p. encode_string p n s) (n, WBytes b)"
  by (simp add: emits_def encode_string_emit)

lemma encode_varint_field_emits: "0 \<le> n \<Longrightarrow> 0 \<le> i \<Longrightarrow> emits (\<lambda>p. encode_varint_field p n i) (n, WInt i)"
  by (simp add: emits_def encode_varint_field_emit)

lemma encode_double_emits: "0 \<le> n \<Longrightarrow> emits (\<lambda>p. encode_double p n w) (n, WFloat w)"
  by (simp add: emits_def encode_double_emit)

lemmas step_emits =
  encode_bytes_plain_emits encode_bytes_emits encode_string_emits encode_varint_field_emits encode_double_emits

lemma encode_strings_emits:
  "0 \<le> n \<Longrightarrow> map_r utf8_encode ss = Inr bs \<Longrightarrow>
     list_all2 emits (map (\<lambda>s p. encode_string p n s) ss) (map (\<lambda>b. (n, WBytes b)) bs)"
  by (induction ss arbitrary: bs) (auto simp: bind_r_eq_Inr intro: encode_string_emits)

lemma filter_field_map [simp]:
  "filter (\<lambda>f. fst f = n) (map (\<lambda>b. (m, g b)) bs) = (if m = n then map (\<lambda>b. (m, g b)) bs else [])"
  by (induction bs) auto

section \<open>Encodable texts\<close>

lemma encodable_Inr: "encodable s \<Longrightarrow> \<exists>b. utf8_encode s = Inr b"
  using utf8_encode_Inr_iff by blast

lemma encodable_list_Inr: "list_all encodable ss \<Longrightarrow> \<exists>bs. map_r utf8_encode ss = Inr bs"
  by (simp add: map_r_Inr_iff list_all_iff encodable_Inr)

section \<open>The codec interface\<close>

locale wire_codec =
  fixes enc :: "'m \<Rightarrow> wire_error + bytes"
    and dec :: "bytes \<Rightarrow> wire_error + 'm"
  assumes roundtrip: "enc m = Inr b \<Longrightarrow> dec b = Inr m"
begin

lemma enc_injective: "enc m = Inr b \<Longrightarrow> enc m' = Inr b \<Longrightarrow> m = m'"
  using roundtrip [of m b] roundtrip [of m' b] by simp

lemma batch_roundtrip: "map_r enc ms = Inr bs \<Longrightarrow> map_r dec bs = Inr ms"
  by (induction ms arbitrary: bs) (auto simp: bind_r_eq_Inr dest!: roundtrip)

end

text \<open>A message class whose field carries the encoded bytes of another one.\<close>

locale nested_codec = outer: wire_codec enc dec + inner: wire_codec ienc idec
  for enc :: "'m \<Rightarrow> wire_error + bytes" and dec :: "bytes \<Rightarrow> wire_error + 'm"
    and ienc :: "'i \<Rightarrow> wire_error + bytes" and idec :: "bytes \<Rightarrow> wire_error + 'i" +
  fixes wrap :: "bytes \<Rightarrow> 'm" and unwrap :: "'m \<Rightarrow> bytes option"
  assumes unwrap_wrap: "unwrap (wrap b) = Some b"
begin

lemma nested_roundtrip:
  assumes "ienc i = Inr b" and "enc (wrap b) = Inr p"
  shows "\<exists>m. dec p = Inr m \<and> unwrap m = Some b \<and> idec b = Inr i"
  using assms outer.roundtrip inner.roundtrip unwrap_wrap by blast

end

end
