(* ===== verification/Telemetry_Wire.thy ===== *)
theory Telemetry_Wire
  imports Wire_Codec
begin

text \<open>
  The telemetry envelope of \<open>backend/modules/protocol_v2\<close>: the field numbers of
  \<open>telemetry_contract.py\<close>, the geo point and vector sub-messages, the encoder and the
  decoder of \<open>telemetry_wire\<close>, and \<open>TelemetryEnvelopePayload\<close> of
  \<open>telemetry.py\<close>. The lemmas show when an envelope can be encoded, that an encoded
  envelope decodes to itself, and which wire messages the decoder takes for the same envelope.
\<close>

section \<open>Contract\<close>

datatype telemetry_field =
    TF_EVENT_ID | TF_ORG_ID | TF_GROUP_ID | TF_ASSET_ID | TF_ASSET_KIND | TF_TIME | TF_POSITION
  | TF_HEADING_DEG | TF_SPEED_MPS | TF_BATTERY_PERCENT | TF_HEALTH | TF_ACTIVE_STREAM_ID
  | TF_ATTITUDE_DEG | TF_GYRO_RAD_PER_SEC | TF_ACCEL_MPS2 | TF_LINK_QUALITY_PERCENT

fun telemetry_field_number :: "telemetry_field \<Rightarrow> int" where
  "telemetry_field_number TF_EVENT_ID = 1"
| "telemetry_field_number TF_ORG_ID = 2"
| "telemetry_field_number TF_GROUP_ID = 3"
| "telemetry_field_number TF_ASSET_ID = 4"
| "telemetry_field_number TF_ASSET_KIND = 5"
| "telemetry_field_number TF_TIME = 6"
| "telemetry_field_number TF_POSITION = 7"
| "telemetry_field_number TF_HEADING_DEG = 8"
| "telemetry_field_number TF_SPEED_MPS = 9"
| "telemetry_field_number TF_BATTERY_PERCENT = 10"
| "telemetry_field_number TF_HEALTH = 11"
| "telemetry_field_number TF_ACTIVE_STREAM_ID = 12"
| "telemetry_field_number TF_ATTITUDE_DEG = 13"
| "telemetry_field_number TF_GYRO_RAD_PER_SEC = 14"
| "telemetry_field_number TF_ACCEL_MPS2 = 15"
| "telemetry_field_number TF_LINK_QUALITY_PERCENT = 16"

definition GEO_LATITUDE :: int where "GEO_LATITUDE = 1"
definition GEO_LONGITUDE :: int where "GEO_LONGITUDE = 2"
definition GEO_ALTITUDE_M :: int where "GEO_ALTITUDE_M = 3"

definition VECTOR3_X :: int where "VECTOR3_X = 1"
definition VECTOR3_Y :: int where "VECTOR3_Y = 2"
definition VECTOR3_Z :: int where "VECTOR3_Z = 3"

lemmas submessage_field_defs =
  GEO_LATITUDE_def GEO_LONGITUDE_def GEO_ALTITUDE_M_def VECTOR3_X_def VECTOR3_Y_def VECTOR3_Z_def

definition ASSET_KIND_OPERATOR_DEVICE :: int where "ASSET_KIND_OPERATOR_DEVICE = 4"
definition HEALTH_STATE_OK :: int where "HEALTH_STATE_OK = 1"

section \<open>The envelope\<close>

record telemetry_envelope =
  te_event_id :: pytext
  te_org_id :: pytext
  te_group_id :: pytext
  te_asset_id :: pytext
  te_asset_kind :: int
  te_observed_unix_millis :: int
  te_received_unix_millis :: int
  te_latitude :: f64
  te_longitude :: f64
  te_altitude_m :: f64
  te_heading_deg :: f64
  te_speed_mps :: f64
  te_battery_percent :: f64
  te_health :: int
  te_active_stream_ids :: "pytext list"
  te_roll_deg :: f64
  te_pitch_deg :: f64
  te_yaw_deg :: f64
  te_gyro_x_rad_per_sec :: f64
  te_gyro_y_rad_per_sec :: f64
  te_gyro_z_rad_per_sec :: f64
  te_accel_x_mps2 :: f64
  te_accel_y_mps2 :: f64
  te_accel_z_mps2 :: f64
  te_link_quality_percent :: f64

section \<open>Encoding\<close>

definition geo_point_wire :: "f64 \<Rightarrow> f64 \<Rightarrow> f64 \<Rightarrow> wire_error + bytes" where
  "geo_point_wire latitude longitude altitude_m =
     bind_r (encode_double [] GEO_LATITUDE latitude) (\<lambda>payload.
     bind_r (encode_double payload GEO_LONGITUDE longitude) (\<lambda>payload.
     encode_double payload GEO_ALTITUDE_M altitude_m))"

definition encode_vector3 :: "f64 \<Rightarrow> f64 \<Rightarrow> f64 \<Rightarrow> wire_error + bytes" where
  "encode_vector3 x y z =
     bind_r (encode_double [] VECTOR3_X x) (\<lambda>payload.
     bind_r (encode_double payload VECTOR3_Y y) (\<lambda>payload.
     encode_double payload VECTOR3_Z z))"

definition encode_telemetry_envelope :: "telemetry_envelope \<Rightarrow> wire_error + bytes" where
  "encode_telemetry_envelope e =
     run_encoders (
       [\<lambda>p. encode_string p (telemetry_field_number TF_EVENT_ID) (te_event_id e),
        \<lambda>p. encode_string p (telemetry_field_number TF_ORG_ID) (te_org_id e),
        \<lambda>p. encode_string p (telemetry_field_number TF_GROUP_ID) (te_group_id e),
        \<lambda>p. encode_string p (telemetry_field_number TF_ASSET_ID) (te_asset_id e),
        \<lambda>p. encode_varint_field p (telemetry_field_number TF_ASSET_KIND) (te_asset_kind e),
        \<lambda>p. bind_r (timestamped_wire (te_observed_unix_millis e) (te_received_unix_millis e))
              (encode_bytes p (telemetry_field_number TF_TIME)),
        \<lambda>p. bind_r (geo_point_wire (te_latitude e) (te_longitude e) (te_altitude_m e))
              (encode_bytes p (telemetry_field_number TF_POSITION)),
        \<lambda>p. encode_double p (telemetry_field_number TF_HEADING_DEG) (te_heading_deg e),
        \<lambda>p. encode_double p (telemetry_field_number TF_SPEED_MPS) (te_speed_mps e),
        \<lambda>p. encode_double p (telemetry_field_number TF_BATTERY_PERCENT) (te_battery_percent e),
        \<lambda>p. encode_varint_field p (telemetry_field_number TF_HEALTH) (te_health e)]
       @ map (\<lambda>stream_id p. encode_string p (telemetry_field_number TF_ACTIVE_STREAM_ID) stream_id)
           (te_active_stream_ids e)
       @ [\<lambda>p. bind_r (encode_vector3 (te_roll_deg e) (te_pitch_deg e) (te_yaw_deg e))
              (encode_bytes p (telemetry_field_number TF_ATTITUDE_DEG)),
          \<lambda>p. bind_r (encode_vector3 (te_gyro_x_rad_per_sec e) (te_gyro_y_rad_per_sec e)
                (te_gyro_z_rad_per_sec e))
              (encode_bytes p (telemetry_field_number TF_GYRO_RAD_PER_SEC)),
          \<lambda>p. bind_r (encode_vector3 (te_accel_x_mps2 e) (te_accel_y_mps2 e) (te_accel_z_mps2 e))
              (encode_bytes p (telemetry_field_number TF_ACCEL_MPS2)),
          \<lambda>p. encode_double p (telemetry_field_number TF_LINK_QUALITY_PERCENT)
              (te_link_quality_percent e)])"

section \<open>Decoding\<close>

definition decode_optional_vector3 :: "decoded_message \<Rightarrow> int \<Rightarrow> wire_error + (f64 \<times> f64 \<times> f64)" where
  "decode_optional_vector3 decoded field_number =
     bind_r (optional_message decoded field_number) (\<lambda>message.
       case message of
         None \<Rightarrow> Inr (0, 0, 0)
       | Some m \<Rightarrow>
           bind_r (single_float m VECTOR3_X) (\<lambda>x.
           bind_r (single_float m VECTOR3_Y) (\<lambda>y.
           bind_r (single_float m VECTOR3_Z) (\<lambda>z. Inr (x, y, z)))))"

definition optional_float :: "decoded_message \<Rightarrow> int \<Rightarrow> wire_error + f64" where
  "optional_float decoded field_number =
     (if field_values decoded field_number \<noteq> [] then single_float decoded field_number else Inr 0)"

definition decode_envelope_message :: "decoded_message \<Rightarrow> wire_error + telemetry_envelope" where
  "decode_envelope_message d =
     bind_r (single_message d (telemetry_field_number TF_TIME)) (\<lambda>time_message.
     bind_r (single_message d (telemetry_field_number TF_POSITION)) (\<lambda>position_message.
     bind_r (decode_optional_vector3 d (telemetry_field_number TF_ATTITUDE_DEG)) (\<lambda>attitude.
     bind_r (decode_optional_vector3 d (telemetry_field_number TF_GYRO_RAD_PER_SEC)) (\<lambda>gyro.
     bind_r (decode_optional_vector3 d (telemetry_field_number TF_ACCEL_MPS2)) (\<lambda>accel.
     bind_r (single_string d (telemetry_field_number TF_EVENT_ID)) (\<lambda>event_id.
     bind_r (single_string d (telemetry_field_number TF_ORG_ID)) (\<lambda>org_id.
     bind_r (single_string d (telemetry_field_number TF_GROUP_ID)) (\<lambda>group_id.
     bind_r (single_string d (telemetry_field_number TF_ASSET_ID)) (\<lambda>asset_id.
     bind_r (single_int d (telemetry_field_number TF_ASSET_KIND)) (\<lambda>asset_kind.
     bind_r (single_int time_message TS_OBSERVED_UNIX_MILLIS) (\<lambda>observed.
     bind_r (single_int time_message TS_RECEIVED_UNIX_MILLIS) (\<lambda>received.
     bind_r (single_float position_message GEO_LATITUDE) (\<lambda>latitude.
     bind_r (single_float position_message GEO_LONGITUDE) (\<lambda>longitude.
     bind_r (single_float position_message GEO_ALTITUDE_M) (\<lambda>altitude_m.
     bind_r (single_float d (telemetry_field_number TF_HEADING_DEG)) (\<lambda>heading_deg.
     bind_r (single_float d (telemetry_field_number TF_SPEED_MPS)) (\<lambda>speed_mps.
     bind_r (single_float d (telemetry_field_number TF_BATTERY_PERCENT)) (\<lambda>battery_percent.
     bind_r (single_int d (telemetry_field_number TF_HEALTH)) (\<lambda>health.
     bind_r (wire_strings d (telemetry_field_number TF_ACTIVE_STREAM_ID)) (\<lambda>active_stream_ids.
     bind_r (optional_float d (telemetry_field_number TF_LINK_QUALITY_PERCENT)) (\<lambda>link_quality_percent.
     Inr \<lparr>te_event_id = event_id, te_org_id = org_id, te_group_id = group_id,
          te_asset_id = asset_id, te_asset_kind = asset_kind,
          te_observed_unix_millis = observed, te_received_unix_millis = received,
          te_latitude = latitude, te_longitude = longitude, te_altitude_m = altitude_m,
          te_heading_deg = heading_deg, te_speed_mps = speed_mps,
          te_battery_percent = battery_percent, te_health = health,
          te_active_stream_ids = active_stream_ids,
          te_roll_deg = fst attitude, te_pitch_deg = fst (snd attitude),
          te_yaw_deg = snd (snd attitude),
          te_gyro_x_rad_per_sec = fst gyro, te_gyro_y_rad_per_sec = fst (snd gyro),
          te_gyro_z_rad_per_sec = snd (snd gyro),
          te_accel_x_mps2 = fst accel, te_accel_y_mps2 = fst (snd accel),
          te_accel_z_mps2 = snd (snd accel),
          te_link_quality_percent = link_quality_percent\<rparr>)))))))))))))))))))))"

definition decode_telemetry_envelope :: "bytes \<Rightarrow> wire_error + telemetry_envelope" where
  "decode_telemetry_envelope payload = bind_r (decode_message payload) decode_envelope_message"

section \<open>The payload class\<close>

definition telemetry_to_protobuf_wire :: "telemetry_envelope \<Rightarrow> wire_error + bytes" where
  "telemetry_to_protobuf_wire e = encode_telemetry_envelope e"

definition telemetry_from_protobuf_wire :: "bytes \<Rightarrow> wire_error + telemetry_envelope" where
  "telemetry_from_protobuf_wire payload =
     bind_r (decode_telemetry_envelope payload) (\<lambda>decoded.
     Inr \<lparr>te_event_id = te_event_id decoded, te_org_id = te_org_id decoded,
          te_group_id = te_group_id decoded, te_asset_id = te_asset_id decoded,
          te_asset_kind = te_asset_kind decoded,
          te_observed_unix_millis = te_observed_unix_millis decoded,
          te_received_unix_millis = te_received_unix_millis decoded,
          te_latitude = te_latitude decoded, te_longitude = te_longitude decoded,
          te_altitude_m = te_altitude_m decoded, te_heading_deg = te_heading_deg decoded,
          te_speed_mps = te_speed_mps decoded, te_battery_percent = te_battery_percent decoded,
          te_health = te_health decoded, te_active_stream_ids = te_active_stream_ids decoded,
          te_roll_deg = te_roll_deg decoded, te_pitch_deg = te_pitch_deg decoded,
          te_yaw_deg = te_yaw_deg decoded,
          te_gyro_x_rad_per_sec = te_gyro_x_rad_per_sec decoded,
          te_gyro_y_rad_per_sec = te_gyro_y_rad_per_sec decoded,
          te_gyro_z_rad_per_sec = te_gyro_z_rad_per_sec decoded,
          te_accel_x_mps2 = te_accel_x_mps2 decoded, te_accel_y_mps2 = te_accel_y_mps2 decoded,
          te_accel_z_mps2 = te_accel_z_mps2 decoded,
          te_link_quality_percent = te_link_quality_percent decoded\<rparr>)"

text \<open>
  \<open>TelemetryEnvelopePayload.create\<close>: the keyword arguments are the fields of
  \<open>args\<close> (its identifier and times are not read); a fresh identifier and the clock
  (\<open>uuid4\<close>, \<open>time\<close>) are arguments, and \<open>or now\<close> replaces a missing or zero time.
\<close>

definition or_now :: "int option \<Rightarrow> int \<Rightarrow> int" where
  "or_now t now = (case t of None \<Rightarrow> now | Some v \<Rightarrow> if v = 0 then now else v)"

definition telemetry_create_envelope ::
    "pytext \<Rightarrow> int \<Rightarrow> telemetry_envelope \<Rightarrow> int option \<Rightarrow> int option \<Rightarrow> telemetry_envelope" where
  "telemetry_create_envelope new_id now args observed received =
     args\<lparr>te_event_id := new_id,
          te_observed_unix_millis := or_now observed now,
          te_received_unix_millis := or_now received now\<rparr>"


section \<open>Sub-messages\<close>

lemma geo_point_wire_emit [wire_emit]:
  "geo_point_wire x y z = Inr (wire_message
     [(GEO_LATITUDE, WFloat x), (GEO_LONGITUDE, WFloat y), (GEO_ALTITUDE_M, WFloat z)])"
  by (simp add: geo_point_wire_def submessage_field_defs wire_emit wire_message_def)

lemma encode_vector3_emit [wire_emit]:
  "encode_vector3 x y z = Inr (wire_message
     [(VECTOR3_X, WFloat x), (VECTOR3_Y, WFloat y), (VECTOR3_Z, WFloat z)])"
  by (simp add: encode_vector3_def submessage_field_defs wire_emit wire_message_def)

lemma telemetry_field_number_nonneg [simp]: "0 \<le> telemetry_field_number f"
  by (cases f) simp_all

section \<open>Which envelopes can be encoded\<close>

definition envelope_encodable :: "telemetry_envelope \<Rightarrow> bool" where
  "envelope_encodable e \<longleftrightarrow>
     encodable (te_event_id e) \<and> encodable (te_org_id e) \<and> encodable (te_group_id e) \<and>
     encodable (te_asset_id e) \<and> list_all encodable (te_active_stream_ids e) \<and>
     0 \<le> te_asset_kind e \<and> 0 \<le> te_observed_unix_millis e \<and> 0 \<le> te_received_unix_millis e \<and>
     0 \<le> te_health e"

definition envelope_fields ::
    "bytes \<Rightarrow> bytes \<Rightarrow> bytes \<Rightarrow> bytes \<Rightarrow> bytes list \<Rightarrow> telemetry_envelope \<Rightarrow> (int \<times> wire_value) list" where
  "envelope_fields b1 b2 b3 b4 bs e =
     [(1, WBytes b1), (2, WBytes b2), (3, WBytes b3), (4, WBytes b4), (5, WInt (te_asset_kind e)),
      (6, WBytes (wire_message [(TS_OBSERVED_UNIX_MILLIS, WInt (te_observed_unix_millis e)),
             (TS_RECEIVED_UNIX_MILLIS, WInt (te_received_unix_millis e))])),
      (7, WBytes (wire_message [(GEO_LATITUDE, WFloat (te_latitude e)),
             (GEO_LONGITUDE, WFloat (te_longitude e)), (GEO_ALTITUDE_M, WFloat (te_altitude_m e))])),
      (8, WFloat (te_heading_deg e)), (9, WFloat (te_speed_mps e)),
      (10, WFloat (te_battery_percent e)), (11, WInt (te_health e))]
     @ map (\<lambda>b. (12, WBytes b)) bs
     @ [(13, WBytes (wire_message [(VECTOR3_X, WFloat (te_roll_deg e)),
             (VECTOR3_Y, WFloat (te_pitch_deg e)), (VECTOR3_Z, WFloat (te_yaw_deg e))])),
        (14, WBytes (wire_message [(VECTOR3_X, WFloat (te_gyro_x_rad_per_sec e)),
             (VECTOR3_Y, WFloat (te_gyro_y_rad_per_sec e)),
             (VECTOR3_Z, WFloat (te_gyro_z_rad_per_sec e))])),
        (15, WBytes (wire_message [(VECTOR3_X, WFloat (te_accel_x_mps2 e)),
             (VECTOR3_Y, WFloat (te_accel_y_mps2 e)), (VECTOR3_Z, WFloat (te_accel_z_mps2 e))])),
        (16, WFloat (te_link_quality_percent e))]"

lemma encode_envelope_emit:
  assumes "utf8_encode (te_event_id e) = Inr b1" "utf8_encode (te_org_id e) = Inr b2"
    "utf8_encode (te_group_id e) = Inr b3" "utf8_encode (te_asset_id e) = Inr b4"
    "map_r utf8_encode (te_active_stream_ids e) = Inr bs"
    "0 \<le> te_asset_kind e" "0 \<le> te_observed_unix_millis e" "0 \<le> te_received_unix_millis e"
    "0 \<le> te_health e"
  shows "encode_telemetry_envelope e = Inr (wire_message (envelope_fields b1 b2 b3 b4 bs e))"
  unfolding encode_telemetry_envelope_def envelope_fields_def
  using assms encode_strings_emits [of 12 "te_active_stream_ids e" bs]
  by (intro run_encoders_emit list_all2_appendI)
    (auto intro!: step_emits simp: timestamped_wire_emit geo_point_wire_emit encode_vector3_emit)

lemma decode_envelope_fields:
  assumes "utf8_encode (te_event_id e) = Inr b1" "utf8_encode (te_org_id e) = Inr b2"
    "utf8_encode (te_group_id e) = Inr b3" "utf8_encode (te_asset_id e) = Inr b4"
    "map_r utf8_encode (te_active_stream_ids e) = Inr bs"
    "0 \<le> te_observed_unix_millis e" "0 \<le> te_received_unix_millis e"
  shows "decode_envelope_message (message_of (envelope_fields b1 b2 b3 b4 bs e)) = Inr e"
  using assms
  by (simp add: decode_envelope_message_def envelope_fields_def wire_access optional_float_def
      decode_optional_vector3_def submessage_field_defs timestamped_field_defs
      utf8_decode_encode map_r_utf8_decode_encode o_def)


lemma wf_envelope_fields:
  "envelope_encodable e \<Longrightarrow> list_all wf_field (envelope_fields b1 b2 b3 b4 bs e)"
  by (auto simp: envelope_encodable_def envelope_fields_def list_all_iff)

lemma envelope_roundtrip:
  assumes "envelope_encodable e"
  shows "\<exists>b1 b2 b3 b4 bs. encode_telemetry_envelope e = Inr (wire_message (envelope_fields b1 b2 b3 b4 bs e))
     \<and> decode_telemetry_envelope (wire_message (envelope_fields b1 b2 b3 b4 bs e)) = Inr e"
proof -
  from assms obtain b1 b2 b3 b4 bs where b: "utf8_encode (te_event_id e) = Inr b1"
    "utf8_encode (te_org_id e) = Inr b2" "utf8_encode (te_group_id e) = Inr b3"
    "utf8_encode (te_asset_id e) = Inr b4" "map_r utf8_encode (te_active_stream_ids e) = Inr bs"
    unfolding envelope_encodable_def by (meson encodable_Inr encodable_list_Inr)
  have "encode_telemetry_envelope e = Inr (wire_message (envelope_fields b1 b2 b3 b4 bs e))"
    using assms b by (intro encode_envelope_emit) (simp_all add: envelope_encodable_def)
  moreover have "decode_telemetry_envelope (wire_message (envelope_fields b1 b2 b3 b4 bs e)) = Inr e"
    using assms b
    by (simp add: decode_telemetry_envelope_def wf_envelope_fields decode_envelope_fields)
      (simp add: envelope_encodable_def decode_envelope_fields)
  ultimately show ?thesis by blast
qed

lemma encode_envelope_encodable:
  assumes "encode_telemetry_envelope e = Inr bs"
  shows "envelope_encodable e"
proof -
  note run = run_encoders_Inr [OF assms [unfolded encode_telemetry_envelope_def]]
  have ids: "encodable s" if "s \<in> set (te_active_stream_ids e)" for s
    using run [of "\<lambda>p. encode_string p (telemetry_field_number TF_ACTIVE_STREAM_ID) s"] that
    by (auto dest: encode_string_Inr)
  have "encodable (te_event_id e)" "encodable (te_org_id e)" "encodable (te_group_id e)"
    "encodable (te_asset_id e)"
    using run [of "\<lambda>p. encode_string p (telemetry_field_number TF_EVENT_ID) (te_event_id e)"]
      run [of "\<lambda>p. encode_string p (telemetry_field_number TF_ORG_ID) (te_org_id e)"]
      run [of "\<lambda>p. encode_string p (telemetry_field_number TF_GROUP_ID) (te_group_id e)"]
      run [of "\<lambda>p. encode_string p (telemetry_field_number TF_ASSET_ID) (te_asset_id e)"]
    by (auto dest: encode_string_Inr)
  moreover have "0 \<le> te_asset_kind e" "0 \<le> te_health e"
    using run [of "\<lambda>p. encode_varint_field p (telemetry_field_number TF_ASSET_KIND) (te_asset_kind e)"]
      run [of "\<lambda>p. encode_varint_field p (telemetry_field_number TF_HEALTH) (te_health e)"]
    by (auto dest: encode_varint_field_Inr [rotated])
  moreover have "0 \<le> te_observed_unix_millis e" "0 \<le> te_received_unix_millis e"
    using run [of "\<lambda>p. bind_r (timestamped_wire (te_observed_unix_millis e) (te_received_unix_millis e))
        (encode_bytes p (telemetry_field_number TF_TIME))"]
    by (auto simp: bind_r_eq_Inr dest: timestamped_wire_Inr)
  ultimately show ?thesis using ids by (simp add: envelope_encodable_def list_all_iff)
qed


section \<open>What the decoder reads\<close>

lemma decode_envelope_message_cong:
  assumes "\<And>t. field_values m (telemetry_field_number t) = field_values m' (telemetry_field_number t)"
  shows "decode_envelope_message m = decode_envelope_message m'"
proof -
  have "bytes_values m (telemetry_field_number t) = bytes_values m' (telemetry_field_number t)" for t
    by (simp add: bytes_values_def assms)
  then show ?thesis
    unfolding decode_envelope_message_def single_message_def single_string_def single_int_def
      single_float_def wire_strings_def optional_float_def decode_optional_vector3_def
      optional_message_def
    by (simp only: assms)
qed

lemma telemetry_from_protobuf_wire_eq:
  "telemetry_from_protobuf_wire p = decode_telemetry_envelope p"
  by (cases "decode_telemetry_envelope p") (simp_all add: telemetry_from_protobuf_wire_def)

fun required_field :: "telemetry_field \<Rightarrow> bool" where
  "required_field TF_ACTIVE_STREAM_ID = False"
| "required_field TF_ATTITUDE_DEG = False"
| "required_field TF_GYRO_RAD_PER_SEC = False"
| "required_field TF_ACCEL_MPS2 = False"
| "required_field TF_LINK_QUALITY_PERCENT = False"
| "required_field _ = True"

lemma decode_envelope_message_required:
  assumes "decode_envelope_message m = Inr e" and "required_field t"
  shows "field_values m (telemetry_field_number t) \<noteq> []"
proof
  assume "field_values m (telemetry_field_number t) = []"
  with assms show False
    by (cases t)
      (auto simp: decode_envelope_message_def bind_r_eq_Inr single_message_def single_string_def
        single_int_def single_float_def wire_strings_def bytes_values_def List.map_filter_simps)
qed

lemma telemetry_codec_roundtrip:
  "telemetry_to_protobuf_wire e = Inr bs \<Longrightarrow> telemetry_from_protobuf_wire bs = Inr e"
  using encode_envelope_encodable [of e bs] envelope_roundtrip [of e]
  by (auto simp: telemetry_to_protobuf_wire_def telemetry_from_protobuf_wire_eq)

interpretation telemetry_codec: wire_codec telemetry_to_protobuf_wire telemetry_from_protobuf_wire
  by unfold_locales (rule telemetry_codec_roundtrip)

section \<open>Properties\<close>

text \<open>
  C1: An envelope that \<open>TelemetryEnvelopePayload.to_protobuf_wire\<close> encodes is returned
  unchanged by \<open>from_protobuf_wire\<close>: every string, integer, coordinate, vector component
  and the list of stream identifiers survive the wire, bit for bit.
\<close>

theorem telemetry_wire_roundtrip:
  "telemetry_to_protobuf_wire e = Inr bs \<Longrightarrow> telemetry_from_protobuf_wire bs = Inr e"
  by (rule telemetry_codec.roundtrip)

definition sample_envelope :: telemetry_envelope where
  "sample_envelope =
     \<lparr>te_event_id = [0x65], te_org_id = [0xD55C], te_group_id = [], te_asset_id = [0x1F681],
      te_asset_kind = 1, te_observed_unix_millis = 1700000000000, te_received_unix_millis = 300,
      te_latitude = 1, te_longitude = 2, te_altitude_m = 3, te_heading_deg = 4, te_speed_mps = 5,
      te_battery_percent = 6, te_health = 1, te_active_stream_ids = [[0x61], []],
      te_roll_deg = 7, te_pitch_deg = 8, te_yaw_deg = 9, te_gyro_x_rad_per_sec = 10,
      te_gyro_y_rad_per_sec = 11, te_gyro_z_rad_per_sec = 12, te_accel_x_mps2 = 13,
      te_accel_y_mps2 = 14, te_accel_z_mps2 = 15, te_link_quality_percent = 16\<rparr>"

lemma sample_envelope_encodable: "envelope_encodable sample_envelope"
  by (simp add: envelope_encodable_def sample_envelope_def encodable_def scalar_value_def
      is_surrogate_def)

theorem telemetry_wire_roundtrip_witness:
  "\<exists>bs. telemetry_to_protobuf_wire sample_envelope = Inr bs \<and>
     telemetry_from_protobuf_wire bs = Inr sample_envelope"
proof -
  obtain bs where "telemetry_to_protobuf_wire sample_envelope = Inr bs"
    using envelope_roundtrip [OF sample_envelope_encodable]
    by (auto simp: telemetry_to_protobuf_wire_def)
  with telemetry_wire_roundtrip [OF this] show ?thesis by blast
qed

text \<open>
  \<open>to_protobuf_wire\<close> succeeds exactly on the envelopes whose strings hold no
  surrogate code points and whose integers are not negative; on every other envelope it
  raises (a negative integer reaches \<open>bytearray.append\<close>, a surrogate the UTF-8 encoder).
\<close>

theorem telemetry_wire_domain:
  "(\<exists>bs. telemetry_to_protobuf_wire e = Inr bs) \<longleftrightarrow> envelope_encodable e"
  using encode_envelope_encodable [of e] envelope_roundtrip [of e]
  by (auto simp: telemetry_to_protobuf_wire_def)

text \<open>
  The decoder is independent of field order and of unknown fields: two wire messages that
  hold the same values, in the same order, for each of the sixteen telemetry fields decode to
  the same result, value or error.
\<close>

theorem telemetry_decode_field_order:
  assumes "wire_fields p fs" and "wire_fields p' fs'"
    and "\<And>t. filter (\<lambda>f. fst f = telemetry_field_number t) fs
            = filter (\<lambda>f. fst f = telemetry_field_number t) fs'"
  shows "telemetry_from_protobuf_wire p = telemetry_from_protobuf_wire p'"
proof -
  have "decode_message p = Inr (message_of fs)" "decode_message p' = Inr (message_of fs')"
    using assms(1,2) by (auto simp: decode_message_iff)
  moreover have "decode_envelope_message (message_of fs) = decode_envelope_message (message_of fs')"
    by (rule decode_envelope_message_cong) (simp add: field_values_message_of assms(3))
  ultimately show ?thesis
    by (simp add: telemetry_from_protobuf_wire_eq decode_telemetry_envelope_def)
qed

theorem telemetry_decode_field_order_witness:
  "telemetry_from_protobuf_wire (wire_message [(11, WInt 1), (99, WInt 7), (5, WInt 2)])
     = telemetry_from_protobuf_wire (wire_message [(5, WInt 2), (11, WInt 1)])"
proof (rule telemetry_decode_field_order [OF wire_fields_emit wire_fields_emit])
  fix t
  show "filter (\<lambda>f. fst f = telemetry_field_number t) [(11, WInt 1), (99, WInt 7), (5, WInt 2)]
      = filter (\<lambda>f. fst f = telemetry_field_number t) [(5, WInt 2), (11, WInt 1)]"
    by (cases t) simp_all
qed simp_all

text \<open>
  The decoder demands every scalar field: a wire message in which an identifier, the asset
  kind, the time, the position, the heading, the speed, the battery level or the health is
  absent is rejected. A proto3 encoder omits scalar fields that hold their default value, so
  the decoder rejects, for instance, an envelope from such an encoder with heading zero.
\<close>

theorem telemetry_decode_requires_fields:
  assumes "wire_fields p fs" and "required_field t"
    and "\<And>v. (telemetry_field_number t, v) \<notin> set fs"
  shows "\<not> is_ok (telemetry_from_protobuf_wire p)"
proof
  assume "is_ok (telemetry_from_protobuf_wire p)"
  then obtain e where "decode_envelope_message (message_of fs) = Inr e"
    using assms(1) decode_message_iff [of p "message_of fs"]
    by (auto simp: is_ok_iff telemetry_from_protobuf_wire_eq decode_telemetry_envelope_def)
  then have "field_values (message_of fs) (telemetry_field_number t) \<noteq> []"
    using assms(2) by (rule decode_envelope_message_required)
  then show False
    using assms(3) by (auto simp: field_values_message_of filter_empty_conv)
qed

theorem telemetry_decode_requires_fields_witness:
  "\<not> is_ok (telemetry_from_protobuf_wire
     (wire_message (filter (\<lambda>f. fst f \<noteq> 8) (envelope_fields [] [] [] [] [] sample_envelope))))"
proof (rule telemetry_decode_requires_fields [of _ _ TF_HEADING_DEG, OF wire_fields_emit])
  show "list_all wf_field (filter (\<lambda>f. fst f \<noteq> 8) (envelope_fields [] [] [] [] [] sample_envelope))"
    using wf_envelope_fields [OF sample_envelope_encodable, of "[]" "[]" "[]" "[]" "[]"]
    by (auto simp: list_all_iff)
qed auto

end
