(* ===== verification/Gateway_Wire.thy ===== *)
theory Gateway_Wire
  imports Telemetry_Wire
begin

text \<open>
  The messages of the gateway stream: \<open>GatewayStreamRequest\<close> and
  \<open>GatewayStreamResponse\<close> of \<open>backend/modules/protocol_v2/gateway_service.py\<close>
  with the payload selection of \<open>gateway_service_payloads.py\<close> and the field numbers of
  \<open>gateway_service_contract.py\<close>, and the \<open>StreamCommandPayload\<close> of
  \<open>stream_control.py\<close>. The lemmas show that the three classes interpret
  \<open>wire_codec\<close>, when a request is accepted, and how a telemetry envelope travels inside
  a request.
\<close>

section \<open>Contract\<close>

datatype gateway_ack_status = ACK_UNSPECIFIED | ACK_ACCEPTED | ACK_REJECTED | ACK_BACKPRESSURE | ACK_RECONNECT

fun gateway_ack_status_number :: "gateway_ack_status \<Rightarrow> int" where
  "gateway_ack_status_number ACK_UNSPECIFIED = 0"
| "gateway_ack_status_number ACK_ACCEPTED = 1"
| "gateway_ack_status_number ACK_REJECTED = 2"
| "gateway_ack_status_number ACK_BACKPRESSURE = 3"
| "gateway_ack_status_number ACK_RECONNECT = 4"

definition gateway_ack_status_of :: "int \<Rightarrow> wire_error + gateway_ack_status" where
  "gateway_ack_status_of i =
     (if i = 0 then Inr ACK_UNSPECIFIED else if i = 1 then Inr ACK_ACCEPTED
      else if i = 2 then Inr ACK_REJECTED else if i = 3 then Inr ACK_BACKPRESSURE
      else if i = 4 then Inr ACK_RECONNECT else Inl (InvalidEnumValue i))"

definition KIND_TELEMETRY :: string where "KIND_TELEMETRY = ''telemetry''"
definition KIND_STREAM_EVENT :: string where "KIND_STREAM_EVENT = ''stream_event''"
definition KIND_COMMAND_ACK :: string where "KIND_COMMAND_ACK = ''command_ack''"
definition KIND_COMMAND :: string where "KIND_COMMAND = ''command''"
definition KIND_TELEMETRY_BATCH :: string where "KIND_TELEMETRY_BATCH = ''telemetry_batch''"

definition GREQ_REQUEST_ID :: int where "GREQ_REQUEST_ID = 1"
definition GREQ_ORG_ID :: int where "GREQ_ORG_ID = 2"
definition GREQ_GROUP_ID :: int where "GREQ_GROUP_ID = 3"
definition GREQ_ASSET_ID :: int where "GREQ_ASSET_ID = 4"
definition GREQ_TELEMETRY :: int where "GREQ_TELEMETRY = 10"
definition GREQ_STREAM_EVENT :: int where "GREQ_STREAM_EVENT = 11"
definition GREQ_COMMAND_ACK :: int where "GREQ_COMMAND_ACK = 12"

definition GRESP_RESPONSE_ID :: int where "GRESP_RESPONSE_ID = 1"
definition GRESP_REQUEST_ID :: int where "GRESP_REQUEST_ID = 2"
definition GRESP_STATUS :: int where "GRESP_STATUS = 3"
definition GRESP_REASON_CODE :: int where "GRESP_REASON_CODE = 4"
definition GRESP_COMMAND :: int where "GRESP_COMMAND = 10"
definition GRESP_TELEMETRY_BATCH :: int where "GRESP_TELEMETRY_BATCH = 11"

lemmas gateway_contract_defs =
  KIND_TELEMETRY_def KIND_STREAM_EVENT_def KIND_COMMAND_ACK_def KIND_COMMAND_def
  KIND_TELEMETRY_BATCH_def GREQ_REQUEST_ID_def GREQ_ORG_ID_def GREQ_GROUP_ID_def
  GREQ_ASSET_ID_def GREQ_TELEMETRY_def GREQ_STREAM_EVENT_def GREQ_COMMAND_ACK_def
  GRESP_RESPONSE_ID_def GRESP_REQUEST_ID_def GRESP_STATUS_def GRESP_REASON_CODE_def
  GRESP_COMMAND_def GRESP_TELEMETRY_BATCH_def

definition REQUEST_PAYLOAD_FIELDS :: "(string, int) dict" where
  "REQUEST_PAYLOAD_FIELDS =
     [(KIND_TELEMETRY, GREQ_TELEMETRY), (KIND_STREAM_EVENT, GREQ_STREAM_EVENT),
      (KIND_COMMAND_ACK, GREQ_COMMAND_ACK)]"

definition RESPONSE_PAYLOAD_FIELDS :: "(string, int) dict" where
  "RESPONSE_PAYLOAD_FIELDS =
     [(KIND_COMMAND, GRESP_COMMAND), (KIND_TELEMETRY_BATCH, GRESP_TELEMETRY_BATCH)]"

section \<open>Payloads\<close>

record gateway_payload =
  gp_kind :: string
  gp_value :: bytes

definition payload_telemetry :: "bytes \<Rightarrow> gateway_payload" where
  "payload_telemetry value = \<lparr>gp_kind = KIND_TELEMETRY, gp_value = value\<rparr>"

definition payload_stream_event :: "bytes \<Rightarrow> gateway_payload" where
  "payload_stream_event value = \<lparr>gp_kind = KIND_STREAM_EVENT, gp_value = value\<rparr>"

definition payload_command_ack :: "bytes \<Rightarrow> gateway_payload" where
  "payload_command_ack value = \<lparr>gp_kind = KIND_COMMAND_ACK, gp_value = value\<rparr>"

definition request_payload_field :: "string \<Rightarrow> wire_error + int" where
  "request_payload_field kind =
     (case dict_get REQUEST_PAYLOAD_FIELDS kind of
        None \<Rightarrow> Inl UnsupportedPayloadKind | Some field \<Rightarrow> Inr field)"

definition response_payload_field :: "string \<Rightarrow> wire_error + int" where
  "response_payload_field kind =
     (case dict_get RESPONSE_PAYLOAD_FIELDS kind of
        None \<Rightarrow> Inl UnsupportedPayloadKind | Some field \<Rightarrow> Inr field)"

definition request_payload_field_and_kind :: "decoded_message \<Rightarrow> wire_error + (int \<times> string)" where
  "request_payload_field_and_kind decoded =
     (case [(field, kind). (kind, field) \<leftarrow> REQUEST_PAYLOAD_FIELDS, bytes_values decoded field \<noteq> []] of
        [p] \<Rightarrow> Inr p
      | _ \<Rightarrow> Inl PayloadCount)"

definition response_payload :: "decoded_message \<Rightarrow> wire_error + gateway_payload option" where
  "response_payload decoded =
     (let command = bytes_values decoded GRESP_COMMAND;
          telemetry_batch = bytes_values decoded GRESP_TELEMETRY_BATCH
      in if command \<noteq> [] \<and> telemetry_batch \<noteq> [] then Inl PayloadCount
         else if 1 < length command \<or> 1 < length telemetry_batch then Inl PayloadRepeated
         else if command \<noteq> [] then
           Inr (Some \<lparr>gp_kind = KIND_COMMAND, gp_value = hd command\<rparr>)
         else if telemetry_batch \<noteq> [] then
           Inr (Some \<lparr>gp_kind = KIND_TELEMETRY_BATCH, gp_value = hd telemetry_batch\<rparr>)
         else Inr None)"

section \<open>Requests and responses\<close>

record gateway_request =
  gq_request_id :: pytext
  gq_org_id :: pytext
  gq_group_id :: pytext
  gq_asset_id :: pytext
  gq_payload :: gateway_payload

definition gateway_request_to_wire :: "gateway_request \<Rightarrow> wire_error + bytes" where
  "gateway_request_to_wire r =
     run_encoders
       [\<lambda>p. encode_string p GREQ_REQUEST_ID (gq_request_id r),
        \<lambda>p. encode_string p GREQ_ORG_ID (gq_org_id r),
        \<lambda>p. encode_string p GREQ_GROUP_ID (gq_group_id r),
        \<lambda>p. encode_string p GREQ_ASSET_ID (gq_asset_id r),
        \<lambda>p. bind_r (request_payload_field (gp_kind (gq_payload r)))
              (\<lambda>field. encode_bytes p field (gp_value (gq_payload r)))]"

definition gateway_request_of_message :: "decoded_message \<Rightarrow> wire_error + gateway_request" where
  "gateway_request_of_message decoded =
     bind_r (request_payload_field_and_kind decoded) (\<lambda>(payload_field, payload_kind).
     bind_r (single_string decoded GREQ_REQUEST_ID) (\<lambda>request_id.
     bind_r (single_string decoded GREQ_ORG_ID) (\<lambda>org_id.
     bind_r (single_string decoded GREQ_GROUP_ID) (\<lambda>group_id.
     bind_r (single_string decoded GREQ_ASSET_ID) (\<lambda>asset_id.
     bind_r (single_bytes decoded payload_field) (\<lambda>value.
     Inr \<lparr>gq_request_id = request_id, gq_org_id = org_id, gq_group_id = group_id,
          gq_asset_id = asset_id,
          gq_payload = \<lparr>gp_kind = payload_kind, gp_value = value\<rparr>\<rparr>))))))"

definition gateway_request_from_wire :: "bytes \<Rightarrow> wire_error + gateway_request" where
  "gateway_request_from_wire payload = bind_r (decode_message payload) gateway_request_of_message"

record gateway_response =
  gr_response_id :: pytext
  gr_request_id :: pytext
  gr_status :: gateway_ack_status
  gr_reason_code :: pytext
  gr_payload :: "gateway_payload option"

definition gateway_response_to_wire :: "gateway_response \<Rightarrow> wire_error + bytes" where
  "gateway_response_to_wire r =
     run_encoders (
       [\<lambda>p. encode_string p GRESP_RESPONSE_ID (gr_response_id r)]
       @ (if gr_request_id r \<noteq> [] then [\<lambda>p. encode_string p GRESP_REQUEST_ID (gr_request_id r)] else [])
       @ [\<lambda>p. encode_varint_field p GRESP_STATUS (gateway_ack_status_number (gr_status r)),
          \<lambda>p. encode_string p GRESP_REASON_CODE (gr_reason_code r)]
       @ (case gr_payload r of
            None \<Rightarrow> []
          | Some pl \<Rightarrow> [\<lambda>p. bind_r (response_payload_field (gp_kind pl))
                           (\<lambda>field. encode_bytes p field (gp_value pl))]))"

definition gateway_response_of_message :: "decoded_message \<Rightarrow> wire_error + gateway_response" where
  "gateway_response_of_message decoded =
     bind_r (single_string decoded GRESP_RESPONSE_ID) (\<lambda>response_id.
     bind_r (optional_string decoded GRESP_REQUEST_ID) (\<lambda>request_id.
     bind_r (single_int decoded GRESP_STATUS) (\<lambda>status_value.
     bind_r (gateway_ack_status_of status_value) (\<lambda>status.
     bind_r (single_string decoded GRESP_REASON_CODE) (\<lambda>reason_code.
     bind_r (response_payload decoded) (\<lambda>payload.
     Inr \<lparr>gr_response_id = response_id, gr_request_id = request_id, gr_status = status,
          gr_reason_code = reason_code, gr_payload = payload\<rparr>))))))"

definition gateway_response_from_wire :: "bytes \<Rightarrow> wire_error + gateway_response" where
  "gateway_response_from_wire payload = bind_r (decode_message payload) gateway_response_of_message"

section \<open>Stream commands\<close>

definition CMD_COMMAND_ID :: int where "CMD_COMMAND_ID = 1"
definition CMD_STREAM_ID :: int where "CMD_STREAM_ID = 2"
definition CMD_TARGET_ASSET_ID :: int where "CMD_TARGET_ASSET_ID = 3"
definition CMD_COMMAND_TYPE :: int where "CMD_COMMAND_TYPE = 4"
definition CMD_PAYLOAD :: int where "CMD_PAYLOAD = 5"
definition CMD_TIME :: int where "CMD_TIME = 6"

lemmas command_field_defs =
  CMD_COMMAND_ID_def CMD_STREAM_ID_def CMD_TARGET_ASSET_ID_def CMD_COMMAND_TYPE_def
  CMD_PAYLOAD_def CMD_TIME_def

record stream_command =
  sc_command_id :: pytext
  sc_stream_id :: pytext
  sc_target_asset_id :: pytext
  sc_command_type :: pytext
  sc_observed_unix_millis :: int
  sc_payload :: bytes

text \<open>\<open>create\<close>: the fresh identifier and the clock are arguments.\<close>

definition stream_command_create ::
    "pytext \<Rightarrow> int \<Rightarrow> pytext \<Rightarrow> pytext \<Rightarrow> pytext \<Rightarrow> int option \<Rightarrow> stream_command" where
  "stream_command_create new_id now stream_id target_asset_id command_type observed =
     \<lparr>sc_command_id = new_id, sc_stream_id = stream_id, sc_target_asset_id = target_asset_id,
      sc_command_type = command_type, sc_observed_unix_millis = or_now observed now,
      sc_payload = []\<rparr>"

definition stream_command_to_wire :: "stream_command \<Rightarrow> wire_error + bytes" where
  "stream_command_to_wire c =
     run_encoders (
       [\<lambda>p. encode_string p CMD_COMMAND_ID (sc_command_id c),
        \<lambda>p. encode_string p CMD_STREAM_ID (sc_stream_id c),
        \<lambda>p. encode_string p CMD_TARGET_ASSET_ID (sc_target_asset_id c),
        \<lambda>p. encode_string p CMD_COMMAND_TYPE (sc_command_type c)]
       @ (if sc_payload c \<noteq> [] then [\<lambda>p. encode_bytes p CMD_PAYLOAD (sc_payload c)] else [])
       @ [\<lambda>p. bind_r (timestamped_wire (sc_observed_unix_millis c) (sc_observed_unix_millis c))
              (encode_bytes p CMD_TIME)])"

definition stream_command_of_message :: "decoded_message \<Rightarrow> wire_error + stream_command" where
  "stream_command_of_message decoded =
     bind_r (single_message decoded CMD_TIME) (\<lambda>time_message.
     bind_r (single_string decoded CMD_COMMAND_ID) (\<lambda>command_id.
     bind_r (single_string decoded CMD_STREAM_ID) (\<lambda>stream_id.
     bind_r (single_string decoded CMD_TARGET_ASSET_ID) (\<lambda>target_asset_id.
     bind_r (single_string decoded CMD_COMMAND_TYPE) (\<lambda>command_type.
     bind_r (single_int time_message TS_OBSERVED_UNIX_MILLIS) (\<lambda>observed.
     bind_r (single_optional_bytes decoded CMD_PAYLOAD) (\<lambda>payload.
     Inr \<lparr>sc_command_id = command_id, sc_stream_id = stream_id,
          sc_target_asset_id = target_asset_id, sc_command_type = command_type,
          sc_observed_unix_millis = observed, sc_payload = payload\<rparr>)))))))"

definition stream_command_from_wire :: "bytes \<Rightarrow> wire_error + stream_command" where
  "stream_command_from_wire payload = bind_r (decode_message payload) stream_command_of_message"

section \<open>Requests decode to themselves\<close>

lemma gateway_ack_status_roundtrip [simp]:
  "gateway_ack_status_of (gateway_ack_status_number s) = Inr s"
  by (cases s) (simp_all add: gateway_ack_status_of_def)

lemma gateway_ack_status_number_nonneg [simp]: "0 \<le> gateway_ack_status_number s"
  by (cases s) simp_all

lemma request_payload_field_Inr:
  "request_payload_field k = Inr f \<longleftrightarrow>
     k = KIND_TELEMETRY \<and> f = 10 \<or> k = KIND_STREAM_EVENT \<and> f = 11 \<or> k = KIND_COMMAND_ACK \<and> f = 12"
  by (auto simp: request_payload_field_def REQUEST_PAYLOAD_FIELDS_def dict_get_def
      gateway_contract_defs)

lemma response_payload_field_Inr:
  "response_payload_field k = Inr f \<longleftrightarrow>
     k = KIND_COMMAND \<and> f = 10 \<or> k = KIND_TELEMETRY_BATCH \<and> f = 11"
  by (auto simp: response_payload_field_def RESPONSE_PAYLOAD_FIELDS_def dict_get_def
      gateway_contract_defs)

lemma encode_bytes_field_emits:
  "0 \<le> n \<Longrightarrow> m = Inr n \<Longrightarrow> emits (\<lambda>p. bind_r m (\<lambda>field. encode_bytes p field b)) (n, WBytes b)"
  by (simp add: emits_def encode_bytes_emit)

lemma gateway_request_encoded:
  assumes "gateway_request_to_wire r = Inr b"
  obtains b1 b2 b3 b4 f where
    "utf8_encode (gq_request_id r) = Inr b1" "utf8_encode (gq_org_id r) = Inr b2"
    "utf8_encode (gq_group_id r) = Inr b3" "utf8_encode (gq_asset_id r) = Inr b4"
    "request_payload_field (gp_kind (gq_payload r)) = Inr f"
proof -
  note run = run_encoders_Inr [OF assms [unfolded gateway_request_to_wire_def]]
  have "encodable (gq_request_id r)" "encodable (gq_org_id r)" "encodable (gq_group_id r)"
    "encodable (gq_asset_id r)"
    using run [of "\<lambda>p. encode_string p GREQ_REQUEST_ID (gq_request_id r)"]
      run [of "\<lambda>p. encode_string p GREQ_ORG_ID (gq_org_id r)"]
      run [of "\<lambda>p. encode_string p GREQ_GROUP_ID (gq_group_id r)"]
      run [of "\<lambda>p. encode_string p GREQ_ASSET_ID (gq_asset_id r)"]
    by (auto dest: encode_string_Inr)
  moreover have "\<exists>f. request_payload_field (gp_kind (gq_payload r)) = Inr f"
    using run [of "\<lambda>p. bind_r (request_payload_field (gp_kind (gq_payload r)))
              (\<lambda>field. encode_bytes p field (gp_value (gq_payload r)))"]
    by (auto simp: bind_r_eq_Inr)
  ultimately show thesis by (meson that encodable_Inr)
qed

definition gateway_request_fields ::
    "bytes \<Rightarrow> bytes \<Rightarrow> bytes \<Rightarrow> bytes \<Rightarrow> int \<Rightarrow> bytes \<Rightarrow> (int \<times> wire_value) list" where
  "gateway_request_fields b1 b2 b3 b4 f v =
     [(1, WBytes b1), (2, WBytes b2), (3, WBytes b3), (4, WBytes b4), (f, WBytes v)]"

lemma gateway_request_emit:
  assumes "utf8_encode (gq_request_id r) = Inr b1" "utf8_encode (gq_org_id r) = Inr b2"
    "utf8_encode (gq_group_id r) = Inr b3" "utf8_encode (gq_asset_id r) = Inr b4"
    "request_payload_field (gp_kind (gq_payload r)) = Inr f"
  shows "gateway_request_to_wire r
      = Inr (wire_message (gateway_request_fields b1 b2 b3 b4 f (gp_value (gq_payload r))))"
    and "gateway_request_of_message
      (message_of (gateway_request_fields b1 b2 b3 b4 f (gp_value (gq_payload r)))) = Inr r"
proof -
  have f: "0 \<le> f" using assms(5) by (auto simp: request_payload_field_Inr)
  show "gateway_request_to_wire r
      = Inr (wire_message (gateway_request_fields b1 b2 b3 b4 f (gp_value (gq_payload r))))"
    unfolding gateway_request_to_wire_def gateway_request_fields_def
    using assms f
    by (intro run_encoders_emit)
      (auto intro!: step_emits encode_bytes_field_emits simp: gateway_contract_defs)
  show "gateway_request_of_message
      (message_of (gateway_request_fields b1 b2 b3 b4 f (gp_value (gq_payload r)))) = Inr r"
    using assms
    by (auto simp: request_payload_field_Inr gateway_request_of_message_def
        gateway_request_fields_def request_payload_field_and_kind_def REQUEST_PAYLOAD_FIELDS_def
        wire_access gateway_contract_defs utf8_decode_encode)
qed

lemma gateway_request_roundtrip:
  assumes "gateway_request_to_wire r = Inr b"
  shows "gateway_request_from_wire b = Inr r"
proof -
  from gateway_request_encoded [OF assms] obtain b1 b2 b3 b4 f where e:
    "utf8_encode (gq_request_id r) = Inr b1" "utf8_encode (gq_org_id r) = Inr b2"
    "utf8_encode (gq_group_id r) = Inr b3" "utf8_encode (gq_asset_id r) = Inr b4"
    "request_payload_field (gp_kind (gq_payload r)) = Inr f" .
  from gateway_request_emit [OF e] assms
  have b: "b = wire_message (gateway_request_fields b1 b2 b3 b4 f (gp_value (gq_payload r)))"
    and d: "gateway_request_of_message
        (message_of (gateway_request_fields b1 b2 b3 b4 f (gp_value (gq_payload r)))) = Inr r"
    by simp_all
  moreover have "list_all wf_field (gateway_request_fields b1 b2 b3 b4 f (gp_value (gq_payload r)))"
    using e(5) by (auto simp: gateway_request_fields_def request_payload_field_Inr)
  ultimately show ?thesis by (simp add: gateway_request_from_wire_def)
qed

interpretation gateway_request_codec: wire_codec gateway_request_to_wire gateway_request_from_wire
  by unfold_locales (rule gateway_request_roundtrip)

section \<open>Responses decode to themselves\<close>

definition gateway_response_fields ::
    "bytes \<Rightarrow> bytes \<Rightarrow> bytes \<Rightarrow> int \<Rightarrow> gateway_response \<Rightarrow> (int \<times> wire_value) list" where
  "gateway_response_fields b1 b2 b3 f r =
     [(1, WBytes b1)] @ (if gr_request_id r \<noteq> [] then [(2, WBytes b2)] else [])
     @ [(3, WInt (gateway_ack_status_number (gr_status r))), (4, WBytes b3)]
     @ (case gr_payload r of None \<Rightarrow> [] | Some pl \<Rightarrow> [(f, WBytes (gp_value pl))])"

lemma gateway_response_encoded:
  assumes "gateway_response_to_wire r = Inr b"
  obtains b1 b2 b3 f where
    "utf8_encode (gr_response_id r) = Inr b1" "utf8_encode (gr_request_id r) = Inr b2"
    "utf8_encode (gr_reason_code r) = Inr b3"
    "\<And>pl. gr_payload r = Some pl \<Longrightarrow> response_payload_field (gp_kind pl) = Inr f"
proof -
  note run = run_encoders_Inr [OF assms [unfolded gateway_response_to_wire_def]]
  have "encodable (gr_response_id r)" "encodable (gr_reason_code r)"
    using run [of "\<lambda>p. encode_string p GRESP_RESPONSE_ID (gr_response_id r)"]
      run [of "\<lambda>p. encode_string p GRESP_REASON_CODE (gr_reason_code r)"]
    by (auto dest: encode_string_Inr)
  moreover have "encodable (gr_request_id r)"
    using run [of "\<lambda>p. encode_string p GRESP_REQUEST_ID (gr_request_id r)"]
    by (cases "gr_request_id r = []") (auto simp: encodable_def dest: encode_string_Inr)
  moreover have "\<exists>f. \<forall>pl. gr_payload r = Some pl \<longrightarrow> response_payload_field (gp_kind pl) = Inr f"
  proof (cases "gr_payload r")
    case (Some pl)
    then show ?thesis
      using run [of "\<lambda>p. bind_r (response_payload_field (gp_kind pl))
              (\<lambda>field. encode_bytes p field (gp_value pl))"]
      by (auto simp: bind_r_eq_Inr)
  qed simp
  ultimately show thesis by (meson that encodable_Inr)
qed

lemma gateway_response_emit:
  assumes "utf8_encode (gr_response_id r) = Inr b1" "utf8_encode (gr_request_id r) = Inr b2"
    "utf8_encode (gr_reason_code r) = Inr b3"
    "\<And>pl. gr_payload r = Some pl \<Longrightarrow> response_payload_field (gp_kind pl) = Inr f"
  shows "gateway_response_to_wire r = Inr (wire_message (gateway_response_fields b1 b2 b3 f r))"
    and "gateway_response_of_message (message_of (gateway_response_fields b1 b2 b3 f r)) = Inr r"
proof -
  show "gateway_response_to_wire r = Inr (wire_message (gateway_response_fields b1 b2 b3 f r))"
    unfolding gateway_response_to_wire_def gateway_response_fields_def
    using assms
    by (intro run_encoders_emit list_all2_appendI)
      (auto intro!: step_emits encode_bytes_field_emits
        simp: gateway_contract_defs response_payload_field_Inr split: option.split)
  show "gateway_response_of_message (message_of (gateway_response_fields b1 b2 b3 f r)) = Inr r"
    using assms
    by (cases "gr_payload r")
      (auto simp: response_payload_field_Inr gateway_response_of_message_def
        gateway_response_fields_def response_payload_def Let_def
        wire_access gateway_contract_defs utf8_decode_encode)
qed

lemma gateway_response_roundtrip:
  assumes "gateway_response_to_wire r = Inr b"
  shows "gateway_response_from_wire b = Inr r"
proof -
  from gateway_response_encoded [OF assms] obtain b1 b2 b3 f where e:
    "utf8_encode (gr_response_id r) = Inr b1" "utf8_encode (gr_request_id r) = Inr b2"
    "utf8_encode (gr_reason_code r) = Inr b3"
    "\<And>pl. gr_payload r = Some pl \<Longrightarrow> response_payload_field (gp_kind pl) = Inr f" by metis
  have "list_all wf_field (gateway_response_fields b1 b2 b3 f r)"
    using e(4) by (auto simp: gateway_response_fields_def response_payload_field_Inr split: option.split)
  with gateway_response_emit [OF e] assms show ?thesis
    by (simp add: gateway_response_from_wire_def)
qed

interpretation gateway_response_codec: wire_codec gateway_response_to_wire gateway_response_from_wire
  by unfold_locales (rule gateway_response_roundtrip)

section \<open>Stream commands decode to themselves\<close>

definition stream_command_fields ::
    "bytes \<Rightarrow> bytes \<Rightarrow> bytes \<Rightarrow> bytes \<Rightarrow> stream_command \<Rightarrow> (int \<times> wire_value) list" where
  "stream_command_fields b1 b2 b3 b4 c =
     [(1, WBytes b1), (2, WBytes b2), (3, WBytes b3), (4, WBytes b4)]
     @ (if sc_payload c \<noteq> [] then [(5, WBytes (sc_payload c))] else [])
     @ [(6, WBytes (wire_message
           [(TS_OBSERVED_UNIX_MILLIS, WInt (sc_observed_unix_millis c)),
            (TS_RECEIVED_UNIX_MILLIS, WInt (sc_observed_unix_millis c))]))]"

lemma stream_command_encoded:
  assumes "stream_command_to_wire c = Inr b"
  obtains b1 b2 b3 b4 where
    "utf8_encode (sc_command_id c) = Inr b1" "utf8_encode (sc_stream_id c) = Inr b2"
    "utf8_encode (sc_target_asset_id c) = Inr b3" "utf8_encode (sc_command_type c) = Inr b4"
    "0 \<le> sc_observed_unix_millis c"
proof -
  note run = run_encoders_Inr [OF assms [unfolded stream_command_to_wire_def]]
  have "encodable (sc_command_id c)" "encodable (sc_stream_id c)" "encodable (sc_target_asset_id c)"
    "encodable (sc_command_type c)"
    using run [of "\<lambda>p. encode_string p CMD_COMMAND_ID (sc_command_id c)"]
      run [of "\<lambda>p. encode_string p CMD_STREAM_ID (sc_stream_id c)"]
      run [of "\<lambda>p. encode_string p CMD_TARGET_ASSET_ID (sc_target_asset_id c)"]
      run [of "\<lambda>p. encode_string p CMD_COMMAND_TYPE (sc_command_type c)"]
    by (auto dest: encode_string_Inr)
  moreover have "0 \<le> sc_observed_unix_millis c"
    using run [of "\<lambda>p. bind_r (timestamped_wire (sc_observed_unix_millis c) (sc_observed_unix_millis c))
        (encode_bytes p CMD_TIME)"]
    by (auto simp: bind_r_eq_Inr dest: timestamped_wire_Inr)
  ultimately show thesis by (meson that encodable_Inr)
qed

lemma stream_command_emit:
  assumes "utf8_encode (sc_command_id c) = Inr b1" "utf8_encode (sc_stream_id c) = Inr b2"
    "utf8_encode (sc_target_asset_id c) = Inr b3" "utf8_encode (sc_command_type c) = Inr b4"
    "0 \<le> sc_observed_unix_millis c"
  shows "stream_command_to_wire c = Inr (wire_message (stream_command_fields b1 b2 b3 b4 c))"
    and "stream_command_of_message (message_of (stream_command_fields b1 b2 b3 b4 c)) = Inr c"
proof -
  show "stream_command_to_wire c = Inr (wire_message (stream_command_fields b1 b2 b3 b4 c))"
    unfolding stream_command_to_wire_def stream_command_fields_def
    using assms
    by (intro run_encoders_emit list_all2_appendI)
      (auto intro!: step_emits simp: command_field_defs timestamped_wire_emit)
  show "stream_command_of_message (message_of (stream_command_fields b1 b2 b3 b4 c)) = Inr c"
    using assms
    by (simp add: stream_command_of_message_def stream_command_fields_def
        wire_access command_field_defs timestamped_field_defs utf8_decode_encode)
qed

lemma stream_command_roundtrip:
  assumes "stream_command_to_wire c = Inr b"
  shows "stream_command_from_wire b = Inr c"
proof -
  from stream_command_encoded [OF assms] obtain b1 b2 b3 b4 where e:
    "utf8_encode (sc_command_id c) = Inr b1" "utf8_encode (sc_stream_id c) = Inr b2"
    "utf8_encode (sc_target_asset_id c) = Inr b3" "utf8_encode (sc_command_type c) = Inr b4"
    "0 \<le> sc_observed_unix_millis c" .
  have "list_all wf_field (stream_command_fields b1 b2 b3 b4 c)"
    by (simp add: stream_command_fields_def)
  with stream_command_emit [OF e] assms show ?thesis
    by (simp add: stream_command_from_wire_def)
qed

interpretation stream_command_codec: wire_codec stream_command_to_wire stream_command_from_wire
  by unfold_locales (rule stream_command_roundtrip)

section \<open>Messages inside gateway messages\<close>

definition telemetry_request ::
    "pytext \<Rightarrow> pytext \<Rightarrow> pytext \<Rightarrow> pytext \<Rightarrow> bytes \<Rightarrow> gateway_request" where
  "telemetry_request request_id org_id group_id asset_id value =
     \<lparr>gq_request_id = request_id, gq_org_id = org_id, gq_group_id = group_id,
      gq_asset_id = asset_id, gq_payload = payload_telemetry value\<rparr>"

definition telemetry_of_request :: "gateway_request \<Rightarrow> bytes option" where
  "telemetry_of_request r =
     (if gp_kind (gq_payload r) = KIND_TELEMETRY then Some (gp_value (gq_payload r)) else None)"

definition command_response :: "pytext \<Rightarrow> pytext \<Rightarrow> pytext \<Rightarrow> bytes \<Rightarrow> gateway_response" where
  "command_response response_id request_id reason_code value =
     \<lparr>gr_response_id = response_id, gr_request_id = request_id, gr_status = ACK_ACCEPTED,
      gr_reason_code = reason_code,
      gr_payload = Some \<lparr>gp_kind = KIND_COMMAND, gp_value = value\<rparr>\<rparr>"

definition command_of_response :: "gateway_response \<Rightarrow> bytes option" where
  "command_of_response r =
     (case gr_payload r of
        None \<Rightarrow> None
      | Some pl \<Rightarrow> if gp_kind pl = KIND_COMMAND then Some (gp_value pl) else None)"

interpretation request_telemetry: nested_codec gateway_request_to_wire gateway_request_from_wire
    telemetry_to_protobuf_wire telemetry_from_protobuf_wire
    "telemetry_request request_id org_id group_id asset_id" telemetry_of_request
  for request_id org_id group_id asset_id
  by unfold_locales (simp add: telemetry_request_def telemetry_of_request_def payload_telemetry_def)

interpretation response_command: nested_codec gateway_response_to_wire gateway_response_from_wire
    stream_command_to_wire stream_command_from_wire
    "command_response response_id request_id reason_code" command_of_response
  for response_id request_id reason_code
  by unfold_locales (simp add: command_response_def command_of_response_def)

section \<open>Which requests are accepted\<close>

definition request_payload_values :: "(int \<times> wire_value) list \<Rightarrow> (int \<times> bytes) list" where
  "request_payload_values fs =
     List.map_filter (\<lambda>(n, v). case v of
        WBytes b \<Rightarrow> if n \<in> {10, 11, 12} then Some (n, b) else None | _ \<Rightarrow> None) fs"

lemma request_payload_values_length:
  "length (request_payload_values fs)
     = length (bytes_values (message_of fs) 10) + length (bytes_values (message_of fs) 11)
       + length (bytes_values (message_of fs) 12)"
proof (induction fs)
  case (Cons f fs)
  then show ?case
    by (cases f; cases "snd f")
      (auto simp: request_payload_values_def bytes_values_message_of List.map_filter_simps)
qed (simp add: request_payload_values_def bytes_values_message_of List.map_filter_simps)

lemma single_bytes_Inr: "single_bytes m n = Inr b \<longleftrightarrow> bytes_values m n = [b]"
  by (auto simp: single_bytes_def split: list.splits)

lemma gateway_request_of_message_one_payload:
  assumes "gateway_request_of_message m = Inr r"
  shows "length (bytes_values m 10) + length (bytes_values m 11) + length (bytes_values m 12) = 1"
proof -
  from assms obtain n k b where k: "request_payload_field_and_kind m = Inr (n, k)"
    and b: "bytes_values m n = [b]"
    by (auto simp: gateway_request_of_message_def bind_r_eq_Inr single_bytes_Inr)
  from k have "n = 10 \<and> bytes_values m 11 = [] \<and> bytes_values m 12 = []
      \<or> n = 11 \<and> bytes_values m 10 = [] \<and> bytes_values m 12 = []
      \<or> n = 12 \<and> bytes_values m 10 = [] \<and> bytes_values m 11 = []"
    by (auto simp: request_payload_field_and_kind_def REQUEST_PAYLOAD_FIELDS_def
        gateway_contract_defs split: if_splits)
  with b show ?thesis by auto
qed

lemma gateway_response_of_message_status:
  assumes "gateway_response_of_message m = Inr r"
  shows "\<exists>i. field_values m 3 = [WInt i] \<and> 0 \<le> i \<and> i \<le> 4 \<and> i = gateway_ack_status_number (gr_status r)"
  using assms
  by (auto simp: gateway_response_of_message_def bind_r_eq_Inr single_int_def gateway_contract_defs
      gateway_ack_status_of_def split: list.splits wire_value.splits if_splits)

section \<open>Properties\<close>

text \<open>
  C18: A telemetry envelope sent inside a gateway request arrives: when the envelope encodes to
  \<open>b\<close> and the request that carries \<open>b\<close> encodes to \<open>p\<close>, decoding
  \<open>p\<close> gives a request whose telemetry payload is \<open>b\<close>, and decoding \<open>b\<close>
  gives the envelope.
\<close>

theorem gateway_telemetry_delivery:
  assumes "telemetry_to_protobuf_wire e = Inr b"
    and "gateway_request_to_wire (telemetry_request rid org grp asset b) = Inr p"
  shows "\<exists>r. gateway_request_from_wire p = Inr r \<and> telemetry_of_request r = Some b \<and>
     telemetry_from_protobuf_wire b = Inr e"
  using assms by (rule request_telemetry.nested_roundtrip)

lemma telemetry_request_encodes:
  "\<exists>p. gateway_request_to_wire (telemetry_request [] [] [] [] b) = Inr p"
  using gateway_request_emit(1) [of "telemetry_request [] [] [] [] b" "[]" "[]" "[]" "[]" 10]
  by (simp add: telemetry_request_def payload_telemetry_def request_payload_field_Inr utf8_encode_def)

theorem gateway_telemetry_delivery_witness:
  "\<exists>b p r. telemetry_to_protobuf_wire sample_envelope = Inr b \<and>
     gateway_request_to_wire (telemetry_request [] [] [] [] b) = Inr p \<and>
     gateway_request_from_wire p = Inr r \<and> telemetry_of_request r = Some b \<and>
     telemetry_from_protobuf_wire b = Inr sample_envelope"
proof -
  obtain b where b: "telemetry_to_protobuf_wire sample_envelope = Inr b"
    using envelope_roundtrip [OF sample_envelope_encodable]
    by (auto simp: telemetry_to_protobuf_wire_def)
  obtain p where "gateway_request_to_wire (telemetry_request [] [] [] [] b) = Inr p"
    using telemetry_request_encodes by blast
  with b gateway_telemetry_delivery [OF b this] show ?thesis by blast
qed

text \<open>
  A gateway response decodes to itself, with or without a request identifier (an empty one
  is left off the wire) and with or without a command or telemetry batch.
\<close>

theorem gateway_response_wire_roundtrip:
  "gateway_response_to_wire r = Inr b \<Longrightarrow> gateway_response_from_wire b = Inr r"
  by (rule gateway_response_codec.roundtrip)

theorem gateway_response_wire_roundtrip_witness:
  "\<exists>b. gateway_response_to_wire (command_response [] [] [] [1, 2]) = Inr b \<and>
     gateway_response_from_wire b = Inr (command_response [] [] [] [1, 2])"
proof -
  let ?r = "command_response [] [] [] [1, 2]"
  have "\<exists>b. gateway_response_to_wire ?r = Inr b"
    using gateway_response_emit(1) [of ?r "[]" "[]" "[]" 10]
    by (simp add: command_response_def response_payload_field_Inr utf8_encode_def)
  then obtain b where "gateway_response_to_wire ?r = Inr b" by blast
  with gateway_response_wire_roundtrip [OF this] show ?thesis by blast
qed

text \<open>
  A gateway request is accepted only if its wire message holds exactly one payload value
  among telemetry, stream event and command acknowledgement: none, two kinds, or one kind
  twice are rejected.
\<close>

theorem gateway_request_one_payload:
  assumes "wire_fields p fs" and "length (request_payload_values fs) \<noteq> 1"
  shows "\<not> is_ok (gateway_request_from_wire p)"
proof
  assume "is_ok (gateway_request_from_wire p)"
  then obtain r where "gateway_request_of_message (message_of fs) = Inr r"
    using assms(1) decode_message_iff [of p "message_of fs"]
    by (auto simp: is_ok_iff gateway_request_from_wire_def)
  from gateway_request_of_message_one_payload [OF this] assms(2) show False
    by (simp add: request_payload_values_length)
qed

theorem gateway_request_one_payload_witness:
  "\<not> is_ok (gateway_request_from_wire (wire_message
     (gateway_request_fields [] [] [] [] 10 [1] @ [(12, WBytes [])])))"
  by (rule gateway_request_one_payload [OF wire_fields_emit])
    (simp_all add: gateway_request_fields_def request_payload_values_def List.map_filter_simps)

text \<open>
  The status of a decoded gateway response is the one on the wire and one of the five
  of the contract: a response whose status field holds any other number is rejected.
\<close>

theorem gateway_response_status_known:
  assumes "wire_fields p fs" and "gateway_response_from_wire p = Inr r"
  shows "\<exists>i. filter (\<lambda>f. fst f = 3) fs = [(3, WInt i)] \<and> 0 \<le> i \<and> i \<le> 4 \<and>
     i = gateway_ack_status_number (gr_status r)"
proof -
  have "gateway_response_of_message (message_of fs) = Inr r"
    using assms decode_message_iff [of p "message_of fs"]
    by (auto simp: gateway_response_from_wire_def)
  from gateway_response_of_message_status [OF this] obtain i where
    "map snd (filter (\<lambda>f. fst f = 3) fs) = [WInt i]" "0 \<le> i" "i \<le> 4"
    "i = gateway_ack_status_number (gr_status r)" by (auto simp: field_values_message_of)
  moreover have "\<forall>f\<in>set (filter (\<lambda>f. fst f = 3) fs). fst f = 3" by simp
  ultimately show ?thesis by (fastforce simp: map_eq_Cons_conv)
qed

theorem gateway_response_status_known_witness:
  "\<exists>i. filter (\<lambda>f. fst f = 3) (gateway_response_fields [] [] [] 10 (command_response [] [] [] [1]))
       = [(3, WInt i)] \<and> 0 \<le> i \<and> i \<le> 4 \<and>
     i = gateway_ack_status_number (gr_status (command_response [] [] [] [1]))"
proof -
  let ?r = "command_response [] [] [] [1]"
  let ?fs = "gateway_response_fields [] [] [] 10 ?r"
  have wf: "list_all wf_field ?fs" by (simp add: gateway_response_fields_def command_response_def)
  have "gateway_response_from_wire (wire_message ?fs) = Inr ?r"
    using wf gateway_response_emit(2) [of ?r "[]" "[]" "[]" 10]
    by (simp add: gateway_response_from_wire_def command_response_def response_payload_field_Inr
        utf8_encode_def)
  from gateway_response_status_known [OF wire_fields_emit [OF wf] this] show ?thesis .
qed

end
