(* ===== verification/Float64.thy ===== *)
theory Float64
  imports Wire "HOL-Library.Log_Nat"
begin

text \<open>
  Python's \<open>float\<close> (IEEE 754 binary64) as far as the sources compute with it: the value of
  a bit pattern, rounding of an exact rational to the nearest double with ties to even,
  addition, subtraction, comparison, true division of integers, truncation by
  \<open>int\<close> and \<open>round(x, 6)\<close>. A finite value is the rational it denotes; the two zeros
  are not distinguished. The lemmas show that rounding is the identity on doubles and
  monotone, from which the bounds of the components follow.
\<close>

section \<open>Rounding\<close>

definition half_even :: "rat \<Rightarrow> int" where
  "half_even q =
     (let n = \<lfloor>q\<rfloor>; d = q - of_int n
      in if d < 1 / 2 then n else if 1 / 2 < d then n + 1 else if even n then n else n + 1)"

definition floor_log2 :: "rat \<Rightarrow> int" where
  "floor_log2 q =
     (let (p, r) = quotient_of q; k = bitlen p - bitlen r
      in if 2 powi k \<le> q then k else k - 1)"

definition ulp_exponent :: "rat \<Rightarrow> int" where
  "ulp_exponent q = max (floor_log2 q - 52) (- 1074)"

definition round_pos :: "rat \<Rightarrow> rat" where
  "round_pos q = of_int (half_even (q / 2 powi ulp_exponent q)) * 2 powi ulp_exponent q"

definition round64 :: "rat \<Rightarrow> rat" where
  "round64 q = (if q = 0 then 0 else if 0 < q then round_pos q else - round_pos (- q))"

definition double64 :: "rat \<Rightarrow> bool" where
  "double64 x \<longleftrightarrow> (\<exists>m e. x = of_int m * 2 powi e \<and> \<bar>m\<bar> < 2 ^ 53 \<and> - 1074 \<le> e)"

section \<open>Values\<close>

datatype pyfloat = Fin rat | PInf | NInf | NaN

definition mk_float :: "rat \<Rightarrow> pyfloat" where
  "mk_float q =
     (let r = round64 q in if 2 ^ 1024 \<le> r then PInf else if r \<le> - (2 ^ 1024) then NInf else Fin r)"

definition float_of_bits :: "f64 \<Rightarrow> pyfloat" where
  "float_of_bits w =
     (let u = uint w; sign = u div 2 ^ 63; e = u div 2 ^ 52 mod 2 ^ 11; m = u mod 2 ^ 52;
          v = (if e = 0 then of_int m * 2 powi (- 1074)
               else of_int (2 ^ 52 + m) * 2 powi (e - 1075)) :: rat
      in if e = 2047 then (if m \<noteq> 0 then NaN else if sign = 1 then NInf else PInf)
         else Fin (if sign = 1 then - v else v))"

fun flt :: "pyfloat \<Rightarrow> pyfloat \<Rightarrow> bool" where
  "flt (Fin a) (Fin b) = (a < b)"
| "flt (Fin a) PInf = True"
| "flt NInf (Fin b) = True"
| "flt NInf PInf = True"
| "flt _ _ = False"

fun fle :: "pyfloat \<Rightarrow> pyfloat \<Rightarrow> bool" where
  "fle NaN _ = False"
| "fle _ NaN = False"
| "fle x y = (\<not> flt y x)"

fun fneg :: "pyfloat \<Rightarrow> pyfloat" where
  "fneg (Fin a) = Fin (- a)"
| "fneg PInf = NInf"
| "fneg NInf = PInf"
| "fneg NaN = NaN"

fun fadd :: "pyfloat \<Rightarrow> pyfloat \<Rightarrow> pyfloat" where
  "fadd (Fin a) (Fin b) = mk_float (a + b)"
| "fadd NaN _ = NaN"
| "fadd _ NaN = NaN"
| "fadd PInf NInf = NaN"
| "fadd NInf PInf = NaN"
| "fadd PInf _ = PInf"
| "fadd _ PInf = PInf"
| "fadd NInf _ = NInf"
| "fadd _ NInf = NInf"

definition fsub :: "pyfloat \<Rightarrow> pyfloat \<Rightarrow> pyfloat" where
  "fsub x y = fadd x (fneg y)"

text \<open>\<open>round(x, 6)\<close>: the double nearest to the exact value rounded half-even at six decimals.\<close>

fun fround6 :: "pyfloat \<Rightarrow> pyfloat" where
  "fround6 (Fin a) = mk_float (of_int (half_even (a * 10 ^ 6)) / 10 ^ 6)"
| "fround6 x = x"

text \<open>
  \<open>int(n / d)\<close> for integers, \<open>d\<close> not zero: the correctly rounded quotient, truncated
  towards zero; \<open>None\<close> is the \<open>OverflowError\<close> of a quotient beyond the doubles.
\<close>

definition trunc_rat :: "rat \<Rightarrow> int" where
  "trunc_rat q = (if 0 \<le> q then \<lfloor>q\<rfloor> else \<lceil>q\<rceil>)"

definition int_truediv :: "int \<Rightarrow> int \<Rightarrow> int option" where
  "int_truediv n d =
     (let q = round64 (of_int n / of_int d)
      in if 2 ^ 1024 \<le> \<bar>q\<bar> then None else Some (trunc_rat q))"

section \<open>Half-even rounding\<close>

lemma half_even_of_int [simp]: "half_even (of_int n) = n"
  by (simp add: half_even_def)

lemma half_even_bounds: "\<lfloor>q\<rfloor> \<le> half_even q \<and> half_even q \<le> \<lfloor>q\<rfloor> + 1"
  by (auto simp: half_even_def Let_def)

lemma half_even_cases:
  "half_even q = \<lfloor>q\<rfloor> \<and> q - of_int \<lfloor>q\<rfloor> \<le> 1 / 2 \<or> half_even q = \<lfloor>q\<rfloor> + 1 \<and> 1 / 2 \<le> q - of_int \<lfloor>q\<rfloor>"
  by (auto simp: half_even_def Let_def)

lemma half_even_mono:
  assumes "p \<le> q"
  shows "half_even p \<le> half_even q"
proof (cases "\<lfloor>p\<rfloor> = \<lfloor>q\<rfloor>")
  case True
  with assms show ?thesis by (auto simp: half_even_def Let_def)
next
  case False
  then have "\<lfloor>p\<rfloor> + 1 \<le> \<lfloor>q\<rfloor>" using floor_mono [OF assms] by simp
  then show ?thesis using half_even_bounds [of p] half_even_bounds [of q] by simp
qed

lemma half_even_le_int: "q \<le> of_int n \<Longrightarrow> half_even q \<le> n"
  using half_even_mono [of q "of_int n"] by simp

lemma int_le_half_even: "of_int n \<le> q \<Longrightarrow> n \<le> half_even q"
  using half_even_mono [of "of_int n" q] by simp

lemma half_even_uminus [simp]: "half_even (- q) = - half_even q"
proof (cases "q = of_int \<lfloor>q\<rfloor>")
  case True
  then show ?thesis by (metis half_even_of_int of_int_minus)
next
  case False
  then have f: "\<lfloor>- q\<rfloor> = - \<lfloor>q\<rfloor> - 1"
    by (simp add: floor_minus ceiling_altdef)
  show ?thesis unfolding half_even_def Let_def f by auto
qed

section \<open>The exponent\<close>

lemma bitlen_pow:
  assumes "0 < p"
  shows "(2 :: rat) powi (bitlen p - 1) \<le> of_int p" "of_int p < (2 :: rat) powi bitlen p"
proof -
  obtain b where b: "bitlen p = int b + 1"
    using assms bitlen_bounds by (metis add.commute diff_add_cancel bitlen_nonneg bitlen_eq_zero_iff
        nonneg_int_cases zle_iff_zadd zless_imp_add1_zle add_0 less_le not_less)
  have "2 ^ nat (bitlen p - 1) \<le> p \<and> p < 2 ^ nat (bitlen p)" using assms bitlen_bounds by blast
  then have "2 ^ b \<le> p" "p < 2 ^ (b + 1)" using b by (simp_all add: nat_add_distrib)
  then have "(2 :: rat) ^ b \<le> of_int p" "of_int p < (2 :: rat) ^ (b + 1)"
    by (metis of_int_le_iff of_int_numeral of_int_power, metis of_int_less_iff of_int_numeral of_int_power)
  then show "(2 :: rat) powi (bitlen p - 1) \<le> of_int p" "of_int p < (2 :: rat) powi bitlen p"
    using b by (simp_all add: power_int_add)
qed


lemma floor_log2_bounds:
  assumes "0 < q"
  shows "2 powi floor_log2 q \<le> q" "q < 2 powi (floor_log2 q + 1)"
proof -
  obtain p r where pr: "quotient_of q = (p, r)" by (cases "quotient_of q")
  have r: "0 < r" using quotient_of_denom_pos [OF pr] .
  have q: "q = of_int p / of_int r" using quotient_of_div [OF pr] .
  have p: "0 < p" using assms r q by (simp add: zero_less_divide_iff)
  define k where "k = bitlen p - bitlen r"
  have "q < 2 powi bitlen p / 2 powi (bitlen r - 1)"
    unfolding q using bitlen_pow [OF p] bitlen_pow [OF r] r p by (intro frac_less) simp_all
  also have "\<dots> = 2 powi (k + 1)" by (simp add: k_def power_int_diff power_int_add)
  finally have up: "q < 2 powi (k + 1)" .
  have "2 powi (bitlen p - 1) / 2 powi bitlen r \<le> q"
    unfolding q using bitlen_pow [OF p] bitlen_pow [OF r] r p by (intro frac_le) simp_all
  then have lo: "2 powi (k - 1) \<le> q" by (simp add: k_def power_int_diff)
  have "floor_log2 q = (if 2 powi k \<le> q then k else k - 1)"
    by (simp add: floor_log2_def pr k_def)
  with up lo show "2 powi floor_log2 q \<le> q" "q < 2 powi (floor_log2 q + 1)"
    by (auto simp: not_le)
qed

lemma powi2_mono: "i \<le> j \<Longrightarrow> (2 :: rat) powi i \<le> 2 powi j"
  by (simp add: power_int_increasing)

lemma powi2_less_iff: "(2 :: rat) powi i < 2 powi j \<longleftrightarrow> i < j"
  by (meson one_less_numeral_iff powi2_mono power_int_strict_increasing not_le semiring_norm(76))

lemma floor_log2_le: "0 < q \<Longrightarrow> q < 2 powi (k + 1) \<Longrightarrow> floor_log2 q \<le> k"
  using floor_log2_bounds(1) [of q] powi2_less_iff [of "floor_log2 q" "k + 1"] by simp

lemma floor_log2_mono:
  assumes "0 < p" "p \<le> q"
  shows "floor_log2 p \<le> floor_log2 q"
proof -
  have "q < 2 powi (floor_log2 q + 1)" using floor_log2_bounds(2) assms by simp
  then show ?thesis using assms by (intro floor_log2_le) simp_all
qed

lemma ulp_exponent_mono: "0 < p \<Longrightarrow> p \<le> q \<Longrightarrow> ulp_exponent p \<le> ulp_exponent q"
  using floor_log2_mono [of p q] by (auto simp: ulp_exponent_def)

lemma powi2_int:
  assumes "e \<le> k"
  shows "\<exists>n :: int. (2 :: rat) powi k / 2 powi e = of_int n"
proof -
  have "(2 :: rat) powi k / 2 powi e = 2 powi (k - e)" by (simp add: power_int_diff)
  also have "\<dots> = of_int (2 ^ nat (k - e))" using assms by (simp add: power_int_def)
  finally show ?thesis by blast
qed

section \<open>Rounding is the identity on doubles and monotone\<close>

lemma round_pos_exact:
  assumes "0 < x" "x = of_int m * 2 powi e" "\<bar>m\<bar> < 2 ^ 53" "- 1074 \<le> e"
  shows "round_pos x = x"
proof -
  have "of_int \<bar>m\<bar> < (of_int (2 ^ 53) :: rat)" using assms(3) by (simp only: of_int_less_iff)
  then have "of_int m < (2 :: rat) powi 53" by simp
  then have "x < 2 powi 53 * 2 powi e" unfolding assms(2) by (rule mult_strict_right_mono) simp
  also have "\<dots> = 2 powi ((e + 52) + 1)" by (simp add: power_int_add)
  finally have "ulp_exponent x \<le> e"
    using floor_log2_le [OF assms(1), of "e + 52"] assms(4) by (simp add: ulp_exponent_def)
  then obtain n :: int where n: "2 powi e / 2 powi ulp_exponent x = (of_int n :: rat)"
    using powi2_int by blast
  then have q: "x / 2 powi ulp_exponent x = of_int (m * n)"
    by (simp add: assms(2) flip: times_divide_eq_right)
  have "round_pos x = x / 2 powi ulp_exponent x * 2 powi ulp_exponent x"
    unfolding round_pos_def q half_even_of_int ..
  then show ?thesis by simp
qed

lemma round_pos_le_power:
  assumes "0 < x" "x \<le> 2 powi k" "ulp_exponent x \<le> k"
  shows "round_pos x \<le> 2 powi k"
proof -
  obtain n :: int where n: "2 powi k / 2 powi ulp_exponent x = (of_int n :: rat)"
    using powi2_int [OF assms(3)] by blast
  have "x / 2 powi ulp_exponent x \<le> of_int n"
    unfolding n [symmetric] using assms(2) by (intro divide_right_mono) simp_all
  then have "(of_int (half_even (x / 2 powi ulp_exponent x)) :: rat) \<le> 2 powi k / 2 powi ulp_exponent x"
    unfolding n by (simp add: half_even_le_int)
  then show ?thesis by (simp add: round_pos_def pos_le_divide_eq)
qed

lemma power_le_round_pos:
  assumes "0 < x" "2 powi k \<le> x" "ulp_exponent x \<le> k"
  shows "2 powi k \<le> round_pos x"
proof -
  obtain n :: int where n: "2 powi k / 2 powi ulp_exponent x = (of_int n :: rat)"
    using powi2_int [OF assms(3)] by blast
  have "of_int n \<le> x / 2 powi ulp_exponent x"
    unfolding n [symmetric] using assms(2) by (intro divide_right_mono) simp_all
  then have "2 powi k / 2 powi ulp_exponent x \<le> (of_int (half_even (x / 2 powi ulp_exponent x)) :: rat)"
    unfolding n by (simp add: int_le_half_even)
  then show ?thesis by (simp add: round_pos_def pos_divide_le_eq)
qed

lemma round_pos_mono:
  assumes "0 < x" "x \<le> y"
  shows "round_pos x \<le> round_pos y"
proof (cases "ulp_exponent x = ulp_exponent y")
  case True
  have "x / 2 powi ulp_exponent y \<le> y / 2 powi ulp_exponent y"
    using assms by (intro divide_right_mono) simp_all
  then show ?thesis unfolding round_pos_def True
    by (intro mult_right_mono) (simp_all add: half_even_mono)
next
  case False
  then have lt: "ulp_exponent x < ulp_exponent y" using ulp_exponent_mono [OF assms] by simp
  then have uy: "ulp_exponent y = floor_log2 y - 52" and fl: "floor_log2 x < floor_log2 y"
    by (auto simp: ulp_exponent_def max_def split: if_splits)
  have "round_pos x \<le> 2 powi floor_log2 y"
  proof (rule round_pos_le_power [OF assms(1)])
    show "x \<le> 2 powi floor_log2 y"
      using floor_log2_bounds(2) [OF assms(1)] powi2_mono [of "floor_log2 x + 1" "floor_log2 y"] fl
      by simp
    show "ulp_exponent x \<le> floor_log2 y" using lt uy by simp
  qed
  also have "\<dots> \<le> round_pos y"
    using assms uy floor_log2_bounds(1) [of y] by (intro power_le_round_pos) simp_all
  finally show ?thesis .
qed

lemma round_pos_nonneg: "0 < x \<Longrightarrow> 0 \<le> round_pos x"
  unfolding round_pos_def by (intro mult_nonneg_nonneg) (simp_all add: int_le_half_even)

lemma round64_uminus [simp]: "round64 (- x) = - round64 x"
  by (simp add: round64_def)

lemma round64_double [simp]: "double64 x \<Longrightarrow> round64 x = x"
proof -
  assume "double64 x"
  then obtain m e where x: "x = of_int m * 2 powi e" "\<bar>m\<bar> < 2 ^ 53" "- 1074 \<le> e"
    by (auto simp: double64_def)
  have "- x = of_int (- m) * 2 powi e" using x(1) by simp
  then have "x < 0 \<Longrightarrow> round_pos (- x) = - x" using round_pos_exact [of "- x" "- m" e] x by simp
  moreover have "0 < x \<Longrightarrow> round_pos x = x" using round_pos_exact [of x m e] x by simp
  ultimately show ?thesis by (cases "x = 0"; cases "0 < x") (simp_all add: round64_def)
qed

lemma round64_mono: "x \<le> y \<Longrightarrow> round64 x \<le> round64 y"
  using round_pos_mono [of x y] round_pos_mono [of "- y" "- x"] round_pos_nonneg [of y]
    round_pos_nonneg [of "- x"]
  by (auto simp: round64_def not_less)

lemma round64_bounds: "double64 a \<Longrightarrow> double64 b \<Longrightarrow> a \<le> x \<Longrightarrow> x \<le> b \<Longrightarrow> a \<le> round64 x \<and> round64 x \<le> b"
  using round64_mono [of a x] round64_mono [of x b] by simp

lemma double64_of_int: "\<bar>n\<bar> < 2 ^ 53 \<Longrightarrow> double64 (of_int n)"
  unfolding double64_def by (intro exI [of _ n] exI [of _ 0]) simp

lemma double64_dyadic: "\<bar>m\<bar> < 2 ^ 53 \<Longrightarrow> k \<le> 1074 \<Longrightarrow> double64 (of_int m / 2 ^ k)"
  unfolding double64_def
  by (intro exI [of _ m] exI [of _ "- int k"]) (simp add: power_int_minus divide_inverse)

lemma double64_small [simp]: "double64 0" "double64 1" "double64 (1 / 2)" "double64 (1 / 4)"
  using double64_dyadic [of 0 0] double64_dyadic [of 1 0] double64_dyadic [of 1 1]
    double64_dyadic [of 1 2] by simp_all

lemma mk_float_bounds:
  assumes "double64 a" "double64 b" "a \<le> q" "q \<le> b" "- (2 ^ 1024) < a" "b < 2 ^ 1024"
  obtains r where "mk_float q = Fin r" "r = round64 q" "a \<le> r" "r \<le> b"
proof -
  have "a \<le> round64 q" "round64 q \<le> b" using round64_bounds [OF assms(1-4)] by simp_all
  with assms(5,6) that show thesis by (simp add: mk_float_def Let_def)
qed

text \<open>The rounding error is at most half the weight of the last place.\<close>

lemma half_even_error: "\<bar>of_int (half_even q) - q\<bar> \<le> 1 / 2"
  using half_even_cases [of q] by linarith

lemma round_pos_error:
  assumes "0 < x" "x < 2 powi (e + 1)" "- 1022 \<le> e"
  shows "\<bar>round_pos x - x\<bar> \<le> 2 powi (e - 53)"
proof -
  let ?u = "2 powi ulp_exponent x :: rat"
  have "ulp_exponent x \<le> e - 52"
    using floor_log2_le [OF assms(1,2)] assms(3) by (simp add: ulp_exponent_def)
  then have u: "?u \<le> 2 powi (e - 52)" by (rule powi2_mono)
  have "round_pos x - x = (of_int (half_even (x / ?u)) - x / ?u) * ?u"
    by (simp add: round_pos_def left_diff_distrib)
  then have "\<bar>round_pos x - x\<bar> = \<bar>of_int (half_even (x / ?u)) - x / ?u\<bar> * ?u"
    by (simp add: abs_mult)
  also have "\<dots> \<le> 1 / 2 * 2 powi (e - 52)"
    using u half_even_error by (intro mult_mono) simp_all
  also have "\<dots> = 2 powi (e - 53)" by (simp add: power_int_diff)
  finally show ?thesis .
qed

lemma round64_error:
  assumes "0 \<le> x" "x < 2 powi (e + 1)" "- 1022 \<le> e"
  shows "\<bar>round64 x - x\<bar> \<le> 2 powi (e - 53)"
  using assms round_pos_error [of x e] by (cases "x = 0") (simp_all add: round64_def)

section \<open>Truncated quotients\<close>

text \<open>
  In the range of the timestamps, the double quotient by 1000 never rounds up to the next
  integer, so its truncation is the integer quotient.
\<close>

lemma int_truediv_1000:
  assumes "0 \<le> n" "n < 1000 * 2 ^ 43"
  shows "int_truediv n 1000 = Some (n div 1000)"
proof -
  define k where "k = n div 1000"
  have k: "0 \<le> k" "k < 2 ^ 43" using assms by (auto simp: k_def)
  have n: "1000 * k \<le> n" "n \<le> 1000 * k + 999" unfolding k_def by simp_all
  let ?q = "of_int n / 1000 :: rat"
  let ?b = "of_int (1024 * k + 1023) * 2 powi (- 10) :: rat"
  have b: "?b = of_int k + 1023 / 1024" by (simp add: power_int_minus field_simps)
  have "double64 ?b" unfolding double64_def
    using k by (intro exI [of _ "1024 * k + 1023"] exI [of _ "- 10"]) simp
  moreover have "double64 (of_int k)" using k by (intro double64_of_int) simp
  moreover have "of_int k \<le> ?q" using n(1) by (simp add: pos_le_divide_eq mult.commute flip: of_int_le_iff [where 'a = rat])
  moreover have "?q \<le> ?b"
  proof -
    have "of_int n \<le> (of_int (1000 * k + 999) :: rat)" using n(2) by (simp only: of_int_le_iff)
    then have "?q \<le> of_int k + 999 / 1000" by (simp add: pos_divide_le_eq)
    then show ?thesis unfolding b by simp
  qed
  ultimately have r: "of_int k \<le> round64 ?q" "round64 ?q \<le> of_int k + 1023 / 1024"
    using round64_bounds unfolding b by blast+
  have "of_int k < (2 ^ 43 :: rat)" using k(2) by (metis of_int_less_iff of_int_numeral of_int_power)
  then have "\<bar>round64 ?q\<bar> < 2 ^ 1024" using r k(1) by (simp add: abs_less_iff)
  moreover have "trunc_rat (round64 ?q) = k"
    using r k(1) by (simp add: trunc_rat_def floor_eq_iff)
  ultimately show ?thesis by (simp add: int_truediv_def Let_def k_def)
qed

end
