(* ===== verification/Text.thy ===== *)
theory Text
  imports Utf8
begin

text \<open>
  Python's \<open>str\<close> methods as the sources use them, on texts (lists of code points): literals,
  \<open>split\<close> and \<open>join\<close> on one character, \<open>replace\<close> of one character,
  \<open>startswith\<close>, \<open>endswith\<close>, \<open>in\<close>, stripping, ASCII case, decimal texts. The
  lemmas show that splitting and joining are inverse.
\<close>

definition text_of :: "string \<Rightarrow> pytext" where
  "text_of s = map of_char s"

lemma text_of_simps [simp]: "text_of [] = []" "text_of (c # s) = of_char c # text_of s"
  by (simp_all add: text_of_def)

lemma text_of_append: "text_of (s @ t) = text_of s @ text_of t"
  by (simp add: text_of_def)

section \<open>Splitting and joining\<close>

fun split_on :: "nat \<Rightarrow> pytext \<Rightarrow> pytext list" where
  "split_on c [] = [[]]"
| "split_on c (x # xs) =
     (if x = c then [] # split_on c xs
      else case split_on c xs of [] \<Rightarrow> [[x]] | p # ps \<Rightarrow> (x # p) # ps)"

fun join_with :: "pytext \<Rightarrow> pytext list \<Rightarrow> pytext" where
  "join_with sep [] = []"
| "join_with sep [p] = p"
| "join_with sep (p # q # ps) = p @ sep @ join_with sep (q # ps)"

definition replace_char :: "nat \<Rightarrow> nat \<Rightarrow> pytext \<Rightarrow> pytext" where
  "replace_char a b s = map (\<lambda>x. if x = a then b else x) s"

definition starts_with :: "pytext \<Rightarrow> pytext \<Rightarrow> bool" where
  "starts_with p s = (take (length p) s = p)"

definition ends_with :: "pytext \<Rightarrow> pytext \<Rightarrow> bool" where
  "ends_with p s = starts_with (rev p) (rev s)"

fun contains :: "pytext \<Rightarrow> pytext \<Rightarrow> bool" where
  "contains p [] = (p = [])"
| "contains p (x # xs) = (starts_with p (x # xs) \<or> contains p xs)"

section \<open>Stripping\<close>

definition py_space :: "nat \<Rightarrow> bool" where
  "py_space c \<longleftrightarrow> 9 \<le> c \<and> c \<le> 13 \<or> 28 \<le> c \<and> c \<le> 32 \<or>
     c \<in> {0x85, 0xA0, 0x1680, 0x2028, 0x2029, 0x202F, 0x205F, 0x3000} \<or> 0x2000 \<le> c \<and> c \<le> 0x200A"

definition strip_right :: "(nat \<Rightarrow> bool) \<Rightarrow> pytext \<Rightarrow> pytext" where
  "strip_right P s = rev (dropWhile P (rev s))"

definition strip_both :: "(nat \<Rightarrow> bool) \<Rightarrow> pytext \<Rightarrow> pytext" where
  "strip_both P s = strip_right P (dropWhile P s)"

definition py_strip :: "pytext \<Rightarrow> pytext" where
  "py_strip s = strip_both py_space s"

section \<open>Character classes\<close>

definition ascii_digit :: "nat \<Rightarrow> bool" where
  "ascii_digit c \<longleftrightarrow> 48 \<le> c \<and> c \<le> 57"

definition ascii_alpha :: "nat \<Rightarrow> bool" where
  "ascii_alpha c \<longleftrightarrow> 65 \<le> c \<and> c \<le> 90 \<or> 97 \<le> c \<and> c \<le> 122"

definition ascii_alnum :: "nat \<Rightarrow> bool" where
  "ascii_alnum c \<longleftrightarrow> ascii_alpha c \<or> ascii_digit c"

definition ascii_lower :: "nat \<Rightarrow> nat" where
  "ascii_lower c = (if 65 \<le> c \<and> c \<le> 90 then c + 32 else c)"

definition text_lower :: "pytext \<Rightarrow> pytext" where
  "text_lower s = map ascii_lower s"

definition show_text :: "int \<Rightarrow> pytext" where
  "show_text i = text_of (show_int i)"

fun digits_value :: "pytext \<Rightarrow> nat \<Rightarrow> nat" where
  "digits_value [] acc = acc"
| "digits_value (d # ds) acc = digits_value ds (10 * acc + (d - 48))"

section \<open>Lemmas\<close>

lemma split_on_nonempty [simp]: "split_on c s \<noteq> []"
  by (induction c s rule: split_on.induct) (auto split: list.split)

lemma join_split: "join_with [c] (split_on c s) = s"
proof (induction c s rule: split_on.induct)
  case (2 c x xs)
  obtain p ps where p: "split_on c xs = p # ps" by (cases "split_on c xs") auto
  with 2 show ?case by (cases ps) auto
qed simp

lemma split_on_absent: "c \<notin> set s \<Longrightarrow> split_on c s = [s]"
  by (induction c s rule: split_on.induct) auto

lemma split_on_append:
  "c \<notin> set p \<Longrightarrow> split_on c (p @ c # s) = p # split_on c s"
  by (induction p) auto

lemma split_join:
  "ps \<noteq> [] \<Longrightarrow> \<forall>p \<in> set ps. c \<notin> set p \<Longrightarrow> split_on c (join_with [c] ps) = ps"
  by (induction "[c]" ps rule: join_with.induct) (auto simp: split_on_absent split_on_append)

lemma split_on_parts: "p \<in> set (split_on c s) \<Longrightarrow> c \<notin> set p"
  by (induction c s arbitrary: p rule: split_on.induct) (auto split: list.splits if_splits)

lemma replace_char_append [simp]: "replace_char a b (s @ t) = replace_char a b s @ replace_char a b t"
  by (simp add: replace_char_def)

lemma replace_char_absent: "a \<notin> set s \<Longrightarrow> replace_char a b s = s"
  by (auto simp: replace_char_def intro: map_idI)

lemma replace_char_back: "b \<notin> set s \<Longrightarrow> replace_char b a (replace_char a b s) = s"
  by (auto simp: replace_char_def o_def intro: map_idI)

lemma set_replace_char: "x \<in> set (replace_char a b s) \<longleftrightarrow> (x = b \<and> a \<in> set s) \<or> (x \<in> set s \<and> x \<noteq> a)"
  by (auto simp: replace_char_def)

lemma replace_char_join:
  "\<forall>p \<in> set ps. a \<notin> set p \<Longrightarrow> replace_char a b (join_with [a] ps) = join_with [b] ps"
  by (induction "[a]" ps rule: join_with.induct) (auto simp: replace_char_absent, simp add: replace_char_def)

lemma starts_with_iff: "starts_with p s \<longleftrightarrow> (\<exists>t. s = p @ t)"
  by (auto simp: starts_with_def) (metis append_take_drop_id)

lemma ends_with_iff: "ends_with p s \<longleftrightarrow> (\<exists>t. s = t @ p)"
  by (auto simp: ends_with_def starts_with_iff) (metis rev_append rev_rev_ident)

lemma contains_iff: "contains p s \<longleftrightarrow> (\<exists>t u. s = t @ p @ u)"
proof (induction p s rule: contains.induct)
  case (2 p x xs)
  have "(\<exists>t u. x # xs = t @ p @ u) \<longleftrightarrow> (\<exists>u. x # xs = p @ u) \<or> (\<exists>t u. xs = t @ p @ u)"
    by (metis append_Cons append_Nil list.inject neq_Nil_conv)
  with 2 show ?case by (simp add: starts_with_iff)
qed auto

lemma split_on_at: "split_on c (s @ c # t) = split_on c s @ split_on c t"
proof (induction c s rule: split_on.induct)
  case (2 c x xs)
  then show ?case by (cases "split_on c xs") auto
qed simp

lemma set_join_with: "x \<in> set (join_with sep ps) \<Longrightarrow> x \<in> set sep \<or> (\<exists>p \<in> set ps. x \<in> set p)"
  by (induction sep ps rule: join_with.induct) auto

lemma join_with_Nil: "join_with sep ps = [] \<Longrightarrow> p \<in> set ps \<Longrightarrow> p = []"
  by (induction sep ps rule: join_with.induct) auto

lemma hd_join_with: "p \<noteq> [] \<Longrightarrow> hd (join_with sep (p # ps)) = hd p"
  by (cases ps) auto

lemma last_join_with: "\<forall>p \<in> set ps. p \<noteq> [] \<Longrightarrow> ps \<noteq> [] \<Longrightarrow> last (join_with sep ps) = last (last ps)"
proof (induction sep ps rule: join_with.induct)
  case (3 sep p q ps)
  then have "join_with sep (q # ps) \<noteq> []" using join_with_Nil [of sep "q # ps" q] by auto
  with 3 show ?case by simp
qed auto

end
