(* ===== verification/Ai_Contract.thy ===== *)
theory Ai_Contract
  imports Float64 Text
begin

text \<open>
  The AI contract of \<open>backend/modules/ai_contract\<close>: the schemas of \<open>schemas.py\<close>
  as records with their validation, the constants, \<open>MockAIService\<close>, the provider
  interface of \<open>provider.py\<close> as a locale and the mock endpoint of \<open>router.py\<close>,
  together with \<open>unix_millis\<close> of \<open>protocol_v2/wire_helpers.py\<close>. What the schema
  library does with white space around a string and with a NaN under a bound are arguments
  (\<open>validator_lib\<close>). Floats are \<open>pyfloat\<close> values.
\<close>

section \<open>Times\<close>

text \<open>
  A \<open>datetime\<close>: its wall clock in microseconds since 1970-01-01 and its UTC offset, absent
  for a naive one. \<open>timestamp()\<close> divides the microseconds by a million in floating point.
\<close>

record pydatetime =
  dt_wall_micros :: int
  dt_utcoffset_micros :: "int option"

definition utc_micros :: "pydatetime \<Rightarrow> int" where
  "utc_micros d = dt_wall_micros d - (case dt_utcoffset_micros d of None \<Rightarrow> 0 | Some off \<Rightarrow> off)"

definition unix_millis :: "pydatetime \<Rightarrow> int" where
  "unix_millis value =
     (let value = (if dt_utcoffset_micros value = None then value\<lparr>dt_utcoffset_micros := Some 0\<rparr> else value);
          timestamp = round64 (of_int (utc_micros value) / 10 ^ 6)
      in trunc_rat (round64 (timestamp * 1000)))"

section \<open>Schemas\<close>

datatype ai_error = ValidationError | TooFewPoints | NotNormalizedBox | StreamMismatch

record validator_lib =
  vl_strip :: "pytext \<Rightarrow> pytext"
  vl_nan_passes :: bool

definition str_min1 :: "validator_lib \<Rightarrow> pytext \<Rightarrow> ai_error + pytext" where
  "str_min1 lib s = (let t = vl_strip lib s in if t = [] then Inl ValidationError else Inr t)"

definition opt_str_min1 :: "validator_lib \<Rightarrow> pytext option \<Rightarrow> ai_error + pytext option" where
  "opt_str_min1 lib v =
     (case v of None \<Rightarrow> Inr None | Some s \<Rightarrow> bind_r (str_min1 lib s) (\<lambda>t. Inr (Some t)))"

definition float_ge :: "validator_lib \<Rightarrow> pyfloat \<Rightarrow> pyfloat \<Rightarrow> bool" where
  "float_ge lib x b = (if x = NaN then vl_nan_passes lib else fle b x)"

definition float_gt :: "validator_lib \<Rightarrow> pyfloat \<Rightarrow> pyfloat \<Rightarrow> bool" where
  "float_gt lib x b = (if x = NaN then vl_nan_passes lib else flt b x)"

definition float_le :: "validator_lib \<Rightarrow> pyfloat \<Rightarrow> pyfloat \<Rightarrow> bool" where
  "float_le lib x b = (if x = NaN then vl_nan_passes lib else fle x b)"

definition unit_interval :: "validator_lib \<Rightarrow> pyfloat \<Rightarrow> bool" where
  "unit_interval lib x \<longleftrightarrow> float_ge lib x (Fin 0) \<and> float_le lib x (Fin 1)"

definition AI_CONTRACT_SCHEMA_VERSION :: string where
  "AI_CONTRACT_SCHEMA_VERSION = ''ai.detection.v1alpha1''"

record frame_reference =
  fr_stream_id :: pytext
  fr_frame_id :: "pytext option"
  fr_captured_at :: pydatetime
  fr_pts_ms :: "int option"

record bounding_box =
  bb_x :: pyfloat
  bb_y :: pyfloat
  bb_width :: pyfloat
  bb_height :: pyfloat

record ai_request =
  rq_schema_version :: string
  rq_stream_id :: pytext
  rq_frame :: frame_reference
  rq_image_url :: "pytext option"
  rq_frame_data_base64 :: "pytext option"

record detection_result =
  dr_label :: pytext
  dr_bbox :: bounding_box
  dr_confidence :: pyfloat
  dr_risk_score :: pyfloat
  dr_track_id :: "pytext option"

record ai_response =
  rs_schema_version :: string
  rs_stream_id :: pytext
  rs_frame :: frame_reference
  rs_generated_at :: pydatetime
  rs_risk_score :: pyfloat
  rs_report_text :: pytext
  rs_detections :: "detection_result list"

record ai_error_detail =
  ed_code :: pytext
  ed_message :: pytext
  ed_retryable :: bool

record ai_error_response =
  er_schema_version :: string
  er_stream_id :: "pytext option"
  er_frame :: "frame_reference option"
  er_generated_at :: pydatetime
  er_error :: ai_error_detail

section \<open>Validation\<close>

definition aware :: "pydatetime \<Rightarrow> bool" where
  "aware d \<longleftrightarrow> dt_utcoffset_micros d \<noteq> None"

definition validate_frame :: "validator_lib \<Rightarrow> frame_reference \<Rightarrow> ai_error + frame_reference" where
  "validate_frame lib f =
     bind_r (str_min1 lib (fr_stream_id f)) (\<lambda>stream_id.
     bind_r (opt_str_min1 lib (fr_frame_id f)) (\<lambda>frame_id.
     bind_r (require_r (aware (fr_captured_at f)) ValidationError) (\<lambda>_.
     bind_r (require_r (case fr_pts_ms f of None \<Rightarrow> True | Some p \<Rightarrow> 0 \<le> p) ValidationError) (\<lambda>_.
     Inr (f\<lparr>fr_stream_id := stream_id, fr_frame_id := frame_id\<rparr>)))))"

definition ensure_box_stays_inside_frame :: "bounding_box \<Rightarrow> bool" where
  "ensure_box_stays_inside_frame b \<longleftrightarrow>
     \<not> flt (Fin 1) (fadd (bb_x b) (bb_width b)) \<and> \<not> flt (Fin 1) (fadd (bb_y b) (bb_height b))"

definition validate_box :: "validator_lib \<Rightarrow> bounding_box \<Rightarrow> ai_error + bounding_box" where
  "validate_box lib b =
     (if unit_interval lib (bb_x b) \<and> unit_interval lib (bb_y b)
         \<and> float_gt lib (bb_width b) (Fin 0) \<and> float_le lib (bb_width b) (Fin 1)
         \<and> float_gt lib (bb_height b) (Fin 0) \<and> float_le lib (bb_height b) (Fin 1)
         \<and> ensure_box_stays_inside_frame b
      then Inr b else Inl ValidationError)"

definition falsy_text :: "pytext option \<Rightarrow> bool" where
  "falsy_text v \<longleftrightarrow> v = None \<or> v = Some []"

definition ensure_frame_belongs_to_stream :: "ai_request \<Rightarrow> bool" where
  "ensure_frame_belongs_to_stream r \<longleftrightarrow>
     fr_stream_id (rq_frame r) = rq_stream_id r \<and>
     \<not> (falsy_text (rq_image_url r) \<and> falsy_text (rq_frame_data_base64 r))"

definition validate_request :: "validator_lib \<Rightarrow> ai_request \<Rightarrow> ai_error + ai_request" where
  "validate_request lib r =
     bind_r (require_r (rq_schema_version r = AI_CONTRACT_SCHEMA_VERSION) ValidationError) (\<lambda>_.
     bind_r (str_min1 lib (rq_stream_id r)) (\<lambda>stream_id.
     bind_r (validate_frame lib (rq_frame r)) (\<lambda>frame.
     bind_r (opt_str_min1 lib (rq_image_url r)) (\<lambda>image_url.
     bind_r (opt_str_min1 lib (rq_frame_data_base64 r)) (\<lambda>frame_data.
     let r' = r\<lparr>rq_stream_id := stream_id, rq_frame := frame, rq_image_url := image_url,
                rq_frame_data_base64 := frame_data\<rparr>
     in if ensure_frame_belongs_to_stream r' then Inr r' else Inl ValidationError)))))"

definition validate_detection :: "validator_lib \<Rightarrow> detection_result \<Rightarrow> ai_error + detection_result" where
  "validate_detection lib d =
     bind_r (str_min1 lib (dr_label d)) (\<lambda>label.
     bind_r (validate_box lib (dr_bbox d)) (\<lambda>bbox.
     bind_r (require_r (unit_interval lib (dr_confidence d)) ValidationError) (\<lambda>_.
     bind_r (require_r (unit_interval lib (dr_risk_score d)) ValidationError) (\<lambda>_.
     bind_r (opt_str_min1 lib (dr_track_id d)) (\<lambda>track_id.
     Inr (d\<lparr>dr_label := label, dr_bbox := bbox, dr_track_id := track_id\<rparr>))))))"

definition validate_response :: "validator_lib \<Rightarrow> ai_response \<Rightarrow> ai_error + ai_response" where
  "validate_response lib r =
     bind_r (require_r (rs_schema_version r = AI_CONTRACT_SCHEMA_VERSION) ValidationError) (\<lambda>_.
     bind_r (str_min1 lib (rs_stream_id r)) (\<lambda>stream_id.
     bind_r (validate_frame lib (rs_frame r)) (\<lambda>frame.
     bind_r (require_r (aware (rs_generated_at r)) ValidationError) (\<lambda>_.
     bind_r (require_r (unit_interval lib (rs_risk_score r)) ValidationError) (\<lambda>_.
     bind_r (str_min1 lib (rs_report_text r)) (\<lambda>report_text.
     bind_r (map_r (validate_detection lib) (rs_detections r)) (\<lambda>detections.
     Inr (r\<lparr>rs_stream_id := stream_id, rs_frame := frame, rs_report_text := report_text,
            rs_detections := detections\<rparr>))))))))"

definition validate_error_detail :: "validator_lib \<Rightarrow> ai_error_detail \<Rightarrow> ai_error + ai_error_detail" where
  "validate_error_detail lib d =
     bind_r (str_min1 lib (ed_code d)) (\<lambda>code.
     bind_r (str_min1 lib (ed_message d)) (\<lambda>message.
     Inr (d\<lparr>ed_code := code, ed_message := message\<rparr>)))"

definition validate_error_response :: "validator_lib \<Rightarrow> ai_error_response \<Rightarrow> ai_error + ai_error_response" where
  "validate_error_response lib r =
     bind_r (require_r (er_schema_version r = AI_CONTRACT_SCHEMA_VERSION) ValidationError) (\<lambda>_.
     bind_r (opt_str_min1 lib (er_stream_id r)) (\<lambda>stream_id.
     bind_r (case er_frame r of None \<Rightarrow> Inr None
             | Some f \<Rightarrow> bind_r (validate_frame lib f) (\<lambda>f. Inr (Some f))) (\<lambda>frame.
     bind_r (require_r (aware (er_generated_at r)) ValidationError) (\<lambda>_.
     bind_r (validate_error_detail lib (er_error r)) (\<lambda>error.
     Inr (r\<lparr>er_stream_id := stream_id, er_frame := frame, er_error := error\<rparr>))))))"

section \<open>The mock service\<close>

text \<open>A decimal literal is the nearest double.\<close>

definition flit :: "int \<Rightarrow> int \<Rightarrow> pyfloat" where
  "flit n d = mk_float (of_int n / of_int d)"

definition AI_MOCK_UNAVAILABLE_STATUS_CODE :: int where "AI_MOCK_UNAVAILABLE_STATUS_CODE = 503"
definition MOCK_AI_RISK_SCORE :: pyfloat where "MOCK_AI_RISK_SCORE = flit 72 100"
definition MOCK_AI_REPORT_TEXT :: pytext where
  "MOCK_AI_REPORT_TEXT = text_of ''Mock AI detected a person near the sample stream.''"
definition MOCK_AI_ERROR_CODE :: pytext where "MOCK_AI_ERROR_CODE = text_of ''AI_SIMULATED_ERROR''"
definition MOCK_AI_ERROR_MESSAGE :: pytext where
  "MOCK_AI_ERROR_MESSAGE = text_of ''Mock AI endpoint simulated an error.''"
definition MOCK_AI_DETECTION_LABEL :: pytext where "MOCK_AI_DETECTION_LABEL = text_of ''person''"
definition MOCK_AI_DETECTION_CONFIDENCE :: pyfloat where "MOCK_AI_DETECTION_CONFIDENCE = flit 88 100"
definition MOCK_AI_DETECTION_TRACK_ID :: pytext where
  "MOCK_AI_DETECTION_TRACK_ID = text_of ''mock-person-001''"
definition MOCK_AI_DETECTION_BBOX :: bounding_box where
  "MOCK_AI_DETECTION_BBOX =
     \<lparr>bb_x = flit 18 100, bb_y = flit 22 100, bb_width = flit 24 100, bb_height = flit 34 100\<rparr>"

text \<open>\<open>_now\<close>: the injected time, or the clock (an argument).\<close>

definition mock_now :: "pydatetime option \<Rightarrow> pydatetime \<Rightarrow> pydatetime" where
  "mock_now generated_at clock = (case generated_at of Some d \<Rightarrow> d | None \<Rightarrow> clock)"

definition mock_detect ::
    "validator_lib \<Rightarrow> pydatetime option \<Rightarrow> pydatetime \<Rightarrow> ai_request \<Rightarrow> ai_error + ai_response" where
  "mock_detect lib generated_at clock request =
     validate_response lib
       \<lparr>rs_schema_version = AI_CONTRACT_SCHEMA_VERSION,
        rs_stream_id = rq_stream_id request,
        rs_frame = rq_frame request,
        rs_generated_at = mock_now generated_at clock,
        rs_risk_score = MOCK_AI_RISK_SCORE,
        rs_report_text = MOCK_AI_REPORT_TEXT,
        rs_detections =
          [\<lparr>dr_label = MOCK_AI_DETECTION_LABEL, dr_bbox = MOCK_AI_DETECTION_BBOX,
            dr_confidence = MOCK_AI_DETECTION_CONFIDENCE, dr_risk_score = MOCK_AI_RISK_SCORE,
            dr_track_id = Some MOCK_AI_DETECTION_TRACK_ID\<rparr>]\<rparr>"

definition mock_build_error ::
    "validator_lib \<Rightarrow> pydatetime option \<Rightarrow> pydatetime \<Rightarrow> ai_request \<Rightarrow> ai_error + ai_error_response" where
  "mock_build_error lib generated_at clock request =
     validate_error_response lib
       \<lparr>er_schema_version = AI_CONTRACT_SCHEMA_VERSION,
        er_stream_id = Some (rq_stream_id request),
        er_frame = Some (rq_frame request),
        er_generated_at = mock_now generated_at clock,
        er_error = \<lparr>ed_code = MOCK_AI_ERROR_CODE, ed_message = MOCK_AI_ERROR_MESSAGE,
                    ed_retryable = True\<rparr>\<rparr>"

section \<open>The mock endpoint\<close>

text \<open>
  \<open>POST /ai/mock/detections\<close> over any provider: a request body or query that does not
  validate is answered 422; an exception of the provider is 500; otherwise the response, or
  the error body with status 503. Sleeping and logging do not change the answer.
\<close>

datatype ai_answer =
    AnswerDetections ai_response
  | AnswerError int ai_error_response
  | AnswerInvalid
  | AnswerCrash

definition run_mock_ai_detection ::
    "validator_lib \<Rightarrow> (ai_request \<Rightarrow> ai_error + ai_response) \<Rightarrow> (ai_request \<Rightarrow> ai_error + ai_error_response) \<Rightarrow>
       ai_request \<Rightarrow> int \<Rightarrow> bool \<Rightarrow> ai_answer" where
  "run_mock_ai_detection lib detect build_error body latency_ms simulate_error =
     (case validate_request lib body of
        Inl _ \<Rightarrow> AnswerInvalid
      | Inr request \<Rightarrow>
          if latency_ms < 0 \<or> 5000 < latency_ms then AnswerInvalid
          else if simulate_error then
            (case build_error request of
               Inl _ \<Rightarrow> AnswerCrash
             | Inr error \<Rightarrow> AnswerError AI_MOCK_UNAVAILABLE_STATUS_CODE error)
          else
            (case detect request of Inl _ \<Rightarrow> AnswerCrash | Inr response \<Rightarrow> AnswerDetections response))"

section \<open>Milliseconds of a time\<close>

lemma half_even_ge: "of_int n - 1 / 2 < q \<Longrightarrow> n \<le> half_even q"
  using half_even_error [of q] by linarith

lemma round64_at_2_40:
  assumes "2 ^ 40 \<le> y" "y < 2 ^ 41"
  shows "round64 y = of_int (half_even (y * 4096)) / 4096"
proof -
  have p: "0 < y" using assms(1) by (rule less_le_trans [rotated]) simp
  have "floor_log2 y \<le> 40" using floor_log2_le [OF p, of 40] assms(2) by simp
  moreover have "(2 :: rat) powi 40 < 2 powi (floor_log2 y + 1)"
    using assms(1) floor_log2_bounds(2) [OF p] by simp
  then have "40 < floor_log2 y + 1" unfolding powi2_less_iff .
  ultimately have "floor_log2 y = 40" by simp
  then have "ulp_exponent y = - 12" by (simp add: ulp_exponent_def)
  then show ?thesis using p by (simp add: round64_def round_pos_def power_int_minus)
qed

lemma unix_millis_div:
  assumes "2 ^ 40 < us div 1000" "us < 2 ^ 31 * 10 ^ 6"
  shows "trunc_rat (round64 (round64 (of_int us / 10 ^ 6) * 1000)) = us div 1000"
proof -
  define k where "k = us div 1000"
  define s :: rat where "s = of_int us / 10 ^ 6"
  have s: "of_int us = 1000000 * s" by (simp add: s_def)
  let ?y = "round64 s * 1000"
  have us: "1000 * k \<le> us" "us \<le> 1000 * k + 999" unfolding k_def by simp_all
  have "of_int (1000 * k) \<le> (of_int us :: rat)" "(of_int us :: rat) \<le> of_int (1000 * k + 999)"
    "of_int (2 ^ 40 + 1) \<le> (of_int k :: rat)" "of_int us < (of_int (2 ^ 31 * 10 ^ 6) :: rat)"
    unfolding of_int_le_iff of_int_less_iff using us assms by (simp_all add: k_def)
  then have usr: "1000 * of_int k \<le> (of_int us :: rat)" "(of_int us :: rat) \<le> 1000 * of_int k + 999"
    and k: "2 ^ 40 + 1 \<le> (of_int k :: rat)" "of_int us < (2 ^ 31 * 10 ^ 6 :: rat)"
    by simp_all
  have "\<bar>round64 s - s\<bar> \<le> 2 powi (30 - 53)"
    using usr(1) k s by (intro round64_error) simp_all
  then have e: "\<bar>round64 s - s\<bar> \<le> 1 / 8388608" by (simp add: power_int_minus)
  then have y: "of_int k - 1000 / 8388608 \<le> ?y" "?y \<le> of_int k + 999 / 1000 + 1000 / 8388608"
    using usr s unfolding abs_le_iff by linarith+
  have r: "2 ^ 40 \<le> ?y" "?y < 2 ^ 41" using y k usr by simp_all
  have "\<bar>round64 ?y - ?y\<bar> \<le> 2 powi (40 - 53)" using r by (intro round64_error) simp_all
  then have "\<bar>round64 ?y - ?y\<bar> \<le> 1 / 8192" by (simp add: power_int_minus)
  then have "round64 ?y < of_int k + 1" using y(2) unfolding abs_le_iff by linarith
  moreover have "4096 * k \<le> half_even (?y * 4096)" using y(1) by (intro half_even_ge) simp
  then have "of_int (4096 * k) \<le> (of_int (half_even (?y * 4096)) :: rat)" by (simp only: of_int_le_iff)
  then have "of_int k \<le> round64 ?y" unfolding round64_at_2_40 [OF r] by simp
  moreover have "0 \<le> round64 ?y" using calculation k by simp
  ultimately show ?thesis unfolding k_def [symmetric] s_def [symmetric] by (simp add: trunc_rat_def floor_eq_iff)
qed

lemma unix_millis_exact:
  assumes "2 ^ 40 < utc_micros d div 1000" "utc_micros d < 2 ^ 31 * 10 ^ 6"
  shows "unix_millis d = utc_micros d div 1000"
proof -
  have "utc_micros (d\<lparr>dt_utcoffset_micros := Some 0\<rparr>) = utc_micros d" if "dt_utcoffset_micros d = None"
    using that by (simp add: utc_micros_def)
  then show ?thesis using unix_millis_div [OF assms] by (simp add: unix_millis_def Let_def)
qed

section \<open>The schema library\<close>

definition graphic :: "nat \<Rightarrow> bool" where
  "graphic c \<longleftrightarrow> 33 \<le> c \<and> c \<le> 126"

text \<open>
  What the code relies on of \<open>str_strip_whitespace\<close>: stripping twice is stripping once, and
  a text that begins and ends with a visible ASCII character is left alone.
\<close>

locale schema_lib =
  fixes lib :: validator_lib
  assumes strip_idem: "vl_strip lib (vl_strip lib s) = vl_strip lib s"
    and strip_graphic: "s \<noteq> [] \<Longrightarrow> graphic (hd s) \<Longrightarrow> graphic (last s) \<Longrightarrow> vl_strip lib s = s"
begin

lemma str_min1_again: "str_min1 lib s = Inr t \<Longrightarrow> str_min1 lib t = Inr t"
  by (auto simp: str_min1_def Let_def strip_idem split: if_splits)

lemma opt_str_min1_again: "opt_str_min1 lib s = Inr t \<Longrightarrow> opt_str_min1 lib t = Inr t"
  by (auto simp: opt_str_min1_def bind_r_eq_Inr str_min1_again split: option.splits)

lemma str_min1_graphic: "s \<noteq> [] \<Longrightarrow> graphic (hd s) \<Longrightarrow> graphic (last s) \<Longrightarrow> str_min1 lib s = Inr s"
  by (simp add: str_min1_def strip_graphic)

lemma validate_frame_again: "validate_frame lib f = Inr f' \<Longrightarrow> validate_frame lib f' = Inr f'"
  by (auto simp: validate_frame_def bind_r_eq_Inr str_min1_again opt_str_min1_again)

lemma validate_request_valid:
  assumes "validate_request lib body = Inr r"
  shows "str_min1 lib (rq_stream_id r) = Inr (rq_stream_id r)"
    and "validate_frame lib (rq_frame r) = Inr (rq_frame r)"
  using assms
  by (auto simp: validate_request_def bind_r_eq_Inr Let_def str_min1_again validate_frame_again
      split: if_splits)

end

section \<open>Mock constants\<close>

lemma flit_bounds:
  assumes "double64 a" "double64 b" "a \<le> of_int n / of_int d" "of_int n / of_int d \<le> b" "0 \<le> a" "b \<le> 1"
  obtains r where "flit n d = Fin r" "a \<le> r" "r \<le> b"
proof -
  have "(1 :: rat) < 2 ^ 1024" "- (2 ^ 1024) < (0 :: rat)" by simp_all
  then have "- (2 ^ 1024) < a" "b < 2 ^ 1024" using assms(5,6) by linarith+
  from mk_float_bounds [OF assms(1-4) this] that show thesis by (auto simp: flit_def)
qed

lemma unit_interval_Fin: "0 \<le> r \<Longrightarrow> r \<le> 1 \<Longrightarrow> unit_interval lib (Fin r)"
  by (simp add: unit_interval_def float_ge_def float_le_def)

lemma unit_interval_flit: "0 \<le> n \<Longrightarrow> n \<le> d \<Longrightarrow> 0 < d \<Longrightarrow> unit_interval lib (flit n d)"
  by (rule flit_bounds [of 0 1 n d]) (simp_all add: unit_interval_Fin)

lemma fadd_le_1:
  assumes "0 \<le> a" "0 \<le> b" "a + b \<le> 1"
  shows "\<not> flt (Fin 1) (fadd (Fin a) (Fin b))"
proof -
  obtain r where "mk_float (a + b) = Fin r" "r \<le> 1"
    using assms by (rule_tac mk_float_bounds [of 0 1 "a + b"]) simp_all
  then show ?thesis by simp
qed

lemma mock_box_valid: "validate_box lib MOCK_AI_DETECTION_BBOX = Inr MOCK_AI_DETECTION_BBOX"
proof -
  have d: "double64 (1 / 8)" using double64_dyadic [of 1 3] by simp
  obtain x where x: "flit 18 100 = Fin x" "0 \<le> x" "x \<le> 1 / 4"
    by (rule flit_bounds [of 0 "1 / 4" 18 100]) simp_all
  obtain y where y: "flit 22 100 = Fin y" "0 \<le> y" "y \<le> 1 / 4"
    by (rule flit_bounds [of 0 "1 / 4" 22 100]) simp_all
  obtain w where w: "flit 24 100 = Fin w" "1 / 8 \<le> w" "w \<le> 1 / 4"
    by (rule flit_bounds [of "1 / 8" "1 / 4" 24 100]) (simp_all add: d)
  obtain h where h: "flit 34 100 = Fin h" "1 / 4 \<le> h" "h \<le> 1 / 2"
    by (rule flit_bounds [of "1 / 4" "1 / 2" 34 100]) simp_all
  have "\<not> flt (Fin 1) (fadd (Fin x) (Fin w))" "\<not> flt (Fin 1) (fadd (Fin y) (Fin h))"
    using x(2,3) y(2,3) w(2,3) h(2,3) by (intro fadd_le_1; linarith)+
  with x y w h show ?thesis
    unfolding validate_box_def MOCK_AI_DETECTION_BBOX_def ensure_box_stays_inside_frame_def
    by (auto simp: unit_interval_def float_ge_def float_gt_def float_le_def)
qed

lemma mock_texts_graphic:
  "MOCK_AI_REPORT_TEXT \<noteq> []" "graphic (hd MOCK_AI_REPORT_TEXT)" "graphic (last MOCK_AI_REPORT_TEXT)"
  "MOCK_AI_ERROR_CODE \<noteq> []" "graphic (hd MOCK_AI_ERROR_CODE)" "graphic (last MOCK_AI_ERROR_CODE)"
  "MOCK_AI_ERROR_MESSAGE \<noteq> []" "graphic (hd MOCK_AI_ERROR_MESSAGE)" "graphic (last MOCK_AI_ERROR_MESSAGE)"
  "MOCK_AI_DETECTION_LABEL \<noteq> []" "graphic (hd MOCK_AI_DETECTION_LABEL)"
  "graphic (last MOCK_AI_DETECTION_LABEL)"
  "MOCK_AI_DETECTION_TRACK_ID \<noteq> []" "graphic (hd MOCK_AI_DETECTION_TRACK_ID)"
  "graphic (last MOCK_AI_DETECTION_TRACK_ID)"
  by (simp_all add: MOCK_AI_REPORT_TEXT_def MOCK_AI_ERROR_CODE_def MOCK_AI_ERROR_MESSAGE_def
      MOCK_AI_DETECTION_LABEL_def MOCK_AI_DETECTION_TRACK_ID_def text_of_def graphic_def of_char_def)

section \<open>Providers\<close>

locale ai_provider =
  fixes lib :: validator_lib
    and detect :: "ai_request \<Rightarrow> ai_error + ai_response"
    and build_error :: "ai_request \<Rightarrow> ai_error + ai_error_response"
  assumes detect_ok: "validate_request lib body = Inr r \<Longrightarrow>
      \<exists>resp. detect r = Inr resp \<and> validate_response lib resp = Inr resp \<and>
        rs_stream_id resp = rq_stream_id r \<and> rs_frame resp = rq_frame r"
    and error_ok: "validate_request lib body = Inr r \<Longrightarrow>
      \<exists>e. build_error r = Inr e \<and> validate_error_response lib e = Inr e \<and>
        er_stream_id e = Some (rq_stream_id r) \<and> er_frame e = Some (rq_frame r)"
begin

lemma endpoint_invalid:
  "(\<exists>e. validate_request lib body = Inl e) \<or> latency < 0 \<or> 5000 < latency \<Longrightarrow>
     run_mock_ai_detection lib detect build_error body latency sim = AnswerInvalid"
  by (auto simp: run_mock_ai_detection_def split: sum.split)

lemma endpoint_detections:
  assumes "validate_request lib body = Inr r" and "0 \<le> latency" and "latency \<le> 5000"
  shows "\<exists>resp. detect r = Inr resp \<and> run_mock_ai_detection lib detect build_error body latency False = AnswerDetections resp \<and>
     validate_response lib resp = Inr resp \<and> rs_stream_id resp = rq_stream_id r \<and> rs_frame resp = rq_frame r"
  using assms detect_ok [OF assms(1)] by (auto simp: run_mock_ai_detection_def)

lemma endpoint_error:
  assumes "validate_request lib body = Inr r" and "0 \<le> latency" and "latency \<le> 5000"
  shows "\<exists>e. build_error r = Inr e \<and> run_mock_ai_detection lib detect build_error body latency True = AnswerError 503 e \<and>
     validate_error_response lib e = Inr e \<and> er_stream_id e = Some (rq_stream_id r) \<and> er_frame e = Some (rq_frame r)"
  using assms error_ok [OF assms(1)] by (auto simp: run_mock_ai_detection_def AI_MOCK_UNAVAILABLE_STATUS_CODE_def)

end

locale mock_deployment = schema_lib +
  fixes generated_at :: "pydatetime option" and clock :: pydatetime
  assumes now_aware: "aware (mock_now generated_at clock)"
begin

lemma mock_detection_valid:
  "validate_detection lib
     \<lparr>dr_label = MOCK_AI_DETECTION_LABEL, dr_bbox = MOCK_AI_DETECTION_BBOX,
      dr_confidence = MOCK_AI_DETECTION_CONFIDENCE, dr_risk_score = MOCK_AI_RISK_SCORE,
      dr_track_id = Some MOCK_AI_DETECTION_TRACK_ID\<rparr>
   = Inr \<lparr>dr_label = MOCK_AI_DETECTION_LABEL, dr_bbox = MOCK_AI_DETECTION_BBOX,
      dr_confidence = MOCK_AI_DETECTION_CONFIDENCE, dr_risk_score = MOCK_AI_RISK_SCORE,
      dr_track_id = Some MOCK_AI_DETECTION_TRACK_ID\<rparr>"
  by (simp add: validate_detection_def str_min1_graphic mock_texts_graphic mock_box_valid
      opt_str_min1_def MOCK_AI_DETECTION_CONFIDENCE_def MOCK_AI_RISK_SCORE_def unit_interval_flit)

lemma mock_detect_ok:
  assumes "validate_request lib body = Inr r"
  shows "\<exists>resp. mock_detect lib generated_at clock r = Inr resp \<and> validate_response lib resp = Inr resp \<and>
     rs_stream_id resp = rq_stream_id r \<and> rs_frame resp = rq_frame r"
  using validate_request_valid [OF assms] now_aware mock_detection_valid
  by (simp add: mock_detect_def validate_response_def str_min1_graphic mock_texts_graphic
      MOCK_AI_RISK_SCORE_def unit_interval_flit)

lemma mock_detect_content:
  assumes "validate_request lib body = Inr r" and "mock_detect lib generated_at clock r = Inr resp"
  shows "rs_generated_at resp = mock_now generated_at clock \<and> rs_risk_score resp = MOCK_AI_RISK_SCORE \<and>
     map dr_label (rs_detections resp) = [MOCK_AI_DETECTION_LABEL]"
  using assms(2) validate_request_valid [OF assms(1)] now_aware mock_detection_valid
  by (simp add: mock_detect_def validate_response_def str_min1_graphic mock_texts_graphic
      MOCK_AI_RISK_SCORE_def unit_interval_flit) auto

lemma mock_error_content:
  assumes "validate_request lib body = Inr r" and "mock_build_error lib generated_at clock r = Inr e"
  shows "er_generated_at e = mock_now generated_at clock \<and>
     er_error e = \<lparr>ed_code = MOCK_AI_ERROR_CODE, ed_message = MOCK_AI_ERROR_MESSAGE, ed_retryable = True\<rparr>"
  using assms(2) validate_request_valid [OF assms(1)] now_aware
  by (simp add: mock_build_error_def validate_error_response_def opt_str_min1_def
      validate_error_detail_def str_min1_graphic mock_texts_graphic) auto

lemma mock_build_error_ok:
  assumes "validate_request lib body = Inr r"
  shows "\<exists>e. mock_build_error lib generated_at clock r = Inr e \<and> validate_error_response lib e = Inr e \<and>
     er_stream_id e = Some (rq_stream_id r) \<and> er_frame e = Some (rq_frame r)"
  using validate_request_valid [OF assms] now_aware
  by (simp add: mock_build_error_def validate_error_response_def opt_str_min1_def
      validate_error_detail_def str_min1_graphic mock_texts_graphic)

end

sublocale mock_deployment \<subseteq>
  mock: ai_provider lib "mock_detect lib generated_at clock" "mock_build_error lib generated_at clock"
  by unfold_locales (auto dest: mock_detect_ok mock_build_error_ok)

context mock_deployment
begin

lemmas mock_endpoint = mock.endpoint_invalid mock.endpoint_detections mock.endpoint_error

end

text \<open>A schema library whose white space is that of ASCII.\<close>

definition ascii_strip :: "pytext \<Rightarrow> pytext" where
  "ascii_strip s = rev (dropWhile (\<lambda>c. c \<in> {9, 10, 11, 12, 13, 32}) (rev (dropWhile (\<lambda>c. c \<in> {9, 10, 11, 12, 13, 32}) s)))"

definition ascii_lib :: validator_lib where
  "ascii_lib = \<lparr>vl_strip = ascii_strip, vl_nan_passes = False\<rparr>"

lemma dropWhile_hd: "dropWhile P xs = [] \<or> \<not> P (hd (dropWhile P xs))"
  by (metis hd_dropWhile)

lemma dropWhile_id: "xs = [] \<or> \<not> P (hd xs) \<Longrightarrow> dropWhile P xs = xs"
  by (cases xs) auto

lemma strip_both_idem:
  fixes P :: "'a \<Rightarrow> bool"
  defines "st \<equiv> \<lambda>s. rev (dropWhile P (rev (dropWhile P s)))"
  shows "st (st s) = st s"
proof -
  let ?a = "dropWhile P s"
  let ?b = "rev (dropWhile P (rev ?a))"
  have "?b = [] \<or> \<not> P (hd ?b)"
  proof (rule disjCI)
    assume "\<not> \<not> P (hd ?b)"
    show "?b = []"
    proof (rule ccontr)
      assume ne: "?b \<noteq> []"
      obtain ys where "rev ?a = ys @ dropWhile P (rev ?a)" by (metis takeWhile_dropWhile_id)
      then have "?a = ?b @ rev ys" by (metis rev_append rev_rev_ident)
      then have "hd ?a = hd ?b" using ne by (metis hd_append2)
      moreover have "?a \<noteq> []" using ne \<open>?a = ?b @ rev ys\<close> by (metis append_is_Nil_conv)
      ultimately show False using \<open>\<not> \<not> P (hd ?b)\<close> dropWhile_hd [of P s] by metis
    qed
  qed
  then have "dropWhile P ?b = ?b" by (rule dropWhile_id)
  moreover have "dropWhile P (dropWhile P (rev ?a)) = dropWhile P (rev ?a)"
    by (rule dropWhile_id) (rule dropWhile_hd)
  ultimately show ?thesis by (simp add: st_def)
qed

lemma ascii_strip_graphic: "s \<noteq> [] \<Longrightarrow> graphic (hd s) \<Longrightarrow> graphic (last s) \<Longrightarrow> ascii_strip s = s"
  by (subst ascii_strip_def)
    (simp add: dropWhile_id [of s] dropWhile_id [of "rev s"] graphic_def hd_rev)

interpretation ascii: schema_lib ascii_lib
  by unfold_locales
    (simp_all add: ascii_lib_def ascii_strip_graphic, simp only: ascii_strip_def strip_both_idem)

interpretation ascii_mock: mock_deployment ascii_lib None
    "\<lparr>dt_wall_micros = now, dt_utcoffset_micros = Some 0\<rparr>" for now
  by unfold_locales (simp add: mock_now_def aware_def)

section \<open>Properties\<close>

text \<open>
  For every time from November 2004 to January 2038, \<open>unix_millis\<close> is exact although it
  computes in floating point: it returns the whole milliseconds since the epoch, never one
  less or one more, whatever the microseconds and the UTC offset.
\<close>

theorem unix_millis_truncates:
  assumes "2 ^ 40 < utc_micros d div 1000" and "utc_micros d < 2 ^ 31 * 10 ^ 6"
  shows "unix_millis d = utc_micros d div 1000"
  using assms by (rule unix_millis_exact)

theorem unix_millis_truncates_witness:
  "unix_millis \<lparr>dt_wall_micros = 1700032400123999, dt_utcoffset_micros = Some (9 * 3600 * 10 ^ 6)\<rparr> = 1700000000123"
  using unix_millis_truncates [of "\<lparr>dt_wall_micros = 1700032400123999, dt_utcoffset_micros = Some (9 * 3600 * 10 ^ 6)\<rparr>"]
  by (simp add: utc_micros_def)

text \<open>
  C35: The mock detection endpoint never fails internally and its answers satisfy the contract. A
  request that does not validate, or a latency outside 0 to 5000 ms, is answered as invalid. Any other is answered, as the switch
  says, with a response or with an error under status 503; either one passes the contract's own validation unchanged and
  names the stream and the frame of the request and the time asked for, the first with the one mock detection, the second with the mock
  error, marked as worth a retry. The hypotheses are those on
  the schema library's stripping and that the clock is time-zone aware.
\<close>

theorem mock_endpoint_sound:
  assumes "\<And>s. vl_strip lib (vl_strip lib s) = vl_strip lib s"
    and "\<And>s. s \<noteq> [] \<Longrightarrow> graphic (hd s) \<Longrightarrow> graphic (last s) \<Longrightarrow> vl_strip lib s = s"
    and "aware (mock_now g clock)"
    and "answer = run_mock_ai_detection lib (mock_detect lib g clock) (mock_build_error lib g clock) body latency sim"
  shows "case (if latency < 0 \<or> 5000 < latency then Inl ValidationError else validate_request lib body) of
      Inl _ \<Rightarrow> answer = AnswerInvalid
    | Inr r \<Rightarrow>
        (if sim then \<exists>e. answer = AnswerError 503 e \<and> validate_error_response lib e = Inr e \<and>
            er_stream_id e = Some (rq_stream_id r) \<and> er_frame e = Some (rq_frame r) \<and> er_generated_at e = mock_now g clock \<and>
            er_error e = \<lparr>ed_code = MOCK_AI_ERROR_CODE, ed_message = MOCK_AI_ERROR_MESSAGE, ed_retryable = True\<rparr>
         else \<exists>resp. answer = AnswerDetections resp \<and> validate_response lib resp = Inr resp \<and>
            rs_stream_id resp = rq_stream_id r \<and> rs_frame resp = rq_frame r \<and> rs_generated_at resp = mock_now g clock \<and>
            rs_risk_score resp = MOCK_AI_RISK_SCORE \<and> map dr_label (rs_detections resp) = [MOCK_AI_DETECTION_LABEL])"
proof -
  have deployed: "mock_deployment lib g clock"
    using assms(1-3) by (simp add: mock_deployment_def mock_deployment_axioms_def schema_lib_def)
  note endpoint = mock_deployment.mock_endpoint [OF deployed]
    and content = mock_deployment.mock_detect_content [OF deployed] mock_deployment.mock_error_content [OF deployed]
  show ?thesis
  proof (cases "latency < 0 \<or> 5000 < latency")
    case True
    then show ?thesis using endpoint(1) assms(4) by simp
  next
    case False
    then have latency: "0 \<le> latency" "latency \<le> 5000" by simp_all
    show ?thesis
    proof (cases "validate_request lib body")
      case (Inl e)
      then show ?thesis using endpoint(1) assms(4) False by simp
    next
      case (Inr r)
      have "answer = run_mock_ai_detection lib (mock_detect lib g clock) (mock_build_error lib g clock) body latency True"
        if sim using assms(4) that by simp
      with endpoint(3) [OF Inr latency] content(2) [OF Inr]
      have error: "\<exists>e. answer = AnswerError 503 e \<and> validate_error_response lib e = Inr e \<and>
            er_stream_id e = Some (rq_stream_id r) \<and> er_frame e = Some (rq_frame r) \<and> er_generated_at e = mock_now g clock \<and>
            er_error e = \<lparr>ed_code = MOCK_AI_ERROR_CODE, ed_message = MOCK_AI_ERROR_MESSAGE, ed_retryable = True\<rparr>" if sim
        using that by metis
      have "answer = run_mock_ai_detection lib (mock_detect lib g clock) (mock_build_error lib g clock) body latency False"
        if "\<not> sim" using assms(4) that by simp
      with endpoint(2) [OF Inr latency] content(1) [OF Inr]
      have detections: "\<exists>resp. answer = AnswerDetections resp \<and> validate_response lib resp = Inr resp \<and>
            rs_stream_id resp = rq_stream_id r \<and> rs_frame resp = rq_frame r \<and> rs_generated_at resp = mock_now g clock \<and>
            rs_risk_score resp = MOCK_AI_RISK_SCORE \<and> map dr_label (rs_detections resp) = [MOCK_AI_DETECTION_LABEL]" if "\<not> sim"
        using that by metis
      show ?thesis using False Inr error detections by simp
    qed
  qed
qed

definition sample_request :: ai_request where
  "sample_request =
     \<lparr>rq_schema_version = AI_CONTRACT_SCHEMA_VERSION, rq_stream_id = [97],
      rq_frame = \<lparr>fr_stream_id = [97, 32], fr_frame_id = None,
        fr_captured_at = \<lparr>dt_wall_micros = 0, dt_utcoffset_micros = Some 0\<rparr>, fr_pts_ms = None\<rparr>,
      rq_image_url = Some [104], rq_frame_data_base64 = None\<rparr>"

lemma sample_request_valid:
  "validate_request ascii_lib sample_request = Inr (sample_request\<lparr>rq_frame := (rq_frame sample_request)\<lparr>fr_stream_id := [97]\<rparr>\<rparr>)"
  by (simp add: sample_request_def validate_request_def validate_frame_def str_min1_def opt_str_min1_def ascii_lib_def
      ascii_strip_def ensure_frame_belongs_to_stream_def falsy_text_def aware_def)

theorem mock_endpoint_sound_witness:
  "\<exists>resp. run_mock_ai_detection ascii_lib
       (mock_detect ascii_lib None \<lparr>dt_wall_micros = 7, dt_utcoffset_micros = Some 0\<rparr>)
       (mock_build_error ascii_lib None \<lparr>dt_wall_micros = 7, dt_utcoffset_micros = Some 0\<rparr>) sample_request 3 False = AnswerDetections resp \<and>
     validate_response ascii_lib resp = Inr resp \<and> rs_stream_id resp = [97] \<and> fr_stream_id (rs_frame resp) = [97] \<and>
     dt_wall_micros (rs_generated_at resp) = 7 \<and> map dr_label (rs_detections resp) = [MOCK_AI_DETECTION_LABEL]"
proof -
  have "aware (mock_now None \<lparr>dt_wall_micros = 7, dt_utcoffset_micros = Some 0\<rparr>)" by (simp add: mock_now_def aware_def)
  from mock_endpoint_sound [OF ascii.strip_idem ascii.strip_graphic this refl, of sample_request 3 False]
  have "\<exists>resp. run_mock_ai_detection ascii_lib
       (mock_detect ascii_lib None \<lparr>dt_wall_micros = 7, dt_utcoffset_micros = Some 0\<rparr>)
       (mock_build_error ascii_lib None \<lparr>dt_wall_micros = 7, dt_utcoffset_micros = Some 0\<rparr>) sample_request 3 False = AnswerDetections resp \<and>
     validate_response ascii_lib resp = Inr resp \<and> rs_stream_id resp = [97] \<and> rs_frame resp = (rq_frame sample_request)\<lparr>fr_stream_id := [97]\<rparr> \<and>
     rs_generated_at resp = mock_now None \<lparr>dt_wall_micros = 7, dt_utcoffset_micros = Some 0\<rparr> \<and>
     rs_risk_score resp = MOCK_AI_RISK_SCORE \<and> map dr_label (rs_detections resp) = [MOCK_AI_DETECTION_LABEL]"
    unfolding sample_request_valid by (simp add: sample_request_def)
  then show ?thesis by (elim ex_forward) (simp add: mock_now_def)
qed

end
