(* ===== verification/Ai_Overlay.thy ===== *)
theory Ai_Overlay
  imports Telemetry_Wire Ai_Contract
begin

text \<open>
  The AI overlay events of \<open>backend/modules/protocol_v2\<close>: the contract numbers, points and
  events on the wire (\<open>ai_overlay_contract.py\<close>, \<open>ai_overlay_points.py\<close>,
  \<open>ai_overlay_wire.py\<close>, \<open>ai_overlay.py\<close>), the bounding box of a point list
  (\<open>ai_overlay_geometry.py\<close>) and the conversions from and to the dashboard's AI response
  (\<open>ai_overlay_dashboard.py\<close>). On the wire a float is its bit pattern, in the geometry its
  value, so points and events are parametric in the float type.
\<close>

section \<open>Contract\<close>

definition OV_EVENT_ID :: int where "OV_EVENT_ID = 1"
definition OV_STREAM_ID :: int where "OV_STREAM_ID = 2"
definition OV_MODEL_ID :: int where "OV_MODEL_ID = 3"
definition OV_KIND :: int where "OV_KIND = 4"
definition OV_LABEL :: int where "OV_LABEL = 5"
definition OV_CONFIDENCE :: int where "OV_CONFIDENCE = 6"
definition OV_POINT :: int where "OV_POINT = 7"
definition OV_GEO_ANCHOR :: int where "OV_GEO_ANCHOR = 8"
definition OV_TIME :: int where "OV_TIME = 9"

definition POINT_X :: int where "POINT_X = 1"
definition POINT_Y :: int where "POINT_Y = 2"

lemmas overlay_field_defs =
  OV_EVENT_ID_def OV_STREAM_ID_def OV_MODEL_ID_def OV_KIND_def OV_LABEL_def OV_CONFIDENCE_def
  OV_POINT_def OV_GEO_ANCHOR_def OV_TIME_def POINT_X_def POINT_Y_def

definition OVERLAY_KIND_BOUNDING_BOX :: int where "OVERLAY_KIND_BOUNDING_BOX = 1"

definition DEFAULT_AI_MODEL_ID :: pytext where
  "DEFAULT_AI_MODEL_ID = text_of ''mock-ai-sidecar-v1''"

definition DEFAULT_AI_REPORT_TEXT :: pytext where
  "DEFAULT_AI_REPORT_TEXT = text_of ''AI overlay metadata event received.''"

section \<open>Points and events\<close>

record 'f overlay_point =
  op_x :: 'f
  op_y :: 'f

record 'f overlay_event =
  oe_event_id :: pytext
  oe_stream_id :: pytext
  oe_model_id :: pytext
  oe_kind :: int
  oe_label :: pytext
  oe_confidence :: 'f
  oe_points :: "'f overlay_point list"
  oe_latitude :: 'f
  oe_longitude :: 'f
  oe_altitude_m :: 'f
  oe_observed_unix_millis :: int
  oe_received_unix_millis :: int

definition point_to_wire :: "f64 overlay_point \<Rightarrow> wire_error + bytes" where
  "point_to_wire pt =
     run_encoders [\<lambda>p. encode_double p POINT_X (op_x pt), \<lambda>p. encode_double p POINT_Y (op_y pt)]"

definition point_from_wire :: "bytes \<Rightarrow> wire_error + f64 overlay_point" where
  "point_from_wire payload =
     bind_r (decode_message payload) (\<lambda>decoded.
     bind_r (single_float decoded POINT_X) (\<lambda>x.
     bind_r (single_float decoded POINT_Y) (\<lambda>y. Inr \<lparr>op_x = x, op_y = y\<rparr>)))"

definition encode_overlay_event :: "f64 overlay_event \<Rightarrow> wire_error + bytes" where
  "encode_overlay_event e =
     run_encoders (
       [\<lambda>p. encode_string p OV_EVENT_ID (oe_event_id e),
        \<lambda>p. encode_string p OV_STREAM_ID (oe_stream_id e),
        \<lambda>p. encode_string p OV_MODEL_ID (oe_model_id e),
        \<lambda>p. encode_varint_field p OV_KIND (oe_kind e),
        \<lambda>p. encode_string p OV_LABEL (oe_label e),
        \<lambda>p. encode_double p OV_CONFIDENCE (oe_confidence e)]
       @ map (\<lambda>pt p. bind_r (point_to_wire pt) (encode_bytes p OV_POINT)) (oe_points e)
       @ [\<lambda>p. bind_r (geo_point_wire (oe_latitude e) (oe_longitude e) (oe_altitude_m e))
              (encode_bytes p OV_GEO_ANCHOR),
          \<lambda>p. bind_r (timestamped_wire (oe_observed_unix_millis e) (oe_received_unix_millis e))
              (encode_bytes p OV_TIME)])"

definition anchor_float :: "decoded_message option \<Rightarrow> int \<Rightarrow> wire_error + f64" where
  "anchor_float anchor n = (case anchor of None \<Rightarrow> Inr 0 | Some m \<Rightarrow> single_float m n)"

definition decode_overlay_message :: "decoded_message \<Rightarrow> wire_error + f64 overlay_event" where
  "decode_overlay_message d =
     bind_r (optional_message d OV_GEO_ANCHOR) (\<lambda>geo_anchor.
     bind_r (single_message d OV_TIME) (\<lambda>time_message.
     bind_r (single_string d OV_EVENT_ID) (\<lambda>event_id.
     bind_r (single_string d OV_STREAM_ID) (\<lambda>stream_id.
     bind_r (single_string d OV_MODEL_ID) (\<lambda>model_id.
     bind_r (single_int d OV_KIND) (\<lambda>kind.
     bind_r (single_string d OV_LABEL) (\<lambda>label.
     bind_r (single_float d OV_CONFIDENCE) (\<lambda>confidence.
     bind_r (map_r point_from_wire (bytes_values d OV_POINT)) (\<lambda>points.
     bind_r (anchor_float geo_anchor GEO_LATITUDE) (\<lambda>latitude.
     bind_r (anchor_float geo_anchor GEO_LONGITUDE) (\<lambda>longitude.
     bind_r (anchor_float geo_anchor GEO_ALTITUDE_M) (\<lambda>altitude_m.
     bind_r (single_int time_message TS_OBSERVED_UNIX_MILLIS) (\<lambda>observed.
     bind_r (single_int time_message TS_RECEIVED_UNIX_MILLIS) (\<lambda>received.
     Inr \<lparr>oe_event_id = event_id, oe_stream_id = stream_id, oe_model_id = model_id, oe_kind = kind,
          oe_label = label, oe_confidence = confidence, oe_points = points,
          oe_latitude = latitude, oe_longitude = longitude, oe_altitude_m = altitude_m,
          oe_observed_unix_millis = observed, oe_received_unix_millis = received\<rparr>))))))))))))))"

definition decode_overlay_event :: "bytes \<Rightarrow> wire_error + f64 overlay_event" where
  "decode_overlay_event payload = bind_r (decode_message payload) decode_overlay_message"

definition overlay_to_protobuf_wire :: "f64 overlay_event \<Rightarrow> wire_error + bytes" where
  "overlay_to_protobuf_wire e = encode_overlay_event e"

definition overlay_from_protobuf_wire :: "bytes \<Rightarrow> wire_error + f64 overlay_event" where
  "overlay_from_protobuf_wire payload =
     bind_r (decode_overlay_event payload) (\<lambda>decoded.
     Inr \<lparr>oe_event_id = oe_event_id decoded, oe_stream_id = oe_stream_id decoded,
          oe_model_id = oe_model_id decoded, oe_kind = oe_kind decoded,
          oe_label = oe_label decoded, oe_confidence = oe_confidence decoded,
          oe_points = oe_points decoded, oe_latitude = oe_latitude decoded,
          oe_longitude = oe_longitude decoded, oe_altitude_m = oe_altitude_m decoded,
          oe_observed_unix_millis = oe_observed_unix_millis decoded,
          oe_received_unix_millis = oe_received_unix_millis decoded\<rparr>)"

section \<open>Geometry\<close>

text \<open>Python's \<open>min\<close> and \<open>max\<close> keep the first of equal (or incomparable) values.\<close>

definition fmin_list :: "pyfloat list \<Rightarrow> pyfloat" where
  "fmin_list xs = foldl (\<lambda>m x. if flt x m then x else m) (hd xs) (tl xs)"

definition fmax_list :: "pyfloat list \<Rightarrow> pyfloat" where
  "fmax_list xs = foldl (\<lambda>m x. if flt m x then x else m) (hd xs) (tl xs)"

definition bounding_box_from_points :: "pyfloat overlay_point list \<Rightarrow> ai_error + bounding_box" where
  "bounding_box_from_points points =
     (if length points < 2 then Inl TooFewPoints
      else
        let xs = map op_x points; ys = map op_y points;
            min_x = fmin_list xs; min_y = fmin_list ys; max_x = fmax_list xs; max_y = fmax_list ys;
            width = fsub max_x min_x; height = fsub max_y min_y
        in if flt min_x (Fin 0) \<or> flt min_y (Fin 0) \<or> flt (Fin 1) max_x \<or> flt (Fin 1) max_y
              \<or> fle width (Fin 0) \<or> fle height (Fin 0)
           then Inl NotNormalizedBox
           else Inr \<lparr>bb_x = fround6 min_x, bb_y = fround6 min_y,
                     bb_width = fround6 width, bb_height = fround6 height\<rparr>)"

definition points_from_bbox ::
    "pyfloat \<Rightarrow> pyfloat \<Rightarrow> pyfloat \<Rightarrow> pyfloat \<Rightarrow> pyfloat overlay_point list" where
  "points_from_bbox x y width height =
     [\<lparr>op_x = x, op_y = y\<rparr>, \<lparr>op_x = fadd x width, op_y = y\<rparr>,
      \<lparr>op_x = fadd x width, op_y = fadd y height\<rparr>, \<lparr>op_x = x, op_y = fadd y height\<rparr>]"

section \<open>Conversions\<close>

text \<open>
  \<open>AiOverlayEventPayload.create\<close> with the defaults the conversion uses: fresh identifier
  and clock are arguments; an absent or empty event identifier takes the fresh one.
\<close>

definition overlay_create ::
    "pytext \<Rightarrow> int \<Rightarrow> pytext \<Rightarrow> pytext \<Rightarrow> pyfloat \<Rightarrow> pyfloat overlay_point list \<Rightarrow> pytext \<Rightarrow>
       pytext option \<Rightarrow> int option \<Rightarrow> int option \<Rightarrow> pyfloat overlay_event" where
  "overlay_create new_id now stream_id label confidence points model_id event_id observed received =
     \<lparr>oe_event_id = (case event_id of None \<Rightarrow> new_id | Some i \<Rightarrow> if i = [] then new_id else i),
      oe_stream_id = stream_id, oe_model_id = model_id, oe_kind = OVERLAY_KIND_BOUNDING_BOX,
      oe_label = label, oe_confidence = confidence, oe_points = points,
      oe_latitude = Fin 0, oe_longitude = Fin 0, oe_altitude_m = Fin 0,
      oe_observed_unix_millis = or_now observed now, oe_received_unix_millis = or_now received now\<rparr>"

definition events_from_dashboard_response ::
    "(nat \<Rightarrow> pytext) \<Rightarrow> (nat \<Rightarrow> int) \<Rightarrow> ai_response \<Rightarrow> pytext \<Rightarrow> pyfloat overlay_event list" where
  "events_from_dashboard_response new_id now response model_id =
     (let observed_millis = unix_millis (fr_captured_at (rs_frame response));
          received_millis = unix_millis (rs_generated_at response)
      in map (\<lambda>(i, detection).
           overlay_create (new_id i) (now i) (rs_stream_id response) (dr_label detection)
             (dr_confidence detection)
             (points_from_bbox (bb_x (dr_bbox detection)) (bb_y (dr_bbox detection))
                (bb_width (dr_bbox detection)) (bb_height (dr_bbox detection)))
             (if model_id = [] then DEFAULT_AI_MODEL_ID else model_id)
             (dr_track_id detection) (Some observed_millis) (Some received_millis))
         (enumerate 0 (rs_detections response)))"

definition detection_from_overlay_event ::
    "pytext \<Rightarrow> pytext \<Rightarrow> pyfloat \<Rightarrow> pyfloat overlay_point list \<Rightarrow> pyfloat \<Rightarrow> ai_error + detection_result" where
  "detection_from_overlay_event event_id label confidence points risk_score =
     bind_r (bounding_box_from_points points) (\<lambda>bbox.
     Inr \<lparr>dr_label = label, dr_bbox = bbox, dr_confidence = confidence,
          dr_risk_score = risk_score, dr_track_id = Some event_id\<rparr>)"

definition to_dashboard_detection :: "pyfloat overlay_event \<Rightarrow> pyfloat \<Rightarrow> ai_error + detection_result" where
  "to_dashboard_detection e risk_score =
     detection_from_overlay_event (oe_event_id e) (oe_label e) (oe_confidence e) (oe_points e) risk_score"

definition dashboard_response_from_overlay_events ::
    "validator_lib \<Rightarrow> pytext \<Rightarrow> frame_reference \<Rightarrow> pydatetime \<Rightarrow> pyfloat overlay_event list \<Rightarrow>
       pyfloat \<Rightarrow> pytext \<Rightarrow> ai_error + ai_response" where
  "dashboard_response_from_overlay_events lib stream_id frame generated_at events risk_score report_text =
     (if list_ex (\<lambda>e. oe_stream_id e \<noteq> stream_id) events then Inl StreamMismatch
      else
        bind_r (map_r (\<lambda>e. to_dashboard_detection e risk_score) events) (\<lambda>detections.
        validate_response lib
          \<lparr>rs_schema_version = AI_CONTRACT_SCHEMA_VERSION, rs_stream_id = stream_id, rs_frame = frame,
           rs_generated_at = generated_at, rs_risk_score = risk_score, rs_report_text = report_text,
           rs_detections = detections\<rparr>))"

section \<open>Events decode to themselves\<close>

definition point_fields :: "f64 overlay_point \<Rightarrow> (int \<times> wire_value) list" where
  "point_fields pt = [(1, WFloat (op_x pt)), (2, WFloat (op_y pt))]"

lemma point_to_wire_emit: "point_to_wire pt = Inr (wire_message (point_fields pt))"
  unfolding point_to_wire_def point_fields_def
  by (intro run_encoders_emit) (auto intro!: step_emits simp: overlay_field_defs)

lemma point_from_wire_emit [simp]: "point_from_wire (wire_message (point_fields pt)) = Inr pt"
  by (simp add: point_from_wire_def point_fields_def wire_access overlay_field_defs)

interpretation point_codec: wire_codec point_to_wire point_from_wire
  by unfold_locales (auto simp: point_to_wire_emit)

definition overlay_fields ::
    "bytes \<Rightarrow> bytes \<Rightarrow> bytes \<Rightarrow> bytes \<Rightarrow> f64 overlay_event \<Rightarrow> (int \<times> wire_value) list" where
  "overlay_fields b1 b2 b3 b5 e =
     [(1, WBytes b1), (2, WBytes b2), (3, WBytes b3), (4, WInt (oe_kind e)), (5, WBytes b5),
      (6, WFloat (oe_confidence e))]
     @ map (\<lambda>pt. (7, WBytes (wire_message (point_fields pt)))) (oe_points e)
     @ [(8, WBytes (wire_message [(GEO_LATITUDE, WFloat (oe_latitude e)),
             (GEO_LONGITUDE, WFloat (oe_longitude e)), (GEO_ALTITUDE_M, WFloat (oe_altitude_m e))])),
        (9, WBytes (wire_message [(TS_OBSERVED_UNIX_MILLIS, WInt (oe_observed_unix_millis e)),
             (TS_RECEIVED_UNIX_MILLIS, WInt (oe_received_unix_millis e))]))]"

lemma encode_points_emits:
  "list_all2 emits (map (\<lambda>pt p. bind_r (point_to_wire pt) (encode_bytes p OV_POINT)) pts)
     (map (\<lambda>pt. (7, WBytes (wire_message (point_fields pt)))) pts)"
  by (induction pts)
    (auto intro!: encode_bytes_emits [of 7, simplified] simp: point_to_wire_emit overlay_field_defs
      encode_bytes_plain_emits)

lemma overlay_encoded:
  assumes "encode_overlay_event e = Inr b"
  obtains b1 b2 b3 b5 where
    "utf8_encode (oe_event_id e) = Inr b1" "utf8_encode (oe_stream_id e) = Inr b2"
    "utf8_encode (oe_model_id e) = Inr b3" "utf8_encode (oe_label e) = Inr b5"
    "0 \<le> oe_kind e" "0 \<le> oe_observed_unix_millis e" "0 \<le> oe_received_unix_millis e"
proof -
  note run = run_encoders_Inr [OF assms [unfolded encode_overlay_event_def]]
  have "encodable (oe_event_id e)" "encodable (oe_stream_id e)" "encodable (oe_model_id e)"
    "encodable (oe_label e)"
    using run [of "\<lambda>p. encode_string p OV_EVENT_ID (oe_event_id e)"]
      run [of "\<lambda>p. encode_string p OV_STREAM_ID (oe_stream_id e)"]
      run [of "\<lambda>p. encode_string p OV_MODEL_ID (oe_model_id e)"]
      run [of "\<lambda>p. encode_string p OV_LABEL (oe_label e)"]
    by (auto dest: encode_string_Inr)
  moreover have "0 \<le> oe_kind e"
    using run [of "\<lambda>p. encode_varint_field p OV_KIND (oe_kind e)"]
    by (auto simp: overlay_field_defs dest: encode_varint_field_Inr [rotated])
  moreover have "0 \<le> oe_observed_unix_millis e \<and> 0 \<le> oe_received_unix_millis e"
    using run [of "\<lambda>p. bind_r (timestamped_wire (oe_observed_unix_millis e) (oe_received_unix_millis e))
        (encode_bytes p OV_TIME)"]
    by (auto simp: bind_r_eq_Inr dest: timestamped_wire_Inr)
  ultimately show thesis by (meson that encodable_Inr)
qed

lemma overlay_emit:
  assumes "utf8_encode (oe_event_id e) = Inr b1" "utf8_encode (oe_stream_id e) = Inr b2"
    "utf8_encode (oe_model_id e) = Inr b3" "utf8_encode (oe_label e) = Inr b5"
    "0 \<le> oe_kind e" "0 \<le> oe_observed_unix_millis e" "0 \<le> oe_received_unix_millis e"
  shows "encode_overlay_event e = Inr (wire_message (overlay_fields b1 b2 b3 b5 e))"
    and "decode_overlay_message (message_of (overlay_fields b1 b2 b3 b5 e)) = Inr e"
proof -
  show "encode_overlay_event e = Inr (wire_message (overlay_fields b1 b2 b3 b5 e))"
    unfolding encode_overlay_event_def overlay_fields_def
    using assms encode_points_emits [of "oe_points e"]
    by (intro run_encoders_emit list_all2_appendI)
      (auto intro!: step_emits simp: overlay_field_defs timestamped_wire_emit geo_point_wire_emit)
  have "map_r point_from_wire (map (\<lambda>pt. wire_message (point_fields pt)) pts) = Inr pts" for pts
    by (induction pts) simp_all
  moreover have "bytes_of_values (map (\<lambda>pt. WBytes (wire_message (point_fields pt))) pts)
      = map (\<lambda>pt. wire_message (point_fields pt)) pts" for pts
    using bytes_of_values_map [of "map (\<lambda>pt. wire_message (point_fields pt)) pts"] by (simp add: o_def)
  ultimately show "decode_overlay_message (message_of (overlay_fields b1 b2 b3 b5 e)) = Inr e"
    using assms
    by (simp add: decode_overlay_message_def overlay_fields_def wire_access overlay_field_defs
        anchor_float_def submessage_field_defs timestamped_field_defs utf8_decode_encode o_def)
qed

lemma overlay_roundtrip:
  assumes "overlay_to_protobuf_wire e = Inr b"
  shows "overlay_from_protobuf_wire b = Inr e"
proof -
  from overlay_encoded [OF assms [unfolded overlay_to_protobuf_wire_def]] obtain b1 b2 b3 b5 where u:
    "utf8_encode (oe_event_id e) = Inr b1" "utf8_encode (oe_stream_id e) = Inr b2"
    "utf8_encode (oe_model_id e) = Inr b3" "utf8_encode (oe_label e) = Inr b5"
    "0 \<le> oe_kind e" "0 \<le> oe_observed_unix_millis e" "0 \<le> oe_received_unix_millis e" .
  have "list_all wf_field (overlay_fields b1 b2 b3 b5 e)"
    using u(5) by (auto simp: overlay_fields_def list_all_iff)
  with overlay_emit [OF u] assms show ?thesis
    by (auto simp: overlay_to_protobuf_wire_def overlay_from_protobuf_wire_def decode_overlay_event_def)
qed

interpretation overlay_codec: wire_codec overlay_to_protobuf_wire overlay_from_protobuf_wire
  by unfold_locales (rule overlay_roundtrip)

section \<open>Boxes of six decimals\<close>

lemma half_even_near:
  assumes "\<bar>q - of_int n\<bar> < 1 / 2"
  shows "half_even q = n"
proof -
  have "of_int (half_even q) < (of_int n + 1 :: rat)" "(of_int n - 1 :: rat) < of_int (half_even q)"
    using assms half_even_error [of q] by linarith+
  then have "of_int (half_even q) < (of_int (n + 1) :: rat)" "(of_int (n - 1) :: rat) < of_int (half_even q)"
    by simp_all
  then show ?thesis unfolding of_int_less_iff by simp
qed

text \<open>One axis: adding a six-decimal width and subtracting again gives it back.\<close>

lemma axis_roundtrip:
  assumes a: "0 \<le> a" "a \<le> 1" and b: "0 < b" "b \<le> 1" and six: "fround6 (Fin b) = Fin b"
  obtains s d where "fadd (Fin a) (Fin b) = Fin s" "a < s" "fsub (Fin s) (Fin a) = Fin d" "0 < d"
    "fround6 (Fin d) = Fin b"
proof -
  define j where "j = half_even (b * 10 ^ 6)"
  have j: "0 \<le> j" "j \<le> 10 ^ 6" unfolding j_def using b by (auto intro!: int_le_half_even half_even_le_int)
  have "of_int 0 \<le> (of_int j :: rat)" "of_int j \<le> (of_int (10 ^ 6) :: rat)"
    unfolding of_int_le_iff using j by simp_all
  then have jr: "0 \<le> (of_int j :: rat)" "of_int j \<le> (10 ^ 6 :: rat)" by simp_all
  have m: "mk_float (of_int j / 10 ^ 6) = Fin b" using six by (simp add: j_def)
  then have bj: "b = round64 (of_int j / 10 ^ 6)"
    by (auto simp: mk_float_def Let_def split: if_splits)
  have "j \<noteq> 0" using bj b by (auto simp: round64_def)
  then have j1: "1 \<le> (of_int j :: rat)" using j by simp
  have "round64 (1 / 2 ^ 20) \<le> b" unfolding bj using j1 by (intro round64_mono) simp
  moreover have "double64 (1 / 2 ^ 20)" using double64_dyadic [of 1 20] by simp
  ultimately have blo: "1 / 1048576 \<le> b" by simp
  have "\<bar>b - of_int j / 10 ^ 6\<bar> \<le> 2 powi (0 - 53)"
    unfolding bj using jr by (intro round64_error) simp_all
  then have eb: "\<bar>b - of_int j / 1000000\<bar> \<le> 1 / 9007199254740992" by (simp add: power_int_minus)
  define s where "s = round64 (a + b)"
  have "\<bar>s - (a + b)\<bar> \<le> 2 powi (1 - 53)"
    unfolding s_def using a b by (intro round64_error) simp_all
  then have es: "\<bar>s - (a + b)\<bar> \<le> 1 / 4503599627370496" by (simp add: power_int_minus)
  have d0: "0 < s - a" "s - a < 2" using es blo b by linarith+
  define d where "d = round64 (s - a)"
  have "\<bar>d - (s - a)\<bar> \<le> 2 powi (0 - 53)"
    unfolding d_def using d0 by (intro round64_error) simp_all
  then have ed: "\<bar>d - (s - a)\<bar> \<le> 1 / 9007199254740992" by (simp add: power_int_minus)
  have db: "\<bar>d - b\<bar> \<le> 1 / 2251799813685248" using es ed by linarith
  have big: "(4 :: rat) < 2 ^ 1024" by simp
  have s4: "\<bar>s\<bar> < 4" "\<bar>d\<bar> < 4" using a b es db by linarith+
  have fin: "mk_float q = Fin (round64 q)" if "\<bar>round64 q\<bar> < 4" for q
    using that big by (simp add: mk_float_def Let_def abs_less_iff)
  have "\<bar>d - of_int j / 1000000\<bar> \<le> 1 / 1125899906842624" using db eb by linarith
  then have "\<bar>d * 1000000 - of_int j\<bar> < 1 / 2" unfolding abs_le_iff abs_less_iff by linarith
  then have "\<bar>d * 10 ^ 6 - of_int j\<bar> < 1 / 2" by simp
  then have "half_even (d * 10 ^ 6) = j" by (rule half_even_near)
  then have "fround6 (Fin d) = Fin b" using m by simp
  moreover have "fadd (Fin a) (Fin b) = Fin s" using fin [of "a + b"] s4 by (simp add: s_def)
  moreover have "fsub (Fin s) (Fin a) = Fin d" using fin [of "s - a"] s4 by (simp add: fsub_def d_def)
  moreover have "0 < d" using db blo by linarith
  ultimately show thesis using that d0 by simp
qed

definition six_decimals :: "pyfloat \<Rightarrow> bool" where
  "six_decimals x \<longleftrightarrow> fround6 x = x"

lemma fround6_finite_value: "unit_interval lib x \<Longrightarrow> x \<noteq> NaN \<Longrightarrow> \<exists>a. x = Fin a \<and> 0 \<le> a \<and> a \<le> 1"
  by (cases x) (auto simp: unit_interval_def float_ge_def float_le_def)

lemma fmin_box: "a < s \<Longrightarrow> fmin_list [Fin a, Fin s, Fin s, Fin a] = Fin a"
  "a < s \<Longrightarrow> fmin_list [Fin a, Fin a, Fin s, Fin s] = Fin a"
  "a < s \<Longrightarrow> fmax_list [Fin a, Fin s, Fin s, Fin a] = Fin s"
  "a < s \<Longrightarrow> fmax_list [Fin a, Fin a, Fin s, Fin s] = Fin s"
  by (auto simp: fmin_list_def fmax_list_def)

lemma box_of_points_of_box:
  assumes valid: "validate_box lib b = Inr b"
    and six: "six_decimals (bb_x b)" "six_decimals (bb_y b)" "six_decimals (bb_width b)"
      "six_decimals (bb_height b)"
    and number: "bb_x b \<noteq> NaN" "bb_y b \<noteq> NaN" "bb_width b \<noteq> NaN" "bb_height b \<noteq> NaN"
  shows "bounding_box_from_points (points_from_bbox (bb_x b) (bb_y b) (bb_width b) (bb_height b)) = Inr b"
proof -
  note v = valid [unfolded validate_box_def] and v' = float_gt_def float_le_def
  obtain x y where x: "bb_x b = Fin x" "0 \<le> x" "x \<le> 1" and y: "bb_y b = Fin y" "0 \<le> y" "y \<le> 1"
    using v number fround6_finite_value [of lib] by (metis (no_types, lifting) sum.distinct(1))
  obtain w where w: "bb_width b = Fin w" "0 < w" "w \<le> 1"
    using v number(3) by (cases "bb_width b") (auto simp: v' split: if_splits)
  obtain h where h: "bb_height b = Fin h" "0 < h" "h \<le> 1"
    using v number(4) by (cases "bb_height b") (auto simp: v' split: if_splits)
  obtain s d where s: "fadd (Fin x) (Fin w) = Fin s" "x < s" "fsub (Fin s) (Fin x) = Fin d" "0 < d"
    "fround6 (Fin d) = Fin w"
    using axis_roundtrip [OF x(2,3) w(2,3)] six(3) w(1) by (metis six_decimals_def)
  obtain t e where t: "fadd (Fin y) (Fin h) = Fin t" "y < t" "fsub (Fin t) (Fin y) = Fin e" "0 < e"
    "fround6 (Fin e) = Fin h"
    using axis_roundtrip [OF y(2,3) h(2,3)] six(4) h(1) by (metis six_decimals_def)
  have "ensure_box_stays_inside_frame b" using v by (simp split: if_splits)
  then have le: "s \<le> 1" "t \<le> 1"
    using x(1) y(1) w(1) h(1) s(1) t(1) by (simp_all add: ensure_box_stays_inside_frame_def)
  have b: "b = \<lparr>bb_x = Fin x, bb_y = Fin y, bb_width = Fin w, bb_height = Fin h\<rparr>"
    using x(1) y(1) w(1) h(1) by (cases b) simp
  have "points_from_bbox (bb_x b) (bb_y b) (bb_width b) (bb_height b) =
      [\<lparr>op_x = Fin x, op_y = Fin y\<rparr>, \<lparr>op_x = Fin s, op_y = Fin y\<rparr>,
       \<lparr>op_x = Fin s, op_y = Fin t\<rparr>, \<lparr>op_x = Fin x, op_y = Fin t\<rparr>]"
    unfolding points_from_bbox_def x(1) y(1) w(1) h(1) s(1) t(1) ..
  moreover have "fround6 (Fin x) = Fin x" "fround6 (Fin y) = Fin y"
    using six(1,2) x(1) y(1) by (metis six_decimals_def)+
  ultimately show ?thesis
    using s(2-5) t(2-5) x y le
    by (simp add: bounding_box_from_points_def Let_def fmin_box b del: fround6.simps)
qed

section \<open>Dashboard responses\<close>

lemma validate_detection_Inr:
  assumes "validate_detection lib d = Inr d'"
  shows "validate_box lib (dr_bbox d') = Inr (dr_bbox d')" "dr_bbox d' = dr_bbox d"
    "unit_interval lib (dr_confidence d')" "dr_confidence d' = dr_confidence d"
    "dr_track_id d' = map_option (vl_strip lib) (dr_track_id d)" "dr_label d' = vl_strip lib (dr_label d)"
  using assms
  by (auto simp: validate_detection_def validate_box_def bind_r_eq_Inr opt_str_min1_def str_min1_def Let_def
      split: if_splits option.splits)

lemma validate_response_Inr:
  assumes "validate_response lib r = Inr r'"
  shows "map_r (validate_detection lib) (rs_detections r) = Inr (rs_detections r')"
    "rs_stream_id r' = vl_strip lib (rs_stream_id r)"
  using assms by (auto simp: validate_response_def bind_r_eq_Inr str_min1_def Let_def split: if_splits)

lemma dashboard_response_Inr:
  assumes "dashboard_response_from_overlay_events lib sid frame gen events risk report = Inr resp"
    and "i < length events"
  shows "length (rs_detections resp) = length events" "oe_stream_id (events ! i) = sid"
    "\<exists>b. bounding_box_from_points (oe_points (events ! i)) = Inr b \<and>
       dr_bbox (rs_detections resp ! i) = b \<and> validate_box lib b = Inr b"
    "dr_track_id (rs_detections resp ! i) = Some (vl_strip lib (oe_event_id (events ! i)))"
    "dr_confidence (rs_detections resp ! i) = oe_confidence (events ! i)"
proof -
  from assms(1) obtain ds where sid: "\<forall>e\<in>set events. oe_stream_id e = sid"
    and ds: "map_r (\<lambda>e. to_dashboard_detection e risk) events = Inr ds"
    and v: "map_r (validate_detection lib) ds = Inr (rs_detections resp)"
    by (auto simp: dashboard_response_from_overlay_events_def bind_r_eq_Inr list_ex_iff
        dest: validate_response_Inr split: if_splits)
  from map_r_length [OF ds] map_r_length [OF v]
  show len: "length (rs_detections resp) = length events" by simp
  show "oe_stream_id (events ! i) = sid" using sid assms(2) by simp
  have "to_dashboard_detection (events ! i) risk = Inr (ds ! i)"
    by (rule map_r_nth [OF ds assms(2)])
  then obtain b where b: "bounding_box_from_points (oe_points (events ! i)) = Inr b"
    and d: "ds ! i = \<lparr>dr_label = oe_label (events ! i), dr_bbox = b,
       dr_confidence = oe_confidence (events ! i), dr_risk_score = risk,
       dr_track_id = Some (oe_event_id (events ! i))\<rparr>"
    by (auto simp: to_dashboard_detection_def detection_from_overlay_event_def bind_r_eq_Inr)
  have "validate_detection lib (ds ! i) = Inr (rs_detections resp ! i)"
    using map_r_nth [OF v, of i] map_r_length [OF ds] assms(2) by simp
  from validate_detection_Inr [OF this] b d
  show "\<exists>b. bounding_box_from_points (oe_points (events ! i)) = Inr b \<and>
       dr_bbox (rs_detections resp ! i) = b \<and> validate_box lib b = Inr b"
    "dr_track_id (rs_detections resp ! i) = Some (vl_strip lib (oe_event_id (events ! i)))"
    "dr_confidence (rs_detections resp ! i) = oe_confidence (events ! i)"
    by simp_all
qed

section \<open>Properties\<close>

text \<open>
  C19: An overlay event that \<open>to_protobuf_wire\<close> encodes is returned unchanged by
  \<open>from_protobuf_wire\<close>: identifiers, label, confidence, every point in order, the
  anchor and both times.
\<close>

theorem overlay_wire_roundtrip:
  "overlay_to_protobuf_wire e = Inr b \<Longrightarrow> overlay_from_protobuf_wire b = Inr e"
  by (rule overlay_codec.roundtrip)

definition sample_overlay :: "f64 overlay_event" where
  "sample_overlay =
     \<lparr>oe_event_id = [101], oe_stream_id = [115], oe_model_id = [], oe_kind = 1, oe_label = [0x1F681],
      oe_confidence = 7, oe_points = [\<lparr>op_x = 1, op_y = 2\<rparr>, \<lparr>op_x = 3, op_y = 4\<rparr>],
      oe_latitude = 5, oe_longitude = 6, oe_altitude_m = 8,
      oe_observed_unix_millis = 1700000000000, oe_received_unix_millis = 1\<rparr>"

theorem overlay_wire_roundtrip_witness:
  "\<exists>b. overlay_to_protobuf_wire sample_overlay = Inr b \<and> overlay_from_protobuf_wire b = Inr sample_overlay"
proof -
  have "encodable [101]" "encodable [115]" "encodable []" "encodable [0x1F681]"
    by (simp_all add: encodable_def scalar_value_def is_surrogate_def)
  then obtain b1 b2 b3 b5 where "utf8_encode [101] = Inr b1" "utf8_encode [115] = Inr b2"
    "utf8_encode [] = Inr b3" "utf8_encode [0x1F681] = Inr b5"
    using encodable_Inr by metis
  then obtain b where "overlay_to_protobuf_wire sample_overlay = Inr b"
    using overlay_emit(1) [of sample_overlay b1 b2 b3 b5]
    by (simp add: overlay_to_protobuf_wire_def sample_overlay_def)
  with overlay_wire_roundtrip [OF this] show ?thesis by blast
qed

text \<open>
  A dashboard box survives the overlay: for a box that the schema accepts and whose four
  numbers are six-decimal doubles, turning it into points (\<open>points_from_bbox\<close>) and
  taking the bounding box again (\<open>bounding_box_from_points\<close>) gives exactly the same
  box, although both directions round.
\<close>

theorem overlay_box_roundtrip:
  assumes "validate_box lib b = Inr b"
    and "six_decimals (bb_x b)" "six_decimals (bb_y b)" "six_decimals (bb_width b)"
      "six_decimals (bb_height b)"
    and "bb_x b \<noteq> NaN" "bb_y b \<noteq> NaN" "bb_width b \<noteq> NaN" "bb_height b \<noteq> NaN"
  shows "bounding_box_from_points (points_from_bbox (bb_x b) (bb_y b) (bb_width b) (bb_height b)) = Inr b"
  using assms by (rule box_of_points_of_box)

lemma mk_float_small [simp]: "mk_float (1 / 2) = Fin (1 / 2)" "mk_float (1 / 4) = Fin (1 / 4)"
  "mk_float 1 = Fin 1" "mk_float 0 = Fin 0"
  by (simp_all add: mk_float_def)

lemma half_even_numeral [simp]: "half_even (numeral n) = numeral n" "half_even 0 = 0" "half_even 1 = 1"
  using half_even_of_int [of "numeral n"] half_even_of_int [of 0] half_even_of_int [of 1]
  by simp_all

theorem overlay_box_roundtrip_witness:
  "bounding_box_from_points (points_from_bbox (Fin (1 / 4)) (Fin (1 / 2)) (Fin (1 / 4)) (Fin (1 / 2)))
     = Inr \<lparr>bb_x = Fin (1 / 4), bb_y = Fin (1 / 2), bb_width = Fin (1 / 4), bb_height = Fin (1 / 2)\<rparr>"
  using overlay_box_roundtrip [of ascii_lib
      "\<lparr>bb_x = Fin (1 / 4), bb_y = Fin (1 / 2), bb_width = Fin (1 / 4), bb_height = Fin (1 / 2)\<rparr>"]
  by (simp add: six_decimals_def validate_box_def unit_interval_def float_ge_def float_gt_def
      float_le_def ensure_box_stays_inside_frame_def)

text \<open>
  The guard of \<open>bounding_box_from_points\<close> and the schema disagree on narrow boxes:
  points whose extent is positive but below half a millionth pass the guard, the width is then
  rounded to zero, and the dashboard response that would hold the box is rejected by the schema
  (which demands a positive width), whatever the other arguments.
\<close>

theorem narrow_overlay_rejected:
  assumes "0 < w" and "w < 1 / 2000000" and "double64 w"
    and "oe_points e = points_from_bbox (Fin 0) (Fin 0) (Fin w) (Fin 1)"
    and "oe_stream_id e = sid"
  shows "bounding_box_from_points (oe_points e)
      = Inr \<lparr>bb_x = Fin 0, bb_y = Fin 0, bb_width = Fin 0, bb_height = Fin 1\<rparr> \<and>
    dashboard_response_from_overlay_events lib sid frame gen [e] risk report = Inl ValidationError"
proof -
  have "w < 2 ^ 1024" using assms(2) by (rule less_trans) simp
  then have w: "mk_float w = Fin w" using assms(1,3) by (simp add: mk_float_def)
  have "half_even (w * 10 ^ 6) = 0" using assms(1,2) by (intro half_even_near) simp
  with assms w have box: "bounding_box_from_points (oe_points e)
      = Inr \<lparr>bb_x = Fin 0, bb_y = Fin 0, bb_width = Fin 0, bb_height = Fin 1\<rparr>"
    by (simp add: bounding_box_from_points_def points_from_bbox_def fmin_list_def fmax_list_def
        fsub_def Let_def)
  then have "to_dashboard_detection e risk = Inr \<lparr>dr_label = oe_label e,
      dr_bbox = \<lparr>bb_x = Fin 0, bb_y = Fin 0, bb_width = Fin 0, bb_height = Fin 1\<rparr>,
      dr_confidence = oe_confidence e, dr_risk_score = risk, dr_track_id = Some (oe_event_id e)\<rparr>"
    by (simp add: to_dashboard_detection_def detection_from_overlay_event_def)
  moreover have "validate_response lib r = Inl ValidationError"
    if "bb_width (dr_bbox (hd (rs_detections r))) = Fin 0" "rs_detections r \<noteq> []" for r
    using that
    by (cases "rs_detections r"; cases "validate_response lib r")
      (auto simp: validate_response_def validate_detection_def validate_box_def validate_frame_def
        opt_str_min1_def str_min1_def bind_r_eq_Inl bind_r_eq_Inr float_gt_def Let_def
        split: if_splits option.splits)
  ultimately show ?thesis using box assms(5)
    by (simp add: dashboard_response_from_overlay_events_def)
qed

definition sample_time :: pydatetime where
  "sample_time = \<lparr>dt_wall_micros = 1700000000000000, dt_utcoffset_micros = Some 0\<rparr>"

definition sample_frame :: frame_reference where
  "sample_frame = \<lparr>fr_stream_id = [115], fr_frame_id = None, fr_captured_at = sample_time, fr_pts_ms = Some 3\<rparr>"

definition sample_event :: "pyfloat overlay_point list \<Rightarrow> pyfloat overlay_event" where
  "sample_event pts = overlay_create [] 0 [115] [97] (Fin 1) pts [] (Some [101]) None None"

theorem narrow_overlay_rejected_witness:
  "dashboard_response_from_overlay_events ascii_lib [115] sample_frame sample_time
     [sample_event (points_from_bbox (Fin 0) (Fin 0) (Fin (1 / 2 ^ 22)) (Fin 1))] (Fin 0) [97]
     = Inl ValidationError"
  using narrow_overlay_rejected [of "1 / 2 ^ 22"
      "sample_event (points_from_bbox (Fin 0) (Fin 0) (Fin (1 / 2 ^ 22)) (Fin 1))" "[115]"
      ascii_lib sample_frame sample_time "Fin 0" "[97]"] double64_dyadic [of 1 22]
  by (simp add: overlay_create_def sample_event_def)

text \<open>
  A dashboard response built from overlay events holds one detection per event, in their
  order, each with the event's confidence, its stripped identifier as track and the bounding
  box of its points, and every box satisfies the schema; it is built only if every event
  belongs to the stream.
\<close>

theorem dashboard_response_faithful:
  assumes "dashboard_response_from_overlay_events lib sid frame gen events risk report = Inr resp"
  shows "list_all2 (\<lambda>e d. oe_stream_id e = sid \<and> dr_confidence d = oe_confidence e \<and>
      dr_track_id d = Some (vl_strip lib (oe_event_id e)) \<and>
      bounding_box_from_points (oe_points e) = Inr (dr_bbox d) \<and>
      validate_box lib (dr_bbox d) = Inr (dr_bbox d)) events (rs_detections resp)"
proof (cases "events = []")
  case True
  with assms show ?thesis
    by (auto simp: dashboard_response_from_overlay_events_def dest: validate_response_Inr)
next
  case False
  then have "length (rs_detections resp) = length events"
    using dashboard_response_Inr(1) [OF assms, of 0] by simp
  then show ?thesis
    using dashboard_response_Inr(2-) [OF assms] by (fastforce simp: list_all2_conv_all_nth)
qed

theorem dashboard_response_faithful_witness:
  "\<exists>resp. dashboard_response_from_overlay_events ascii_lib [115] sample_frame sample_time
       [sample_event (points_from_bbox (Fin (1 / 4)) (Fin (1 / 2)) (Fin (1 / 4)) (Fin (1 / 2)))]
       (Fin 0) [97] = Inr resp \<and> length (rs_detections resp) = 1"
proof -
  let ?b = "\<lparr>bb_x = Fin (1 / 4), bb_y = Fin (1 / 2), bb_width = Fin (1 / 4), bb_height = Fin (1 / 2)\<rparr>"
  have v: "validate_box ascii_lib ?b = Inr ?b"
    by (simp add: validate_box_def unit_interval_def float_ge_def float_gt_def
        float_le_def ensure_box_stays_inside_frame_def)
  have b: "bounding_box_from_points
      (points_from_bbox (Fin (1 / 4)) (Fin (1 / 2)) (Fin (1 / 4)) (Fin (1 / 2))) = Inr ?b"
    using box_of_points_of_box [OF v] by (simp add: six_decimals_def)
  obtain resp where r: "dashboard_response_from_overlay_events ascii_lib [115] sample_frame sample_time
       [sample_event (points_from_bbox (Fin (1 / 4)) (Fin (1 / 2)) (Fin (1 / 4)) (Fin (1 / 2)))]
       (Fin 0) [97] = Inr resp"
    using v b
    by (simp add: dashboard_response_from_overlay_events_def sample_event_def overlay_create_def
        to_dashboard_detection_def detection_from_overlay_event_def validate_response_def
        validate_detection_def validate_frame_def opt_str_min1_def str_min1_def sample_frame_def
        ascii_lib_def ascii_strip_def sample_time_def aware_def unit_interval_Fin)
  with dashboard_response_faithful [OF r] show ?thesis by (auto dest: list_all2_lengthD)
qed

end
