(* ===== verification/Telemetry_Model.thy ===== *)
theory Telemetry_Model
  imports Telemetry_Wire Ai_Contract
begin

text \<open>
  The legacy telemetry record: \<open>TelemetryCreate\<close> and \<open>TelemetryResponse\<close> of
  \<open>backend/model/telemetry_model.py\<close>, the storage columns of
  \<open>backend/modules/telemetry_buffer/storage_contract.py\<close> and
  \<open>backend/sql/telemetry_sql.py\<close>, the conversion of a telemetry envelope
  (\<open>to_legacy_telemetry\<close>, \<open>legacy_epoch_seconds\<close>), and the database table as the code
  sees it through SQLAlchemy: an argument \<open>table_ops\<close> with the laws of the locale
  \<open>sql_table\<close>. A model object is the map of the fields that were set; an unset
  field and a field set to \<open>None\<close> differ, which \<open>exclude_unset\<close> makes visible.
\<close>

section \<open>Columns and cells\<close>

datatype tcolumn =
    C_UUID | C_LATITUDE | C_LONGITUDE | C_ALTITUDE | C_MAGNETIC_X | C_MAGNETIC_Y | C_MAGNETIC_Z
  | C_SOC | C_PHONE_BATTERY_SOC | C_VELOCITY | C_TOTAL_DISTANCE | C_EPOCH_TIME | C_PORT_DISTANCE
  | C_STREAM_UUID | C_RECEIVED_AT

datatype tcell = CNull | CText pytext | CFloat pyfloat | CInt int | CTime pydatetime

definition LATEST_ROW_COLUMNS :: "tcolumn list" where
  "LATEST_ROW_COLUMNS =
     [C_UUID, C_LATITUDE, C_LONGITUDE, C_ALTITUDE, C_MAGNETIC_X, C_MAGNETIC_Y, C_MAGNETIC_Z, C_SOC,
      C_PHONE_BATTERY_SOC, C_VELOCITY, C_TOTAL_DISTANCE, C_EPOCH_TIME, C_PORT_DISTANCE]"

definition HISTORY_ROW_COLUMNS :: "tcolumn list" where
  "HISTORY_ROW_COLUMNS =
     [C_STREAM_UUID, C_LATITUDE, C_LONGITUDE, C_ALTITUDE, C_VELOCITY, C_EPOCH_TIME, C_RECEIVED_AT]"

definition LATEST_TABLE :: string where "LATEST_TABLE = ''telemetry_realtime''"
definition HISTORY_TABLE :: string where "HISTORY_TABLE = ''telemetry_history''"

text \<open>
  The names of a column: the attribute of \<open>TelemetryCreate\<close> and \<open>Telemetry\<close>, and the key under
  which SQLAlchemy's table keeps it, which is the name given to \<open>Column\<close> where one is given.
\<close>

definition field_name :: "tcolumn \<Rightarrow> string" where
  "field_name c =
     (case c of
        C_UUID \<Rightarrow> ''uuid'' | C_LATITUDE \<Rightarrow> ''latitude'' | C_LONGITUDE \<Rightarrow> ''longitude'' | C_ALTITUDE \<Rightarrow> ''altitude''
      | C_MAGNETIC_X \<Rightarrow> ''magnetic_x'' | C_MAGNETIC_Y \<Rightarrow> ''magnetic_y'' | C_MAGNETIC_Z \<Rightarrow> ''magnetic_z'' | C_SOC \<Rightarrow> ''soc''
      | C_PHONE_BATTERY_SOC \<Rightarrow> ''phone_battery_soc'' | C_VELOCITY \<Rightarrow> ''velocity'' | C_TOTAL_DISTANCE \<Rightarrow> ''total_distance''
      | C_EPOCH_TIME \<Rightarrow> ''epoch_time'' | C_PORT_DISTANCE \<Rightarrow> ''port_distance'' | C_STREAM_UUID \<Rightarrow> ''stream_uuid''
      | C_RECEIVED_AT \<Rightarrow> ''received_at'')"

definition column_key :: "tcolumn \<Rightarrow> string" where
  "column_key c =
     (case c of
        C_MAGNETIC_X \<Rightarrow> ''magneticX'' | C_MAGNETIC_Y \<Rightarrow> ''magneticY'' | C_MAGNETIC_Z \<Rightarrow> ''magneticZ''
      | C_PHONE_BATTERY_SOC \<Rightarrow> ''phoneBatterySOC'' | C_TOTAL_DISTANCE \<Rightarrow> ''totalDistance''
      | C_EPOCH_TIME \<Rightarrow> ''epochTime'' | C_PORT_DISTANCE \<Rightarrow> ''portDistance'' | _ \<Rightarrow> field_name c)"

datatype telemetry_error =
    BufferFull | MaxPendingNotPositive | MaxSnapshotsNotPositive | UuidRequired | EmptyUpdateSet
  | SqlError | NoRowReturned | EpochOverflow | MalformedRecord | NoExcludedColumn

section \<open>TelemetryCreate\<close>

type_synonym trow = "tcolumn \<Rightarrow> tcell"

record telemetry_create =
  tc_set_fields :: "tcolumn \<Rightarrow> tcell option"

definition tc_get :: "telemetry_create \<Rightarrow> tcolumn \<Rightarrow> tcell" where
  "tc_get t c = (case tc_set_fields t c of None \<Rightarrow> CNull | Some v \<Rightarrow> v)"

definition tc_uuid :: "telemetry_create \<Rightarrow> pytext option" where
  "tc_uuid t = (case tc_get t C_UUID of CText s \<Rightarrow> Some s | _ \<Rightarrow> None)"

definition tc_epoch_time :: "telemetry_create \<Rightarrow> int option" where
  "tc_epoch_time t = (case tc_get t C_EPOCH_TIME of CInt i \<Rightarrow> Some i | _ \<Rightarrow> None)"

text \<open>The types of the fields: two texts, one integer, floats; every field may be \<open>None\<close>.\<close>

definition tc_typed :: "telemetry_create \<Rightarrow> bool" where
  "tc_typed t \<longleftrightarrow>
     (\<forall>c. tc_set_fields t c \<noteq> None \<longrightarrow> c \<in> set LATEST_ROW_COLUMNS) \<and>
     (\<forall>c \<in> set LATEST_ROW_COLUMNS. case tc_get t c of
        CNull \<Rightarrow> True
      | CText _ \<Rightarrow> c \<in> {C_UUID, C_SOC}
      | CInt _ \<Rightarrow> c = C_EPOCH_TIME
      | CFloat _ \<Rightarrow> c \<notin> {C_UUID, C_SOC, C_EPOCH_TIME}
      | CTime _ \<Rightarrow> False)"

text \<open>\<open>model_dump()\<close> lists every field, \<open>model_dump(exclude_unset=True)\<close> the set ones.\<close>

definition model_dump :: "telemetry_create \<Rightarrow> (tcolumn, tcell) dict" where
  "model_dump t = map (\<lambda>c. (c, tc_get t c)) LATEST_ROW_COLUMNS"

definition model_dump_set :: "telemetry_create \<Rightarrow> (tcolumn, tcell) dict" where
  "model_dump_set t = filter (\<lambda>(c, _). tc_set_fields t c \<noteq> None) (model_dump t)"

definition model_validate_dump :: "(tcolumn, tcell) dict \<Rightarrow> telemetry_create" where
  "model_validate_dump d = \<lparr>tc_set_fields = dict_get d\<rparr>"

record telemetry_response =
  tr_cells :: trow
  tr_epoch_time :: "string option"

section \<open>Legacy conversion of an envelope\<close>

definition legacy_epoch_seconds :: "int \<Rightarrow> telemetry_error + int" where
  "legacy_epoch_seconds millis =
     (case int_truediv millis 1000 of
        None \<Rightarrow> Inl EpochOverflow | Some sec \<Rightarrow> Inr (sec mod 86400))"

definition to_legacy_telemetry :: "telemetry_envelope \<Rightarrow> telemetry_error + telemetry_create" where
  "to_legacy_telemetry e =
     bind_r (legacy_epoch_seconds (te_observed_unix_millis e)) (\<lambda>epoch.
     Inr \<lparr>tc_set_fields =
       [C_UUID \<mapsto> CText (te_asset_id e), C_LATITUDE \<mapsto> CFloat (float_of_bits (te_latitude e)),
        C_LONGITUDE \<mapsto> CFloat (float_of_bits (te_longitude e)),
        C_ALTITUDE \<mapsto> CFloat (float_of_bits (te_altitude_m e)),
        C_MAGNETIC_X \<mapsto> CFloat (float_of_bits (te_heading_deg e)),
        C_VELOCITY \<mapsto> CFloat (float_of_bits (te_speed_mps e)),
        C_PHONE_BATTERY_SOC \<mapsto> CFloat (float_of_bits (te_battery_percent e)),
        C_EPOCH_TIME \<mapsto> CInt epoch]\<rparr>)"

section \<open>The table\<close>

text \<open>
  An \<open>INSERT ... VALUES rows ON CONFLICT (columns) DO UPDATE SET c = excluded.c\<close> statement
  as the builders assemble it, and the table operations of a session: the dialect, executing
  a list of statements and committing, finding the row of a \<open>uuid\<close>, adding a row and assigning
  columns of a row, each with its commit. A failing operation leaves the table as it was.

  What a column keeps of a value it is given is an argument (\<open>conv\<close>): a \<open>Float\<close> column keeps a
  number, also of a text that reads as one, and a bounded \<open>String\<close> refuses a longer text (\<open>None\<close>).
\<close>

record insert_stmt =
  is_table :: string
  is_rows :: "(tcolumn, tcell) dict list"
  is_conflict :: "tcolumn list"
  is_update :: "tcolumn list"

record 'db table_ops =
  tb_dialect :: string
  tb_execute :: "insert_stmt list \<Rightarrow> 'db \<Rightarrow> telemetry_error + 'db"
  tb_find :: "'db \<Rightarrow> tcell \<Rightarrow> trow option"
  tb_add :: "(tcolumn, tcell) dict \<Rightarrow> 'db \<Rightarrow> telemetry_error + 'db"
  tb_assign :: "tcell \<Rightarrow> (tcolumn, tcell) dict \<Rightarrow> 'db \<Rightarrow> telemetry_error + 'db"

definition row_of :: "(tcolumn, tcell) dict \<Rightarrow> trow" where
  "row_of d c = (case dict_get d c of None \<Rightarrow> CNull | Some v \<Rightarrow> v)"

definition assign_row :: "(tcolumn, tcell) dict \<Rightarrow> trow \<Rightarrow> trow" where
  "assign_row d r c = (case dict_get d c of None \<Rightarrow> r c | Some v \<Rightarrow> v)"

definition assign_columns :: "tcolumn list \<Rightarrow> trow \<Rightarrow> trow \<Rightarrow> trow" where
  "assign_columns cols excluded r c = (if c \<in> set cols then excluded c else r c)"

definition distinct_keys :: "insert_stmt \<Rightarrow> bool" where
  "distinct_keys st \<longleftrightarrow> distinct (map (\<lambda>d. map (row_of d) (is_conflict st)) (is_rows st))"

text \<open>The row as it is stored, when every cell of it can be.\<close>

definition storable :: "(tcolumn \<Rightarrow> tcell \<Rightarrow> tcell option) \<Rightarrow> (tcolumn, tcell) dict \<Rightarrow> bool" where
  "storable conv d \<longleftrightarrow> list_all (\<lambda>(c, v). conv c v \<noteq> None) d"

definition stored_cells :: "(tcolumn \<Rightarrow> tcell \<Rightarrow> tcell option) \<Rightarrow> (tcolumn, tcell) dict \<Rightarrow> (tcolumn, tcell) dict" where
  "stored_cells conv d = map (\<lambda>(c, v). (c, the (conv c v))) d"

text \<open>
  The laws: keys are found as they were stored, a null is a null, and a write stores the converted row or,
  when a cell cannot be stored, fails. The upsert is PostgreSQL's.
\<close>

locale sql_table =
  fixes ops :: "'db table_ops"
    and conv :: "tcolumn \<Rightarrow> tcell \<Rightarrow> tcell option"
  assumes conv_null: "conv c CNull = Some CNull"
    and conv_key: "conv C_UUID v = Some w \<Longrightarrow> w = v"
    and find_null: "tb_find ops db CNull = None"
    and find_key: "tb_find ops db (CText u) = Some r \<Longrightarrow> r C_UUID = CText u"
    and add_new: "storable conv d \<Longrightarrow> row_of d C_UUID = CText u \<Longrightarrow> tb_find ops db (CText u) = None \<Longrightarrow>
      \<exists>db'. tb_add ops d db = Inr db' \<and> tb_find ops db' = (tb_find ops db)(CText u := Some (row_of (stored_cells conv d)))"
    and add_null: "row_of d C_UUID = CNull \<Longrightarrow> \<exists>e. tb_add ops d db = Inl e"
    and add_refused: "\<not> storable conv d \<Longrightarrow> \<exists>e. tb_add ops d db = Inl e"
    and assign: "storable conv d \<Longrightarrow> tb_find ops db (CText u) = Some r \<Longrightarrow> row_of d C_UUID = CText u \<Longrightarrow>
      \<exists>db'. tb_assign ops (CText u) d db = Inr db' \<and>
        tb_find ops db' = (tb_find ops db)(CText u := Some (assign_row (stored_cells conv d) r))"
    and assign_refused: "\<not> storable conv d \<Longrightarrow> \<exists>e. tb_assign ops k d db = Inl e"
    and upsert_row: "tb_dialect ops = ''postgresql'' \<Longrightarrow> is_table st = LATEST_TABLE \<Longrightarrow> is_rows st = [d] \<Longrightarrow>
      is_conflict st = [C_UUID] \<Longrightarrow> storable conv d \<Longrightarrow> row_of d C_UUID = CText u \<Longrightarrow> C_UUID \<notin> set (is_update st) \<Longrightarrow>
      \<exists>db'. tb_execute ops [st] db = Inr db' \<and>
        tb_find ops db' = (tb_find ops db)(CText u := Some (case tb_find ops db (CText u) of
          None \<Rightarrow> row_of (stored_cells conv d)
        | Some r \<Rightarrow> assign_columns (is_update st) (row_of (stored_cells conv d)) r))"
    and upsert_refused: "tb_dialect ops = ''postgresql'' \<Longrightarrow> is_table st = LATEST_TABLE \<Longrightarrow> is_rows st = [d] \<Longrightarrow>
      \<not> storable conv d \<or> row_of d C_UUID = CNull \<Longrightarrow> \<exists>e. tb_execute ops [st] db = Inl e"
    and upsert_twice: "tb_dialect ops = ''postgresql'' \<Longrightarrow> st \<in> set sts \<Longrightarrow> is_conflict st \<noteq> [] \<Longrightarrow> \<not> distinct_keys st \<Longrightarrow>
      \<exists>e. tb_execute ops sts db = Inl e"

text \<open>
  A table that obeys the laws: the rows by \<open>uuid\<close>. The statements of a batch are checked and
  executed in order; the history table keeps no state here.
\<close>

type_synonym map_db = "pytext \<Rightarrow> trow option"

definition map_conv :: "tcolumn \<Rightarrow> tcell \<Rightarrow> tcell option" where
  "map_conv c v =
     (case v of
        CText s \<Rightarrow>
          if c = C_UUID then (if length s \<le> 64 then Some v else None)
          else if c = C_SOC \<and> s \<noteq> [] \<and> list_all (\<lambda>d. 48 \<le> d \<and> d \<le> 57) s
            then Some (CFloat (Fin (of_nat (foldl (\<lambda>n d. 10 * n + (d - 48)) 0 s))))
            else None
      | CInt i \<Rightarrow> if c = C_UUID then None else Some (CFloat (Fin (of_int i)))
      | CFloat f \<Rightarrow> if c = C_UUID then None else Some v
      | _ \<Rightarrow> Some v)"

definition map_find :: "map_db \<Rightarrow> tcell \<Rightarrow> trow option" where
  "map_find db k =
     (case k of CText u \<Rightarrow> map_option (\<lambda>r. r(C_UUID := CText u)) (db u) | _ \<Rightarrow> None)"

definition map_add :: "(tcolumn, tcell) dict \<Rightarrow> map_db \<Rightarrow> telemetry_error + map_db" where
  "map_add d db =
     (case row_of d C_UUID of
        CText u \<Rightarrow> (if db u = None \<and> storable map_conv d then Inr (db(u \<mapsto> row_of (stored_cells map_conv d))) else Inl SqlError)
      | _ \<Rightarrow> Inl SqlError)"

definition map_assign :: "tcell \<Rightarrow> (tcolumn, tcell) dict \<Rightarrow> map_db \<Rightarrow> telemetry_error + map_db" where
  "map_assign k d db =
     (case k of
        CText u \<Rightarrow> (case map_find db k of
            Some r \<Rightarrow>
              if row_of d C_UUID = k \<and> storable map_conv d then Inr (db(u \<mapsto> assign_row (stored_cells map_conv d) r))
              else Inl SqlError
          | None \<Rightarrow> Inl SqlError)
      | _ \<Rightarrow> Inl SqlError)"

definition map_upsert :: "tcolumn list \<Rightarrow> (tcolumn, tcell) dict \<Rightarrow> map_db \<Rightarrow> telemetry_error + map_db" where
  "map_upsert cols d db =
     (case row_of d C_UUID of
        CText u \<Rightarrow>
          if storable map_conv d
          then Inr (db(u \<mapsto> (case map_find db (CText u) of
            None \<Rightarrow> row_of (stored_cells map_conv d) | Some r \<Rightarrow> assign_columns cols (row_of (stored_cells map_conv d)) r)))
          else Inl SqlError
      | _ \<Rightarrow> Inl SqlError)"

definition map_execute1 :: "insert_stmt \<Rightarrow> map_db \<Rightarrow> telemetry_error + map_db" where
  "map_execute1 st db =
     (if is_table st = LATEST_TABLE then fold_r (map_upsert (is_update st)) (is_rows st) db else Inr db)"

definition map_execute :: "string \<Rightarrow> insert_stmt list \<Rightarrow> map_db \<Rightarrow> telemetry_error + map_db" where
  "map_execute dialect sts db =
     (if dialect = ''postgresql'' \<and> list_ex (\<lambda>st. is_conflict st \<noteq> [] \<and> \<not> distinct_keys st) sts
      then Inl SqlError else fold_r map_execute1 sts db)"

definition map_table :: "string \<Rightarrow> map_db table_ops" where
  "map_table dialect =
     \<lparr>tb_dialect = dialect, tb_execute = map_execute dialect, tb_find = map_find, tb_add = map_add,
      tb_assign = map_assign\<rparr>"

lemma map_find_upd: "r C_UUID = CText u \<Longrightarrow> map_find (db(u \<mapsto> r)) = (map_find db)(CText u := Some r)"
  by (auto simp: fun_eq_iff map_find_def split: tcell.split)

lemma map_find_simps [simp]: "map_find db CNull = None" "map_find db (CText u) = None \<longleftrightarrow> db u = None"
  by (simp_all add: map_find_def)

lemma map_find_key: "map_find db (CText u) = Some r \<Longrightarrow> r C_UUID = CText u"
  by (auto simp: map_find_def)

lemma row_of_upserts:
  "row_of d C_UUID = CText u \<Longrightarrow> assign_row d r C_UUID = CText u"
  "C_UUID \<notin> set cols \<Longrightarrow> r C_UUID = CText u \<Longrightarrow> assign_columns cols e r C_UUID = CText u"
  by (auto simp: assign_row_def row_of_def assign_columns_def split: option.splits)

lemma dict_get_stored: "dict_get (stored_cells conv d) c = map_option (\<lambda>v. the (conv c v)) (dict_get d c)"
  by (induction d) (auto simp: stored_cells_def dict_get_def)

lemma storable_get: "storable conv d \<Longrightarrow> dict_get d c = Some v \<Longrightarrow> conv c v \<noteq> None"
  by (auto simp: storable_def list_all_iff dest!: dict_get_Some_in)

lemma map_conv_key: "map_conv C_UUID v = Some w \<Longrightarrow> w = v"
  by (auto simp: map_conv_def split: tcell.splits if_splits)

lemma stored_key: "storable map_conv d \<Longrightarrow> row_of d C_UUID = CText u \<Longrightarrow> row_of (stored_cells map_conv d) C_UUID = CText u"
  using map_conv_key storable_get [of map_conv d C_UUID]
  by (auto simp: row_of_def dict_get_stored split: option.splits)

interpretation map_table: sql_table "map_table dialect" map_conv for dialect
  by unfold_locales
    (auto simp: map_table_def map_find_upd map_add_def map_assign_def map_execute_def map_execute1_def
      map_upsert_def distinct_keys_def list_ex_iff row_of_upserts stored_key map_conv_key map_conv_def [of _ CNull]
      dest: map_find_key split: option.splits tcell.splits)

section \<open>Dumps\<close>

lemma dict_get_map_columns: "dict_get (map (\<lambda>c. (c, f c)) cs) c = (if c \<in> set cs then Some (f c) else None)"
  by (induction cs) (auto simp: dict_get_def)

lemma dict_get_filter_key:
  "dict_get (filter (\<lambda>(c, _). P c) d) c = (if P c then dict_get d c else None)"
  by (induction d) (auto simp: dict_get_def)

lemma dict_get_model_dump:
  "dict_get (model_dump t) c = (if c \<in> set LATEST_ROW_COLUMNS then Some (tc_get t c) else None)"
  by (simp add: model_dump_def dict_get_map_columns)

lemma dict_get_model_dump_set: "tc_typed t \<Longrightarrow> dict_get (model_dump_set t) c = tc_set_fields t c"
  by (auto simp: model_dump_set_def dict_get_filter_key dict_get_model_dump tc_typed_def tc_get_def
      split: option.splits)

lemma row_of_model_dump: "tc_typed t \<Longrightarrow> row_of (model_dump t) = tc_get t"
  by (auto simp: fun_eq_iff row_of_def dict_get_model_dump tc_typed_def tc_get_def split: option.split)

lemma row_of_model_dump_set: "tc_typed t \<Longrightarrow> row_of (model_dump_set t) = tc_get t"
  by (simp add: fun_eq_iff row_of_def dict_get_model_dump_set tc_get_def)

lemma assign_model_dump_set:
  "tc_typed t \<Longrightarrow> assign_row (model_dump_set t) r c = (case tc_set_fields t c of None \<Rightarrow> r c | Some v \<Rightarrow> v)"
  by (simp add: assign_row_def dict_get_model_dump_set)

lemma set_keys_model_dump_set:
  "tc_typed t \<Longrightarrow> set (dict_keys (model_dump_set t)) = {c. tc_set_fields t c \<noteq> None}"
  by (auto simp: model_dump_set_def model_dump_def dict_keys_def tc_typed_def image_iff)

lemma tc_uuid_Some: "tc_uuid t = Some u \<longleftrightarrow> tc_get t C_UUID = CText u"
  by (auto simp: tc_uuid_def split: tcell.splits)

lemma tc_uuid_None: "tc_typed t \<Longrightarrow> tc_uuid t = None \<longleftrightarrow> tc_get t C_UUID = CNull"
proof -
  assume "tc_typed t"
  then have "case tc_get t C_UUID of CNull \<Rightarrow> True | CText _ \<Rightarrow> True | _ \<Rightarrow> False"
    by (auto simp: tc_typed_def LATEST_ROW_COLUMNS_def split: tcell.splits)
  then show ?thesis by (auto simp: tc_uuid_def split: tcell.splits)
qed

end
