(* ===== verification/Telemetry_Ingest.thy ===== *)
theory Telemetry_Ingest
  imports Telemetry_Model
begin

text \<open>
  Ingest of legacy telemetry, \<open>backend/modules/telemetry_ingest/service.py\<close> with the
  endpoints of \<open>backend/api/telemetry.py\<close> and \<open>DbTelemetrySink\<close> of
  \<open>backend/mqtt/telemetry_sink.py\<close>: the command, the bounded read-model store, the
  repository with its PostgreSQL and ORM paths, and the formatting of epoch times.
\<close>

section \<open>Epoch formatting\<close>

definition format_epoch_seconds_int :: "int \<Rightarrow> string" where
  "format_epoch_seconds_int sec =
     (let h = sec div 3600; m = (sec mod 3600) div 60; s = sec mod 60
      in format_02 h @ '':'' @ format_02 m @ '':'' @ format_02 s)"

text \<open>The argument is an integer over 1000, a float that \<open>int\<close> truncates.\<close>

definition format_epoch_millis :: "int option \<Rightarrow> telemetry_error + string option" where
  "format_epoch_millis epoch_val =
     (case epoch_val of
        None \<Rightarrow> Inr None
      | Some v \<Rightarrow> (case int_truediv v 1000 of
            None \<Rightarrow> Inl EpochOverflow
          | Some sec \<Rightarrow> Inr (Some (format_epoch_seconds_int sec))))"

section \<open>Commands and the read model\<close>

definition response_snapshot :: "telemetry_create \<Rightarrow> telemetry_error + telemetry_response" where
  "response_snapshot payload =
     bind_r (format_epoch_millis (tc_epoch_time payload)) (\<lambda>epoch.
     Inr \<lparr>tr_cells = tc_get payload, tr_epoch_time = epoch\<rparr>)"

record read_model_store =
  rm_max_snapshots :: int
  rm_snapshots :: "(pytext option, telemetry_response) dict"

definition read_model_create :: "int \<Rightarrow> telemetry_error + read_model_store" where
  "read_model_create max_snapshots =
     (if max_snapshots \<le> 0 then Inl MaxSnapshotsNotPositive
      else Inr \<lparr>rm_max_snapshots = max_snapshots, rm_snapshots = []\<rparr>)"

text \<open>\<open>while len(snapshots) > max: popitem(last=False)\<close>; on an empty dictionary it would raise.\<close>

fun evict_oldest :: "int \<Rightarrow> ('k, 'v) dict \<Rightarrow> ('k, 'v) dict" where
  "evict_oldest m [] = []"
| "evict_oldest m (x # d) = (if int (length (x # d)) > m then evict_oldest m d else x # d)"

definition read_model_upsert ::
    "telemetry_create \<Rightarrow> read_model_store \<Rightarrow> telemetry_error + (telemetry_response \<times> read_model_store)" where
  "read_model_upsert payload store =
     bind_r (response_snapshot payload) (\<lambda>snapshot.
     let snapshots = dict_pop (tc_uuid payload) (rm_snapshots store);
         snapshots = dict_set (tc_uuid payload) snapshot snapshots
     in Inr (snapshot, store\<lparr>rm_snapshots := evict_oldest (rm_max_snapshots store) snapshots\<rparr>))"

definition read_model_list :: "int \<Rightarrow> int \<Rightarrow> read_model_store \<Rightarrow> telemetry_response list" where
  "read_model_list limit offset store =
     slice_range offset (offset + limit) (dict_values (rm_snapshots store))"

section \<open>The repository\<close>

text \<open>
  The builder asks \<open>excluded\<close> for the attribute named like each field of the payload; the columns of
  \<open>excluded\<close> are kept under their keys, so a field whose column has another name has no attribute there.
\<close>

definition build_postgres_telemetry_upsert :: "(tcolumn, tcell) dict \<Rightarrow> telemetry_error + insert_stmt" where
  "build_postgres_telemetry_upsert payload =
     (let update_columns = filter (\<lambda>c. c \<noteq> C_UUID) (dict_keys payload)
      in if list_ex (\<lambda>c. field_name c \<notin> set (map column_key LATEST_ROW_COLUMNS)) update_columns
         then Inl NoExcludedColumn
         else if update_columns = [] then Inl EmptyUpdateSet
         else Inr \<lparr>is_table = LATEST_TABLE, is_rows = [payload], is_conflict = [C_UUID],
                   is_update = update_columns\<rparr>)"

definition upsert_postgres ::
    "'db table_ops \<Rightarrow> telemetry_create \<Rightarrow> 'db \<Rightarrow> 'db \<times> (telemetry_error + trow)" where
  "upsert_postgres ops t db =
     (case bind_r (build_postgres_telemetry_upsert (model_dump_set t))
            (\<lambda>st. tb_execute ops [st] db) of
        Inl e \<Rightarrow> (db, Inl e)
      | Inr db' \<Rightarrow>
          (case tb_find ops db' (tc_get t C_UUID) of
             None \<Rightarrow> (db', Inl NoRowReturned) | Some r \<Rightarrow> (db', Inr r)))"

definition upsert_orm ::
    "'db table_ops \<Rightarrow> telemetry_create \<Rightarrow> 'db \<Rightarrow> 'db \<times> (telemetry_error + trow)" where
  "upsert_orm ops t db =
     (case (case tb_find ops db (tc_get t C_UUID) of
              Some _ \<Rightarrow> tb_assign ops (tc_get t C_UUID) (model_dump_set t) db
            | None \<Rightarrow> tb_add ops (model_dump t) db) of
        Inl e \<Rightarrow> (db, Inl e)
      | Inr db' \<Rightarrow>
          (case tb_find ops db' (tc_get t C_UUID) of
             None \<Rightarrow> (db', Inl NoRowReturned) | Some r \<Rightarrow> (db', Inr r)))"

definition upsert_telemetry ::
    "'db table_ops \<Rightarrow> telemetry_create \<Rightarrow> 'db \<Rightarrow> 'db \<times> (telemetry_error + trow)" where
  "upsert_telemetry ops t db =
     (if tb_dialect ops = ''postgresql'' then upsert_postgres ops t db else upsert_orm ops t db)"

section \<open>The database sink of the MQTT consumer\<close>

text \<open>The database and its open sessions.\<close>

record 'db session_pool =
  sn_db :: 'db
  sn_open :: nat

definition new_session :: "'db session_pool \<Rightarrow> 'db session_pool" where
  "new_session p = p\<lparr>sn_open := sn_open p + 1\<rparr>"

definition db_sink_upsert ::
    "'db table_ops \<Rightarrow> telemetry_create \<Rightarrow> 'db session_pool \<Rightarrow> 'db session_pool \<times> (telemetry_error + trow)" where
  "db_sink_upsert ops t p =
     (let p = new_session p; (db, r) = upsert_telemetry ops t (sn_db p) in
      (p\<lparr>sn_db := db, sn_open := sn_open p - 1\<rparr>, r))"

lemma db_sink_upsert_session:
  "snd (db_sink_upsert ops t p) = snd (upsert_telemetry ops t (sn_db p))"
  "sn_open (fst (db_sink_upsert ops t p)) = sn_open p"
  by (simp_all add: db_sink_upsert_def new_session_def split: prod.split)

section \<open>Endpoints\<close>

definition receive_telemetry ::
    "'db table_ops \<Rightarrow> telemetry_create \<Rightarrow> read_model_store \<Rightarrow> 'db \<Rightarrow>
       read_model_store \<times> 'db \<times> (telemetry_error + trow)" where
  "receive_telemetry ops t store db =
     (case read_model_upsert t store of
        Inl e \<Rightarrow> (store, db, Inl e)
      | Inr (_, store') \<Rightarrow> (store', upsert_telemetry ops t db))"

text \<open>\<open>GET /telemetry/all\<close>: \<open>None\<close> is the 422 of a limit or offset out of range.\<close>

definition get_all_telemetry :: "int \<Rightarrow> int \<Rightarrow> read_model_store \<Rightarrow> telemetry_response list option" where
  "get_all_telemetry limit offset store =
     (if 1 \<le> limit \<and> limit \<le> 500 \<and> 0 \<le> offset \<and> offset \<le> 100000
      then Some (read_model_list limit offset store) else None)"

section \<open>Both repository paths write the same row\<close>

definition merged_row :: "(tcolumn \<Rightarrow> tcell \<Rightarrow> tcell option) \<Rightarrow> telemetry_create \<Rightarrow> trow option \<Rightarrow> trow" where
  "merged_row conv t old c = (case tc_set_fields t c of
      Some v \<Rightarrow> the (conv c v) | None \<Rightarrow> (case old of None \<Rightarrow> CNull | Some r \<Rightarrow> r c))"

text \<open>Every set field can be stored, and some set field has a column of another name.\<close>

definition can_be_stored :: "(tcolumn \<Rightarrow> tcell \<Rightarrow> tcell option) \<Rightarrow> telemetry_create \<Rightarrow> bool" where
  "can_be_stored conv t \<longleftrightarrow> (\<forall>c v. tc_set_fields t c = Some v \<longrightarrow> conv c v \<noteq> None)"

definition RENAMED_COLUMNS :: "tcolumn list" where
  "RENAMED_COLUMNS =
     [C_MAGNETIC_X, C_MAGNETIC_Y, C_MAGNETIC_Z, C_PHONE_BATTERY_SOC, C_TOTAL_DISTANCE, C_EPOCH_TIME, C_PORT_DISTANCE]"

definition sets_renamed :: "telemetry_create \<Rightarrow> bool" where
  "sets_renamed t \<longleftrightarrow> (\<exists>c \<in> set RENAMED_COLUMNS. tc_set_fields t c \<noteq> None)"

lemma unknown_field: "c \<in> set LATEST_ROW_COLUMNS \<Longrightarrow>
    field_name c \<notin> set (map column_key LATEST_ROW_COLUMNS) \<longleftrightarrow> c \<in> set RENAMED_COLUMNS"
  by (cases c) (simp_all add: LATEST_ROW_COLUMNS_def RENAMED_COLUMNS_def field_name_def column_key_def)

text \<open>A key that equals a field's name is the key of that field's own column.\<close>

lemma excluded_column: "c' \<in> set LATEST_ROW_COLUMNS \<Longrightarrow> c \<in> set LATEST_ROW_COLUMNS \<Longrightarrow> column_key c' = field_name c \<Longrightarrow> c' = c"
  by (cases c'; cases c) (simp_all add: LATEST_ROW_COLUMNS_def field_name_def column_key_def)

lemma set_fields_uuid: "tc_uuid t = Some u \<Longrightarrow> tc_set_fields t C_UUID = Some (CText u)"
  by (auto simp: tc_uuid_Some tc_get_def split: option.splits)

lemma typed_column: "tc_typed t \<Longrightarrow> tc_set_fields t c \<noteq> None \<Longrightarrow> c \<in> set LATEST_ROW_COLUMNS"
  by (simp add: tc_typed_def)

lemma assign_row_merged: "tc_typed t \<Longrightarrow> assign_row (stored_cells conv (model_dump_set t)) r = merged_row conv t (Some r)"
  by (auto simp: fun_eq_iff merged_row_def assign_row_def dict_get_stored dict_get_model_dump_set split: option.split)

lemma stored_merged: "tc_typed t \<Longrightarrow> row_of (stored_cells conv (model_dump_set t)) = merged_row conv t None"
  by (auto simp: fun_eq_iff merged_row_def row_of_def dict_get_stored dict_get_model_dump_set split: option.split)

lemma set_dict_get: "dict_ok d \<Longrightarrow> list_all (\<lambda>(c, v). P c v) d \<longleftrightarrow> (\<forall>c v. dict_get d c = Some v \<longrightarrow> P c v)"
  by (auto simp: list_all_iff dest: dict_get_in dict_get_Some_in)

lemma dict_ok_model_dump: "dict_ok (model_dump t)" "dict_ok (model_dump_set t)"
proof -
  show d: "dict_ok (model_dump t)" by (simp add: dict_ok_def model_dump_def o_def LATEST_ROW_COLUMNS_def)
  then show "dict_ok (model_dump_set t)" unfolding model_dump_set_def dict_ok_def by (rule distinct_map_filter)
qed

lemma storable_dump_set: "tc_typed t \<Longrightarrow> storable conv (model_dump_set t) \<longleftrightarrow> can_be_stored conv t"
  by (simp add: storable_def set_dict_get [OF dict_ok_model_dump(2)] dict_get_model_dump_set can_be_stored_def)

lemma build_upsert_renamed:
  assumes "tc_typed t"
  shows "sets_renamed t \<Longrightarrow> build_postgres_telemetry_upsert (model_dump_set t) = Inl NoExcludedColumn"
    and "\<not> sets_renamed t \<Longrightarrow> tc_set_fields t c \<noteq> None \<Longrightarrow> c \<noteq> C_UUID \<Longrightarrow>
      build_postgres_telemetry_upsert (model_dump_set t) =
        Inr \<lparr>is_table = LATEST_TABLE, is_rows = [model_dump_set t], is_conflict = [C_UUID],
             is_update = filter (\<lambda>c. c \<noteq> C_UUID) (dict_keys (model_dump_set t))\<rparr>"
proof -
  let ?upd = "filter (\<lambda>c. c \<noteq> C_UUID) (dict_keys (model_dump_set t))"
  have keys: "set ?upd = {c. tc_set_fields t c \<noteq> None \<and> c \<noteq> C_UUID}"
    using set_keys_model_dump_set [OF assms] by auto
  have "C_UUID \<notin> set RENAMED_COLUMNS" by (simp add: RENAMED_COLUMNS_def)
  then have bad: "list_ex (\<lambda>c. field_name c \<notin> set (map column_key LATEST_ROW_COLUMNS)) ?upd \<longleftrightarrow> sets_renamed t"
  proof -
    have "(c \<in> set ?upd \<and> field_name c \<notin> set (map column_key LATEST_ROW_COLUMNS)) \<longleftrightarrow>
        (c \<in> set RENAMED_COLUMNS \<and> tc_set_fields t c \<noteq> None)" for c
    proof (cases "tc_set_fields t c = None")
      case False
      with unknown_field [OF typed_column [OF assms False]] \<open>C_UUID \<notin> set RENAMED_COLUMNS\<close> show ?thesis
        unfolding keys by (cases "c = C_UUID") (simp_all del: set_map)
    qed (simp add: keys del: set_map set_filter)
    then show ?thesis unfolding list_ex_iff sets_renamed_def by blast
  qed
  then show "sets_renamed t \<Longrightarrow> build_postgres_telemetry_upsert (model_dump_set t) = Inl NoExcludedColumn"
    unfolding build_postgres_telemetry_upsert_def Let_def by (simp only: if_True)
  assume "\<not> sets_renamed t" and c: "tc_set_fields t c \<noteq> None" "c \<noteq> C_UUID"
  moreover have "c \<in> set ?upd" using keys c by simp
  then have "?upd \<noteq> []" by (metis empty_iff list.set(1))
  ultimately show "build_postgres_telemetry_upsert (model_dump_set t) =
        Inr \<lparr>is_table = LATEST_TABLE, is_rows = [model_dump_set t], is_conflict = [C_UUID], is_update = ?upd\<rparr>"
    using bad unfolding build_postgres_telemetry_upsert_def Let_def by (simp only: if_False)
qed

context sql_table
begin

lemma storable_dump: "tc_typed t \<Longrightarrow> storable conv (model_dump t) \<longleftrightarrow> can_be_stored conv t"
  using conv_null
  by (auto simp: storable_def set_dict_get [OF dict_ok_model_dump(1)] dict_get_model_dump can_be_stored_def tc_get_def
      tc_typed_def split: option.splits)

lemma stored_dump: "tc_typed t \<Longrightarrow> row_of (stored_cells conv (model_dump t)) = merged_row conv t None"
  using conv_null
  by (auto simp: fun_eq_iff merged_row_def row_of_def dict_get_stored dict_get_model_dump tc_get_def tc_typed_def
      split: option.split)

lemma upsert_orm_row:
  assumes "tc_typed t" "tc_uuid t = Some u"
  shows "if can_be_stored conv t
    then \<exists>db'. upsert_orm ops t db = (db', Inr (merged_row conv t (tb_find ops db (CText u)))) \<and>
      tb_find ops db' = (tb_find ops db)(CText u := Some (merged_row conv t (tb_find ops db (CText u))))
    else \<exists>e. upsert_orm ops t db = (db, Inl e)"
proof (cases "tb_find ops db (CText u)")
  case None
  with add_new [of "model_dump t" u db] add_refused [of "model_dump t" db] assms show ?thesis
    by (auto simp: upsert_orm_def row_of_model_dump tc_uuid_Some storable_dump stored_dump)
next
  case (Some r)
  with assign [of "model_dump_set t" db u r] assign_refused [of "model_dump_set t" "CText u" db] assms show ?thesis
    by (auto simp: upsert_orm_def row_of_model_dump_set tc_uuid_Some assign_row_merged storable_dump_set)
qed

lemma upsert_postgres_row:
  assumes "tb_dialect ops = ''postgresql''" "tc_typed t" "tc_uuid t = Some u" "tc_set_fields t c \<noteq> None" "c \<noteq> C_UUID"
    and "\<not> sets_renamed t"
  shows "if can_be_stored conv t
    then \<exists>db'. upsert_postgres ops t db = (db', Inr (merged_row conv t (tb_find ops db (CText u)))) \<and>
      tb_find ops db' = (tb_find ops db)(CText u := Some (merged_row conv t (tb_find ops db (CText u))))
    else \<exists>e. upsert_postgres ops t db = (db, Inl e)"
proof -
  let ?upd = "filter (\<lambda>c. c \<noteq> C_UUID) (dict_keys (model_dump_set t))"
  let ?st = "\<lparr>is_table = LATEST_TABLE, is_rows = [model_dump_set t], is_conflict = [C_UUID], is_update = ?upd\<rparr>"
  note st = build_upsert_renamed(2) [OF assms(2,6,4,5)]
  have keys: "set ?upd = {c. tc_set_fields t c \<noteq> None \<and> c \<noteq> C_UUID}"
    using set_keys_model_dump_set [OF assms(2)] by auto
  have u: "tc_get t C_UUID = CText u" using assms(3) by (simp add: tc_uuid_Some)
  show ?thesis
  proof (cases "can_be_stored conv t")
    case False
    with upsert_refused [of ?st "model_dump_set t" db] assms(1,2) st show ?thesis
      by (auto simp: upsert_postgres_def storable_dump_set)
  next
    case True
    define old where "old = tb_find ops db (CText u)"
    have key: "r C_UUID = CText u" if "old = Some r" for r
      using find_key that unfolding old_def .
    have kept: "conv C_UUID (CText u) = Some (CText u)"
      using True set_fields_uuid [OF assms(3)] conv_key by (fastforce simp: can_be_stored_def)
    have row: "(case old of None \<Rightarrow> row_of (stored_cells conv (model_dump_set t))
        | Some r \<Rightarrow> assign_columns ?upd (row_of (stored_cells conv (model_dump_set t))) r) = merged_row conv t old"
      using keys key kept set_fields_uuid [OF assms(3)]
      by (auto simp: fun_eq_iff stored_merged [OF assms(2)] assign_columns_def merged_row_def split: option.split)
    have "\<exists>db'. tb_execute ops [?st] db = Inr db' \<and> tb_find ops db' = (tb_find ops db)(CText u :=
        Some (case old of None \<Rightarrow> row_of (stored_cells conv (model_dump_set t))
          | Some r \<Rightarrow> assign_columns ?upd (row_of (stored_cells conv (model_dump_set t))) r))"
      using upsert_row [of ?st "model_dump_set t" u db] assms(1) True u row_of_model_dump_set [OF assms(2)]
        storable_dump_set [OF assms(2)]
      unfolding old_def by (simp cong: option.case_cong)
    then obtain db' where "tb_execute ops [?st] db = Inr db'"
      "tb_find ops db' = (tb_find ops db)(CText u := Some (merged_row conv t old))"
      unfolding row by blast
    then show ?thesis using st u True by (simp add: upsert_postgres_def old_def)
  qed
qed

end

section \<open>The read model keeps the latest snapshots\<close>

definition take_last :: "nat \<Rightarrow> 'a list \<Rightarrow> 'a list" where
  "take_last n xs = drop (length xs - n) xs"

lemma take_last_append: "n \<le> length ys \<Longrightarrow> take_last n (xs @ ys) = take_last n ys"
  by (simp add: take_last_def)

lemma take_last_map: "take_last n (map f xs) = map f (take_last n xs)"
  by (simp add: take_last_def drop_map)

lemma evict_oldest_take_last: "0 \<le> m \<Longrightarrow> evict_oldest m d = take_last (nat m) d"
proof (induction m d rule: evict_oldest.induct)
  case (2 m x d)
  show ?case
  proof (cases "int (length (x # d)) > m")
    case True
    then have "nat m \<le> length d" using "2.prems" by simp
    then have "take_last (nat m) (x # d) = take_last (nat m) d"
      using take_last_append [of "nat m" d "[x]"] by simp
    with True "2.IH" "2.prems" show ?thesis by simp
  next
    case False
    then have "length (x # d) \<le> nat m" using "2.prems" by (simp add: nat_le_iff)
    with False show ?thesis by (simp add: take_last_def)
  qed
qed (simp add: take_last_def)

lemma take_last_removeAll:
  assumes "distinct xs"
  shows "take_last m (removeAll u (take_last m xs) @ [u]) = take_last m (removeAll u xs @ [u])"
proof -
  define A B where "A = take (length xs - m) xs" and "B = take_last m xs"
  have xs: "xs = A @ B" by (simp add: A_def B_def take_last_def)
  show ?thesis
  proof (cases "A = []")
    case False
    then have "length B = m" by (simp add: A_def B_def take_last_def)
    moreover have "removeAll u B = remove1 u B"
      using assms xs by (simp add: distinct_remove1_removeAll)
    ultimately have "m \<le> length (removeAll u B @ [u])" by (auto simp: length_remove1)
    then have "take_last m (removeAll u (A @ B) @ [u]) = take_last m (removeAll u B @ [u])"
      using take_last_append [of m "removeAll u B @ [u]" "removeAll u A"] by simp
    then show ?thesis unfolding xs [symmetric] unfolding B_def by (rule sym)
  next
    case True
    then have "B = xs" using xs by simp
    then show ?thesis unfolding B_def by simp
  qed
qed

lemma dict_ok_take_last: "dict_ok d \<Longrightarrow> dict_ok (take_last n d)"
  by (simp add: dict_ok_def take_last_def flip: drop_map)

definition read_model_inv :: "read_model_store \<Rightarrow> bool" where
  "read_model_inv store \<longleftrightarrow>
     dict_ok (rm_snapshots store) \<and> 0 < rm_max_snapshots store \<and>
     int (length (rm_snapshots store)) \<le> rm_max_snapshots store"

lemma read_model_upsert_snapshots:
  assumes "read_model_upsert t store = Inr (snap, store')" and "0 < rm_max_snapshots store"
  shows "rm_snapshots store' = take_last (nat (rm_max_snapshots store))
      (dict_pop (tc_uuid t) (rm_snapshots store) @ [(tc_uuid t, snap)])"
    and "rm_max_snapshots store' = rm_max_snapshots store" and "response_snapshot t = Inr snap"
  using assms
  by (auto simp: read_model_upsert_def bind_r_eq_Inr Let_def evict_oldest_take_last dict_set_absent)

lemma read_model_upsert_inv:
  assumes "read_model_upsert t store = Inr (snap, store')" and "read_model_inv store"
  shows "read_model_inv store'"
proof -
  have pos: "0 < rm_max_snapshots store" using assms(2) by (simp add: read_model_inv_def)
  note s = read_model_upsert_snapshots [OF assms(1) pos]
  have "dict_ok (dict_pop (tc_uuid t) (rm_snapshots store) @ [(tc_uuid t, snap)])"
    using assms(2) by (auto simp: read_model_inv_def dict_ok_def dict_pop_def distinct_map inj_on_def)
  then have "dict_ok (rm_snapshots store')" unfolding s(1) by (rule dict_ok_take_last)
  then show ?thesis using s pos by (simp add: read_model_inv_def take_last_def)
qed

lemma read_model_upsert_last:
  assumes "read_model_upsert t store = Inr (snap, store')" and "read_model_inv store"
  shows "rm_snapshots store' \<noteq> []" "last (rm_snapshots store') = (tc_uuid t, snap)"
    "dict_get (rm_snapshots store') (tc_uuid t) = Some snap"
proof -
  have pos: "0 < rm_max_snapshots store" using assms(2) by (simp add: read_model_inv_def)
  let ?xs = "dict_pop (tc_uuid t) (rm_snapshots store) @ [(tc_uuid t, snap)]"
  have k: "length ?xs - nat (rm_max_snapshots store) < length ?xs" using pos by simp
  then show ne: "rm_snapshots store' \<noteq> []" and l: "last (rm_snapshots store') = (tc_uuid t, snap)"
    unfolding read_model_upsert_snapshots(1) [OF assms(1) pos] take_last_def
    by (simp_all add: last_drop)
  have "(tc_uuid t, snap) \<in> set (rm_snapshots store')" using ne l by (metis last_in_set)
  then show "dict_get (rm_snapshots store') (tc_uuid t) = Some snap"
    using read_model_upsert_inv [OF assms] by (simp add: dict_get_in read_model_inv_def)
qed

definition run_upserts :: "telemetry_create list \<Rightarrow> read_model_store \<Rightarrow> telemetry_error + read_model_store" where
  "run_upserts ts store = fold_r (\<lambda>t s. bind_r (read_model_upsert t s) (\<lambda>(_, s'). Inr s')) ts store"

lemma run_upserts_append:
  "run_upserts (ts @ [t]) store
     = bind_r (run_upserts ts store) (\<lambda>s. bind_r (read_model_upsert t s) (\<lambda>(_, s'). Inr s'))"
  by (auto simp: run_upserts_def fold_r_append bind_r_def split: sum.split)

lemma remdups_snoc: "remdups (xs @ [x]) = removeAll x (remdups xs) @ [x]"
  by (induction xs) auto

text \<open>An entry is the snapshot of the last record with its key.\<close>

definition latest_snapshot :: "telemetry_create list \<Rightarrow> pytext option \<Rightarrow> telemetry_response \<Rightarrow> bool" where
  "latest_snapshot ts k v \<longleftrightarrow>
     (\<exists>pre t post. ts = pre @ t # post \<and> tc_uuid t = k \<and> (\<forall>t' \<in> set post. tc_uuid t' \<noteq> k) \<and> response_snapshot t = Inr v)"

lemma latest_snapshot_snoc:
  assumes "response_snapshot t = Inr snap" and "if k = tc_uuid t then v = snap else latest_snapshot ts k v"
  shows "latest_snapshot (ts @ [t]) k v"
proof (cases "k = tc_uuid t")
  case True
  with assms show ?thesis unfolding latest_snapshot_def
    by - (rule exI [of _ ts], rule exI [of _ t], rule exI [of _ "[]"], simp)
next
  case False
  with assms(2) obtain pre t0 post where "ts = pre @ t0 # post" "tc_uuid t0 = k" "\<forall>t' \<in> set post. tc_uuid t' \<noteq> k"
      "response_snapshot t0 = Inr v"
    by (auto simp: latest_snapshot_def)
  with False show ?thesis unfolding latest_snapshot_def
    by - (rule exI [of _ pre], rule exI [of _ t0], rule exI [of _ "post @ [t]"], simp)
qed

lemma run_upserts_values:
  assumes "run_upserts ts \<lparr>rm_max_snapshots = m, rm_snapshots = []\<rparr> = Inr s" and "0 < m"
  shows "rm_max_snapshots s = m \<and> (\<forall>(k, v) \<in> set (rm_snapshots s). latest_snapshot ts k v)"
  using assms(1)
proof (induction ts arbitrary: s rule: rev_induct)
  case Nil
  then show ?case by (auto simp: run_upserts_def)
next
  case (snoc t ts)
  from snoc.prems obtain s' snap where s': "run_upserts ts \<lparr>rm_max_snapshots = m, rm_snapshots = []\<rparr> = Inr s'"
    and u: "read_model_upsert t s' = Inr (snap, s)"
    by (auto simp: run_upserts_append bind_r_eq_Inr)
  note IH = snoc.IH [OF s']
  have pos: "0 < rm_max_snapshots s'" using IH assms(2) by simp
  note now = read_model_upsert_snapshots [OF u pos]
  have "set (rm_snapshots s) \<subseteq> set (dict_pop (tc_uuid t) (rm_snapshots s') @ [(tc_uuid t, snap)])"
    unfolding now(1) take_last_def by (rule set_drop_subset)
  then have "latest_snapshot (ts @ [t]) k v" if "(k, v) \<in> set (rm_snapshots s)" for k v
    using that IH now(3) by (intro latest_snapshot_snoc) (auto simp: dict_pop_def)
  with IH now(2) show ?case by auto
qed

lemma run_upserts_latest:
  assumes "read_model_create m = Inr s0" and "run_upserts ts s0 = Inr s"
  shows "read_model_inv s \<and> rm_max_snapshots s = m \<and>
    dict_keys (rm_snapshots s) = take_last (nat m) (remdups (map tc_uuid ts))"
  using assms(2)
proof (induction ts arbitrary: s rule: rev_induct)
  case Nil
  with assms(1) show ?case
    by (auto simp: run_upserts_def read_model_create_def read_model_inv_def take_last_def
        split: if_splits)
next
  case (snoc t ts)
  from snoc.prems obtain s' snap where s': "run_upserts ts s0 = Inr s'"
    and u: "read_model_upsert t s' = Inr (snap, s)"
    by (auto simp: run_upserts_append bind_r_eq_Inr)
  note IH = snoc.IH [OF s']
  have pos: "0 < rm_max_snapshots s'" using IH by (simp add: read_model_inv_def)
  have "dict_keys (rm_snapshots s)
      = take_last (nat m) (removeAll (tc_uuid t) (dict_keys (rm_snapshots s')) @ [tc_uuid t])"
    using IH unfolding read_model_upsert_snapshots(1) [OF u pos] dict_keys_pop [symmetric]
    by (simp add: dict_keys_def flip: take_last_map)
  also have "\<dots> = take_last (nat m) (remdups (map tc_uuid (ts @ [t])))"
    using IH by (simp add: remdups_snoc take_last_removeAll)
  finally show ?case
    using IH read_model_upsert_inv [OF u] read_model_upsert_snapshots(2) [OF u pos] by simp
qed

section \<open>Units of the legacy epoch\<close>

lemma format_epoch_small:
  "0 \<le> sec \<Longrightarrow> sec < 86400 \<Longrightarrow>
     format_epoch_millis (Some sec) = Inr (Some (format_epoch_seconds_int (sec div 1000)))"
  by (simp add: format_epoch_millis_def int_truediv_1000)

section \<open>Properties\<close>


definition sample_telemetry :: telemetry_create where
  "sample_telemetry = \<lparr>tc_set_fields = [C_UUID \<mapsto> CText [100], C_LATITUDE \<mapsto> CFloat (Fin 37), C_SOC \<mapsto> CText [56, 53]]\<rparr>"

lemma sample_telemetry_typed: "tc_typed sample_telemetry"
  by (simp add: tc_typed_def sample_telemetry_def tc_get_def LATEST_ROW_COLUMNS_def)

lemma sample_telemetry_storable: "can_be_stored map_conv sample_telemetry"
  by (auto simp: can_be_stored_def sample_telemetry_def map_conv_def split: if_splits)


text \<open>
  Every record converted from an envelope sets \<open>magnetic_x\<close>, \<open>phone_battery_soc\<close> and \<open>epoch_time\<close>, so none of
  them can be written by the direct upsert on PostgreSQL.
\<close>

theorem envelope_record_fails_on_postgres:
  assumes "to_legacy_telemetry e = Inr t" and "tb_dialect ops = ''postgresql''"
  shows "upsert_telemetry ops t db = (db, Inl NoExcludedColumn)"
proof -
  from assms(1) have set: "tc_set_fields t C_EPOCH_TIME \<noteq> None"
    by (auto simp: to_legacy_telemetry_def bind_r_eq_Inr)
  moreover have "tc_typed t"
    using assms(1)
    by (auto simp: to_legacy_telemetry_def bind_r_eq_Inr tc_typed_def tc_get_def LATEST_ROW_COLUMNS_def split: if_splits)
  moreover from set have "sets_renamed t" by (simp add: sets_renamed_def RENAMED_COLUMNS_def)
  ultimately show ?thesis
    using assms(2) build_upsert_renamed(1) [of t] by (simp add: upsert_telemetry_def upsert_postgres_def)
qed

theorem envelope_record_fails_on_postgres_witness:
  "\<exists>t. to_legacy_telemetry (sample_envelope\<lparr>te_observed_unix_millis := 43200000\<rparr>) = Inr t \<and>
     upsert_telemetry (map_table ''postgresql'') t Map.empty = (Map.empty, Inl NoExcludedColumn)"
proof -
  obtain t where t: "to_legacy_telemetry (sample_envelope\<lparr>te_observed_unix_millis := 43200000\<rparr>) = Inr t"
    by (simp add: to_legacy_telemetry_def legacy_epoch_seconds_def int_truediv_1000)
  with envelope_record_fails_on_postgres [OF t, of "map_table ''postgresql''" Map.empty] show ?thesis
    by (simp add: map_table_def)
qed

text \<open>
  C9: The read-model store is an exact bounded cache of the latest snapshots: after any
  sequence of upserts from an empty store, its keys, oldest first, are the last
  \<open>max_snapshots\<close> distinct identifiers in order of their latest write, it holds no
  identifier twice, it never exceeds the bound, and each entry is the snapshot of the last record
  written with its identifier.
\<close>

theorem read_model_holds_latest:
  assumes "read_model_create m = Inr s0" and "run_upserts ts s0 = Inr s"
  shows "dict_keys (rm_snapshots s) = take_last (nat m) (remdups (map tc_uuid ts)) \<and>
    dict_ok (rm_snapshots s) \<and> int (length (rm_snapshots s)) \<le> m \<and>
    (\<forall>(k, v) \<in> set (rm_snapshots s). \<exists>pre t post. ts = pre @ t # post \<and> tc_uuid t = k \<and>
       (\<forall>t' \<in> set post. tc_uuid t' \<noteq> k) \<and> response_snapshot t = Inr v)"
proof -
  from assms(1) have "s0 = \<lparr>rm_max_snapshots = m, rm_snapshots = []\<rparr>" "0 < m"
    by (auto simp: read_model_create_def split: if_splits)
  with run_upserts_values [of ts m s] assms(2) have "\<forall>(k, v) \<in> set (rm_snapshots s). latest_snapshot ts k v" by simp
  then show ?thesis
    using run_upserts_latest [OF assms] unfolding latest_snapshot_def by (simp add: read_model_inv_def)
qed

theorem read_model_holds_latest_witness:
  "\<exists>s. run_upserts [\<lparr>tc_set_fields = [C_UUID \<mapsto> CText [1]]\<rparr>, \<lparr>tc_set_fields = [C_UUID \<mapsto> CText [2]]\<rparr>,
       \<lparr>tc_set_fields = [C_UUID \<mapsto> CText [1]]\<rparr>, \<lparr>tc_set_fields = [C_UUID \<mapsto> CText [3]]\<rparr>]
       \<lparr>rm_max_snapshots = 2, rm_snapshots = []\<rparr> = Inr s \<and>
     dict_keys (rm_snapshots s) = [Some [1], Some [3]]"
proof -
  let ?ts = "[\<lparr>tc_set_fields = [C_UUID \<mapsto> CText [1]]\<rparr>, \<lparr>tc_set_fields = [C_UUID \<mapsto> CText [2]]\<rparr>,
       \<lparr>tc_set_fields = [C_UUID \<mapsto> CText [1]]\<rparr>, \<lparr>tc_set_fields = [C_UUID \<mapsto> CText [3]]\<rparr>]"
  let ?s0 = "\<lparr>rm_max_snapshots = 2, rm_snapshots = []\<rparr>"
  obtain s where "run_upserts ?ts ?s0 = Inr s"
    by (simp add: run_upserts_def read_model_upsert_def response_snapshot_def format_epoch_millis_def
        tc_epoch_time_def tc_get_def Let_def)
  with read_model_holds_latest [of 2 ?s0 ?ts s] show ?thesis
    by (simp add: read_model_create_def tc_uuid_def tc_get_def take_last_def)
qed

text \<open>
  The legacy conversion and the read model disagree on the unit of \<open>epoch_time\<close>: the
  conversion of an envelope stores the second of the day (\<open>legacy_epoch_seconds\<close>), the
  snapshot formats it as milliseconds. The displayed time of an envelope observed at second
  \<open>sec\<close> of the day is therefore that of \<open>sec div 1000\<close>, never past \<open>00:01:26\<close>.
\<close>

theorem legacy_epoch_unit_mismatch:
  assumes "0 \<le> te_observed_unix_millis e" and "te_observed_unix_millis e < 1000 * 2 ^ 43"
  shows "\<exists>t r. to_legacy_telemetry e = Inr t \<and> response_snapshot t = Inr r \<and>
    tr_epoch_time r = Some (format_epoch_seconds_int ((te_observed_unix_millis e div 1000 mod 86400) div 1000)) \<and>
    (te_observed_unix_millis e div 1000 mod 86400) div 1000 \<le> 86"
proof -
  let ?sec = "te_observed_unix_millis e div 1000 mod 86400"
  have b: "0 \<le> ?sec" "?sec < 86400" by simp_all
  have "legacy_epoch_seconds (te_observed_unix_millis e) = Inr ?sec"
    using int_truediv_1000 [OF assms] by (simp add: legacy_epoch_seconds_def)
  then obtain t where t: "to_legacy_telemetry e = Inr t" "tc_epoch_time t = Some ?sec"
    by (simp add: to_legacy_telemetry_def tc_epoch_time_def tc_get_def)
  moreover obtain r where "response_snapshot t = Inr r"
    "tr_epoch_time r = Some (format_epoch_seconds_int (?sec div 1000))"
    using t(2) format_epoch_small [OF b] by (simp add: response_snapshot_def)
  moreover have "?sec div 1000 \<le> 86" using b zdiv_mono1 [of ?sec 86399 1000] by simp
  ultimately show ?thesis by blast
qed

theorem legacy_epoch_unit_mismatch_witness:
  "\<exists>t r. to_legacy_telemetry (sample_envelope\<lparr>te_observed_unix_millis := 43200000\<rparr>) = Inr t \<and>
     response_snapshot t = Inr r \<and> tr_epoch_time r = Some ''00:00:43''"
proof -
  have "format_epoch_seconds_int 43 = ''00:00:43''" by code_simp
  with legacy_epoch_unit_mismatch [of "sample_envelope\<lparr>te_observed_unix_millis := 43200000\<rparr>"]
  show ?thesis by auto
qed

end
