(* ===== verification/Telemetry_Buffer.thy ===== *)
theory Telemetry_Buffer
  imports Telemetry_Model "HOL-Library.Countable"
begin

text \<open>
  The telemetry write buffers of \<open>backend/modules/telemetry_buffer\<close>: the in-memory buffer
  of \<open>buffer.py\<close> and the Redis buffer of \<open>redis_queue.py\<close>. The protocol
  \<open>TelemetryWriteBuffer\<close> is the record \<open>buffer_ops\<close> of operations; the locale
  \<open>write_buffer\<close> states what its clients rely on, a queue with a latest value per key, and
  both buffers interpret it. The Redis client and the JSON library are arguments with the laws
  of \<open>redis_server\<close> and \<open>json_library\<close>.
\<close>

section \<open>Records and the buffer protocol\<close>

record buffer_record =
  br_key :: pytext
  br_telemetry :: telemetry_create
  br_received_at :: pydatetime

text \<open>\<open>TelemetryBufferRecord.create\<close>: the clock is an argument.\<close>

definition buffer_record_create :: "pydatetime \<Rightarrow> telemetry_create \<Rightarrow> buffer_record" where
  "buffer_record_create now telemetry =
     \<lparr>br_key = (case tc_uuid telemetry of None \<Rightarrow> [] | Some u \<Rightarrow> u), br_telemetry = telemetry,
      br_received_at = now\<rparr>"

record buffer_stats =
  bs_latest_count :: int
  bs_pending_history_count :: int

text \<open>
  An operation takes the buffer and returns it; \<open>drain\<close> and \<open>latest_for\<close> may raise while
  deserializing, \<open>append\<close> when the queue is full.
\<close>

record 'b buffer_ops =
  bo_put_latest :: "buffer_record \<Rightarrow> 'b \<Rightarrow> 'b"
  bo_append_history :: "buffer_record \<Rightarrow> 'b \<Rightarrow> telemetry_error + 'b"
  bo_latest_for :: "pytext \<Rightarrow> 'b \<Rightarrow> telemetry_error + buffer_record option"
  bo_drain_history :: "int \<Rightarrow> 'b \<Rightarrow> 'b \<times> (telemetry_error + buffer_record list)"
  bo_restore_history_front :: "buffer_record list \<Rightarrow> 'b \<Rightarrow> 'b"
  bo_stats :: "'b \<Rightarrow> buffer_stats"

section \<open>The in-memory buffer\<close>

record memory_buffer =
  mb_latest :: "(pytext, buffer_record) dict"
  mb_history :: "buffer_record list"
  mb_max_pending_history :: int

definition memory_buffer_create :: "int \<Rightarrow> telemetry_error + memory_buffer" where
  "memory_buffer_create max_pending =
     (if max_pending \<le> 0 then Inl MaxPendingNotPositive
      else Inr \<lparr>mb_latest = [], mb_history = [], mb_max_pending_history = max_pending\<rparr>)"

definition memory_put_latest :: "buffer_record \<Rightarrow> memory_buffer \<Rightarrow> memory_buffer" where
  "memory_put_latest r b = b\<lparr>mb_latest := dict_set (br_key r) r (mb_latest b)\<rparr>"

definition memory_append_history :: "buffer_record \<Rightarrow> memory_buffer \<Rightarrow> telemetry_error + memory_buffer" where
  "memory_append_history r b =
     (if int (length (mb_history b)) \<ge> mb_max_pending_history b then Inl BufferFull
      else Inr (b\<lparr>mb_history := mb_history b @ [r]\<rparr>))"

definition memory_latest_for :: "pytext \<Rightarrow> memory_buffer \<Rightarrow> telemetry_error + buffer_record option" where
  "memory_latest_for key b = Inr (dict_get (mb_latest b) key)"

text \<open>\<open>while history and len(drained) < max_items: drained.append(history.popleft())\<close>\<close>

fun memory_drain_loop ::
    "int \<Rightarrow> buffer_record list \<Rightarrow> buffer_record list \<Rightarrow> buffer_record list \<times> buffer_record list" where
  "memory_drain_loop max_items [] drained = ([], drained)"
| "memory_drain_loop max_items (r # history) drained =
     (if int (length drained) < max_items then memory_drain_loop max_items history (drained @ [r])
      else (r # history, drained))"

definition memory_drain_history ::
    "int \<Rightarrow> memory_buffer \<Rightarrow> memory_buffer \<times> (telemetry_error + buffer_record list)" where
  "memory_drain_history max_items b =
     (if max_items \<le> 0 then (b, Inr [])
      else case memory_drain_loop max_items (mb_history b) [] of
        (history, drained) \<Rightarrow> (b\<lparr>mb_history := history\<rparr>, Inr drained))"

definition memory_restore_history_front :: "buffer_record list \<Rightarrow> memory_buffer \<Rightarrow> memory_buffer" where
  "memory_restore_history_front records b =
     (if records = [] then b
      else b\<lparr>mb_history := fold (\<lambda>r history. r # history) (rev records) (mb_history b)\<rparr>)"

definition memory_stats :: "memory_buffer \<Rightarrow> buffer_stats" where
  "memory_stats b =
     \<lparr>bs_latest_count = int (length (mb_latest b)),
      bs_pending_history_count = int (length (mb_history b))\<rparr>"

definition memory_ops :: "memory_buffer buffer_ops" where
  "memory_ops =
     \<lparr>bo_put_latest = memory_put_latest, bo_append_history = memory_append_history,
      bo_latest_for = memory_latest_for, bo_drain_history = memory_drain_history,
      bo_restore_history_front = memory_restore_history_front, bo_stats = memory_stats\<rparr>"

section \<open>The Redis buffer\<close>

record 'c redis_client =
  rc_set :: "pytext \<Rightarrow> pytext \<Rightarrow> 'c \<Rightarrow> 'c"
  rc_get :: "pytext \<Rightarrow> 'c \<Rightarrow> pytext option"
  rc_rpush :: "pytext \<Rightarrow> pytext \<Rightarrow> 'c \<Rightarrow> 'c"
  rc_lpop :: "pytext \<Rightarrow> int \<Rightarrow> 'c \<Rightarrow> 'c \<times> pytext list option"
  rc_lpush :: "pytext \<Rightarrow> pytext list \<Rightarrow> 'c \<Rightarrow> 'c"
  rc_llen :: "pytext \<Rightarrow> 'c \<Rightarrow> int"

text \<open>
  What a record becomes before \<open>json.dumps\<close>: its key, its time and every field of the
  telemetry, set or not; \<open>js_dumps\<close> and \<open>js_loads\<close> are the JSON library.
\<close>

record record_payload =
  rp_key :: pytext
  rp_received_at :: pydatetime
  rp_telemetry :: "(tcolumn, tcell) dict"

record json_codec =
  js_dumps :: "record_payload \<Rightarrow> pytext"
  js_loads :: "pytext \<Rightarrow> record_payload option"

definition REDIS_HISTORY_QUEUE :: pytext where "REDIS_HISTORY_QUEUE = text_of ''history''"
definition REDIS_LATEST_PREFIX :: pytext where "REDIS_LATEST_PREFIX = text_of ''latest''"
definition REDIS_DEFAULT_PREFIX :: pytext where
  "REDIS_DEFAULT_PREFIX = text_of ''gcs-saker:telemetry-buffer''"
definition LATEST_COUNT_NOT_SCANNED :: int where "LATEST_COUNT_NOT_SCANNED = 0"

definition history_queue_key :: "pytext \<Rightarrow> pytext" where
  "history_queue_key key_prefix = key_prefix @ text_of '':'' @ REDIS_HISTORY_QUEUE"

definition latest_key :: "pytext \<Rightarrow> pytext \<Rightarrow> pytext" where
  "latest_key key_prefix stream_key =
     key_prefix @ text_of '':'' @ REDIS_LATEST_PREFIX @ text_of '':'' @ stream_key"

definition serialize_record :: "json_codec \<Rightarrow> buffer_record \<Rightarrow> pytext" where
  "serialize_record js r =
     js_dumps js \<lparr>rp_key = br_key r, rp_received_at = br_received_at r,
                  rp_telemetry = model_dump (br_telemetry r)\<rparr>"

definition deserialize_record :: "json_codec \<Rightarrow> pytext option \<Rightarrow> telemetry_error + buffer_record option" where
  "deserialize_record js value =
     (case value of
        None \<Rightarrow> Inr None
      | Some raw \<Rightarrow>
          (case js_loads js raw of
             None \<Rightarrow> Inl MalformedRecord
           | Some p \<Rightarrow> Inr (Some
               \<lparr>br_key = rp_key p, br_telemetry = model_validate_dump (rp_telemetry p),
                br_received_at = rp_received_at p\<rparr>)))"

definition popped_values :: "pytext list option \<Rightarrow> pytext list" where
  "popped_values values = (case values of None \<Rightarrow> [] | Some vs \<Rightarrow> vs)"

definition deserialize_required_record :: "json_codec \<Rightarrow> pytext \<Rightarrow> telemetry_error + buffer_record" where
  "deserialize_required_record js value =
     bind_r (deserialize_record js (Some value)) (\<lambda>record.
       case record of None \<Rightarrow> Inl MalformedRecord | Some r \<Rightarrow> Inr r)"

definition redis_put_latest ::
    "'c redis_client \<Rightarrow> json_codec \<Rightarrow> pytext \<Rightarrow> buffer_record \<Rightarrow> 'c \<Rightarrow> 'c" where
  "redis_put_latest rc js pre r c = rc_set rc (latest_key pre (br_key r)) (serialize_record js r) c"

definition redis_append_history ::
    "'c redis_client \<Rightarrow> json_codec \<Rightarrow> pytext \<Rightarrow> buffer_record \<Rightarrow> 'c \<Rightarrow> telemetry_error + 'c" where
  "redis_append_history rc js pre r c = Inr (rc_rpush rc (history_queue_key pre) (serialize_record js r) c)"

definition redis_latest_for ::
    "'c redis_client \<Rightarrow> json_codec \<Rightarrow> pytext \<Rightarrow> pytext \<Rightarrow> 'c \<Rightarrow> telemetry_error + buffer_record option" where
  "redis_latest_for rc js pre key c = deserialize_record js (rc_get rc (latest_key pre key) c)"

definition redis_drain_history ::
    "'c redis_client \<Rightarrow> json_codec \<Rightarrow> pytext \<Rightarrow> int \<Rightarrow> 'c \<Rightarrow> 'c \<times> (telemetry_error + buffer_record list)" where
  "redis_drain_history rc js pre max_items c =
     (if max_items \<le> 0 then (c, Inr [])
      else case rc_lpop rc (history_queue_key pre) max_items c of
        (c', values) \<Rightarrow> (c', map_r (deserialize_required_record js) (popped_values values)))"

definition redis_restore_history_front ::
    "'c redis_client \<Rightarrow> json_codec \<Rightarrow> pytext \<Rightarrow> buffer_record list \<Rightarrow> 'c \<Rightarrow> 'c" where
  "redis_restore_history_front rc js pre records c =
     (let serialized = map (serialize_record js) (rev records)
      in if serialized \<noteq> [] then rc_lpush rc (history_queue_key pre) serialized c else c)"

definition redis_stats :: "'c redis_client \<Rightarrow> pytext \<Rightarrow> 'c \<Rightarrow> buffer_stats" where
  "redis_stats rc pre c =
     \<lparr>bs_latest_count = LATEST_COUNT_NOT_SCANNED,
      bs_pending_history_count = rc_llen rc (history_queue_key pre) c\<rparr>"

definition redis_ops :: "'c redis_client \<Rightarrow> json_codec \<Rightarrow> pytext \<Rightarrow> 'c buffer_ops" where
  "redis_ops rc js pre =
     \<lparr>bo_put_latest = redis_put_latest rc js pre, bo_append_history = redis_append_history rc js pre,
      bo_latest_for = redis_latest_for rc js pre, bo_drain_history = redis_drain_history rc js pre,
      bo_restore_history_front = redis_restore_history_front rc js pre, bo_stats = redis_stats rc pre\<rparr>"

section \<open>The contract of a write buffer\<close>

text \<open>
  \<open>hist\<close> is the pending queue, oldest first, and \<open>norm\<close> what the buffer stores of a record.
\<close>

locale write_buffer =
  fixes ops :: "'b buffer_ops"
    and hist :: "'b \<Rightarrow> buffer_record list"
    and norm :: "buffer_record \<Rightarrow> buffer_record"
    and inv :: "'b \<Rightarrow> bool"
  assumes norm_idem: "norm (norm r) = norm r"
    and norm_key: "br_key (norm r) = br_key r"
    and hist_norm: "inv b \<Longrightarrow> r \<in> set (hist b) \<Longrightarrow> norm r = r"
    and put_latest: "inv b \<Longrightarrow> inv (bo_put_latest ops r b) \<and> hist (bo_put_latest ops r b) = hist b"
    and latest_put: "inv b \<Longrightarrow> bo_latest_for ops k (bo_put_latest ops r b)
        = (if k = br_key r then Inr (Some (norm r)) else bo_latest_for ops k b)"
    and append: "inv b \<Longrightarrow> bo_append_history ops r b = Inr b' \<Longrightarrow> inv b' \<and> hist b' = hist b @ [norm r]"
    and drain: "inv b \<Longrightarrow> \<exists>b'. bo_drain_history ops n b = (b', Inr (take (nat n) (hist b))) \<and>
        inv b' \<and> hist b' = drop (nat n) (hist b)"
    and restore: "inv b \<Longrightarrow> inv (bo_restore_history_front ops rs b) \<and>
        hist (bo_restore_history_front ops rs b) = map norm rs @ hist b"
    and pending: "inv b \<Longrightarrow> bs_pending_history_count (bo_stats ops b) = int (length (hist b))"
begin

lemma drained_norm: "inv b \<Longrightarrow> map norm (take n (hist b)) = take n (hist b)"
  using hist_norm by (intro map_idI) (auto dest: in_set_takeD)

lemma drain_restore:
  assumes "inv b" and "bo_drain_history ops n b = (b', Inr rs)"
  shows "rs = take (nat n) (hist b)" "inv b'" "hist (bo_restore_history_front ops rs b') = hist b"
  using assms drain [of b n] restore [of b' rs] drained_norm [of b "nat n"] by auto

end

section \<open>The in-memory buffer meets the contract\<close>

lemma memory_drain_loop_eq:
  "memory_drain_loop n h d = (drop (nat n - length d) h, d @ take (nat n - length d) h)"
proof (induction n h d rule: memory_drain_loop.induct)
  case (2 n r h d)
  show ?case
  proof (cases "int (length d) < n")
    case True
    then have "nat n - length d = Suc (nat n - length (d @ [r]))" by simp
    with True "2.IH" show ?thesis by simp
  qed simp
qed simp

lemma memory_restore_history: "mb_history (memory_restore_history_front rs b) = rs @ mb_history b"
  by (simp add: memory_restore_history_front_def fold_Cons_rev)

lemma memory_drain_history_eq:
  "memory_drain_history n b =
     (b\<lparr>mb_history := drop (nat n) (mb_history b)\<rparr>, Inr (take (nat n) (mb_history b)))"
  by (simp add: memory_drain_history_def memory_drain_loop_eq)

interpretation memory: write_buffer memory_ops mb_history id "\<lambda>b. dict_ok (mb_latest b)"
  by unfold_locales
    (auto simp: memory_ops_def memory_put_latest_def memory_latest_for_def memory_append_history_def
      memory_drain_history_eq memory_restore_history memory_stats_def
      memory_restore_history_front_def fold_Cons_rev split: if_splits)

section \<open>The Redis buffer meets the contract\<close>

locale json_library =
  fixes js :: json_codec
  assumes loads_dumps: "js_loads js (js_dumps js p) = Some p"

text \<open>The server: lists and texts by key; a list command needs a key that holds no text.\<close>

locale redis_server =
  fixes rc :: "'c redis_client"
    and lists :: "'c \<Rightarrow> pytext \<Rightarrow> pytext list"
    and texts :: "'c \<Rightarrow> pytext \<Rightarrow> pytext option"
  assumes set_text: "lists (rc_set rc k v c) = (lists c)(k := [])" "texts (rc_set rc k v c) = (texts c)(k \<mapsto> v)"
    and get_text: "lists c k = [] \<Longrightarrow> rc_get rc k c = texts c k"
    and rpush: "texts c k = None \<Longrightarrow> lists (rc_rpush rc k v c) = (lists c)(k := lists c k @ [v])"
      "texts c k = None \<Longrightarrow> texts (rc_rpush rc k v c) = texts c"
    and lpop: "texts c k = None \<Longrightarrow> 0 < n \<Longrightarrow>
        \<exists>c' vs. rc_lpop rc k n c = (c', vs) \<and> (case vs of None \<Rightarrow> [] | Some us \<Rightarrow> us) = take (nat n) (lists c k) \<and>
          lists c' = (lists c)(k := drop (nat n) (lists c k)) \<and> texts c' = texts c"
    and lpush: "texts c k = None \<Longrightarrow> lists (rc_lpush rc k vs c) = (lists c)(k := rev vs @ lists c k)"
      "texts c k = None \<Longrightarrow> texts (rc_lpush rc k vs c) = texts c"
    and llen: "texts c k = None \<Longrightarrow> rc_llen rc k c = int (length (lists c k))"

definition stored_record :: "buffer_record \<Rightarrow> buffer_record" where
  "stored_record r = r\<lparr>br_telemetry := model_validate_dump (model_dump (br_telemetry r))\<rparr>"

lemma model_dump_validate: "model_dump (model_validate_dump (model_dump t)) = model_dump t"
  by (simp add: model_dump_def model_validate_dump_def tc_get_def dict_get_map_columns)

lemma stored_record_idem [simp]: "stored_record (stored_record r) = stored_record r"
  by (simp add: stored_record_def model_dump_validate)

lemma history_key_not_latest [simp]: "latest_key p k \<noteq> history_queue_key p" "history_queue_key p \<noteq> latest_key p k"
  by (simp_all add: latest_key_def history_queue_key_def REDIS_LATEST_PREFIX_def REDIS_HISTORY_QUEUE_def
      text_of_def of_char_def)

lemma latest_key_inject [simp]: "latest_key p k = latest_key p k' \<longleftrightarrow> k = k'"
  by (simp add: latest_key_def)

locale redis_deployment = redis_server rc lists texts + json_library js
  for rc :: "'c redis_client" and lists texts and js +
  fixes pre :: pytext
begin

definition queue :: "'c \<Rightarrow> buffer_record list" where
  "queue c = map (\<lambda>v. case deserialize_required_record js v of Inr r \<Rightarrow> r) (lists c (history_queue_key pre))"

definition queue_inv :: "'c \<Rightarrow> bool" where
  "queue_inv c \<longleftrightarrow> texts c (history_queue_key pre) = None \<and>
     (\<forall>v \<in> set (lists c (history_queue_key pre)). \<exists>r. v = serialize_record js r) \<and>
     (\<forall>k. lists c (latest_key pre k) = [])"

lemma deserialize_serialize [simp]:
  "deserialize_required_record js (serialize_record js r) = Inr (stored_record r)"
  "deserialize_record js (Some (serialize_record js r)) = Inr (Some (stored_record r))"
  by (simp_all add: deserialize_required_record_def deserialize_record_def serialize_record_def
      loads_dumps stored_record_def)

lemma deserialize_list:
  "\<forall>v \<in> set vs. \<exists>r. v = serialize_record js r \<Longrightarrow>
     map_r (deserialize_required_record js) vs
       = Inr (map (\<lambda>v. case deserialize_required_record js v of Inr r \<Rightarrow> r) vs)"
  by (induction vs) auto

lemma queue_stored: "queue_inv c \<Longrightarrow> r \<in> set (queue c) \<Longrightarrow> stored_record r = r"
  by (auto simp: queue_def queue_inv_def)

lemma redis_drain:
  assumes "queue_inv c"
  shows "\<exists>c'. redis_drain_history rc js pre n c = (c', Inr (take (nat n) (queue c))) \<and> queue_inv c' \<and>
    queue c' = drop (nat n) (queue c)"
proof (cases "n \<le> 0")
  case False
  then obtain c' vs where c': "rc_lpop rc (history_queue_key pre) n c = (c', vs)"
    "(case vs of None \<Rightarrow> [] | Some us \<Rightarrow> us) = take (nat n) (lists c (history_queue_key pre))"
    "lists c' = (lists c)(history_queue_key pre := drop (nat n) (lists c (history_queue_key pre)))"
    "texts c' = texts c"
    using assms lpop [of c "history_queue_key pre" n] by (auto simp: queue_inv_def)
  have "\<forall>v \<in> set (take (nat n) (lists c (history_queue_key pre))). \<exists>r. v = serialize_record js r"
    using assms by (auto simp: queue_inv_def dest: in_set_takeD)
  from deserialize_list [OF this] False c' assms show ?thesis
    by (auto simp: redis_drain_history_def popped_values_def queue_def take_map drop_map queue_inv_def
        dest: in_set_dropD)
qed (use assms in \<open>simp add: redis_drain_history_def\<close>)

lemma redis_restore:
  assumes "queue_inv c"
  shows "queue_inv (redis_restore_history_front rc js pre rs c) \<and>
    queue (redis_restore_history_front rc js pre rs c) = map stored_record rs @ queue c"
  using assms
  by (auto simp: redis_restore_history_front_def Let_def queue_inv_def queue_def lpush rev_map)

end

sublocale redis_deployment \<subseteq> redis: write_buffer "redis_ops rc js pre" queue stored_record queue_inv
proof unfold_locales
  fix b r k n rs assume inv: "queue_inv b"
  show "queue_inv (bo_put_latest (redis_ops rc js pre) r b) \<and> queue (bo_put_latest (redis_ops rc js pre) r b) = queue b"
    using inv by (auto simp: redis_ops_def redis_put_latest_def queue_inv_def queue_def set_text)
  show "bo_latest_for (redis_ops rc js pre) k (bo_put_latest (redis_ops rc js pre) r b)
      = (if k = br_key r then Inr (Some (stored_record r)) else bo_latest_for (redis_ops rc js pre) k b)"
    using inv
    by (auto simp: redis_ops_def redis_put_latest_def redis_latest_for_def queue_inv_def set_text get_text)
  show "\<exists>b'. bo_drain_history (redis_ops rc js pre) n b = (b', Inr (take (nat n) (queue b))) \<and>
      queue_inv b' \<and> queue b' = drop (nat n) (queue b)"
    using redis_drain [OF inv] by (simp add: redis_ops_def)
  show "queue_inv (bo_restore_history_front (redis_ops rc js pre) rs b) \<and>
      queue (bo_restore_history_front (redis_ops rc js pre) rs b) = map stored_record rs @ queue b"
    using redis_restore [OF inv] by (simp add: redis_ops_def)
  show "bs_pending_history_count (bo_stats (redis_ops rc js pre) b) = int (length (queue b))"
    using inv by (simp add: redis_ops_def redis_stats_def queue_def queue_inv_def llen)
  show "r \<in> set (queue b) \<Longrightarrow> stored_record r = r" using inv by (rule queue_stored)
next
  fix b r b' assume "queue_inv b" "bo_append_history (redis_ops rc js pre) r b = Inr b'"
  then show "queue_inv b' \<and> queue b' = queue b @ [stored_record r]"
    by (auto simp: redis_ops_def redis_append_history_def queue_inv_def queue_def rpush)
qed (simp_all add: stored_record_def model_dump_validate)

text \<open>A server and a JSON library that obey the laws.\<close>

type_synonym redis_map = "(pytext \<Rightarrow> pytext list) \<times> (pytext \<Rightarrow> pytext option)"

definition map_redis :: "redis_map redis_client" where
  "map_redis =
     \<lparr>rc_set = (\<lambda>k v (l, t). (l(k := []), t(k \<mapsto> v))),
      rc_get = (\<lambda>k (l, t). t k),
      rc_rpush = (\<lambda>k v (l, t). (l(k := l k @ [v]), t)),
      rc_lpop = (\<lambda>k n (l, t). ((l(k := drop (nat n) (l k)), t),
        if l k = [] then None else Some (take (nat n) (l k)))),
      rc_lpush = (\<lambda>k vs (l, t). (l(k := rev vs @ l k), t)),
      rc_llen = (\<lambda>k (l, t). int (length (l k)))\<rparr>"

instance pyfloat :: countable by countable_datatype
instance pydatetime_ext :: (countable) countable
  by (rule countable_classI [of "\<lambda>d. to_nat (dt_wall_micros d, dt_utcoffset_micros d, pydatetime.more d)"]) simp
instance tcolumn :: countable by countable_datatype
instance tcell :: countable by countable_datatype
instance record_payload_ext :: (countable) countable
  by (rule countable_classI [of "\<lambda>p. to_nat (rp_key p, rp_received_at p, rp_telemetry p, record_payload.more p)"]) simp

definition counting_json :: json_codec where
  "counting_json =
     \<lparr>js_dumps = (\<lambda>p. [to_nat p]), js_loads = (\<lambda>s. case s of [n] \<Rightarrow> Some (from_nat n) | _ \<Rightarrow> None)\<rparr>"

interpretation map_redis: redis_deployment map_redis fst snd counting_json pre for pre
  by unfold_locales (auto simp: map_redis_def counting_json_def split: prod.splits)

end
