(* ===== verification/Telemetry_Sink.thy ===== *)
theory Telemetry_Sink
  imports Ai_Overlay Telemetry_Ingest Telemetry_Buffer "HOL-Library.Multiset"
begin

text \<open>
  Write-behind of telemetry: the bulk rows and statements of
  \<open>backend/modules/telemetry_buffer/bulk_sql.py\<close>, the sinks of \<open>sink.py\<close> and, as a
  step relation, the interleaving of several threads that append to and flush one in-memory
  buffer. The lemmas show what a flush keeps of the queue under every outcome, and what the
  interleaving preserves: nothing is lost or delivered twice, how far the bound can be exceeded,
  and that one flusher keeps the order.
\<close>

section \<open>Bulk rows\<close>

record bulk_payload =
  bp_uuid :: pytext
  bp_telemetry :: telemetry_create
  bp_received_at :: pydatetime

definition payload_from_record :: "buffer_record \<Rightarrow> telemetry_error + bulk_payload" where
  "payload_from_record r =
     (if br_key r = [] then Inl UuidRequired
      else Inr \<lparr>bp_uuid = br_key r, bp_telemetry = br_telemetry r, bp_received_at = br_received_at r\<rparr>)"

definition to_latest_row :: "bulk_payload \<Rightarrow> (tcolumn, tcell) dict" where
  "to_latest_row p =
     (let row = dict_set C_UUID (CText (bp_uuid p)) (model_dump_set (bp_telemetry p))
      in [(c, row_of row c). c \<leftarrow> LATEST_ROW_COLUMNS, dict_get row c \<noteq> None])"

definition to_history_row :: "bulk_payload \<Rightarrow> (tcolumn, tcell) dict" where
  "to_history_row p =
     (let row = model_dump_set (bp_telemetry p)
      in [(C_STREAM_UUID, CText (bp_uuid p)), (C_LATITUDE, row_of row C_LATITUDE),
          (C_LONGITUDE, row_of row C_LONGITUDE), (C_ALTITUDE, row_of row C_ALTITUDE),
          (C_VELOCITY, row_of row C_VELOCITY), (C_EPOCH_TIME, row_of row C_EPOCH_TIME),
          (C_RECEIVED_AT, CTime (bp_received_at p))])"

type_synonym bulk_batch = "bulk_payload list"

definition batch_from_records :: "buffer_record list \<Rightarrow> telemetry_error + bulk_batch" where
  "batch_from_records records = map_r payload_from_record records"

definition latest_rows :: "bulk_batch \<Rightarrow> (tcolumn, tcell) dict list" where
  "latest_rows batch = map to_latest_row batch"

definition history_rows :: "bulk_batch \<Rightarrow> (tcolumn, tcell) dict list" where
  "history_rows batch = map to_history_row batch"

record write_plan =
  wp_record_count :: nat
  wp_latest_statement_count :: nat
  wp_history_statement_count :: nat
  wp_previous_row_loop_statement_count :: nat

definition total_statement_count :: "write_plan \<Rightarrow> nat" where
  "total_statement_count p = wp_latest_statement_count p + wp_history_statement_count p"

definition avoided_statement_count :: "write_plan \<Rightarrow> int" where
  "avoided_statement_count p =
     max (int (wp_previous_row_loop_statement_count p) - int (total_statement_count p)) 0"

definition plan_postgres_bulk_write :: "bulk_batch \<Rightarrow> write_plan" where
  "plan_postgres_bulk_write batch =
     (let record_count = length batch
      in \<lparr>wp_record_count = record_count,
          wp_latest_statement_count = (if record_count \<noteq> 0 then 1 else 0),
          wp_history_statement_count = (if record_count \<noteq> 0 then 1 else 0),
          wp_previous_row_loop_statement_count = record_count\<rparr>)"

definition plan_mysql_latest_bulk_write :: "bulk_batch \<Rightarrow> write_plan" where
  "plan_mysql_latest_bulk_write batch =
     (let record_count = length batch
      in \<lparr>wp_record_count = record_count,
          wp_latest_statement_count = (if record_count \<noteq> 0 then 1 else 0),
          wp_history_statement_count = 0,
          wp_previous_row_loop_statement_count = record_count\<rparr>)"

definition build_postgres_latest_bulk_upsert :: "bulk_batch \<Rightarrow> insert_stmt" where
  "build_postgres_latest_bulk_upsert batch =
     \<lparr>is_table = LATEST_TABLE, is_rows = latest_rows batch, is_conflict = [C_UUID],
      is_update = filter (\<lambda>c. c \<noteq> C_UUID) LATEST_ROW_COLUMNS\<rparr>"

definition build_postgres_history_bulk_insert :: "bulk_batch \<Rightarrow> insert_stmt" where
  "build_postgres_history_bulk_insert batch =
     \<lparr>is_table = HISTORY_TABLE, is_rows = history_rows batch, is_conflict = [], is_update = []\<rparr>"

text \<open>MySQL's \<open>ON DUPLICATE KEY UPDATE\<close> names no conflict columns.\<close>

definition build_mysql_latest_bulk_upsert :: "bulk_batch \<Rightarrow> insert_stmt" where
  "build_mysql_latest_bulk_upsert batch =
     \<lparr>is_table = LATEST_TABLE, is_rows = latest_rows batch, is_conflict = [],
      is_update = filter (\<lambda>c. c \<noteq> C_UUID) LATEST_ROW_COLUMNS\<rparr>"

section \<open>The database sink\<close>

fun upsert_records ::
    "'db table_ops \<Rightarrow> buffer_record list \<Rightarrow> 'db \<Rightarrow> 'db \<times> (telemetry_error + unit)" where
  "upsert_records ops [] db = (db, Inr ())"
| "upsert_records ops (r # rs) db =
     (case upsert_telemetry ops (br_telemetry r) db of
        (db', Inl e) \<Rightarrow> (db', Inl e)
      | (db', Inr _) \<Rightarrow> upsert_records ops rs db')"

definition legacy_db_flush ::
    "'db table_ops \<Rightarrow> 'db \<Rightarrow> buffer_record list \<Rightarrow> 'db \<times> (telemetry_error + int)" where
  "legacy_db_flush ops db records =
     (if records = [] then (db, Inr 0)
      else case batch_from_records records of
        Inl e \<Rightarrow> (db, Inl e)
      | Inr batch \<Rightarrow>
          if tb_dialect ops = ''postgresql'' then
            (case tb_execute ops [build_postgres_latest_bulk_upsert batch,
                                  build_postgres_history_bulk_insert batch] db of
               Inl e \<Rightarrow> (db, Inl e) | Inr db' \<Rightarrow> (db', Inr (int (length batch))))
          else if tb_dialect ops = ''mysql'' \<or> tb_dialect ops = ''mariadb'' then
            (case tb_execute ops [build_mysql_latest_bulk_upsert batch] db of
               Inl e \<Rightarrow> (db, Inl e) | Inr db' \<Rightarrow> (db', Inr (int (length batch))))
          else
            (case upsert_records ops records db of
               (db', Inl e) \<Rightarrow> (db', Inl e) | (db', Inr _) \<Rightarrow> (db', Inr (int (length records)))))"

section \<open>The buffered sink\<close>

text \<open>
  The state of a \<open>BufferedTelemetrySink\<close>: its buffer, the database behind its bulk sink and
  the gauge \<open>TELEMETRY_QUEUE_DEPTH\<close>. The bulk sink (\<open>None\<close> when not configured) takes
  the database and the records and may change the database even when it raises.
\<close>

record ('b, 'db) sink_state =
  ss_buffer :: 'b
  ss_db :: 'db
  ss_queue_depth :: int

type_synonym 'db bulk_sink = "('db \<Rightarrow> buffer_record list \<Rightarrow> 'db \<times> (telemetry_error + int)) option"

definition record_queue_depth :: "'b buffer_ops \<Rightarrow> ('b, 'db) sink_state \<Rightarrow> ('b, 'db) sink_state" where
  "record_queue_depth ops s =
     s\<lparr>ss_queue_depth := bs_pending_history_count (bo_stats ops (ss_buffer s))\<rparr>"

definition flush_once ::
    "'b buffer_ops \<Rightarrow> 'db bulk_sink \<Rightarrow> int \<Rightarrow> ('b, 'db) sink_state \<Rightarrow>
       ('b, 'db) sink_state \<times> (telemetry_error + int)" where
  "flush_once ops bulk_sink max_items s =
     (case bulk_sink of
        None \<Rightarrow> (s, Inr 0)
      | Some flush \<Rightarrow>
          (case bo_drain_history ops max_items (ss_buffer s) of
             (b, Inl e) \<Rightarrow> (s\<lparr>ss_buffer := b\<rparr>, Inl e)
           | (b, Inr records) \<Rightarrow>
               let s = record_queue_depth ops (s\<lparr>ss_buffer := b\<rparr>)
               in if records = [] then (s, Inr 0)
                  else (case flush (ss_db s) records of
                      (db, Inl e) \<Rightarrow>
                        (record_queue_depth ops
                           (s\<lparr>ss_db := db, ss_buffer := bo_restore_history_front ops records (ss_buffer s)\<rparr>),
                         Inl e)
                    | (db, Inr flushed_count) \<Rightarrow>
                        let s = s\<lparr>ss_db := db\<rparr>;
                            s = (if flushed_count \<noteq> int (length records)
                                 then s\<lparr>ss_buffer := bo_restore_history_front ops
                                          (slice_from flushed_count records) (ss_buffer s)\<rparr>
                                 else s)
                        in (record_queue_depth ops s, Inr flushed_count))))"

definition sink_upsert ::
    "'b buffer_ops \<Rightarrow> 'db bulk_sink \<Rightarrow> int \<Rightarrow> pydatetime \<Rightarrow> telemetry_create \<Rightarrow> ('b, 'db) sink_state \<Rightarrow>
       ('b, 'db) sink_state \<times> (telemetry_error + telemetry_create)" where
  "sink_upsert ops bulk_sink auto_flush_max_items now telemetry s =
     (let record = buffer_record_create now telemetry
      in case bo_append_history ops record (ss_buffer s) of
           Inl e \<Rightarrow> (s, Inl e)
         | Inr b \<Rightarrow>
             let s = record_queue_depth ops (s\<lparr>ss_buffer := bo_put_latest ops record b\<rparr>)
             in if bulk_sink \<noteq> None \<and> auto_flush_max_items > 0 \<and>
                   bs_pending_history_count (bo_stats ops (ss_buffer s)) \<ge> auto_flush_max_items
                then (case flush_once ops bulk_sink auto_flush_max_items s of
                    (s', Inl e) \<Rightarrow> (s', Inl e) | (s', Inr _) \<Rightarrow> (s', Inr telemetry))
                else (s, Inr telemetry))"

section \<open>Interleaved threads\<close>

text \<open>
  Threads that share one in-memory buffer. Each buffer operation holds the lock, so an append, a
  drain and a restore are atomic; a flush is a drain, a delivery outside the lock, and a restore
  of what was not delivered. \<open>fw_inflight\<close> are the batches between drain and end,
  \<open>fw_accepted\<close> and \<open>fw_delivered\<close> record what was accepted and delivered. At most
  \<open>workers\<close> flushes run at once, each of at most \<open>items\<close> records.
\<close>

record flush_world =
  fw_buffer :: memory_buffer
  fw_inflight :: "buffer_record list list"
  fw_accepted :: "buffer_record list"
  fw_delivered :: "buffer_record list"

inductive flush_step :: "nat \<Rightarrow> int \<Rightarrow> flush_world \<Rightarrow> flush_world \<Rightarrow> bool" for workers items where
  step_accept: "memory_append_history r (fw_buffer w) = Inr b \<Longrightarrow>
     flush_step workers items w
       (w\<lparr>fw_buffer := memory_put_latest r b, fw_accepted := fw_accepted w @ [r]\<rparr>)"
| step_drain: "length (fw_inflight w) < workers \<Longrightarrow>
     memory_drain_history items (fw_buffer w) = (b, Inr rs) \<Longrightarrow> rs \<noteq> [] \<Longrightarrow>
     flush_step workers items w (w\<lparr>fw_buffer := b, fw_inflight := fw_inflight w @ [rs]\<rparr>)"
| step_deliver: "fw_inflight w = us @ rs # vs \<Longrightarrow>
     flush_step workers items w (w\<lparr>fw_inflight := us @ vs, fw_delivered := fw_delivered w @ rs\<rparr>)"
| step_partial: "fw_inflight w = us @ rs # vs \<Longrightarrow> k < length rs \<Longrightarrow>
     flush_step workers items w
       (w\<lparr>fw_buffer := memory_restore_history_front (slice_from (int k) rs) (fw_buffer w),
          fw_inflight := us @ vs, fw_delivered := fw_delivered w @ take k rs\<rparr>)"
| step_fail: "fw_inflight w = us @ rs # vs \<Longrightarrow>
     flush_step workers items w
       (w\<lparr>fw_buffer := memory_restore_history_front rs (fw_buffer w), fw_inflight := us @ vs\<rparr>)"

definition flush_start :: "int \<Rightarrow> flush_world" where
  "flush_start max_pending =
     \<lparr>fw_buffer = \<lparr>mb_latest = [], mb_history = [], mb_max_pending_history = max_pending\<rparr>,
      fw_inflight = [], fw_accepted = [], fw_delivered = []\<rparr>"

definition flush_reachable :: "nat \<Rightarrow> int \<Rightarrow> int \<Rightarrow> flush_world \<Rightarrow> bool" where
  "flush_reachable workers items max_pending w \<longleftrightarrow> (flush_step workers items)\<^sup>*\<^sup>* (flush_start max_pending) w"

inductive_simps flush_step_simps: "flush_step workers items w w'"

section \<open>What a flush keeps\<close>

context write_buffer
begin

lemma flush_once_result:
  assumes inv: "inv (ss_buffer s)" and run: "flush_once ops (Some f) n s = (s', res)"
    and rs: "rs = take (nat n) (hist (ss_buffer s))"
  shows "inv (ss_buffer s') \<and> ss_queue_depth s' = int (length (hist (ss_buffer s'))) \<and>
    (if rs = [] then res = Inr 0 \<and> ss_db s' = ss_db s \<and> hist (ss_buffer s') = hist (ss_buffer s)
     else (ss_db s', res) = f (ss_db s) rs \<and>
       hist (ss_buffer s') = (case res of Inl _ \<Rightarrow> hist (ss_buffer s)
         | Inr k \<Rightarrow> if k = int (length rs) then drop (nat n) (hist (ss_buffer s))
                    else slice_from k rs @ drop (nat n) (hist (ss_buffer s))))"
proof -
  obtain b where d: "bo_drain_history ops n (ss_buffer s) = (b, Inr rs)" "inv b"
    "hist b = drop (nat n) (hist (ss_buffer s))"
    using drain [OF inv, of n] rs by auto
  have stored: "map norm (drop k rs) = drop k rs" for k
    using drained_norm [OF inv, of "nat n"] unfolding rs by (metis drop_map)
  have all: "rs @ drop (nat n) (hist (ss_buffer s)) = hist (ss_buffer s)" unfolding rs by simp
  show ?thesis
  proof (cases "rs = []")
    case True
    with run d have "s' = record_queue_depth ops (s\<lparr>ss_buffer := b\<rparr>)" "res = Inr 0"
      by (simp_all add: flush_once_def Let_def)
    with True d all show ?thesis by (simp add: record_queue_depth_def pending)
  next
    case False
    obtain db out where f: "f (ss_db s) rs = (db, out)" by (cases "f (ss_db s) rs")
    show ?thesis
    proof (cases out)
      case (Inl e)
      with run d f False have "s' = record_queue_depth ops (record_queue_depth ops (s\<lparr>ss_buffer := b\<rparr>)
          \<lparr>ss_db := db, ss_buffer := bo_restore_history_front ops rs b\<rparr>)" "res = Inl e"
        by (simp_all add: flush_once_def Let_def record_queue_depth_def)
      with restore [OF d(2), of rs] stored [of 0] d(3) all f Inl False show ?thesis
        by (simp add: record_queue_depth_def pending)
    next
      case (Inr k)
      with run d f False have "s' = record_queue_depth ops (record_queue_depth ops (s\<lparr>ss_buffer := b\<rparr>)
          \<lparr>ss_db := db, ss_buffer := (if k \<noteq> int (length rs)
             then bo_restore_history_front ops (slice_from k rs) b else b)\<rparr>)" "res = Inr k"
        by (auto simp: flush_once_def Let_def record_queue_depth_def split: if_splits)
      with restore [OF d(2), of "slice_from k rs"] stored d(2,3) all f Inr False show ?thesis
        by (simp add: record_queue_depth_def pending slice_from_def)
    qed
  qed
qed

lemma flush_once_conserves:
  assumes "inv (ss_buffer s)" and "flush_once ops (Some f) n s = (s', res)"
  shows "inv (ss_buffer s') \<and> ss_queue_depth s' = int (length (hist (ss_buffer s'))) \<and>
    (\<forall>e. res = Inl e \<longrightarrow> hist (ss_buffer s') = hist (ss_buffer s)) \<and>
    (\<forall>k. res = Inr k \<longrightarrow> 0 \<le> k \<longrightarrow> k \<le> int (min (nat n) (length (hist (ss_buffer s)))) \<longrightarrow>
       hist (ss_buffer s') = drop (nat k) (hist (ss_buffer s))) \<and>
    (if take (nat n) (hist (ss_buffer s)) = [] then ss_db s' = ss_db s \<and> res = Inr 0
     else f (ss_db s) (take (nat n) (hist (ss_buffer s))) = (ss_db s', res))"
proof -
  let ?rs = "take (nat n) (hist (ss_buffer s))"
  note r = flush_once_result [OF assms refl]
  have "slice_from k ?rs @ drop (nat n) (hist (ss_buffer s)) = drop (nat k) (hist (ss_buffer s))"
    if "0 \<le> k" "k \<le> int (min (nat n) (length (hist (ss_buffer s))))" for k
  proof -
    have "drop (nat k) (hist (ss_buffer s)) = drop (nat k) (?rs @ drop (nat n) (hist (ss_buffer s)))"
      by simp
    also have "\<dots> = drop (nat k) ?rs @ drop (nat n) (hist (ss_buffer s))"
      using that by (simp only: drop_append) (auto simp: min_def split: if_splits)
    finally show ?thesis using that by (simp add: slice_from_nonneg)
  qed
  moreover have "drop (nat n) (hist (ss_buffer s)) = drop (length ?rs) (hist (ss_buffer s))"
    by (simp add: min_def)
  ultimately have "inv (ss_buffer s') \<and> ss_queue_depth s' = int (length (hist (ss_buffer s'))) \<and>
    (\<forall>e. res = Inl e \<longrightarrow> hist (ss_buffer s') = hist (ss_buffer s)) \<and>
    (\<forall>k. res = Inr k \<longrightarrow> 0 \<le> k \<longrightarrow> k \<le> int (min (nat n) (length (hist (ss_buffer s)))) \<longrightarrow>
       hist (ss_buffer s') = drop (nat k) (hist (ss_buffer s)))" using r
    by (auto split: if_splits sum.splits)
  moreover have "if ?rs = [] then ss_db s' = ss_db s \<and> res = Inr 0 else f (ss_db s) ?rs = (ss_db s', res)"
    using r by (metis (full_types))
  ultimately show ?thesis by blast
qed

lemma sink_upsert_queue:
  assumes "inv (ss_buffer s)" and "sink_upsert ops None n now t s = (s', res)"
  shows "case bo_append_history ops (buffer_record_create now t) (ss_buffer s) of
      Inl e \<Rightarrow> res = Inl e \<and> s' = s
    | Inr _ \<Rightarrow> res = Inr t \<and> inv (ss_buffer s') \<and>
        hist (ss_buffer s') = hist (ss_buffer s) @ [norm (buffer_record_create now t)] \<and>
        bo_latest_for ops (br_key (buffer_record_create now t)) (ss_buffer s')
          = Inr (Some (norm (buffer_record_create now t)))"
proof (cases "bo_append_history ops (buffer_record_create now t) (ss_buffer s)")
  case (Inr b)
  from append [OF assms(1) Inr] have b: "inv b" "hist b = hist (ss_buffer s) @ [norm (buffer_record_create now t)]"
    by auto
  show ?thesis
    using assms(2) Inr put_latest [OF b(1)] latest_put [OF b(1)] b(2)
    by (auto simp: sink_upsert_def Let_def record_queue_depth_def)
qed (use assms in \<open>auto simp: sink_upsert_def\<close>)

end

section \<open>Bulk rows and repeated keys\<close>

lemma dict_get_rows:
  "dict_get [(c, f c). c \<leftarrow> cs, P c] c = (if c \<in> set cs \<and> P c then Some (f c) else None)"
  by (induction cs) (auto simp: dict_get_def)

lemma row_of_latest_row:
  "row_of (to_latest_row p) c = (if c = C_UUID then CText (bp_uuid p)
     else if c \<in> set LATEST_ROW_COLUMNS then row_of (model_dump_set (bp_telemetry p)) c else CNull)"
proof -
  have "C_UUID \<in> set LATEST_ROW_COLUMNS" by (simp add: LATEST_ROW_COLUMNS_def)
  then show ?thesis
    by (auto simp: to_latest_row_def Let_def row_of_def dict_get_rows split: option.split)
qed

lemma history_row_columns: "dict_keys (to_history_row p) = HISTORY_ROW_COLUMNS"
  by (simp add: to_history_row_def HISTORY_ROW_COLUMNS_def dict_keys_def Let_def)

lemma batch_uuids: "batch_from_records rs = Inr batch \<Longrightarrow> map bp_uuid batch = map br_key rs"
  unfolding batch_from_records_def
  by (induction rs arbitrary: batch) (auto simp: bind_r_eq_Inr payload_from_record_def split: if_splits)

lemma latest_upsert_distinct_keys:
  "distinct_keys (build_postgres_latest_bulk_upsert batch) \<longleftrightarrow> distinct (map bp_uuid batch)"
proof -
  have "map (\<lambda>d. map (row_of d) [C_UUID]) (latest_rows batch) = map (\<lambda>u. [CText u]) (map bp_uuid batch)"
    by (simp add: latest_rows_def row_of_latest_row)
  then show ?thesis
    by (simp add: distinct_keys_def build_postgres_latest_bulk_upsert_def distinct_map inj_on_def)
qed

lemma legacy_db_flush_repeated_key:
  assumes "sql_table ops conv" "tb_dialect ops = ''postgresql''" "\<not> distinct (map br_key rs)"
  shows "\<exists>e. legacy_db_flush ops db rs = (db, Inl e)"
proof (cases "batch_from_records rs")
  case (Inr batch)
  have "\<exists>e. tb_execute ops [build_postgres_latest_bulk_upsert batch,
      build_postgres_history_bulk_insert batch] db = Inl e"
    using assms batch_uuids [OF Inr] latest_upsert_distinct_keys [of batch]
    by (intro sql_table.upsert_twice [OF assms(1,2), of "build_postgres_latest_bulk_upsert batch"])
      (auto simp: build_postgres_latest_bulk_upsert_def)
  with Inr assms show ?thesis by (auto simp: legacy_db_flush_def)
qed (use assms in \<open>auto simp: legacy_db_flush_def\<close>)

lemma stored_record_dump:
  "model_dump_set (br_telemetry (stored_record r)) = model_dump (br_telemetry r)"
proof -
  have "tc_set_fields (br_telemetry (stored_record r)) c \<noteq> None" if "c \<in> set LATEST_ROW_COLUMNS" for c
    using that by (simp add: stored_record_def model_validate_dump_def dict_get_model_dump)
  then have "\<forall>(c, v) \<in> set (model_dump (br_telemetry (stored_record r))).
      tc_set_fields (br_telemetry (stored_record r)) c \<noteq> None"
    by (auto simp: model_dump_def)
  then have "model_dump_set (br_telemetry (stored_record r)) = model_dump (br_telemetry (stored_record r))"
    unfolding model_dump_set_def by (intro filter_True) auto
  then show ?thesis by (simp add: stored_record_def model_dump_validate)
qed

section \<open>What interleaving keeps\<close>

definition flush_inv :: "nat \<Rightarrow> int \<Rightarrow> int \<Rightarrow> flush_world \<Rightarrow> bool" where
  "flush_inv workers items max_pending w \<longleftrightarrow>
     mb_max_pending_history (fw_buffer w) = max_pending \<and>
     mset (fw_accepted w) = mset (fw_delivered w) + mset (concat (fw_inflight w)) + mset (mb_history (fw_buffer w)) \<and>
     length (fw_inflight w) \<le> workers \<and>
     (\<forall>rs \<in> set (fw_inflight w). int (length rs) \<le> items) \<and>
     int (length (mb_history (fw_buffer w)) + length (concat (fw_inflight w))) \<le> max_pending + int workers * items \<and>
     (workers = 1 \<longrightarrow> fw_delivered w @ concat (fw_inflight w) @ mb_history (fw_buffer w) = fw_accepted w)"

lemma memory_put_latest_history [simp]:
  "mb_history (memory_put_latest r b) = mb_history b"
  "mb_max_pending_history (memory_put_latest r b) = mb_max_pending_history b"
  by (simp_all add: memory_put_latest_def)

lemma memory_restore_max [simp]:
  "mb_max_pending_history (memory_restore_history_front rs b) = mb_max_pending_history b"
  by (simp add: memory_restore_history_front_def)

lemma inflight_length:
  assumes "\<forall>rs \<in> set bs. int (length rs) \<le> items" "length bs \<le> workers" "0 \<le> items"
  shows "int (length (concat bs)) \<le> int workers * items"
proof -
  have "int (length (concat bs)) \<le> int (length bs) * items"
    using assms(1) by (induction bs) (auto simp: algebra_simps)
  also have "\<dots> \<le> int workers * items" using assms(2,3) by (intro mult_right_mono) auto
  finally show ?thesis .
qed

lemma single_batch: "length (us @ rs # vs) \<le> 1 \<Longrightarrow> us = [] \<and> vs = []"
  by auto

lemma flush_inv_step:
  assumes "flush_step workers items w w'" "flush_inv workers items m w" "0 < items"
  shows "flush_inv workers items m w'"
  using assms(1)
proof cases
  case (step_accept r b)
  then have b: "int (length (mb_history (fw_buffer w))) < m" "mb_history b = mb_history (fw_buffer w) @ [r]"
    "mb_max_pending_history b = m"
    using assms(2) by (auto simp: memory_append_history_def flush_inv_def split: if_splits)
  have "int (length (concat (fw_inflight w))) \<le> int workers * items"
    using assms(2,3) by (intro inflight_length) (auto simp: flush_inv_def)
  then show ?thesis using assms(2) b step_accept(1) by (auto simp: flush_inv_def)
next
  case (step_drain b rs)
  then have rs: "rs = take (nat items) (mb_history (fw_buffer w))"
    and h: "mb_history b = drop (nat items) (mb_history (fw_buffer w))"
    and m: "mb_max_pending_history b = mb_max_pending_history (fw_buffer w)"
    by (auto simp: memory_drain_history_eq)
  have "mb_history (fw_buffer w) = rs @ mb_history b" "int (length rs) \<le> items"
    using assms(3) by (simp_all add: rs h)
  with m show ?thesis using assms(2) step_drain(1,2) by (auto simp: flush_inv_def)
next
  case (step_deliver us rs vs)
  then show ?thesis using assms(2) single_batch [of us rs vs] by (auto simp: flush_inv_def)
next
  case (step_partial us rs vs k)
  have sl: "slice_from (int k) rs = drop k rs" by (simp add: slice_from_nonneg)
  obtain xs ys where rs: "take k rs = xs" "drop k rs = ys" "rs = xs @ ys"
    by (metis append_take_drop_id)
  then show ?thesis using assms(2) step_partial single_batch [of us rs vs]
    unfolding sl rs(1,2) by (auto simp: flush_inv_def memory_restore_history)
next
  case (step_fail us rs vs)
  then show ?thesis using assms(2) single_batch [of us rs vs]
    by (auto simp: flush_inv_def memory_restore_history)
qed

lemma flush_reachable_inv:
  assumes "flush_reachable workers items m w" "0 < items" "0 \<le> m"
  shows "flush_inv workers items m w"
  using assms(1) unfolding flush_reachable_def
proof (induction rule: rtranclp_induct)
  case base
  show ?case using assms(2,3) by (auto simp: flush_inv_def flush_start_def)
next
  case (step w w')
  then show ?case using flush_inv_step assms(2) by blast
qed

lemma flush_overflow_run:
  fixes r1 r2 :: buffer_record
  defines "b1 \<equiv> \<lparr>mb_latest = dict_set (br_key r1) r1 [], mb_history = [r1], mb_max_pending_history = 1\<rparr>"
  defines "b2 \<equiv> b1\<lparr>mb_history := []\<rparr>"
  defines "b3 \<equiv> b2\<lparr>mb_history := [r2], mb_latest := dict_set (br_key r2) r2 (mb_latest b2)\<rparr>"
  defines "b4 \<equiv> b3\<lparr>mb_history := [r1, r2]\<rparr>"
  shows "flush_reachable 1 1 1
    \<lparr>fw_buffer = b4, fw_inflight = [], fw_accepted = [r1, r2], fw_delivered = []\<rparr>"
proof -
  let ?w1 = "\<lparr>fw_buffer = b1, fw_inflight = [], fw_accepted = [r1], fw_delivered = []\<rparr>"
  let ?w2 = "\<lparr>fw_buffer = b2, fw_inflight = [[r1]], fw_accepted = [r1], fw_delivered = []\<rparr>"
  let ?w3 = "\<lparr>fw_buffer = b3, fw_inflight = [[r1]], fw_accepted = [r1, r2], fw_delivered = []\<rparr>"
  let ?w4 = "\<lparr>fw_buffer = b4, fw_inflight = [], fw_accepted = [r1, r2], fw_delivered = []\<rparr>"
  note defs = b1_def b2_def b3_def b4_def
  have "flush_step 1 1 (flush_start 1) ?w1"
    by (subst flush_step_simps)
      (simp add: flush_start_def memory_append_history_def memory_put_latest_def defs)
  moreover have "flush_step 1 1 ?w1 ?w2"
    by (subst flush_step_simps) (simp add: memory_drain_history_eq defs)
  moreover have "flush_step 1 1 ?w2 ?w3"
    by (subst flush_step_simps) (simp add: memory_append_history_def memory_put_latest_def defs)
  moreover have "flush_step 1 1 ?w3 ?w4"
    by (subst flush_step_simps)
      (simp add: memory_restore_history_front_def Cons_eq_append_conv defs)
  ultimately show ?thesis unfolding flush_reachable_def
    by (meson converse_rtranclp_into_rtranclp rtranclp.rtrancl_refl)
qed

section \<open>Properties\<close>

text \<open>
  C3: \<open>flush_once\<close> hands the bulk sink exactly the first \<open>n\<close> pending records, in their order and once,
  and never loses or reorders pending telemetry, for every buffer that meets the contract: its result and the database are
  those of this one call, or untouched when nothing is pending; when the bulk sink raises, the queue is as
  before; when it reports \<open>k\<close> of the records as written, exactly the first \<open>k\<close> are gone and the rest keep their
  order; the gauge shows the queue's length afterwards.
\<close>

theorem flush_once_keeps_queue:
  assumes "write_buffer ops hist stored ok" and "ok (ss_buffer s)"
    and "flush_once ops (Some f) n s = (s', res)"
  shows "ok (ss_buffer s') \<and> ss_queue_depth s' = int (length (hist (ss_buffer s'))) \<and>
    (\<forall>e. res = Inl e \<longrightarrow> hist (ss_buffer s') = hist (ss_buffer s)) \<and>
    (\<forall>k. res = Inr k \<longrightarrow> 0 \<le> k \<longrightarrow> k \<le> int (min (nat n) (length (hist (ss_buffer s)))) \<longrightarrow>
       hist (ss_buffer s') = drop (nat k) (hist (ss_buffer s))) \<and>
    (if take (nat n) (hist (ss_buffer s)) = [] then ss_db s' = ss_db s \<and> res = Inr 0
     else f (ss_db s) (take (nat n) (hist (ss_buffer s))) = (ss_db s', res))"
  using write_buffer.flush_once_conserves [OF assms] .

definition sample_record :: "nat \<Rightarrow> buffer_record" where
  "sample_record i = \<lparr>br_key = [i], br_telemetry = \<lparr>tc_set_fields = [C_UUID \<mapsto> CText [i]]\<rparr>,
     br_received_at = sample_time\<rparr>"

definition sample_sink_state :: "(memory_buffer, unit) sink_state" where
  "sample_sink_state = \<lparr>ss_buffer = \<lparr>mb_latest = [], mb_history = map sample_record [1, 2, 3],
     mb_max_pending_history = 5\<rparr>, ss_db = (), ss_queue_depth = 3\<rparr>"

theorem flush_once_keeps_queue_witness:
  "mb_history (ss_buffer (fst (flush_once memory_ops (Some (\<lambda>db rs. (db, Inr 1))) 2 sample_sink_state)))
     = map sample_record [2, 3]"
proof -
  obtain s' res where r: "flush_once memory_ops (Some (\<lambda>db rs. (db, Inr 1))) 2 sample_sink_state = (s', res)"
    by fastforce
  moreover have "res = Inr 1" using r
    by (auto simp: flush_once_def memory_ops_def memory_drain_history_eq sample_sink_state_def Let_def)
  ultimately show ?thesis
    using flush_once_keeps_queue [OF memory.write_buffer_axioms _ r]
    by (simp add: sample_sink_state_def)
qed

text \<open>
  Accepting telemetry: without automatic flushing, \<open>BufferedTelemetrySink.upsert\<close>
  either is refused by a full queue and changes nothing, not even the latest value, or appends
  exactly this record to the queue and makes it the latest of its key.
\<close>

theorem sink_upsert_accepts:
  assumes "write_buffer ops hist stored ok" and "ok (ss_buffer s)"
    and "sink_upsert ops None n now t s = (s', res)"
  shows "case bo_append_history ops (buffer_record_create now t) (ss_buffer s) of
      Inl e \<Rightarrow> res = Inl e \<and> s' = s
    | Inr _ \<Rightarrow> res = Inr t \<and> ok (ss_buffer s') \<and>
        hist (ss_buffer s') = hist (ss_buffer s) @ [stored (buffer_record_create now t)] \<and>
        bo_latest_for ops (br_key (buffer_record_create now t)) (ss_buffer s')
          = Inr (Some (stored (buffer_record_create now t)))"
  using write_buffer.sink_upsert_queue [OF assms] .

theorem sink_upsert_accepts_witness:
  "mb_history (ss_buffer (fst (sink_upsert memory_ops None 0 sample_time
      (br_telemetry (sample_record 4)) sample_sink_state))) = map sample_record [1, 2, 3, 4]"
proof -
  obtain s' res where r: "sink_upsert memory_ops None 0 sample_time
      (br_telemetry (sample_record 4)) sample_sink_state = (s', res)" by fastforce
  have "buffer_record_create sample_time (br_telemetry (sample_record 4)) = sample_record 4"
    by (simp add: buffer_record_create_def sample_record_def tc_uuid_def tc_get_def)
  with sink_upsert_accepts [OF memory.write_buffer_axioms _ r] r show ?thesis
    by (simp add: sample_sink_state_def memory_ops_def memory_append_history_def)
qed

text \<open>
  C5: Threads that share one in-memory buffer lose nothing and deliver nothing twice, in every
  interleaving of appends, drains, deliveries, partial deliveries and failures: the accepted
  records are, as a multiset, those delivered, in flight and pending. With one flusher they are
  so in order. The queue never holds more than the bound plus one batch per flusher.
\<close>

theorem interleaved_flush_conserves:
  assumes "flush_reachable workers items m w" and "0 < items" and "0 \<le> m"
  shows "mset (fw_accepted w) = mset (fw_delivered w) + mset (concat (fw_inflight w)) + mset (mb_history (fw_buffer w)) \<and>
    (workers = 1 \<longrightarrow> fw_accepted w = fw_delivered w @ concat (fw_inflight w) @ mb_history (fw_buffer w)) \<and>
    int (length (mb_history (fw_buffer w))) \<le> m + int workers * items"
  using flush_reachable_inv [OF assms] by (auto simp: flush_inv_def)

theorem interleaved_flush_conserves_witness:
  "\<exists>w. flush_reachable 1 1 1 w \<and> fw_accepted w = [sample_record 1, sample_record 2] \<and>
     fw_accepted w = fw_delivered w @ concat (fw_inflight w) @ mb_history (fw_buffer w)"
proof -
  note run = flush_overflow_run [of "sample_record 1" "sample_record 2"]
  from interleaved_flush_conserves [OF run] run show ?thesis by (intro exI conjI) auto
qed

text \<open>
  The bound on pending history is not kept: a failed flush restores its batch without
  looking at the bound, so a record accepted while the batch was in flight leaves the queue
  longer than \<open>max_pending_history\<close>.
\<close>

theorem pending_bound_exceeded:
  "\<exists>w. flush_reachable 1 1 1 w \<and>
     mb_max_pending_history (fw_buffer w) < int (length (mb_history (fw_buffer w)))"
  using flush_overflow_run [of "sample_record 1" "sample_record 2"] by (intro exI conjI) auto

text \<open>
  C39: On PostgreSQL a batch that holds two records of one key can never be written: one
  \<open>INSERT ... ON CONFLICT\<close> statement may not touch a row twice, the flush raises, the
  batch is restored, and neither the queue nor the database has changed, so the next flush
  takes the same batch.
\<close>

theorem repeated_key_blocks_flush:
  assumes "write_buffer ops hist stored ok" and "ok (ss_buffer s)"
    and "sql_table tops conv" and "tb_dialect tops = ''postgresql''"
    and "\<not> distinct (map br_key (take (nat n) (hist (ss_buffer s))))"
    and "flush_once ops (Some (legacy_db_flush tops)) n s = (s', res)"
  shows "(\<exists>e. res = Inl e) \<and> hist (ss_buffer s') = hist (ss_buffer s) \<and> ss_db s' = ss_db s"
proof -
  let ?rs = "take (nat n) (hist (ss_buffer s))"
  have "?rs \<noteq> []" using assms(5) by (metis distinct.simps(1) list.simps(8))
  moreover obtain e where "legacy_db_flush tops (ss_db s) ?rs = (ss_db s, Inl e)"
    using legacy_db_flush_repeated_key [OF assms(3-5)] by blast
  ultimately show ?thesis
    using write_buffer.flush_once_result [OF assms(1,2,6) refl] by auto
qed

theorem repeated_key_blocks_flush_witness:
  "ss_db (fst (flush_once memory_ops (Some (legacy_db_flush (map_table ''postgresql''))) 1000
      \<lparr>ss_buffer = \<lparr>mb_latest = [], mb_history = map sample_record [1, 2, 1], mb_max_pending_history = 5\<rparr>,
       ss_db = Map.empty, ss_queue_depth = 3\<rparr>)) = Map.empty"
proof -
  let ?s = "\<lparr>ss_buffer = \<lparr>mb_latest = [], mb_history = map sample_record [1, 2, 1], mb_max_pending_history = 5\<rparr>,
       ss_db = Map.empty :: map_db, ss_queue_depth = 3\<rparr>"
  obtain s' res where r: "flush_once memory_ops (Some (legacy_db_flush (map_table ''postgresql''))) 1000 ?s = (s', res)"
    by fastforce
  with repeated_key_blocks_flush [OF memory.write_buffer_axioms _ map_table.sql_table_axioms _ _ r]
  show ?thesis by (simp add: map_table_def sample_record_def)
qed

text \<open>
  The Redis buffer turns unset fields into nulls: a record drained from it dumps, with
  \<open>exclude_unset\<close>, every field of the model, so a partial update that passed through
  Redis overwrites the columns it did not mention, while through the in-memory buffer it does not.
\<close>

theorem redis_record_sets_all_fields:
  "model_dump_set (br_telemetry (stored_record r)) = model_dump (br_telemetry r) \<and>
   dict_keys (model_dump_set (br_telemetry (stored_record r))) = LATEST_ROW_COLUMNS"
  by (simp add: stored_record_dump) (simp add: model_dump_def dict_keys_def o_def)

end
