(* ===== verification/Stream_Path.thy ===== *)
theory Stream_Path
  imports Text
begin

text \<open>
  Stream paths and identifiers, \<open>backend/model/stream_model.py\<close>: parsing and validating
  \<open>raw/{asset}/{sensor}\<close>, \<open>ai/{asset}/{sensor}/{processor}\<close> and
  \<open>archive/{asset}/{sensor}/{date}\<close>, and the dotted identifiers. The lemmas characterise
  exactly the accepted paths and identifiers and show that the two notations are in bijection.
\<close>

datatype stream_prefix = RAW | AI | ARCHIVE

datatype path_error =
    PathEmpty | PathSlash | PathBackslash | PathEmptySegment | PathPrefix | PathShape
  | PathTraversal | PathSegment | PathDate | IdEmpty | IdSlash | IdDot | IdEmptySegment

record stream_path =
  sp_prefix :: stream_prefix
  sp_asset_id :: pytext
  sp_sensor_id :: pytext
  sp_processor_id :: "pytext option"
  sp_archive_date :: "pytext option"

text \<open>An f-string shows an absent value as \<open>None\<close>.\<close>

definition show_optional :: "pytext option \<Rightarrow> pytext" where
  "show_optional v = (case v of None \<Rightarrow> text_of ''None'' | Some s \<Rightarrow> s)"

definition sp_path :: "stream_path \<Rightarrow> pytext" where
  "sp_path sp =
     (case sp_prefix sp of
        AI \<Rightarrow> text_of ''ai/'' @ sp_asset_id sp @ text_of ''/'' @ sp_sensor_id sp @ text_of ''/''
               @ show_optional (sp_processor_id sp)
      | ARCHIVE \<Rightarrow> text_of ''archive/'' @ sp_asset_id sp @ text_of ''/'' @ sp_sensor_id sp @ text_of ''/''
               @ show_optional (sp_archive_date sp)
      | RAW \<Rightarrow> text_of ''raw/'' @ sp_asset_id sp @ text_of ''/'' @ sp_sensor_id sp)"

definition sp_stream_id :: "stream_path \<Rightarrow> pytext" where
  "sp_stream_id sp = replace_char 47 46 (sp_path sp)"

definition prefix_text :: "stream_prefix \<Rightarrow> pytext" where
  "prefix_text p = (case p of RAW \<Rightarrow> text_of ''raw'' | AI \<Rightarrow> text_of ''ai'' | ARCHIVE \<Rightarrow> text_of ''archive'')"

definition to_api_dict :: "stream_path \<Rightarrow> (string, pytext option) dict" where
  "to_api_dict sp =
     [(''prefix'', Some (prefix_text (sp_prefix sp))), (''assetId'', Some (sp_asset_id sp)),
      (''sensorId'', Some (sp_sensor_id sp)), (''processorId'', sp_processor_id sp),
      (''date'', sp_archive_date sp), (''path'', Some (sp_path sp)), (''streamId'', Some (sp_stream_id sp))]"

section \<open>Segments and dates\<close>

definition segment_char :: "nat \<Rightarrow> bool" where
  "segment_char c \<longleftrightarrow> ascii_alnum c \<or> c = 95 \<or> c = 45"

text \<open>\<open>[A-Za-z0-9][A-Za-z0-9_-]{0,63}\<close>\<close>

definition segment_pattern :: "pytext \<Rightarrow> bool" where
  "segment_pattern s \<longleftrightarrow>
     s \<noteq> [] \<and> length s \<le> 64 \<and> ascii_alnum (hd s) \<and> list_all segment_char (tl s)"

definition leap_year :: "nat \<Rightarrow> bool" where
  "leap_year y \<longleftrightarrow> y mod 4 = 0 \<and> (y mod 100 \<noteq> 0 \<or> y mod 400 = 0)"

definition days_in_month :: "nat \<Rightarrow> nat \<Rightarrow> nat" where
  "days_in_month y m =
     (if m = 2 then (if leap_year y then 29 else 28)
      else if m \<in> {4, 6, 9, 11} then 30 else 31)"

text \<open>
  \<open>\d{4}-\d{2}-\d{2}\<close> and \<open>date.fromisoformat\<close>. The pattern also admits digits outside
  ASCII, which \<open>fromisoformat\<close> refuses; both refusals are \<open>PathDate\<close>.
\<close>

definition date_pattern :: "pytext \<Rightarrow> bool" where
  "date_pattern s \<longleftrightarrow>
     length s = 10 \<and> s ! 4 = 45 \<and> s ! 7 = 45 \<and>
     list_all ascii_digit (take 4 s) \<and> list_all ascii_digit (take 2 (drop 5 s)) \<and>
     list_all ascii_digit (drop 8 s)"

definition date_fromisoformat_ok :: "pytext \<Rightarrow> bool" where
  "date_fromisoformat_ok s \<longleftrightarrow>
     (let y = digits_value (take 4 s) 0; m = digits_value (take 2 (drop 5 s)) 0;
          d = digits_value (drop 8 s) 0
      in 1 \<le> y \<and> 1 \<le> m \<and> m \<le> 12 \<and> 1 \<le> d \<and> d \<le> days_in_month y m)"

section \<open>Parsing\<close>

definition validated_path_parts :: "pytext \<Rightarrow> path_error + pytext list" where
  "validated_path_parts path =
     (if path = [] then Inl PathEmpty
      else if starts_with (text_of ''/'') path \<or> ends_with (text_of ''/'') path then Inl PathSlash
      else if 92 \<in> set path then Inl PathBackslash
      else let parts = split_on 47 path
           in if list_ex (\<lambda>p. p = []) parts then Inl PathEmptySegment else Inr parts)"

definition validate_named_segment :: "pytext \<Rightarrow> path_error + unit" where
  "validate_named_segment segment =
     (if segment = text_of ''.'' \<or> segment = text_of ''..'' then Inl PathTraversal
      else require_r (segment_pattern segment) PathSegment)"

definition validate_named_segments :: "pytext list \<Rightarrow> path_error + pytext list" where
  "validate_named_segments segments =
     bind_r (map_r validate_named_segment segments) (\<lambda>_. Inr segments)"

definition require_segment_count :: "pytext list \<Rightarrow> nat \<Rightarrow> path_error + unit" where
  "require_segment_count parts expected = require_r (length parts = expected) PathShape"

definition validate_archive_date :: "pytext \<Rightarrow> path_error + pytext" where
  "validate_archive_date value =
     (if \<not> date_pattern value then Inl PathDate
      else if \<not> date_fromisoformat_ok value then Inl PathDate
      else Inr value)"

definition parse_raw_stream :: "pytext list \<Rightarrow> path_error + stream_path" where
  "parse_raw_stream parts =
     bind_r (require_segment_count parts 3) (\<lambda>_.
     bind_r (validate_named_segments [parts ! 1, parts ! 2]) (\<lambda>_.
     Inr \<lparr>sp_prefix = RAW, sp_asset_id = parts ! 1, sp_sensor_id = parts ! 2,
          sp_processor_id = None, sp_archive_date = None\<rparr>))"

definition parse_ai_stream :: "pytext list \<Rightarrow> path_error + stream_path" where
  "parse_ai_stream parts =
     bind_r (require_segment_count parts 4) (\<lambda>_.
     bind_r (validate_named_segments [parts ! 1, parts ! 2, parts ! 3]) (\<lambda>_.
     Inr \<lparr>sp_prefix = AI, sp_asset_id = parts ! 1, sp_sensor_id = parts ! 2,
          sp_processor_id = Some (parts ! 3), sp_archive_date = None\<rparr>))"

definition parse_archive_stream :: "pytext list \<Rightarrow> path_error + stream_path" where
  "parse_archive_stream parts =
     bind_r (require_segment_count parts 4) (\<lambda>_.
     bind_r (validate_named_segments [parts ! 1, parts ! 2]) (\<lambda>_.
     bind_r (validate_archive_date (parts ! 3)) (\<lambda>date.
     Inr \<lparr>sp_prefix = ARCHIVE, sp_asset_id = parts ! 1, sp_sensor_id = parts ! 2,
          sp_processor_id = None, sp_archive_date = Some date\<rparr>)))"

definition parse_stream_parts :: "pytext list \<Rightarrow> path_error + stream_path" where
  "parse_stream_parts parts =
     (let prefix = hd parts
      in if prefix = text_of ''raw'' then parse_raw_stream parts
         else if prefix = text_of ''ai'' then parse_ai_stream parts
         else if prefix = text_of ''archive'' then parse_archive_stream parts
         else Inl PathPrefix)"

definition validate_stream_path :: "pytext \<Rightarrow> path_error + stream_path" where
  "validate_stream_path path = bind_r (validated_path_parts path) parse_stream_parts"

definition validate_stream_id :: "pytext \<Rightarrow> path_error + stream_path" where
  "validate_stream_id stream_id =
     (if stream_id = [] then Inl IdEmpty
      else if 47 \<in> set stream_id \<or> 92 \<in> set stream_id then Inl IdSlash
      else if starts_with (text_of ''.'') stream_id \<or> ends_with (text_of ''.'') stream_id then Inl IdDot
      else if contains (text_of ''..'') stream_id then Inl IdEmptySegment
      else validate_stream_path (replace_char 46 47 stream_id))"

definition path_to_stream_id :: "pytext \<Rightarrow> path_error + pytext" where
  "path_to_stream_id path = bind_r (validate_stream_path path) (\<lambda>sp. Inr (sp_stream_id sp))"

definition stream_id_to_path :: "pytext \<Rightarrow> path_error + pytext" where
  "stream_id_to_path stream_id = bind_r (validate_stream_id stream_id) (\<lambda>sp. Inr (sp_path sp))"

section \<open>Well-formed paths\<close>

definition sp_parts :: "stream_path \<Rightarrow> pytext list" where
  "sp_parts sp =
     [prefix_text (sp_prefix sp), sp_asset_id sp, sp_sensor_id sp]
     @ (case sp_prefix sp of RAW \<Rightarrow> [] | AI \<Rightarrow> [the (sp_processor_id sp)] | ARCHIVE \<Rightarrow> [the (sp_archive_date sp)])"

definition archive_date_ok :: "pytext \<Rightarrow> bool" where
  "archive_date_ok d \<longleftrightarrow> date_pattern d \<and> date_fromisoformat_ok d"

definition wf_stream_path :: "stream_path \<Rightarrow> bool" where
  "wf_stream_path sp \<longleftrightarrow>
     segment_pattern (sp_asset_id sp) \<and> segment_pattern (sp_sensor_id sp) \<and>
     (case sp_prefix sp of
        RAW \<Rightarrow> sp_processor_id sp = None \<and> sp_archive_date sp = None
      | AI \<Rightarrow> (\<exists>p. sp_processor_id sp = Some p \<and> segment_pattern p) \<and> sp_archive_date sp = None
      | ARCHIVE \<Rightarrow> sp_processor_id sp = None \<and> (\<exists>d. sp_archive_date sp = Some d \<and> archive_date_ok d))"

lemma segment_chars: "segment_pattern s \<Longrightarrow> c \<in> set s \<Longrightarrow> segment_char c"
  by (cases s) (auto simp: segment_pattern_def segment_char_def list_all_iff)

lemma not_segment_char [simp]: "\<not> segment_char 47" "\<not> segment_char 46" "\<not> segment_char 92"
  by (simp_all add: segment_char_def ascii_alnum_def ascii_alpha_def ascii_digit_def)

lemma segment_no_separator:
  "segment_pattern s \<Longrightarrow> 47 \<notin> set s \<and> 46 \<notin> set s \<and> 92 \<notin> set s \<and> s \<noteq> []"
  using segment_chars [of s 47] segment_chars [of s 46] segment_chars [of s 92]
  by (auto simp: segment_pattern_def)

lemma date_split:
  assumes "length s = 10"
  shows "s = take 4 s @ [s ! 4] @ take 2 (drop 5 s) @ [s ! 7] @ drop 8 s"
proof -
  have "length s = Suc (Suc (Suc (Suc (Suc (Suc (Suc (Suc (Suc (Suc 0)))))))))" using assms by simp
  then obtain a b c d e f g h i j where "s = [a, b, c, d, e, f, g, h, i, j]"
    by (auto simp: length_Suc_conv)
  then show ?thesis by (simp add: numeral_eq_Suc)
qed

lemma date_chars:
  assumes "date_pattern s" "c \<in> set s"
  shows "ascii_digit c \<or> c = 45"
proof -
  have s: "s = take 4 s @ [s ! 4] @ take 2 (drop 5 s) @ [s ! 7] @ drop 8 s"
    using assms(1) by (intro date_split) (simp add: date_pattern_def)
  have "c \<in> set (take 4 s) \<or> c = s ! 4 \<or> c \<in> set (take 2 (drop 5 s)) \<or> c = s ! 7 \<or> c \<in> set (drop 8 s)"
    using assms(2) by (subst (asm) s) auto
  then show ?thesis using assms(1) by (auto simp: date_pattern_def list_all_iff)
qed

lemma date_no_separator: "date_pattern s \<Longrightarrow> 47 \<notin> set s \<and> 46 \<notin> set s \<and> 92 \<notin> set s \<and> s \<noteq> []"
  using date_chars [of s 47] date_chars [of s 46] date_chars [of s 92]
  by (auto simp: ascii_digit_def date_pattern_def)

lemma segment_not_dots: "segment_pattern s \<Longrightarrow> s \<noteq> text_of ''.'' \<and> s \<noteq> text_of ''..''"
  using segment_no_separator [of s] by (auto simp: of_char_def)

lemma validate_named_segment_Inr: "validate_named_segment s = Inr () \<longleftrightarrow> segment_pattern s"
  using segment_not_dots [of s] by (auto simp: validate_named_segment_def)

lemma sp_parts_ok:
  assumes "wf_stream_path sp" "p \<in> set (sp_parts sp)"
  shows "47 \<notin> set p \<and> 46 \<notin> set p \<and> 92 \<notin> set p \<and> p \<noteq> []"
proof -
  have "segment_pattern p \<or> date_pattern p \<or> p = prefix_text (sp_prefix sp)"
    using assms by (auto simp: wf_stream_path_def sp_parts_def archive_date_ok_def split: stream_prefix.splits)
  then show ?thesis using segment_no_separator date_no_separator
    by (auto simp: prefix_text_def of_char_def split: stream_prefix.splits)
qed

lemma sp_path_join: "wf_stream_path sp \<Longrightarrow> sp_path sp = join_with [47] (sp_parts sp)"
  by (auto simp: wf_stream_path_def sp_path_def sp_parts_def prefix_text_def show_optional_def of_char_def
      split: stream_prefix.splits)

lemma sp_stream_id_join: "wf_stream_path sp \<Longrightarrow> sp_stream_id sp = join_with [46] (sp_parts sp)"
  using sp_parts_ok by (simp add: sp_stream_id_def sp_path_join replace_char_join)

lemma parse_stream_parts_Inr:
  "parse_stream_parts parts = Inr sp \<Longrightarrow> wf_stream_path sp \<and> sp_parts sp = parts"
  by (auto simp: parse_stream_parts_def Let_def parse_raw_stream_def parse_ai_stream_def
      parse_archive_stream_def bind_r_eq_Inr require_segment_count_def validate_named_segments_def
      validate_named_segment_Inr validate_archive_date_def wf_stream_path_def sp_parts_def
      prefix_text_def archive_date_ok_def length_Suc_conv numeral_eq_Suc split: if_splits)

lemma parse_sp_parts: "wf_stream_path sp \<Longrightarrow> parse_stream_parts (sp_parts sp) = Inr sp"
  by (cases sp)
    (auto simp: parse_stream_parts_def Let_def parse_raw_stream_def parse_ai_stream_def
      parse_archive_stream_def require_segment_count_def validate_named_segments_def
      iffD2 [OF validate_named_segment_Inr] validate_archive_date_def wf_stream_path_def sp_parts_def
      prefix_text_def archive_date_ok_def of_char_def split: stream_prefix.splits)

section \<open>Exactly the well-formed paths are accepted\<close>

lemma join_no_edge:
  assumes "\<forall>p \<in> set ps. c \<notin> set p \<and> p \<noteq> []" "ps \<noteq> []"
  shows "\<not> starts_with [c] (join_with sep ps)" "\<not> ends_with [c] (join_with sep ps)"
proof -
  obtain p qs where ps: "ps = p # qs" using assms(2) by (cases ps) auto
  have "hd (join_with sep ps) \<in> set p" using assms(1) ps hd_join_with [of p sep qs] by auto
  moreover have "last (join_with sep ps) \<in> set (last ps)"
    using last_join_with [of ps sep] assms by auto
  moreover have "last ps \<in> set ps" using assms(2) by simp
  ultimately show "\<not> starts_with [c] (join_with sep ps)" "\<not> ends_with [c] (join_with sep ps)"
    using assms(1) ps by (auto simp: starts_with_iff ends_with_iff)
qed

lemma validate_stream_path_sp_path:
  assumes "wf_stream_path sp"
  shows "validate_stream_path (sp_path sp) = Inr sp"
proof -
  have ok: "\<forall>p \<in> set (sp_parts sp). 47 \<notin> set p \<and> 92 \<notin> set p \<and> p \<noteq> []"
    using sp_parts_ok [OF assms] by blast
  have ne: "sp_parts sp \<noteq> []" by (simp add: sp_parts_def)
  have "split_on 47 (sp_path sp) = sp_parts sp"
    using ok ne by (simp add: sp_path_join assms split_join)
  moreover have "92 \<notin> set (sp_path sp)"
    using ok set_join_with [of 92 "[47]" "sp_parts sp"] by (auto simp: sp_path_join assms)
  moreover have "sp_path sp \<noteq> []" using split_on.simps(1) calculation(1) ok
    by (metis list.set_intros(1))
  ultimately show ?thesis
    using join_no_edge [of "sp_parts sp" 47 "[47]"] ok ne parse_sp_parts [OF assms]
    by (auto simp: validate_stream_path_def validated_path_parts_def sp_path_join assms list_ex_iff of_char_def)
qed

lemma validate_stream_path_iff: "validate_stream_path p = Inr sp \<longleftrightarrow> wf_stream_path sp \<and> p = sp_path sp"
proof
  assume "validate_stream_path p = Inr sp"
  then obtain parts where "validated_path_parts p = Inr parts" "parse_stream_parts parts = Inr sp"
    by (auto simp: validate_stream_path_def bind_r_eq_Inr)
  then have "parts = split_on 47 p" "wf_stream_path sp" "sp_parts sp = parts"
    using parse_stream_parts_Inr by (auto simp: validated_path_parts_def Let_def split: if_splits)
  then show "wf_stream_path sp \<and> p = sp_path sp" by (simp add: sp_path_join join_split)
qed (auto simp: validate_stream_path_sp_path)

lemma sp_path_no_dot: "wf_stream_path sp \<Longrightarrow> 46 \<notin> set (sp_path sp)"
  using sp_parts_ok [of sp] set_join_with [of 46 "[47]" "sp_parts sp"] by (auto simp: sp_path_join)

lemma validate_stream_id_sp:
  assumes "wf_stream_path sp"
  shows "validate_stream_id (sp_stream_id sp) = Inr sp"
proof -
  let ?i = "sp_stream_id sp"
  have ok: "\<forall>p \<in> set (sp_parts sp). 46 \<notin> set p \<and> 47 \<notin> set p \<and> 92 \<notin> set p \<and> p \<noteq> []"
    using sp_parts_ok [OF assms] by blast
  have ne: "sp_parts sp \<noteq> []" by (simp add: sp_parts_def)
  have i: "?i = join_with [46] (sp_parts sp)" by (rule sp_stream_id_join [OF assms])
  have "47 \<notin> set ?i" "92 \<notin> set ?i"
    using ok set_join_with [of 47 "[46]" "sp_parts sp"] set_join_with [of 92 "[46]" "sp_parts sp"]
    by (auto simp: i)
  moreover have split: "split_on 46 ?i = sp_parts sp" using ok ne by (simp add: i split_join)
  moreover have "?i \<noteq> []" using split ok by (metis list.set_intros(1) split_on.simps(1))
  moreover have "\<not> contains [46, 46] ?i"
  proof
    assume "contains [46, 46] ?i"
    then obtain t u where "?i = t @ 46 # 46 # u" by (auto simp: contains_iff)
    then have "[] \<in> set (split_on 46 ?i)" by (simp add: split_on_at)
    then show False using ok split by auto
  qed
  moreover have "replace_char 46 47 ?i = sp_path sp"
    unfolding sp_stream_id_def using sp_path_no_dot [OF assms] by (rule replace_char_back)
  ultimately show ?thesis
    using join_no_edge [of "sp_parts sp" 46 "[46]"] ok ne validate_stream_path_sp_path [OF assms]
    by (auto simp: validate_stream_id_def i of_char_def)
qed

lemma validate_stream_id_iff: "validate_stream_id i = Inr sp \<longleftrightarrow> wf_stream_path sp \<and> i = sp_stream_id sp"
proof
  assume v: "validate_stream_id i = Inr sp"
  then have "validate_stream_path (replace_char 46 47 i) = Inr sp" "47 \<notin> set i"
    by (auto simp: validate_stream_id_def split: if_splits)
  then show "wf_stream_path sp \<and> i = sp_stream_id sp"
    by (metis validate_stream_path_iff sp_stream_id_def replace_char_back)
qed (auto simp: validate_stream_id_sp)

section \<open>Properties\<close>

text \<open>
  C8: \<open>validate_stream_path\<close> accepts exactly the paths of the routing contract: a path is
  accepted as \<open>sp\<close> if and only if it is the path text of \<open>sp\<close> and \<open>sp\<close> is
  well formed (named segments of one to 64 letters, digits, hyphens and underscores that begin
  with a letter or digit; for an archive a calendar date), so no traversal, empty segment or
  backslash gets through and validating is idempotent.
\<close>

theorem stream_path_accepted_iff:
  "validate_stream_path p = Inr sp \<longleftrightarrow> wf_stream_path sp \<and> p = sp_path sp"
  by (rule validate_stream_path_iff)

text \<open>
  Paths and stream identifiers are in bijection: converting an accepted path to its
  identifier and back gives the path, converting an accepted identifier to its path and back
  gives the identifier, and both conversions fail on everything else.
\<close>

theorem stream_path_id_bijection:
  "path_to_stream_id p = Inr i \<longleftrightarrow> stream_id_to_path i = Inr p"
proof
  assume "path_to_stream_id p = Inr i"
  then obtain sp where "wf_stream_path sp" "p = sp_path sp" "i = sp_stream_id sp"
    by (auto simp: path_to_stream_id_def bind_r_eq_Inr validate_stream_path_iff)
  then show "stream_id_to_path i = Inr p" by (simp add: stream_id_to_path_def validate_stream_id_sp)
next
  assume "stream_id_to_path i = Inr p"
  then obtain sp where "wf_stream_path sp" "p = sp_path sp" "i = sp_stream_id sp"
    by (auto simp: stream_id_to_path_def bind_r_eq_Inr validate_stream_id_iff)
  then show "path_to_stream_id p = Inr i" by (simp add: path_to_stream_id_def validate_stream_path_sp_path)
qed

end
