(* ===== verification/Url.thy ===== *)
theory Url
  imports Text Float64
begin

text \<open>
  Two pieces of the standard library that several components use: JSON values, and
  \<open>urllib.parse.urlparse\<close> as far as scheme, network location, host name and query go. The
  checks of the library on bracketed (IPv6) and non-ASCII network locations are an argument
  \<open>netloc_ok\<close>, consulted only for such locations.
\<close>

section \<open>JSON values\<close>

datatype json =
    JNull | JBool bool | JInt int | JFloat pyfloat | JStr pytext | JList "json list"
  | JObj "(pytext \<times> json) list"

fun truthy :: "json \<Rightarrow> bool" where
  "truthy JNull = False"
| "truthy (JBool b) = b"
| "truthy (JInt i) = (i \<noteq> 0)"
| "truthy (JFloat f) = (f \<noteq> Fin 0)"
| "truthy (JStr s) = (s \<noteq> [])"
| "truthy (JList xs) = (xs \<noteq> [])"
| "truthy (JObj d) = (d \<noteq> [])"

definition json_get :: "(pytext, json) dict \<Rightarrow> string \<Rightarrow> json" where
  "json_get d k = (case dict_get d (text_of k) of None \<Rightarrow> JNull | Some v \<Rightarrow> v)"

section \<open>URLs\<close>

record url_parts =
  url_scheme :: pytext
  url_netloc :: pytext
  url_path :: pytext
  url_query :: pytext

definition scheme_char :: "nat \<Rightarrow> bool" where
  "scheme_char c \<longleftrightarrow> ascii_alnum c \<or> c = 43 \<or> c = 45 \<or> c = 46"

definition split_scheme :: "pytext \<Rightarrow> pytext \<times> pytext" where
  "split_scheme url =
     (let before = takeWhile (\<lambda>c. c \<noteq> 58) url
      in if before \<noteq> [] \<and> length before < length url \<and> ascii_alpha (hd before) \<and> list_all scheme_char before
         then (text_lower before, drop (Suc (length before)) url)
         else ([], url))"

definition split_netloc :: "pytext \<Rightarrow> pytext \<times> pytext" where
  "split_netloc url =
     (if take 2 url = [47, 47]
      then (takeWhile (\<lambda>c. c \<notin> {47, 63, 35}) (drop 2 url), dropWhile (\<lambda>c. c \<notin> {47, 63, 35}) (drop 2 url))
      else ([], url))"

definition netloc_accepted :: "(pytext \<Rightarrow> bool) \<Rightarrow> pytext \<Rightarrow> bool" where
  "netloc_accepted netloc_ok netloc \<longleftrightarrow>
     (91 \<in> set netloc \<longleftrightarrow> 93 \<in> set netloc) \<and>
     (91 \<in> set netloc \<or> list_ex (\<lambda>c. 128 \<le> c) netloc \<longrightarrow> netloc_ok netloc)"

text \<open>\<open>None\<close> is the \<open>ValueError\<close> of an invalid network location.\<close>

definition urlparse :: "(pytext \<Rightarrow> bool) \<Rightarrow> pytext \<Rightarrow> url_parts option" where
  "urlparse netloc_ok url =
     (let url = filter (\<lambda>c. c \<notin> {9, 10, 13}) (dropWhile (\<lambda>c. c \<le> 32) url);
          (scheme, rest) = split_scheme url;
          (netloc, rest) = split_netloc rest;
          rest = takeWhile (\<lambda>c. c \<noteq> 35) rest
      in if netloc_accepted netloc_ok netloc
         then Some \<lparr>url_scheme = scheme, url_netloc = netloc, url_path = takeWhile (\<lambda>c. c \<noteq> 63) rest,
                    url_query = drop 1 (dropWhile (\<lambda>c. c \<noteq> 63) rest)\<rparr>
         else None)"

text \<open>\<open>hostname\<close>: the host of the network location in lower case, empty for \<open>None\<close>.\<close>

definition url_hostname :: "url_parts \<Rightarrow> pytext" where
  "url_hostname u =
     (let hostinfo = last (split_on 64 (url_netloc u));
          host = (if 91 \<in> set hostinfo
                  then takeWhile (\<lambda>c. c \<noteq> 93) (drop 1 (dropWhile (\<lambda>c. c \<noteq> 91) hostinfo))
                  else takeWhile (\<lambda>c. c \<noteq> 58) hostinfo)
      in text_lower (takeWhile (\<lambda>c. c \<noteq> 37) host) @ dropWhile (\<lambda>c. c \<noteq> 37) host)"

definition http_scheme :: "pytext \<Rightarrow> bool" where
  "http_scheme s \<longleftrightarrow> s = text_of ''http'' \<or> s = text_of ''https''"

end
