(* ===== verification/Streaming.thy ===== *)
theory Streaming
  imports Stream_Path Url
begin

text \<open>
  The streaming module, \<open>backend/modules/streaming\<close> and \<open>backend/api/stream.py\<close>:
  descriptors, the in-memory repository, the playback URL builder, the seeds, the MediaMTX client
  with its snapshot cache, the service that merges both, the response schemas and the endpoints.
  The HTTP request to MediaMTX is an argument that yields a payload or an error; the monotonic
  clock is an argument of every reading.
\<close>

section \<open>Domain\<close>

datatype stream_status = Registered | Online | Offline | Unknown

datatype streaming_error = PathErr path_error | PlaybackUrlErr | UrlValueErr | MediaMTXErr

record playback_urls =
  pu_webrtc :: "pytext option"
  pu_hls :: "pytext option"

definition has_playback_url :: "playback_urls \<Rightarrow> bool" where
  "has_playback_url u \<longleftrightarrow> pu_webrtc u \<noteq> None \<or> pu_hls u \<noteq> None"

definition no_playback_urls :: playback_urls where
  "no_playback_urls = \<lparr>pu_webrtc = None, pu_hls = None\<rparr>"

record stream_descriptor =
  sd_stream_path :: stream_path
  sd_status :: stream_status
  sd_display_name :: "pytext option"
  sd_playback_urls :: playback_urls

definition descriptor_from_path ::
    "pytext \<Rightarrow> stream_status \<Rightarrow> pytext option \<Rightarrow> playback_urls option \<Rightarrow> streaming_error + stream_descriptor" where
  "descriptor_from_path path status display_name urls =
     (case validate_stream_path path of
        Inl e \<Rightarrow> Inl (PathErr e)
      | Inr sp \<Rightarrow> Inr \<lparr>sd_stream_path = sp, sd_status = status, sd_display_name = display_name,
                     sd_playback_urls = (case urls of None \<Rightarrow> no_playback_urls | Some u \<Rightarrow> u)\<rparr>)"

definition sd_path :: "stream_descriptor \<Rightarrow> pytext" where
  "sd_path d = sp_path (sd_stream_path d)"

definition sd_stream_id :: "stream_descriptor \<Rightarrow> pytext" where
  "sd_stream_id d = sp_stream_id (sd_stream_path d)"

section \<open>Repository\<close>

type_synonym stream_repository = "(pytext, stream_descriptor) dict"

definition repo_list :: "stream_repository \<Rightarrow> stream_descriptor list" where
  "repo_list repo = dict_values repo"

definition repo_get :: "stream_repository \<Rightarrow> pytext \<Rightarrow> stream_descriptor option" where
  "repo_get repo stream_id = dict_get repo stream_id"

definition repo_upsert :: "stream_descriptor \<Rightarrow> stream_repository \<Rightarrow> stream_repository" where
  "repo_upsert d repo = dict_set (sd_stream_id d) d repo"

definition repo_create :: "stream_descriptor list \<Rightarrow> stream_repository" where
  "repo_create streams = fold repo_upsert streams []"

section \<open>Playback URLs\<close>

record url_builder_config =
  uc_public_webrtc_base_url :: "pytext option"
  uc_public_hls_base_url :: "pytext option"
  uc_webrtc_base_url :: "pytext option"
  uc_hls_base_url :: "pytext option"

definition resolve_configured_url :: "pytext option \<Rightarrow> pytext option \<Rightarrow> pytext option" where
  "resolve_configured_url primary fallback = (if primary \<noteq> None then primary else fallback)"

definition resolved_webrtc_base_url :: "url_builder_config \<Rightarrow> pytext option" where
  "resolved_webrtc_base_url c = resolve_configured_url (uc_public_webrtc_base_url c) (uc_webrtc_base_url c)"

definition resolved_hls_base_url :: "url_builder_config \<Rightarrow> pytext option" where
  "resolved_hls_base_url c = resolve_configured_url (uc_public_hls_base_url c) (uc_hls_base_url c)"

definition normalize_base_url :: "(pytext \<Rightarrow> bool) \<Rightarrow> pytext \<Rightarrow> streaming_error + pytext" where
  "normalize_base_url netloc_ok base_url =
     (let normalized = strip_right (\<lambda>c. c = 47) (py_strip base_url)
      in case urlparse netloc_ok normalized of
           None \<Rightarrow> Inl UrlValueErr
         | Some parsed \<Rightarrow>
             if \<not> http_scheme (url_scheme parsed) \<or> url_netloc parsed = [] then Inl PlaybackUrlErr
             else Inr normalized)"

definition join_playback_url ::
    "(pytext \<Rightarrow> bool) \<Rightarrow> pytext option \<Rightarrow> pytext \<Rightarrow> pytext \<Rightarrow> streaming_error + pytext option" where
  "join_playback_url netloc_ok base_url path suffix =
     (case base_url of
        None \<Rightarrow> Inr None
      | Some b \<Rightarrow>
          bind_r (normalize_base_url netloc_ok b) (\<lambda>base.
          Inr (Some (base @ text_of ''/'' @ dropWhile (\<lambda>c. c = 47) path @ text_of ''/'' @ suffix))))"

definition build_playback ::
    "(pytext \<Rightarrow> bool) \<Rightarrow> url_builder_config \<Rightarrow> stream_path \<Rightarrow> streaming_error + playback_urls" where
  "build_playback netloc_ok config sp =
     bind_r (join_playback_url netloc_ok (resolved_webrtc_base_url config) (sp_path sp) (text_of ''whep'')) (\<lambda>webrtc.
     bind_r (join_playback_url netloc_ok (resolved_hls_base_url config) (sp_path sp) (text_of ''index.m3u8'')) (\<lambda>hls.
     Inr \<lparr>pu_webrtc = webrtc, pu_hls = hls\<rparr>))"

definition build_from_stream_id ::
    "(pytext \<Rightarrow> bool) \<Rightarrow> url_builder_config \<Rightarrow> pytext \<Rightarrow> streaming_error + playback_urls" where
  "build_from_stream_id netloc_ok config stream_id =
     (case validate_stream_id stream_id of
        Inl e \<Rightarrow> Inl (PathErr e) | Inr sp \<Rightarrow> build_playback netloc_ok config sp)"

section \<open>Seeds\<close>

record stream_seed =
  sx_path :: pytext
  sx_status :: stream_status
  sx_display_name :: pytext

definition seed_to_descriptor ::
    "(pytext \<Rightarrow> bool) \<Rightarrow> url_builder_config \<Rightarrow> stream_seed \<Rightarrow> streaming_error + stream_descriptor" where
  "seed_to_descriptor netloc_ok config seed =
     bind_r (descriptor_from_path (sx_path seed) (sx_status seed) (Some (sx_display_name seed)) None) (\<lambda>d.
     bind_r (build_playback netloc_ok config (sd_stream_path d)) (\<lambda>urls.
     Inr (d\<lparr>sd_playback_urls := urls\<rparr>)))"

definition DEFAULT_STREAM_SEEDS :: "stream_seed list" where
  "DEFAULT_STREAM_SEEDS =
     [\<lparr>sx_path = text_of ''raw/sample/front'', sx_status = Online, sx_display_name = text_of ''Sample Front Camera''\<rparr>,
      \<lparr>sx_path = text_of ''raw/sample/thermal'', sx_status = Offline, sx_display_name = text_of ''Sample Thermal Camera''\<rparr>,
      \<lparr>sx_path = text_of ''raw/sample/rear'', sx_status = Unknown, sx_display_name = text_of ''Sample Rear Camera''\<rparr>,
      \<lparr>sx_path = text_of ''raw/local/webcam'', sx_status = Registered, sx_display_name = text_of ''Local Webcam Test Harness''\<rparr>]"

definition build_seed_repository ::
    "(pytext \<Rightarrow> bool) \<Rightarrow> url_builder_config \<Rightarrow> stream_seed list \<Rightarrow> streaming_error + stream_repository" where
  "build_seed_repository netloc_ok config seeds =
     bind_r (map_r (seed_to_descriptor netloc_ok config) seeds) (\<lambda>ds. Inr (repo_create ds))"

section \<open>The MediaMTX client\<close>

record mediamtx_path =
  mp_name :: pytext
  mp_ready :: bool
  mp_source_type :: "pytext option"
  mp_reader_count :: nat

definition source_type :: "json \<Rightarrow> pytext option" where
  "source_type source =
     (case source of
        JObj d \<Rightarrow> (case json_get d ''type'' of JStr s \<Rightarrow> Some s | _ \<Rightarrow> None)
      | _ \<Rightarrow> None)"

definition reader_count :: "json \<Rightarrow> nat" where
  "reader_count readers = (case readers of JList xs \<Rightarrow> length xs | _ \<Rightarrow> 0)"

definition mediamtx_path_from_api_item :: "(pytext, json) dict \<Rightarrow> mediamtx_path option" where
  "mediamtx_path_from_api_item item =
     (case json_get item ''name'' of
        JStr name \<Rightarrow>
          if name = [] then None
          else Some \<lparr>mp_name = name, mp_ready = truthy (json_get item ''ready''),
                     mp_source_type = source_type (json_get item ''source''),
                     mp_reader_count = reader_count (json_get item ''readers'')\<rparr>
      | _ \<Rightarrow> None)"

text \<open>What \<open>_get_json\<close> meets: a failed request, a body that is not JSON, or a JSON value.\<close>

datatype http_reply = RequestFailed | NotJson | Payload json

definition get_json :: "http_reply \<Rightarrow> streaming_error + (pytext, json) dict" where
  "get_json reply = (case reply of Payload (JObj d) \<Rightarrow> Inr d | _ \<Rightarrow> Inl MediaMTXErr)"

definition load_paths :: "http_reply \<Rightarrow> streaming_error + mediamtx_path list" where
  "load_paths reply =
     bind_r (get_json reply) (\<lambda>payload.
       case (case dict_get payload (text_of ''items'') of None \<Rightarrow> JList [] | Some v \<Rightarrow> v) of
         JList items \<Rightarrow>
           Inr (List.map_filter (\<lambda>item. case item of JObj d \<Rightarrow> mediamtx_path_from_api_item d | _ \<Rightarrow> None) items)
       | _ \<Rightarrow> Inl MediaMTXErr)"

record mediamtx_client =
  mc_snapshot_ttl_seconds :: pyfloat
  mc_stale_ttl_seconds :: pyfloat
  mc_snapshot :: "(pyfloat \<times> mediamtx_path list) option"

definition cached_paths :: "mediamtx_client \<Rightarrow> pyfloat \<Rightarrow> pyfloat \<Rightarrow> mediamtx_path list option" where
  "cached_paths c ttl_seconds now =
     (case mc_snapshot c of
        None \<Rightarrow> None
      | Some (taken, paths) \<Rightarrow> if flt ttl_seconds (fsub now taken) then None else Some paths)"

text \<open>
  The part of \<open>list_paths\<close> under the refresh lock; \<open>t1\<close>, \<open>t2\<close>, \<open>t3\<close> are the
  clock readings of the second look-up, of the stale look-up and of the new snapshot.
\<close>

definition list_paths_locked ::
    "pyfloat \<Rightarrow> pyfloat \<Rightarrow> pyfloat \<Rightarrow> http_reply \<Rightarrow> mediamtx_client \<Rightarrow>
       mediamtx_client \<times> (streaming_error + mediamtx_path list)" where
  "list_paths_locked t1 t2 t3 reply c =
     (case cached_paths c (mc_snapshot_ttl_seconds c) t1 of
        Some paths \<Rightarrow> (c, Inr paths)
      | None \<Rightarrow>
          (case load_paths reply of
             Inl e \<Rightarrow>
               (case cached_paths c (mc_stale_ttl_seconds c) t2 of
                  Some stale \<Rightarrow> (c, Inr stale) | None \<Rightarrow> (c, Inl e))
           | Inr paths \<Rightarrow> (c\<lparr>mc_snapshot := Some (t3, paths)\<rparr>, Inr paths)))"

definition list_paths ::
    "pyfloat \<Rightarrow> pyfloat \<Rightarrow> pyfloat \<Rightarrow> pyfloat \<Rightarrow> http_reply \<Rightarrow> mediamtx_client \<Rightarrow>
       mediamtx_client \<times> (streaming_error + mediamtx_path list)" where
  "list_paths t0 t1 t2 t3 reply c =
     (case cached_paths c (mc_snapshot_ttl_seconds c) t0 of
        Some paths \<Rightarrow> (c, Inr paths)
      | None \<Rightarrow> list_paths_locked t1 t2 t3 reply c)"

definition invalidate :: "mediamtx_client \<Rightarrow> mediamtx_client" where
  "invalidate c = c\<lparr>mc_snapshot := None\<rparr>"

section \<open>The service\<close>

definition display_name_for_mediamtx_path :: "mediamtx_path \<Rightarrow> pytext" where
  "display_name_for_mediamtx_path p =
     (let source = (case mp_source_type p of
            None \<Rightarrow> text_of ''publisher'' | Some s \<Rightarrow> if s = [] then text_of ''publisher'' else s)
      in mp_name p @ text_of '' ('' @ source @ text_of '', readers '' @ show_text (int (mp_reader_count p)) @ text_of '')'')"

definition descriptor_from_mediamtx_path ::
    "(pytext \<Rightarrow> bool) \<Rightarrow> url_builder_config \<Rightarrow> mediamtx_path \<Rightarrow> streaming_error + stream_descriptor option" where
  "descriptor_from_mediamtx_path netloc_ok config p =
     (case descriptor_from_path (mp_name p) (if mp_ready p then Online else Registered)
             (Some (display_name_for_mediamtx_path p)) None of
        Inl _ \<Rightarrow> Inr None
      | Inr d \<Rightarrow>
          bind_r (build_playback netloc_ok config (sd_stream_path d)) (\<lambda>urls.
          Inr (Some (d\<lparr>sd_playback_urls := urls\<rparr>))))"

fun merge_mediamtx_paths ::
    "(pytext \<Rightarrow> bool) \<Rightarrow> url_builder_config \<Rightarrow> mediamtx_path list \<Rightarrow> (pytext, stream_descriptor) dict \<Rightarrow>
       streaming_error + (pytext, stream_descriptor) dict" where
  "merge_mediamtx_paths netloc_ok config [] ds = Inr ds"
| "merge_mediamtx_paths netloc_ok config (p # ps) ds =
     bind_r (descriptor_from_mediamtx_path netloc_ok config p) (\<lambda>descriptor.
       case descriptor of
         None \<Rightarrow> merge_mediamtx_paths netloc_ok config ps ds
       | Some d \<Rightarrow> merge_mediamtx_paths netloc_ok config ps (dict_set (sd_stream_id d) d ds))"

text \<open>
  \<open>list_mediamtx_paths\<close>: no client, or a client that fails, counts as no paths. The listing
  takes the paths so obtained.
\<close>

definition list_mediamtx_paths :: "(streaming_error + mediamtx_path list) option \<Rightarrow> mediamtx_path list" where
  "list_mediamtx_paths client_result =
     (case client_result of None \<Rightarrow> [] | Some (Inl _) \<Rightarrow> [] | Some (Inr paths) \<Rightarrow> paths)"

definition list_registered_streams ::
    "(pytext \<Rightarrow> bool) \<Rightarrow> url_builder_config \<Rightarrow> stream_repository \<Rightarrow> mediamtx_path list \<Rightarrow>
       streaming_error + stream_descriptor list" where
  "list_registered_streams netloc_ok config repo paths =
     (let descriptors = fold (\<lambda>d ds. dict_set (sd_stream_id d) d ds) (repo_list repo) []
      in bind_r (merge_mediamtx_paths netloc_ok config paths descriptors) (\<lambda>ds. Inr (dict_values ds)))"

definition get_registered_stream ::
    "(pytext \<Rightarrow> bool) \<Rightarrow> url_builder_config \<Rightarrow> stream_repository \<Rightarrow> mediamtx_path list \<Rightarrow> pytext \<Rightarrow>
       streaming_error + stream_descriptor option" where
  "get_registered_stream netloc_ok config repo paths stream_id =
     bind_r (list_registered_streams netloc_ok config repo paths) (\<lambda>ds.
     Inr (find (\<lambda>d. sd_stream_id d = stream_id) ds))"

definition register_stream_path ::
    "(pytext \<Rightarrow> bool) \<Rightarrow> url_builder_config \<Rightarrow> pytext \<Rightarrow> stream_status \<Rightarrow> pytext option \<Rightarrow> stream_repository \<Rightarrow>
       stream_repository \<times> (streaming_error + stream_descriptor)" where
  "register_stream_path netloc_ok config path status display_name repo =
     (case bind_r (descriptor_from_path path status display_name None) (\<lambda>d.
           bind_r (build_playback netloc_ok config (sd_stream_path d)) (\<lambda>urls.
           Inr (d\<lparr>sd_playback_urls := urls\<rparr>))) of
        Inl e \<Rightarrow> (repo, Inl e)
      | Inr d \<Rightarrow> (repo_upsert d repo, Inr d))"

record module_status =
  ms_registry_ready :: bool
  ms_playback_url_builder_ready :: bool
  ms_registered_streams :: nat

definition streaming_module_status ::
    "(pytext \<Rightarrow> bool) \<Rightarrow> url_builder_config \<Rightarrow> stream_repository \<Rightarrow> mediamtx_path list \<Rightarrow>
       streaming_error + module_status" where
  "streaming_module_status netloc_ok config repo paths =
     bind_r (list_registered_streams netloc_ok config repo paths) (\<lambda>ds.
     Inr \<lparr>ms_registry_ready = True, ms_playback_url_builder_ready = True, ms_registered_streams = length ds\<rparr>)"

section \<open>Responses and endpoints\<close>

record stream_descriptor_response =
  dp_stream_id :: pytext
  dp_path :: pytext
  dp_prefix :: stream_prefix
  dp_asset_id :: pytext
  dp_sensor_id :: pytext
  dp_processor_id :: "pytext option"
  dp_date :: "pytext option"
  dp_status :: stream_status
  dp_display_name :: "pytext option"
  dp_playback_urls :: playback_urls

definition descriptor_response :: "stream_descriptor \<Rightarrow> stream_descriptor_response" where
  "descriptor_response d =
     (let sp = sd_stream_path d
      in \<lparr>dp_stream_id = sd_stream_id d, dp_path = sd_path d, dp_prefix = sp_prefix sp,
          dp_asset_id = sp_asset_id sp, dp_sensor_id = sp_sensor_id sp,
          dp_processor_id = sp_processor_id sp, dp_date = sp_archive_date sp,
          dp_status = sd_status d, dp_display_name = sd_display_name d,
          dp_playback_urls = sd_playback_urls d\<rparr>)"

record stream_playback_response =
  pr_stream_id :: pytext
  pr_status :: stream_status
  pr_playback_urls :: playback_urls

definition playback_response :: "stream_descriptor \<Rightarrow> stream_playback_response" where
  "playback_response d =
     \<lparr>pr_stream_id = sd_stream_id d, pr_status = sd_status d, pr_playback_urls = sd_playback_urls d\<rparr>"

record stream_status_response =
  st_stream_id :: pytext
  st_status :: stream_status

definition status_response :: "stream_descriptor \<Rightarrow> stream_status_response" where
  "status_response d = \<lparr>st_stream_id = sd_stream_id d, st_status = sd_status d\<rparr>"

text \<open>
  An answer: a body with status 200, an unprocessable path (422), a stream that is not
  registered (404), or an exception that no handler catches (500).
\<close>

datatype 'r stream_answer = Body 'r | Unprocessable path_error | NotRegistered | ServerError

definition require_registered_stream ::
    "(pytext \<Rightarrow> streaming_error + stream_descriptor option) \<Rightarrow> pytext \<Rightarrow> stream_descriptor stream_answer" where
  "require_registered_stream get_stream stream_id =
     (case validate_stream_id stream_id of
        Inl e \<Rightarrow> Unprocessable e
      | Inr sp \<Rightarrow>
          (case get_stream (sp_stream_id sp) of
             Inl (PathErr e) \<Rightarrow> Unprocessable e
           | Inl _ \<Rightarrow> ServerError
           | Inr None \<Rightarrow> NotRegistered
           | Inr (Some d) \<Rightarrow> Body d))"

definition lookup_execute ::
    "(stream_descriptor \<Rightarrow> 'r) \<Rightarrow> (pytext \<Rightarrow> streaming_error + stream_descriptor option) \<Rightarrow> pytext \<Rightarrow> 'r stream_answer" where
  "lookup_execute build_response get_stream stream_id =
     (case require_registered_stream get_stream stream_id of
        Body d \<Rightarrow> Body (build_response d)
      | Unprocessable e \<Rightarrow> Unprocessable e
      | NotRegistered \<Rightarrow> NotRegistered
      | ServerError \<Rightarrow> ServerError)"

definition get_stream_playback where
  "get_stream_playback = lookup_execute playback_response"

definition get_stream_status where
  "get_stream_status = lookup_execute status_response"

definition get_stream where
  "get_stream = lookup_execute descriptor_response"

definition list_streams ::
    "(pytext \<Rightarrow> bool) \<Rightarrow> url_builder_config \<Rightarrow> stream_repository \<Rightarrow> mediamtx_path list \<Rightarrow>
       stream_descriptor_response list stream_answer" where
  "list_streams netloc_ok config repo paths =
     (case list_registered_streams netloc_ok config repo paths of
        Inl _ \<Rightarrow> ServerError | Inr ds \<Rightarrow> Body (map descriptor_response ds))"

definition resolve_stream_id :: "pytext \<Rightarrow> (string, pytext option) dict stream_answer" where
  "resolve_stream_id stream_id =
     (case validate_stream_id stream_id of Inl e \<Rightarrow> Unprocessable e | Inr sp \<Rightarrow> Body (to_api_dict sp))"

definition resolve_stream_path :: "pytext \<Rightarrow> (string, pytext option) dict stream_answer" where
  "resolve_stream_path path =
     (case validate_stream_path path of Inl e \<Rightarrow> Unprocessable e | Inr sp \<Rightarrow> Body (to_api_dict sp))"

text \<open>The module router: \<open>/playback/{stream_id}\<close> and \<open>/registry/{stream_id}\<close>.\<close>

datatype 'r registry_answer = RegistryBody 'r | RegistryStatus int

definition get_playback_urls ::
    "(pytext \<Rightarrow> bool) \<Rightarrow> url_builder_config \<Rightarrow> pytext \<Rightarrow> playback_urls registry_answer" where
  "get_playback_urls netloc_ok config stream_id =
     (case build_from_stream_id netloc_ok config stream_id of
        Inl UrlValueErr \<Rightarrow> RegistryStatus 500 | Inl _ \<Rightarrow> RegistryStatus 422 | Inr urls \<Rightarrow> RegistryBody urls)"

definition get_stream_registry_item ::
    "(pytext \<Rightarrow> bool) \<Rightarrow> url_builder_config \<Rightarrow> stream_repository \<Rightarrow> mediamtx_path list \<Rightarrow> pytext \<Rightarrow>
       stream_descriptor_response registry_answer" where
  "get_stream_registry_item netloc_ok config repo paths stream_id =
     (case get_registered_stream netloc_ok config repo paths stream_id of
        Inl _ \<Rightarrow> RegistryStatus 500
      | Inr None \<Rightarrow> RegistryStatus 404
      | Inr (Some d) \<Rightarrow> RegistryBody (descriptor_response d))"

section \<open>The repository contract\<close>

lemma find_None_if: "(\<And>x. x \<in> set xs \<Longrightarrow> \<not> P x) \<Longrightarrow> find P xs = None"
  by (induction xs) auto

lemma find_exists: "x \<in> set xs \<Longrightarrow> P x \<Longrightarrow> \<exists>y. find P xs = Some y"
  by (induction xs) auto

locale stream_store =
  fixes store_list :: "'s \<Rightarrow> stream_descriptor list"
    and store_get :: "'s \<Rightarrow> pytext \<Rightarrow> stream_descriptor option"
    and store_upsert :: "stream_descriptor \<Rightarrow> 's \<Rightarrow> 's"
    and store_ok :: "'s \<Rightarrow> bool"
  assumes upsert_ok: "store_ok s \<Longrightarrow> store_ok (store_upsert d s)"
    and get_upsert: "store_ok s \<Longrightarrow> store_get (store_upsert d s) i = (if i = sd_stream_id d then Some d else store_get s i)"
    and list_get: "store_ok s \<Longrightarrow> d \<in> set (store_list s) \<longleftrightarrow> store_get s (sd_stream_id d) = Some d"
    and list_distinct: "store_ok s \<Longrightarrow> distinct (map sd_stream_id (store_list s))"
    and get_id: "store_ok s \<Longrightarrow> store_get s i = Some d \<Longrightarrow> sd_stream_id d = i"
begin

lemma find_list:
  assumes ok: "store_ok s"
  shows "find (\<lambda>d. sd_stream_id d = i) (store_list s) = store_get s i"
proof (cases "store_get s i")
  case None
  then show ?thesis using list_get [OF ok] by (auto intro: find_None_if)
next
  case (Some d)
  have "sd_stream_id d = i" using Some get_id [OF ok] by simp
  then obtain d' where d': "find (\<lambda>d. sd_stream_id d = i) (store_list s) = Some d'"
    using find_exists [of d "store_list s" "\<lambda>d. sd_stream_id d = i"] list_get [OF ok, of d] Some by auto
  then have "store_get s i = Some d'" using find_SomeD [OF d'] list_get [OF ok, of d'] by auto
  with d' show ?thesis by simp
qed

end

definition repo_ok :: "stream_repository \<Rightarrow> bool" where
  "repo_ok repo \<longleftrightarrow> dict_ok repo \<and> (\<forall>(i, d) \<in> set repo. i = sd_stream_id d)"

lemma repo_ok_upsert:
  assumes "repo_ok repo"
  shows "repo_ok (dict_set (sd_stream_id d) d repo)"
proof -
  have "fst x = sd_stream_id (snd x)" if "x \<in> set (dict_set (sd_stream_id d) d repo)" for x
  proof -
    have "x = (sd_stream_id d, d) \<or> x \<in> set repo" using that set_dict_set by fast
    then show ?thesis using assms unfolding repo_ok_def by auto
  qed
  then show ?thesis using assms by (auto simp: repo_ok_def)
qed

interpretation repo: stream_store repo_list repo_get repo_upsert repo_ok
proof
  fix s d i assume ok: "repo_ok s"
  show "repo_ok (repo_upsert d s)" using repo_ok_upsert [OF ok] by (simp add: repo_upsert_def)
  show "repo_get (repo_upsert d s) i = (if i = sd_stream_id d then Some d else repo_get s i)"
    by (simp add: repo_get_def repo_upsert_def)
  show "d \<in> set (repo_list s) \<longleftrightarrow> repo_get s (sd_stream_id d) = Some d"
  proof
    assume "d \<in> set (repo_list s)"
    then obtain k where k: "(k, d) \<in> set s" by (auto simp: repo_list_def dict_values_def)
    then have "k = sd_stream_id d" "dict_ok s" using ok unfolding repo_ok_def by auto
    then show "repo_get s (sd_stream_id d) = Some d" using dict_get_in [OF _ k] by (simp add: repo_get_def)
  next
    assume "repo_get s (sd_stream_id d) = Some d"
    then have "(sd_stream_id d, d) \<in> set s" unfolding repo_get_def by (rule dict_get_Some_in)
    then have "snd (sd_stream_id d, d) \<in> snd ` set s" by (rule imageI)
    then show "d \<in> set (repo_list s)" by (simp add: repo_list_def dict_values_def)
  qed
  have "map sd_stream_id (repo_list s) = map fst s"
    using ok unfolding repo_ok_def repo_list_def dict_values_def by (induction s) auto
  then show "distinct (map sd_stream_id (repo_list s))" using ok by (simp add: repo_ok_def dict_ok_def)
  show "repo_get s i = Some d \<Longrightarrow> sd_stream_id d = i"
    using ok dict_get_Some_in [of s i d] unfolding repo_ok_def repo_get_def by auto
qed

lemma repo_ok_create: "repo_ok (repo_create ds)"
proof -
  have "repo_ok r \<Longrightarrow> repo_ok (fold repo_upsert ds r)" for r
    by (induction ds arbitrary: r) (simp_all add: repo.upsert_ok)
  moreover have "repo_ok []" by (simp add: repo_ok_def)
  ultimately show ?thesis by (simp add: repo_create_def)
qed

section \<open>The merged listing\<close>

definition mediamtx_stream_id :: "mediamtx_path \<Rightarrow> pytext option" where
  "mediamtx_stream_id p =
     (case validate_stream_path (mp_name p) of Inl _ \<Rightarrow> None | Inr sp \<Rightarrow> Some (sp_stream_id sp))"

lemma descriptor_from_mediamtx_path_cases:
  assumes "descriptor_from_mediamtx_path ok config p = Inr r"
  shows "case r of None \<Rightarrow> mediamtx_stream_id p = None | Some d \<Rightarrow> mediamtx_stream_id p = Some (sd_stream_id d)"
  using assms
  by (auto simp: descriptor_from_mediamtx_path_def mediamtx_stream_id_def descriptor_from_path_def
      bind_r_eq_Inr sd_stream_id_def split: sum.splits)

text \<open>The descriptor a listing shows: that of the last MediaMTX path of this stream, else the registered one.\<close>

definition shown_descriptor ::
    "(pytext \<Rightarrow> bool) \<Rightarrow> url_builder_config \<Rightarrow> stream_descriptor option \<Rightarrow> mediamtx_path list \<Rightarrow> pytext \<Rightarrow>
       stream_descriptor option" where
  "shown_descriptor ok config registered paths i =
     (case find (\<lambda>p. mediamtx_stream_id p = Some i) (rev paths) of
        None \<Rightarrow> registered
      | Some p \<Rightarrow> (case descriptor_from_mediamtx_path ok config p of Inr r \<Rightarrow> r | Inl _ \<Rightarrow> None))"

lemma merge_mediamtx_paths_get:
  assumes "merge_mediamtx_paths ok config ps ds = Inr ds'" "repo_ok ds"
  shows "repo_ok ds' \<and> dict_get ds' i = shown_descriptor ok config (dict_get ds i) ps i"
  using assms
proof (induction ps arbitrary: ds)
  case (Cons p ps)
  from Cons.prems(1) obtain r where r: "descriptor_from_mediamtx_path ok config p = Inr r"
    and m: "merge_mediamtx_paths ok config ps
        (case r of None \<Rightarrow> ds | Some d \<Rightarrow> dict_set (sd_stream_id d) d ds) = Inr ds'"
    by (auto simp: bind_r_eq_Inr split: option.splits)
  have "repo_ok (case r of None \<Rightarrow> ds | Some d \<Rightarrow> dict_set (sd_stream_id d) d ds)"
    using Cons.prems(2) by (auto simp: repo_ok_upsert split: option.split)
  from Cons.IH [OF m this] descriptor_from_mediamtx_path_cases [OF r] r show ?case
    by (auto simp: shown_descriptor_def find_append split: option.splits)
qed (simp add: shown_descriptor_def)

lemma fold_dict_set_repo:
  assumes "repo_ok repo"
  shows "repo_ok (fold (\<lambda>d ds. dict_set (sd_stream_id d) d ds) (repo_list repo) []) \<and>
    dict_get (fold (\<lambda>d ds. dict_set (sd_stream_id d) d ds) (repo_list repo) []) i = repo_get repo i"
proof -
  let ?ins = "\<lambda>d ds. dict_set (sd_stream_id d) d ds"
  have "repo_ok (fold ?ins xs acc) \<and>
      dict_get (fold ?ins xs acc) i = (case find (\<lambda>d. sd_stream_id d = i) (rev xs) of
        None \<Rightarrow> dict_get acc i | Some d \<Rightarrow> Some d)" if "repo_ok acc" for xs acc
    using that by (induction xs arbitrary: acc) (auto simp: repo_ok_upsert find_append split: option.split)
  from this [of "[]" "repo_list repo"] have f: "repo_ok (fold ?ins (repo_list repo) [])"
    "dict_get (fold ?ins (repo_list repo) []) i = find (\<lambda>d. sd_stream_id d = i) (rev (repo_list repo))"
    by (auto simp: repo_ok_def split: option.split)
  have "find (\<lambda>d. sd_stream_id d = i) (rev (repo_list repo)) = repo_get repo i"
  proof (cases "find (\<lambda>d. sd_stream_id d = i) (rev (repo_list repo))")
    case None
    then have "find (\<lambda>d. sd_stream_id d = i) (repo_list repo) = None" by (simp add: find_None_iff)
    with None show ?thesis using repo.find_list [OF assms, of i] by simp
  next
    case (Some d)
    then have "d \<in> set (repo_list repo)" "sd_stream_id d = i" by (auto dest: find_SomeD)
    then show ?thesis using Some repo.list_get [OF assms, of d] by simp
  qed
  with f show ?thesis by simp
qed

lemma list_registered_streams_get:
  assumes "repo_ok repo" "list_registered_streams ok config repo paths = Inr ds"
  shows "distinct (map sd_stream_id ds)"
    "find (\<lambda>d. sd_stream_id d = i) ds = shown_descriptor ok config (repo_get repo i) paths i"
proof -
  obtain ds' where m: "merge_mediamtx_paths ok config paths
      (fold (\<lambda>d ds. dict_set (sd_stream_id d) d ds) (repo_list repo) []) = Inr ds'" and ds: "ds = repo_list ds'"
    using assms(2) by (auto simp: list_registered_streams_def Let_def bind_r_eq_Inr repo_list_def)
  note f = fold_dict_set_repo [OF assms(1), of i]
  from merge_mediamtx_paths_get [OF m, of i] f have ok': "repo_ok ds'"
    and g: "dict_get ds' i = shown_descriptor ok config (repo_get repo i) paths i" by auto
  show "distinct (map sd_stream_id ds)" using repo.list_distinct [OF ok'] ds by simp
  show "find (\<lambda>d. sd_stream_id d = i) ds = shown_descriptor ok config (repo_get repo i) paths i"
    using repo.find_list [OF ok', of i] g ds by (simp add: repo_get_def)
qed

section \<open>Runs of the MediaMTX client\<close>

record paths_call =
  pc_t0 :: pyfloat
  pc_t1 :: pyfloat
  pc_t2 :: pyfloat
  pc_t3 :: pyfloat
  pc_reply :: http_reply

definition call_list_paths :: "paths_call \<Rightarrow> mediamtx_client \<Rightarrow> mediamtx_client \<times> (streaming_error + mediamtx_path list)" where
  "call_list_paths x c = list_paths (pc_t0 x) (pc_t1 x) (pc_t2 x) (pc_t3 x) (pc_reply x) c"

fun run_list_paths :: "paths_call list \<Rightarrow> mediamtx_client \<Rightarrow> (streaming_error + mediamtx_path list) list" where
  "run_list_paths [] c = []"
| "run_list_paths (x # xs) c =
     (case call_list_paths x c of (c', r) \<Rightarrow> r # run_list_paths xs c')"

definition young_enough :: "mediamtx_client \<Rightarrow> paths_call \<Rightarrow> pyfloat \<Rightarrow> bool" where
  "young_enough c x taken \<longleftrightarrow>
     \<not> flt (mc_snapshot_ttl_seconds c) (fsub (pc_t0 x) taken) \<or>
     \<not> flt (mc_snapshot_ttl_seconds c) (fsub (pc_t1 x) taken) \<or>
     (\<not> is_ok (load_paths (pc_reply x)) \<and> \<not> flt (mc_stale_ttl_seconds c) (fsub (pc_t2 x) taken))"

lemma call_list_paths_cases:
  assumes "call_list_paths x c = (c', r)"
  shows "mc_snapshot_ttl_seconds c' = mc_snapshot_ttl_seconds c \<and> mc_stale_ttl_seconds c' = mc_stale_ttl_seconds c"
    and "mc_snapshot c' = mc_snapshot c \<or>
      (\<exists>paths. load_paths (pc_reply x) = Inr paths \<and> mc_snapshot c' = Some (pc_t3 x, paths))"
    and "r = Inr paths \<Longrightarrow> load_paths (pc_reply x) = Inr paths \<or>
      (\<exists>taken. mc_snapshot c = Some (taken, paths) \<and> young_enough c x taken)"
    and "r = Inl e \<Longrightarrow> load_paths (pc_reply x) = Inl e"
  using assms
  by (auto simp: call_list_paths_def list_paths_def list_paths_locked_def cached_paths_def
      young_enough_def split: option.splits sum.splits if_splits)

lemma run_list_paths_source:
  assumes "\<And>t paths. mc_snapshot c = Some (t, paths) \<Longrightarrow>
      \<exists>j < length hs. load_paths (pc_reply (hs ! j)) = Inr paths \<and> t = pc_t3 (hs ! j)"
    and "mc_snapshot_ttl_seconds c = mc_snapshot_ttl_seconds c0" "mc_stale_ttl_seconds c = mc_stale_ttl_seconds c0"
    and "k < length xs" "run_list_paths xs c ! k = Inr paths"
  shows "\<exists>j \<le> length hs + k. load_paths (pc_reply ((hs @ xs) ! j)) = Inr paths \<and>
    (j = length hs + k \<or> young_enough c0 (xs ! k) (pc_t3 ((hs @ xs) ! j)))"
  using assms
proof (induction xs arbitrary: c hs k)
  case (Cons x xs)
  obtain c' r where c': "call_list_paths x c = (c', r)" by fastforce
  note cases = call_list_paths_cases [OF c']
  show ?case
  proof (cases k)
    case 0
    then have "r = Inr paths" using Cons.prems(5) c' by simp
    from cases(3) [OF this] consider "load_paths (pc_reply x) = Inr paths"
      | taken where "mc_snapshot c = Some (taken, paths)" "young_enough c x taken" by blast
    then show ?thesis
    proof cases
      case 1
      then show ?thesis using 0 by (intro exI [of _ "length hs"]) simp
    next
      case 2
      from Cons.prems(1) [OF 2(1)] obtain j where j: "j < length hs"
        "load_paths (pc_reply (hs ! j)) = Inr paths" "taken = pc_t3 (hs ! j)" by blast
      have "young_enough c0 x taken" using 2(2) Cons.prems(2,3) by (simp add: young_enough_def)
      with j 0 show ?thesis by (intro exI [of _ j]) (simp add: nth_append)
    qed
  next
    case (Suc k')
    have src: "\<exists>j < length (hs @ [x]). load_paths (pc_reply ((hs @ [x]) ! j)) = Inr ps \<and> t = pc_t3 ((hs @ [x]) ! j)"
      if "mc_snapshot c' = Some (t, ps)" for t ps
      using cases(2)
    proof
      assume "mc_snapshot c' = mc_snapshot c"
      with Cons.prems(1) that obtain j where "j < length hs" "load_paths (pc_reply (hs ! j)) = Inr ps"
        "t = pc_t3 (hs ! j)" by metis
      then show ?thesis by (intro exI [of _ j]) (simp add: nth_append)
    next
      assume "\<exists>paths. load_paths (pc_reply x) = Inr paths \<and> mc_snapshot c' = Some (pc_t3 x, paths)"
      with that show ?thesis by (intro exI [of _ "length hs"]) auto
    qed
    have "\<exists>j \<le> length (hs @ [x]) + k'. load_paths (pc_reply (((hs @ [x]) @ xs) ! j)) = Inr paths \<and>
        (j = length (hs @ [x]) + k' \<or> young_enough c0 (xs ! k') (pc_t3 (((hs @ [x]) @ xs) ! j)))"
      using Cons.prems cases(1) c' Suc by (intro Cons.IH [OF src]) auto
    then show ?thesis using Suc by simp
  qed
qed simp

section \<open>Lookups\<close>

text \<open>
  The repositories the running service can hold: one built from seeds, then changed by
  registrations. Every descriptor in them has a validated path.
\<close>

inductive reachable_repository ::
    "(pytext \<Rightarrow> bool) \<Rightarrow> url_builder_config \<Rightarrow> stream_repository \<Rightarrow> bool" for ok config where
  seeded: "build_seed_repository ok config seeds = Inr repo \<Longrightarrow> reachable_repository ok config repo"
| registered: "reachable_repository ok config repo \<Longrightarrow>
    reachable_repository ok config (fst (register_stream_path ok config path status display_name repo))"

definition wf_repository :: "stream_repository \<Rightarrow> bool" where
  "wf_repository repo \<longleftrightarrow> repo_ok repo \<and> (\<forall>i d. repo_get repo i = Some d \<longrightarrow> wf_stream_path (sd_stream_path d))"

lemma descriptor_from_path_wf:
  "descriptor_from_path path status name urls = Inr d \<Longrightarrow> wf_stream_path (sd_stream_path d)"
  by (auto simp: descriptor_from_path_def validate_stream_path_iff split: sum.splits)

lemma wf_repository_upsert:
  "wf_repository repo \<Longrightarrow> wf_stream_path (sd_stream_path d) \<Longrightarrow> wf_repository (repo_upsert d repo)"
  by (auto simp: wf_repository_def repo.upsert_ok repo.get_upsert)

lemma wf_repository_create:
  assumes "\<forall>d\<in>set ds. wf_stream_path (sd_stream_path d)"
  shows "wf_repository (repo_create ds)"
proof -
  have "wf_repository r \<Longrightarrow> wf_repository (fold repo_upsert ds r)" for r
    using assms by (induction ds arbitrary: r) (simp_all add: wf_repository_upsert)
  moreover have "wf_repository []" by (simp add: wf_repository_def repo_ok_def repo_get_def)
  ultimately show ?thesis by (simp add: repo_create_def)
qed

lemma seed_to_descriptor_wf:
  "seed_to_descriptor ok config seed = Inr d \<Longrightarrow> wf_stream_path (sd_stream_path d)"
  by (auto simp: seed_to_descriptor_def bind_r_eq_Inr dest: descriptor_from_path_wf)

lemma reachable_repository_wf:
  assumes "reachable_repository ok config repo"
  shows "wf_repository repo"
  using assms
proof induction
  case (seeded seeds repo)
  then obtain ds where ds: "map_r (seed_to_descriptor ok config) seeds = Inr ds" "repo = repo_create ds"
    by (auto simp: build_seed_repository_def bind_r_eq_Inr)
  have "wf_stream_path (sd_stream_path d)" if d: "d \<in> set ds" for d
  proof -
    obtain k where "k < length ds" "ds ! k = d" using d unfolding in_set_conv_nth by blast
    then show ?thesis using map_r_nth [OF ds(1), of k] map_r_length [OF ds(1)] seed_to_descriptor_wf by metis
  qed
  then show ?case using ds(2) wf_repository_create by blast
next
  case (registered repo path status display_name)
  then show ?case
    by (auto simp: register_stream_path_def bind_r_eq_Inr intro!: wf_repository_upsert
        dest: descriptor_from_path_wf split: sum.split)
qed

lemma descriptor_from_mediamtx_path_wf:
  "descriptor_from_mediamtx_path ok config p = Inr (Some d) \<Longrightarrow> wf_stream_path (sd_stream_path d)"
  by (auto simp: descriptor_from_mediamtx_path_def bind_r_eq_Inr dest: descriptor_from_path_wf split: sum.splits)

lemma shown_descriptor_id:
  assumes "repo_ok repo" "shown_descriptor ok config (repo_get repo i) paths i = Some d"
  shows "sd_stream_id d = i"
proof (cases "find (\<lambda>p. mediamtx_stream_id p = Some i) (rev paths)")
  case None
  then show ?thesis using assms repo.get_id by (auto simp: shown_descriptor_def)
next
  case (Some p)
  then have "mediamtx_stream_id p = Some i" by (auto dest: find_SomeD)
  then show ?thesis using assms(2) Some descriptor_from_mediamtx_path_cases [of ok config p]
    by (auto simp: shown_descriptor_def split: sum.splits)
qed

lemma shown_descriptor_wf:
  assumes "wf_repository repo" "shown_descriptor ok config (repo_get repo i) paths i = Some d"
  shows "wf_stream_path (sd_stream_path d)"
  using assms descriptor_from_mediamtx_path_wf
  by (auto simp: shown_descriptor_def wf_repository_def split: option.splits sum.splits)

lemma stream_id_determines_path:
  assumes "wf_stream_path sp" "wf_stream_path sp'" "sp_stream_id sp = sp_stream_id sp'"
  shows "sp = sp'"
  using assms validate_stream_id_iff [of "sp_stream_id sp" sp] validate_stream_id_iff [of "sp_stream_id sp" sp']
  by simp

section \<open>Properties\<close>

text \<open>
  C31: The merged registry: a listing shows each stream once, and looking a stream up gives the
  descriptor of the last MediaMTX path of that stream if there is one, and otherwise the
  registered descriptor; MediaMTX paths that are not valid stream paths change nothing.
\<close>

theorem registry_merges:
  assumes "repo_ok repo" and "list_registered_streams netloc_ok config repo paths = Inr ds"
  shows "distinct (map sd_stream_id ds) \<and>
    get_registered_stream netloc_ok config repo paths i
      = Inr (shown_descriptor netloc_ok config (repo_get repo i) paths i)"
  using list_registered_streams_get [OF assms] assms(2) by (simp add: get_registered_stream_def)

definition no_base_urls :: url_builder_config where
  "no_base_urls = \<lparr>uc_public_webrtc_base_url = None, uc_public_hls_base_url = None,
     uc_webrtc_base_url = None, uc_hls_base_url = None\<rparr>"

definition sample_mediamtx_paths :: "mediamtx_path list" where
  "sample_mediamtx_paths =
     [\<lparr>mp_name = text_of ''raw/sample/front'', mp_ready = False, mp_source_type = None, mp_reader_count = 2\<rparr>,
      \<lparr>mp_name = text_of ''../etc'', mp_ready = True, mp_source_type = None, mp_reader_count = 0\<rparr>]"

definition sample_repository :: stream_repository where
  "sample_repository = repo_create
     [\<lparr>sd_stream_path = \<lparr>sp_prefix = RAW, sp_asset_id = text_of ''sample'', sp_sensor_id = text_of ''front'',
         sp_processor_id = None, sp_archive_date = None\<rparr>,
       sd_status = Online, sd_display_name = None, sd_playback_urls = no_playback_urls\<rparr>]"

lemma sample_listing:
  "is_ok (list_registered_streams (\<lambda>_. True) no_base_urls sample_repository sample_mediamtx_paths)"
  by code_simp

theorem registry_merges_witness:
  "\<exists>d. get_registered_stream (\<lambda>_. True) no_base_urls sample_repository sample_mediamtx_paths
      (text_of ''raw.sample.front'') = Inr d \<and>
    d = shown_descriptor (\<lambda>_. True) no_base_urls (repo_get sample_repository (text_of ''raw.sample.front''))
      sample_mediamtx_paths (text_of ''raw.sample.front'')"
proof -
  have "repo_ok sample_repository" by (simp add: sample_repository_def repo_ok_create)
  moreover obtain ds where
    "list_registered_streams (\<lambda>_. True) no_base_urls sample_repository sample_mediamtx_paths = Inr ds"
    using sample_listing unfolding is_ok_iff by blast
  ultimately show ?thesis using registry_merges by blast
qed

text \<open>
  C21: The stream endpoints answer about the stream they were asked for: when
  \<open>GET /streams/{stream_id}\<close> answers with a body, the identifier asked for is a valid
  stream identifier, the body carries it, and its path is that identifier's path.
\<close>

theorem stream_endpoint_answers_asked:
  assumes "reachable_repository netloc_ok config repo"
    and "get_stream (get_registered_stream netloc_ok config repo paths) i = Body r"
  shows "dp_stream_id r = i \<and> stream_id_to_path i = Inr (dp_path r)"
proof -
  have wf: "wf_repository repo" "repo_ok repo"
    using reachable_repository_wf [OF assms(1)] by (auto simp: wf_repository_def)
  from assms(2) obtain sp d where sp: "validate_stream_id i = Inr sp"
    and d: "get_registered_stream netloc_ok config repo paths (sp_stream_id sp) = Inr (Some d)"
    and r: "r = descriptor_response d"
    by (auto simp: get_stream_def lookup_execute_def require_registered_stream_def
        split: sum.splits streaming_error.splits option.splits)
  have i: "sp_stream_id sp = i" "wf_stream_path sp" using sp by (auto simp: validate_stream_id_iff)
  obtain ds where ds: "list_registered_streams netloc_ok config repo paths = Inr ds"
    and f: "find (\<lambda>d. sd_stream_id d = i) ds = Some d"
    using d i by (auto simp: get_registered_stream_def bind_r_eq_Inr)
  have s: "shown_descriptor netloc_ok config (repo_get repo i) paths i = Some d"
    using list_registered_streams_get(2) [OF wf(2) ds, of i] f by simp
  have id: "sd_stream_id d = i" by (rule shown_descriptor_id [OF wf(2) s])
  have "sd_stream_path d = sp"
    using stream_id_determines_path [OF shown_descriptor_wf [OF wf(1) s] i(2)] id i(1) by (simp add: sd_stream_id_def)
  with id sp r show ?thesis
    by (simp add: descriptor_response_def Let_def sd_path_def stream_id_to_path_def)
qed

definition seeded_repository :: stream_repository where
  "seeded_repository =
     (case build_seed_repository (\<lambda>_. True) no_base_urls DEFAULT_STREAM_SEEDS of Inr r \<Rightarrow> r | Inl _ \<Rightarrow> [])"

lemma seeded_repository_reachable: "reachable_repository (\<lambda>_. True) no_base_urls seeded_repository"
proof -
  have "is_ok (build_seed_repository (\<lambda>_. True) no_base_urls DEFAULT_STREAM_SEEDS)" by code_simp
  then show ?thesis by (auto simp: is_ok_iff seeded_repository_def intro: seeded)
qed

theorem stream_endpoint_answers_asked_witness:
  "case get_stream (get_registered_stream (\<lambda>_. True) no_base_urls seeded_repository [])
      (text_of ''raw.sample.rear'') of
     Body r \<Rightarrow> dp_stream_id r = text_of ''raw.sample.rear'' \<and>
       stream_id_to_path (text_of ''raw.sample.rear'') = Inr (dp_path r)
   | _ \<Rightarrow> False"
proof -
  have "(case get_stream (get_registered_stream (\<lambda>_. True) no_base_urls seeded_repository [])
      (text_of ''raw.sample.rear'') of Body r \<Rightarrow> True | _ \<Rightarrow> False)" by code_simp
  then show ?thesis
    using stream_endpoint_answers_asked [OF seeded_repository_reachable]
    by (simp split: stream_answer.split_asm stream_answer.split)
qed

text \<open>
  C11: The MediaMTX snapshot cache never invents paths: in any sequence of \<open>list_paths\<close>
  calls on a fresh client, a list that is returned was loaded from the reply of the same call or
  from that of an earlier one whose snapshot is still within the snapshot limit, or within the
  stale limit when the server's reply of this call cannot be used.
\<close>

theorem cached_listing_is_a_reply:
  assumes "mc_snapshot c = None" and "k < length calls" and "run_list_paths calls c ! k = Inr paths"
  shows "\<exists>j \<le> k. load_paths (pc_reply (calls ! j)) = Inr paths \<and>
    (j = k \<or> young_enough c (calls ! k) (pc_t3 (calls ! j)))"
  using run_list_paths_source [of c "[]" c k calls paths] assms by simp

definition sample_calls :: "paths_call list" where
  "sample_calls =
     [\<lparr>pc_t0 = Fin 0, pc_t1 = Fin 0, pc_t2 = Fin 0, pc_t3 = Fin 1, pc_reply = Payload (JObj [(text_of ''items'',
         JList [JObj [(text_of ''name'', JStr (text_of ''raw/a/b''))]])])\<rparr>,
      \<lparr>pc_t0 = Fin 9, pc_t1 = Fin 9, pc_t2 = Fin 10, pc_t3 = Fin 11, pc_reply = RequestFailed\<rparr>]"

lemma fsub_of_int:
  assumes "\<bar>a - b\<bar> < 2 ^ 53"
  shows "fsub (Fin (of_int a)) (Fin (of_int b)) = Fin (of_int (a - b))"
proof -
  have le: "- (2 ^ 1024) < (of_int (a - b) :: rat)" "(of_int (a - b) :: rat) < 2 ^ 1024"
  proof -
    have "(2 :: int) ^ 53 \<le> 2 ^ 1024" by simp
    with assms have "- (2 ^ 1024) < a - b" "a - b < 2 ^ 1024" by linarith+
    then have "of_int (- (2 ^ 1024)) < (of_int (a - b) :: rat)" "(of_int (a - b) :: rat) < of_int (2 ^ 1024)"
      unfolding of_int_less_iff by blast+
    then show "- (2 ^ 1024) < (of_int (a - b) :: rat)" "(of_int (a - b) :: rat) < 2 ^ 1024"
      unfolding of_int_minus of_int_power of_int_numeral by blast+
  qed
  have "mk_float (of_int (a - b)) = Fin (of_int (a - b))"
    using double64_of_int [OF assms] le by (simp add: mk_float_def Let_def del: of_int_diff)
  then show ?thesis by (simp add: fsub_def)
qed

theorem cached_listing_is_a_reply_witness:
  "\<exists>j \<le> 1. load_paths (pc_reply (sample_calls ! j)) = load_paths (pc_reply (sample_calls ! 0)) \<and>
    (j = 1 \<or> young_enough \<lparr>mc_snapshot_ttl_seconds = Fin 2, mc_stale_ttl_seconds = Fin 15, mc_snapshot = None\<rparr>
      (sample_calls ! 1) (pc_t3 (sample_calls ! j)))"
proof -
  let ?c = "\<lparr>mc_snapshot_ttl_seconds = Fin 2, mc_stale_ttl_seconds = Fin 15, mc_snapshot = None\<rparr>"
  have r0: "is_ok (load_paths (pc_reply (sample_calls ! 0)))" by code_simp
  have len: "1 < length sample_calls" by (simp add: sample_calls_def)
  from r0 obtain paths where p: "load_paths (pc_reply (sample_calls ! 0)) = Inr paths" by (auto simp: is_ok_iff)
  have f: "load_paths (pc_reply (sample_calls ! 1)) = Inl MediaMTXErr" by code_simp
  have "fsub (Fin 9) (Fin 1) = Fin 8" "fsub (Fin 10) (Fin 1) = Fin 9"
    using fsub_of_int [of 9 1] fsub_of_int [of 10 1] by simp_all
  then have r: "run_list_paths sample_calls ?c ! 1 = Inr paths"
    using p f by (simp add: sample_calls_def call_list_paths_def list_paths_def list_paths_locked_def cached_paths_def)
  show ?thesis
    using cached_listing_is_a_reply [of ?c 1 sample_calls paths] r len p by simp
qed

end
