(* ===== verification/Settings.thy ===== *)
theory Settings
  imports Url
begin

text \<open>
  The configuration layer, \<open>backend/core/*_settings.py\<close>, \<open>env_parsing.py\<close>,
  \<open>secret_files.py\<close>, \<open>db.py\<close> and \<open>auth_config.py\<close>, with the map configuration module
  that serves one of them. A \<open>host\<close> is what the process sees: its environment, the raw
  settings pydantic-settings finds under an alias (environment before \<open>.env\<close>), the regular
  files and how pydantic reads booleans, integers and floats from text. Validators run on values
  that were found, never on defaults.
\<close>

section \<open>Environment texts\<close>

definition empty_to_none :: "pytext option \<Rightarrow> pytext option" where
  "empty_to_none value =
     (case value of
        None \<Rightarrow> None
      | Some v \<Rightarrow> let v = py_strip v in if v = [] then None else Some v)"

definition csv_to_tuple :: "pytext option \<Rightarrow> pytext list" where
  "csv_to_tuple value =
     (case value of
        None \<Rightarrow> []
      | Some v \<Rightarrow> if v = [] then [] else filter (\<lambda>item. item \<noteq> []) (map py_strip (split_on 44 v)))"

text \<open>
  \<open>str.lower\<close>: ASCII texts by their table, other texts by the Unicode tables, an argument.
\<close>

definition lower_text :: "(pytext \<Rightarrow> pytext) \<Rightarrow> pytext \<Rightarrow> pytext" where
  "lower_text unicode_lower s = (if list_all (\<lambda>c. c < 128) s then text_lower s else unicode_lower s)"

definition parse_bool :: "(pytext \<Rightarrow> pytext) \<Rightarrow> pytext option \<Rightarrow> bool \<Rightarrow> bool" where
  "parse_bool unicode_lower value dflt =
     (case empty_to_none value of
        None \<Rightarrow> dflt
      | Some normalized \<Rightarrow>
          lower_text unicode_lower normalized \<in> set (map text_of [''1'', ''true'', ''yes'', ''on'']))"

definition or_default :: "pytext option \<Rightarrow> pytext \<Rightarrow> pytext" where
  "or_default value d = (case value of None \<Rightarrow> d | Some v \<Rightarrow> if v = [] then d else v)"

definition or_else :: "pytext option \<Rightarrow> pytext option \<Rightarrow> pytext option" where
  "or_else a b = (case a of None \<Rightarrow> b | Some v \<Rightarrow> if v = [] then b else Some v)"

section \<open>The host\<close>

record file_view =
  fv_size :: nat
  fv_content :: "bytes option"

record host =
  h_getenv :: "string \<Rightarrow> pytext option"
  h_setting :: "string \<Rightarrow> pytext option"
  h_file :: "pytext \<Rightarrow> file_view option"
  h_bool :: "pytext \<Rightarrow> bool option"
  h_int :: "pytext \<Rightarrow> int option"
  h_float :: "pytext \<Rightarrow> pyfloat option"
  h_lower :: "pytext \<Rightarrow> pytext"
  h_netloc_ok :: "pytext \<Rightarrow> bool"

datatype secret_error =
    BothConfigured | NotExistingAbsoluteFile | FileTooLarge | FileNotUtf8 | FileUnreadable | FileEmpty

datatype settings_error = SecretInput secret_error | InvalidSetting string

section \<open>Secret files\<close>

definition MAX_SECRET_FILE_BYTES :: nat where
  "MAX_SECRET_FILE_BYTES = 4096"

text \<open>Text files are read with universal newlines.\<close>

fun universal_newlines :: "pytext \<Rightarrow> pytext" where
  "universal_newlines [] = []"
| "universal_newlines (c # cs) =
     (if c = 13
      then 10 # (if take 1 cs = [10] then universal_newlines (drop 1 cs) else universal_newlines cs)
      else c # universal_newlines cs)"

definition resolve_secret_file :: "host \<Rightarrow> pytext \<Rightarrow> pytext \<Rightarrow> secret_error + pytext option" where
  "resolve_secret_file h configured_file default_file =
     (if configured_file = []
      then Inr (if h_file h default_file \<noteq> None then Some default_file else None)
      else if take 1 configured_file \<noteq> [47] \<or> h_file h configured_file = None
      then Inl NotExistingAbsoluteFile
      else Inr (Some configured_file))"

definition read_secret_file :: "host \<Rightarrow> pytext \<Rightarrow> secret_error + pytext" where
  "read_secret_file h secret_file =
     (case h_file h secret_file of
        None \<Rightarrow> Inl FileUnreadable
      | Some f \<Rightarrow>
          if fv_size f > MAX_SECRET_FILE_BYTES then Inl FileTooLarge
          else (case fv_content f of
                  None \<Rightarrow> Inl FileUnreadable
                | Some bs \<Rightarrow>
                    (case utf8_decode bs of
                       Inl _ \<Rightarrow> Inl FileNotUtf8
                     | Inr s \<Rightarrow>
                         let value = py_strip (universal_newlines s)
                         in if value = [] then Inl FileEmpty else Inr value)))"

definition getenv_stripped :: "host \<Rightarrow> string \<Rightarrow> pytext" where
  "getenv_stripped h name = py_strip (case h_getenv h name of None \<Rightarrow> [] | Some v \<Rightarrow> v)"

definition read_secret_input :: "host \<Rightarrow> string \<Rightarrow> string \<Rightarrow> pytext \<Rightarrow> secret_error + pytext option" where
  "read_secret_input h value_name file_name default_file =
     (let environment_value = getenv_stripped h value_name;
          configured_file = getenv_stripped h file_name
      in bind_r (resolve_secret_file h configured_file default_file) (\<lambda>secret_file.
         if environment_value \<noteq> [] \<and> secret_file \<noteq> None then Inl BothConfigured
         else case secret_file of
                None \<Rightarrow> Inr None
              | Some f \<Rightarrow>
                  if environment_value \<noteq> [] then Inr None
                  else bind_r (read_secret_file h f) (\<lambda>v. Inr (Some v))))"

definition secret_settings :: "host \<Rightarrow> string \<Rightarrow> string \<Rightarrow> string \<Rightarrow> settings_error + pytext option" where
  "secret_settings h value_name file_name default_file =
     (case read_secret_input h value_name file_name (text_of default_file) of
        Inl e \<Rightarrow> Inl (SecretInput e) | Inr v \<Rightarrow> Inr v)"

section \<open>Fields\<close>

text \<open>
  A field of a settings class: its default when nothing is set under the alias, otherwise the
  value its validators and its type make of the raw text. \<open>field_with\<close> takes a keyword
  argument of the constructor first.
\<close>

definition setting_field :: "host \<Rightarrow> string \<Rightarrow> 'a \<Rightarrow> (pytext \<Rightarrow> settings_error + 'a) \<Rightarrow> settings_error + 'a" where
  "setting_field h alias dflt conv = (case h_setting h alias of None \<Rightarrow> Inr dflt | Some raw \<Rightarrow> conv raw)"

definition field_with ::
    "host \<Rightarrow> pytext option \<Rightarrow> string \<Rightarrow> 'a \<Rightarrow> (pytext \<Rightarrow> settings_error + 'a) \<Rightarrow> settings_error + 'a" where
  "field_with h kwarg alias dflt conv = (case kwarg of None \<Rightarrow> setting_field h alias dflt conv | Some raw \<Rightarrow> conv raw)"

definition parsed_value :: "string \<Rightarrow> 'a option \<Rightarrow> settings_error + 'a" where
  "parsed_value alias r = (case r of None \<Rightarrow> Inl (InvalidSetting alias) | Some x \<Rightarrow> Inr x)"

definition checked_value :: "string \<Rightarrow> ('a \<Rightarrow> bool) \<Rightarrow> 'a option \<Rightarrow> settings_error + 'a" where
  "checked_value alias P r = bind_r (parsed_value alias r) (\<lambda>x. bind_r (require_r (P x) (InvalidSetting alias)) (\<lambda>_. Inr x))"

definition bool_field :: "host \<Rightarrow> string \<Rightarrow> bool \<Rightarrow> settings_error + bool" where
  "bool_field h alias dflt = setting_field h alias dflt (\<lambda>raw. parsed_value alias (h_bool h raw))"

definition str_field :: "host \<Rightarrow> string \<Rightarrow> pytext \<Rightarrow> settings_error + pytext" where
  "str_field h alias dflt = setting_field h alias dflt Inr"

definition optional_field :: "host \<Rightarrow> string \<Rightarrow> pytext option \<Rightarrow> settings_error + pytext option" where
  "optional_field h alias dflt = setting_field h alias dflt (\<lambda>raw. Inr (empty_to_none (Some raw)))"

section \<open>Media server\<close>

record media_server_settings =
  mss_public_webrtc_base_url :: "pytext option"
  mss_public_hls_base_url :: "pytext option"
  mss_api_base_url :: "pytext option"
  mss_api_username :: "pytext option"
  mss_api_password :: "pytext option"

definition media_server_from_env :: "host \<Rightarrow> settings_error + media_server_settings" where
  "media_server_from_env h =
     bind_r (secret_settings h ''MEDIAMTX_API_PASSWORD'' ''MEDIAMTX_API_PASSWORD_FILE''
               ''/run/secrets/MEDIAMTX_API_PASSWORD'') (\<lambda>password.
     bind_r (optional_field h ''MEDIAMTX_PUBLIC_WEBRTC_BASE_URL'' None) (\<lambda>webrtc.
     bind_r (optional_field h ''MEDIAMTX_PUBLIC_HLS_BASE_URL'' None) (\<lambda>hls.
     bind_r (optional_field h ''MEDIAMTX_API_BASE_URL'' None) (\<lambda>api.
     bind_r (optional_field h ''MEDIAMTX_API_USER'' None) (\<lambda>user.
     bind_r (field_with h password ''MEDIAMTX_API_PASSWORD'' None
               (\<lambda>raw. Inr (empty_to_none (Some raw)))) (\<lambda>pw.
     Inr \<lparr>mss_public_webrtc_base_url = webrtc, mss_public_hls_base_url = hls, mss_api_base_url = api,
          mss_api_username = user, mss_api_password = pw\<rparr>))))))"

section \<open>Dashboard map\<close>

record dashboard_map_settings =
  dm_provider :: pytext
  dm_style_url :: pytext
  dm_attribution :: pytext
  dm_requires_api_key :: bool

definition DEFAULT_MAP_PROVIDER :: pytext where
  "DEFAULT_MAP_PROVIDER = text_of ''offline''"

definition DEFAULT_MAP_STYLE_URL :: pytext where
  "DEFAULT_MAP_STYLE_URL = []"

definition DEFAULT_MAP_ATTRIBUTION :: pytext where
  "DEFAULT_MAP_ATTRIBUTION = text_of ''Offline tactical map''"

definition map_providers :: "pytext list" where
  "map_providers = map text_of [''esri-satellite'', ''openfreemap'', ''offline'', ''custom'']"

definition normalize_provider :: "pytext \<Rightarrow> pytext" where
  "normalize_provider raw =
     (case empty_to_none (Some raw) of
        None \<Rightarrow> DEFAULT_MAP_PROVIDER
      | Some p \<Rightarrow> if p \<in> set map_providers then p else text_of ''custom'')"

definition dashboard_map_from_env :: "host \<Rightarrow> settings_error + dashboard_map_settings" where
  "dashboard_map_from_env h =
     bind_r (setting_field h ''DASHBOARD_MAP_PROVIDER'' DEFAULT_MAP_PROVIDER (\<lambda>raw. Inr (normalize_provider raw))) (\<lambda>provider.
     bind_r (setting_field h ''DASHBOARD_MAP_STYLE_URL'' DEFAULT_MAP_STYLE_URL (\<lambda>raw. Inr (py_strip raw))) (\<lambda>style.
     bind_r (setting_field h ''DASHBOARD_MAP_ATTRIBUTION'' DEFAULT_MAP_ATTRIBUTION
               (\<lambda>raw. Inr (or_default (empty_to_none (Some raw)) DEFAULT_MAP_ATTRIBUTION))) (\<lambda>attribution.
     bind_r (bool_field h ''DASHBOARD_MAP_REQUIRES_API_KEY'' False) (\<lambda>key.
     Inr \<lparr>dm_provider = provider, dm_style_url = style, dm_attribution = attribution, dm_requires_api_key = key\<rparr>))))"

record map_config_response =
  mr_provider :: pytext
  mr_style_url :: pytext
  mr_attribution :: pytext
  mr_requires_api_key :: bool

definition map_config_provider :: "dashboard_map_settings \<Rightarrow> pytext" where
  "map_config_provider s = (if dm_provider s \<in> set map_providers then dm_provider s else text_of ''custom'')"

definition get_map_config :: "dashboard_map_settings \<Rightarrow> map_config_response" where
  "get_map_config s =
     \<lparr>mr_provider = map_config_provider s, mr_style_url = dm_style_url s,
      mr_attribution = dm_attribution s, mr_requires_api_key = dm_requires_api_key s\<rparr>"

section \<open>Web security\<close>

record web_security_settings =
  ws_allowed_origins :: "pytext list"
  ws_content_security_policy :: pytext

definition DEFAULT_ALLOWED_ORIGINS :: "pytext list" where
  "DEFAULT_ALLOWED_ORIGINS = map text_of [''http://localhost:5173'', ''http://localhost:5174'']"

definition DEFAULT_CONTENT_SECURITY_POLICY :: pytext where
  "DEFAULT_CONTENT_SECURITY_POLICY = text_of (
     ''default-src 'self'; '' @
     ''script-src 'self'; '' @
     ''style-src 'self' 'unsafe-inline'; '' @
     ''img-src 'self' data: blob: https://tiles.openfreemap.org https://services.arcgisonline.com; '' @
     ''connect-src 'self' https: wss:; '' @
     ''media-src 'self' blob: https:; '' @
     ''worker-src 'self' blob:; '' @
     ''object-src 'none'; '' @
     ''base-uri 'self'; '' @
     ''frame-ancestors 'none'' @ [CHR 0x27])"

definition parse_allowed_origins :: "pytext \<Rightarrow> pytext list" where
  "parse_allowed_origins raw =
     (let origins = csv_to_tuple (Some raw) in if origins = [] then DEFAULT_ALLOWED_ORIGINS else origins)"

definition web_security_from_env :: "host \<Rightarrow> settings_error + web_security_settings" where
  "web_security_from_env h =
     bind_r (setting_field h ''BACKEND_CORS_ALLOW_ORIGINS'' DEFAULT_ALLOWED_ORIGINS (\<lambda>raw. Inr (parse_allowed_origins raw))) (\<lambda>origins.
     bind_r (setting_field h ''BACKEND_CONTENT_SECURITY_POLICY'' DEFAULT_CONTENT_SECURITY_POLICY
               (\<lambda>raw. Inr (or_default (empty_to_none (Some raw)) DEFAULT_CONTENT_SECURITY_POLICY))) (\<lambda>csp.
     Inr \<lparr>ws_allowed_origins = origins, ws_content_security_policy = csp\<rparr>))"

section \<open>ICE servers\<close>

definition DEFAULT_WEBRTC_STUN_URL :: pytext where
  "DEFAULT_WEBRTC_STUN_URL = text_of ''stun:stun.l.google.com:19302''"

record browser_ice_server =
  is_urls :: pytext
  is_username :: "pytext option"
  is_credential :: "pytext option"

definition ice_stun :: "pytext \<Rightarrow> browser_ice_server" where
  "ice_stun url = \<lparr>is_urls = url, is_username = None, is_credential = None\<rparr>"

definition ice_turn :: "pytext \<Rightarrow> pytext \<Rightarrow> pytext \<Rightarrow> browser_ice_server" where
  "ice_turn url username credential = \<lparr>is_urls = url, is_username = Some username, is_credential = Some credential\<rparr>"

definition ice_to_api_dict :: "browser_ice_server \<Rightarrow> (string, pytext) dict" where
  "ice_to_api_dict s =
     (let payload = [(''urls'', is_urls s)];
          payload = (case is_username s of None \<Rightarrow> payload | Some u \<Rightarrow> dict_set ''username'' u payload)
      in case is_credential s of None \<Rightarrow> payload | Some c \<Rightarrow> dict_set ''credential'' c payload)"

record webrtc_ice_settings =
  ice_stun_url :: "pytext option"
  ice_turn_url :: "pytext option"
  ice_turn_username :: "pytext option"
  ice_turn_password :: "pytext option"
  ice_mediamtx_turn_url :: "pytext option"
  ice_mediamtx_turn_username :: "pytext option"
  ice_mediamtx_turn_password :: "pytext option"

definition with_legacy_mediamtx_fallbacks :: "webrtc_ice_settings \<Rightarrow> webrtc_ice_settings" where
  "with_legacy_mediamtx_fallbacks s =
     s\<lparr>ice_stun_url := or_else (ice_stun_url s) (Some DEFAULT_WEBRTC_STUN_URL),
       ice_turn_url := or_else (ice_turn_url s) (ice_mediamtx_turn_url s),
       ice_turn_username := or_else (ice_turn_username s) (ice_mediamtx_turn_username s),
       ice_turn_password := or_else (ice_turn_password s) (ice_mediamtx_turn_password s)\<rparr>"

definition webrtc_ice_from_env :: "host \<Rightarrow> settings_error + webrtc_ice_settings" where
  "webrtc_ice_from_env h =
     bind_r (optional_field h ''WEBRTC_STUN_URL'' (Some DEFAULT_WEBRTC_STUN_URL)) (\<lambda>stun.
     bind_r (optional_field h ''WEBRTC_TURN_URL'' None) (\<lambda>turn.
     bind_r (optional_field h ''WEBRTC_TURN_USERNAME'' None) (\<lambda>user.
     bind_r (optional_field h ''WEBRTC_TURN_PASSWORD'' None) (\<lambda>password.
     bind_r (optional_field h ''MEDIAMTX_TURN_URL'' None) (\<lambda>mturn.
     bind_r (optional_field h ''MEDIAMTX_TURN_USERNAME'' None) (\<lambda>muser.
     bind_r (optional_field h ''MEDIAMTX_TURN_PASSWORD'' None) (\<lambda>mpassword.
     Inr (with_legacy_mediamtx_fallbacks
       \<lparr>ice_stun_url = stun, ice_turn_url = turn, ice_turn_username = user, ice_turn_password = password,
        ice_mediamtx_turn_url = mturn, ice_mediamtx_turn_username = muser,
        ice_mediamtx_turn_password = mpassword\<rparr>))))))))"

definition set_text :: "pytext option \<Rightarrow> bool" where
  "set_text v \<longleftrightarrow> v \<noteq> None \<and> v \<noteq> Some []"

definition browser_ice_server_list :: "webrtc_ice_settings \<Rightarrow> browser_ice_server list" where
  "browser_ice_server_list s =
     (if set_text (ice_stun_url s) then [ice_stun (the (ice_stun_url s))] else []) @
     (if set_text (ice_turn_url s) \<and> set_text (ice_turn_username s) \<and> set_text (ice_turn_password s)
      then [ice_turn (the (ice_turn_url s)) (the (ice_turn_username s)) (the (ice_turn_password s))] else [])"

definition browser_ice_servers :: "webrtc_ice_settings \<Rightarrow> (string, pytext) dict list" where
  "browser_ice_servers s = map ice_to_api_dict (browser_ice_server_list s)"

section \<open>Database\<close>

definition DEFAULT_DATABASE_URL :: pytext where
  "DEFAULT_DATABASE_URL = text_of ''sqlite+pysqlite:///:memory:''"

definition LEGACY_MYSQL_DIALECTS :: "pytext list" where
  "LEGACY_MYSQL_DIALECTS = map text_of [''mysql'', ''mysql+pymysql'', ''mariadb'', ''mariadb+pymysql'']"

definition POSTGRES_DIALECTS :: "pytext list" where
  "POSTGRES_DIALECTS = map text_of [''postgresql'', ''postgresql+psycopg2'']"

record database_settings =
  ds_url :: pytext
  ds_legacy_mysql_allowed :: bool
  ds_tls_required :: bool

text \<open>The items of a query string, split at their first equals sign; items without one are left out.\<close>

definition split_first :: "nat \<Rightarrow> pytext \<Rightarrow> pytext \<times> pytext" where
  "split_first c s = (takeWhile (\<lambda>x. x \<noteq> c) s, drop 1 (dropWhile (\<lambda>x. x \<noteq> c) s))"

definition query_dict :: "pytext \<Rightarrow> (pytext, pytext) dict" where
  "query_dict query =
     fold (\<lambda>(k, v). dict_set k v) (map (split_first 61) (filter (\<lambda>item. 61 \<in> set item) (split_on 38 query))) []"

definition verified_tls_query :: "pytext \<Rightarrow> bool" where
  "verified_tls_query query \<longleftrightarrow>
     dict_get (query_dict query) (text_of ''sslmode'') = Some (text_of ''verify-full'') \<and>
     set_text (dict_get (query_dict query) (text_of ''sslrootcert''))"

definition legacy_mysql_allowed :: "host \<Rightarrow> settings_error + bool" where
  "legacy_mysql_allowed h = bool_field h ''GCS_ALLOW_LEGACY_MYSQL'' False"

definition validate_dialect :: "host \<Rightarrow> database_settings \<Rightarrow> settings_error + database_settings" where
  "validate_dialect h s =
     (case urlparse (h_netloc_ok h) (ds_url s) of
        None \<Rightarrow> Inl (InvalidSetting ''database'')
      | Some u \<Rightarrow>
          bind_r (if url_scheme u \<in> set LEGACY_MYSQL_DIALECTS
                  then bind_r (legacy_mysql_allowed h) (\<lambda>allowed. require_r allowed (InvalidSetting ''database''))
                  else Inr ()) (\<lambda>_.
          bind_r (if url_scheme u \<in> set POSTGRES_DIALECTS \<and> ds_tls_required s
                  then require_r (verified_tls_query (url_query u)) (InvalidSetting ''database'')
                  else Inr ()) (\<lambda>_.
          Inr s)))"

definition database_from_env :: "host \<Rightarrow> settings_error + database_settings" where
  "database_from_env h =
     bind_r (secret_settings h ''DATABASE_URL'' ''DATABASE_URL_FILE'' ''/run/secrets/DATABASE_URL'') (\<lambda>secret_url.
     bind_r (field_with h secret_url ''DATABASE_URL'' DEFAULT_DATABASE_URL Inr) (\<lambda>url.
     bind_r (bool_field h ''GCS_ALLOW_LEGACY_MYSQL'' False) (\<lambda>legacy.
     bind_r (bool_field h ''DATABASE_TLS_REQUIRED'' False) (\<lambda>tls.
     validate_dialect h \<lparr>ds_url = url, ds_legacy_mysql_allowed = legacy, ds_tls_required = tls\<rparr>))))"

text \<open>The options \<open>create_database_engine\<close> passes on: pre-ping always, pool limits on PostgreSQL.\<close>

record engine_options =
  eo_pool_pre_ping :: bool
  eo_pool_timeout :: "int option"
  eo_pool_recycle :: "int option"

definition create_database_engine_options :: "host \<Rightarrow> database_settings \<Rightarrow> engine_options option" where
  "create_database_engine_options h s =
     (case urlparse (h_netloc_ok h) (ds_url s) of
        None \<Rightarrow> None
      | Some u \<Rightarrow>
          Some (if url_scheme u \<in> set POSTGRES_DIALECTS
                then \<lparr>eo_pool_pre_ping = True, eo_pool_timeout = Some 5, eo_pool_recycle = Some 300\<rparr>
                else \<lparr>eo_pool_pre_ping = True, eo_pool_timeout = None, eo_pool_recycle = None\<rparr>))"

section \<open>Authentication\<close>

datatype same_site = SameSiteLax | SameSiteStrict | SameSiteNone

definition same_site_of :: "pytext \<Rightarrow> same_site option" where
  "same_site_of s =
     (if s = text_of ''lax'' then Some SameSiteLax
      else if s = text_of ''strict'' then Some SameSiteStrict
      else if s = text_of ''none'' then Some SameSiteNone
      else None)"

record auth_settings =
  as_secret :: pytext
  as_algorithm :: pytext
  as_access_token_expire_minutes :: int
  as_refresh_token_expire_minutes :: int
  as_issuer :: pytext
  as_refresh_cookie_name :: pytext
  as_refresh_cookie_secure :: bool
  as_refresh_cookie_samesite :: same_site

definition MIN_SECRET_LENGTH :: nat where
  "MIN_SECRET_LENGTH = 32"

definition validate_secret_length :: "pytext \<Rightarrow> settings_error + pytext" where
  "validate_secret_length secret =
     (if length secret < MIN_SECRET_LENGTH then Inl (InvalidSetting ''AUTH_JWT_SECRET'') else Inr secret)"

definition validate_cookie_security :: "auth_settings \<Rightarrow> settings_error + auth_settings" where
  "validate_cookie_security s =
     (if as_refresh_cookie_samesite s = SameSiteNone \<and> \<not> as_refresh_cookie_secure s
      then Inl (InvalidSetting ''auth'') else Inr s)"

text \<open>The secret has no default: nothing under its alias is an error.\<close>

definition auth_from_env :: "host \<Rightarrow> settings_error + auth_settings" where
  "auth_from_env h =
     bind_r (secret_settings h ''AUTH_JWT_SECRET'' ''AUTH_JWT_SECRET_FILE'' ''/run/secrets/AUTH_JWT_SECRET'') (\<lambda>file_secret.
     bind_r (case (if file_secret \<noteq> None then file_secret else h_setting h ''AUTH_JWT_SECRET'') of
               None \<Rightarrow> Inl (InvalidSetting ''AUTH_JWT_SECRET'')
             | Some raw \<Rightarrow> validate_secret_length raw) (\<lambda>secret.
     bind_r (str_field h ''AUTH_JWT_ALGORITHM'' (text_of ''HS256'')) (\<lambda>algorithm.
     bind_r (setting_field h ''AUTH_ACCESS_TOKEN_EXPIRE_MINUTES'' 30
               (\<lambda>raw. checked_value ''AUTH_ACCESS_TOKEN_EXPIRE_MINUTES'' (\<lambda>i. 0 < i) (h_int h raw))) (\<lambda>access.
     bind_r (setting_field h ''AUTH_REFRESH_TOKEN_EXPIRE_MINUTES'' 120
               (\<lambda>raw. checked_value ''AUTH_REFRESH_TOKEN_EXPIRE_MINUTES'' (\<lambda>i. 0 < i) (h_int h raw))) (\<lambda>refresh.
     bind_r (str_field h ''AUTH_JWT_ISSUER'' (text_of ''gcs-saker'')) (\<lambda>issuer.
     bind_r (str_field h ''AUTH_REFRESH_COOKIE_NAME'' (text_of ''gcs_saker_refresh'')) (\<lambda>cookie_name.
     bind_r (bool_field h ''AUTH_REFRESH_COOKIE_SECURE'' True) (\<lambda>secure.
     bind_r (setting_field h ''AUTH_REFRESH_COOKIE_SAMESITE'' SameSiteLax
               (\<lambda>raw. parsed_value ''AUTH_REFRESH_COOKIE_SAMESITE'' (same_site_of raw))) (\<lambda>same_site.
     validate_cookie_security
       \<lparr>as_secret = secret, as_algorithm = algorithm, as_access_token_expire_minutes = access,
        as_refresh_token_expire_minutes = refresh, as_issuer = issuer, as_refresh_cookie_name = cookie_name,
        as_refresh_cookie_secure = secure, as_refresh_cookie_samesite = same_site\<rparr>)))))))))"

section \<open>Tracing\<close>

record tracing_settings =
  tx_enabled :: bool
  tx_service_name :: pytext
  tx_exporter :: pytext
  tx_otlp_endpoint :: pytext
  tx_export_timeout_seconds :: pyfloat
  tx_max_queue_size :: int
  tx_max_export_batch_size :: int

definition TRACE_NONE :: pytext where "TRACE_NONE = text_of ''none''"
definition TRACE_CONSOLE :: pytext where "TRACE_CONSOLE = text_of ''console''"
definition TRACE_OTLP :: pytext where "TRACE_OTLP = text_of ''otlp''"

definition normalize_exporter :: "host \<Rightarrow> pytext \<Rightarrow> pytext" where
  "normalize_exporter h raw = lower_text (h_lower h) (or_default (empty_to_none (Some raw)) TRACE_NONE)"

definition internal_collector :: "host \<Rightarrow> pytext \<Rightarrow> bool" where
  "internal_collector h endpoint =
     (case urlparse (h_netloc_ok h) endpoint of
        None \<Rightarrow> False
      | Some u \<Rightarrow> url_scheme u = text_of ''http'' \<and>
          url_hostname u \<in> set (map text_of [''otel-collector'', ''127.0.0.1'', ''localhost'']))"

definition validate_exporter_boundary :: "host \<Rightarrow> tracing_settings \<Rightarrow> settings_error + tracing_settings" where
  "validate_exporter_boundary h s =
     (if tx_exporter s \<notin> {TRACE_NONE, TRACE_CONSOLE, TRACE_OTLP} then Inl (InvalidSetting ''tracing'')
      else if tx_max_export_batch_size s > tx_max_queue_size s then Inl (InvalidSetting ''tracing'')
      else if tx_exporter s = TRACE_OTLP \<and> \<not> internal_collector h (tx_otlp_endpoint s)
      then Inl (InvalidSetting ''tracing'')
      else Inr s)"

definition tracing_from_env :: "host \<Rightarrow> settings_error + tracing_settings" where
  "tracing_from_env h =
     bind_r (bool_field h ''OTEL_TRACES_ENABLED'' False) (\<lambda>enabled.
     bind_r (setting_field h ''OTEL_SERVICE_NAME'' (text_of ''gcs-saker-python-backend'')
               (\<lambda>raw. Inr (or_default (empty_to_none (Some raw)) (text_of ''gcs-saker-python-backend'')))) (\<lambda>name.
     bind_r (setting_field h ''OTEL_TRACES_EXPORTER'' TRACE_NONE (\<lambda>raw. Inr (normalize_exporter h raw))) (\<lambda>exporter.
     bind_r (str_field h ''OTEL_EXPORTER_OTLP_ENDPOINT'' (text_of ''http://otel-collector:4317'')) (\<lambda>endpoint.
     bind_r (setting_field h ''OTEL_EXPORT_TIMEOUT_SECONDS'' (Fin 1)
               (\<lambda>raw. checked_value ''OTEL_EXPORT_TIMEOUT_SECONDS'' (\<lambda>f. flt (Fin 0) f \<and> fle f (Fin 5)) (h_float h raw))) (\<lambda>timeout.
     bind_r (setting_field h ''OTEL_BSP_MAX_QUEUE_SIZE'' 512
               (\<lambda>raw. checked_value ''OTEL_BSP_MAX_QUEUE_SIZE'' (\<lambda>i. 64 \<le> i \<and> i \<le> 4096) (h_int h raw))) (\<lambda>queue_size.
     bind_r (setting_field h ''OTEL_BSP_MAX_EXPORT_BATCH_SIZE'' 128
               (\<lambda>raw. checked_value ''OTEL_BSP_MAX_EXPORT_BATCH_SIZE'' (\<lambda>i. 1 \<le> i \<and> i \<le> 512) (h_int h raw))) (\<lambda>batch_size.
     validate_exporter_boundary h
       \<lparr>tx_enabled = enabled, tx_service_name = name, tx_exporter = exporter, tx_otlp_endpoint = endpoint,
        tx_export_timeout_seconds = timeout, tx_max_queue_size = queue_size, tx_max_export_batch_size = batch_size\<rparr>)))))))"

datatype span_exporter = ConsoleExporter | OtlpExporter pytext pyfloat

definition exporter_from_settings :: "tracing_settings \<Rightarrow> span_exporter option" where
  "exporter_from_settings s =
     (if tx_exporter s = TRACE_CONSOLE then Some ConsoleExporter
      else if tx_exporter s = TRACE_OTLP then Some (OtlpExporter (tx_otlp_endpoint s) (tx_export_timeout_seconds s))
      else None)"

section \<open>The remaining settings classes\<close>

record media_control_grpc_settings =
  mg_target :: pytext
  mg_ca_file :: pytext
  mg_cert_file :: pytext
  mg_key_file :: pytext
  mg_server_name :: pytext
  mg_allow_plaintext :: bool
  mg_timeout_seconds :: pyfloat

definition validate_transport :: "media_control_grpc_settings \<Rightarrow> settings_error + media_control_grpc_settings" where
  "validate_transport s =
     (if mg_target s = [] then Inl (InvalidSetting ''target'')
      else if \<not> mg_allow_plaintext s \<and> [] \<in> {mg_ca_file s, mg_cert_file s, mg_key_file s, mg_server_name s}
      then Inl (InvalidSetting ''mtls'')
      else Inr s)"

definition media_control_grpc_from_env :: "host \<Rightarrow> settings_error + media_control_grpc_settings" where
  "media_control_grpc_from_env h =
     bind_r (str_field h ''MEDIA_CONTROL_GRPC_TARGET'' []) (\<lambda>target.
     bind_r (str_field h ''MEDIA_CONTROL_GRPC_CA_FILE'' []) (\<lambda>ca.
     bind_r (str_field h ''MEDIA_CONTROL_GRPC_CERT_FILE'' []) (\<lambda>cert.
     bind_r (str_field h ''MEDIA_CONTROL_GRPC_KEY_FILE'' []) (\<lambda>key.
     bind_r (str_field h ''MEDIA_CONTROL_GRPC_SERVER_NAME'' []) (\<lambda>server.
     bind_r (bool_field h ''MEDIA_CONTROL_GRPC_ALLOW_PLAINTEXT'' False) (\<lambda>plaintext.
     bind_r (setting_field h ''MEDIA_CONTROL_GRPC_TIMEOUT_SECONDS'' (Fin 2)
               (\<lambda>raw. checked_value ''MEDIA_CONTROL_GRPC_TIMEOUT_SECONDS'' (\<lambda>f. flt (Fin 0) f \<and> fle f (Fin 30)) (h_float h raw))) (\<lambda>timeout.
     validate_transport
       \<lparr>mg_target = target, mg_ca_file = ca, mg_cert_file = cert, mg_key_file = key, mg_server_name = server,
        mg_allow_plaintext = plaintext, mg_timeout_seconds = timeout\<rparr>)))))))"

record telemetry_buffer_settings =
  tb_auto_flush_max_items :: int
  tb_max_pending_history :: int

definition telemetry_buffer_from_env :: "host \<Rightarrow> settings_error + telemetry_buffer_settings" where
  "telemetry_buffer_from_env h =
     bind_r (setting_field h ''TELEMETRY_BUFFER_AUTO_FLUSH_MAX_ITEMS'' 1000
               (\<lambda>raw. checked_value ''TELEMETRY_BUFFER_AUTO_FLUSH_MAX_ITEMS'' (\<lambda>i. 0 < i) (h_int h raw))) (\<lambda>items.
     bind_r (setting_field h ''TELEMETRY_BUFFER_MAX_PENDING_HISTORY'' 10000
               (\<lambda>raw. checked_value ''TELEMETRY_BUFFER_MAX_PENDING_HISTORY'' (\<lambda>i. 0 < i) (h_int h raw))) (\<lambda>pending.
     Inr \<lparr>tb_auto_flush_max_items = items, tb_max_pending_history = pending\<rparr>))"

definition redis_key_prefix_from_env :: "host \<Rightarrow> settings_error + pytext" where
  "redis_key_prefix_from_env h =
     setting_field h ''TELEMETRY_REDIS_KEY_PREFIX'' (text_of ''gcs-saker:telemetry-buffer'')
       (\<lambda>raw. Inr (or_default (empty_to_none (Some raw)) (text_of ''gcs-saker:telemetry-buffer'')))"

record structured_logging_settings =
  sl_enabled :: bool
  sl_renderer :: pytext

definition structured_logging_from_env :: "host \<Rightarrow> settings_error + structured_logging_settings" where
  "structured_logging_from_env h =
     bind_r (bool_field h ''STRUCTURED_LOGS_ENABLED'' True) (\<lambda>enabled.
     bind_r (setting_field h ''STRUCTURED_LOG_RENDERER'' (text_of ''json'')
               (\<lambda>raw. Inr (lower_text (h_lower h) (or_default (empty_to_none (Some raw)) (text_of ''json''))))) (\<lambda>renderer.
     Inr \<lparr>sl_enabled = enabled, sl_renderer = renderer\<rparr>))"

section \<open>Lemmas\<close>

lemma setting_field_Inr:
  "setting_field h alias dflt conv = Inr x \<longleftrightarrow>
     (h_setting h alias = None \<and> x = dflt) \<or> (\<exists>raw. h_setting h alias = Some raw \<and> conv raw = Inr x)"
  by (auto simp: setting_field_def split: option.splits)

lemma checked_Inr [simp]: "checked_value alias P r = Inr x \<longleftrightarrow> r = Some x \<and> P x"
  by (auto simp: checked_value_def parsed_value_def bind_r_eq_Inr split: option.splits)

lemma bind_r_InrE:
  assumes "bind_r m f = Inr y"
  obtains x where "m = Inr x" "f x = Inr y"
  using assms by (auto simp: bind_r_eq_Inr)

lemma auth_from_env_parts:
  assumes "auth_from_env h = Inr a"
  shows "\<exists>file_secret. secret_settings h ''AUTH_JWT_SECRET'' ''AUTH_JWT_SECRET_FILE'' ''/run/secrets/AUTH_JWT_SECRET''
      = Inr file_secret \<and> (file_secret = None \<or> file_secret = Some (as_secret a)) \<and> 32 \<le> length (as_secret a)"
    "setting_field h ''AUTH_ACCESS_TOKEN_EXPIRE_MINUTES'' 30
       (\<lambda>raw. checked_value ''AUTH_ACCESS_TOKEN_EXPIRE_MINUTES'' (\<lambda>i. 0 < i) (h_int h raw)) = Inr (as_access_token_expire_minutes a)"
    "setting_field h ''AUTH_REFRESH_TOKEN_EXPIRE_MINUTES'' 120
       (\<lambda>raw. checked_value ''AUTH_REFRESH_TOKEN_EXPIRE_MINUTES'' (\<lambda>i. 0 < i) (h_int h raw)) = Inr (as_refresh_token_expire_minutes a)"
    "validate_cookie_security a = Inr a"
  using assms unfolding auth_from_env_def
  by (elim bind_r_InrE; simp add: validate_cookie_security_def validate_secret_length_def MIN_SECRET_LENGTH_def
      del: text_of_simps split: option.splits if_splits; fastforce)+

lemma validate_exporter_boundary_Inr: "validate_exporter_boundary h s = Inr t \<Longrightarrow> t = s"
  by (simp add: validate_exporter_boundary_def split: if_splits)

lemma tracing_from_env_parts:
  assumes "tracing_from_env h = Inr t"
  shows "setting_field h ''OTEL_EXPORT_TIMEOUT_SECONDS'' (Fin 1)
      (\<lambda>raw. checked_value ''OTEL_EXPORT_TIMEOUT_SECONDS'' (\<lambda>f. flt (Fin 0) f \<and> fle f (Fin 5)) (h_float h raw))
        = Inr (tx_export_timeout_seconds t)"
    "setting_field h ''OTEL_BSP_MAX_QUEUE_SIZE'' 512
      (\<lambda>raw. checked_value ''OTEL_BSP_MAX_QUEUE_SIZE'' (\<lambda>i. 64 \<le> i \<and> i \<le> 4096) (h_int h raw)) = Inr (tx_max_queue_size t)"
    "setting_field h ''OTEL_BSP_MAX_EXPORT_BATCH_SIZE'' 128
      (\<lambda>raw. checked_value ''OTEL_BSP_MAX_EXPORT_BATCH_SIZE'' (\<lambda>i. 1 \<le> i \<and> i \<le> 512) (h_int h raw))
        = Inr (tx_max_export_batch_size t)"
    "validate_exporter_boundary h t = Inr t"
  using assms unfolding tracing_from_env_def
  apply -
  subgoal by (elim bind_r_InrE, frule validate_exporter_boundary_Inr) simp
  subgoal by (elim bind_r_InrE, frule validate_exporter_boundary_Inr) simp
  subgoal by (elim bind_r_InrE, frule validate_exporter_boundary_Inr) simp
  subgoal by (elim bind_r_InrE, frule validate_exporter_boundary_Inr) simp
  done

lemma checked_field:
  "setting_field h alias dflt (\<lambda>raw. checked_value alias P (r raw)) = Inr x \<Longrightarrow> P dflt \<Longrightarrow> P x"
  by (auto simp: setting_field_Inr)

lemma csv_to_tuple_nonempty: "item \<in> set (csv_to_tuple v) \<Longrightarrow> item \<noteq> []"
  by (auto simp: csv_to_tuple_def split: option.splits if_splits)

lemma parse_allowed_origins_nonempty: "parse_allowed_origins raw \<noteq> []"
  by (simp add: parse_allowed_origins_def DEFAULT_ALLOWED_ORIGINS_def Let_def)

lemma web_security_allowed_origins_nonempty:
  "web_security_from_env h = Inr s \<Longrightarrow> ws_allowed_origins s \<noteq> [] \<and> [] \<notin> set (ws_allowed_origins s)"
  by (auto simp: web_security_from_env_def bind_r_eq_Inr setting_field_Inr parse_allowed_origins_nonempty,
      auto simp: DEFAULT_ALLOWED_ORIGINS_def parse_allowed_origins_def Let_def
        dest: csv_to_tuple_nonempty split: if_splits)

lemma read_secret_file_Inr:
  "read_secret_file h path = Inr s \<longleftrightarrow>
     (\<exists>f bs t. h_file h path = Some f \<and> fv_size f \<le> MAX_SECRET_FILE_BYTES \<and> fv_content f = Some bs \<and>
        utf8_decode bs = Inr t \<and> s = py_strip (universal_newlines t) \<and> s \<noteq> [])"
  by (auto simp: read_secret_file_def Let_def split: option.splits sum.splits)

text \<open>A lookup in a dictionary filled from a list finds the last entry of the key.\<close>

lemma fold_dict_set_get:
  "dict_get (fold (\<lambda>(k, v). dict_set k v) kvs d) k = (case map_of (rev kvs) k of None \<Rightarrow> dict_get d k | Some v \<Rightarrow> Some v)"
  by (induction kvs arbitrary: d) (auto simp: map_add_def split: option.split)

lemma map_of_rev_last:
  "map_of (rev kvs) k = (case map snd (filter (\<lambda>(k', _). k' = k) kvs) of [] \<Rightarrow> None | vs \<Rightarrow> Some (last vs))"
proof (induction kvs rule: rev_induct)
  case (snoc kv kvs)
  then show ?case by (cases kv) (auto split: list.splits)
qed simp

text \<open>The values a query string gives to a name, in order.\<close>

definition query_values :: "pytext \<Rightarrow> pytext \<Rightarrow> pytext list" where
  "query_values query k =
     map snd (filter (\<lambda>(k', _). k' = k) (map (split_first 61) (filter (\<lambda>item. 61 \<in> set item) (split_on 38 query))))"

lemma query_dict_get:
  "dict_get (query_dict query) k = (case query_values query k of [] \<Rightarrow> None | vs \<Rightarrow> Some (last vs))"
  unfolding query_dict_def query_values_def fold_dict_set_get map_of_rev_last
  by (simp split: list.splits)

lemma verified_tls_query_iff:
  "verified_tls_query query \<longleftrightarrow>
     query_values query (text_of ''sslmode'') \<noteq> [] \<and>
     last (query_values query (text_of ''sslmode'')) = text_of ''verify-full'' \<and>
     query_values query (text_of ''sslrootcert'') \<noteq> [] \<and> last (query_values query (text_of ''sslrootcert'')) \<noteq> []"
  unfolding verified_tls_query_def query_dict_get set_text_def
  by (simp split: list.splits)

lemma validate_dialect_Inr:
  "validate_dialect h s = Inr s' \<longleftrightarrow>
     s' = s \<and> (\<exists>u. urlparse (h_netloc_ok h) (ds_url s) = Some u \<and>
       (url_scheme u \<in> set LEGACY_MYSQL_DIALECTS \<longrightarrow> legacy_mysql_allowed h = Inr True) \<and>
       (url_scheme u \<in> set POSTGRES_DIALECTS \<and> ds_tls_required s \<longrightarrow> verified_tls_query (url_query u)))"
  by (auto simp: validate_dialect_def bind_r_eq_Inr split: option.splits)

section \<open>Properties\<close>

text \<open>
  A secret comes from exactly one place: \<open>read_secret_input\<close> yields a value just when the
  environment variable is blank and the configured absolute file, or with none configured the
  default one, is a readable UTF-8 file of at most 4096 bytes whose stripped text is not
  empty; then the value is that text.
\<close>

theorem secret_from_one_source:
  "read_secret_input h value_name file_name dflt = Inr (Some s) \<longleftrightarrow>
     getenv_stripped h value_name = [] \<and>
     (\<exists>path f bs t.
        (if getenv_stripped h file_name = [] then path = dflt
         else path = getenv_stripped h file_name \<and> take 1 path = [47]) \<and>
        h_file h path = Some f \<and> fv_size f \<le> 4096 \<and> fv_content f = Some bs \<and>
        utf8_decode bs = Inr t \<and> s = py_strip (universal_newlines t) \<and> s \<noteq> [])"
  unfolding read_secret_input_def Let_def bind_r_eq_Inr resolve_secret_file_def
  by (auto simp: read_secret_file_Inr MAX_SECRET_FILE_BYTES_def bind_r_eq_Inr split: if_splits option.splits)

text \<open>
  Settings that demand TLS are accepted for a PostgreSQL URL only if the last
  \<open>sslmode\<close> item of its query is \<open>verify-full\<close> and the last \<open>sslrootcert\<close> item
  names a file; a legacy MySQL URL is accepted only with the explicit permission.
\<close>

theorem database_url_policy:
  assumes "database_from_env h = Inr s" and "urlparse (h_netloc_ok h) (ds_url s) = Some u"
  shows "(url_scheme u \<in> set LEGACY_MYSQL_DIALECTS \<longrightarrow> legacy_mysql_allowed h = Inr True) \<and>
    (ds_tls_required s \<and> url_scheme u \<in> set POSTGRES_DIALECTS \<longrightarrow>
       query_values (url_query u) (text_of ''sslmode'') \<noteq> [] \<and>
       last (query_values (url_query u) (text_of ''sslmode'')) = text_of ''verify-full'' \<and>
       query_values (url_query u) (text_of ''sslrootcert'') \<noteq> [] \<and>
       last (query_values (url_query u) (text_of ''sslrootcert'')) \<noteq> [])"
proof -
  have "validate_dialect h s = Inr s"
    using assms(1) by (auto simp: database_from_env_def bind_r_eq_Inr validate_dialect_Inr)
  then show ?thesis using assms(2) by (simp add: validate_dialect_Inr verified_tls_query_iff)
qed

text \<open>A host whose \<open>.env\<close> file holds the given settings, for concrete inputs.\<close>

definition sample_host :: "(string \<times> pytext) list \<Rightarrow> host" where
  "sample_host env =
     \<lparr>h_getenv = (\<lambda>_. None), h_setting = map_of env, h_file = (\<lambda>_. None),
      h_bool = (\<lambda>s. if s = text_of ''true'' then Some True else if s = text_of ''false'' then Some False else None),
      h_int = (\<lambda>s. if s \<noteq> [] \<and> list_all ascii_digit s then Some (int (digits_value s 0)) else None),
      h_float = (\<lambda>_. None), h_lower = id, h_netloc_ok = (\<lambda>_. False)\<rparr>"

definition tls_url :: pytext where
  "tls_url = text_of ''postgresql://d/?sslmode=verify-full&sslrootcert=/c''"

definition tls_env :: "(string \<times> pytext) list" where
  "tls_env = [(''DATABASE_URL'', tls_url), (''DATABASE_TLS_REQUIRED'', text_of ''true'')]"

definition tls_settings :: database_settings where
  "tls_settings = \<lparr>ds_url = tls_url, ds_legacy_mysql_allowed = False, ds_tls_required = True\<rparr>"

lemmas url_evaluation =
  urlparse_def split_scheme_def scheme_char_def split_netloc_def netloc_accepted_def Let_def
  ascii_alnum_def ascii_alpha_def ascii_digit_def text_lower_def ascii_lower_def

lemmas host_evaluation =
  setting_field_def field_with_def bool_field_def str_field_def parsed_value_def checked_value_def

lemma sample_host_simps [simp]:
  "h_setting (sample_host env) = map_of env"
  "h_netloc_ok (sample_host env) = (\<lambda>_. False)"
  "h_bool (sample_host env) s = (if s = text_of ''true'' then Some True else if s = text_of ''false'' then Some False else None)"
  by (simp_all add: sample_host_def del: text_of_simps)

lemma sample_host_secret [simp]: "secret_settings (sample_host env) v f d = Inr None"
  by (simp add: sample_host_def secret_settings_def read_secret_input_def resolve_secret_file_def
      getenv_stripped_def py_strip_def strip_both_def strip_right_def)

lemma tls_url_parsed:
  "\<exists>u. urlparse netloc_ok tls_url = Some u \<and> url_scheme u = text_of ''postgresql'' \<and> verified_tls_query (url_query u)"
  by (simp add: tls_url_def url_evaluation verified_tls_query_def query_dict_def split_first_def set_text_def dict_get_def)

lemma tls_env_accepted: "database_from_env (sample_host tls_env) = Inr tls_settings"
proof -
  have "validate_dialect (sample_host tls_env) tls_settings = Inr tls_settings"
    using tls_url_parsed [of "h_netloc_ok (sample_host tls_env)"]
    by (auto simp: validate_dialect_Inr tls_settings_def LEGACY_MYSQL_DIALECTS_def)
  then show ?thesis
    by (simp add: database_from_env_def host_evaluation tls_env_def tls_settings_def del: text_of_simps)
qed

theorem database_url_policy_witness:
  "\<exists>u. urlparse (h_netloc_ok (sample_host tls_env)) tls_url = Some u \<and>
     last (query_values (url_query u) (text_of ''sslmode'')) = text_of ''verify-full''"
proof -
  obtain u where u: "urlparse (h_netloc_ok (sample_host tls_env)) (ds_url tls_settings) = Some u"
    and sch: "url_scheme u = text_of ''postgresql''"
    using tls_url_parsed by (auto simp: tls_settings_def simp del: text_of_simps)
  have p: "text_of ''postgresql'' \<in> set POSTGRES_DIALECTS" by (simp add: POSTGRES_DIALECTS_def)
  have s: "ds_tls_required tls_settings" "ds_url tls_settings = tls_url" by (simp_all add: tls_settings_def)
  show ?thesis
    using database_url_policy [OF tls_env_accepted u] u p s unfolding sch by (auto simp del: text_of_simps)
qed

text \<open>
  Authentication and tracing settings that are accepted are safe: the signing secret has at
  least 32 characters and came from one source, token lifetimes are positive, a refresh cookie
  with \<open>SameSite=None\<close> is \<open>Secure\<close>; and spans leave the process only for the console
  or, by plain HTTP, for the internal collector, in batches that fit the queue.
\<close>

theorem accepted_settings_safe:
  assumes "auth_from_env h = Inr a" and "tracing_from_env h = Inr t"
  shows "32 \<le> length (as_secret a) \<and>
    (read_secret_input h ''AUTH_JWT_SECRET'' ''AUTH_JWT_SECRET_FILE'' (text_of ''/run/secrets/AUTH_JWT_SECRET'')
       \<in> {Inr (Some (as_secret a)), Inr None}) \<and>
    0 < as_access_token_expire_minutes a \<and> 0 < as_refresh_token_expire_minutes a \<and>
    (as_refresh_cookie_samesite a = SameSiteNone \<longrightarrow> as_refresh_cookie_secure a) \<and>
    (case exporter_from_settings t of
       Some (OtlpExporter endpoint timeout) \<Rightarrow>
         internal_collector h endpoint \<and> flt (Fin 0) timeout \<and> fle timeout (Fin 5)
     | _ \<Rightarrow> True) \<and>
    1 \<le> tx_max_export_batch_size t \<and> tx_max_export_batch_size t \<le> tx_max_queue_size t \<and> tx_max_queue_size t \<le> 4096"
proof -
  have a: "32 \<le> length (as_secret a) \<and>
      secret_settings h ''AUTH_JWT_SECRET'' ''AUTH_JWT_SECRET_FILE'' ''/run/secrets/AUTH_JWT_SECRET''
        \<in> {Inr (Some (as_secret a)), Inr None} \<and>
      0 < as_access_token_expire_minutes a \<and> 0 < as_refresh_token_expire_minutes a \<and>
      (as_refresh_cookie_samesite a = SameSiteNone \<longrightarrow> as_refresh_cookie_secure a)"
    using auth_from_env_parts(1,4) [OF assms(1)] checked_field [OF auth_from_env_parts(2) [OF assms(1)]]
      checked_field [OF auth_from_env_parts(3) [OF assms(1)]]
    by (auto simp: validate_cookie_security_def simp del: text_of_simps split: if_splits)
  have t: "(tx_exporter t = TRACE_OTLP \<longrightarrow> internal_collector h (tx_otlp_endpoint t)) \<and>
      flt (Fin 0) (tx_export_timeout_seconds t) \<and> fle (tx_export_timeout_seconds t) (Fin 5) \<and>
      1 \<le> tx_max_export_batch_size t \<and> tx_max_export_batch_size t \<le> tx_max_queue_size t \<and> tx_max_queue_size t \<le> 4096"
    using tracing_from_env_parts(4) [OF assms(2)] checked_field [OF tracing_from_env_parts(1) [OF assms(2)]]
      checked_field [OF tracing_from_env_parts(2) [OF assms(2)]] checked_field [OF tracing_from_env_parts(3) [OF assms(2)]]
    by (auto simp: validate_exporter_boundary_def simp del: text_of_simps split: if_splits)
  show ?thesis using a t
    by (auto simp: secret_settings_def exporter_from_settings_def simp del: text_of_simps split: sum.splits)
qed

definition auth_env :: "(string \<times> pytext) list" where
  "auth_env = [(''AUTH_JWT_SECRET'', text_of ''0123456789abcdef0123456789abcdef''),
               (''AUTH_REFRESH_COOKIE_SAMESITE'', text_of ''none''),
               (''OTEL_TRACES_EXPORTER'', text_of '' OTLP '')]"

lemma auth_env_accepted: "is_ok (auth_from_env (sample_host auth_env))"
proof -
  have "length (text_of ''0123456789abcdef0123456789abcdef'') = 32"
    "text_of ''none'' \<noteq> text_of ''lax''" "text_of ''none'' \<noteq> text_of ''strict''" by simp_all
  then show ?thesis
    by (simp add: auth_from_env_def host_evaluation auth_env_def validate_secret_length_def MIN_SECRET_LENGTH_def
        same_site_of_def validate_cookie_security_def del: text_of_simps)
qed

lemma tracing_env_accepted: "is_ok (tracing_from_env (sample_host auth_env))"
proof -
  have o: "normalize_exporter (sample_host auth_env) (text_of '' OTLP '') = TRACE_OTLP"
    by (simp add: normalize_exporter_def or_default_def empty_to_none_def py_strip_def strip_both_def strip_right_def
        py_space_def lower_text_def text_lower_def ascii_lower_def TRACE_OTLP_def Let_def)
  have u: "urlparse (\<lambda>_. False) (text_of ''http://otel-collector:4317'') = Some \<lparr>url_scheme = text_of ''http'',
      url_netloc = text_of ''otel-collector:4317'', url_path = [], url_query = []\<rparr>"
    by (simp add: url_evaluation)
  have n: "url_hostname \<lparr>url_scheme = s, url_netloc = text_of ''otel-collector:4317'', url_path = p, url_query = q\<rparr>
      = text_of ''otel-collector''" for s p q
    by (simp add: url_hostname_def Let_def text_lower_def ascii_lower_def)
  have i: "internal_collector (sample_host auth_env) (text_of ''http://otel-collector:4317'')"
    by (simp add: internal_collector_def u n del: text_of_simps)
  show ?thesis
    by (simp add: tracing_from_env_def host_evaluation auth_env_def o [unfolded auth_env_def]
      i [unfolded auth_env_def] validate_exporter_boundary_def del: text_of_simps)
qed

theorem accepted_settings_safe_witness:
  "case (auth_from_env (sample_host auth_env), tracing_from_env (sample_host auth_env)) of
     (Inr a, Inr t) \<Rightarrow> 32 \<le> length (as_secret a) \<and> tx_max_export_batch_size t \<le> tx_max_queue_size t
   | _ \<Rightarrow> False"
proof -
  obtain a t where "auth_from_env (sample_host auth_env) = Inr a" "tracing_from_env (sample_host auth_env) = Inr t"
    using auth_env_accepted tracing_env_accepted unfolding is_ok_iff by blast
  then show ?thesis using accepted_settings_safe by simp
qed

end
