(* ===== verification/Auth.thy ===== *)
theory Auth
  imports Settings
begin

text \<open>
  Authentication: \<open>backend/core/security*.py\<close> and \<open>backend/api/auth*.py\<close>. Roles and
  tokens, the bearer guard, the request guards against forged browser requests, the cookies, and
  the endpoints for sign-up, login, refresh, logout and the current user. PyJWT, passlib, the
  e-mail validator and the user tables are arguments; what is used of them is stated as the
  locales \<open>jwt_library\<close>, \<open>password_library\<close> and \<open>user_store\<close>. The clock is read in whole
  seconds.
\<close>

section \<open>Errors and roles\<close>

text \<open>
  An \<open>HTTPException\<close> with its status, detail and whether it carries the bearer challenge, or
  an exception no handler catches (500).
\<close>

datatype api_error = ApiError int string bool | Unhandled

definition bad_request :: "string \<Rightarrow> api_error" where
  "bad_request detail = ApiError 400 detail False"

definition unauthorized_api :: "string \<Rightarrow> api_error" where
  "unauthorized_api detail = ApiError 401 detail False"

definition forbidden_api :: "string \<Rightarrow> api_error" where
  "forbidden_api detail = ApiError 403 detail False"

definition unauthorized :: "string \<Rightarrow> api_error" where
  "unauthorized detail = ApiError 401 detail True"

definition configuration_error :: api_error where
  "configuration_error = ApiError 503 ''configuration error'' False"

datatype user_role = Viewer | Operator | Admin

definition role_order :: "user_role \<Rightarrow> int" where
  "role_order r = (case r of Viewer \<Rightarrow> 1 | Operator \<Rightarrow> 2 | Admin \<Rightarrow> 3)"

definition role_text :: "user_role \<Rightarrow> pytext" where
  "role_text r = text_of (case r of Viewer \<Rightarrow> ''viewer'' | Operator \<Rightarrow> ''operator'' | Admin \<Rightarrow> ''admin'')"

definition normalize_role :: "pytext option \<Rightarrow> user_role" where
  "normalize_role role =
     (if role = Some (role_text Operator) then Operator
      else if role = Some (role_text Admin) then Admin
      else Viewer)"

text \<open>A role claim is any JSON value; looking up a list or an object in a dictionary raises.\<close>

definition normalize_role_claim :: "json \<Rightarrow> user_role option" where
  "normalize_role_claim role =
     (case role of
        JStr s \<Rightarrow> Some (normalize_role (Some s))
      | JList _ \<Rightarrow> None
      | JObj _ \<Rightarrow> None
      | _ \<Rightarrow> Some Viewer)"

section \<open>Tokens\<close>

type_synonym claims = "(pytext, json) dict"

datatype jwt_result = JwtExpired | JwtInvalid | JwtClaims claims

text \<open>
  \<open>jwt.encode(payload, secret, algorithm)\<close>, \<open>None\<close> when it raises, and
  \<open>jwt.decode(token, secret, [algorithm], issuer)\<close> at a time.
\<close>

record jwt_lib =
  jw_encode :: "claims \<Rightarrow> pytext \<Rightarrow> pytext \<Rightarrow> pytext option"
  jw_decode :: "int \<Rightarrow> pytext \<Rightarrow> pytext \<Rightarrow> pytext \<Rightarrow> pytext \<Rightarrow> jwt_result"

datatype token_use = AccessToken | RefreshToken

definition token_use_text :: "token_use \<Rightarrow> pytext" where
  "token_use_text u = text_of (case u of AccessToken \<Rightarrow> ''access'' | RefreshToken \<Rightarrow> ''refresh'')"

record authenticated_user =
  au_username :: pytext
  au_role :: user_role

text \<open>The last second of the year 9999; a later expiry overflows \<open>datetime\<close>.\<close>

definition MAX_DATETIME_SECONDS :: int where
  "MAX_DATETIME_SECONDS = 253402300799"

definition token_claims :: "pytext \<Rightarrow> pytext option \<Rightarrow> token_use \<Rightarrow> int \<Rightarrow> int \<Rightarrow> pytext \<Rightarrow> claims" where
  "token_claims subject role token_use now expire issuer =
     [(text_of ''sub'', JStr subject),
      (text_of ''role'', JStr (role_text (normalize_role role))),
      (text_of ''token_use'', JStr (token_use_text token_use)),
      (text_of ''iat'', JInt now),
      (text_of ''exp'', JInt expire),
      (text_of ''iss'', JStr issuer)]"

definition create_token ::
    "jwt_lib \<Rightarrow> int \<Rightarrow> pytext \<Rightarrow> pytext option \<Rightarrow> token_use \<Rightarrow> int \<Rightarrow> auth_settings \<Rightarrow> api_error + pytext" where
  "create_token jwt now subject role token_use expires_delta s =
     (let expire = now + expires_delta
      in if expire > MAX_DATETIME_SECONDS then Inl Unhandled
         else case jw_encode jwt (token_claims subject role token_use now expire (as_issuer s))
                     (as_secret s) (as_algorithm s) of
                None \<Rightarrow> Inl Unhandled
              | Some token \<Rightarrow> Inr token)"

text \<open>\<open>expires_delta or timedelta(minutes=...)\<close>: a zero duration counts as none.\<close>

definition delta_or_minutes :: "int option \<Rightarrow> int \<Rightarrow> int" where
  "delta_or_minutes expires_delta minutes =
     (case expires_delta of None \<Rightarrow> 60 * minutes | Some d \<Rightarrow> if d = 0 then 60 * minutes else d)"

definition create_access_token ::
    "jwt_lib \<Rightarrow> int \<Rightarrow> pytext \<Rightarrow> pytext option \<Rightarrow> auth_settings \<Rightarrow> int option \<Rightarrow> api_error + pytext" where
  "create_access_token jwt now subject role s expires_delta =
     create_token jwt now subject role AccessToken
       (delta_or_minutes expires_delta (as_access_token_expire_minutes s)) s"

definition create_refresh_token ::
    "jwt_lib \<Rightarrow> int \<Rightarrow> pytext \<Rightarrow> pytext option \<Rightarrow> auth_settings \<Rightarrow> int option \<Rightarrow> api_error + pytext" where
  "create_refresh_token jwt now subject role s expires_delta =
     create_token jwt now subject role RefreshToken
       (delta_or_minutes expires_delta (as_refresh_token_expire_minutes s)) s"

definition decode_token ::
    "jwt_lib \<Rightarrow> int \<Rightarrow> pytext \<Rightarrow> token_use \<Rightarrow> auth_settings \<Rightarrow> api_error + authenticated_user" where
  "decode_token jwt now token expected_token_use s =
     (case jw_decode jwt now token (as_secret s) (as_algorithm s) (as_issuer s) of
        JwtExpired \<Rightarrow> Inl (unauthorized ''token expired'')
      | JwtInvalid \<Rightarrow> Inl (unauthorized ''invalid token'')
      | JwtClaims payload \<Rightarrow>
          (case json_get payload ''sub'' of
             JStr subject \<Rightarrow>
               if json_get payload ''token_use'' \<noteq> JStr (token_use_text expected_token_use)
               then Inl (unauthorized ''invalid token'')
               else (case normalize_role_claim (json_get payload ''role'') of
                       None \<Rightarrow> Inl Unhandled
                     | Some role \<Rightarrow> Inr \<lparr>au_username = subject, au_role = role\<rparr>)
           | _ \<Rightarrow> Inl (unauthorized ''invalid token'')))"

definition decode_access_token :: "jwt_lib \<Rightarrow> int \<Rightarrow> pytext \<Rightarrow> auth_settings \<Rightarrow> api_error + authenticated_user" where
  "decode_access_token jwt now token s = decode_token jwt now token AccessToken s"

definition decode_refresh_token :: "jwt_lib \<Rightarrow> int \<Rightarrow> pytext \<Rightarrow> auth_settings \<Rightarrow> api_error + authenticated_user" where
  "decode_refresh_token jwt now token s = decode_token jwt now token RefreshToken s"

section \<open>Requests and their guards\<close>

text \<open>
  A request: its headers by lower-case name, its cookies, and the scheme and credentials that
  \<open>HTTPBearer\<close> took from its authorization header.
\<close>

record http_request =
  rq_header :: "string \<Rightarrow> pytext option"
  rq_cookie :: "pytext \<Rightarrow> pytext option"
  rq_credentials :: "(pytext \<times> pytext) option"

definition get_current_user :: "host \<Rightarrow> jwt_lib \<Rightarrow> int \<Rightarrow> http_request \<Rightarrow> api_error + authenticated_user" where
  "get_current_user h jwt now r =
     (case rq_credentials r of
        None \<Rightarrow> Inl (unauthorized ''authentication required'')
      | Some (scheme, token) \<Rightarrow>
          if lower_text (h_lower h) scheme \<noteq> text_of ''bearer'' then Inl (unauthorized ''bearer token required'')
          else (case auth_from_env h of
                  Inl _ \<Rightarrow> Inl configuration_error
                | Inr s \<Rightarrow> decode_access_token jwt now token s))"

definition role_required :: "user_role \<Rightarrow> string" where
  "role_required minimum =
     (case minimum of Viewer \<Rightarrow> ''viewer'' | Operator \<Rightarrow> ''operator'' | Admin \<Rightarrow> ''admin'') @ '' role required''"

definition require_role ::
    "host \<Rightarrow> jwt_lib \<Rightarrow> int \<Rightarrow> user_role \<Rightarrow> http_request \<Rightarrow> api_error + authenticated_user" where
  "require_role h jwt now minimum r =
     bind_r (get_current_user h jwt now r) (\<lambda>user.
       if role_order (au_role user) < role_order minimum then Inl (forbidden_api (role_required minimum))
       else Inr user)"

definition origin_from_referer :: "host \<Rightarrow> pytext option \<Rightarrow> api_error + pytext option" where
  "origin_from_referer h referer =
     (if \<not> set_text referer then Inr None
      else case urlparse (h_netloc_ok h) (the referer) of
             None \<Rightarrow> Inl Unhandled
           | Some parsed \<Rightarrow>
               if url_scheme parsed = [] \<or> url_netloc parsed = [] then Inr None
               else Inr (Some (url_scheme parsed @ text_of ''://'' @ url_netloc parsed)))"

definition request_origin :: "host \<Rightarrow> http_request \<Rightarrow> api_error + pytext option" where
  "request_origin h r =
     (if set_text (rq_header r ''origin'') then Inr (rq_header r ''origin'')
      else origin_from_referer h (rq_header r ''referer''))"

definition assert_trusted_request_origin :: "host \<Rightarrow> http_request \<Rightarrow> api_error + unit" where
  "assert_trusted_request_origin h r =
     bind_r (request_origin h r) (\<lambda>origin.
       if \<not> set_text origin then Inr ()
       else case web_security_from_env h of
              Inl _ \<Rightarrow> Inl Unhandled
            | Inr ws \<Rightarrow>
                if the origin \<in> set (ws_allowed_origins ws) then Inr ()
                else Inl (forbidden_api ''untrusted request origin''))"

definition browser_request :: "http_request \<Rightarrow> bool" where
  "browser_request r \<longleftrightarrow> set_text (rq_header r ''origin'') \<or> set_text (rq_header r ''referer'')"

definition assert_browser_csrf_header :: "http_request \<Rightarrow> api_error + unit" where
  "assert_browser_csrf_header r =
     (if \<not> browser_request r then Inr ()
      else if rq_header r ''x-gcs-csrf'' \<noteq> Some (text_of ''same-origin'')
      then Inl (forbidden_api ''csrf header required'')
      else Inr ())"

definition request_guards :: "host \<Rightarrow> http_request \<Rightarrow> api_error + unit" where
  "request_guards h r = bind_r (assert_trusted_request_origin h r) (\<lambda>_. assert_browser_csrf_header r)"

section \<open>Cookies\<close>

datatype cookie_op =
    SetCookie (ck_name: pytext) (ck_value: pytext) (ck_max_age: int) (ck_httponly: bool) (ck_secure: bool)
      (ck_samesite: same_site) (ck_path: string)
  | DeleteCookie (ck_name: pytext) (ck_httponly: bool) (ck_secure: bool) (ck_samesite: same_site) (ck_path: string)

definition set_refresh_cookie :: "pytext \<Rightarrow> auth_settings \<Rightarrow> cookie_op" where
  "set_refresh_cookie token s =
     SetCookie (as_refresh_cookie_name s) token (as_refresh_token_expire_minutes s * 60) True
       (as_refresh_cookie_secure s) (as_refresh_cookie_samesite s) ''/''"

definition clear_refresh_cookie :: "auth_settings \<Rightarrow> cookie_op" where
  "clear_refresh_cookie s =
     DeleteCookie (as_refresh_cookie_name s) True (as_refresh_cookie_secure s) (as_refresh_cookie_samesite s) ''/''"

text \<open>What an endpoint answers: its result and the cookies of the response.\<close>

record 'a auth_response =
  rs_result :: "api_error + 'a"
  rs_cookies :: "cookie_op list"

definition fail_with :: "api_error \<Rightarrow> 'a auth_response" where
  "fail_with e = \<lparr>rs_result = Inl e, rs_cookies = []\<rparr>"

section \<open>Users\<close>

record user_row =
  ur_id :: int
  ur_username :: pytext
  ur_email :: pytext
  ur_password_hash :: pytext
  ur_company_id :: int
  ur_role :: "pytext option"

text \<open>
  The queries of the endpoints on the user and company tables: the user of a name, whether an
  e-mail address is taken, the company of an invitation code; and adding a row with its commit,
  which gives the row its identifier or fails.
\<close>

record 'db user_ops =
  uo_user :: "'db \<Rightarrow> pytext \<Rightarrow> user_row option"
  uo_email_exists :: "'db \<Rightarrow> pytext \<Rightarrow> bool"
  uo_company :: "'db \<Rightarrow> pytext \<Rightarrow> int option"
  uo_add :: "(int \<Rightarrow> user_row) \<Rightarrow> 'db \<Rightarrow> (user_row \<times> 'db) option"

record password_lib =
  pl_hash :: "nat \<Rightarrow> pytext \<Rightarrow> pytext"
  pl_verify :: "pytext \<Rightarrow> pytext \<Rightarrow> bool"

record user_create =
  uc_username :: pytext
  uc_email :: pytext
  uc_password :: pytext
  uc_invite_code :: pytext

definition validate_user_create :: "(pytext \<Rightarrow> pytext option) \<Rightarrow> user_create \<Rightarrow> user_create option" where
  "validate_user_create email_lib u =
     (if 3 \<le> length (uc_username u) \<and> length (uc_username u) \<le> 50 \<and>
         8 \<le> length (uc_password u) \<and> length (uc_password u) \<le> 128
      then map_option (\<lambda>e. u\<lparr>uc_email := e\<rparr>) (email_lib (uc_email u))
      else None)"

record user_login =
  ul_username :: pytext
  ul_password :: pytext

definition validate_user_login :: "user_login \<Rightarrow> user_login option" where
  "validate_user_login u =
     (if 3 \<le> length (ul_username u) \<and> length (ul_username u) \<le> 50 \<and>
         1 \<le> length (ul_password u) \<and> length (ul_password u) \<le> 128
      then Some u else None)"

record user_response =
  us_id :: int
  us_username :: pytext
  us_email :: pytext
  us_company_id :: int
  us_role :: "pytext option"

definition user_response :: "user_row \<Rightarrow> user_response" where
  "user_response u =
     \<lparr>us_id = ur_id u, us_username = ur_username u, us_email = ur_email u,
      us_company_id = ur_company_id u, us_role = ur_role u\<rparr>"

record token_response =
  tk_access_token :: pytext
  tk_expires_in_minutes :: int
  tk_username :: pytext
  tk_role :: user_role

definition token_response :: "pytext \<Rightarrow> pytext option \<Rightarrow> pytext \<Rightarrow> auth_settings \<Rightarrow> token_response" where
  "token_response username role access_token s =
     \<lparr>tk_access_token = access_token, tk_expires_in_minutes = as_access_token_expire_minutes s,
      tk_username = username, tk_role = normalize_role role\<rparr>"

definition create_login_token_response ::
    "jwt_lib \<Rightarrow> int \<Rightarrow> pytext \<Rightarrow> pytext option \<Rightarrow> auth_settings \<Rightarrow> api_error + (token_response \<times> pytext)" where
  "create_login_token_response jwt now username role s =
     bind_r (create_access_token jwt now username role s None) (\<lambda>access_token.
     bind_r (create_refresh_token jwt now username role s None) (\<lambda>refresh_token.
     Inr (token_response username role access_token s, refresh_token)))"

definition create_refreshed_token_response ::
    "jwt_lib \<Rightarrow> int \<Rightarrow> pytext \<Rightarrow> pytext option \<Rightarrow> auth_settings \<Rightarrow> api_error + (token_response \<times> pytext)" where
  "create_refreshed_token_response jwt now username role s =
     bind_r (create_access_token jwt now username role s None) (\<lambda>access_token.
     bind_r (create_refresh_token jwt now username role s None) (\<lambda>refresh_token.
     Inr (token_response username role access_token s, refresh_token)))"

definition load_auth_settings :: "host \<Rightarrow> api_error + auth_settings" where
  "load_auth_settings h = (case auth_from_env h of Inl _ \<Rightarrow> Inl configuration_error | Inr s \<Rightarrow> Inr s)"

section \<open>Endpoints\<close>

definition signup ::
    "host \<Rightarrow> password_lib \<Rightarrow> 'db user_ops \<Rightarrow> nat \<Rightarrow> user_create \<Rightarrow> http_request \<Rightarrow> 'db \<Rightarrow> 'db \<times> (api_error + user_response)" where
  "signup h pw ops salt user r db =
     (case request_guards h r of
        Inl e \<Rightarrow> (db, Inl e)
      | Inr _ \<Rightarrow>
          if uo_user ops db (uc_username user) \<noteq> None then (db, Inl (bad_request ''Username already registered''))
          else if uo_email_exists ops db (uc_email user) then (db, Inl (bad_request ''Email already registered''))
          else (case uo_company ops db (uc_invite_code user) of
                  None \<Rightarrow> (db, Inl (bad_request ''Invalid invite code Input''))
                | Some company_id \<Rightarrow>
                    (case uo_add ops (\<lambda>i. \<lparr>ur_id = i, ur_username = uc_username user, ur_email = uc_email user,
                              ur_password_hash = pl_hash pw salt (uc_password user), ur_company_id = company_id,
                              ur_role = Some (text_of ''viewer'')\<rparr>) db of
                       None \<Rightarrow> (db, Inl Unhandled)
                     | Some (row, db') \<Rightarrow> (db', Inr (user_response row)))))"

definition login ::
    "host \<Rightarrow> jwt_lib \<Rightarrow> password_lib \<Rightarrow> 'db user_ops \<Rightarrow> int \<Rightarrow> user_login \<Rightarrow> http_request \<Rightarrow> 'db \<Rightarrow> token_response auth_response" where
  "login h jwt pw ops now user r db =
     (case request_guards h r of
        Inl e \<Rightarrow> fail_with e
      | Inr _ \<Rightarrow>
          (case uo_user ops db (ul_username user) of
             None \<Rightarrow> fail_with (unauthorized_api ''Invalid credentials'')
           | Some row \<Rightarrow>
               if \<not> pl_verify pw (ul_password user) (ur_password_hash row)
               then fail_with (unauthorized_api ''Invalid credentials'')
               else (case load_auth_settings h of
                       Inl e \<Rightarrow> fail_with e
                     | Inr s \<Rightarrow>
                         (case create_login_token_response jwt now (ur_username row) (ur_role row) s of
                            Inl e \<Rightarrow> fail_with e
                          | Inr (body, refresh_token) \<Rightarrow>
                              \<lparr>rs_result = Inr body, rs_cookies = [set_refresh_cookie refresh_token s]\<rparr>))))"

definition refresh_session ::
    "host \<Rightarrow> jwt_lib \<Rightarrow> 'db user_ops \<Rightarrow> int \<Rightarrow> http_request \<Rightarrow> 'db \<Rightarrow> token_response auth_response" where
  "refresh_session h jwt ops now r db =
     (case request_guards h r of
        Inl e \<Rightarrow> fail_with e
      | Inr _ \<Rightarrow>
          (case load_auth_settings h of
             Inl e \<Rightarrow> fail_with e
           | Inr s \<Rightarrow>
               if \<not> set_text (rq_cookie r (as_refresh_cookie_name s))
               then fail_with (unauthorized_api ''refresh token required'')
               else (case decode_refresh_token jwt now (the (rq_cookie r (as_refresh_cookie_name s))) s of
                       Inl e \<Rightarrow> fail_with e
                     | Inr user \<Rightarrow>
                         (case uo_user ops db (au_username user) of
                            None \<Rightarrow> \<lparr>rs_result = Inl (unauthorized_api ''invalid refresh session''),
                                     rs_cookies = [clear_refresh_cookie s]\<rparr>
                          | Some row \<Rightarrow>
                              (case create_refreshed_token_response jwt now (au_username user) (ur_role row) s of
                                 Inl e \<Rightarrow> fail_with e
                               | Inr (body, rotated) \<Rightarrow>
                                   \<lparr>rs_result = Inr body, rs_cookies = [set_refresh_cookie rotated s]\<rparr>)))))"

definition logout :: "host \<Rightarrow> http_request \<Rightarrow> unit auth_response" where
  "logout h r =
     (case request_guards h r of
        Inl e \<Rightarrow> fail_with e
      | Inr _ \<Rightarrow>
          (case load_auth_settings h of
             Inl e \<Rightarrow> fail_with e
           | Inr s \<Rightarrow> \<lparr>rs_result = Inr (), rs_cookies = [clear_refresh_cookie s]\<rparr>))"

definition read_current_user :: "host \<Rightarrow> jwt_lib \<Rightarrow> int \<Rightarrow> http_request \<Rightarrow> api_error + authenticated_user" where
  "read_current_user h jwt now r = get_current_user h jwt now r"

section \<open>What the libraries promise\<close>

text \<open>
  PyJWT: a token decodes under the secret and algorithm that signed it and the issuer it names,
  to its own claims, from its issue until just before its expiry.
\<close>

locale jwt_library =
  fixes jwt :: jwt_lib
  assumes decode_encoded:
    "jw_encode jwt payload secret algorithm = Some token \<Longrightarrow>
     json_get payload ''iss'' = JStr issuer \<Longrightarrow> json_get payload ''iat'' = JInt iat \<Longrightarrow>
     json_get payload ''exp'' = JInt expire \<Longrightarrow> iat \<le> t \<Longrightarrow>
     jw_decode jwt t token secret algorithm issuer = (if t < expire then JwtClaims payload else JwtExpired)"
begin

lemma decode_created:
  assumes "create_token jwt now subject role use delta s = Inr token" and "now \<le> t"
  shows "decode_token jwt t token use' s =
    (if now + delta \<le> t then Inl (unauthorized ''token expired'')
     else if use' = use then Inr \<lparr>au_username = subject, au_role = normalize_role role\<rparr>
     else Inl (unauthorized ''invalid token''))"
proof -
  let ?c = "token_claims subject role use now (now + delta) (as_issuer s)"
  have e: "jw_encode jwt ?c (as_secret s) (as_algorithm s) = Some token"
    using assms(1) by (simp add: create_token_def Let_def split: if_splits option.splits)
  have get: "json_get ?c ''iss'' = JStr (as_issuer s)" "json_get ?c ''iat'' = JInt now"
    "json_get ?c ''exp'' = JInt (now + delta)" "json_get ?c ''sub'' = JStr subject"
    "json_get ?c ''token_use'' = JStr (token_use_text use)"
    "json_get ?c ''role'' = JStr (role_text (normalize_role role))"
    by (simp_all add: json_get_def token_claims_def dict_get_def)
  have use: "token_use_text use = token_use_text use' \<longleftrightarrow> use' = use"
    by (cases use; cases use') (simp_all add: token_use_text_def)
  have role: "normalize_role (Some (role_text (normalize_role role))) = normalize_role role"
    by (cases "normalize_role role") (simp_all add: normalize_role_def role_text_def)
  show ?thesis
    using decode_encoded [OF e get(1-3) assms(2)] get(4-6) use role
    by (auto simp: decode_token_def normalize_role_claim_def)
qed

end

locale password_library =
  fixes pw :: password_lib
  assumes verify_hash: "pl_verify pw password (pl_hash pw salt password)"

text \<open>
  The user tables: names are unique and find their rows, an added row takes part in the queries
  and changes nothing else.
\<close>

locale user_store =
  fixes ops :: "'db user_ops"
  assumes user_name: "uo_user ops db name = Some row \<Longrightarrow> ur_username row = name"
    and add_row: "uo_add ops mk db = Some (row, db') \<Longrightarrow> \<exists>i. row = mk i"
    and user_add: "uo_add ops mk db = Some (row, db') \<Longrightarrow>
      uo_user ops db' name = (if name = ur_username row then Some row else uo_user ops db name)"
    and email_add: "uo_add ops mk db = Some (row, db') \<Longrightarrow>
      uo_email_exists ops db' email \<longleftrightarrow> email = ur_email row \<or> uo_email_exists ops db email"
    and company_add: "uo_add ops mk db = Some (row, db') \<Longrightarrow> uo_company ops db' = uo_company ops db"

text \<open>The user tables after any number of sign-up requests, accepted or not.\<close>

inductive signups :: "password_lib \<Rightarrow> 'db user_ops \<Rightarrow> 'db \<Rightarrow> 'db \<Rightarrow> bool" for pw ops db where
  none: "signups pw ops db db"
| more: "signups pw ops db db1 \<Longrightarrow> signup h pw ops salt user r db1 = (db2, res) \<Longrightarrow> signups pw ops db db2"

context user_store begin

lemma signup_cases:
  assumes "signup h pw ops salt user r db = (db', res)"
  obtains e where "db' = db" "res = Inl e"
  | row i company where "res = Inr (user_response row)"
      "uo_add ops (\<lambda>i. \<lparr>ur_id = i, ur_username = uc_username user, ur_email = uc_email user,
         ur_password_hash = pl_hash pw salt (uc_password user), ur_company_id = company,
         ur_role = Some (text_of ''viewer'')\<rparr>) db = Some (row, db')"
      "row = \<lparr>ur_id = i, ur_username = uc_username user, ur_email = uc_email user,
         ur_password_hash = pl_hash pw salt (uc_password user), ur_company_id = company,
         ur_role = Some (text_of ''viewer'')\<rparr>"
      "uo_user ops db (uc_username user) = None" "\<not> uo_email_exists ops db (uc_email user)"
      "uo_company ops db (uc_invite_code user) = Some company" "request_guards h r = Inr ()"
  using assms add_row
  by (force simp: signup_def simp del: text_of_simps split: sum.splits if_splits option.splits prod.splits)

lemma signup_user:
  assumes "signup h pw ops salt user r db = (db', Inr res)"
  shows "\<exists>row. uo_user ops db' (uc_username user) = Some row \<and> ur_role row = Some (text_of ''viewer'') \<and>
    ur_password_hash row = pl_hash pw salt (uc_password user) \<and> ur_username row = uc_username user"
  using assms by (rule signup_cases) (auto simp: user_add simp del: text_of_simps)

lemma signup_keeps_user:
  assumes "signup h pw ops salt user r db = (db', res)" "uo_user ops db name = Some row"
  shows "uo_user ops db' name = Some row"
  using assms(1)
proof (rule signup_cases)
  fix row' i company
  assume add: "uo_add ops (\<lambda>i. \<lparr>ur_id = i, ur_username = uc_username user, ur_email = uc_email user,
         ur_password_hash = pl_hash pw salt (uc_password user), ur_company_id = company,
         ur_role = Some (text_of ''viewer'')\<rparr>) db = Some (row', db')"
    and "row' = \<lparr>ur_id = i, ur_username = uc_username user, ur_email = uc_email user,
         ur_password_hash = pl_hash pw salt (uc_password user), ur_company_id = company,
         ur_role = Some (text_of ''viewer'')\<rparr>" "uo_user ops db (uc_username user) = None"
  then show ?thesis using user_add [OF add, of name] assms(2) by auto
qed (use assms(2) in simp)

lemma signups_keep_user:
  assumes "signups pw ops db db'" "uo_user ops db name = Some row"
  shows "uo_user ops db' name = Some row"
  using assms(1)
proof induction
  case (more db1 h salt user r db2 res)
  show ?case by (rule signup_keeps_user [OF more.hyps(2) more.IH])
qed (rule assms(2))

lemma signups_new_user:
  assumes "signups pw ops db db'" "uo_user ops db' name = Some row"
  shows "uo_user ops db name = Some row \<or>
    uo_user ops db name = None \<and> ur_role row = Some (text_of ''viewer'') \<and>
    (\<exists>code. uo_company ops db code = Some (ur_company_id row))"
  using assms
proof (induction arbitrary: row)
  case (more db1 h salt user r db2 res)
  have comp: "uo_company ops db1 = uo_company ops db"
    using more.hyps(1)
  proof induction
    case (more db1 h salt user r db2 res)
    from more.hyps(2) show ?case
      by (rule signup_cases) (use more.IH in \<open>simp_all add: company_add\<close>)
  qed simp
  from more.hyps(2) show ?case
  proof (rule signup_cases)
    fix row' i company
    assume add: "uo_add ops (\<lambda>i. \<lparr>ur_id = i, ur_username = uc_username user, ur_email = uc_email user,
         ur_password_hash = pl_hash pw salt (uc_password user), ur_company_id = company,
         ur_role = Some (text_of ''viewer'')\<rparr>) db1 = Some (row', db2)"
      and row': "row' = \<lparr>ur_id = i, ur_username = uc_username user, ur_email = uc_email user,
         ur_password_hash = pl_hash pw salt (uc_password user), ur_company_id = company,
         ur_role = Some (text_of ''viewer'')\<rparr>"
      and none: "uo_user ops db1 (uc_username user) = None"
      and code: "uo_company ops db1 (uc_invite_code user) = Some company"
    show ?case
    proof (cases "name = uc_username user")
      case True
      have "uo_user ops db name = None"
        using signups_keep_user [OF more.hyps(1), of name] none True by (cases "uo_user ops db name") auto
      moreover have "row = row'" using user_add [OF add, of name] more.prems True row' by simp
      ultimately show ?thesis using row' code comp by auto
    next
      case False
      then have "uo_user ops db1 name = Some row" using user_add [OF add, of name] more.prems row' by simp
      then show ?thesis by (rule more.IH)
    qed
  qed (use more in auto)
qed simp

end

section \<open>The libraries' contracts can be met\<close>

text \<open>Tables with the constraints of \<open>User\<close> and \<open>Company\<close>: a row is refused that breaks one.\<close>

record user_tables =
  ut_users :: "user_row list"
  ut_companies :: "(pytext \<times> int) list"

definition tables_user :: "user_tables \<Rightarrow> pytext \<Rightarrow> user_row option" where
  "tables_user db name = find (\<lambda>u. ur_username u = name) (ut_users db)"

definition tables_email_exists :: "user_tables \<Rightarrow> pytext \<Rightarrow> bool" where
  "tables_email_exists db email = list_ex (\<lambda>u. ur_email u = email) (ut_users db)"

definition tables_company :: "user_tables \<Rightarrow> pytext \<Rightarrow> int option" where
  "tables_company db code = map_of (ut_companies db) code"

definition tables_add :: "(int \<Rightarrow> user_row) \<Rightarrow> user_tables \<Rightarrow> (user_row \<times> user_tables) option" where
  "tables_add mk db =
     (let row = mk (int (length (ut_users db)) + 1)
      in if tables_user db (ur_username row) \<noteq> None \<or> tables_email_exists db (ur_email row) \<or>
            ur_company_id row \<notin> snd ` set (ut_companies db) \<or>
            50 < length (ur_username row) \<or> 100 < length (ur_email row) \<or> 255 < length (ur_password_hash row)
         then None
         else Some (row, db\<lparr>ut_users := ut_users db @ [row]\<rparr>))"

definition table_user_ops :: "user_tables user_ops" where
  "table_user_ops =
     \<lparr>uo_user = tables_user, uo_email_exists = tables_email_exists, uo_company = tables_company, uo_add = tables_add\<rparr>"

lemma tables_find: "find P xs = Some x \<Longrightarrow> P x"
  by (induction xs) (auto split: if_splits)

lemma find_snoc: "find P (xs @ [x]) = (case find P xs of None \<Rightarrow> if P x then Some x else None | Some y \<Rightarrow> Some y)"
  by (induction xs) auto

interpretation tables: user_store table_user_ops
proof
  fix mk row and db db' :: user_tables and name email
  show "uo_user table_user_ops db name = Some row \<Longrightarrow> ur_username row = name"
    by (auto simp: table_user_ops_def tables_user_def dest: tables_find)
  assume add: "uo_add table_user_ops mk db = Some (row, db')"
  then show "\<exists>i. row = mk i" by (auto simp: table_user_ops_def tables_add_def Let_def split: if_splits)
  from add show "uo_user table_user_ops db' name = (if name = ur_username row then Some row else uo_user table_user_ops db name)"
    by (auto simp: table_user_ops_def tables_add_def tables_user_def find_snoc Let_def split: if_splits option.splits)
  from add show "uo_email_exists table_user_ops db' email \<longleftrightarrow> email = ur_email row \<or> uo_email_exists table_user_ops db email"
    by (auto simp: table_user_ops_def tables_add_def tables_email_exists_def Let_def split: if_splits)
  from add show "uo_company table_user_ops db' = uo_company table_user_ops db"
    by (auto simp: table_user_ops_def tables_add_def tables_company_def fun_eq_iff Let_def split: if_splits)
qed

text \<open>Passwords kept beside their salt.\<close>

definition salted_passwords :: password_lib where
  "salted_passwords = \<lparr>pl_hash = (\<lambda>salt p. salt # p), pl_verify = (\<lambda>p hash. drop 1 hash = p)\<rparr>"

interpretation salted: password_library salted_passwords
  by unfold_locales (simp add: salted_passwords_def)

text \<open>
  Tokens that spell out secret, algorithm and claims, each text after its length; claims other
  than texts and integers cannot be encoded.
\<close>

definition spell :: "pytext \<Rightarrow> pytext" where
  "spell s = length s # s"

fun spell_claims :: "claims \<Rightarrow> pytext option" where
  "spell_claims [] = Some []"
| "spell_claims ((k, v) # c) =
     (case (v, spell_claims c) of
        (JStr s, Some t) \<Rightarrow> Some (0 # spell k @ spell s @ t)
      | (JInt i, Some t) \<Rightarrow> Some (1 # spell k @ (if i < 0 then 1 else 0) # nat \<bar>i\<bar> # t)
      | _ \<Rightarrow> None)"

definition read_text :: "pytext \<Rightarrow> pytext \<times> pytext" where
  "read_text t = (take (hd t) (tl t), drop (hd t) (tl t))"

fun read_claims :: "nat \<Rightarrow> pytext \<Rightarrow> claims" where
  "read_claims (Suc n) (tag # t) =
     (case read_text t of
        (k, t) \<Rightarrow>
          if tag = 0 then (case read_text t of (s, t) \<Rightarrow> (k, JStr s) # read_claims n t)
          else (k, JInt (if t ! 0 = 1 then - int (t ! 1) else int (t ! 1))) # read_claims n (drop 2 t))"
| "read_claims _ _ = []"

lemma read_text_spell [simp]: "read_text (spell s @ t) = (s, t)"
  by (simp add: read_text_def spell_def)

lemma read_claims_spell: "spell_claims c = Some t \<Longrightarrow> length t \<le> n \<Longrightarrow> read_claims n t = c"
proof (induction c arbitrary: t n)
  case (Cons kv c)
  obtain k v where kv: "kv = (k, v)" by fastforce
  from Cons.prems kv obtain t' where t': "spell_claims c = Some t'"
    and v: "(\<exists>s. v = JStr s \<and> t = 0 # spell k @ spell s @ t') \<or>
      (\<exists>i. v = JInt i \<and> t = 1 # spell k @ (if i < 0 then 1 else 0) # nat \<bar>i\<bar> # t')"
    by (auto split: json.splits option.splits)
  obtain m where n: "n = Suc m" using Cons.prems(2) v by (cases n) auto
  have "read_claims m t' = c" using Cons.IH [OF t'] Cons.prems(2) v n by (auto simp: spell_def)
  with v kv n show ?case by auto
qed simp

definition spelled_jwt :: jwt_lib where
  "spelled_jwt =
     \<lparr>jw_encode = (\<lambda>c secret alg. map_option (\<lambda>t. spell secret @ spell alg @ t) (spell_claims c)),
      jw_decode = (\<lambda>now token secret alg issuer.
        if \<not> starts_with (spell secret @ spell alg) token then JwtInvalid
        else let c = read_claims (length token) (drop (length (spell secret @ spell alg)) token)
             in if json_get c ''iss'' \<noteq> JStr issuer then JwtInvalid
                else (case (json_get c ''iat'', json_get c ''exp'') of
                        (JInt iat, JInt e) \<Rightarrow> if now < iat then JwtInvalid else if e \<le> now then JwtExpired else JwtClaims c
                      | _ \<Rightarrow> JwtInvalid))\<rparr>"

interpretation spelled: jwt_library spelled_jwt
proof
  fix payload secret algorithm token issuer iat expire t
  assume e: "jw_encode spelled_jwt payload secret algorithm = Some token"
    and get: "json_get payload ''iss'' = JStr issuer" "json_get payload ''iat'' = JInt iat"
      "json_get payload ''exp'' = JInt expire" "iat \<le> t"
  from e obtain body where body: "spell_claims payload = Some body" "token = spell secret @ spell algorithm @ body"
    by (auto simp: spelled_jwt_def)
  have "read_claims (length token) body = payload" by (rule read_claims_spell) (simp_all add: body)
  then show "jw_decode spelled_jwt t token secret algorithm issuer = (if t < expire then JwtClaims payload else JwtExpired)"
    using get body(2) by (simp add: spelled_jwt_def Let_def starts_with_def)
qed

section \<open>Lemmas\<close>

lemma request_guards_browser:
  assumes "request_guards h r = Inr ()" "browser_request r"
  shows "rq_header r ''x-gcs-csrf'' = Some (text_of ''same-origin'')"
    and "request_origin h r = Inr (Some origin) \<Longrightarrow> origin \<noteq> [] \<Longrightarrow> web_security_from_env h = Inr ws \<Longrightarrow>
      origin \<in> set (ws_allowed_origins ws)"
  using assms
  by (auto simp: request_guards_def bind_r_eq_Inr assert_browser_csrf_header_def assert_trusted_request_origin_def
      set_text_def simp del: text_of_simps split: if_splits)

lemma login_tokens:
  assumes "\<And>use e. jw_encode jwt (token_claims name role use now e (as_issuer s)) (as_secret s) (as_algorithm s) \<noteq> None"
    and "now + 60 * as_access_token_expire_minutes s \<le> MAX_DATETIME_SECONDS"
    and "now + 60 * as_refresh_token_expire_minutes s \<le> MAX_DATETIME_SECONDS"
  shows "\<exists>access refresh. create_token jwt now name role AccessToken (60 * as_access_token_expire_minutes s) s = Inr access \<and>
    create_login_token_response jwt now name role s = Inr (token_response name role access s, refresh)"
proof -
  have "\<exists>tok. create_token jwt now name role use (60 * m) s = Inr tok"
    if "now + 60 * m \<le> MAX_DATETIME_SECONDS" for use m
    using that assms(1) [of use "now + 60 * m"]
    by (auto simp: create_token_def Let_def split: option.split)
  then obtain access refresh where
    "create_token jwt now name role AccessToken (60 * as_access_token_expire_minutes s) s = Inr access"
    "create_token jwt now name role RefreshToken (60 * as_refresh_token_expire_minutes s) s = Inr refresh"
    using assms(2,3) by blast
  then show ?thesis
    by (simp add: create_login_token_response_def create_access_token_def create_refresh_token_def delta_or_minutes_def)
qed

definition bearer_request :: "pytext \<Rightarrow> http_request" where
  "bearer_request token =
     \<lparr>rq_header = (\<lambda>_. None), rq_cookie = (\<lambda>_. None), rq_credentials = Some (text_of ''bearer'', token)\<rparr>"

lemma bearer_current_user:
  assumes "auth_from_env h = Inr s"
  shows "get_current_user h jwt t (bearer_request token) = decode_token jwt t token AccessToken s"
proof -
  have "lower_text (h_lower h) (text_of ''bearer'') = text_of ''bearer''"
    by (simp add: lower_text_def text_lower_def ascii_lower_def)
  then show ?thesis
    using assms by (simp add: get_current_user_def bearer_request_def decode_access_token_def del: text_of_simps)
qed

section \<open>Properties\<close>

text \<open>
  C2: A registered user can work: after a sign-up that succeeded, and whatever other sign-ups
  follow, a login with the same name and password succeeds whenever the guards and the settings
  are in order, sets the refresh cookie, and its access token makes every request until the
  configured expiry that of this user, as a viewer.
\<close>

theorem registered_user_can_log_in:
  assumes "jwt_library jwt" and "password_library pw" and "user_store ops"
    and "signup h0 pw ops salt user r0 db = (db1, Inr created)" and "signups pw ops db1 db2"
    and "request_guards h r = Inr ()" and "auth_from_env h = Inr s"
    and "\<And>use e. jw_encode jwt (token_claims (uc_username user) (Some (text_of ''viewer'')) use now e (as_issuer s))
      (as_secret s) (as_algorithm s) \<noteq> None"
    and "now + 60 * as_access_token_expire_minutes s \<le> MAX_DATETIME_SECONDS"
    and "now + 60 * as_refresh_token_expire_minutes s \<le> MAX_DATETIME_SECONDS"
  shows "\<exists>body refresh.
    login h jwt pw ops now \<lparr>ul_username = uc_username user, ul_password = uc_password user\<rparr> r db2
      = \<lparr>rs_result = Inr body, rs_cookies = [set_refresh_cookie refresh s]\<rparr> \<and>
    tk_role body = Viewer \<and>
    (\<forall>t. now \<le> t \<and> t < now + 60 * as_access_token_expire_minutes s \<longrightarrow>
      get_current_user h jwt t (bearer_request (tk_access_token body))
        = Inr \<lparr>au_username = uc_username user, au_role = Viewer\<rparr>)"
proof -
  obtain row where row: "uo_user ops db1 (uc_username user) = Some row" "ur_role row = Some (text_of ''viewer'')"
    "ur_password_hash row = pl_hash pw salt (uc_password user)" "ur_username row = uc_username user"
    using user_store.signup_user [OF assms(3,4)] by blast
  have row2: "uo_user ops db2 (uc_username user) = Some row"
    by (rule user_store.signups_keep_user [OF assms(3,5) row(1)])
  have role: "normalize_role (ur_role row) = Viewer"
    using row(2) by (simp add: normalize_role_def role_text_def)
  obtain access refresh where tok:
    "create_token jwt now (uc_username user) (ur_role row) AccessToken (60 * as_access_token_expire_minutes s) s = Inr access"
    "create_login_token_response jwt now (uc_username user) (ur_role row) s
       = Inr (token_response (uc_username user) (ur_role row) access s, refresh)"
    using login_tokens [OF assms(8-10)] unfolding row(2) by blast
  have "login h jwt pw ops now \<lparr>ul_username = uc_username user, ul_password = uc_password user\<rparr> r db2
      = \<lparr>rs_result = Inr (token_response (uc_username user) (ur_role row) access s),
         rs_cookies = [set_refresh_cookie refresh s]\<rparr>"
    using assms(6,7) row2 row(3,4) tok(2) password_library.verify_hash [OF assms(2)]
    by (simp add: login_def load_auth_settings_def)
  moreover have "get_current_user h jwt t (bearer_request access)
      = Inr \<lparr>au_username = uc_username user, au_role = Viewer\<rparr>"
    if "now \<le> t" "t < now + 60 * as_access_token_expire_minutes s" for t
    using jwt_library.decode_created [OF assms(1) tok(1) that(1), of AccessToken] that(2) role
    by (simp add: bearer_current_user [OF assms(7)])
  ultimately show ?thesis using role by (auto simp: token_response_def)
qed

text \<open>
  C12: Access and refresh tokens cannot stand in for each other: a token made for one use decodes
  for that use, to the subject and its normalised role, until its expiry, and for the other use
  never.
\<close>

theorem token_uses_separate:
  assumes "jwt_library jwt" and "create_token jwt now subject role use delta s = Inr token" and "now \<le> t"
  shows "decode_token jwt t token use' s =
    (if now + delta \<le> t then Inl (unauthorized ''token expired'')
     else if use' = use then Inr \<lparr>au_username = subject, au_role = normalize_role role\<rparr>
     else Inl (unauthorized ''invalid token''))"
  by (rule jwt_library.decode_created [OF assms])

text \<open>
  C13: Nobody promotes or displaces anybody by signing up: through any number of sign-up requests
  every existing account stays as it was, and every new one is a viewer of a company whose
  invitation code was known at the start.
\<close>

theorem signups_only_add_viewers:
  assumes "user_store ops" and "signups pw ops db db'"
  shows "(uo_user ops db name = Some row \<longrightarrow> uo_user ops db' name = Some row) \<and>
    (uo_user ops db name = None \<and> uo_user ops db' name = Some row \<longrightarrow>
      normalize_role (ur_role row) = Viewer \<and> (\<exists>code. uo_company ops db code = Some (ur_company_id row)))"
  using user_store.signups_keep_user [OF assms, of name row] user_store.signups_new_user [OF assms, of name row]
  by (auto simp: normalize_role_def role_text_def)

text \<open>
  C7: Forged browser requests cannot use a session: when a request carries an origin or a referer, and
  lacks the anti-forgery header or comes from an origin that is not allowed, then each of the four
  \<open>POST\<close> endpoints of \<open>/auth\<close>, sign-up, log-in, refresh and log-out, fails in the same check: sign-up
  leaves the tables alone, and none of the other three, which write no table, succeeds, sets a cookie or clears one. \<open>GET /auth/me\<close>
  and the endpoints outside \<open>/auth\<close>, which take a bearer token and no cookie, make no such check.
\<close>

theorem forged_requests_have_no_effect:
  assumes "browser_request r" and "web_security_from_env h = Inr ws"
    and "rq_header r ''x-gcs-csrf'' \<noteq> Some (text_of ''same-origin'') \<or>
      (\<exists>origin. request_origin h r = Inr (Some origin) \<and> origin \<noteq> [] \<and> origin \<notin> set (ws_allowed_origins ws))"
  shows "\<exists>e. request_guards h r = Inl e \<and>
    signup h pw ops salt user r db = (db, Inl e) \<and>
    login h jwt pw ops now credentials r db = fail_with e \<and>
    refresh_session h jwt ops now r db = fail_with e \<and>
    logout h r = fail_with e"
proof -
  have "request_guards h r \<noteq> Inr ()"
    using request_guards_browser [OF _ assms(1), of h] assms(2,3) by blast
  then obtain e where "request_guards h r = Inl e" by (cases "request_guards h r") auto
  then show ?thesis by (simp add: signup_def login_def refresh_session_def logout_def)
qed

text \<open>
  A refreshed session follows the account: refreshing answers with new tokens only for a
  refresh token that is valid now and whose user still exists, under the role the account has
  now; if the account is gone the answer is 401 and clears the cookie.
\<close>

theorem refresh_follows_account:
  assumes "auth_from_env h = Inr s" and "request_guards h r = Inr ()"
    and "rq_cookie r (as_refresh_cookie_name s) = Some token" and "token \<noteq> []"
    and "decode_refresh_token jwt now token s = Inr user"
  shows "(uo_user ops db (au_username user) = None \<longrightarrow>
      refresh_session h jwt ops now r db
        = \<lparr>rs_result = Inl (unauthorized_api ''invalid refresh session''), rs_cookies = [clear_refresh_cookie s]\<rparr>) \<and>
    (\<forall>body. rs_result (refresh_session h jwt ops now r db) = Inr body \<longrightarrow>
      (\<exists>row rotated. uo_user ops db (au_username user) = Some row \<and> tk_username body = au_username user \<and>
         tk_role body = normalize_role (ur_role row) \<and>
         rs_cookies (refresh_session h jwt ops now r db) = [set_refresh_cookie rotated s]))"
  using assms
  by (auto simp: refresh_session_def load_auth_settings_def set_text_def fail_with_def
      create_refreshed_token_response_def bind_r_eq_Inr token_response_def
      split: option.splits sum.splits)

section \<open>A concrete session\<close>

definition sample_tables :: user_tables where
  "sample_tables = \<lparr>ut_users = [], ut_companies = [(text_of ''ABC123'', 7)]\<rparr>"

definition sample_user :: user_create where
  "sample_user = \<lparr>uc_username = text_of ''pilot'', uc_email = text_of ''p@x.kr'', uc_password = text_of ''password1'',
     uc_invite_code = text_of ''ABC123''\<rparr>"

definition plain_request :: http_request where
  "plain_request = \<lparr>rq_header = (\<lambda>_. None), rq_cookie = (\<lambda>_. None), rq_credentials = None\<rparr>"

definition sample_auth_settings :: auth_settings where
  "sample_auth_settings =
     \<lparr>as_secret = text_of ''0123456789abcdef0123456789abcdef'', as_algorithm = text_of ''HS256'',
      as_access_token_expire_minutes = 30, as_refresh_token_expire_minutes = 120, as_issuer = text_of ''gcs-saker'',
      as_refresh_cookie_name = text_of ''gcs_saker_refresh'', as_refresh_cookie_secure = True,
      as_refresh_cookie_samesite = SameSiteNone\<rparr>"

lemma sample_auth_settings: "auth_from_env (sample_host auth_env) = Inr sample_auth_settings"
proof -
  have "length (text_of ''0123456789abcdef0123456789abcdef'') = 32"
    "text_of ''none'' \<noteq> text_of ''lax''" "text_of ''none'' \<noteq> text_of ''strict''" by simp_all
  then show ?thesis
    by (simp add: auth_from_env_def host_evaluation auth_env_def validate_secret_length_def MIN_SECRET_LENGTH_def
        same_site_of_def validate_cookie_security_def sample_auth_settings_def del: text_of_simps)
qed

lemma plain_request_guards: "request_guards h plain_request = Inr ()"
  by (simp add: request_guards_def assert_trusted_request_origin_def request_origin_def plain_request_def
      origin_from_referer_def set_text_def assert_browser_csrf_header_def browser_request_def)

definition sample_row :: user_row where
  "sample_row = \<lparr>ur_id = 1, ur_username = text_of ''pilot'', ur_email = text_of ''p@x.kr'',
     ur_password_hash = 5 # text_of ''password1'', ur_company_id = 7, ur_role = Some (text_of ''viewer'')\<rparr>"

definition sample_tables1 :: user_tables where
  "sample_tables1 = sample_tables\<lparr>ut_users := [sample_row]\<rparr>"

lemma sample_signup:
  "signup h salted_passwords table_user_ops 5 sample_user plain_request sample_tables
     = (sample_tables1, Inr (user_response sample_row))"
  by (simp add: signup_def plain_request_guards table_user_ops_def tables_user_def tables_email_exists_def
      tables_company_def tables_add_def sample_tables_def sample_user_def sample_row_def sample_tables1_def
      salted_passwords_def Let_def)

lemma spelled_token: "jw_encode spelled_jwt (token_claims name role use now e iss) secret alg \<noteq> None"
  by (simp add: spelled_jwt_def token_claims_def)

theorem registered_user_can_log_in_witness:
  "\<exists>body refresh.
    login (sample_host auth_env) spelled_jwt salted_passwords table_user_ops 1000
      \<lparr>ul_username = text_of ''pilot'', ul_password = text_of ''password1''\<rparr> plain_request sample_tables1
      = \<lparr>rs_result = Inr body, rs_cookies = [set_refresh_cookie refresh sample_auth_settings]\<rparr> \<and>
    get_current_user (sample_host auth_env) spelled_jwt 2799 (bearer_request (tk_access_token body))
      = Inr \<lparr>au_username = text_of ''pilot'', au_role = Viewer\<rparr>"
proof -
  have lim: "(1000 :: int) + 60 * as_access_token_expire_minutes sample_auth_settings \<le> MAX_DATETIME_SECONDS"
    "(1000 :: int) + 60 * as_refresh_token_expire_minutes sample_auth_settings \<le> MAX_DATETIME_SECONDS"
    "2799 < (1000 :: int) + 60 * as_access_token_expire_minutes sample_auth_settings"
    by (simp_all add: sample_auth_settings_def MAX_DATETIME_SECONDS_def)
  have u: "uc_username sample_user = text_of ''pilot''" "uc_password sample_user = text_of ''password1''"
    by (simp_all add: sample_user_def)
  show ?thesis
    using registered_user_can_log_in [OF spelled.jwt_library_axioms salted.password_library_axioms
      tables.user_store_axioms sample_signup signups.none plain_request_guards sample_auth_settings
      spelled_token lim(1,2)] lim(3)
    unfolding u by fastforce
qed

definition sample_access_token :: pytext where
  "sample_access_token =
     (case create_token spelled_jwt 1000 (text_of ''pilot'') (Some (text_of ''admin'')) AccessToken 60 sample_auth_settings
      of Inr t \<Rightarrow> t | Inl _ \<Rightarrow> [])"

lemma sample_access_token:
  "create_token spelled_jwt 1000 (text_of ''pilot'') (Some (text_of ''admin'')) AccessToken 60 sample_auth_settings
     = Inr sample_access_token"
  using spelled_token
  by (auto simp: sample_access_token_def create_token_def MAX_DATETIME_SECONDS_def Let_def simp del: text_of_simps
      split: option.split)

theorem token_uses_separate_witness:
  "decode_token spelled_jwt 1059 sample_access_token AccessToken sample_auth_settings
     = Inr \<lparr>au_username = text_of ''pilot'', au_role = Admin\<rparr> \<and>
   decode_token spelled_jwt 1059 sample_access_token RefreshToken sample_auth_settings
     = Inl (unauthorized ''invalid token'') \<and>
   decode_token spelled_jwt 1060 sample_access_token AccessToken sample_auth_settings
     = Inl (unauthorized ''token expired'')"
proof -
  have "normalize_role (Some (text_of ''admin'')) = Admin" by (simp add: normalize_role_def role_text_def)
  then show ?thesis
    using token_uses_separate [OF spelled.jwt_library_axioms sample_access_token] by simp
qed

theorem signups_only_add_viewers_witness:
  "uo_user table_user_ops sample_tables1 (text_of ''pilot'') = Some sample_row \<and>
   normalize_role (ur_role sample_row) = Viewer"
proof -
  have run: "signups salted_passwords table_user_ops sample_tables sample_tables1"
    by (rule signups.more [OF signups.none sample_signup])
  have "uo_user table_user_ops sample_tables (text_of ''pilot'') = None"
    "uo_user table_user_ops sample_tables1 (text_of ''pilot'') = Some sample_row"
    by (simp_all add: table_user_ops_def tables_user_def sample_tables_def sample_tables1_def sample_row_def)
  then show ?thesis
    using signups_only_add_viewers [OF tables.user_store_axioms run, of "text_of ''pilot''" sample_row] by simp
qed

definition forged_request :: http_request where
  "forged_request = plain_request\<lparr>rq_header := [''origin'' \<mapsto> text_of ''https://evil.example'']\<rparr>"

theorem forged_requests_have_no_effect_witness:
  "\<exists>e. logout (sample_host []) forged_request = fail_with e \<and>
    signup (sample_host []) salted_passwords table_user_ops 5 sample_user forged_request sample_tables = (sample_tables, Inl e)"
proof -
  have "browser_request forged_request" "rq_header forged_request ''x-gcs-csrf'' \<noteq> Some (text_of ''same-origin'')"
    by (simp_all add: forged_request_def browser_request_def set_text_def)
  moreover obtain ws where "web_security_from_env (sample_host []) = Inr ws"
    by (auto simp: web_security_from_env_def setting_field_def)
  ultimately have "\<exists>e. request_guards (sample_host []) forged_request = Inl e \<and>
      signup (sample_host []) salted_passwords table_user_ops 5 sample_user forged_request sample_tables = (sample_tables, Inl e) \<and>
      login (sample_host []) spelled_jwt salted_passwords table_user_ops 0 \<lparr>ul_username = [], ul_password = []\<rparr> forged_request sample_tables = fail_with e \<and>
      refresh_session (sample_host []) spelled_jwt table_user_ops 0 forged_request sample_tables = fail_with e \<and>
      logout (sample_host []) forged_request = fail_with e"
    by (intro forged_requests_have_no_effect) blast+
  then show ?thesis by blast
qed

definition sample_refresh_token :: pytext where
  "sample_refresh_token =
     (case create_token spelled_jwt 1000 (text_of ''pilot'') (Some (text_of ''admin'')) RefreshToken 60 sample_auth_settings
      of Inr t \<Rightarrow> t | Inl _ \<Rightarrow> [])"

lemma sample_refresh_token:
  "create_token spelled_jwt 1000 (text_of ''pilot'') (Some (text_of ''admin'')) RefreshToken 60 sample_auth_settings
     = Inr sample_refresh_token"
  using spelled_token
  by (auto simp: sample_refresh_token_def create_token_def MAX_DATETIME_SECONDS_def Let_def simp del: text_of_simps
      split: option.split)

definition cookie_request :: http_request where
  "cookie_request = plain_request\<lparr>rq_cookie := (\<lambda>_. Some sample_refresh_token)\<rparr>"

text \<open>An admin whose account is gone by the time of the refresh is logged out.\<close>

theorem refresh_follows_account_witness:
  "rs_cookies (refresh_session (sample_host auth_env) spelled_jwt table_user_ops 1010 cookie_request sample_tables)
     = [clear_refresh_cookie sample_auth_settings]"
proof -
  have dec: "decode_refresh_token spelled_jwt 1010 sample_refresh_token sample_auth_settings
      = Inr \<lparr>au_username = text_of ''pilot'', au_role = normalize_role (Some (text_of ''admin''))\<rparr>"
    using spelled.decode_created [OF sample_refresh_token, of 1010 RefreshToken] by (simp add: decode_refresh_token_def)
  have ne: "sample_refresh_token \<noteq> []"
    using sample_refresh_token by (auto simp: create_token_def spelled_jwt_def spell_def Let_def split: if_splits option.splits)
  have g: "request_guards (sample_host auth_env) cookie_request = Inr ()"
    by (simp add: request_guards_def assert_trusted_request_origin_def request_origin_def plain_request_def
        cookie_request_def origin_from_referer_def set_text_def assert_browser_csrf_header_def browser_request_def)
  have c: "rq_cookie cookie_request (as_refresh_cookie_name sample_auth_settings) = Some sample_refresh_token"
    by (simp add: cookie_request_def)
  have "uo_user table_user_ops sample_tables (text_of ''pilot'') = None"
    by (simp add: table_user_ops_def tables_user_def sample_tables_def)
  then show ?thesis
    using refresh_follows_account [OF sample_auth_settings g c ne dec, of table_user_ops sample_tables] by simp
qed

end
