(* ===== verification/Logging.thy ===== *)
theory Logging
  imports Settings
begin

text \<open>
  Structured logging, \<open>backend/core/structured_logging.py\<close>: the processors an event passes
  (trace identifier, severity, redaction), the redaction of sensitive fields at every depth of
  nested mappings, and the two request events. Structlog and its renderer are not modelled.
\<close>

section \<open>Values and redaction\<close>

text \<open>
  A logged value: a mapping, mutable or not, whose entries are values, or anything else, kept as
  JSON.
\<close>

datatype log_value = LMap bool "(pytext \<times> log_value) list" | LOther json

type_synonym log_event = "(pytext \<times> log_value) list"

definition SENSITIVE_FIELD_FRAGMENTS :: "pytext list" where
  "SENSITIVE_FIELD_FRAGMENTS = map text_of
     [''authorization'', ''cookie'', ''credential'', ''media'', ''password'', ''payload'', ''secret'', ''token'']"

definition REDACTED_VALUE :: log_value where
  "REDACTED_VALUE = LOther (JStr (text_of ''<redacted>''))"

definition is_sensitive_key :: "(pytext \<Rightarrow> pytext) \<Rightarrow> pytext \<Rightarrow> bool" where
  "is_sensitive_key unicode_lower key \<longleftrightarrow>
     list_ex (\<lambda>fragment. contains fragment (lower_text unicode_lower key)) SENSITIVE_FIELD_FRAGMENTS"

text \<open>A mapping that is not mutable is copied into a \<open>dict\<close> and sanitised there.\<close>

fun sanitize_value :: "(pytext \<Rightarrow> pytext) \<Rightarrow> log_value \<Rightarrow> log_value"
  and sanitize_mapping :: "(pytext \<Rightarrow> pytext) \<Rightarrow> log_event \<Rightarrow> log_event" where
  "sanitize_value low (LMap mutable entries) = LMap True (sanitize_mapping low entries)"
| "sanitize_value low (LOther v) = LOther v"
| "sanitize_mapping low [] = []"
| "sanitize_mapping low ((key, value) # entries) =
     (key, if is_sensitive_key low key then REDACTED_VALUE else sanitize_value low value) # sanitize_mapping low entries"

section \<open>The processors\<close>

text \<open>\<open>f"{trace_id:032x}"\<close>\<close>

fun hex_digits :: "nat \<Rightarrow> nat \<Rightarrow> pytext" where
  "hex_digits 0 n = []"
| "hex_digits (Suc k) n = hex_digits k (n div 16) @ [if n mod 16 < 10 then 48 + n mod 16 else 87 + n mod 16]"

definition add_trace_id :: "nat option \<Rightarrow> log_event \<Rightarrow> log_event" where
  "add_trace_id trace_span event =
     (case trace_span of None \<Rightarrow> event
      | Some trace_id \<Rightarrow> dict_set (text_of ''trace_id'') (LOther (JStr (hex_digits 32 trace_id))) event)"

definition dict_setdefault :: "'k \<Rightarrow> 'v \<Rightarrow> ('k, 'v) dict \<Rightarrow> ('k, 'v) dict" where
  "dict_setdefault k v d = (if k \<in> set (dict_keys d) then d else dict_set k v d)"

definition add_severity :: "pytext \<Rightarrow> log_event \<Rightarrow> log_event" where
  "add_severity method_name event = dict_setdefault (text_of ''severity'') (LOther (JStr method_name)) event"

definition redact_sensitive_fields :: "(pytext \<Rightarrow> pytext) \<Rightarrow> log_event \<Rightarrow> log_event" where
  "redact_sensitive_fields low event = sanitize_mapping low event"

text \<open>
  The configured processors up to the time stamp and the renderer; \<open>None\<close> is an event dropped
  because logging is switched off.
\<close>

definition process_event ::
    "structured_logging_settings \<Rightarrow> (pytext \<Rightarrow> pytext) \<Rightarrow> nat option \<Rightarrow> pytext \<Rightarrow> log_event \<Rightarrow> log_event option" where
  "process_event settings low trace_span method_name event =
     (if \<not> sl_enabled settings then None
      else Some (redact_sensitive_fields low (add_severity method_name (add_trace_id trace_span event))))"

section \<open>Request events\<close>

definition log_text :: "string \<Rightarrow> log_value" where
  "log_text s = LOther (JStr (text_of s))"

definition request_completed_event :: "pytext \<Rightarrow> pytext \<Rightarrow> int \<Rightarrow> int \<Rightarrow> log_event" where
  "request_completed_event http_method route status_code duration_ms =
     [(text_of ''event'', log_text ''http_request_completed''),
      (text_of ''http_method'', LOther (JStr http_method)),
      (text_of ''http_route'', LOther (JStr route)),
      (text_of ''status_code'', LOther (JInt status_code)),
      (text_of ''duration_ms'', LOther (JInt duration_ms)),
      (text_of ''result'', log_text (if status_code < 400 then ''success'' else ''rejected''))]"

definition request_failed_event :: "pytext \<Rightarrow> pytext \<Rightarrow> pytext \<Rightarrow> int \<Rightarrow> log_event" where
  "request_failed_event http_method route error_type duration_ms =
     [(text_of ''event'', log_text ''http_request_failed''),
      (text_of ''http_method'', LOther (JStr http_method)),
      (text_of ''http_route'', LOther (JStr route)),
      (text_of ''error_type'', LOther (JStr error_type)),
      (text_of ''error_code'', log_text ''unhandled_request_failure''),
      (text_of ''duration_ms'', LOther (JInt duration_ms)),
      (text_of ''result'', log_text ''failed'')]"

section \<open>What a reader of the log can see\<close>

text \<open>The values at the leaves of an event, each with the keys that lead to it.\<close>

fun value_leaves :: "log_value \<Rightarrow> (pytext list \<times> json) list"
  and event_leaves :: "log_event \<Rightarrow> (pytext list \<times> json) list" where
  "value_leaves (LMap mutable entries) = event_leaves entries"
| "value_leaves (LOther v) = [([], v)]"
| "event_leaves [] = []"
| "event_leaves ((key, value) # entries) =
     map (\<lambda>(path, v). (key # path, v)) (value_leaves value) @ event_leaves entries"

definition open_path :: "(pytext \<Rightarrow> pytext) \<Rightarrow> pytext list \<times> json \<Rightarrow> bool" where
  "open_path low leaf \<longleftrightarrow> \<not> list_ex (is_sensitive_key low) (fst leaf)"

lemma open_path_Cons [simp]: "open_path low (key # path, v) \<longleftrightarrow> \<not> is_sensitive_key low key \<and> open_path low (path, v)"
  by (simp add: open_path_def)

lemma open_path_Nil [simp]: "open_path low ([], v)"
  by (simp add: open_path_def)

lemma sanitize_leaves:
  "filter (open_path low) (value_leaves (sanitize_value low v)) = filter (open_path low) (value_leaves v)"
  "filter (open_path low) (event_leaves (sanitize_mapping low e)) = filter (open_path low) (event_leaves e)"
proof (induction low v and low e rule: sanitize_value_sanitize_mapping.induct)
  case (4 low key val entries)
  have step: "filter (open_path low) (map (\<lambda>(path, v). (key # path, v)) ls)
      = (if is_sensitive_key low key then [] else map (\<lambda>(path, v). (key # path, v)) (filter (open_path low) ls))" for ls
    by (induction ls) auto
  show ?case using 4 by (auto simp: step)
qed simp_all

lemma sanitize_redacts:
  "leaf \<in> set (value_leaves (sanitize_value low v)) \<Longrightarrow> \<not> open_path low leaf \<Longrightarrow> LOther (snd leaf) = REDACTED_VALUE"
  "leaf \<in> set (event_leaves (sanitize_mapping low e)) \<Longrightarrow> \<not> open_path low leaf \<Longrightarrow> LOther (snd leaf) = REDACTED_VALUE"
proof (induction low v and low e arbitrary: leaf and leaf rule: sanitize_value_sanitize_mapping.induct)
  case (4 low key val entries)
  then show ?case
    by (cases leaf; cases "is_sensitive_key low key") (fastforce simp: REDACTED_VALUE_def)+
qed auto

lemma sanitize_idem:
  "sanitize_value low (sanitize_value low v) = sanitize_value low v"
  "sanitize_mapping low (sanitize_mapping low e) = sanitize_mapping low e"
  by (induction low v and low e rule: sanitize_value_sanitize_mapping.induct) (auto simp: REDACTED_VALUE_def)

lemma sanitize_keys: "dict_keys (sanitize_mapping low e) = dict_keys e"
  by (induction e) (auto simp: dict_keys_def)

section \<open>Properties\<close>

text \<open>
  C20: No sensitive field leaves the process: of an event that is logged, every value below a key
  that contains a sensitive fragment, at whatever depth of nested mappings, is the redaction
  mark, and all other values are those of the event as it was, in their order.
\<close>

theorem logged_events_redacted:
  assumes "process_event settings low trace_span method_name event = Some logged"
  shows "(\<forall>leaf \<in> set (event_leaves logged). \<not> open_path low leaf \<longrightarrow> LOther (snd leaf) = REDACTED_VALUE) \<and>
    filter (open_path low) (event_leaves logged)
      = filter (open_path low) (event_leaves (add_severity method_name (add_trace_id trace_span event)))"
  using assms sanitize_leaves(2) sanitize_redacts(2)
  by (auto simp: process_event_def redact_sensitive_fields_def split: if_splits)

definition sample_event_logged :: log_event where
  "sample_event_logged =
     [(text_of ''user'', LMap False [(text_of ''Access-Token'', LOther (JInt 7)), (text_of ''id'', LOther (JInt 8))])]"

theorem logged_events_redacted_witness:
  "case process_event \<lparr>sl_enabled = True, sl_renderer = []\<rparr> id None (text_of ''info'') sample_event_logged of
     None \<Rightarrow> False
   | Some logged \<Rightarrow> filter (open_path id) (event_leaves logged)
       = filter (open_path id) (event_leaves (add_severity (text_of ''info'') sample_event_logged))"
  using logged_events_redacted [of "\<lparr>sl_enabled = True, sl_renderer = []\<rparr>" id None "text_of ''info''" sample_event_logged]
  by (simp add: process_event_def add_trace_id_def del: text_of_simps)

end
