(* ===== verification/Http_App.thy ===== *)
theory Http_App
  imports Auth Streaming Logging
begin

text \<open>
  The application, \<open>backend/main.py\<close>, with the health endpoints (\<open>backend/api/health.py\<close>,
  \<open>backend/modules/health\<close>), the asset endpoint and the wiring of the streaming service from
  the environment. A request passes the request log, the trace span and the security headers, in
  this order from the outside, and then the role its router demands. FastAPI's routing and its CORS
  middleware are library code; the arguments they get are modelled. The headers a span injects are an
  argument.
\<close>

section \<open>Health\<close>

datatype health_status = HealthOk | HealthDegraded | HealthError

record health_check =
  hc_name :: string
  hc_status :: health_status
  hc_required :: bool
  hc_reason :: "string option"

definition check_is_ok :: "health_check \<Rightarrow> bool" where
  "check_is_ok c \<longleftrightarrow> hc_status c = HealthOk"

record health_report =
  hp_service :: string
  hp_status :: health_status
  hp_checks :: "health_check list"

definition health_from_checks :: "string \<Rightarrow> health_check list \<Rightarrow> health_report" where
  "health_from_checks service checks =
     (let required_failed = list_ex (\<lambda>c. hc_required c \<and> \<not> check_is_ok c) checks;
          optional_failed = list_ex (\<lambda>c. \<not> hc_required c \<and> \<not> check_is_ok c) checks;
          status = (if required_failed then HealthError else if optional_failed then HealthDegraded else HealthOk)
      in \<lparr>hp_service = service, hp_status = status, hp_checks = checks\<rparr>)"

definition report_is_ready :: "health_report \<Rightarrow> bool" where
  "report_is_ready r \<longleftrightarrow> hp_status r = HealthOk"

definition healthz :: health_report where
  "healthz = health_from_checks ''gcs-backend''
     [\<lparr>hc_name = ''api'', hc_status = HealthOk, hc_required = True, hc_reason = None\<rparr>]"

text \<open>A probe raises or returns a truth value, which the check does not look at.\<close>

definition database_check :: "bool option \<Rightarrow> health_check" where
  "database_check probe =
     (case probe of
        None \<Rightarrow> \<lparr>hc_name = ''database'', hc_status = HealthError, hc_required = True,
                 hc_reason = Some ''database readiness query failed''\<rparr>
      | Some _ \<Rightarrow> \<lparr>hc_name = ''database'', hc_status = HealthOk, hc_required = True, hc_reason = None\<rparr>)"

definition streaming_checks :: "streaming_error + module_status \<Rightarrow> health_check list" where
  "streaming_checks module_status_factory =
     (case module_status_factory of
        Inl _ \<Rightarrow> [\<lparr>hc_name = ''streaming'', hc_status = HealthError, hc_required = True,
                  hc_reason = Some ''streaming status check failed''\<rparr>]
      | Inr st \<Rightarrow>
          [\<lparr>hc_name = ''streaming_registry'', hc_status = (if ms_registry_ready st then HealthOk else HealthError),
            hc_required = True,
            hc_reason = (if ms_registry_ready st then None else Some ''stream registry is not ready'')\<rparr>,
           \<lparr>hc_name = ''playback_url_builder'',
            hc_status = (if ms_playback_url_builder_ready st then HealthOk else HealthError),
            hc_required = True,
            hc_reason = (if ms_playback_url_builder_ready st then None else Some ''playback url builder is not ready'')\<rparr>])"

definition readyz :: "bool option \<Rightarrow> streaming_error + module_status \<Rightarrow> int \<times> health_report" where
  "readyz probe module_status_factory =
     (let report = health_from_checks ''gcs-backend'' (database_check probe # streaming_checks module_status_factory)
      in (if report_is_ready report then 200 else 503, report))"

section \<open>Wiring of the streaming service\<close>

definition url_builder_config_from_env :: "host \<Rightarrow> settings_error + url_builder_config" where
  "url_builder_config_from_env h =
     bind_r (media_server_from_env h) (\<lambda>s.
     Inr \<lparr>uc_public_webrtc_base_url = mss_public_webrtc_base_url s, uc_public_hls_base_url = mss_public_hls_base_url s,
          uc_webrtc_base_url = None, uc_hls_base_url = None\<rparr>)"

record mediamtx_connection =
  mn_base_url :: pytext
  mn_auth :: "(pytext \<times> pytext) option"
  mn_client :: mediamtx_client

definition mediamtx_client_from_env :: "host \<Rightarrow> settings_error + mediamtx_connection option" where
  "mediamtx_client_from_env h =
     bind_r (media_server_from_env h) (\<lambda>s.
     Inr (case mss_api_base_url s of
            None \<Rightarrow> None
          | Some url \<Rightarrow>
              let username = or_default (mss_api_username s) []; password = or_default (mss_api_password s) []
              in Some \<lparr>mn_base_url = strip_right (\<lambda>c. c = 47) url,
                       mn_auth = (if username \<noteq> [] \<and> password \<noteq> [] then Some (username, password) else None),
                       mn_client = \<lparr>mc_snapshot_ttl_seconds = Fin 1, mc_stale_ttl_seconds = Fin 5, mc_snapshot = None\<rparr>\<rparr>))"

definition list_stream_ice_servers :: "host \<Rightarrow> settings_error + (string, pytext) dict list" where
  "list_stream_ice_servers h = bind_r (webrtc_ice_from_env h) (\<lambda>s. Inr (browser_ice_servers s))"

section \<open>Assets of a gateway\<close>

datatype gateway_kind = Smartphone | Tablet | Smartwatch | OtherGateway

datatype gateway_os = Android | IPhone | OtherOs

record gateway_row =
  gw_id :: int
  gw_cid :: pytext
  gw_uuid :: pytext
  gw_company_id :: int
  gw_kind :: gateway_kind
  gw_os :: gateway_os
  gw_name :: "pytext option"
  gw_status :: "pytext option"

datatype asset_kind = Drone | Rover | Ugv | Usv | Uav | Cctv | OtherAsset

record unmanned_asset =
  ua_id :: int
  ua_cid :: pytext
  ua_uuid :: pytext
  ua_company_id :: int
  ua_kind :: asset_kind
  ua_name :: pytext
  ua_description :: "pytext option"
  ua_image_url :: "pytext option"
  ua_status :: "pytext option"

record asset_tables =
  at_gateways :: "gateway_row list"
  at_links :: "(int \<times> int) list"
  at_assets :: "unmanned_asset list"

text \<open>\<open>None\<close> is the 422 of a limit or offset out of range.\<close>

definition get_asset :: "pytext \<Rightarrow> int \<Rightarrow> int \<Rightarrow> asset_tables \<Rightarrow> (api_error + unmanned_asset list) option" where
  "get_asset uuid limit offset db =
     (if \<not> (1 \<le> limit \<and> limit \<le> 500 \<and> 0 \<le> offset \<and> offset \<le> 100000) then None
      else Some (case find (\<lambda>g. gw_uuid g = uuid) (at_gateways db) of
                   None \<Rightarrow> Inl (ApiError 404 ''Gateway not found'' False)
                 | Some gateway \<Rightarrow>
                     Inr (take (nat limit) (drop (nat offset)
                       (sort_key ua_id (filter (\<lambda>a. (gw_id gateway, ua_id a) \<in> set (at_links db)) (at_assets db)))))))"

section \<open>Responses, their headers and the legacy marks\<close>

text \<open>A response with its headers by lower-case name.\<close>

record 'b http_response =
  hr_status :: int
  hr_headers :: "(string, pytext) dict"
  hr_body :: 'b

definition MARKED_PREFIXES :: "string list" where
  "MARKED_PREFIXES = [''/auth'', ''/stream'', ''/api/v1/ai'']"

definition REPLACEMENTS :: "(string \<times> string) list" where
  "REPLACEMENTS =
     [(''/auth'', ''/auth-policy/auth''), (''/stream'', ''/media-control/api/v1/streams''),
      (''/api/v1/ai'', ''edge-ai-sidecar''), (''/api/v1/map/config'', ''/auth-policy/map/config''),
      (''/metrics'', ''service-local-metrics-only'')]"

definition replacement_for_legacy_path :: "pytext \<Rightarrow> pytext option" where
  "replacement_for_legacy_path path =
     (case map_of (map (\<lambda>(k, v). (text_of k, text_of v)) REPLACEMENTS) path of
        Some r \<Rightarrow> Some r
      | None \<Rightarrow>
          (case find (\<lambda>p. path = text_of p \<or> starts_with (text_of p @ text_of ''/'') path) MARKED_PREFIXES of
             None \<Rightarrow> None
           | Some p \<Rightarrow> map_option text_of (map_of REPLACEMENTS p)))"

definition setdefault_header :: "string \<Rightarrow> pytext \<Rightarrow> 'b http_response \<Rightarrow> 'b http_response" where
  "setdefault_header name v r = r\<lparr>hr_headers := dict_setdefault name v (hr_headers r)\<rparr>"

definition mark_legacy_route :: "pytext \<Rightarrow> 'b http_response \<Rightarrow> 'b http_response" where
  "mark_legacy_route path r =
     (case replacement_for_legacy_path path of
        None \<Rightarrow> r
      | Some replacement \<Rightarrow>
          setdefault_header ''x-gcs-replacement-route'' replacement
            (setdefault_header ''x-gcs-legacy-fallback'' (text_of ''direct-backend-legacy'')
              (setdefault_header ''deprecation'' (text_of ''true'') r)))"

definition add_security_headers :: "web_security_settings \<Rightarrow> pytext \<Rightarrow> 'b http_response \<Rightarrow> 'b http_response" where
  "add_security_headers s path r =
     mark_legacy_route path
       (setdefault_header ''content-security-policy'' (ws_content_security_policy s)
         (setdefault_header ''permissions-policy'' (text_of ''camera=(self), microphone=(self), geolocation=(self)'')
           (setdefault_header ''referrer-policy'' (text_of ''no-referrer'')
             (setdefault_header ''x-frame-options'' (text_of ''DENY'')
               (setdefault_header ''x-content-type-options'' (text_of ''nosniff'') r)))))"

section \<open>Routers and their roles\<close>

datatype api_router =
    AuthRouter | HealthRouter | LegacyStreamRouter | StreamRouter | MapRouter | MockAiRouter | AiAdapterRouter
  | TelemetryRouter | AssetRouter | RootRouter

definition router_role :: "api_router \<Rightarrow> user_role option" where
  "router_role r =
     (case r of
        StreamRouter \<Rightarrow> Some Viewer
      | MapRouter \<Rightarrow> Some Viewer
      | MockAiRouter \<Rightarrow> Some Operator
      | AiAdapterRouter \<Rightarrow> Some Admin
      | AssetRouter \<Rightarrow> Some Viewer
      | _ \<Rightarrow> None)"

definition guarded ::
    "host \<Rightarrow> jwt_lib \<Rightarrow> int \<Rightarrow> api_router \<Rightarrow> http_request \<Rightarrow> (api_error + 'b) \<Rightarrow> api_error + 'b" where
  "guarded h jwt now router r handler =
     (case router_role router of
        None \<Rightarrow> handler
      | Some role \<Rightarrow> bind_r (require_role h jwt now role r) (\<lambda>_. handler))"

text \<open>
  What FastAPI makes of a handler's outcome: the response the handler returns, or the one its route makes of
  a returned value (\<open>answered\<close>, with the status of the route), or an \<open>HTTPException\<close> with its detail and
  challenge; \<open>None\<close> is an exception that passes through every middleware, which the server answers.
\<close>

datatype 'b payload = Content 'b | Detail string

definition answered :: "int \<Rightarrow> 'b \<Rightarrow> 'b http_response" where
  "answered status body = \<lparr>hr_status = status, hr_headers = [], hr_body = body\<rparr>"

definition render :: "api_error + 'b http_response \<Rightarrow> 'b payload http_response option" where
  "render outcome =
     (case outcome of
        Inl Unhandled \<Rightarrow> None
      | Inl (ApiError status detail challenge) \<Rightarrow>
          Some \<lparr>hr_status = status,
                hr_headers = (if challenge then [(''www-authenticate'', text_of ''Bearer'')] else []),
                hr_body = Detail detail\<rparr>
      | Inr r \<Rightarrow> Some \<lparr>hr_status = hr_status r, hr_headers = hr_headers r, hr_body = Content (hr_body r)\<rparr>)"

section \<open>The middleware\<close>

definition trace_fastapi_request ::
    "tracing_settings \<Rightarrow> (string, pytext) dict \<Rightarrow> 'b http_response option \<Rightarrow> 'b http_response option" where
  "trace_fastapi_request s injected response =
     (if \<not> tx_enabled s then response
      else map_option (\<lambda>r. r\<lparr>hr_headers := fold (\<lambda>(name, v). dict_set name v) injected (hr_headers r)\<rparr>) response)"

definition add_structured_request_log ::
    "pytext \<Rightarrow> pytext \<Rightarrow> pytext \<Rightarrow> int \<Rightarrow> 'b http_response option \<Rightarrow> log_event \<times> 'b http_response option" where
  "add_structured_request_log http_method route error_type duration_ms response =
     (case response of
        None \<Rightarrow> (request_failed_event http_method route error_type duration_ms, None)
      | Some r \<Rightarrow> (request_completed_event http_method route (hr_status r) duration_ms, Some r))"

record app_state =
  ap_web_security :: web_security_settings
  ap_tracing :: tracing_settings

definition create_app_state :: "host \<Rightarrow> settings_error + app_state" where
  "create_app_state h =
     bind_r (web_security_from_env h) (\<lambda>ws.
     bind_r (tracing_from_env h) (\<lambda>tx.
     bind_r (structured_logging_from_env h) (\<lambda>_.
     Inr \<lparr>ap_web_security = ws, ap_tracing = tx\<rparr>)))"

text \<open>A request served: the event it logs and its response.\<close>

definition serve ::
    "host \<Rightarrow> jwt_lib \<Rightarrow> app_state \<Rightarrow> int \<Rightarrow> api_router \<Rightarrow> pytext \<Rightarrow> pytext \<Rightarrow> pytext \<Rightarrow> http_request \<Rightarrow>
       (string, pytext) dict \<Rightarrow> int \<Rightarrow> (api_error + 'b http_response) \<Rightarrow> log_event \<times> 'b payload http_response option" where
  "serve h jwt app now router http_method path error_type r injected duration_ms handler =
     add_structured_request_log http_method path error_type duration_ms
       (trace_fastapi_request (ap_tracing app) injected
         (map_option (add_security_headers (ap_web_security app) path)
           (render (guarded h jwt now router r handler))))"

section \<open>What \<open>create_app\<close> registers\<close>

text \<open>The arguments of the CORS middleware.\<close>

record cors_policy =
  co_origins :: "pytext list"
  co_credentials :: bool
  co_methods :: "string list"
  co_headers :: "string list"

definition cors_policy_of :: "web_security_settings \<Rightarrow> cors_policy" where
  "cors_policy_of s =
     \<lparr>co_origins = ws_allowed_origins s, co_credentials = True, co_methods = [''GET'', ''POST'', ''OPTIONS''],
      co_headers = [''Authorization'', ''Content-Type'', ''Accept'', ''X-GCS-CSRF'']\<rparr>"

text \<open>The routers in the order of \<open>register_routes\<close> with their prefixes.\<close>

definition registered_routers :: "(api_router \<times> string) list" where
  "registered_routers =
     [(AuthRouter, ''/auth''), (HealthRouter, []), (LegacyStreamRouter, ''/stream''), (StreamRouter, ''/api/v1''),
      (MapRouter, ''/api/v1''), (MockAiRouter, ''/api/v1''), (AiAdapterRouter, ''/api/v1''), (TelemetryRouter, ''/telemetry''),
      (AssetRouter, ''/asset''), (RootRouter, [])]"

definition read_root :: "(string \<times> string) list" where
  "read_root = [(''message'', ''GCS Backend API Running'')]"

text \<open>\<open>round((perf_counter() - started_at) * 1000)\<close>, on the two readings of the clock.\<close>

definition elapsed_millis :: "pyfloat \<Rightarrow> pyfloat \<Rightarrow> int option" where
  "elapsed_millis clock_reading started_at =
     (case fsub clock_reading started_at of Fin q \<Rightarrow> Some (half_even (round64 (q * 1000))) | _ \<Rightarrow> None)"

section \<open>Lemmas\<close>

lemma router_registered_once: "length (filter (\<lambda>(r', _). r' = r) registered_routers) = 1"
  by (cases r) (simp_all add: registered_routers_def)

lemma public_routers:
  "router_role r = None \<longleftrightarrow> r \<in> {AuthRouter, HealthRouter, LegacyStreamRouter, TelemetryRouter, RootRouter}"
  by (cases r) (simp_all add: router_role_def)

lemma api_routers_guarded: "(r, ''/api/v1'') \<in> set registered_routers \<Longrightarrow> router_role r \<noteq> None"
  by (auto simp: registered_routers_def router_role_def)

lemma dict_setdefault_keys [simp]: "set (dict_keys (dict_setdefault k v d)) = insert k (set (dict_keys d))"
  by (auto simp: dict_setdefault_def)

lemma dict_get_setdefault:
  "dict_get (dict_setdefault k v d) k' = (if k' = k \<and> dict_get d k = None then Some v else dict_get d k')"
  by (auto simp: dict_setdefault_def dict_get_None_iff)

lemma setdefault_header_keys [simp]:
  "set (dict_keys (hr_headers (setdefault_header k v r))) = insert k (set (dict_keys (hr_headers r)))"
  by (simp add: setdefault_header_def)

lemma mark_legacy_route_keys: "set (dict_keys (hr_headers r)) \<subseteq> set (dict_keys (hr_headers (mark_legacy_route path r)))"
  by (auto simp: mark_legacy_route_def split: option.split)

definition hardening_headers :: "string set" where
  "hardening_headers =
     {''x-content-type-options'', ''x-frame-options'', ''referrer-policy'', ''permissions-policy'', ''content-security-policy''}"

lemma add_security_headers_keys: "hardening_headers \<subseteq> set (dict_keys (hr_headers (add_security_headers s path r)))"
  unfolding add_security_headers_def
  by (rule order_trans [OF _ mark_legacy_route_keys]) (simp add: hardening_headers_def)

lemma fold_dict_set_keys:
  "set (dict_keys d) \<subseteq> set (dict_keys (fold (\<lambda>(name, v). dict_set name v) injected d))"
proof (induction injected arbitrary: d)
  case (Cons kv injected)
  obtain k v where "kv = (k, v)" by fastforce
  then show ?case using Cons.IH [of "dict_set k v d"] by auto
qed simp

lemma serve_result:
  assumes "snd (serve h jwt app now router http_method path error_type r injected duration_ms handler) = Some response"
  obtains rendered where "render (guarded h jwt now router r handler) = Some rendered"
    "hr_status response = hr_status rendered" "hr_body response = hr_body rendered"
    "hardening_headers \<subseteq> set (dict_keys (hr_headers response))"
proof -
  have st: "hr_status (add_security_headers s p x) = hr_status x" "hr_body (add_security_headers s p x) = hr_body x"
    for s p and x :: "'a payload http_response"
    by (auto simp: add_security_headers_def mark_legacy_route_def setdefault_header_def split: option.split)
  obtain rendered where r: "render (guarded h jwt now router r handler) = Some rendered"
    and resp: "response = (if tx_enabled (ap_tracing app)
      then (add_security_headers (ap_web_security app) path rendered)\<lparr>hr_headers :=
        fold (\<lambda>(name, v). dict_set name v) injected (hr_headers (add_security_headers (ap_web_security app) path rendered))\<rparr>
      else add_security_headers (ap_web_security app) path rendered)"
    using assms by (auto simp: serve_def add_structured_request_log_def trace_fastapi_request_def
        split: option.splits if_splits)
  show ?thesis
    using add_security_headers_keys [of "ap_web_security app" path rendered] fold_dict_set_keys
    by (intro that [OF r]) (fastforce simp: resp st)+
qed

lemma decode_token_errors:
  "decode_token jwt now token use s = Inl e \<Longrightarrow> (\<exists>d. e = unauthorized d) \<or> e = Unhandled"
  by (auto simp: decode_token_def simp del: text_of_simps split: jwt_result.splits json.splits if_splits option.splits)

lemma get_current_user_errors:
  "get_current_user h jwt now r = Inl e \<Longrightarrow> (\<exists>d. e = unauthorized d) \<or> e = configuration_error \<or> e = Unhandled"
  by (auto simp: get_current_user_def decode_access_token_def simp del: text_of_simps dest: decode_token_errors
      split: option.splits prod.splits if_splits sum.splits)

lemma require_role_errors:
  "require_role h jwt now role r = Inl e \<Longrightarrow> e = Unhandled \<or> (\<exists>status detail b. e = ApiError status detail b \<and> status \<in> {401, 403, 503})"
  using get_current_user_errors [of h jwt now r e]
  by (auto simp: require_role_def bind_r_eq_Inl forbidden_api_def configuration_error_def unauthorized_def
      split: if_splits)

section \<open>Properties\<close>

text \<open>
  C4: Responses and roles of the application. On every router, each response the application returns carries the five
  security headers, whatever the handler returns or raises, the trace and the path; only an exception that
  nothing catches leaves without them, for then the server answers and not the application. On a router that demands a role
  the handler is reached only by a request whose bearer token names a user of at least this role: for every other
  request neither the logged event nor the response depends on the handler, and the response is 401, 403 or 503.
\<close>

theorem responses_hardened_and_guarded:
  "(\<forall>response. snd (serve h jwt app now router http_method path error_type r injected duration_ms handler) = Some response \<longrightarrow>
     {''x-content-type-options'', ''x-frame-options'', ''referrer-policy'', ''permissions-policy'', ''content-security-policy''}
       \<subseteq> set (dict_keys (hr_headers response))) \<and>
   (\<forall>role. router_role router = Some role \<longrightarrow>
     (\<exists>user. get_current_user h jwt now r = Inr user \<and> role_order role \<le> role_order (au_role user)) \<or>
     (\<forall>handler'. serve h jwt app now router http_method path error_type r injected duration_ms handler'
        = serve h jwt app now router http_method path error_type r injected duration_ms handler) \<and>
     (\<forall>response. snd (serve h jwt app now router http_method path error_type r injected duration_ms handler) = Some response \<longrightarrow>
        hr_status response \<in> {401, 403, 503}))"
proof (intro conjI allI impI)
  fix response
  assume "snd (serve h jwt app now router http_method path error_type r injected duration_ms handler) = Some response"
  then show "{''x-content-type-options'', ''x-frame-options'', ''referrer-policy'', ''permissions-policy'', ''content-security-policy''}
      \<subseteq> set (dict_keys (hr_headers response))"
    using serve_result unfolding hardening_headers_def by blast
next
  fix role assume role: "router_role router = Some role"
  show "(\<exists>user. get_current_user h jwt now r = Inr user \<and> role_order role \<le> role_order (au_role user)) \<or>
     (\<forall>handler'. serve h jwt app now router http_method path error_type r injected duration_ms handler'
        = serve h jwt app now router http_method path error_type r injected duration_ms handler) \<and>
     (\<forall>response. snd (serve h jwt app now router http_method path error_type r injected duration_ms handler) = Some response \<longrightarrow>
        hr_status response \<in> {401, 403, 503})"
  proof (cases "require_role h jwt now role r")
    case (Inr user)
    then have "get_current_user h jwt now r = Inr user \<and> role_order role \<le> role_order (au_role user)"
      by (auto simp: require_role_def bind_r_eq_Inr split: if_splits)
    then show ?thesis by blast
  next
    case (Inl e)
    then have g: "guarded h jwt now router r handler' = Inl e" for handler' :: "api_error + 'a http_response"
      using role by (simp add: guarded_def)
    have "case e of ApiError status _ _ \<Rightarrow> status \<in> {401, 403, 503} | Unhandled \<Rightarrow> True"
      using require_role_errors [OF Inl] by (auto split: api_error.split)
    then have "hr_status response \<in> {401, 403, 503}"
      if "snd (serve h jwt app now router http_method path error_type r injected duration_ms handler) = Some response" for response
      using serve_result [OF that] by (auto simp: g render_def split: api_error.splits)
    then show ?thesis by (auto simp: serve_def g)
  qed
qed

definition sample_app :: app_state where
  "sample_app =
     \<lparr>ap_web_security = \<lparr>ws_allowed_origins = DEFAULT_ALLOWED_ORIGINS, ws_content_security_policy = DEFAULT_CONTENT_SECURITY_POLICY\<rparr>,
      ap_tracing = \<lparr>tx_enabled = True, tx_service_name = [], tx_exporter = TRACE_NONE, tx_otlp_endpoint = [],
        tx_export_timeout_seconds = Fin 1, tx_max_queue_size = 512, tx_max_export_batch_size = 128\<rparr>\<rparr>"

theorem responses_hardened_and_guarded_witness:
  "case snd (serve (sample_host []) spelled_jwt sample_app 0 AssetRouter (text_of ''GET'') (text_of ''/asset/x'') []
      plain_request [(''traceparent'', text_of ''00-1'')] 3 (Inr (answered 200 (42 :: int)))) of
     None \<Rightarrow> False
   | Some response \<Rightarrow> hr_status response \<in> {401, 403, 503} \<and> hardening_headers \<subseteq> set (dict_keys (hr_headers response))"
proof -
  have none: "get_current_user (sample_host []) spelled_jwt 0 plain_request = Inl (unauthorized ''authentication required'')"
    by (simp add: get_current_user_def plain_request_def)
  have role: "router_role AssetRouter = Some Viewer" by (simp add: router_role_def)
  obtain response where response: "snd (serve (sample_host []) spelled_jwt sample_app 0 AssetRouter (text_of ''GET'')
      (text_of ''/asset/x'') [] plain_request [(''traceparent'', text_of ''00-1'')] 3 (Inr (answered 200 (42 :: int)))) = Some response"
    by (auto simp: serve_def guarded_def role require_role_def none render_def unauthorized_def
        add_structured_request_log_def trace_fastapi_request_def sample_app_def simp del: text_of_simps)
  note both = responses_hardened_and_guarded [of "sample_host []" spelled_jwt sample_app 0 AssetRouter "text_of ''GET''"
      "text_of ''/asset/x''" "[]" plain_request "[(''traceparent'', text_of ''00-1'')]" 3 "Inr (answered 200 (42 :: int))"]
  have "hr_status response \<in> {401, 403, 503}"
    using both [THEN conjunct2, rule_format, OF role] none response by auto
  moreover have "hardening_headers \<subseteq> set (dict_keys (hr_headers response))"
    using both [THEN conjunct1, rule_format, OF response] unfolding hardening_headers_def .
  ultimately show ?thesis unfolding response by simp
qed

text \<open>
  Readiness is exactly the health of the dependencies: \<open>/readyz\<close> answers 200 just when the
  database probe does not raise and the registry can be listed, and 503 otherwise; \<open>/healthz\<close>
  does not depend on either.
\<close>

theorem readiness_iff:
  "(fst (readyz probe (streaming_module_status netloc_ok config repo paths)) = 200 \<longleftrightarrow>
      probe \<noteq> None \<and> is_ok (list_registered_streams netloc_ok config repo paths)) \<and>
   fst (readyz probe (streaming_module_status netloc_ok config repo paths)) \<in> {200, 503} \<and>
   report_is_ready healthz"
  by (cases "list_registered_streams netloc_ok config repo paths")
    (auto simp: readyz_def health_from_checks_def report_is_ready_def database_check_def streaming_checks_def
      streaming_module_status_def healthz_def check_is_ok_def Let_def split: option.split)

end
