(* ===== verification/Ai_Adapter.thy ===== *)
theory Ai_Adapter
  imports Ai_Contract Auth Stream_Path
begin

text \<open>
  The AI adapter, \<open>backend/modules/ai_adapter\<close>: its settings with the configured processor
  endpoints, the analysis of a stream by a processor and the rows it stores, and the endpoint.
  The JSON reader, the HTTP exchange with the processor and the table are arguments.
\<close>

section \<open>Settings\<close>

record ai_adapter_settings =
  aa_processor_endpoints_json :: pytext
  aa_stream_base_url :: pytext
  aa_timeout_seconds :: pyfloat

definition absolute_http_url :: "(pytext \<Rightarrow> bool) \<Rightarrow> pytext \<Rightarrow> bool option" where
  "absolute_http_url netloc_ok url =
     map_option (\<lambda>u. http_scheme (url_scheme u) \<and> url_hostname u \<noteq> []) (urlparse netloc_ok url)"

definition validate_stream_base_url :: "host \<Rightarrow> pytext \<Rightarrow> settings_error + pytext" where
  "validate_stream_base_url h url =
     (if absolute_http_url (h_netloc_ok h) url = Some True then Inr (strip_right (\<lambda>c. c = 47) url)
      else Inl (InvalidSetting ''AI_STREAM_BASE_URL''))"

text \<open>The timeout's bounds are \<open>0.1\<close>, the double nearest to a tenth, and 30.\<close>

definition ai_adapter_from_env :: "host \<Rightarrow> settings_error + ai_adapter_settings" where
  "ai_adapter_from_env h =
     bind_r (str_field h ''AI_PROCESSOR_ENDPOINTS_JSON'' (text_of ''{}'')) (\<lambda>endpoints.
     bind_r (setting_field h ''AI_STREAM_BASE_URL'' (text_of ''http://mediamtx:8889'') (validate_stream_base_url h)) (\<lambda>base.
     bind_r (setting_field h ''AI_ADAPTER_TIMEOUT_SECONDS'' (Fin 2)
               (\<lambda>raw. checked_value ''AI_ADAPTER_TIMEOUT_SECONDS''
                  (\<lambda>f. fle (mk_float (1 / 10)) f \<and> fle f (Fin 30)) (h_float h raw))) (\<lambda>timeout.
     Inr \<lparr>aa_processor_endpoints_json = endpoints, aa_stream_base_url = base, aa_timeout_seconds = timeout\<rparr>)))"

datatype adapter_error =
    BadStreamId | ProcessorNotFound | ProcessorUnavailable | AdapterConfiguration | AdapterCrash

fun endpoints_of :: "(pytext \<Rightarrow> bool) \<Rightarrow> (pytext, json) dict \<Rightarrow> adapter_error + (pytext, pytext) dict" where
  "endpoints_of netloc_ok [] = Inr []"
| "endpoints_of netloc_ok ((processor_id, endpoint) # raw) =
     (case endpoint of
        JStr url \<Rightarrow>
          (case absolute_http_url netloc_ok url of
             None \<Rightarrow> Inl AdapterCrash
           | Some ok \<Rightarrow>
               if processor_id = [] \<or> \<not> ok then Inl AdapterConfiguration
               else bind_r (endpoints_of netloc_ok raw) (\<lambda>rest. Inr ((processor_id, url) # rest)))
      | _ \<Rightarrow> Inl AdapterConfiguration)"

definition processor_endpoints ::
    "(pytext \<Rightarrow> json option) \<Rightarrow> (pytext \<Rightarrow> bool) \<Rightarrow> ai_adapter_settings \<Rightarrow> adapter_error + (pytext, pytext) dict" where
  "processor_endpoints json_loads netloc_ok s =
     (case json_loads (aa_processor_endpoints_json s) of
        Some (JObj raw) \<Rightarrow> endpoints_of netloc_ok raw
      | _ \<Rightarrow> Inl AdapterConfiguration)"

section \<open>Analysis\<close>

definition canonical_char :: "nat \<Rightarrow> bool" where
  "canonical_char c \<longleftrightarrow> ascii_alnum c \<or> c = 46 \<or> c = 95 \<or> c = 47 \<or> c = 45"

definition is_canonical_stream_id :: "pytext \<Rightarrow> bool" where
  "is_canonical_stream_id s \<longleftrightarrow>
     s \<noteq> [] \<and> ascii_alnum (hd s) \<and> list_all canonical_char (tl s) \<and> length (tl s) \<le> 159 \<and>
     \<not> contains (text_of ''..'') s \<and> \<not> contains (text_of ''//'') s"

record processor_request =
  pq_schema_version :: string
  pq_stream_id :: pytext
  pq_frame_stream_id :: pytext
  pq_captured_at :: pydatetime
  pq_image_url :: pytext

text \<open>
  The exchange: an error of httpx, another exception, a body that is not JSON of the shape the
  schema reads, or the fields of a response.
\<close>

datatype processor_reply = HttpxError | OtherException | Malformed | Response ai_response

record ai_result_event =
  ae_event_id :: pytext
  ae_stream_id :: pytext
  ae_group_id :: pytext
  ae_processor_id :: pytext
  ae_schema_version :: string
  ae_payload :: ai_response
  ae_generated_at :: pydatetime
  ae_stored_at :: pydatetime

definition analysis_request :: "ai_adapter_settings \<Rightarrow> pydatetime \<Rightarrow> pytext \<Rightarrow> processor_request" where
  "analysis_request s now stream_id =
     \<lparr>pq_schema_version = ''ai.detection.v1alpha1'', pq_stream_id = stream_id, pq_frame_stream_id = stream_id,
      pq_captured_at = now,
      pq_image_url = aa_stream_base_url s @ text_of ''/'' @ stream_id @ text_of ''/whep''\<rparr>"

definition check_reply :: "validator_lib \<Rightarrow> pytext \<Rightarrow> processor_reply \<Rightarrow> adapter_error + ai_response" where
  "check_reply lib stream_id reply =
     (case reply of
        HttpxError \<Rightarrow> Inl ProcessorUnavailable
      | OtherException \<Rightarrow> Inl AdapterCrash
      | Malformed \<Rightarrow> Inl ProcessorUnavailable
      | Response raw \<Rightarrow>
          (case validate_response lib raw of
             Inl _ \<Rightarrow> Inl ProcessorUnavailable
           | Inr result \<Rightarrow>
               if rs_stream_id result \<noteq> stream_id \<or> fr_stream_id (rs_frame result) \<noteq> stream_id
               then Inl ProcessorUnavailable
               else Inr result))"

text \<open>\<open>stored_at\<close> is the clock at the time of the row, \<open>uuid\<close> the fresh identifier.\<close>

definition analyze ::
    "(pytext \<Rightarrow> json option) \<Rightarrow> (pytext \<Rightarrow> bool) \<Rightarrow> validator_lib \<Rightarrow> (pytext \<Rightarrow> processor_request \<Rightarrow> processor_reply) \<Rightarrow>
       (ai_result_event \<Rightarrow> 'db \<Rightarrow> 'db option) \<Rightarrow> ai_adapter_settings \<Rightarrow> pydatetime \<Rightarrow> pydatetime \<Rightarrow> pytext \<Rightarrow>
       pytext \<Rightarrow> pytext \<Rightarrow> pytext \<Rightarrow> 'db \<Rightarrow> 'db \<times> (adapter_error + ai_response)" where
  "analyze json_loads netloc_ok lib post add_row s now stored_at uuid stream_id processor_id group_id db =
     (if \<not> is_canonical_stream_id stream_id then (db, Inl BadStreamId)
      else case processor_endpoints json_loads netloc_ok s of
             Inl e \<Rightarrow> (db, Inl e)
           | Inr endpoints \<Rightarrow>
               (case dict_get endpoints processor_id of
                  None \<Rightarrow> (db, Inl ProcessorNotFound)
                | Some endpoint \<Rightarrow>
                    (case check_reply lib stream_id (post endpoint (analysis_request s now stream_id)) of
                       Inl e \<Rightarrow> (db, Inl e)
                     | Inr result \<Rightarrow>
                         (case add_row
                             \<lparr>ae_event_id = text_of ''ai-'' @ uuid, ae_stream_id = stream_id, ae_group_id = group_id,
                              ae_processor_id = processor_id, ae_schema_version = rs_schema_version result,
                              ae_payload = result, ae_generated_at = rs_generated_at result, ae_stored_at = stored_at\<rparr> db of
                            None \<Rightarrow> (db, Inl AdapterCrash)
                          | Some db' \<Rightarrow> (db', Inr result)))))"

section \<open>The endpoint\<close>

record ai_analysis_request =
  an_stream_id :: pytext
  an_processor_id :: pytext

definition validate_analysis_request :: "validator_lib \<Rightarrow> ai_analysis_request \<Rightarrow> ai_analysis_request option" where
  "validate_analysis_request lib r =
     (let stream_id = vl_strip lib (an_stream_id r); processor_id = vl_strip lib (an_processor_id r)
      in if 1 \<le> length stream_id \<and> length stream_id \<le> 160 \<and> 1 \<le> length processor_id \<and> length processor_id \<le> 128 \<and>
            is_canonical_stream_id stream_id
         then Some \<lparr>an_stream_id = stream_id, an_processor_id = processor_id\<rparr> else None)"

definition analyze_stream :: "ai_analysis_request \<Rightarrow> authenticated_user \<Rightarrow> api_error + ai_response" where
  "analyze_stream request current_user = Inl (ApiError 503 ''AI stream binding resolver is not configured'' False)"

text \<open>The settings are read at every call; only two of the adapter's errors are translated.\<close>

definition analyze_server_bound_stream ::
    "host \<Rightarrow> (pytext \<Rightarrow> json option) \<Rightarrow> validator_lib \<Rightarrow> (pytext \<Rightarrow> processor_request \<Rightarrow> processor_reply) \<Rightarrow>
       (ai_result_event \<Rightarrow> 'db \<Rightarrow> 'db option) \<Rightarrow> pydatetime \<Rightarrow> pydatetime \<Rightarrow> pytext \<Rightarrow> ai_analysis_request \<Rightarrow> pytext \<Rightarrow>
       'db \<Rightarrow> 'db \<times> (api_error + ai_response)" where
  "analyze_server_bound_stream h json_loads lib post add_row now stored_at uuid request group_id db =
     (case ai_adapter_from_env h of
        Inl _ \<Rightarrow> (db, Inl Unhandled)
      | Inr s \<Rightarrow>
          (case analyze json_loads (h_netloc_ok h) lib post add_row s now stored_at uuid
                  (an_stream_id request) (an_processor_id request) group_id db of
             (db', Inr result) \<Rightarrow> (db', Inr result)
           | (db', Inl ProcessorNotFound) \<Rightarrow> (db', Inl (ApiError 404 ''AI processor is not configured'' False))
           | (db', Inl ProcessorUnavailable) \<Rightarrow> (db', Inl (ApiError 503 ''AI processor request failed'' False))
           | (db', Inl _) \<Rightarrow> (db', Inl Unhandled)))"

section \<open>Lemmas\<close>

lemma endpoints_of_http:
  assumes "endpoints_of netloc_ok raw = Inr endpoints" "(processor_id, url) \<in> set endpoints"
  shows "processor_id \<noteq> [] \<and> absolute_http_url netloc_ok url = Some True"
  using assms
proof (induction raw arbitrary: endpoints)
  case (Cons kv raw)
  obtain k v where kv: "kv = (k, v)" by fastforce
  from Cons.prems(1) obtain u rest where "v = JStr u" "absolute_http_url netloc_ok u = Some True" "k \<noteq> []"
    "endpoints_of netloc_ok raw = Inr rest" "endpoints = (k, u) # rest"
    by (auto simp: kv bind_r_eq_Inr split: json.splits option.splits if_splits)
  then show ?case using Cons.IH [of rest] Cons.prems(2) by auto
qed simp

lemma processor_endpoint_http:
  assumes "processor_endpoints json_loads netloc_ok s = Inr endpoints" "dict_get endpoints processor_id = Some url"
  shows "absolute_http_url netloc_ok url = Some True"
  using assms endpoints_of_http dict_get_Some_in
  by (fastforce simp: processor_endpoints_def split: option.splits json.splits)

lemma check_reply_Inr:
  "check_reply lib stream_id reply = Inr result \<longleftrightarrow>
     (\<exists>raw. reply = Response raw \<and> validate_response lib raw = Inr result \<and>
        rs_stream_id result = stream_id \<and> fr_stream_id (rs_frame result) = stream_id)"
  by (auto simp: check_reply_def split: processor_reply.splits sum.splits)

lemma sp_parts_canonical:
  assumes "wf_stream_path sp" "p \<in> set (sp_parts sp)" "c \<in> set p"
  shows "canonical_char c"
proof -
  have "segment_pattern p \<or> date_pattern p \<or> p = prefix_text (sp_prefix sp)"
    using assms(1,2) by (auto simp: wf_stream_path_def sp_parts_def archive_date_ok_def split: stream_prefix.splits)
  then show ?thesis
    using assms(3) segment_chars [of p c] date_chars [of p c]
    by (auto simp: canonical_char_def segment_char_def ascii_alnum_def ascii_alpha_def prefix_text_def of_char_def
        split: stream_prefix.splits)
qed

lemma sp_path_no_double_slash:
  assumes "wf_stream_path sp"
  shows "\<not> contains [47, 47] (sp_path sp)"
proof
  assume "contains [47, 47] (sp_path sp)"
  then obtain t u where "sp_path sp = t @ 47 # (47 # u)" by (auto simp: contains_iff)
  then have "[] \<in> set (split_on 47 (sp_path sp))" by (simp add: split_on_at)
  moreover have "split_on 47 (sp_path sp) = sp_parts sp"
    using sp_parts_ok [OF assms] unfolding sp_path_join [OF assms]
    by (intro split_join) (auto simp: sp_parts_def)
  ultimately show False using sp_parts_ok [OF assms, of "[]"] by simp
qed

lemma sp_path_canonical_chars:
  assumes "wf_stream_path sp" "c \<in> set (sp_path sp)"
  shows "canonical_char c"
  using set_join_with [of c "[47]" "sp_parts sp"] sp_parts_canonical [OF assms(1)] assms
  by (auto simp: sp_path_join canonical_char_def)

lemma sp_path_head:
  assumes "wf_stream_path sp"
  shows "sp_path sp \<noteq> [] \<and> ascii_alnum (hd (sp_path sp))"
proof -
  have p: "prefix_text (sp_prefix sp) \<noteq> [] \<and> ascii_alnum (hd (prefix_text (sp_prefix sp)))"
    by (auto simp: prefix_text_def of_char_def ascii_alnum_def ascii_alpha_def split: stream_prefix.splits)
  have j: "sp_path sp = join_with [47] (prefix_text (sp_prefix sp) # tl (sp_parts sp))"
    using sp_path_join [OF assms] by (simp add: sp_parts_def)
  have "hd (sp_path sp) = hd (prefix_text (sp_prefix sp))"
    using hd_join_with [of "prefix_text (sp_prefix sp)" "[47]" "tl (sp_parts sp)"] p j by simp
  moreover have "sp_path sp \<noteq> []"
    using join_with_Nil [of "[47]" "prefix_text (sp_prefix sp) # tl (sp_parts sp)" "prefix_text (sp_prefix sp)"] p j by auto
  ultimately show ?thesis using p by simp
qed

section \<open>Properties\<close>

text \<open>
  An analysis stores exactly what it answers: a result comes from a configured endpoint that
  is an absolute HTTP URL, passed the schema, is about the stream asked for and is stored as one
  row under that stream; with every error the table stays as it was.
\<close>

theorem analysis_stores_matching_result:
  assumes "analyze json_loads netloc_ok lib post add_row s now stored_at uuid stream_id processor_id group_id db = (db', res)"
  shows "case res of
      Inl _ \<Rightarrow> db' = db
    | Inr result \<Rightarrow> is_canonical_stream_id stream_id \<and>
        (\<exists>endpoint raw event. absolute_http_url netloc_ok endpoint = Some True \<and>
          post endpoint (analysis_request s now stream_id) = Response raw \<and> validate_response lib raw = Inr result \<and>
          rs_stream_id result = stream_id \<and> fr_stream_id (rs_frame result) = stream_id \<and>
          add_row event db = Some db' \<and> ae_stream_id event = stream_id \<and> ae_processor_id event = processor_id \<and>
          ae_payload event = result)"
  using assms
  by (force simp: analyze_def check_reply_Inr simp del: text_of_simps dest: processor_endpoint_http
      split: if_splits sum.splits option.splits)

definition epoch :: pydatetime where
  "epoch = \<lparr>dt_wall_micros = 0, dt_utcoffset_micros = Some 0\<rparr>"

definition sample_result :: ai_response where
  "sample_result =
     \<lparr>rs_schema_version = AI_CONTRACT_SCHEMA_VERSION, rs_stream_id = text_of ''raw/a/b'',
      rs_frame = \<lparr>fr_stream_id = text_of ''raw/a/b'', fr_frame_id = None, fr_captured_at = epoch, fr_pts_ms = None\<rparr>,
      rs_generated_at = epoch, rs_risk_score = Fin 0, rs_report_text = text_of ''none'', rs_detections = []\<rparr>"

definition sample_analysis :: "ai_result_event list \<times> (adapter_error + ai_response)" where
  "sample_analysis =
     analyze (\<lambda>_. Some (JObj [(text_of ''p'', JStr (text_of ''http://p''))])) (\<lambda>_. False) ascii_lib
       (\<lambda>_ _. Response sample_result) (\<lambda>event rows. Some (event # rows))
       \<lparr>aa_processor_endpoints_json = [], aa_stream_base_url = [], aa_timeout_seconds = Fin 2\<rparr> epoch epoch
       [] (text_of ''raw/a/b'') (text_of ''p'') [] []"

lemma sample_analysis_ok: "is_ok (snd sample_analysis)"
  by code_simp

theorem analysis_stores_matching_result_witness:
  "case snd sample_analysis of Inl _ \<Rightarrow> False | Inr result \<Rightarrow> rs_stream_id result = text_of ''raw/a/b''"
proof -
  obtain result where r: "snd sample_analysis = Inr result" using sample_analysis_ok by (auto simp: is_ok_iff)
  then have "sample_analysis = (fst sample_analysis, Inr result)" by (metis prod.collapse)
  from analysis_stores_matching_result [OF this [unfolded sample_analysis_def]] show ?thesis
    using r by auto
qed

text \<open>
  The two notions of a stream agree: every path the routing contract accepts is a canonical
  stream identifier for the adapter, unless it has more than 160 characters.
\<close>

theorem stream_paths_are_canonical:
  assumes "validate_stream_path path = Inr sp"
  shows "is_canonical_stream_id path \<longleftrightarrow> length path \<le> 160"
proof -
  have wf: "wf_stream_path sp" and path: "path = sp_path sp" using assms by (auto simp: validate_stream_path_iff)
  have "\<not> contains [46, 46] path"
    using sp_path_no_dot [OF wf] path by (auto simp: contains_iff)
  moreover have "\<not> contains [47, 47] path" using sp_path_no_double_slash [OF wf] path by simp
  moreover have "path \<noteq> []" "ascii_alnum (hd path)" using sp_path_head [OF wf] path by auto
  moreover have "list_all canonical_char (tl path)"
    using sp_path_canonical_chars [OF wf] path by (cases "sp_path sp") (auto simp: list_all_iff)
  moreover have "length (tl path) \<le> 159 \<longleftrightarrow> length path \<le> 160" by auto
  ultimately show ?thesis by (simp add: is_canonical_stream_id_def of_char_def)
qed

theorem stream_paths_are_canonical_witness:
  "is_canonical_stream_id (text_of ''raw/sample/front'') \<longleftrightarrow> length (text_of ''raw/sample/front'') \<le> 160"
proof -
  have "is_ok (validate_stream_path (text_of ''raw/sample/front''))" by code_simp
  then show ?thesis using stream_paths_are_canonical unfolding is_ok_iff by blast
qed

end
