(* ===== verification/Base32.thy ===== *)
theory Base32
  imports Text
begin

text \<open>
  Two codecs of Python's standard library that the release tools call: \<open>base64.b32encode\<close> and
  \<open>b32decode\<close>, and \<open>zlib.crc32\<close>. The lemmas show that decoding inverts encoding, with or without
  the padding, and that the checksum tells any two messages apart that differ in one octet.
\<close>

section \<open>Digits\<close>

text \<open>\<open>int.from_bytes\<close> and \<open>int.to_bytes\<close>, big endian, for any base.\<close>

definition value_of :: "nat \<Rightarrow> nat list \<Rightarrow> nat" where
  "value_of b ds = foldl (\<lambda>acc d. acc * b + d) 0 ds"

fun digits_of :: "nat \<Rightarrow> nat \<Rightarrow> nat \<Rightarrow> nat list" where
  "digits_of b 0 v = []"
| "digits_of b (Suc n) v = digits_of b n (v div b) @ [v mod b]"

definition from_bytes :: "bytes \<Rightarrow> nat" where
  "from_bytes bs = value_of 256 (map unat bs)"

definition to_bytes :: "nat \<Rightarrow> nat \<Rightarrow> bytes" where
  "to_bytes n v = map octet (digits_of 256 n v)"

function chunks :: "nat \<Rightarrow> 'a list \<Rightarrow> 'a list list" where
  "chunks n xs = (if n = 0 \<or> xs = [] then [] else take n xs # chunks n (drop n xs))"
  by auto
termination by (relation "measure (\<lambda>(n, xs). length xs)") auto

declare chunks.simps [simp del]

section \<open>Base32\<close>

definition b32_alphabet :: pytext where
  "b32_alphabet = text_of ''ABCDEFGHIJKLMNOPQRSTUVWXYZ234567''"

definition b32_char :: "nat \<Rightarrow> nat" where
  "b32_char d = b32_alphabet ! d"

definition b32_digit :: "nat \<Rightarrow> nat option" where
  "b32_digit c =
     (if 65 \<le> c \<and> c \<le> 90 then Some (c - 65) else if 50 \<le> c \<and> c \<le> 55 then Some (c - 24) else None)"

definition b32_padding :: "nat \<Rightarrow> nat" where
  "b32_padding leftover = (if leftover = 1 then 6 else if leftover = 2 then 4 else if leftover = 3 then 3 else if leftover = 4 then 1 else 0)"

definition b32encode :: "bytes \<Rightarrow> pytext" where
  "b32encode s =
     (let leftover = length s mod 5;
          padded = (if leftover = 0 then s else s @ replicate (5 - leftover) 0);
          encoded = concat (map (\<lambda>q. map b32_char (digits_of 32 8 (from_bytes q))) (chunks 5 padded));
          p = b32_padding leftover
      in take (length encoded - p) encoded @ replicate p 61)"

definition ascii_upper :: "nat \<Rightarrow> nat" where
  "ascii_upper c = (if 97 \<le> c \<and> c \<le> 122 then c - 32 else c)"

text \<open>The value of a quantum, \<open>None\<close> when a character is no digit.\<close>

definition quantum_value :: "pytext \<Rightarrow> nat option" where
  "quantum_value q = map_option (value_of 32) (those (map b32_digit q))"

text \<open>\<open>b32decode(s, casefold=True)\<close>; \<open>None\<close> is a \<open>binascii.Error\<close> or the \<open>ValueError\<close> of a text that is not ASCII.\<close>

definition b32decode :: "pytext \<Rightarrow> bytes option" where
  "b32decode s =
     (if \<not> list_all (\<lambda>c. c < 128) s \<or> length s mod 8 \<noteq> 0 then None
      else
        let stripped = strip_right (\<lambda>c. c = 61) (map ascii_upper s);
            padchars = length s - length stripped
        in Option.bind (those (map quantum_value (chunks 8 stripped))) (\<lambda>accs.
          let decoded = concat (map (to_bytes 5) accs)
          in if padchars \<notin> {0, 1, 3, 4, 6} then None
             else if 0 < padchars \<and> decoded \<noteq> []
             then Some (take (length decoded - 5) decoded @
                        take ((43 - 5 * padchars) div 8) (to_bytes 5 (last accs * 2 ^ (5 * padchars))))
             else Some decoded))"

section \<open>CRC-32\<close>

definition crc_round :: "32 word \<Rightarrow> 32 word" where
  "crc_round c = (if bit c 0 then xor (drop_bit 1 c) 0xEDB88320 else drop_bit 1 c)"

definition crc_octet :: "byte \<Rightarrow> 32 word \<Rightarrow> 32 word" where
  "crc_octet b c = (crc_round ^^ 8) (xor c (ucast b))"

definition crc32 :: "bytes \<Rightarrow> 32 word" where
  "crc32 bs = not (fold crc_octet bs (not 0))"

section \<open>Lemmas on digits\<close>

lemma digits_of_length [simp]: "length (digits_of b n v) = n"
  by (induction n arbitrary: v) simp_all

lemma value_of_snoc: "value_of b (ds @ [d]) = value_of b ds * b + d"
  by (simp add: value_of_def)

lemma value_of_Nil [simp]: "value_of b [] = 0"
  by (simp add: value_of_def)

lemma value_of_less: "list_all (\<lambda>d. d < b) ds \<Longrightarrow> value_of b ds < b ^ length ds"
proof (induction ds rule: rev_induct)
  case (snoc d ds)
  then have "value_of b ds + 1 \<le> b ^ length ds" "d < b" by simp_all
  then have "(value_of b ds + 1) * b \<le> b ^ length ds * b" using mult_le_mono1 by blast
  with \<open>d < b\<close> show ?case by (simp add: value_of_snoc algebra_simps)
qed simp

lemma digits_of_value: "list_all (\<lambda>d. d < b) ds \<Longrightarrow> digits_of b (length ds) (value_of b ds) = ds"
  by (induction ds rule: rev_induct) (auto simp: value_of_snoc)

lemma value_of_digits: "0 < b \<Longrightarrow> value_of b (digits_of b n v) = v mod b ^ n"
proof (induction n arbitrary: v)
  case (Suc n)
  have "v mod (b * b ^ n) = b * (v div b mod b ^ n) + v mod b" by (rule mod_mult2_eq)
  with Suc show ?case by (simp add: value_of_snoc algebra_simps)
qed simp

lemma digits_of_less: "0 < b \<Longrightarrow> list_all (\<lambda>d. d < b) (digits_of b n v)"
  by (induction n arbitrary: v) simp_all

lemma digits_of_shift: "0 < b \<Longrightarrow> digits_of b (n + k) (v * b ^ k) = digits_of b n v @ replicate k 0"
proof (induction k)
  case (Suc k)
  then have "digits_of b (Suc (n + k)) (v * b ^ k * b) = digits_of b (n + k) (v * b ^ k) @ [0]" by simp
  then have "digits_of b (n + Suc k) (v * b ^ Suc k) = digits_of b n v @ replicate k 0 @ [0]"
    using Suc by (simp add: algebra_simps)
  then show ?case by (simp add: replicate_append_same)
qed simp

lemma digits_of_take: "k \<le> n \<Longrightarrow> 0 < b \<Longrightarrow> take k (digits_of b n v) = digits_of b k (v div b ^ (n - k))"
proof (induction n arbitrary: v k)
  case (Suc n)
  show ?case
  proof (cases "k = Suc n")
    case False
    with Suc.prems have "k \<le> n" by simp
    with Suc show ?thesis by (simp add: Suc_diff_le div_mult2_eq [symmetric])
  qed simp
qed simp

lemma value_of_append: "value_of b (xs @ ys) = value_of b xs * b ^ length ys + value_of b ys"
  by (induction ys rule: rev_induct) (simp_all add: value_of_snoc append_assoc [symmetric] algebra_simps del: append_assoc)

lemma value_of_zeros: "value_of b (replicate k 0) = 0"
  by (induction k) (simp_all add: value_of_def)

lemma from_bytes_less: "from_bytes bs < 256 ^ length bs"
  using value_of_less [of 256 "map unat bs"] by (simp add: from_bytes_def list_all_iff)

lemma to_from_bytes: "to_bytes (length bs) (from_bytes bs) = bs"
  using digits_of_value [of 256 "map unat bs"] by (simp add: to_bytes_def from_bytes_def list_all_iff o_def)

lemma to_bytes_length [simp]: "length (to_bytes n v) = n"
  by (simp add: to_bytes_def)

lemma from_bytes_zeros: "from_bytes (bs @ replicate k 0) = from_bytes bs * 256 ^ k"
  using value_of_append [of 256 "map unat bs" "replicate k 0"] by (simp add: from_bytes_def value_of_zeros)

lemma chunks_Nil [simp]: "chunks n [] = []"
  by (simp add: chunks.simps)

lemma chunks_append: "length xs = n \<Longrightarrow> 0 < n \<Longrightarrow> chunks n (xs @ ys) = xs # chunks n ys"
  by (subst chunks.simps) auto

lemma chunks_short: "xs \<noteq> [] \<Longrightarrow> length xs \<le> n \<Longrightarrow> chunks n xs = [xs]"
  by (subst chunks.simps) (cases xs; auto)

lemma groups_induct [consumes 1, case_names Nil Group]:
  assumes "length xs mod n = 0" and "P []"
    and "\<And>q ys. length q = n \<Longrightarrow> 0 < n \<Longrightarrow> length ys mod n = 0 \<Longrightarrow> P ys \<Longrightarrow> P (q @ ys)"
  shows "P xs"
  using assms(1)
proof (induction xs rule: length_induct)
  case (1 xs)
  show ?case
  proof (cases "xs = []")
    case False
    with 1(2) have n: "0 < n" "n \<le> length xs"
      by (auto simp: mod_eq_0_iff_dvd dvd_imp_le intro!: Nat.gr0I)
    have "P (drop n xs)" using 1 n False by (auto simp: le_mod_geq)
    moreover have "length (drop n xs) mod n = 0" using 1(2) n by (simp add: le_mod_geq)
    ultimately have "P (take n xs @ drop n xs)" using n by (intro assms(3)) simp_all
    then show ?thesis by simp
  qed (simp add: assms(2))
qed

lemma chunks_groups: "length xs mod n = 0 \<Longrightarrow> chunks n (xs @ ys) = chunks n xs @ chunks n ys"
  by (induction xs rule: groups_induct) (simp_all add: chunks_append)

lemma those_append: "those (xs @ ys) = Option.bind (those xs) (\<lambda>us. map_option (\<lambda>vs. us @ vs) (those ys))"
  by (induction xs) (auto split: option.splits simp: map_option_case)

section \<open>Decoding inverts encoding\<close>

lemma b32_alphabet_digits: "d < 32 \<Longrightarrow> b32_digit (b32_char d) = Some d \<and> b32_char d < 128 \<and> b32_char d \<noteq> 61 \<and> ascii_upper (b32_char d) = b32_char d"
proof -
  have "\<forall>d \<in> set [0..<32]. b32_digit (b32_char d) = Some d \<and> b32_char d < 128 \<and> b32_char d \<noteq> 61 \<and> ascii_upper (b32_char d) = b32_char d"
    by code_simp
  then show "d < 32 \<Longrightarrow> ?thesis" by simp
qed

lemma quantum_value_digits: "list_all (\<lambda>d. d < 32) ds \<Longrightarrow> quantum_value (map b32_char ds) = Some (value_of 32 ds)"
proof -
  assume "list_all (\<lambda>d. d < 32) ds"
  then have "those (map b32_digit (map b32_char ds)) = Some ds"
    by (induction ds) (simp_all add: b32_alphabet_digits)
  then show ?thesis by (simp add: quantum_value_def)
qed

definition b32_group :: "bytes \<Rightarrow> pytext" where
  "b32_group q = map b32_char (digits_of 32 8 (from_bytes q))"

text \<open>The encoding without its padding: full groups, then the digits that are left over.\<close>

definition b32_rest :: "bytes \<Rightarrow> pytext" where
  "b32_rest r = (if r = [] then [] else take (8 - b32_padding (length r)) (b32_group (r @ replicate (5 - length r) 0)))"

definition b32_groups :: "bytes \<Rightarrow> pytext" where
  "b32_groups f = concat (map b32_group (chunks 5 f))"

lemma b32_group_length [simp]: "length (b32_group q) = 8"
  by (simp add: b32_group_def)

lemma b32encode_split:
  assumes "length f mod 5 = 0" and "length r < 5"
  shows "b32encode (f @ r) = b32_groups f @ b32_rest r @ replicate (b32_padding (length r)) 61"
proof (cases "r = []")
  case True
  with assms(1) show ?thesis by (simp add: b32encode_def b32_groups_def b32_rest_def b32_group_def [abs_def] b32_padding_def)
next
  case False
  have m: "length (f @ r) mod 5 = length r" using assms by (simp add: mod_add_left_eq [symmetric])
  have "chunks 5 (f @ r @ replicate (5 - length r) 0) = chunks 5 f @ [r @ replicate (5 - length r) 0]"
    using assms False by (simp add: chunks_groups chunks_short)
  then have "b32encode (f @ r) =
      take (length (b32_groups f @ b32_group (r @ replicate (5 - length r) 0)) - b32_padding (length r))
        (b32_groups f @ b32_group (r @ replicate (5 - length r) 0)) @ replicate (b32_padding (length r)) 61"
    using False m by (simp add: b32encode_def Let_def b32_groups_def b32_group_def [abs_def])
  moreover have "b32_padding (length r) \<le> 8" by (simp add: b32_padding_def)
  ultimately show ?thesis using False by (simp add: b32_rest_def)
qed

lemma mod_add_groups: "m mod n = 0 \<Longrightarrow> (m + k) mod n = k mod n" for m n k :: nat
  by (metis add_0 mod_add_left_eq)

lemma split_groups: "\<exists>f r. bs = f @ r \<and> length f mod n = 0 \<and> (0 < n \<longrightarrow> length r < n)"
proof -
  let ?k = "length bs div n * n"
  have "length (take ?k bs) = ?k" by simp
  moreover have "length (drop ?k bs) = length bs mod n" by (simp add: minus_div_mult_eq_mod)
  ultimately show ?thesis
    by (intro exI [of _ "take ?k bs"] exI [of _ "drop ?k bs"]) simp
qed

lemma b32_chars_in: "c \<in> set (b32_groups f @ b32_rest r) \<Longrightarrow> \<exists>d < 32. c = b32_char d"
proof -
  have g: "\<exists>d < 32. c = b32_char d" if "c \<in> set (b32_group q)" for q
    using that digits_of_less [of 32 8 "from_bytes q"] by (auto simp: b32_group_def list_all_iff)
  assume "c \<in> set (b32_groups f @ b32_rest r)"
  then show ?thesis
    using g by (auto simp: b32_groups_def b32_rest_def split: if_splits dest: in_set_takeD)
qed

lemma b32_text_chars:
  "c \<in> set (b32_groups f @ b32_rest r) \<Longrightarrow> c < 128 \<and> c \<noteq> 61 \<and> ascii_upper c = c"
proof -
  assume "c \<in> set (b32_groups f @ b32_rest r)"
  then obtain d where "d < 32" "c = b32_char d" using b32_chars_in by blast
  then show ?thesis using b32_alphabet_digits [of d] by simp
qed

lemma b32_groups_values: "length f mod 5 = 0 \<Longrightarrow>
    length (b32_groups f) mod 8 = 0 \<and> those (map quantum_value (chunks 8 (b32_groups f))) = Some (map from_bytes (chunks 5 f)) \<and>
    concat (map (to_bytes 5) (map from_bytes (chunks 5 f))) = f"
proof (induction f rule: groups_induct)
  case (Group q ys)
  have "value_of 32 (digits_of 32 8 (from_bytes q)) = from_bytes q"
    using from_bytes_less [of q] Group(1) by (simp add: value_of_digits)
  then have "quantum_value (b32_group q) = Some (from_bytes q)"
    by (simp add: b32_group_def quantum_value_digits digits_of_less)
  moreover have "b32_groups (q @ ys) = b32_group q @ b32_groups ys"
    using Group(1) by (simp add: b32_groups_def chunks_append)
  ultimately show ?case
    using Group(1,4) to_from_bytes [of q] by (simp add: chunks_append)
qed (simp add: b32_groups_def)

lemma b32_rest_value:
  assumes "r \<noteq> []" and "length r < 5"
  shows "quantum_value (b32_rest r) = Some (from_bytes r * 256 ^ (5 - length r) div 32 ^ b32_padding (length r))"
    and "from_bytes r * 256 ^ (5 - length r) div 32 ^ b32_padding (length r) * 2 ^ (5 * b32_padding (length r)) =
      from_bytes (r @ replicate (5 - length r) 0)"
    and "(43 - 5 * b32_padding (length r)) div 8 = length r" and "length (b32_rest r) = 8 - b32_padding (length r)"
    and "b32_padding (length r) \<in> {1, 3, 4, 6}"
proof -
  have "0 < length r" using assms(1) by simp
  with assms(2) have k: "length r = 1 \<or> length r = 2 \<or> length r = 3 \<or> length r = 4" by linarith
  then show p: "b32_padding (length r) \<in> {1, 3, 4, 6}" and "(43 - 5 * b32_padding (length r)) div 8 = length r"
    by (auto simp: b32_padding_def)
  let ?v = "from_bytes (r @ replicate (5 - length r) 0)" and ?p = "b32_padding (length r)"
  have v: "?v = from_bytes r * 256 ^ (5 - length r)" by (rule from_bytes_zeros)
  have less: "?v < 32 ^ 8" using from_bytes_less [of "r @ replicate (5 - length r) 0"] assms by simp
  have "take (8 - ?p) (digits_of 32 8 ?v) = digits_of 32 (8 - ?p) (?v div 32 ^ ?p)"
    using p by (subst digits_of_take) auto
  moreover have "?v div 32 ^ ?p < 32 ^ (8 - ?p)"
    using less p by (auto simp: div_less_iff_less_mult)
  ultimately show "quantum_value (b32_rest r) = Some (from_bytes r * 256 ^ (5 - length r) div 32 ^ ?p)"
    using assms(1) v
    by (simp add: b32_rest_def b32_group_def take_map quantum_value_digits digits_of_less value_of_digits)
  show "from_bytes r * 256 ^ (5 - length r) div 32 ^ ?p * 2 ^ (5 * ?p) = ?v"
    unfolding v using k by (auto simp: b32_padding_def)
  show "length (b32_rest r) = 8 - ?p" using assms(1) by (simp add: b32_rest_def)
qed

lemma strip_padding: "61 \<notin> set t \<Longrightarrow> strip_right (\<lambda>c. c = 61) (t @ replicate k 61) = t"
proof -
  assume t: "61 \<notin> set t"
  then have "61 \<notin> set (rev t)" by simp
  then have "dropWhile (\<lambda>c. c = 61) (rev t) = rev t" by (cases "rev t") auto
  moreover have "dropWhile (\<lambda>c. c = 61) (replicate k 61 @ u) = dropWhile (\<lambda>c. c = 61) u" for u :: pytext
    by (induction k) simp_all
  ultimately show ?thesis by (simp add: strip_right_def)
qed

lemma b32decode_padded:
  assumes "list_all (\<lambda>c. c < 128) s" and "length s mod 8 = 0" and "map ascii_upper s = s"
    and "strip_right (\<lambda>c. c = 61) s = t" and "length s = length t + k" and "k \<in> {1, 3, 4, 6}"
    and "those (map quantum_value (chunks 8 t)) = Some (accs @ [v])" and "concat (map (to_bytes 5) accs) = f"
    and "v * 2 ^ (5 * k) = w"
  shows "b32decode s = Some (f @ take ((43 - 5 * k) div 8) (to_bytes 5 w))"
proof -
  have "to_bytes 5 v \<noteq> []" by (metis list.size(3) to_bytes_length zero_neq_numeral)
  then show ?thesis using assms by (auto simp: b32decode_def Let_def)
qed

lemma b32_decode_body:
  assumes "length f mod 5 = 0" and "length r < 5"
  shows "b32decode (b32_groups f @ b32_rest r @ replicate (b32_padding (length r)) 61) = Some (f @ r)"
proof -
  let ?p = "b32_padding (length r)" and ?t = "b32_groups f @ b32_rest r"
  let ?s = "?t @ replicate ?p 61"
  have "ascii_upper c = c" if "c \<in> set ?s" for c
    using that b32_text_chars [of c f r] by (cases "c = 61") (simp_all add: ascii_upper_def split: if_splits)
  then have upper: "map ascii_upper ?s = ?s" by (rule map_idI)
  have "c < 128" if "c \<in> set ?s" for c using that b32_text_chars [of c f r] by (cases "c = 61") (simp_all split: if_splits)
  then have ascii: "list_all (\<lambda>c. c < 128) ?s" unfolding list_all_iff by blast
  have "61 \<notin> set ?t" using b32_text_chars [of 61 f r] by blast
  then have strip: "strip_right (\<lambda>c. c = 61) ?s = ?t" by (rule strip_padding)
  note f = b32_groups_values [OF assms(1)]
  have len: "length ?s mod 8 = 0"
    using f b32_rest_value(4,5) [OF _ assms(2)] by (cases "r = []") (auto simp: b32_rest_def b32_padding_def mod_add_groups)
  show ?thesis
  proof (cases "r = []")
    case True
    then show ?thesis
      using f len ascii strip upper by (simp add: b32decode_def Let_def b32_rest_def b32_padding_def)
  next
    case False
    note r = b32_rest_value [OF False assms(2)]
    let ?v = "from_bytes r * 256 ^ (5 - length r) div 32 ^ ?p"
    have ne: "b32_rest r \<noteq> []" "length (b32_rest r) \<le> 8" using r(4,5) by auto
    have "those (map quantum_value (chunks 8 ?t)) = Some (map from_bytes (chunks 5 f) @ [?v])"
      using f ne r(1) by (simp add: chunks_groups chunks_short those_append)
    from b32decode_padded [OF ascii len upper strip _ r(5) this _ r(2), of f]
    have "b32decode ?s = Some (f @ take (length r) (to_bytes 5 (from_bytes (r @ replicate (5 - length r) 0))))"
      using f r(3) by simp
    moreover have "take (length r) (to_bytes 5 (from_bytes (r @ replicate (5 - length r) 0))) = r"
      using to_from_bytes [of "r @ replicate (5 - length r) 0"] assms(2) by simp
    ultimately show ?thesis by simp
  qed
qed

theorem b32_roundtrip: "b32decode (b32encode bs) = Some bs"
proof -
  obtain f r where "bs = f @ r" "length f mod 5 = 0" "length r < 5" using split_groups [of bs 5] by auto
  then show ?thesis using b32encode_split b32_decode_body by simp
qed

text \<open>The padding can be taken off and computed again from the length.\<close>

lemma b32_repadding:
  fixes bs :: bytes
  defines "t \<equiv> strip_right (\<lambda>c. c = 61) (b32encode bs)"
  shows "t @ replicate ((8 - length t mod 8) mod 8) 61 = b32encode bs" and "list_all (\<lambda>c. c < 128) t"
    and "map ascii_upper t = t"
proof -
  obtain f r where b: "bs = f @ r" "length f mod 5 = 0" "length r < 5" using split_groups [of bs 5] by auto
  note e = b32encode_split [OF b(2,3)]
  have "61 \<notin> set (b32_groups f @ b32_rest r)" using b32_text_chars [of 61 f r] by blast
  from strip_padding [OF this] have t: "t = b32_groups f @ b32_rest r" unfolding t_def b(1) e by simp
  show "list_all (\<lambda>c. c < 128) t" unfolding t list_all_iff using b32_text_chars by blast
  show "map ascii_upper t = t" unfolding t using b32_text_chars by (intro map_idI) blast
  have "length t mod 8 = length (b32_rest r) mod 8"
    using b32_groups_values [OF b(2)] mod_add_groups [of "length (b32_groups f)" 8] by (simp add: t)
  then have "(8 - length t mod 8) mod 8 = b32_padding (length r)"
    using b32_rest_value(4,5) [OF _ b(3)] by (cases "r = []") (auto simp: b32_rest_def b32_padding_def)
  then show "t @ replicate ((8 - length t mod 8) mod 8) 61 = b32encode bs" unfolding b(1) e by (simp add: t)
qed

section \<open>The checksum sees every change of one octet\<close>

lemma xor_cancel: "xor a p = xor b p \<longleftrightarrow> a = b" for a b p :: "'a::len word"
proof
  assume "xor a p = xor b p"
  then have "xor (xor a p) p = xor (xor b p) p" by simp
  then show "a = b" by (simp add: xor.assoc)
qed simp

lemma crc_round_top: "bit (crc_round c) 31 \<longleftrightarrow> bit c 0"
  using bit_imp_le_length [of c 32] by (auto simp: crc_round_def bit_simps)

lemma crc_round_inj: "crc_round c = crc_round d \<Longrightarrow> c = d"
proof -
  assume eq: "crc_round c = crc_round d"
  then have b0: "bit c 0 = bit d 0" using crc_round_top [of c] crc_round_top [of d] by simp
  with eq have "drop_bit 1 c = drop_bit 1 d" by (cases "bit d 0") (simp_all add: crc_round_def xor_cancel)
  then have "bit (drop_bit 1 c) n = bit (drop_bit 1 d) n" for n by simp
  then have "bit c (Suc n) = bit d (Suc n)" for n by (simp add: bit_drop_bit_eq)
  with b0 have "bit c n = bit d n" for n by (cases n) simp_all
  then show ?thesis by (simp add: bit_eq_iff)
qed

lemma crc_octet_inj: "xor c (ucast a) = xor d (ucast b)" if "crc_octet a c = crc_octet b d"
proof -
  have "(crc_round ^^ n) x = (crc_round ^^ n) y \<Longrightarrow> x = y" for n x y
    by (induction n arbitrary: x y) (auto dest: crc_round_inj)
  then show ?thesis using that by (simp add: crc_octet_def)
qed

lemma crc_fold_inj: "fold crc_octet bs c = fold crc_octet bs d \<Longrightarrow> c = d"
proof (induction bs arbitrary: c d)
  case (Cons b bs)
  then have "crc_octet b c = crc_octet b d" by simp
  then show ?case using crc_octet_inj xor_cancel by blast
qed simp

theorem crc32_detects_octet: "crc32 (as @ a # bs) = crc32 (as @ b # bs) \<Longrightarrow> a = b"
proof -
  assume "crc32 (as @ a # bs) = crc32 (as @ b # bs)"
  then have "fold crc_octet bs (crc_octet a c) = fold crc_octet bs (crc_octet b c)" if "c = fold crc_octet as (not 0)" for c
    using that by (simp add: crc32_def)
  then have "crc_octet a (fold crc_octet as (not 0)) = crc_octet b (fold crc_octet as (not 0))" using crc_fold_inj by blast
  from crc_octet_inj [OF this] have "(ucast a :: 32 word) = ucast b" by (simp only: xor.commute [of "fold crc_octet as (not 0)"] xor_cancel)
  then have "uint (ucast a :: 32 word) = uint (ucast b :: 32 word)" by simp
  then show "a = b" by (simp add: uint_up_ucast is_up word_uint_eq_iff)
qed

end
