(* ===== verification/Ops_Base.thy ===== *)
theory Ops_Base
  imports Settings Base32
begin

text \<open>
  What the maintenance scripts of \<open>scripts/ops\<close> share: Python's equality on parsed JSON, reading
  text files and their lines, hexadecimal digests, and counting.
\<close>

section \<open>Equality of JSON values\<close>

text \<open>\<open>v == n\<close> for an integer \<open>n\<close>: truth values count as 0 and 1, floats by their value.\<close>

fun py_eq_int :: "json \<Rightarrow> int \<Rightarrow> bool" where
  "py_eq_int (JInt i) n = (i = n)"
| "py_eq_int (JBool b) n = ((if b then 1 else 0) = n)"
| "py_eq_int (JFloat f) n = (f = Fin (of_int n))"
| "py_eq_int _ n = False"

text \<open>
  \<open>v == w\<close>: numbers of any type by value, lists in order, objects whatever the order of their
  keys. Inside containers Python compares by identity first, and the reader has one NaN.
\<close>

fun py_eq :: "json \<Rightarrow> json \<Rightarrow> bool" where
  "py_eq (JInt i) w = py_eq_int w i"
| "py_eq (JBool b) w = py_eq_int w (if b then 1 else 0)"
| "py_eq (JFloat f) w =
     (case w of JInt i \<Rightarrow> f = Fin (of_int i) | JBool b \<Rightarrow> f = Fin (if b then 1 else 0) | JFloat g \<Rightarrow> f = g | _ \<Rightarrow> False)"
| "py_eq JNull w = (w = JNull)"
| "py_eq (JStr s) w = (w = JStr s)"
| "py_eq (JList vs) w = (case w of JList ws \<Rightarrow> list_all2 py_eq vs ws | _ \<Rightarrow> False)"
| "py_eq (JObj d) w =
     (case w of
        JObj e \<Rightarrow> length d = length e \<and>
          list_all (\<lambda>(k, v). case map_of e k of None \<Rightarrow> False | Some u \<Rightarrow> py_eq v u) d
      | _ \<Rightarrow> False)"

text \<open>\<open>str(v)\<close>; the texts of floats, lists and dictionaries are an argument.\<close>

definition json_text :: "(json \<Rightarrow> pytext) \<Rightarrow> json \<Rightarrow> pytext" where
  "json_text str_of v =
     (case v of
        JNull \<Rightarrow> text_of ''None''
      | JBool b \<Rightarrow> text_of (if b then ''True'' else ''False'')
      | JInt i \<Rightarrow> show_text i
      | JStr s \<Rightarrow> s
      | _ \<Rightarrow> str_of v)"

text \<open>What may be a key of a dictionary or a member of a set.\<close>

fun hashable :: "json \<Rightarrow> bool" where
  "hashable (JList _) = False"
| "hashable (JObj _) = False"
| "hashable _ = True"

type_synonym json_dict = "(pytext, json) dict"

text \<open>\<open>str(d.get(k, e))\<close>.\<close>

definition text_get :: "(json \<Rightarrow> pytext) \<Rightarrow> json_dict \<Rightarrow> string \<Rightarrow> pytext \<Rightarrow> pytext" where
  "text_get str_of d k e = (case dict_get d (text_of k) of None \<Rightarrow> e | Some v \<Rightarrow> json_text str_of v)"

text \<open>What the JSON reader returns: no object has a key twice.\<close>

fun json_ok :: "json \<Rightarrow> bool" where
  "json_ok (JList vs) = list_all json_ok vs"
| "json_ok (JObj d) = (distinct (map fst d) \<and> list_all (\<lambda>(k, v). json_ok v) d)"
| "json_ok _ = True"

section \<open>Text files\<close>

text \<open>\<open>str.splitlines\<close> on a text without carriage returns.\<close>

definition line_break :: "nat \<Rightarrow> bool" where
  "line_break c \<longleftrightarrow> c \<in> {10, 11, 12, 13, 28, 29, 30, 0x85, 0x2028, 0x2029}"

function py_splitlines :: "pytext \<Rightarrow> pytext list" where
  "py_splitlines s =
     (if s = [] then []
      else takeWhile (\<lambda>c. \<not> line_break c) s # py_splitlines (drop 1 (dropWhile (\<lambda>c. \<not> line_break c) s)))"
  by auto
termination
proof (relation "measure length")
  fix s :: pytext
  assume "s \<noteq> []"
  then show "(drop 1 (dropWhile (\<lambda>c. \<not> line_break c) s), s) \<in> measure length"
    using length_dropWhile_le [of "\<lambda>c. \<not> line_break c" s] by (cases s) auto
qed simp

declare py_splitlines.simps [simp del]

text \<open>\<open>path.read_text(encoding="utf-8")\<close> of the file's octets; \<open>None\<close> when they are not UTF-8.\<close>

definition read_text :: "bytes \<Rightarrow> pytext option" where
  "read_text bs = (case utf8_decode bs of Inl _ \<Rightarrow> None | Inr s \<Rightarrow> Some (universal_newlines s))"

text \<open>\<open>s.encode("ascii")\<close> of a text that is ASCII.\<close>

definition ascii_bytes :: "pytext \<Rightarrow> bytes" where
  "ascii_bytes s = map of_nat s"

section \<open>Digests and patterns\<close>

definition hex_char :: "nat \<Rightarrow> bool" where
  "hex_char c \<longleftrightarrow> ascii_digit c \<or> 97 \<le> c \<and> c \<le> 102"

text \<open>A full match of \<open>[0-9a-f]{n}\<close>.\<close>

definition hex_text :: "nat \<Rightarrow> pytext \<Rightarrow> bool" where
  "hex_text n s \<longleftrightarrow> length s = n \<and> list_all hex_char s"

section \<open>Numbers and words\<close>

text \<open>
  \<open>int(text)\<close>: white space around an optional sign and decimal digits, single underscores between
  digits, at most 4300 digits. In a text that is all ASCII fewer characters count as white space.
\<close>

definition int_space :: "pytext \<Rightarrow> nat \<Rightarrow> bool" where
  "int_space s c = (if list_all (\<lambda>c. c < 128) s then c = 32 \<or> 9 \<le> c \<and> c \<le> 13 else py_space c)"

definition decimal_digit :: "(nat \<Rightarrow> nat option) \<Rightarrow> nat \<Rightarrow> nat option" where
  "decimal_digit unicode_decimal c =
     (if c < 128 then (if ascii_digit c then Some (c - 48) else None) else unicode_decimal c)"

definition digits_int :: "(nat \<Rightarrow> nat option) \<Rightarrow> pytext \<Rightarrow> int option" where
  "digits_int unicode_decimal s =
     (let parts = split_on 95 s in
      if [] \<in> set parts then None
      else Option.bind (those (map (decimal_digit unicode_decimal) (concat parts))) (\<lambda>ds.
        if 4300 < length ds then None else Some (int (value_of 10 ds))))"

definition text_int :: "(nat \<Rightarrow> nat option) \<Rightarrow> pytext \<Rightarrow> int option" where
  "text_int unicode_decimal s =
     (let t = strip_both (int_space s) s in
      if take 1 t = [45] then map_option uminus (digits_int unicode_decimal (drop 1 t))
      else digits_int unicode_decimal (if take 1 t = [43] then drop 1 t else t))"

text \<open>\<open>str.upper\<close>: ASCII texts by their table, other texts by the Unicode tables, an argument.\<close>

definition upper_text :: "(pytext \<Rightarrow> pytext) \<Rightarrow> pytext \<Rightarrow> pytext" where
  "upper_text unicode_upper s = (if list_all (\<lambda>c. c < 128) s then map ascii_upper s else unicode_upper s)"

text \<open>\<open>s.split()\<close>: the words between white space.\<close>

fun split_spaces :: "pytext \<Rightarrow> pytext list" where
  "split_spaces [] = [[]]"
| "split_spaces (c # cs) =
     (if py_space c then [] # split_spaces cs
      else case split_spaces cs of [] \<Rightarrow> [[c]] | w # ws \<Rightarrow> (c # w) # ws)"

definition py_words :: "pytext \<Rightarrow> pytext list" where
  "py_words s = filter (\<lambda>w. w \<noteq> []) (split_spaces s)"

section \<open>Lemmas\<close>

lemma json_text_simps [simp]:
  "json_text str_of (JStr s) = s"
  "json_text str_of (JInt i) = show_text i"
  "json_text str_of JNull = text_of ''None''"
  by (simp_all add: json_text_def)


lemma py_eq_int_unique: "py_eq_int v m \<Longrightarrow> py_eq_int v n \<Longrightarrow> m = n"
  by (cases v) (auto split: if_splits)

lemma py_splitlines_Nil [simp]: "py_splitlines [] = []"
  by (simp add: py_splitlines.simps)

lemma py_splitlines_line:
  "list_all (\<lambda>c. \<not> line_break c) l \<Longrightarrow> py_splitlines (l @ 10 # s) = l # py_splitlines s"
  by (subst py_splitlines.simps) (simp add: takeWhile_append dropWhile_append list_all_iff line_break_def)

lemma lines_read_back:
  "\<forall>l \<in> set ls. list_all (\<lambda>c. \<not> line_break c) l \<Longrightarrow> py_splitlines (concat (map (\<lambda>l. l @ [10]) ls)) = ls"
  by (induction ls) (simp_all add: py_splitlines_line)

lemma py_eq_refl: "json_ok v \<Longrightarrow> py_eq v v"
proof (induction v rule: json_ok.induct)
  case (1 vs)
  then show ?case by (auto simp: list_all_iff list.rel_refl_strong)
next
  case (2 d)
  then show ?case by (fastforce simp: list_all_iff)
qed simp_all

lemma text_of_eq_iff: "text_of s = text_of t \<longleftrightarrow> s = t"
  unfolding text_of_def by (intro inj_map_eq_map injI) (metis of_char_eq_iff)

lemma json_get_Cons: "json_get ((text_of k, v) # d) k' = (if k' = k then v else json_get d k')"
  by (simp add: json_get_def dict_get_def text_of_eq_iff)

lemma text_get_Cons:
  "text_get str_of ((text_of k, v) # d) k' e = (if k' = k then json_text str_of v else text_get str_of d k' e)"
  by (simp add: text_get_def dict_get_def text_of_eq_iff)

lemma json_get_same: "(\<And>k. dict_get d' k = dict_get d k) \<Longrightarrow> json_get d' = json_get d"
  by (simp add: json_get_def fun_eq_iff)

lemma text_get_same: "(\<And>k. dict_get d' k = dict_get d k) \<Longrightarrow> text_get str_of d' = text_get str_of d"
  by (simp add: text_get_def fun_eq_iff)

text \<open>A dictionary comprehension over keys that all differ lists its items.\<close>

lemma comprehension_keys:
  "set (dict_keys (fold (\<lambda>x. dict_set (f x) (g x)) xs d)) = f ` set xs \<union> set (dict_keys d)"
  by (induction xs arbitrary: d) auto

lemma fold_dict_set_distinct:
  "distinct (map f xs) \<Longrightarrow> f ` set xs \<inter> set (dict_keys d) = {} \<Longrightarrow>
     fold (\<lambda>x. dict_set (f x) (g x)) xs d = d @ map (\<lambda>x. (f x, g x)) xs"
proof (induction xs arbitrary: d)
  case (Cons x xs)
  then show ?case by (auto simp: dict_set_absent dict_keys_def)
qed simp

lemma same_set_distinct:
  assumes "set xs = set ys" and "length xs = length ys" and "distinct ys"
  shows "distinct xs"
  using assms by (metis card_distinct distinct_card)

lemma utf8_encode_ascii: "list_all (\<lambda>c. c < 128) s \<Longrightarrow> utf8_encode s = Inr (ascii_bytes s)"
  by (induction s) (simp_all add: utf8_encode_Cons utf8_encode_char_def ascii_bytes_def octet_def)

lemma universal_newlines_absent: "13 \<notin> set s \<Longrightarrow> universal_newlines s = s"
  by (induction s) auto

lemma read_text_ascii: "list_all (\<lambda>c. c < 128 \<and> c \<noteq> 13) s \<Longrightarrow> read_text (ascii_bytes s) = Some s"
  using utf8_decode_encode [OF utf8_encode_ascii, of s] universal_newlines_absent [of s]
  by (auto simp: read_text_def list_all_iff)

lemma py_strip_id: "s = [] \<or> \<not> py_space (hd s) \<and> \<not> py_space (last s) \<Longrightarrow> py_strip s = s"
proof (cases s)
  case (Cons c cs)
  assume "s = [] \<or> \<not> py_space (hd s) \<and> \<not> py_space (last s)"
  with Cons have c: "\<not> py_space (hd s)" "\<not> py_space (hd (rev s))" unfolding hd_rev by simp_all
  have "dropWhile py_space t = t" if "\<not> py_space (hd t)" for t using that by (cases t) auto
  from this [OF c(1)] this [OF c(2)] show ?thesis by (simp add: py_strip_def strip_both_def strip_right_def)
qed (simp add: py_strip_def strip_both_def strip_right_def)

end
