(* ===== verification/Json_Canon.thy ===== *)
theory Json_Canon
  imports Url "HOL-Library.List_Lexorder"
begin

text \<open>
  Canonical JSON texts, \<open>json.dumps(value, ensure_ascii=False, sort_keys=True,
  separators=(",", ":"))\<close>, over which the audit log is hashed. The text of a float is an
  argument with the laws of \<open>float_texts\<close>. The main lemma is that such a text determines the
  value up to the order of the keys: no two different records have one canonical payload.
\<close>

section \<open>Texts\<close>

definition hex_digit :: "nat \<Rightarrow> nat" where
  "hex_digit n = (if n < 10 then 48 + n else 87 + n)"

definition escape_char :: "nat \<Rightarrow> pytext" where
  "escape_char c =
     (if c = 34 then [92, 34] else if c = 92 then [92, 92] else if c = 10 then [92, 110]
      else if c = 13 then [92, 114] else if c = 9 then [92, 116] else if c = 12 then [92, 102]
      else if c = 8 then [92, 98]
      else if c < 32 then [92, 117, 48, 48, hex_digit (c div 16), hex_digit (c mod 16)] else [c])"

definition dump_string :: "pytext \<Rightarrow> pytext" where
  "dump_string s = 34 # concat (map escape_char s) @ [34]"

text \<open>Every object with its members in the order of their keys, at every depth.\<close>

fun sort_json :: "json \<Rightarrow> json" where
  "sort_json (JList vs) = JList (map sort_json vs)"
| "sort_json (JObj d) = JObj (sort_key fst (map (\<lambda>(k, v). (k, sort_json v)) d))"
| "sort_json v = v"

fun dump_json :: "(pyfloat \<Rightarrow> pytext) \<Rightarrow> json \<Rightarrow> pytext" where
  "dump_json float_text JNull = text_of ''null''"
| "dump_json float_text (JBool b) = text_of (if b then ''true'' else ''false'')"
| "dump_json float_text (JInt i) = show_text i"
| "dump_json float_text (JFloat f) = float_text f"
| "dump_json float_text (JStr s) = dump_string s"
| "dump_json float_text (JList vs) = 91 # join_with [44] (map (dump_json float_text) vs) @ [93]"
| "dump_json float_text (JObj d) =
     123 # join_with [44] (map (\<lambda>(k, v). dump_string k @ 58 # dump_json float_text v) d) @ [125]"

definition json_dumps :: "(pyfloat \<Rightarrow> pytext) \<Rightarrow> json \<Rightarrow> pytext" where
  "json_dumps float_text v = dump_json float_text (sort_json v)"

definition same_object :: "(pytext, json) dict \<Rightarrow> (pytext, json) dict \<Rightarrow> bool" where
  "same_object d d' \<longleftrightarrow> (\<forall>k. map_option sort_json (dict_get d k) = map_option sort_json (dict_get d' k))"

section \<open>Strings are read back\<close>

definition unhex :: "nat \<Rightarrow> nat" where
  "unhex h = (if h < 58 then h - 48 else h - 87)"

definition escape_letter :: "nat \<Rightarrow> nat" where
  "escape_letter l =
     (if l = 110 then 10 else if l = 114 then 13 else if l = 116 then 9 else if l = 102 then 12
      else if l = 98 then 8 else l)"

definition read_char :: "pytext \<Rightarrow> nat \<times> pytext" where
  "read_char s =
     (if s ! 0 \<noteq> 92 then (s ! 0, drop 1 s)
      else if s ! 1 = 117 then (16 * unhex (s ! 4) + unhex (s ! 5), drop 6 s)
      else (escape_letter (s ! 1), drop 2 s))"

lemma unhex_hex_digit: "n < 16 \<Longrightarrow> unhex (hex_digit n) = n"
  by (simp add: unhex_def hex_digit_def)

lemma read_escape_char: "read_char (escape_char c @ r) = (c, r)"
proof -
  consider "c \<in> {34, 92, 10, 13, 9, 12, 8}" | "c < 32" "c \<notin> {34, 92, 10, 13, 9, 12, 8}" | "32 \<le> c" "c \<notin> {34, 92}"
    by (cases "c < 32") auto
  then show ?thesis
  proof cases
    case 1
    then show ?thesis
      by (elim insertE emptyE) (simp_all add: escape_char_def read_char_def escape_letter_def)
  next
    case 2
    then have "escape_char c = [92, 117, 48, 48, hex_digit (c div 16), hex_digit (c mod 16)]"
      by (simp add: escape_char_def)
    moreover have "16 * unhex (hex_digit (c div 16)) + unhex (hex_digit (c mod 16)) = c"
      using 2 by (simp add: unhex_hex_digit)
    ultimately show ?thesis by (simp add: read_char_def)
  next
    case 3
    then show ?thesis by (simp add: escape_char_def read_char_def)
  qed
qed

lemma escape_char_inj: "escape_char c @ r = escape_char c' @ r' \<Longrightarrow> c = c' \<and> r = r'"
  by (metis read_escape_char prod.inject)

lemma hd_escape_char: "hd (escape_char c @ r) \<noteq> 34"
  by (simp add: escape_char_def)

lemma escape_char_not_quote: "escape_char c @ r \<noteq> 34 # r'"
  using hd_escape_char [of c r] by auto

lemma escaped_inj:
  "concat (map escape_char s) @ 34 # r = concat (map escape_char s') @ 34 # r' \<Longrightarrow> s = s' \<and> r = r'"
proof (induction s arbitrary: s')
  case Nil
  then show ?case using escape_char_not_quote by (cases s') (auto simp: eq_commute [of "34 # r"])
next
  case (Cons c s)
  then obtain c' t where s': "s' = c' # t"
    by (cases s') (use escape_char_not_quote in auto)
  then have eq: "escape_char c @ (concat (map escape_char s) @ 34 # r) = escape_char c' @ (concat (map escape_char t) @ 34 # r')"
    using Cons.prems by simp
  from escape_char_inj [OF this] Cons.IH [of t] s' show ?case by auto
qed

lemma dump_string_inj: "dump_string s @ r = dump_string s' @ r' \<Longrightarrow> s = s' \<and> r = r'"
  using escaped_inj [of s r s' r'] by (simp add: dump_string_def)

section \<open>Numbers and words\<close>

text \<open>What the texts of floats promise: Python's shortest texts that read back.\<close>

locale float_texts =
  fixes float_text :: "pyfloat \<Rightarrow> pytext"
  assumes float_text_inj: "float_text x = float_text y \<Longrightarrow> x = y"
    and float_text_chars: "set (float_text x) \<subseteq> set (text_of ''0123456789+-.eNaInfity'')"
    and float_text_mark: "set (float_text x) \<inter> set (text_of ''.eNI'') \<noteq> {}"

definition quotient_text :: "pyfloat \<Rightarrow> pytext" where
  "quotient_text x =
     (case x of
        Fin q \<Rightarrow> show_text (fst (quotient_of q)) @ 101 # show_text (snd (quotient_of q))
      | PInf \<Rightarrow> text_of ''Infinity''
      | NInf \<Rightarrow> text_of ''-Infinity''
      | NaN \<Rightarrow> text_of ''NaN'')"

lemma show_nat_chars: "c \<in> set (text_of (show_nat n)) \<Longrightarrow> 48 \<le> c \<and> c \<le> 57"
proof (induction n rule: show_nat.induct)
  case (1 n)
  then show ?case
    by (subst (asm) (2) show_nat.simps) (auto simp: text_of_def split: if_splits)
qed

lemma show_nat_nonempty [simp]: "show_nat n \<noteq> []"
  by (subst show_nat.simps) simp

lemma digits_value_append: "digits_value (s @ t) acc = digits_value t (digits_value s acc)"
  by (induction s acc rule: digits_value.induct) auto

lemma digits_value_show: "digits_value (text_of (show_nat n)) 0 = n"
proof (induction n rule: show_nat.induct)
  case (1 n)
  then show ?case
    by (subst show_nat.simps) (auto simp: text_of_def digits_value_append)
qed

lemma show_nat_inj: "text_of (show_nat m) = text_of (show_nat n) \<Longrightarrow> m = n"
  by (metis digits_value_show)

lemma show_text_chars: "c \<in> set (show_text i) \<Longrightarrow> c = 45 \<or> 48 \<le> c \<and> c \<le> 57"
  using show_nat_chars by (auto simp: show_text_def show_int_def text_of_append split: if_splits)

lemma show_text_nonempty [simp]: "show_text i \<noteq> []"
  by (simp add: show_text_def show_int_def text_of_def)

lemma show_text_inj: "show_text i = show_text j \<Longrightarrow> i = j"
proof -
  have minus: "text_of (show_nat m) \<noteq> 45 # t" for m t
    using show_nat_chars [of 45 m] by force
  assume "show_text i = show_text j"
  then show ?thesis
    using minus [THEN not_sym] minus
    by (auto simp: show_text_def show_int_def split: if_splits dest!: show_nat_inj)
qed

lemma quotient_text_chars: "set (quotient_text x) \<subseteq> set (text_of ''0123456789+-.eNaInfity'')"
proof -
  have "c = 45 \<or> 48 \<le> c \<and> c \<le> 57 \<Longrightarrow> c \<in> set (text_of ''0123456789+-.eNaInfity'')" for c :: nat
    by simp arith
  then have "set (show_text i) \<subseteq> set (text_of ''0123456789+-.eNaInfity'')" for i
    using show_text_chars by blast
  then show ?thesis by (cases x) (auto simp: quotient_text_def)
qed

lemma split_at_mark:
  "c \<notin> set p \<Longrightarrow> c \<notin> set q \<Longrightarrow> p @ c # s = q @ c # t \<Longrightarrow> p = q \<and> s = t"
proof (induction p arbitrary: q)
  case Nil
  then show ?case by (cases q) auto
next
  case (Cons x p)
  then show ?case by (cases q) auto
qed

lemma quotient_text_split:
  "show_text a @ 101 # s = show_text b @ 101 # t \<Longrightarrow> a = b \<and> s = t"
  using split_at_mark [of 101 "show_text a" "show_text b" s t] show_text_chars [of 101 a] show_text_chars [of 101 b]
  by (auto dest: show_text_inj)

interpretation quotient_texts: float_texts quotient_text
proof
  fix x y
  have e: "101 \<in> set (quotient_text (Fin q))" for q by (simp add: quotient_text_def)
  have "101 \<notin> set (quotient_text PInf)" "101 \<notin> set (quotient_text NInf)" "101 \<notin> set (quotient_text NaN)"
    by (simp_all add: quotient_text_def)
  with e have "quotient_text (Fin q) \<noteq> quotient_text PInf \<and> quotient_text (Fin q) \<noteq> quotient_text NInf \<and>
      quotient_text (Fin q) \<noteq> quotient_text NaN" for q
    by metis
  moreover have "quotient_text PInf \<noteq> quotient_text NInf" "quotient_text PInf \<noteq> quotient_text NaN"
    "quotient_text NInf \<noteq> quotient_text NaN" by (simp_all add: quotient_text_def)
  moreover have "quotient_text (Fin q) = quotient_text (Fin q') \<Longrightarrow> q = q'" for q q'
  proof -
    assume "quotient_text (Fin q) = quotient_text (Fin q')"
    then have "quotient_of q = quotient_of q'"
      using quotient_text_split [of "fst (quotient_of q)" "show_text (snd (quotient_of q))"
          "fst (quotient_of q')" "show_text (snd (quotient_of q'))"]
      by (auto simp: quotient_text_def prod_eq_iff dest: show_text_inj)
    then show "q = q'" by (simp add: quotient_of_inject)
  qed
  ultimately show "quotient_text x = quotient_text y \<Longrightarrow> x = y"
    by (cases x; cases y) (metis | simp)+
next
  fix x
  show "set (quotient_text x) \<subseteq> set (text_of ''0123456789+-.eNaInfity'')" by (rule quotient_text_chars)
  show "set (quotient_text x) \<inter> set (text_of ''.eNI'') \<noteq> {}" by (cases x) (auto simp: quotient_text_def)
qed

section \<open>Canonical texts determine the value\<close>

definition stops :: "pytext \<Rightarrow> bool" where
  "stops r \<longleftrightarrow> r = [] \<or> hd r \<in> {44, 93, 125}"

definition unambiguous :: "('a \<Rightarrow> pytext) \<Rightarrow> 'a \<Rightarrow> bool" where
  "unambiguous f x \<longleftrightarrow> (\<forall>y r r'. stops r \<longrightarrow> stops r' \<longrightarrow> f x @ r = f y @ r' \<longrightarrow> x = y \<and> r = r')"

lemma stops_Cons [simp]: "stops (c # r) \<longleftrightarrow> c \<in> {44, 93, 125}"
  by (simp add: stops_def)

lemma unambiguousD:
  "unambiguous f x \<Longrightarrow> f x @ r = f y @ r' \<Longrightarrow> stops r \<Longrightarrow> stops r' \<Longrightarrow> x = y \<and> r = r'"
  by (auto simp: unambiguous_def)

lemma join_with_Cons: "join_with [c] (p # ps) = p @ concat (map (\<lambda>q. c # q) ps)"
  by (induction ps arbitrary: p) auto

lemma tail_unambiguous:
  "\<forall>x \<in> set xs. unambiguous f x \<Longrightarrow> e \<in> {93, 125} \<Longrightarrow>
     concat (map (\<lambda>x. 44 # f x) xs) @ e # r = concat (map (\<lambda>x. 44 # f x) ys) @ e # r' \<Longrightarrow> xs = ys \<and> r = r'"
proof (induction xs arbitrary: ys)
  case Nil
  then show ?case by (cases ys) auto
next
  case (Cons x xs)
  then obtain y ys' where ys: "ys = y # ys'" by (cases ys) auto
  have st: "stops (concat (map (\<lambda>x. 44 # f x) zs) @ e # q)" for zs q
    using Cons.prems(2) by (cases zs) auto
  have "f x @ (concat (map (\<lambda>x. 44 # f x) xs) @ e # r) = f y @ (concat (map (\<lambda>x. 44 # f x) ys') @ e # r')"
    using Cons.prems(3) ys by simp
  from unambiguousD [where f = f and x = x and y = y, OF _ this st st] Cons.prems(1,2) Cons.IH [of ys'] ys show ?case by auto
qed

lemma join_unambiguous:
  assumes "\<forall>x \<in> set xs. unambiguous f x" and e: "e \<in> {93, 125}" and hd: "\<And>x q. hd (f x @ q) \<notin> {93, 125}"
    and eq: "join_with [44] (map f xs) @ e # r = join_with [44] (map f ys) @ e # r'"
  shows "xs = ys \<and> r = r'"
proof (cases xs; cases ys)
  fix x xs' y ys'
  assume xy: "xs = x # xs'" "ys = y # ys'"
  have st: "stops (concat (map (\<lambda>x. 44 # f x) zs) @ e # q)" for zs q
    using e by (cases zs) auto
  have "f x @ (concat (map (\<lambda>x. 44 # f x) xs') @ e # r) = f y @ (concat (map (\<lambda>x. 44 # f x) ys') @ e # r')"
    using eq xy by (simp add: join_with_Cons o_def)
  from unambiguousD [where f = f and x = x and y = y, OF _ this st st] tail_unambiguous [of xs' f e r ys' r'] assms(1) e xy show ?thesis by auto
next
  fix y ys'
  assume "xs = []" "ys = y # ys'"
  then have "e # r = f y @ (concat (map (\<lambda>x. 44 # f x) ys') @ e # r')"
    using eq by (simp add: join_with_Cons o_def)
  with hd [of y] e show ?thesis by (metis list.sel(1))
next
  fix x xs'
  assume "xs = x # xs'" "ys = []"
  then have "f x @ (concat (map (\<lambda>x. 44 # f x) xs') @ e # r) = e # r'"
    using eq by (simp add: join_with_Cons o_def)
  with hd [of x] e show ?thesis by (metis list.sel(1))
next
  assume "xs = []" "ys = []"
  with eq show ?thesis by simp
qed

fun is_atom :: "json \<Rightarrow> bool" where
  "is_atom (JStr _) = False"
| "is_atom (JList _) = False"
| "is_atom (JObj _) = False"
| "is_atom _ = True"

context float_texts
begin

lemma atom_chars: "is_atom v \<Longrightarrow> c \<in> set (dump_json float_text v) \<Longrightarrow> c \<notin> {34, 44, 91, 93, 123, 125}"
  using float_text_chars show_text_chars by (cases v) (fastforce split: if_splits)+

lemma float_text_nonempty: "float_text x \<noteq> []"
  using float_text_mark [of x] by auto

lemma atom_nonempty: "is_atom v \<Longrightarrow> dump_json float_text v \<noteq> []"
  using float_text_nonempty by (cases v) auto

lemma atom_hd: "is_atom v \<Longrightarrow> hd (dump_json float_text v @ q) \<notin> {34, 44, 91, 93, 123, 125}"
  using atom_chars [of v] atom_nonempty [of v] by (cases "dump_json float_text v") auto

lemma float_not_int: "float_text x \<noteq> show_text i"
  using float_text_mark [of x] show_text_chars [of _ i] by fastforce

lemma word_letters:
  "108 \<in> set (text_of ''null'')" "114 \<in> set (text_of ''true'')" "108 \<in> set (text_of ''false'')"
  by simp_all

lemma number_letters: "108 \<notin> set (float_text x)" "114 \<notin> set (float_text x)" "108 \<notin> set (show_text i)" "114 \<notin> set (show_text i)"
  using float_text_chars [of x] show_text_chars [of 108 i] show_text_chars [of 114 i] by auto

lemma word_not_float:
  "text_of ''null'' \<noteq> float_text x" "text_of ''true'' \<noteq> float_text x" "text_of ''false'' \<noteq> float_text x"
  using word_letters number_letters(1,2) [of x] by metis+

lemma word_not_int:
  "text_of ''null'' \<noteq> show_text i" "text_of ''true'' \<noteq> show_text i" "text_of ''false'' \<noteq> show_text i"
  using word_letters number_letters(3,4) [of i] by metis+

lemma words_distinct:
  "text_of ''null'' \<noteq> text_of ''true''" "text_of ''null'' \<noteq> text_of ''false''" "text_of ''true'' \<noteq> text_of ''false''"
  by simp_all

lemmas atom_distinct = float_not_int float_not_int [THEN not_sym] words_distinct words_distinct [THEN not_sym]
  word_not_float word_not_float [THEN not_sym] word_not_int word_not_int [THEN not_sym]

lemma atom_inj: "is_atom v \<Longrightarrow> is_atom v' \<Longrightarrow> dump_json float_text v = dump_json float_text v' \<Longrightarrow> v = v'"
  by (cases v; cases v')
    (simp_all add: atom_distinct float_text_inj show_text_inj del: text_of_simps split: if_splits)

lemma atom_split:
  assumes "is_atom v" and "stops r"
  shows "takeWhile (\<lambda>c. c \<notin> {44, 93, 125}) (dump_json float_text v @ r) = dump_json float_text v"
  using atom_chars [OF assms(1)] assms(2) by (cases r) (auto simp: takeWhile_append takeWhile_eq_all_conv)

lemma dump_hd: "hd (dump_json float_text v @ q) \<notin> {44, 93, 125}"
  using atom_hd [of v q] by (cases v) (simp_all add: dump_string_def)

lemma member_hd: "hd ((\<lambda>(k, v). dump_string k @ 58 # dump_json float_text v) x @ q) \<notin> {44, 93, 125}"
  by (cases x) (simp add: dump_string_def)

lemma atom_unambiguous: "is_atom v \<Longrightarrow> unambiguous (dump_json float_text) v"
proof (unfold unambiguous_def, intro allI impI)
  fix v' r r'
  assume a: "is_atom v" "stops r" "stops r'" "dump_json float_text v @ r = dump_json float_text v' @ r'"
  have "is_atom v'"
    using atom_hd [OF a(1), of r] by (cases v') (auto simp: a(4) dump_string_def)
  then have "dump_json float_text v = dump_json float_text v'"
    using atom_split [OF a(1,2)] atom_split [of v' r'] a(3,4) by metis
  with a(1,4) \<open>is_atom v'\<close> show "v = v' \<and> r = r'" by (auto dest: atom_inj)
qed

lemma member_unambiguous:
  "unambiguous (dump_json float_text) v \<Longrightarrow> unambiguous (\<lambda>(k, v). dump_string k @ 58 # dump_json float_text v) (k, v)"
  by (auto simp: unambiguous_def dest!: dump_string_inj)

lemma not_atom_hd:
  "\<not> is_atom v \<Longrightarrow> hd (dump_json float_text v @ r) = hd (dump_json float_text v' @ r') \<Longrightarrow> \<not> is_atom v'"
  using atom_hd [of v' r'] by (cases v) (auto simp: dump_string_def)

lemma dump_unambiguous: "unambiguous (dump_json float_text) v"
proof (induction v rule: json.induct)
  case (JStr s)
  show ?case unfolding unambiguous_def
  proof (intro allI impI)
    fix v' r r'
    assume a: "dump_json float_text (JStr s) @ r = dump_json float_text v' @ r'"
    then have "\<not> is_atom v'" using not_atom_hd [of "JStr s" r v' r'] by simp
    with a show "JStr s = v' \<and> r = r'" by (cases v') (auto simp: dump_string_def dest!: escaped_inj)
  qed
next
  case (JList vs)
  then have vs: "\<forall>v \<in> set vs. unambiguous (dump_json float_text) v" by blast
  show ?case unfolding unambiguous_def
  proof (intro allI impI)
    fix v' r r'
    assume a: "dump_json float_text (JList vs) @ r = dump_json float_text v' @ r'"
    then have "\<not> is_atom v'" using not_atom_hd [of "JList vs" r v' r'] by simp
    with a show "JList vs = v' \<and> r = r'"
      using join_unambiguous [OF vs, of 93 r _ r'] dump_hd by (cases v') (auto simp: dump_string_def)
  qed
next
  case (JObj d)
  then have d: "\<forall>x \<in> set d. unambiguous (\<lambda>(k, v). dump_string k @ 58 # dump_json float_text v) x"
    by (auto intro!: member_unambiguous)
  show ?case unfolding unambiguous_def
  proof (intro allI impI)
    fix v' r r'
    assume a: "dump_json float_text (JObj d) @ r = dump_json float_text v' @ r'"
    then have "\<not> is_atom v'" using not_atom_hd [of "JObj d" r v' r'] by simp
    with a show "JObj d = v' \<and> r = r'"
      using join_unambiguous [OF d, of 125 r _ r'] member_hd by (cases v') (auto simp: dump_string_def)
  qed
qed (simp_all add: atom_unambiguous)

lemma json_dumps_inj: "json_dumps float_text v = json_dumps float_text v' \<Longrightarrow> sort_json v = sort_json v'"
  using unambiguousD [OF dump_unambiguous, where r = "[]" and r' = "[]" and y = "sort_json v'" and x = "sort_json v"]
  by (simp add: json_dumps_def stops_def)

end

lemma map_of_sort_key:
  fixes d :: "('k :: linorder \<times> 'v) list"
  shows "map_of (sort_key fst d) k = map_of d k"
proof -
  have "map_of xs k = map_option snd (find (\<lambda>x. fst x = k) xs)" for xs :: "('k \<times> 'v) list"
    by (induction xs) auto
  moreover have "find (\<lambda>x. fst x = k) xs = (case filter (\<lambda>x. fst x = k) xs of [] \<Rightarrow> None | x # _ \<Rightarrow> Some x)"
    for xs :: "('k \<times> 'v) list"
    by (induction xs) auto
  ultimately show ?thesis by (simp add: sort_key_stable)
qed

lemma sort_json_same_object: "sort_json (JObj d) = sort_json (JObj d') \<Longrightarrow> same_object d d'"
proof (unfold same_object_def, intro allI)
  fix k
  assume "sort_json (JObj d) = sort_json (JObj d')"
  then have "map_of (sort_key fst (map (\<lambda>(k, v). (k, sort_json v)) d)) k
      = map_of (sort_key fst (map (\<lambda>(k, v). (k, sort_json v)) d')) k"
    by simp
  then show "map_option sort_json (dict_get d k) = map_option sort_json (dict_get d' k)"
    by (simp only: map_of_sort_key map_of_map dict_get_def comp_apply)
qed

end
