(* ===== verification/Audit_Log.thy ===== *)
theory Audit_Log
  imports Ops_Base Json_Canon Ai_Contract
begin

text \<open>
  The audit log tools, \<open>scripts/ops/audit_chain_verify.py\<close>, \<open>audit_anchor_verify.py\<close>
  and \<open>verify_audit_recovery.py\<close>: a log of records chained by their hashes, a directory of signed
  anchors that bind its head, and the check of a restored log. SHA-256, HMAC, the JSON reader,
  \<open>datetime.fromisoformat\<close> and Python's texts of floats and containers are an argument
  (\<open>audit_lib\<close>); nothing is assumed of the hash, so the theorems name the collision an attacker
  would have to find.
\<close>

section \<open>Libraries and files\<close>

record audit_lib =
  al_sha256 :: "bytes \<Rightarrow> pytext"
  al_hmac_sha256 :: "bytes \<Rightarrow> bytes \<Rightarrow> pytext"
  al_json_loads :: "pytext \<Rightarrow> json option"
  al_float_text :: "pyfloat \<Rightarrow> pytext"
  al_str :: "json \<Rightarrow> pytext"
  al_fromisoformat :: "pytext \<Rightarrow> pydatetime option"

text \<open>
  The errors the scripts raise, by their message; \<open>AuditCrash\<close> is any other exception: a
  \<open>UnicodeError\<close>, a JSON error that is not caught, an \<open>AttributeError\<close> or a \<open>TypeError\<close>.
\<close>

datatype audit_error = AuditError string | AuditCrash

definition GENESIS_HASH :: pytext where
  "GENESIS_HASH = replicate 64 48"

section \<open>The chain of records\<close>

type_synonym json_object = "(pytext, json) dict"

definition canonical_payload :: "audit_lib \<Rightarrow> json_object \<Rightarrow> audit_error + bytes" where
  "canonical_payload lib record =
     (case utf8_encode (json_dumps (al_float_text lib) (JObj (dict_pop (text_of ''recordHash'') record))) of
        Inl _ \<Rightarrow> Inl AuditCrash | Inr bs \<Rightarrow> Inr bs)"

definition calculate_record_hash :: "audit_lib \<Rightarrow> json_object \<Rightarrow> audit_error + pytext" where
  "calculate_record_hash lib record = bind_r (canonical_payload lib record) (\<lambda>bs. Inr (al_sha256 lib bs))"

fun verify_records_from :: "audit_lib \<Rightarrow> pytext \<Rightarrow> int \<Rightarrow> json_object list \<Rightarrow> audit_error + unit" where
  "verify_records_from lib previous_hash expected_sequence [] = Inr ()"
| "verify_records_from lib previous_hash expected_sequence (record # records) =
     (if \<not> py_eq_int (json_get record ''sequence'') expected_sequence
      then Inl (AuditError ''audit sequence is not contiguous'')
      else if json_get record ''previousHash'' \<noteq> JStr previous_hash
      then Inl (AuditError ''audit previous hash does not match'')
      else bind_r (calculate_record_hash lib record) (\<lambda>h.
        if json_get record ''recordHash'' \<noteq> JStr h then Inl (AuditError ''audit record hash does not match'')
        else verify_records_from lib h (expected_sequence + 1) records))"

definition verify_records :: "audit_lib \<Rightarrow> json_object list \<Rightarrow> audit_error + nat" where
  "verify_records lib records =
     bind_r (verify_records_from lib GENESIS_HASH 1 records) (\<lambda>_. Inr (length records))"

definition read_json_line :: "audit_lib \<Rightarrow> pytext \<Rightarrow> audit_error + json_object" where
  "read_json_line lib line =
     (case al_json_loads lib line of
        None \<Rightarrow> Inl AuditCrash
      | Some (JObj d) \<Rightarrow> Inr d
      | Some _ \<Rightarrow> Inl (AuditError ''audit line must contain an object''))"

definition read_json_lines :: "audit_lib \<Rightarrow> bytes option \<Rightarrow> audit_error + json_object list" where
  "read_json_lines lib content =
     (case Option.bind content read_text of
        None \<Rightarrow> Inl AuditCrash
      | Some text \<Rightarrow> map_r (read_json_line lib) (py_splitlines text))"

section \<open>Anchors\<close>

text \<open>A key file: its permission bits and its octets.\<close>

record key_file =
  kf_mode :: nat
  kf_content :: bytes

definition byte_space :: "byte \<Rightarrow> bool" where
  "byte_space b \<longleftrightarrow> b = 32 \<or> 9 \<le> b \<and> b \<le> 13"

definition strip_bytes :: "bytes \<Rightarrow> bytes" where
  "strip_bytes bs = rev (dropWhile byte_space (rev (dropWhile byte_space bs)))"

definition require_private_key :: "key_file option \<Rightarrow> audit_error + bytes" where
  "require_private_key file =
     (case file of
        None \<Rightarrow> Inl (AuditError ''audit anchor key is missing or weak'')
      | Some f \<Rightarrow>
          if length (kf_content f) < 32 then Inl (AuditError ''audit anchor key is missing or weak'')
          else if kf_mode f mod 64 \<noteq> 0 then Inl (AuditError ''audit anchor key permissions are unsafe'')
          else Inr (strip_bytes (kf_content f)))"

definition PAYLOAD_FIELDS :: "string list" where
  "PAYLOAD_FIELDS =
     [''sequence'', ''previousAnchorHash'', ''chainHead'', ''recordCount'', ''anchoredAt'', ''sourceCommit'']"

abbreviation py_str :: "audit_lib \<Rightarrow> json \<Rightarrow> pytext" where
  "py_str lib \<equiv> json_text (al_str lib)"

definition payload_field :: "audit_lib \<Rightarrow> json_object \<Rightarrow> string \<Rightarrow> audit_error + pytext" where
  "payload_field lib anchor field =
     (case dict_get anchor (text_of field) of
        None \<Rightarrow> Inl (AuditError (''audit anchor field is missing: '' @ field))
      | Some v \<Rightarrow> Inr (py_str lib v))"

definition anchor_canonical_payload :: "audit_lib \<Rightarrow> json_object \<Rightarrow> audit_error + bytes" where
  "anchor_canonical_payload lib anchor =
     bind_r (map_r (payload_field lib anchor) PAYLOAD_FIELDS) (\<lambda>fields.
       case utf8_encode (join_with [124] fields) of Inl _ \<Rightarrow> Inl AuditCrash | Inr bs \<Rightarrow> Inr bs)"

definition str_get :: "audit_lib \<Rightarrow> json_object \<Rightarrow> string \<Rightarrow> pytext" where
  "str_get lib d k = text_get (al_str lib) d k []"

text \<open>\<open>hmac.compare_digest\<close> refuses texts that are not ASCII.\<close>

definition compare_digest :: "pytext \<Rightarrow> pytext \<Rightarrow> audit_error + bool" where
  "compare_digest a b = (if list_ex (\<lambda>c. 128 \<le> c) (a @ b) then Inl AuditCrash else Inr (a = b))"

definition verify_anchor_record :: "audit_lib \<Rightarrow> json_object \<Rightarrow> bytes \<Rightarrow> audit_error + pytext" where
  "verify_anchor_record lib anchor key =
     bind_r (anchor_canonical_payload lib anchor) (\<lambda>payload.
     let anchor_hash = al_sha256 lib payload in
     bind_r (compare_digest anchor_hash (str_get lib anchor ''anchorHash'')) (\<lambda>same.
     if \<not> same then Inl (AuditError ''audit anchor hash is invalid'')
     else bind_r (compare_digest (al_hmac_sha256 lib key (ascii_bytes anchor_hash)) (str_get lib anchor ''signature''))
       (\<lambda>signed. if \<not> signed then Inl (AuditError ''audit anchor signature is invalid'') else Inr anchor_hash)))"

text \<open>A file of the directory: \<open>None\<close> when it cannot be read.\<close>

definition read_anchor :: "audit_lib \<Rightarrow> bytes option \<Rightarrow> audit_error + json_object" where
  "read_anchor lib content =
     (case content of
        None \<Rightarrow> Inl (AuditError ''audit anchor is unreadable'')
      | Some bs \<Rightarrow>
          (case read_text bs of
             None \<Rightarrow> Inl AuditCrash
           | Some text \<Rightarrow>
               (case al_json_loads lib text of
                  None \<Rightarrow> Inl (AuditError ''audit anchor is unreadable'')
                | Some (JObj d) \<Rightarrow> Inr d
                | Some _ \<Rightarrow> Inl (AuditError ''audit anchor must contain an object''))))"

text \<open>\<open>re.sub(r"(\.[0-9]{6})[0-9]+(?=Z|[+-][0-9]{2}:[0-9]{2}$)", r"\1", value)\<close>\<close>

definition zone_follows :: "pytext \<Rightarrow> bool" where
  "zone_follows s \<longleftrightarrow>
     take 1 s = [90] \<or>
     6 \<le> length s \<and> (s ! 0 = 43 \<or> s ! 0 = 45) \<and> ascii_digit (s ! 1) \<and> ascii_digit (s ! 2) \<and> s ! 3 = 58 \<and>
       ascii_digit (s ! 4) \<and> ascii_digit (s ! 5) \<and> drop 6 s \<in> {[], [10]}"

function cut_fraction :: "pytext \<Rightarrow> pytext" where
  "cut_fraction [] = []"
| "cut_fraction (c # cs) =
     (let ds = takeWhile ascii_digit cs; after = dropWhile ascii_digit cs
      in if c = 46 \<and> 6 < length ds \<and> zone_follows after then c # take 6 ds @ cut_fraction after
         else c # cut_fraction cs)"
  by pat_completeness auto
termination
proof (relation "measure length")
  fix cs ds after :: pytext and c :: nat
  assume "after = dropWhile ascii_digit cs"
  then show "(after, c # cs) \<in> measure length" using length_dropWhile_le [of ascii_digit cs] by simp
qed simp_all

definition parse_timestamp :: "audit_lib \<Rightarrow> json \<Rightarrow> audit_error + pydatetime" where
  "parse_timestamp lib v =
     (case v of
        JStr s \<Rightarrow>
          (case al_fromisoformat lib (concat (map (\<lambda>c. if c = 90 then text_of ''+00:00'' else [c]) (cut_fraction s))) of
             None \<Rightarrow> Inl (AuditError ''audit anchor timestamp is invalid'')
           | Some t \<Rightarrow> Inr t)
      | _ \<Rightarrow> Inl (AuditError ''audit anchor timestamp is invalid''))"

section \<open>The directory of anchors\<close>

record verification_state =
  vs_sequence :: int
  vs_anchor_hash :: pytext
  vs_record_count :: int
  vs_anchored_at :: "pydatetime option"

definition initial_state :: verification_state where
  "initial_state = \<lparr>vs_sequence = 0, vs_anchor_hash = GENESIS_HASH, vs_record_count = - 1, vs_anchored_at = None\<rparr>"

record verification_options =
  vo_key :: bytes
  vo_expected_commit :: "pytext option"

text \<open>A full match of \<open>^anchor-([0-9]{20})\.json$\<close>, and a match of the glob \<open>anchor-*.json\<close>.\<close>

definition anchor_name :: "pytext \<Rightarrow> bool" where
  "anchor_name name \<longleftrightarrow>
     length name = 32 \<and> take 7 name = text_of ''anchor-'' \<and> list_all ascii_digit (take 20 (drop 7 name)) \<and>
     drop 27 name = text_of ''.json''"

definition anchor_glob :: "pytext \<Rightarrow> bool" where
  "anchor_glob name \<longleftrightarrow> 12 \<le> length name \<and> starts_with (text_of ''anchor-'') name \<and> ends_with (text_of ''.json'') name"

definition name_sequence :: "pytext \<Rightarrow> int" where
  "name_sequence name = int (digits_value (take 20 (drop 7 name)) 0)"

text \<open>\<open>isinstance(v, int)\<close>, which truth values pass.\<close>

fun json_int :: "json \<Rightarrow> int option" where
  "json_int (JInt i) = Some i"
| "json_int (JBool b) = Some (if b then 1 else 0)"
| "json_int _ = None"

text \<open>\<open>a < b\<close>; comparing a naive with an aware time raises.\<close>

definition datetime_less :: "pydatetime \<Rightarrow> pydatetime \<Rightarrow> audit_error + bool" where
  "datetime_less a b =
     (if (dt_utcoffset_micros a = None) \<noteq> (dt_utcoffset_micros b = None) then Inl AuditCrash
      else Inr (utc_micros a < utc_micros b))"

definition verify_next_anchor ::
    "audit_lib \<Rightarrow> pytext \<times> bytes option \<Rightarrow> int \<Rightarrow> verification_state \<Rightarrow> verification_options \<Rightarrow>
       audit_error + verification_state" where
  "verify_next_anchor lib path expected_sequence previous options =
     (if name_sequence (fst path) \<noteq> expected_sequence
      then Inl (AuditError ''audit anchor filename sequence is not contiguous'')
      else bind_r (read_anchor lib (snd path)) (\<lambda>anchor.
        if \<not> py_eq_int (json_get anchor ''sequence'') expected_sequence
        then Inl (AuditError ''audit anchor content sequence does not match filename'')
        else if json_get anchor ''previousAnchorHash'' \<noteq> JStr (vs_anchor_hash previous)
        then Inl (AuditError ''audit anchor previous hash does not match'')
        else (case json_int (json_get anchor ''recordCount'') of
            None \<Rightarrow> Inl (AuditError ''audit anchor record count regressed'')
          | Some record_count \<Rightarrow>
              if record_count < vs_record_count previous
              then Inl (AuditError ''audit anchor record count regressed'')
              else bind_r (parse_timestamp lib (json_get anchor ''anchoredAt'')) (\<lambda>anchored_at.
                bind_r (case vs_anchored_at previous of None \<Rightarrow> Inr False | Some t \<Rightarrow> datetime_less anchored_at t) (\<lambda>earlier.
                if earlier then Inl (AuditError ''audit anchor timestamp regressed'')
                else if (case vo_expected_commit options of None \<Rightarrow> False
                           | Some commit \<Rightarrow> json_get anchor ''sourceCommit'' \<noteq> JStr commit)
                then Inl (AuditError ''audit anchor source commit does not match'')
                else bind_r (verify_anchor_record lib anchor (vo_key options)) (\<lambda>anchor_hash.
                  Inr \<lparr>vs_sequence = expected_sequence, vs_anchor_hash = anchor_hash,
                       vs_record_count = record_count, vs_anchored_at = Some anchored_at\<rparr>))))))"

fun verify_anchors_from ::
    "audit_lib \<Rightarrow> verification_options \<Rightarrow> int \<Rightarrow> verification_state \<Rightarrow> (pytext \<times> bytes option) list \<Rightarrow>
       audit_error + verification_state" where
  "verify_anchors_from lib options expected_sequence state [] = Inr state"
| "verify_anchors_from lib options expected_sequence state (path # paths) =
     bind_r (verify_next_anchor lib path expected_sequence state options) (\<lambda>state.
       verify_anchors_from lib options (expected_sequence + 1) state paths)"

definition verify_checkpoint :: "audit_lib \<Rightarrow> bytes option \<Rightarrow> int \<Rightarrow> pytext \<Rightarrow> audit_error + unit" where
  "verify_checkpoint lib content sequence anchor_hash =
     bind_r (read_anchor lib content) (\<lambda>checkpoint.
       if \<not> py_eq_int (json_get checkpoint ''sequence'') sequence \<or>
          json_get checkpoint ''anchorHash'' \<noteq> JStr anchor_hash
       then Inl (AuditError ''audit anchor checkpoint does not match latest anchor'')
       else Inr ())"

text \<open>
  The directory is \<open>None\<close> when it is missing, otherwise its files by name; the checkpoint is a file
  when the option is given.
\<close>

definition anchor_paths :: "(pytext \<times> bytes option) list \<Rightarrow> (pytext \<times> bytes option) list" where
  "anchor_paths files = sort_key fst (filter (\<lambda>(name, _). anchor_name name) files)"

definition verify_anchor_directory ::
    "audit_lib \<Rightarrow> (pytext \<times> bytes option) list option \<Rightarrow> bytes \<Rightarrow> pytext option \<Rightarrow> bytes option option \<Rightarrow>
       audit_error + nat" where
  "verify_anchor_directory lib directory key expected_commit checkpoint =
     (case directory of
        None \<Rightarrow> Inl (AuditError ''audit anchor directory is missing'')
      | Some files \<Rightarrow>
          if list_ex (\<lambda>(name, _). anchor_glob name \<and> \<not> anchor_name name) files
          then Inl (AuditError ''malformed audit anchor filename is present'')
          else
            let paths = anchor_paths files in
            if paths = [] then Inl (AuditError ''no audit anchors are available'')
            else bind_r (verify_anchors_from lib \<lparr>vo_key = key, vo_expected_commit = expected_commit\<rparr> 1 initial_state paths)
              (\<lambda>state. bind_r (case checkpoint of None \<Rightarrow> Inr ()
                                | Some content \<Rightarrow> verify_checkpoint lib content (vs_sequence state) (vs_anchor_hash state))
                (\<lambda>_. Inr (length paths))))"

section \<open>Restored logs\<close>

definition py_eq_records :: "json_object list \<Rightarrow> json_object list \<Rightarrow> bool" where
  "py_eq_records rs ss \<longleftrightarrow> list_all2 (\<lambda>r s. py_eq (JObj r) (JObj s)) rs ss"

definition chain_head :: "json_object list \<Rightarrow> json" where
  "chain_head records = (if records = [] then JStr GENESIS_HASH else json_get (last records) ''recordHash'')"

definition verify_recovery ::
    "audit_lib \<Rightarrow> bytes option \<Rightarrow> bytes option \<Rightarrow> bytes option \<Rightarrow> key_file option \<Rightarrow> audit_error + nat" where
  "verify_recovery lib original restored anchor_content key_path =
     bind_r (read_json_lines lib original) (\<lambda>original_records.
     bind_r (read_json_lines lib restored) (\<lambda>restored_records.
     bind_r (verify_records lib original_records) (\<lambda>_.
     bind_r (verify_records lib restored_records) (\<lambda>_.
     if \<not> py_eq_records original_records restored_records
     then Inl (AuditError ''restored audit records differ from the source export'')
     else (case Option.bind (Option.bind anchor_content read_text) (al_json_loads lib) of
         Some (JObj anchor) \<Rightarrow>
           if \<not> py_eq_int (json_get anchor ''recordCount'') (int (length restored_records)) \<or>
              \<not> py_eq (json_get anchor ''chainHead'') (chain_head restored_records)
           then Inl (AuditError ''external anchor does not bind the restored chain head'')
           else bind_r (require_private_key key_path) (\<lambda>key.
             bind_r (verify_anchor_record lib anchor key) (\<lambda>_. Inr (length restored_records)))
       | _ \<Rightarrow> Inl AuditCrash)))))"

section \<open>What the libraries promise\<close>

text \<open>
  A SHA-256 digest is 64 hexadecimal digits, texts of floats read back, and \<open>str\<close> of a float
  holds no bar. That the hash has no collisions is not assumed.
\<close>

locale audit_texts = float_texts "al_float_text lib"
  for lib :: audit_lib +
  assumes digest_hex: "hex_text 64 (al_sha256 lib bs)"
    and float_str: "124 \<notin> set (al_str lib (JFloat f))"

definition sha_collision :: "audit_lib \<Rightarrow> bytes \<Rightarrow> bytes \<Rightarrow> bool" where
  "sha_collision lib a b \<longleftrightarrow> a \<noteq> b \<and> al_sha256 lib a = al_sha256 lib b"

definition records_collide :: "audit_lib \<Rightarrow> json_object list \<Rightarrow> json_object list \<Rightarrow> bool" where
  "records_collide lib rs ss \<longleftrightarrow>
     (\<exists>r \<in> set rs. \<exists>s \<in> set ss. \<exists>a b. canonical_payload lib r = Inr a \<and> canonical_payload lib s = Inr b \<and> sha_collision lib a b)"

section \<open>Lemmas on the chain\<close>

lemma sort_json_py_eq_int [simp]: "py_eq_int (sort_json v) n = py_eq_int v n"
  by (cases v) auto

lemma sort_json_JStr [simp]: "sort_json v = JStr s \<longleftrightarrow> v = JStr s" "JStr s = sort_json v \<longleftrightarrow> v = JStr s"
  by (cases v; auto)+

lemma same_object_get: "same_object r s \<Longrightarrow> sort_json (json_get r k) = sort_json (json_get s k)"
  unfolding same_object_def json_get_def
  by (drule spec [of _ "text_of k"]) (auto simp del: text_of_simps split: option.splits)

lemma same_object_str: "same_object r s \<Longrightarrow> json_get r k = JStr h \<longleftrightarrow> json_get s k = JStr h"
  using same_object_get [of r s k] sort_json_JStr(1) [of "json_get r k" h] sort_json_JStr(1) [of "json_get s k" h]
  by (simp del: sort_json_JStr)

lemma same_object_int: "same_object r s \<Longrightarrow> py_eq_int (json_get r k) n \<longleftrightarrow> py_eq_int (json_get s k) n"
  using same_object_get [of r s k] sort_json_py_eq_int [of "json_get r k" n] sort_json_py_eq_int [of "json_get s k" n]
  by (simp del: sort_json_py_eq_int)

lemma canonical_payload_Inr:
  "canonical_payload lib r = Inr bs \<longleftrightarrow>
     utf8_encode (json_dumps (al_float_text lib) (JObj (dict_pop (text_of ''recordHash'') r))) = Inr bs"
  by (simp add: canonical_payload_def del: text_of_simps split: sum.split)

lemma calculate_record_hash_Inr:
  "calculate_record_hash lib r = Inr h \<longleftrightarrow> (\<exists>bs. canonical_payload lib r = Inr bs \<and> h = al_sha256 lib bs)"
  by (auto simp: calculate_record_hash_def bind_r_eq_Inr)

lemma same_object_from_pop:
  assumes "same_object (dict_pop (text_of k) r) (dict_pop (text_of k) s)"
    and "json_get r k = JStr h" and "json_get s k = JStr h"
  shows "same_object r s"
  unfolding same_object_def
proof
  fix j
  show "map_option sort_json (dict_get r j) = map_option sort_json (dict_get s j)"
  proof (cases "j = text_of k")
    case True
    with assms(2,3) show ?thesis by (simp add: json_get_def del: text_of_simps split: option.splits)
  next
    case False
    with assms(1) show ?thesis
      by (auto simp: same_object_def simp del: text_of_simps dest: spec [of _ j])
  qed
qed

lemma canonical_payload_same:
  assumes "float_texts (al_float_text lib)"
    and r: "canonical_payload lib r = Inr bs" and s: "canonical_payload lib s = Inr bs"
  shows "same_object (dict_pop (text_of ''recordHash'') r) (dict_pop (text_of ''recordHash'') s)"
proof -
  have "utf8_decode bs = Inr (json_dumps (al_float_text lib) (JObj (dict_pop (text_of ''recordHash'') r)))"
    using r by (intro utf8_decode_encode) (simp only: canonical_payload_Inr)
  moreover have "utf8_decode bs = Inr (json_dumps (al_float_text lib) (JObj (dict_pop (text_of ''recordHash'') s)))"
    using s by (intro utf8_decode_encode) (simp only: canonical_payload_Inr)
  ultimately have "json_dumps (al_float_text lib) (JObj (dict_pop (text_of ''recordHash'') r))
      = json_dumps (al_float_text lib) (JObj (dict_pop (text_of ''recordHash'') s))"
    by (simp only: sum.inject)
  from float_texts.json_dumps_inj [OF assms(1) this] show ?thesis by (rule sort_json_same_object)
qed

lemma verify_records_from_snoc:
  "verify_records_from lib p e (rs @ [r]) = Inr () \<longleftrightarrow>
     verify_records_from lib p e rs = Inr () \<and>
     py_eq_int (json_get r ''sequence'') (e + int (length rs)) \<and>
     json_get r ''previousHash'' = (if rs = [] then JStr p else json_get (last rs) ''recordHash'') \<and>
     (\<exists>h. calculate_record_hash lib r = Inr h \<and> json_get r ''recordHash'' = JStr h)"
proof (induction rs arbitrary: p e)
  case Nil
  then show ?case by (auto simp: bind_r_eq_Inr)
next
  case (Cons a rs)
  then show ?case by (auto simp: bind_r_eq_Inr add_ac)
qed

lemma verify_records_head:
  "verify_records_from lib p e rs = Inr () \<Longrightarrow> rs \<noteq> [] \<Longrightarrow> \<exists>h. json_get (last rs) ''recordHash'' = JStr h"
  by (cases rs rule: rev_cases) (auto simp: verify_records_from_snoc)

lemma records_collide_butlast: "records_collide lib rs ss \<Longrightarrow> records_collide lib (rs @ [r]) (ss @ [s])"
  unfolding records_collide_def by fastforce

lemma same_head_from:
  assumes texts: "float_texts (al_float_text lib)"
  shows "verify_records_from lib GENESIS_HASH 1 rs = Inr () \<Longrightarrow> verify_records_from lib GENESIS_HASH 1 ss = Inr () \<Longrightarrow>
    rs \<noteq> [] \<Longrightarrow> ss \<noteq> [] \<Longrightarrow> json_get (last rs) ''recordHash'' = json_get (last ss) ''recordHash'' \<Longrightarrow>
    list_all2 same_object rs ss \<or> records_collide lib rs ss"
proof (induction rs arbitrary: ss rule: rev_induct)
  case (snoc r rs)
  obtain s ss' where ss: "ss = ss' @ [s]" using snoc.prems(4) by (cases ss rule: rev_cases) auto
  obtain h a b where h: "json_get r ''recordHash'' = JStr h" "json_get s ''recordHash'' = JStr h"
    and a: "canonical_payload lib r = Inr a" "h = al_sha256 lib a"
    and b: "canonical_payload lib s = Inr b" "h = al_sha256 lib b"
    using snoc.prems(1,2,5) by (auto simp: ss verify_records_from_snoc calculate_record_hash_Inr)
  show ?case
  proof (cases "a = b")
    case False
    with a b show ?thesis by (auto simp: ss records_collide_def sha_collision_def)
  next
    case True
    have same: "same_object r s"
      using same_object_from_pop [OF canonical_payload_same [OF texts a(1)] h] b(1) True by simp
    have len: "length rs = length ss'"
      using snoc.prems(1,2) same_object_int [OF same] py_eq_int_unique [of "json_get s ''sequence''"]
      by (fastforce simp: ss verify_records_from_snoc)
    show ?thesis
    proof (cases "rs = []")
      case True
      with len same show ?thesis by (simp add: ss)
    next
      case False
      with len have ne: "ss' \<noteq> []" by auto
      have p: "json_get (last rs) ''recordHash'' = json_get r ''previousHash''"
        "json_get (last ss') ''recordHash'' = json_get s ''previousHash''"
        using snoc.prems(1,2) False ne by (simp_all add: ss verify_records_from_snoc)
      obtain q where q: "json_get (last rs) ''recordHash'' = JStr q"
        using snoc.prems(1) False verify_records_head [of lib GENESIS_HASH 1 rs] by (auto simp: verify_records_from_snoc)
      with p have "json_get s ''previousHash'' = JStr q"
        using same_object_str [OF same, of "''previousHash''" q] by simp
      with p q have "json_get (last rs) ''recordHash'' = json_get (last ss') ''recordHash''" by simp
      then have "list_all2 same_object rs ss' \<or> records_collide lib rs ss'"
        using snoc.IH [of ss'] snoc.prems(1,2) False ne by (simp add: ss verify_records_from_snoc)
      then show ?thesis
        using same records_collide_butlast by (auto simp: ss intro: list_all2_appendI)
    qed
  qed
qed simp

lemma verify_records_Inr:
  "verify_records lib rs = Inr n \<longleftrightarrow> verify_records_from lib GENESIS_HASH 1 rs = Inr () \<and> n = length rs"
  by (auto simp: verify_records_def bind_r_eq_Inr)

lemma verify_records_from_take:
  "verify_records_from lib p e rs = Inr () \<Longrightarrow> verify_records_from lib p e (take k rs) = Inr ()"
proof (induction rs arbitrary: p e k)
  case (Cons r rs)
  then show ?case by (cases k) (auto simp: bind_r_eq_Inr split: if_splits)
qed simp

section \<open>Lemmas on the anchors\<close>

definition anchor_digest :: "audit_lib \<Rightarrow> json_object \<Rightarrow> pytext" where
  "anchor_digest lib anchor = (case anchor_canonical_payload lib anchor of Inl _ \<Rightarrow> [] | Inr p \<Rightarrow> al_sha256 lib p)"

lemma compare_digest_Inr: "compare_digest a b = Inr c \<Longrightarrow> c \<longleftrightarrow> a = b"
  by (auto simp: compare_digest_def split: if_splits)

lemma verify_anchor_record_Inr:
  assumes "verify_anchor_record lib anchor key = Inr h"
  shows "\<exists>p. anchor_canonical_payload lib anchor = Inr p \<and> h = al_sha256 lib p \<and> h = anchor_digest lib anchor \<and>
    str_get lib anchor ''anchorHash'' = h \<and> str_get lib anchor ''signature'' = al_hmac_sha256 lib key (ascii_bytes h)"
  using assms
  by (auto simp: verify_anchor_record_def Let_def bind_r_eq_Inr anchor_digest_def split: if_splits dest!: compare_digest_Inr)

text \<open>An anchor the verification accepted at a place of the directory.\<close>

definition anchor_accepted ::
    "audit_lib \<Rightarrow> verification_options \<Rightarrow> pytext \<times> bytes option \<Rightarrow> int \<Rightarrow> pytext \<Rightarrow> int \<Rightarrow> json_object \<Rightarrow> bool" where
  "anchor_accepted lib options path sequence previous_hash previous_count anchor \<longleftrightarrow>
     name_sequence (fst path) = sequence \<and> read_anchor lib (snd path) = Inr anchor \<and>
     py_eq_int (json_get anchor ''sequence'') sequence \<and>
     json_get anchor ''previousAnchorHash'' = JStr previous_hash \<and>
     (\<exists>count. json_int (json_get anchor ''recordCount'') = Some count \<and> previous_count \<le> count) \<and>
     (\<forall>commit. vo_expected_commit options = Some commit \<longrightarrow> json_get anchor ''sourceCommit'' = JStr commit) \<and>
     verify_anchor_record lib anchor (vo_key options) = Inr (anchor_digest lib anchor)"

definition anchor_count :: "json_object \<Rightarrow> int" where
  "anchor_count anchor = (case json_int (json_get anchor ''recordCount'') of None \<Rightarrow> 0 | Some n \<Rightarrow> n)"

lemma verify_next_anchor_Inr:
  assumes "verify_next_anchor lib path e st options = Inr st'"
  shows "\<exists>anchor. anchor_accepted lib options path e (vs_anchor_hash st) (vs_record_count st) anchor \<and>
    vs_sequence st' = e \<and> vs_anchor_hash st' = anchor_digest lib anchor \<and> vs_record_count st' = anchor_count anchor \<and>
    (\<exists>t. parse_timestamp lib (json_get anchor ''anchoredAt'') = Inr t \<and> vs_anchored_at st' = Some t \<and>
       (\<forall>t0. vs_anchored_at st = Some t0 \<longrightarrow> datetime_less t t0 = Inr False))"
proof -
  from assms obtain anchor count t h where
    a: "name_sequence (fst path) = e" "read_anchor lib (snd path) = Inr anchor"
      "py_eq_int (json_get anchor ''sequence'') e" "json_get anchor ''previousAnchorHash'' = JStr (vs_anchor_hash st)"
      "json_int (json_get anchor ''recordCount'') = Some count" "vs_record_count st \<le> count"
      "parse_timestamp lib (json_get anchor ''anchoredAt'') = Inr t"
      "\<forall>t0. vs_anchored_at st = Some t0 \<longrightarrow> datetime_less t t0 = Inr False"
      "\<forall>commit. vo_expected_commit options = Some commit \<longrightarrow> json_get anchor ''sourceCommit'' = JStr commit"
      "verify_anchor_record lib anchor (vo_key options) = Inr h"
      "st' = \<lparr>vs_sequence = e, vs_anchor_hash = h, vs_record_count = count, vs_anchored_at = Some t\<rparr>"
    by (auto simp: verify_next_anchor_def bind_r_eq_Inr split: if_splits option.splits)
  have "h = anchor_digest lib anchor" using verify_anchor_record_Inr [OF a(10)] by blast
  with a show ?thesis by (auto simp: anchor_accepted_def anchor_count_def intro!: exI [of _ anchor])
qed

fun anchor_chain ::
    "audit_lib \<Rightarrow> verification_options \<Rightarrow> int \<Rightarrow> pytext \<Rightarrow> int \<Rightarrow> (pytext \<times> bytes option) list \<Rightarrow> json_object list \<Rightarrow> bool" where
  "anchor_chain lib options e h n (p # ps) (a # as) \<longleftrightarrow>
     anchor_accepted lib options p e h n a \<and> anchor_chain lib options (e + 1) (anchor_digest lib a) (anchor_count a) ps as"
| "anchor_chain lib options e h n [] [] \<longleftrightarrow> True"
| "anchor_chain lib options e h n _ _ \<longleftrightarrow> False"

lemma verify_anchors_from_chain:
  "verify_anchors_from lib options e st paths = Inr st' \<Longrightarrow>
     \<exists>anchors. anchor_chain lib options e (vs_anchor_hash st) (vs_record_count st) paths anchors \<and>
       (paths \<noteq> [] \<longrightarrow> vs_sequence st' = e + int (length paths) - 1 \<and> vs_anchor_hash st' = anchor_digest lib (last anchors))"
proof (induction paths arbitrary: e st)
  case Nil
  then show ?case by (intro exI [of _ "[]"]) simp
next
  case (Cons path paths)
  then obtain st1 where st1: "verify_next_anchor lib path e st options = Inr st1"
    and rest: "verify_anchors_from lib options (e + 1) st1 paths = Inr st'"
    by (auto simp: bind_r_eq_Inr)
  from verify_next_anchor_Inr [OF st1] obtain a where a:
    "anchor_accepted lib options path e (vs_anchor_hash st) (vs_record_count st) a" "vs_sequence st1 = e"
    "vs_anchor_hash st1 = anchor_digest lib a" "vs_record_count st1 = anchor_count a"
    by blast
  from Cons.IH [OF rest] obtain as where as:
    "anchor_chain lib options (e + 1) (anchor_digest lib a) (anchor_count a) paths as"
    "paths \<noteq> [] \<longrightarrow> vs_sequence st' = e + 1 + int (length paths) - 1 \<and> vs_anchor_hash st' = anchor_digest lib (last as)"
    using a by auto
  show ?case
  proof (intro exI [of _ "a # as"] conjI impI)
    show "anchor_chain lib options e (vs_anchor_hash st) (vs_record_count st) (path # paths) (a # as)"
      using a as by simp
    show "vs_sequence st' = e + int (length (path # paths)) - 1" "vs_anchor_hash st' = anchor_digest lib (last (a # as))"
      using a as rest by (cases paths; cases as; simp)+
  qed
qed

lemma anchor_chain_nth:
  "anchor_chain lib options e h n ps as \<Longrightarrow> length as = length ps \<and>
     (\<forall>i < length ps. anchor_accepted lib options (ps ! i) (e + int i) (if i = 0 then h else anchor_digest lib (as ! (i - 1)))
        (if i = 0 then n else anchor_count (as ! (i - 1))) (as ! i))"
proof (induction lib options e h n ps as rule: anchor_chain.induct)
  case (1 lib options e h n p ps a as)
  show ?case
  proof (intro conjI allI impI)
    show "length (a # as) = length (p # ps)" using 1 by simp
    fix i
    assume "i < length (p # ps)"
    then show "anchor_accepted lib options ((p # ps) ! i) (e + int i) (if i = 0 then h else anchor_digest lib ((a # as) ! (i - 1)))
        (if i = 0 then n else anchor_count ((a # as) ! (i - 1))) ((a # as) ! i)"
      using 1 by (cases i; cases "i - 1") (auto simp: add_ac)
  qed
qed auto

lemma anchor_chain_counts:
  "anchor_chain lib options e h n ps as \<Longrightarrow> sorted (map anchor_count as) \<and> (\<forall>a \<in> set as. n \<le> anchor_count a)"
  by (induction lib options e h n ps as rule: anchor_chain.induct)
    (auto simp: anchor_accepted_def anchor_count_def split: option.splits)

lemma verify_anchor_directory_Inr:
  assumes "verify_anchor_directory lib (Some files) key commit checkpoint = Inr n"
  shows "\<exists>anchors. anchor_chain lib \<lparr>vo_key = key, vo_expected_commit = commit\<rparr> 1 GENESIS_HASH (- 1) (anchor_paths files) anchors \<and>
    n = length (anchor_paths files) \<and> 0 < n \<and>
    (\<forall>content. checkpoint = Some content \<longrightarrow> (\<exists>cp. read_anchor lib content = Inr cp \<and>
       py_eq_int (json_get cp ''sequence'') (int n) \<and> json_get cp ''anchorHash'' = JStr (anchor_digest lib (last anchors))))"
proof -
  from assms obtain st where st:
    "verify_anchors_from lib \<lparr>vo_key = key, vo_expected_commit = commit\<rparr> 1 initial_state (anchor_paths files) = Inr st"
    and n: "n = length (anchor_paths files)" "anchor_paths files \<noteq> []"
    and cp: "\<forall>content. checkpoint = Some content \<longrightarrow> verify_checkpoint lib content (vs_sequence st) (vs_anchor_hash st) = Inr ()"
    by (auto simp: verify_anchor_directory_def Let_def bind_r_eq_Inr split: if_splits option.splits)
  from verify_anchors_from_chain [OF st] n cp show ?thesis
    by (auto simp: initial_state_def verify_checkpoint_def bind_r_eq_Inr split: if_splits)
qed

lemma payload_field_Inr: "payload_field lib anchor field = Inr t \<Longrightarrow> t = py_str lib (json_get anchor field)"
  by (auto simp: payload_field_def json_get_def split: option.splits)

lemma anchor_payload_prefix:
  assumes "anchor_canonical_payload lib anchor = Inr bs"
  shows "\<exists>rest. utf8_encode (py_str lib (json_get anchor ''sequence'') @ 124 #
    py_str lib (json_get anchor ''previousAnchorHash'') @ 124 # rest) = Inr bs"
proof -
  from assms obtain fields where fields: "map_r (payload_field lib anchor) PAYLOAD_FIELDS = Inr fields"
    and enc: "(case utf8_encode (join_with [124] fields) of Inl _ \<Rightarrow> Inl AuditCrash | Inr x \<Rightarrow> Inr x) = Inr bs"
    by (auto simp: anchor_canonical_payload_def bind_r_eq_Inr)
  from enc have bs: "utf8_encode (join_with [124] fields) = Inr bs"
    by (cases "utf8_encode (join_with [124] fields)") auto
  from fields obtain f1 f2 f3 fs where "fields = f1 # f2 # f3 # fs" "payload_field lib anchor ''sequence'' = Inr f1"
    "payload_field lib anchor ''previousAnchorHash'' = Inr f2"
    by (auto simp: PAYLOAD_FIELDS_def bind_r_eq_Inr)
  with bs show ?thesis by (auto dest!: payload_field_Inr)
qed

lemma sequence_text_no_bar:
  assumes "audit_texts lib" and "py_eq_int v n"
  shows "124 \<notin> set (py_str lib v)"
proof -
  have "124 \<notin> set (show_text i)" for i using show_text_chars [of 124 i] by auto
  then show ?thesis
    using assms audit_texts.float_str [OF assms(1)] by (cases v) (auto simp: json_text_def)
qed

lemma digest_no_bar: "audit_texts lib \<Longrightarrow> 124 \<notin> set (al_sha256 lib bs)"
  using audit_texts.digest_hex [of lib bs] by (auto simp: hex_text_def list_all_iff hex_char_def ascii_digit_def)

lemma genesis_no_bar: "124 \<notin> set GENESIS_HASH"
  by (simp add: GENESIS_HASH_def)

lemma payload_previous:
  assumes lib: "audit_texts lib"
    and "anchor_canonical_payload lib a = Inr bs" and "anchor_canonical_payload lib b = Inr bs"
    and "py_eq_int (json_get a ''sequence'') m" and "py_eq_int (json_get b ''sequence'') n"
    and "json_get a ''previousAnchorHash'' = JStr g" and "json_get b ''previousAnchorHash'' = JStr h"
    and "124 \<notin> set g" and "124 \<notin> set h"
  shows "g = h"
proof -
  obtain s t where "utf8_encode (py_str lib (json_get a ''sequence'') @ 124 # g @ 124 # s) = Inr bs"
    "utf8_encode (py_str lib (json_get b ''sequence'') @ 124 # h @ 124 # t) = Inr bs"
    using anchor_payload_prefix [OF assms(2)] anchor_payload_prefix [OF assms(3)] assms(6,7) by (auto simp: json_text_def)
  from this [THEN utf8_decode_encode]
  have "py_str lib (json_get a ''sequence'') @ 124 # (g @ 124 # s) = py_str lib (json_get b ''sequence'') @ 124 # (h @ 124 # t)"
    by simp
  from split_at_mark [OF sequence_text_no_bar [OF lib assms(4)] sequence_text_no_bar [OF lib assms(5)] this]
  have "g @ 124 # s = h @ 124 # t" by simp
  from split_at_mark [OF assms(8,9) this] show ?thesis by simp
qed

definition anchors_collide :: "audit_lib \<Rightarrow> (pytext \<times> bytes option) list \<Rightarrow> (pytext \<times> bytes option) list \<Rightarrow> bool" where
  "anchors_collide lib ps qs \<longleftrightarrow>
     (\<exists>p \<in> set ps. \<exists>q \<in> set qs. \<exists>a b x y. read_anchor lib (snd p) = Inr a \<and> read_anchor lib (snd q) = Inr b \<and>
        anchor_canonical_payload lib a = Inr x \<and> anchor_canonical_payload lib b = Inr y \<and> sha_collision lib x y)"

definition same_payload :: "audit_lib \<Rightarrow> pytext \<times> bytes option \<Rightarrow> pytext \<times> bytes option \<Rightarrow> bool" where
  "same_payload lib p q \<longleftrightarrow>
     (\<exists>a b x. read_anchor lib (snd p) = Inr a \<and> read_anchor lib (snd q) = Inr b \<and>
        anchor_canonical_payload lib a = Inr x \<and> anchor_canonical_payload lib b = Inr x)"

lemma anchor_digest_payload:
  assumes "anchor_accepted lib options p e h n a"
  shows "\<exists>x. anchor_canonical_payload lib a = Inr x \<and> anchor_digest lib a = al_sha256 lib x"
  using assms verify_anchor_record_Inr by (auto simp: anchor_accepted_def) blast

lemma same_digest_chain:
  assumes lib: "audit_texts lib"
    and c: "anchor_chain lib o1 1 GENESIS_HASH (- 1) ps as" and d: "anchor_chain lib o2 1 GENESIS_HASH (- 1) qs bs"
    and len: "length ps = length qs" and last: "ps \<noteq> []" "anchor_digest lib (last as) = anchor_digest lib (last bs)"
    and nc: "\<not> anchors_collide lib ps qs"
  shows "k < length ps \<Longrightarrow> anchor_canonical_payload lib (as ! (length ps - 1 - k)) = anchor_canonical_payload lib (bs ! (length ps - 1 - k))"
proof (induction k)
  note nth = anchor_chain_nth [OF c] anchor_chain_nth [OF d]
  have eq: "anchor_canonical_payload lib (as ! i) = anchor_canonical_payload lib (bs ! i)"
    if i: "i < length ps" and digest: "anchor_digest lib (as ! i) = anchor_digest lib (bs ! i)" for i
  proof -
    have acc: "anchor_accepted lib o1 (ps ! i) (1 + int i) (if i = 0 then GENESIS_HASH else anchor_digest lib (as ! (i - 1)))
        (if i = 0 then - 1 else anchor_count (as ! (i - 1))) (as ! i)"
      "anchor_accepted lib o2 (qs ! i) (1 + int i) (if i = 0 then GENESIS_HASH else anchor_digest lib (bs ! (i - 1)))
        (if i = 0 then - 1 else anchor_count (bs ! (i - 1))) (bs ! i)"
      using nth i len by auto
    obtain x y where x: "anchor_canonical_payload lib (as ! i) = Inr x" "anchor_digest lib (as ! i) = al_sha256 lib x"
      and y: "anchor_canonical_payload lib (bs ! i) = Inr y" "anchor_digest lib (bs ! i) = al_sha256 lib y"
      using anchor_digest_payload [OF acc(1)] anchor_digest_payload [OF acc(2)] by blast
    have "read_anchor lib (snd (ps ! i)) = Inr (as ! i)" "read_anchor lib (snd (qs ! i)) = Inr (bs ! i)"
      using acc by (auto simp: anchor_accepted_def)
    moreover have "ps ! i \<in> set ps" "qs ! i \<in> set qs" using i len by auto
    ultimately have "\<not> sha_collision lib x y" using nc x(1) y(1) unfolding anchors_collide_def by blast
    with x y digest show ?thesis by (simp add: sha_collision_def)
  qed
  {
    case 0
    have "anchor_digest lib (as ! (length ps - 1)) = anchor_digest lib (bs ! (length ps - 1))"
    proof -
      have "length as = length ps" "length bs = length ps" using nth len by simp_all
      then have "as \<noteq> []" "bs \<noteq> []" using last(1) by auto
      then show ?thesis using last(2) \<open>length as = length ps\<close> \<open>length bs = length ps\<close> by (simp add: last_conv_nth)
    qed
    with eq [of "length ps - 1"] 0 show ?case by simp
  next
    case (Suc k)
    define i where "i = length ps - 1 - k"
    have i: "i < length ps" "0 < i" "length ps - 1 - Suc k = i - 1" using Suc.prems by (auto simp: i_def)
    have acc: "anchor_accepted lib o1 (ps ! i) (1 + int i) (anchor_digest lib (as ! (i - 1))) (anchor_count (as ! (i - 1))) (as ! i)"
      "anchor_accepted lib o2 (qs ! i) (1 + int i) (anchor_digest lib (bs ! (i - 1))) (anchor_count (bs ! (i - 1))) (bs ! i)"
      using conjunct2 [OF nth(1), rule_format, OF i(1)] conjunct2 [OF nth(2), rule_format, of i] i len by simp_all
    have "anchor_canonical_payload lib (as ! i) = anchor_canonical_payload lib (bs ! i)"
      using Suc.IH Suc.prems by (simp add: i_def)
    then obtain x where x: "anchor_canonical_payload lib (as ! i) = Inr x" "anchor_canonical_payload lib (bs ! i) = Inr x"
      using anchor_digest_payload [OF acc(1)] by auto
    have "124 \<notin> set (anchor_digest lib a)" for a
      using digest_no_bar [OF lib] by (simp add: anchor_digest_def split: sum.split)
    moreover have "py_eq_int (json_get (as ! i) ''sequence'') (1 + int i)" "py_eq_int (json_get (bs ! i) ''sequence'') (1 + int i)"
      "json_get (as ! i) ''previousAnchorHash'' = JStr (anchor_digest lib (as ! (i - 1)))"
      "json_get (bs ! i) ''previousAnchorHash'' = JStr (anchor_digest lib (bs ! (i - 1)))"
      using acc by (simp_all add: anchor_accepted_def)
    ultimately have "anchor_digest lib (as ! (i - 1)) = anchor_digest lib (bs ! (i - 1))"
      using payload_previous [OF lib x] by blast
    with eq [of "i - 1"] i show ?case by simp
  }
qed

section \<open>Properties\<close>

text \<open>
  C14: The audit log is tamper evident: two logs that both verify and have the same head hash hold
  the same records, field by field and at every place, unless two of their records have different
  canonical payloads with one SHA-256 digest. So no record of a verified log whose head is known
  can be changed, dropped, inserted or moved.
\<close>

theorem audit_log_tamper_evident:
  assumes "float_texts (al_float_text lib)"
    and "verify_records lib rs = Inr n" and "verify_records lib ss = Inr m" and "0 < n" and "0 < m"
    and "chain_head rs = chain_head ss"
  shows "list_all2 same_object rs ss \<or> records_collide lib rs ss"
  using assms by (intro same_head_from) (auto simp: verify_records_Inr chain_head_def)

text \<open>
  Cutting the end of a log off is not noticed by the chain: every beginning of a log that
  verifies verifies. Only an anchor can show that records are missing at the end, which
  \<open>verify_recovery\<close> asks for.
\<close>

theorem audit_prefix_accepted:
  assumes "verify_records lib rs = Inr n"
  shows "verify_records lib (take k rs) = Inr (min k n)"
  using assms verify_records_from_take [of lib GENESIS_HASH 1 rs k] by (auto simp: verify_records_Inr)

text \<open>
  A directory of anchors that is accepted is complete: its files in the order of their names
  are numbered from one without a gap, every anchor carries its number, the digest of the one
  before it, a record count that never decreases, the expected commit, its own digest and the
  HMAC of this digest under the key.
\<close>

theorem anchor_directory_complete:
  assumes "verify_anchor_directory lib (Some files) key commit checkpoint = Inr n"
  shows "\<exists>anchors. length anchors = n \<and> length (anchor_paths files) = n \<and> 0 < n \<and> sorted (map anchor_count anchors) \<and>
    (\<forall>i < n. anchor_accepted lib \<lparr>vo_key = key, vo_expected_commit = commit\<rparr> (anchor_paths files ! i) (1 + int i)
       (if i = 0 then GENESIS_HASH else anchor_digest lib (anchors ! (i - 1)))
       (if i = 0 then - 1 else anchor_count (anchors ! (i - 1))) (anchors ! i))"
  using verify_anchor_directory_Inr [OF assms] anchor_chain_nth anchor_chain_counts by fastforce

text \<open>
  A checkpoint pins the whole history: two directories accepted under one checkpoint, even with
  different keys, hold equally many anchors with the same signed payloads place by place, unless
  two of their payloads have one SHA-256 digest.
\<close>

theorem checkpoint_pins_anchors:
  assumes lib: "audit_texts lib"
    and "verify_anchor_directory lib (Some files) key commit (Some checkpoint) = Inr n"
    and "verify_anchor_directory lib (Some files') key' commit' (Some checkpoint) = Inr n'"
  shows "n = n' \<and> (list_all2 (same_payload lib) (anchor_paths files) (anchor_paths files') \<or>
    anchors_collide lib (anchor_paths files) (anchor_paths files'))"
proof -
  let ?ps = "anchor_paths files" and ?qs = "anchor_paths files'"
  obtain as bs cp where as: "anchor_chain lib \<lparr>vo_key = key, vo_expected_commit = commit\<rparr> 1 GENESIS_HASH (- 1) ?ps as"
      "n = length ?ps" "0 < n" "py_eq_int (json_get cp ''sequence'') (int n)"
      "json_get cp ''anchorHash'' = JStr (anchor_digest lib (last as))"
    and bs: "anchor_chain lib \<lparr>vo_key = key', vo_expected_commit = commit'\<rparr> 1 GENESIS_HASH (- 1) ?qs bs"
      "n' = length ?qs" "py_eq_int (json_get cp ''sequence'') (int n')"
      "json_get cp ''anchorHash'' = JStr (anchor_digest lib (last bs))"
    using verify_anchor_directory_Inr [OF assms(2)] verify_anchor_directory_Inr [OF assms(3)] by auto
  have n: "n = n'" using py_eq_int_unique [OF as(4) bs(3)] by simp
  have "list_all2 (same_payload lib) ?ps ?qs" if nc: "\<not> anchors_collide lib ?ps ?qs"
  proof (rule list_all2_all_nthI)
    show "length ?ps = length ?qs" using as(2) bs(2) n by simp
    fix i
    assume i: "i < length ?ps"
    have "anchor_canonical_payload lib (as ! i) = anchor_canonical_payload lib (bs ! i)"
      using same_digest_chain [OF lib as(1) bs(1) _ _ _ nc, of "length ?ps - 1 - i"] i as bs n by auto
    moreover have acc: "read_anchor lib (snd (?ps ! i)) = Inr (as ! i)" "read_anchor lib (snd (?qs ! i)) = Inr (bs ! i)"
      using anchor_chain_nth [OF as(1)] anchor_chain_nth [OF bs(1)] i as(2) bs(2) n by (auto simp: anchor_accepted_def)
    moreover have "\<exists>x. anchor_canonical_payload lib (as ! i) = Inr x"
      using anchor_chain_nth [OF as(1)] i anchor_digest_payload by blast
    ultimately show "same_payload lib (?ps ! i) (?qs ! i)" by (auto simp: same_payload_def)
  qed
  with n show ?thesis by blast
qed


text \<open>
  The signed fields of an anchor are not unambiguous: they are joined by bars, so an anchor
  whose source commit holds bars can be rewritten, with the same digest and signature, into one
  that claims another head and another time.
\<close>

theorem anchor_fields_ambiguous:
  "\<exists>a b. json_get a ''chainHead'' \<noteq> json_get b ''chainHead'' \<and> json_get a ''anchoredAt'' \<noteq> json_get b ''anchoredAt'' \<and>
     json_get a ''anchorHash'' = JStr h \<and> json_get a ''signature'' = JStr s \<and>
     json_get b ''anchorHash'' = JStr h \<and> json_get b ''signature'' = JStr s \<and>
     verify_anchor_record lib a key = verify_anchor_record lib b key"
proof -
  define anchor where "anchor head moment commit =
    [(text_of ''sequence'', JInt 1), (text_of ''previousAnchorHash'', JStr GENESIS_HASH), (text_of ''chainHead'', JStr head),
     (text_of ''recordCount'', JInt 7), (text_of ''anchoredAt'', JStr moment), (text_of ''sourceCommit'', JStr commit),
     (text_of ''anchorHash'', JStr h), (text_of ''signature'', JStr s)]" for head moment commit
  let ?a = "anchor (text_of ''h'') (text_of ''2026-01-01'') (text_of ''7|2027-01-01|c'')"
  let ?b = "anchor (text_of ''h|7|2026-01-01'') (text_of ''2027-01-01'') (text_of ''c'')"
  have "anchor_canonical_payload lib ?a = anchor_canonical_payload lib ?b"
    by (simp add: anchor_canonical_payload_def PAYLOAD_FIELDS_def payload_field_def anchor_def json_text_def dict_get_def bind_r_def
        show_text_def show_int_def show_nat.simps)
  moreover have "str_get lib ?a ''anchorHash'' = str_get lib ?b ''anchorHash''"
    "str_get lib ?a ''signature'' = str_get lib ?b ''signature''"
    by (simp_all add: str_get_def text_get_def anchor_def dict_get_def)
  ultimately have "verify_anchor_record lib ?a key = verify_anchor_record lib ?b key"
    by (simp only: verify_anchor_record_def)
  then show ?thesis
    by (intro exI [of _ ?a] exI [of _ ?b]) (simp add: anchor_def json_get_def dict_get_def)
qed

text \<open>The size of a key is looked at before white space is stripped: a blank file is a key.\<close>

lemma blank_key_accepted: "require_private_key (Some \<lparr>kf_mode = 384, kf_content = replicate 32 10\<rparr>) = Inr []"
  by (simp add: require_private_key_def strip_bytes_def byte_space_def)

section \<open>A concrete log and its anchor\<close>

definition sample_body :: json_object where
  "sample_body = [(text_of ''sequence'', JInt 1), (text_of ''previousHash'', JStr GENESIS_HASH), (text_of ''action'', JStr (text_of ''login''))]"

definition sample_record :: json_object where
  "sample_record = sample_body @ [(text_of ''recordHash'', JStr (json_dumps quotient_text (JObj sample_body)))]"

definition sample_anchor :: json_object where
  "sample_anchor =
     [(text_of ''sequence'', JInt 1), (text_of ''previousAnchorHash'', JStr GENESIS_HASH),
      (text_of ''chainHead'', json_get sample_record ''recordHash''), (text_of ''recordCount'', JInt 1),
      (text_of ''anchoredAt'', JStr (text_of ''2026-01-01T00:00:00Z'')), (text_of ''sourceCommit'', JStr (text_of ''c0ffee'')),
      (text_of ''anchorHash'', JStr GENESIS_HASH), (text_of ''signature'', JStr (replicate 64 49))]"

definition sample_audit_lib :: audit_lib where
  "sample_audit_lib =
     \<lparr>al_sha256 = (\<lambda>bs. if take 1 bs = [123] then map unat bs else GENESIS_HASH),
      al_hmac_sha256 = (\<lambda>key bs. replicate 64 49),
      al_json_loads = (\<lambda>t. if t = [97] then Some (JObj sample_record) else if t = [98] then Some (JObj sample_anchor) else None),
      al_float_text = quotient_text, al_str = (\<lambda>_. []),
      al_fromisoformat = (\<lambda>_. Some \<lparr>dt_wall_micros = 0, dt_utcoffset_micros = Some 0\<rparr>)\<rparr>"


definition sample_key :: key_file where
  "sample_key = \<lparr>kf_mode = 384, kf_content = replicate 40 65\<rparr>"

lemma sample_log: "verify_records sample_audit_lib [sample_record] = Inr 1"
  by code_simp

lemma sample_texts: "read_text [97] = Some [97]" "read_text [98] = Some [98]"
  by code_simp+

lemma sample_lines: "py_splitlines [97] = [[97]]"
  by (simp add: py_splitlines.simps [of "[97]"] line_break_def)

lemma sample_loads:
  "al_json_loads sample_audit_lib [97] = Some (JObj sample_record)" "al_json_loads sample_audit_lib [98] = Some (JObj sample_anchor)"
  by (simp_all add: sample_audit_lib_def)

lemma sample_read: "read_json_lines sample_audit_lib (Some [97]) = Inr [sample_record]"
  by (simp add: read_json_lines_def sample_texts sample_lines read_json_line_def sample_loads)

lemma sample_anchor_read: "Option.bind (Option.bind (Some [98]) read_text) (al_json_loads sample_audit_lib) = Some (JObj sample_anchor)"
  by (simp add: sample_texts sample_loads)

lemma sample_anchor_verified:
  "verify_anchor_record sample_audit_lib sample_anchor (replicate 40 65) = Inr GENESIS_HASH"
  by code_simp

lemma sample_anchor_fields:
  "py_eq_int (json_get sample_anchor ''recordCount'') 1" "py_eq (json_get sample_anchor ''chainHead'') (chain_head [sample_record])"
  "py_eq_records [sample_record] [sample_record]" "require_private_key (Some sample_key) = Inr (replicate 40 65)"
  by code_simp+

lemma sample_recovery:
  "verify_recovery sample_audit_lib (Some [97]) (Some [97]) (Some [98]) (Some sample_key) = Inr 1"
  using sample_log sample_read sample_anchor_read sample_anchor_verified sample_anchor_fields
  by (simp add: verify_recovery_def)

definition sample_anchor_lib :: audit_lib where
  "sample_anchor_lib = sample_audit_lib\<lparr>al_sha256 := \<lambda>_. GENESIS_HASH\<rparr>"

definition sample_directory :: "(pytext \<times> bytes option) list" where
  "sample_directory = [(text_of ''anchor-00000000000000000001.json'', Some [98])]"

lemma sample_directory_ok:
  "verify_anchor_directory sample_anchor_lib (Some sample_directory) (replicate 40 65) None (Some (Some [98])) = Inr 1"
  by code_simp

interpretation sample_audit: audit_texts sample_anchor_lib
proof -
  have "al_float_text sample_anchor_lib = quotient_text" by (simp add: sample_anchor_lib_def sample_audit_lib_def)
  then have "float_texts (al_float_text sample_anchor_lib)" by (simp add: quotient_texts.float_texts_axioms)
  then show "audit_texts sample_anchor_lib"
    by (rule audit_texts.intro)
      (unfold_locales; simp add: sample_anchor_lib_def sample_audit_lib_def GENESIS_HASH_def hex_text_def hex_char_def
        ascii_digit_def list_all_iff)
qed

theorem audit_log_tamper_evident_witness:
  "list_all2 same_object [sample_record] [sample_record] \<or> records_collide sample_audit_lib [sample_record] [sample_record]"
proof (rule audit_log_tamper_evident)
  show "float_texts (al_float_text sample_audit_lib)"
    using quotient_texts.float_texts_axioms by (simp add: sample_audit_lib_def)
  show "verify_records sample_audit_lib [sample_record] = Inr 1" "verify_records sample_audit_lib [sample_record] = Inr 1"
    by (rule sample_log)+
qed simp_all

theorem audit_prefix_accepted_witness: "verify_records sample_audit_lib (take 0 [sample_record]) = Inr (min 0 1)"
  by (rule audit_prefix_accepted [OF sample_log])

theorem anchor_directory_complete_witness:
  "\<exists>anchors. length anchors = 1 \<and> sorted (map anchor_count anchors)"
  using anchor_directory_complete [OF sample_directory_ok] by blast

theorem checkpoint_pins_anchors_witness:
  "list_all2 (same_payload sample_anchor_lib) (anchor_paths sample_directory) (anchor_paths sample_directory) \<or>
   anchors_collide sample_anchor_lib (anchor_paths sample_directory) (anchor_paths sample_directory)"
  using checkpoint_pins_anchors [OF sample_audit.audit_texts_axioms sample_directory_ok sample_directory_ok] by blast


end
