(* ===== verification/Backfill.thy ===== *)
theory Backfill
  imports Ops_Base
begin

text \<open>
  The telemetry identity backfill, \<open>scripts/ops/telemetry_backfill_safety.py\<close> and
  \<open>telemetry_identity_backfill.py\<close>: who may change the production table, the evidence of a
  restorable backup it takes, and the bounded batches with the guarded primary key. The machine
  (\<open>posix_host\<close>), SHA-256, the JSON reader, \<open>strptime\<close>, percent decoding and the database are
  arguments; what PostgreSQL promises of the four statements is the locale \<open>identity_table\<close>.
\<close>

section \<open>Errors, options and the machine\<close>

datatype backfill_error_code =
    PosixFileBoundaryRequired | Server01TargetRequired | DatabaseResponseInvalid | BackfillBoundsInvalid
  | FinalizeRequiresRun | PrivateFileInvalid | PrivateFilePermissionsInvalid | DatabaseSecretSizeInvalid
  | DatabaseTargetInvalid | LocalFixtureTargetInvalid | DatabaseTlsRequired | BackupEvidenceInvalid
  | BackupChecksumMismatch | BackupRestoreUnverified | BackupEvidenceExpired | MaintenanceWindowRequired
  | UnexpectedTelemetryPrimaryKey | BackfillIncomplete

text \<open>An \<open>IdentityBackfillError\<close>, or another exception (\<open>OSError\<close>, \<open>ValueError\<close>, a database error).\<close>

datatype backfill_failure = IdentityBackfillError backfill_error_code | OtherFailure

record backfill_options =
  bf_run :: bool
  bf_finalize :: bool
  bf_local_fixture :: bool
  bf_batch_size :: int
  bf_max_batches :: int

definition validate_options :: "backfill_options \<Rightarrow> backfill_failure + unit" where
  "validate_options o' =
     (if \<not> (1 \<le> bf_batch_size o' \<and> bf_batch_size o' \<le> 10000 \<and> 1 \<le> bf_max_batches o' \<and> bf_max_batches o' \<le> 1000)
      then Inl (IdentityBackfillError BackfillBoundsInvalid)
      else if bf_finalize o' \<and> \<not> bf_run o' then Inl (IdentityBackfillError FinalizeRequiresRun)
      else Inr ())"

text \<open>A regular file reached through a path, with what \<open>stat\<close> says of it; its octets if it can be read.\<close>

record posix_file =
  pf_symlink :: bool
  pf_uid :: int
  pf_gid :: int
  pf_permissions :: int
  pf_size :: int
  pf_content :: "bytes option"

record posix_host =
  ph_posix :: bool
  ph_euid :: int
  ph_groups :: "int list"
  ph_getenv :: "string \<Rightarrow> pytext option"
  ph_file :: "pytext \<Rightarrow> posix_file option"
  ph_sha256 :: "bytes \<Rightarrow> pytext"
  ph_json_loads :: "pytext \<Rightarrow> json option"
  ph_strptime :: "pytext \<Rightarrow> int option"
  ph_unquote :: "pytext \<Rightarrow> pytext"
  ph_netloc_ok :: "pytext \<Rightarrow> bool"

definition private_file :: "posix_host \<Rightarrow> pytext \<Rightarrow> bool \<Rightarrow> backfill_failure + posix_file" where
  "private_file h path runtime_acl =
     (if \<not> ph_posix h then Inl (IdentityBackfillError PosixFileBoundaryRequired)
      else case ph_file h path of
        None \<Rightarrow> Inl (IdentityBackfillError PrivateFileInvalid)
      | Some f \<Rightarrow>
          if take 1 path \<noteq> [47] \<or> pf_symlink f then Inl (IdentityBackfillError PrivateFileInvalid)
          else
            let allowed_group = runtime_acl \<and> pf_gid f = 10050 \<and> pf_gid f \<in> set (ph_groups h) in
            if pf_uid f \<notin> {0, ph_euid h} \<or> and (pf_permissions f) 0x1F \<noteq> 0
            then Inl (IdentityBackfillError PrivateFilePermissionsInvalid)
            else if and (pf_permissions f) 0x38 \<noteq> 0 \<and> \<not> allowed_group
            then Inl (IdentityBackfillError PrivateFilePermissionsInvalid)
            else Inr f)"

section \<open>The database the script connects to\<close>

definition LOCAL_DATABASES :: "string list" where
  "LOCAL_DATABASES = [''gcs_identity_backfill_smoke'', ''gcs_ownership_smoke'']"

definition LOCAL_HOSTS :: "string list" where
  "LOCAL_HOSTS = [''127.0.0.1'', ''localhost'', ''postgres'']"

definition env_text :: "posix_host \<Rightarrow> string \<Rightarrow> string \<Rightarrow> pytext" where
  "env_text h name otherwise = (case ph_getenv h name of None \<Rightarrow> text_of otherwise | Some v \<Rightarrow> v)"

text \<open>\<open>s.replace(old, new, 1)\<close>\<close>

fun replace_once :: "pytext \<Rightarrow> pytext \<Rightarrow> pytext \<Rightarrow> pytext" where
  "replace_once old new [] = (if old = [] then new else [])"
| "replace_once old new (c # cs) =
     (if starts_with old (c # cs) then new @ drop (length old) (c # cs) else c # replace_once old new cs)"

text \<open>\<open>parse_qs(query).get(name)\<close>: the values of a name that are not blank, decoded.\<close>

definition parse_qs_values :: "(pytext \<Rightarrow> pytext) \<Rightarrow> pytext \<Rightarrow> pytext \<Rightarrow> pytext list" where
  "parse_qs_values unquote query name =
     map (\<lambda>(k, v). unquote (replace_char 43 32 v))
       (filter (\<lambda>(k, v). v \<noteq> [] \<and> unquote (replace_char 43 32 k) = name)
         (map (split_first 61) (filter (\<lambda>item. 61 \<in> set item) (split_on 38 query))))"

definition server01_target :: "posix_host \<Rightarrow> bool" where
  "server01_target h \<longleftrightarrow> ph_getenv h ''DEPLOYMENT_TARGET'' = Some (text_of ''server01-production'')"

definition raw_dsn :: "posix_host \<Rightarrow> backfill_options \<Rightarrow> backfill_failure + pytext" where
  "raw_dsn h o' =
     (if bf_local_fixture o' then Inr (env_text h ''TEST_TELEMETRY_POSTGRES_DSN'' [])
      else if \<not> server01_target h then Inl (IdentityBackfillError Server01TargetRequired)
      else bind_r (private_file h (env_text h ''DATABASE_URL_FILE'' ''/run/secrets/DATABASE_URL'') True) (\<lambda>secret.
        if 4096 < pf_size secret then Inl (IdentityBackfillError DatabaseSecretSizeInvalid)
        else case Option.bind (pf_content secret) read_text of None \<Rightarrow> Inl OtherFailure | Some s \<Rightarrow> Inr (py_strip s)))"

definition database_dsn :: "posix_host \<Rightarrow> backfill_options \<Rightarrow> backfill_failure + pytext" where
  "database_dsn h o' =
     bind_r (raw_dsn h o') (\<lambda>raw.
     let dsn = replace_once (text_of ''postgresql+psycopg2://'') (text_of ''postgresql://'') raw in
     case urlparse (ph_netloc_ok h) dsn of
       None \<Rightarrow> Inl OtherFailure
     | Some u \<Rightarrow>
         if url_scheme u \<noteq> text_of ''postgresql'' \<or> url_hostname u = []
         then Inl (IdentityBackfillError DatabaseTargetInvalid)
         else if bf_local_fixture o' then
           (if url_hostname u \<notin> set (map text_of LOCAL_HOSTS) \<or>
               dropWhile (\<lambda>c. c = 47) (url_path u) \<notin> set (map text_of LOCAL_DATABASES)
            then Inl (IdentityBackfillError LocalFixtureTargetInvalid) else Inr dsn)
         else
           (if parse_qs_values (ph_unquote h) (url_query u) (text_of ''sslmode'') \<noteq> [text_of ''verify-full''] \<or>
               parse_qs_values (ph_unquote h) (url_query u) (text_of ''sslrootcert'') = []
            then Inl (IdentityBackfillError DatabaseTlsRequired) else Inr dsn))"

section \<open>The evidence of a backup\<close>

definition BACKUP_MAX_AGE_MICROS :: int where
  "BACKUP_MAX_AGE_MICROS = 24 * 3600 * 1000000"

text \<open>\<open>type(v) is int\<close>, which truth values do not pass.\<close>

fun exact_int :: "json \<Rightarrow> int option" where
  "exact_int (JInt i) = Some i"
| "exact_int _ = None"

text \<open>The completion time is in microseconds since 1970, read as UTC.\<close>

definition validate_backup_manifest :: "posix_host \<Rightarrow> json \<Rightarrow> int \<Rightarrow> backfill_failure + pytext" where
  "validate_backup_manifest h manifest now =
     (case manifest of
        JObj m \<Rightarrow>
          if exact_int (json_get m ''schemaVersion'') \<noteq> Some 1 then Inl (IdentityBackfillError BackupEvidenceInvalid)
          else if \<not> list_all (\<lambda>key. json_get m key = JBool True)
              [''restoreVerified'', ''previousImagesCaptured'', ''composeAndEnvironmentCaptured'']
          then Inl (IdentityBackfillError BackupRestoreUnverified)
          else if (case exact_int (json_get m ''sourceTableCount'') of None \<Rightarrow> True
                   | Some count \<Rightarrow> count \<le> 0 \<or> exact_int (json_get m ''restoredTableCount'') \<noteq> Some count)
          then Inl (IdentityBackfillError BackupRestoreUnverified)
          else (case (json_get m ''completedAt'', json_get m ''sourceCommit'', json_get m ''databaseDumpSha256'') of
              (JStr completed, JStr source_commit, JStr expected) \<Rightarrow>
                if \<not> hex_text 40 source_commit \<or> \<not> hex_text 64 expected
                then Inl (IdentityBackfillError BackupEvidenceInvalid)
                else (case ph_strptime h completed of
                    None \<Rightarrow> Inl OtherFailure
                  | Some verified_at \<Rightarrow>
                      if - 60000000 \<le> now - verified_at \<and> now - verified_at \<le> BACKUP_MAX_AGE_MICROS
                      then Inr expected else Inl (IdentityBackfillError BackupEvidenceExpired))
            | _ \<Rightarrow> Inl (IdentityBackfillError BackupEvidenceInvalid))
      | _ \<Rightarrow> Inl (IdentityBackfillError BackupEvidenceInvalid))"

text \<open>\<open>path.parent / name\<close> for a normalised absolute path.\<close>

definition beside :: "pytext \<Rightarrow> string \<Rightarrow> pytext" where
  "beside path name = rev (dropWhile (\<lambda>c. c \<noteq> 47) (rev path)) @ text_of name"

definition verify_backup :: "posix_host \<Rightarrow> pytext \<Rightarrow> int \<Rightarrow> backfill_failure + unit" where
  "verify_backup h path now =
     bind_r (private_file h path False) (\<lambda>evidence.
     if 16384 < pf_size evidence then Inl (IdentityBackfillError BackupEvidenceInvalid)
     else case Option.bind (Option.bind (pf_content evidence) read_text) (ph_json_loads h) of
       None \<Rightarrow> Inl OtherFailure
     | Some manifest \<Rightarrow>
         bind_r (validate_backup_manifest h manifest now) (\<lambda>expected.
         bind_r (private_file h (beside path ''database.dump'') False) (\<lambda>dump.
         case pf_content dump of
           None \<Rightarrow> Inl OtherFailure
         | Some archive \<Rightarrow>
             if ph_sha256 h archive \<noteq> expected then Inl (IdentityBackfillError BackupChecksumMismatch) else Inr ())))"

definition require_mutation_authority :: "posix_host \<Rightarrow> backfill_options \<Rightarrow> int \<Rightarrow> backfill_failure + unit" where
  "require_mutation_authority h o' now =
     (if \<not> bf_run o' \<or> bf_local_fixture o' then Inr ()
      else if \<not> server01_target h then Inl (IdentityBackfillError Server01TargetRequired)
      else if ph_getenv h ''GCS_MAINTENANCE_WINDOW_APPROVED'' \<noteq> Some (text_of ''1'')
      then Inl (IdentityBackfillError MaintenanceWindowRequired)
      else verify_backup h (env_text h ''GCS_DB_BACKUP_EVIDENCE'' []) now)"

section \<open>The table\<close>

text \<open>
  The statements on the connection: a batch of at most so many rows with its row count; whether
  identifiers are pending and the definition of the primary key, as the row fetched; and the three
  statements that make the key. \<open>None\<close> is a database error, after which the transaction is rolled
  back.
\<close>

record 'db identity_ops =
  io_batch :: "int \<Rightarrow> 'db \<Rightarrow> ('db \<times> int) option"
  io_pending :: "'db \<Rightarrow> json list option option"
  io_constraint :: "'db \<Rightarrow> pytext option option"
  io_alter :: "'db \<Rightarrow> 'db option"

definition EXPECTED_PRIMARY_KEY :: pytext where
  "EXPECTED_PRIMARY_KEY = text_of ''PRIMARY KEY (event_id)''"

definition primary_key_ready :: "'db identity_ops \<Rightarrow> 'db \<Rightarrow> backfill_failure + bool" where
  "primary_key_ready ops db =
     (case io_constraint ops db of
        None \<Rightarrow> Inl OtherFailure
      | Some None \<Rightarrow> Inr False
      | Some (Some definition_text) \<Rightarrow>
          if definition_text \<noteq> EXPECTED_PRIMARY_KEY then Inl (IdentityBackfillError UnexpectedTelemetryPrimaryKey)
          else Inr True)"

definition pending_history_identifiers :: "'db identity_ops \<Rightarrow> 'db \<Rightarrow> backfill_failure + bool" where
  "pending_history_identifiers ops db =
     (case io_pending ops db of
        None \<Rightarrow> Inl OtherFailure
      | Some (Some [JBool b]) \<Rightarrow> Inr b
      | Some _ \<Rightarrow> Inl (IdentityBackfillError DatabaseResponseInvalid))"

definition finalize_primary_key :: "'db identity_ops \<Rightarrow> 'db \<Rightarrow> 'db \<times> (backfill_failure + unit)" where
  "finalize_primary_key ops db =
     (case primary_key_ready ops db of
        Inl e \<Rightarrow> (db, Inl e)
      | Inr True \<Rightarrow> (db, Inr ())
      | Inr False \<Rightarrow>
          (case pending_history_identifiers ops db of
             Inl e \<Rightarrow> (db, Inl e)
           | Inr True \<Rightarrow> (db, Inl (IdentityBackfillError BackfillIncomplete))
           | Inr False \<Rightarrow> (case io_alter ops db of None \<Rightarrow> (db, Inl OtherFailure) | Some db' \<Rightarrow> (db', Inr ()))))"

text \<open>The \<open>for\<close> loop over the batches; each commits on its own, an error rolls its batch back.\<close>

fun backfill_batches :: "'db identity_ops \<Rightarrow> int \<Rightarrow> nat \<Rightarrow> int \<Rightarrow> 'db \<Rightarrow> 'db \<times> (backfill_failure + int)" where
  "backfill_batches ops batch_size 0 updated db = (db, Inr updated)"
| "backfill_batches ops batch_size (Suc n) updated db =
     (case io_batch ops batch_size db of
        None \<Rightarrow> (db, Inl OtherFailure)
      | Some (db', accepted) \<Rightarrow>
          if \<not> (0 \<le> accepted \<and> accepted \<le> batch_size) then (db, Inl (IdentityBackfillError DatabaseResponseInvalid))
          else if accepted = 0 then (db', Inr updated)
          else backfill_batches ops batch_size n (updated + accepted) db')"

record backfill_report =
  br_updated :: int
  br_pending :: bool
  br_primary_key_ready :: bool
  br_complete :: bool
  br_finalized :: bool

definition backfill :: "'db identity_ops \<Rightarrow> backfill_options \<Rightarrow> 'db \<Rightarrow> 'db \<times> (backfill_failure + backfill_report)" where
  "backfill ops o' db =
     (case validate_options o' of
        Inl e \<Rightarrow> (db, Inl e)
      | Inr _ \<Rightarrow>
          (case (if bf_run o' then backfill_batches ops (bf_batch_size o') (nat (bf_max_batches o')) 0 db else (db, Inr 0)) of
             (db, Inl e) \<Rightarrow> (db, Inl e)
           | (db, Inr updated) \<Rightarrow>
               (case (if bf_finalize o' then finalize_primary_key ops db else (db, Inr ())) of
                  (db, Inl e) \<Rightarrow> (db, Inl e)
                | (db, Inr _) \<Rightarrow>
                    (db, bind_r (pending_history_identifiers ops db) (\<lambda>pending.
                         bind_r (primary_key_ready ops db) (\<lambda>ready.
                         Inr \<lparr>br_updated = updated, br_pending = pending, br_primary_key_ready = ready,
                              br_complete = (\<not> pending \<and> ready), br_finalized = bf_finalize o'\<rparr>))))))"

text \<open>
  \<open>main\<close>: the exit code, and the database the data source name connects to; \<open>None\<close> when the
  connection fails.
\<close>

definition backfill_main ::
    "posix_host \<Rightarrow> (pytext \<Rightarrow> 'db identity_ops option) \<Rightarrow> backfill_options \<Rightarrow> int \<Rightarrow> 'db \<Rightarrow> 'db \<times> int" where
  "backfill_main h connect o' now db =
     (case bind_r (validate_options o') (\<lambda>_. bind_r (require_mutation_authority h o' now) (\<lambda>_. database_dsn h o')) of
        Inl _ \<Rightarrow> (db, 1)
      | Inr dsn \<Rightarrow>
          (case connect dsn of
             None \<Rightarrow> (db, 1)
           | Some ops \<Rightarrow>
               (case backfill ops o' db of
                  (db, Inl _) \<Rightarrow> (db, 1)
                | (db, Inr report) \<Rightarrow> (db, if \<not> bf_run o' \<or> br_complete report then 0 else 3))))"

section \<open>What the database promises\<close>

lemma batch_arith:
  fixes p p1 p' k n m :: int
  assumes "k = min n p" and "p1 = p - k" and "p' = max 0 (p1 - m)" and "0 \<le> m" and "0 \<le> p"
  shows "p' = max 0 (p - (n + m))"
  using assms by (auto simp: min_def max_def)

text \<open>
  The statements, when no other transaction holds rows of the table: a batch gives identifiers to
  as many rows as it may and can, and the primary key can be made only when no identifier is
  pending. Any statement may fail; in \<open>available_table\<close> none does.
\<close>

locale identity_table =
  fixes ops :: "'db identity_ops"
    and pending :: "'db \<Rightarrow> nat"
    and keyed :: "'db \<Rightarrow> bool"
  assumes batch: "io_batch ops n db = Some (db', k) \<Longrightarrow> 1 \<le> n \<Longrightarrow>
      k = min n (int (pending db)) \<and> int (pending db') = int (pending db) - k \<and> keyed db' = keyed db"
    and pending_row: "io_pending ops db = Some r \<Longrightarrow> r = Some [JBool (0 < pending db)]"
    and constraint_row: "io_constraint ops db = Some c \<Longrightarrow> c = (if keyed db then Some EXPECTED_PRIMARY_KEY else None)"
    and alter: "io_alter ops db = Some db' \<Longrightarrow> pending db = 0 \<and> pending db' = 0 \<and> keyed db'"

locale available_table = identity_table +
  assumes batch_answers: "io_batch ops n db \<noteq> None"
    and pending_answers: "io_pending ops db \<noteq> None"
    and constraint_answers: "io_constraint ops db \<noteq> None"
    and alter_answers: "\<not> keyed db \<Longrightarrow> pending db = 0 \<Longrightarrow> io_alter ops db \<noteq> None"

context identity_table
begin

lemma batches_progress:
  "backfill_batches ops n fuel u db = (db', r) \<Longrightarrow> 1 \<le> n \<Longrightarrow>
     keyed db' = keyed db \<and> pending db' \<le> pending db \<and> int (pending db) - int (pending db') \<le> n * int fuel \<and>
     (\<forall>u'. r = Inr u' \<longrightarrow> u' = u + (int (pending db) - int (pending db')) \<and>
        int (pending db') = max 0 (int (pending db) - n * int fuel))"
proof (induction fuel arbitrary: u db)
  case 0
  then show ?case by auto
next
  case (Suc fuel)
  show ?case
  proof (cases "io_batch ops n db")
    case None
    with Suc.prems show ?thesis by (auto simp: algebra_simps)
  next
    case (Some p)
    obtain db1 k where p: "p = (db1, k)" by fastforce
    note b = batch [OF Some [unfolded p] Suc.prems(2)]
    have nf: "0 \<le> n * int fuel" using Suc.prems(2) by simp
    have suc: "n * int (Suc fuel) = n + n * int fuel" by (simp add: algebra_simps)
    show ?thesis
    proof (cases "k = 0")
      case True
      then have dr: "db' = db1" "r = Inr u" using Suc.prems Some p b by auto
      have z: "pending db = 0" using b True Suc.prems(2) by (simp add: min_def split: if_splits)
      have "- n - n * int fuel \<le> 0" using nf Suc.prems(2) by linarith
      then have "max 0 (- n - n * int fuel) = 0" by (rule max_absorb1)
      moreover have "pending db1 = 0" "keyed db1 = keyed db" using b True z by auto
      ultimately show ?thesis using suc dr z by simp
    next
      case False
      then have "backfill_batches ops n fuel (u + k) db1 = (db', r)" using Suc.prems Some p b by auto
      note ih = Suc.IH [OF this Suc.prems(2)]
      have k: "k \<le> n" "k \<le> int (pending db)" "int (pending db1) = int (pending db) - k" "0 \<le> k"
        using b Suc.prems(2) by auto
      show ?thesis
      proof (intro conjI allI impI)
        show "keyed db' = keyed db" using ih b by blast
        show "pending db' \<le> pending db" using ih k by linarith
        show "int (pending db) - int (pending db') \<le> n * int (Suc fuel)" unfolding suc using ih k by linarith
        fix u'
        assume "r = Inr u'"
        with ih have u': "u' = u + k + (int (pending db1) - int (pending db'))"
          "int (pending db') = max 0 (int (pending db1) - n * int fuel)" by blast+
        show "u' = u + (int (pending db) - int (pending db'))" using u'(1) k(3) by linarith
        show "int (pending db') = max 0 (int (pending db) - n * int (Suc fuel))"
          unfolding suc by (rule batch_arith [OF _ k(3) u'(2) nf]) (use b in auto)
      qed
    qed
  qed
qed

lemma pending_Inr: "pending_history_identifiers ops db = Inr b \<Longrightarrow> b \<longleftrightarrow> 0 < pending db"
  using pending_row [of db] by (auto simp: pending_history_identifiers_def split: option.splits list.splits json.splits)

lemma ready_Inr: "primary_key_ready ops db = Inr b \<Longrightarrow> b \<longleftrightarrow> keyed db"
  using constraint_row [of db] by (auto simp: primary_key_ready_def split: option.splits if_splits)

lemma finalize_effect:
  "finalize_primary_key ops db = (db', r) \<Longrightarrow>
     db' = db \<and> (r = Inr () \<longrightarrow> keyed db) \<or> \<not> keyed db \<and> pending db = 0 \<and> keyed db' \<and> pending db' = 0 \<and> r = Inr ()"
  using ready_Inr [of db] pending_Inr [of db] alter [of db]
  by (auto simp: finalize_primary_key_def split: sum.splits bool.splits option.splits)

text \<open>What a run may do to the table, whatever fails in it.\<close>

lemma backfill_effect:
  assumes "backfill ops o' db = (db', r)"
  shows "pending db' \<le> pending db \<and>
    (pending db' < pending db \<longrightarrow> int (pending db) - int (pending db') \<le> bf_batch_size o' * bf_max_batches o') \<and>
    (\<not> bf_run o' \<longrightarrow> pending db' = pending db \<and> keyed db' = keyed db) \<and>
    (keyed db \<longrightarrow> keyed db') \<and>
    (\<not> keyed db \<and> keyed db' \<longrightarrow> bf_finalize o' \<and> pending db' = 0) \<and>
    (\<forall>report. r = Inr report \<longrightarrow> br_updated report = int (pending db) - int (pending db') \<and>
       (br_pending report \<longleftrightarrow> 0 < pending db') \<and> (br_primary_key_ready report \<longleftrightarrow> keyed db') \<and>
       (br_complete report \<longleftrightarrow> pending db' = 0 \<and> keyed db'))"
proof (cases "validate_options o'")
  case (Inl e)
  then have "db' = db" "r = Inl e" using assms by (simp_all add: backfill_def)
  then show ?thesis by simp
next
  case (Inr u)
  then have o': "1 \<le> bf_batch_size o'" "1 \<le> bf_max_batches o'" by (auto simp: validate_options_def split: if_splits)
  obtain db1 rb where one: "(if bf_run o' then backfill_batches ops (bf_batch_size o') (nat (bf_max_batches o')) 0 db else (db, Inr 0))
      = (db1, rb)" by fastforce
  have p: "pending db1 \<le> pending db \<and> keyed db1 = keyed db \<and> (\<not> bf_run o' \<longrightarrow> db1 = db) \<and>
      (pending db1 < pending db \<longrightarrow> int (pending db) - int (pending db1) \<le> bf_batch_size o' * bf_max_batches o') \<and>
      (\<forall>u'. rb = Inr u' \<longrightarrow> u' = int (pending db) - int (pending db1))"
  proof (cases "bf_run o'")
    case True
    with one have b: "backfill_batches ops (bf_batch_size o') (nat (bf_max_batches o')) 0 db = (db1, rb)" by simp
    have "bf_batch_size o' * int (nat (bf_max_batches o')) = bf_batch_size o' * bf_max_batches o'" using o'(2) by simp
    with batches_progress [OF b o'(1)] True show ?thesis by (metis add_0)
  next
    case False
    with one show ?thesis by auto
  qed
  show ?thesis
  proof (cases rb)
    case (Inl e)
    with assms one Inr have "db' = db1" "r = Inl e" by (simp_all add: backfill_def)
    with p show ?thesis by auto
  next
    case (Inr n)
    obtain db2 rf where two: "(if bf_finalize o' then finalize_primary_key ops db1 else (db1, Inr ())) = (db2, rf)"
      by fastforce
    have q: "(db2 = db1 \<or> \<not> keyed db1 \<and> pending db1 = 0 \<and> keyed db2 \<and> pending db2 = 0 \<and> bf_finalize o')"
      using two finalize_effect [of db1 db2 rf] by (auto split: if_splits)
    have fr: "bf_finalize o' \<longrightarrow> bf_run o'"
      using \<open>validate_options o' = Inr u\<close> by (auto simp: validate_options_def split: if_splits)
    have "db' = db2" "\<forall>report. r = Inr report \<longrightarrow> br_updated report = n \<and>
        pending_history_identifiers ops db2 = Inr (br_pending report) \<and> primary_key_ready ops db2 = Inr (br_primary_key_ready report) \<and>
        (br_complete report \<longleftrightarrow> \<not> br_pending report \<and> br_primary_key_ready report)"
      using assms one two Inr \<open>validate_options o' = Inr u\<close>
      by (auto simp: backfill_def bind_r_eq_Inr split: sum.splits)
    with p q fr Inr pending_Inr [of db2] ready_Inr [of db2] show ?thesis by auto
  qed
qed

end

context available_table
begin

lemma batches_complete:
  "1 \<le> n \<Longrightarrow> \<exists>db' u'. backfill_batches ops n fuel u db = (db', Inr u')"
proof (induction fuel arbitrary: u db)
  case (Suc fuel)
  obtain db1 k where k: "io_batch ops n db = Some (db1, k)" using batch_answers [of n db] by fastforce
  from batch [OF this Suc.prems] Suc.prems have "0 \<le> k" "k \<le> n" by auto
  with k Suc show ?case by auto
qed simp

lemma backfill_completes:
  assumes "validate_options o' = Inr ()" and "bf_run o'" and "bf_finalize o'"
    and enough: "int (pending db) \<le> bf_batch_size o' * bf_max_batches o'"
  shows "\<exists>db'. backfill ops o' db = (db', Inr \<lparr>br_updated = int (pending db), br_pending = False,
      br_primary_key_ready = True, br_complete = True, br_finalized = True\<rparr>) \<and> pending db' = 0 \<and> keyed db'"
proof -
  have o': "1 \<le> bf_batch_size o'" "1 \<le> bf_max_batches o'" using assms(1) by (auto simp: validate_options_def split: if_splits)
  obtain db1 u where b: "backfill_batches ops (bf_batch_size o') (nat (bf_max_batches o')) 0 db = (db1, Inr u)"
    using batches_complete [OF o'(1)] by blast
  have one: "pending db1 = 0" "u = int (pending db)" "keyed db1 = keyed db"
    using batches_progress [OF b o'(1)] enough o' by auto
  have rows: "io_pending ops d = Some (Some [JBool (0 < pending d)])" for d
    using pending_answers [of d] pending_row [of d] by auto
  have rows': "io_constraint ops d = Some (if keyed d then Some EXPECTED_PRIMARY_KEY else None)" for d
    using constraint_answers [of d] constraint_row [of d] by auto
  obtain db2 where f: "finalize_primary_key ops db1 = (db2, Inr ())" "pending db2 = 0" "keyed db2"
  proof (cases "keyed db1")
    case True
    then show ?thesis using that [of db1] one by (simp add: finalize_primary_key_def primary_key_ready_def rows rows')
  next
    case False
    obtain db2 where "io_alter ops db1 = Some db2" using alter_answers [of db1] one False by auto
    then show ?thesis using that [of db2] alter [of db1 db2] one False
      by (simp add: finalize_primary_key_def primary_key_ready_def pending_history_identifiers_def rows rows')
  qed
  show ?thesis
    using assms(1-3) b f one
    by (simp add: backfill_def pending_history_identifiers_def primary_key_ready_def rows rows')
qed

end

section \<open>A table in memory\<close>

text \<open>The identifiers of the rows, the number of identifiers given out, and the primary key.\<close>

record history_table =
  ht_ids :: "pytext option list"
  ht_given :: nat
  ht_keyed :: bool

definition missing :: "history_table \<Rightarrow> nat" where
  "missing t = length (filter (\<lambda>i. i = None) (ht_ids t))"

fun give_ids :: "nat \<Rightarrow> nat \<Rightarrow> pytext option list \<Rightarrow> pytext option list" where
  "give_ids limit given [] = []"
| "give_ids limit given (Some i # ids) = Some i # give_ids limit given ids"
| "give_ids 0 given (None # ids) = None # ids"
| "give_ids (Suc limit) given (None # ids) =
     Some (text_of (''legacy:'' @ show_nat given)) # give_ids limit (Suc given) ids"

definition table_ops :: "history_table identity_ops" where
  "table_ops =
     \<lparr>io_batch = (\<lambda>n t. let k = min (nat n) (missing t)
                       in Some (t\<lparr>ht_ids := give_ids k (ht_given t) (ht_ids t), ht_given := ht_given t + k\<rparr>, int k)),
      io_pending = (\<lambda>t. Some (Some [JBool (0 < missing t)])),
      io_constraint = (\<lambda>t. Some (if ht_keyed t then Some EXPECTED_PRIMARY_KEY else None)),
      io_alter = (\<lambda>t. if missing t = 0 then Some (t\<lparr>ht_keyed := True\<rparr>) else None)\<rparr>"

lemma give_ids_missing:
  "k \<le> length (filter (\<lambda>i. i = None) ids) \<Longrightarrow>
     length (filter (\<lambda>i. i = None) (give_ids k given ids)) = length (filter (\<lambda>i. i = None) ids) - k"
  by (induction k given ids rule: give_ids.induct) auto

interpretation history: available_table table_ops missing ht_keyed
proof unfold_locales
  fix n :: int and db db' :: history_table and k :: int
  assume "io_batch table_ops n db = Some (db', k)" "1 \<le> n"
  then have "k = int (min (nat n) (missing db))" "ht_keyed db' = ht_keyed db"
    "missing db' = missing db - min (nat n) (missing db)"
    by (auto simp: table_ops_def Let_def missing_def give_ids_missing)
  with \<open>1 \<le> n\<close> show "k = min n (int (missing db)) \<and> int (missing db') = int (missing db) - k \<and> ht_keyed db' = ht_keyed db"
    by (auto simp: min_def)
qed (auto simp: table_ops_def missing_def Let_def split: if_splits)

section \<open>Authority\<close>

lemma private_file_Inr:
  "private_file h path acl = Inr f \<Longrightarrow> ph_posix h \<and> take 1 path = [47] \<and> ph_file h path = Some f \<and> \<not> pf_symlink f \<and>
     pf_uid f \<in> {0, ph_euid h} \<and> and (pf_permissions f) 0x1F = 0"
  by (auto simp: private_file_def Let_def split: if_splits option.splits)

text \<open>What an accepted backup is: a recent, restored dump of the production database.\<close>

definition backup_evidence :: "posix_host \<Rightarrow> pytext \<Rightarrow> int \<Rightarrow> bool" where
  "backup_evidence h path now \<longleftrightarrow>
     (\<exists>evidence dump m archive completed verified_at.
        private_file h path False = Inr evidence \<and> private_file h (beside path ''database.dump'') False = Inr dump \<and>
        Option.bind (Option.bind (pf_content evidence) read_text) (ph_json_loads h) = Some (JObj m) \<and>
        pf_content dump = Some archive \<and>
        json_get m ''databaseDumpSha256'' = JStr (ph_sha256 h archive) \<and>
        json_get m ''restoreVerified'' = JBool True \<and> json_get m ''completedAt'' = JStr completed \<and>
        ph_strptime h completed = Some verified_at \<and> - 60000000 \<le> now - verified_at \<and>
        now - verified_at \<le> BACKUP_MAX_AGE_MICROS)"

lemma validate_backup_manifest_Inr:
  assumes "validate_backup_manifest h manifest now = Inr expected"
  shows "\<exists>m completed verified_at. manifest = JObj m \<and> json_get m ''databaseDumpSha256'' = JStr expected \<and>
    json_get m ''restoreVerified'' = JBool True \<and> json_get m ''completedAt'' = JStr completed \<and>
    ph_strptime h completed = Some verified_at \<and> - 60000000 \<le> now - verified_at \<and> now - verified_at \<le> BACKUP_MAX_AGE_MICROS"
  using assms by (auto simp: validate_backup_manifest_def split: json.splits if_splits option.splits)

lemma verify_backup_evidence: "verify_backup h path now = Inr () \<Longrightarrow> backup_evidence h path now"
  unfolding verify_backup_def backup_evidence_def
  by (auto simp: bind_r_eq_Inr split: if_splits option.splits dest!: validate_backup_manifest_Inr)

lemma database_dsn_Inr:
  assumes "database_dsn h o' = Inr dsn"
  shows "\<exists>u. urlparse (ph_netloc_ok h) dsn = Some u \<and> url_scheme u = text_of ''postgresql'' \<and>
    (if bf_local_fixture o'
     then url_hostname u \<in> set (map text_of LOCAL_HOSTS) \<and>
       dropWhile (\<lambda>c. c = 47) (url_path u) \<in> set (map text_of LOCAL_DATABASES)
     else server01_target h \<and>
       parse_qs_values (ph_unquote h) (url_query u) (text_of ''sslmode'') = [text_of ''verify-full''] \<and>
       parse_qs_values (ph_unquote h) (url_query u) (text_of ''sslrootcert'') \<noteq> [])"
  using assms
  by (auto simp: database_dsn_def raw_dsn_def bind_r_eq_Inr Let_def simp del: text_of_simps split: if_splits option.splits)

lemma backfill_no_run:
  "\<not> bf_run o' \<Longrightarrow> fst (backfill ops o' db) = db"
  by (auto simp: backfill_def validate_options_def split: if_splits)

section \<open>Properties\<close>

text \<open>
  C15: The backfill completes: when the statements answer and the batches allowed can hold the
  pending rows, a run with finalisation gives every row its identifier, makes the primary key and
  reports both, with the number of rows it changed.
\<close>

theorem backfill_reaches_key:
  assumes "available_table ops pending keyed" and "validate_options o' = Inr ()" and "bf_run o'" and "bf_finalize o'"
    and "int (pending db) \<le> bf_batch_size o' * bf_max_batches o'"
  shows "\<exists>db'. backfill ops o' db = (db', Inr \<lparr>br_updated = int (pending db), br_pending = False,
      br_primary_key_ready = True, br_complete = True, br_finalized = True\<rparr>) \<and> pending db' = 0 \<and> keyed db'"
  by (rule available_table.backfill_completes [OF assms])

text \<open>
  Whatever fails, the backfill stays within its bounds: it changes at most as many rows as its
  batches allow, changes nothing without \<open>--run\<close>, never drops the primary key, makes it only when
  asked to and when no identifier is pending, and a report says what the table holds.
\<close>

theorem backfill_within_bounds:
  assumes "identity_table ops pending keyed" and "backfill ops o' db = (db', r)"
  shows "pending db' \<le> pending db \<and>
    (pending db' < pending db \<longrightarrow> int (pending db) - int (pending db') \<le> bf_batch_size o' * bf_max_batches o') \<and>
    (\<not> bf_run o' \<longrightarrow> pending db' = pending db \<and> keyed db' = keyed db) \<and> (keyed db \<longrightarrow> keyed db') \<and>
    (\<not> keyed db \<and> keyed db' \<longrightarrow> bf_finalize o' \<and> pending db' = 0) \<and>
    (\<forall>report. r = Inr report \<longrightarrow> br_updated report = int (pending db) - int (pending db') \<and>
       (br_pending report \<longleftrightarrow> 0 < pending db') \<and> (br_primary_key_ready report \<longleftrightarrow> keyed db') \<and>
       (br_complete report \<longleftrightarrow> pending db' = 0 \<and> keyed db'))"
  by (rule identity_table.backfill_effect [OF assms])

text \<open>
  Only an authorised run changes the table: if \<open>main\<close> changed anything, it was asked to run and
  either worked on a local fixture, one of two databases on a local host, or on Server-01, in an
  approved window, over verified TLS and with evidence of a backup that was restored, is at most a
  day old and whose dump is there, unchanged.
\<close>

theorem backfill_needs_authority:
  assumes "backfill_main h connect o' now db = (db', code)" and "db' \<noteq> db"
  shows "bf_run o' \<and> (\<exists>dsn u. database_dsn h o' = Inr dsn \<and> connect dsn \<noteq> None \<and> urlparse (ph_netloc_ok h) dsn = Some u \<and>
    (if bf_local_fixture o'
     then url_hostname u \<in> set (map text_of LOCAL_HOSTS) \<and>
       dropWhile (\<lambda>c. c = 47) (url_path u) \<in> set (map text_of LOCAL_DATABASES)
     else server01_target h \<and> ph_getenv h ''GCS_MAINTENANCE_WINDOW_APPROVED'' = Some (text_of ''1'') \<and>
       backup_evidence h (env_text h ''GCS_DB_BACKUP_EVIDENCE'' []) now \<and>
       parse_qs_values (ph_unquote h) (url_query u) (text_of ''sslmode'') = [text_of ''verify-full''] \<and>
       parse_qs_values (ph_unquote h) (url_query u) (text_of ''sslrootcert'') \<noteq> []))"
proof -
  from assms obtain dsn ops where a: "require_mutation_authority h o' now = Inr ()" "database_dsn h o' = Inr dsn"
      "connect dsn = Some ops" and db': "db' = fst (backfill ops o' db)"
    by (auto simp: backfill_main_def bind_r_eq_Inr bind_r_eq_Inl split: sum.splits option.splits prod.splits)
  have run: "bf_run o'" using backfill_no_run [of o' ops db] db' assms(2) by blast
  from a(1) run have "\<not> bf_local_fixture o' \<Longrightarrow> ph_getenv h ''GCS_MAINTENANCE_WINDOW_APPROVED'' = Some (text_of ''1'') \<and>
      backup_evidence h (env_text h ''GCS_DB_BACKUP_EVIDENCE'' []) now"
    by (auto simp: require_mutation_authority_def simp del: text_of_simps dest: verify_backup_evidence split: if_splits)
  with run a(2,3) database_dsn_Inr [OF a(2)] show ?thesis by auto
qed

section \<open>A concrete run\<close>

definition sample_table :: history_table where
  "sample_table = \<lparr>ht_ids = [None, Some (text_of ''e1''), None, None], ht_given = 0, ht_keyed = False\<rparr>"

definition sample_options :: backfill_options where
  "sample_options = \<lparr>bf_run = True, bf_finalize = True, bf_local_fixture = True, bf_batch_size = 2, bf_max_batches = 5\<rparr>"

definition sample_posix :: posix_host where
  "sample_posix =
     \<lparr>ph_posix = True, ph_euid = 1000, ph_groups = [],
      ph_getenv = (\<lambda>name. if name = ''TEST_TELEMETRY_POSTGRES_DSN''
                          then Some (text_of ''postgresql://localhost/gcs_ownership_smoke'') else None),
      ph_file = (\<lambda>_. None), ph_sha256 = (\<lambda>_. []), ph_json_loads = (\<lambda>_. None), ph_strptime = (\<lambda>_. None),
      ph_unquote = (\<lambda>s. s), ph_netloc_ok = (\<lambda>_. True)\<rparr>"

lemma sample_missing: "missing sample_table = 3"
  by (simp add: missing_def sample_table_def)

theorem backfill_reaches_key_witness:
  "\<exists>t. backfill table_ops sample_options sample_table = (t, Inr \<lparr>br_updated = 3, br_pending = False,
      br_primary_key_ready = True, br_complete = True, br_finalized = True\<rparr>) \<and> missing t = 0 \<and> ht_keyed t"
  using backfill_reaches_key [OF history.available_table_axioms, of sample_options sample_table]
  by (simp add: sample_missing sample_options_def validate_options_def)

theorem backfill_within_bounds_witness:
  "missing (fst (backfill table_ops sample_options sample_table)) \<le> missing sample_table"
  using backfill_within_bounds [OF history.identity_table_axioms, of sample_options sample_table] by (metis prod.collapse)

definition sample_dsn :: pytext where
  "sample_dsn = text_of ''postgresql://localhost/gcs_ownership_smoke''"

lemma sample_url:
  "urlparse (\<lambda>_. True) sample_dsn = Some \<lparr>url_scheme = text_of ''postgresql'', url_netloc = text_of ''localhost'',
     url_path = text_of ''/gcs_ownership_smoke'', url_query = []\<rparr>"
  by (simp add: sample_dsn_def url_evaluation)

lemma sample_url_host:
  "url_hostname \<lparr>url_scheme = s, url_netloc = text_of ''localhost'', url_path = p, url_query = q\<rparr> = text_of ''localhost''"
  by (simp add: url_hostname_def Let_def text_lower_def ascii_lower_def)

lemma sample_dsn_accepted: "database_dsn sample_posix sample_options = Inr sample_dsn"
proof -
  have raw: "raw_dsn sample_posix sample_options = Inr sample_dsn"
    by (simp add: raw_dsn_def sample_options_def sample_posix_def env_text_def sample_dsn_def)
  have once: "replace_once (text_of ''postgresql+psycopg2://'') (text_of ''postgresql://'') sample_dsn = sample_dsn"
    by (simp add: sample_dsn_def starts_with_def)
  have "ph_netloc_ok sample_posix = (\<lambda>_. True)" "bf_local_fixture sample_options"
    by (simp_all add: sample_posix_def sample_options_def)
  moreover have "text_of ''localhost'' \<noteq> []" "text_of ''localhost'' \<in> set (map text_of LOCAL_HOSTS)"
    "dropWhile (\<lambda>c. c = 47) (text_of ''/gcs_ownership_smoke'') \<in> set (map text_of LOCAL_DATABASES)"
    by (simp_all add: LOCAL_HOSTS_def LOCAL_DATABASES_def)
  ultimately show ?thesis
    by (simp add: database_dsn_def raw once sample_url sample_url_host Let_def del: text_of_simps set_map)
qed

theorem backfill_needs_authority_witness:
  "\<exists>dsn u. database_dsn sample_posix sample_options = Inr dsn \<and> urlparse (\<lambda>_. True) dsn = Some u \<and>
     url_hostname u \<in> set (map text_of LOCAL_HOSTS)"
proof -
  obtain t where t: "backfill table_ops sample_options sample_table = (t, Inr \<lparr>br_updated = 3, br_pending = False,
      br_primary_key_ready = True, br_complete = True, br_finalized = True\<rparr>)" "ht_keyed t"
    using history.backfill_completes [of sample_options sample_table]
    by (auto simp: sample_missing sample_options_def validate_options_def)
  have main: "backfill_main sample_posix (\<lambda>_. Some table_ops) sample_options 0 sample_table = (t, 0)"
    using t sample_dsn_accepted
    by (simp add: backfill_main_def require_mutation_authority_def validate_options_def sample_options_def)
  have changed: "t \<noteq> sample_table" using t(2) by (auto simp: sample_table_def)
  show ?thesis
    using backfill_needs_authority [OF main changed] by (auto simp: sample_posix_def sample_options_def)
qed

end
