(* ===== verification/World.thy ===== *)
theory World
  imports Prelude
begin

text \<open>
  Steps of a script over a world that lies outside of it: containers, an object store, a
  directory. A step returns the world it leaves and a value or an error; an error ends the script, but
  what was done before stays done. The lemmas invert successful sequences and carry facts about
  the world, and about errors that cannot occur, through them.
\<close>

section \<open>Steps\<close>

type_synonym ('w, 'e, 'a) act = "'w \<Rightarrow> 'w \<times> ('e + 'a)"

definition bind_w :: "('w, 'e, 'a) act \<Rightarrow> ('a \<Rightarrow> ('w, 'e, 'b) act) \<Rightarrow> ('w, 'e, 'b) act" where
  "bind_w m f w = (case m w of (w', Inl e) \<Rightarrow> (w', Inl e) | (w', Inr a) \<Rightarrow> f a w')"

definition return_w :: "'e + 'a \<Rightarrow> ('w, 'e, 'a) act" where
  "return_w r w = (w, r)"

text \<open>\<open>try: m finally: f\<close>: what \<open>f\<close> raises replaces the outcome of \<open>m\<close>.\<close>

definition finally_w :: "('w, 'e, 'a) act \<Rightarrow> ('w, 'e, unit) act \<Rightarrow> ('w, 'e, 'a) act" where
  "finally_w m f w = (case m w of (w1, r) \<Rightarrow> (case f w1 of (w2, Inl e) \<Rightarrow> (w2, Inl e) | (w2, Inr _) \<Rightarrow> (w2, r)))"

text \<open>\<open>for x in xs: f(x)\<close>.\<close>

fun each_w :: "('a \<Rightarrow> ('w, 'e, unit) act) \<Rightarrow> 'a list \<Rightarrow> ('w, 'e, unit) act" where
  "each_w f [] = return_w (Inr ())"
| "each_w f (x # xs) = bind_w (f x) (\<lambda>_. each_w f xs)"

section \<open>Successful steps\<close>

lemma bind_w_Inr: "bind_w m f w = (w', Inr b) \<longleftrightarrow> (\<exists>w1 a. m w = (w1, Inr a) \<and> f a w1 = (w', Inr b))"
  by (auto simp: bind_w_def split: prod.splits sum.splits)

lemma return_w_iff [simp]: "return_w r w = (w', r') \<longleftrightarrow> w' = w \<and> r = r'"
  by (auto simp: return_w_def)

lemma bind_w_Inl:
  "bind_w m f w = (w', Inl e) \<longleftrightarrow> m w = (w', Inl e) \<or> (\<exists>w1 a. m w = (w1, Inr a) \<and> f a w1 = (w', Inl e))"
  by (auto simp: bind_w_def split: prod.splits sum.splits)

lemma map_r_Inl: "map_r f xs = Inl e \<Longrightarrow> \<exists>x \<in> set xs. f x = Inl e"
  by (induction xs) (auto simp: bind_r_eq_Inl)

lemma bind_w_step: "m w = (w1, Inr a) \<Longrightarrow> bind_w m f w = f a w1"
  by (simp add: bind_w_def)

lemma bind_w_stop: "m w = (w1, Inl e) \<Longrightarrow> bind_w m f w = (w1, Inl e)"
  by (simp add: bind_w_def)

lemma bind_return_w [simp]: "bind_w (return_w (Inr a)) f = f a" "bind_w (return_w (Inl e)) f = return_w (Inl e)"
  by (simp_all add: bind_w_def return_w_def fun_eq_iff)

lemma bind_w_assoc: "bind_w (bind_w m f) g = bind_w m (\<lambda>a. bind_w (f a) g)"
  by (simp add: bind_w_def fun_eq_iff split: prod.split sum.split)

lemma finally_w_Inr:
  "finally_w m f w = (w', Inr a) \<longleftrightarrow> (\<exists>w1. m w = (w1, Inr a) \<and> f w1 = (w', Inr ()))"
  by (auto simp: finally_w_def split: prod.splits sum.splits)

text \<open>A step that, when it succeeds, leaves a fact about the world as it was.\<close>

definition keeps :: "('w \<Rightarrow> 'p) \<Rightarrow> ('w, 'e, 'a) act \<Rightarrow> bool" where
  "keeps P m \<longleftrightarrow> (\<forall>w w' a. m w = (w', Inr a) \<longrightarrow> P w' = P w)"

lemma keepsD: "keeps P m \<Longrightarrow> m w = (w', Inr a) \<Longrightarrow> P w' = P w"
  by (auto simp: keeps_def)

lemma keeps_return [simp, intro]: "keeps P (return_w r)"
  by (simp add: keeps_def)

lemma keeps_bind [intro]: "keeps P m \<Longrightarrow> (\<And>a. keeps P (f a)) \<Longrightarrow> keeps P (bind_w m f)"
  unfolding keeps_def bind_w_Inr by metis

text \<open>A step that from every world with \<open>P\<close> ends, in whatever way, in one with \<open>P\<close>, and never in the error \<open>e\<close>.\<close>

definition avoids :: "('w \<Rightarrow> bool) \<Rightarrow> 'e \<Rightarrow> ('w, 'e, 'a) act \<Rightarrow> bool" where
  "avoids P e m \<longleftrightarrow> (\<forall>w. P w \<longrightarrow> P (fst (m w)) \<and> snd (m w) \<noteq> Inl e)"

lemma avoidsD: "avoids P e m \<Longrightarrow> P w \<Longrightarrow> P (fst (m w)) \<and> snd (m w) \<noteq> Inl e"
  by (simp add: avoids_def)

lemma avoids_return: "r \<noteq> Inl e \<Longrightarrow> avoids P e (return_w r)"
  by (simp add: avoids_def return_w_def)

lemma avoids_bind:
  assumes "avoids P e m" and "\<And>a. avoids P e (f a)"
  shows "avoids P e (bind_w m f)"
  unfolding avoids_def
proof (intro allI impI)
  fix w
  assume "P w"
  then have "P (fst (m w)) \<and> snd (m w) \<noteq> Inl e" by (rule avoidsD [OF assms(1)])
  then show "P (fst (bind_w m f w)) \<and> snd (bind_w m f w) \<noteq> Inl e"
    using avoidsD [OF assms(2)] by (cases "m w"; cases "snd (m w)") (auto simp: bind_w_def)
qed

lemma avoids_each: "(\<And>x. x \<in> set xs \<Longrightarrow> avoids P e (f x)) \<Longrightarrow> avoids P e (each_w f xs)"
  by (induction xs) (auto intro!: avoids_bind avoids_return)

end
