(* ===== verification/Recovery.thy ===== *)
theory Recovery
  imports Ops_Base World "HOL-Library.Multiset" "HOL-Library.List_Lexorder"
begin

text \<open>
  The recovery qualification, \<open>scripts/ops/recovery_qualification.py\<close> and
  \<open>recovery_qualification_support.py\<close>: the controlled profile, the evidence of a backup, the
  reconciliation of accepted with recovered records, and the scenario that stops a production
  service and brings it back. Commands, probes and the clock act on a world that is an argument
  (\<open>machine\<close>); the readers of JSON and YAML and SHA-256 are arguments too.
\<close>

section \<open>Documents\<close>

datatype recovery_error = RecoveryError string | CommandFailed | RecoveryCrash

record document_lib =
  dl_json_loads :: "pytext \<Rightarrow> json option"
  dl_yaml_load :: "pytext \<Rightarrow> json option"
  dl_sha256 :: "bytes \<Rightarrow> pytext"
  dl_netloc_ok :: "pytext \<Rightarrow> bool"

text \<open>A path of the command line and what is found there.\<close>

record path_view =
  pv_suffix :: pytext
  pv_absolute :: bool
  pv_is_file :: bool
  pv_is_dir :: bool
  pv_content :: "bytes option"

definition load_document :: "document_lib \<Rightarrow> path_view \<Rightarrow> recovery_error + json_dict" where
  "load_document lib path =
     (case Option.bind (Option.bind (pv_content path) read_text)
             (if pv_suffix path = text_of ''.json'' then dl_json_loads lib else dl_yaml_load lib) of
        None \<Rightarrow> Inl RecoveryCrash
      | Some (JObj d) \<Rightarrow> Inr d
      | Some _ \<Rightarrow> Inl (RecoveryError ''document must contain an object''))"

definition REQUIRED_TARGET :: pytext where
  "REQUIRED_TARGET = text_of ''server01-production''"

definition EXPECTED_SERVICES :: "pytext list" where
  "EXPECTED_SERVICES = map text_of [''postgres-geo'', ''redis'', ''mqtt'', ''mediamtx'', ''auth-policy'', ''media-control'']"

definition dict_entries :: "json list \<Rightarrow> json_dict list" where
  "dict_entries entries = List.map_filter (\<lambda>entry. case entry of JObj d \<Rightarrow> Some d | _ \<Rightarrow> None) entries"

text \<open>The identifiers of a dictionary are distinct up to Python's equality.\<close>

fun distinct_keys :: "json list \<Rightarrow> bool" where
  "distinct_keys [] = True"
| "distinct_keys (k # ks) = (\<not> list_ex (py_eq k) ks \<and> distinct_keys ks)"

definition index_entries :: "json \<Rightarrow> string \<Rightarrow> recovery_error + (json \<times> json_dict) list" where
  "index_entries entries label =
     (case entries of
        JList es \<Rightarrow>
          if es = [] then Inl (RecoveryError (label @ '' must be a non-empty list''))
          else
            let indexed = map (\<lambda>d. (json_get d ''id'', d)) (dict_entries es) in
            if \<not> list_all (hashable \<circ> fst) indexed then Inl RecoveryCrash
            else if length indexed \<noteq> length es \<or> \<not> distinct_keys (map fst indexed) \<or> JNull \<in> set (map fst indexed)
            then Inl (RecoveryError (label @ '' IDs must be present and unique''))
            else Inr indexed
      | _ \<Rightarrow> Inl (RecoveryError (label @ '' must be a non-empty list'')))"

text \<open>\<open>d.get(k, {}).get(j)\<close>; a value that is no dictionary has no \<open>get\<close>.\<close>

definition nested_get :: "json_dict \<Rightarrow> string \<Rightarrow> string \<Rightarrow> recovery_error + json" where
  "nested_get d k j =
     (case dict_get d (text_of k) of
        None \<Rightarrow> Inr JNull
      | Some (JObj e) \<Rightarrow> Inr (json_get e j)
      | Some _ \<Rightarrow> Inl RecoveryCrash)"

definition validate_profile :: "json_dict \<Rightarrow> recovery_error + (json \<times> json_dict) list" where
  "validate_profile profile =
     (if json_get profile ''status'' \<noteq> JStr (text_of ''CONTROLLED_DRAFT_NOT_EXECUTED'')
      then Inl (RecoveryError ''recovery profile must remain an unexecuted draft'')
      else if json_get profile ''target'' \<noteq> JStr REQUIRED_TARGET
      then Inl (RecoveryError ''only Server-01 production is permitted'')
      else bind_r (index_entries (json_get profile ''scenarios'') ''recovery scenarios'') (\<lambda>scenarios.
        let services = map (\<lambda>(_, entry). json_get entry ''service'') scenarios in
        if \<not> list_all hashable services then Inl RecoveryCrash
        else if set services \<noteq> set (map JStr EXPECTED_SERVICES)
        then Inl (RecoveryError ''recovery service coverage is incomplete'')
        else bind_r (nested_get profile ''thresholds'' ''status'') (\<lambda>status.
          if status \<noteq> JStr (text_of ''PROPOSED_NOT_APPROVED'')
          then Inl (RecoveryError ''recovery thresholds must remain proposed'')
          else bind_r (nested_get profile ''execution'' ''recreateContainers'') (\<lambda>recreate.
            if recreate \<noteq> JBool False
            then Inl (RecoveryError ''recovery scenarios must preserve container identity'')
            else Inr scenarios))))"

section \<open>Reconciliation\<close>

record reconciliation =
  rc_accepted_count :: nat
  rc_recovered_count :: nat
  rc_missing_ids :: "pytext list"
  rc_duplicate_ids :: "pytext list"
  rc_unexpected_ids :: "pytext list"
  rc_passed :: bool

fun nonempty_text :: "json \<Rightarrow> bool" where
  "nonempty_text (JStr s) = (s \<noteq> [])"
| "nonempty_text _ = False"

fun text_value :: "json \<Rightarrow> pytext" where
  "text_value (JStr s) = s"
| "text_value _ = []"

definition reconcile_records :: "json list \<Rightarrow> json list \<Rightarrow> recovery_error + reconciliation" where
  "reconcile_records accepted recovered =
     (if accepted = [] \<or> \<not> list_all nonempty_text accepted
      then Inl (RecoveryError ''accepted IDs must be non-empty strings'')
      else
        let accepted = map text_value accepted in
        if \<not> distinct accepted then Inl (RecoveryError ''accepted IDs must be unique'')
        else if \<not> list_all nonempty_text recovered then Inl (RecoveryError ''recovered IDs must be non-empty strings'')
        else
          let recovered = map text_value recovered;
              missing = sort (filter (\<lambda>i. i \<notin> set recovered) accepted);
              duplicates = sort (filter (\<lambda>i. 1 < count_list recovered i) (remdups recovered));
              unexpected = sort (filter (\<lambda>i. i \<notin> set accepted) (remdups recovered))
          in Inr \<lparr>rc_accepted_count = length accepted, rc_recovered_count = length recovered,
                  rc_missing_ids = missing, rc_duplicate_ids = duplicates, rc_unexpected_ids = unexpected,
                  rc_passed = (missing = [] \<and> duplicates = [] \<and> unexpected = [])\<rparr>)"

definition load_record_ids :: "document_lib \<Rightarrow> path_view \<Rightarrow> pytext \<Rightarrow> recovery_error + json list" where
  "load_record_ids lib path source_commit =
     bind_r (load_document lib path) (\<lambda>document.
       if json_get document ''schemaVersion'' \<noteq> JStr (text_of ''gcs-saker.record-id-set.v1'')
       then Inl (RecoveryError ''unsupported record ID evidence'')
       else if json_get document ''sourceCommit'' \<noteq> JStr source_commit
       then Inl (RecoveryError ''record ID evidence commit mismatch'')
       else (case json_get document ''ids'' of
           JList ids \<Rightarrow> Inr ids
         | _ \<Rightarrow> Inl (RecoveryError ''record ID evidence requires an IDs list'')))"

definition verify_backup_result :: "document_lib \<Rightarrow> path_view \<Rightarrow> pytext \<Rightarrow> recovery_error + pytext" where
  "verify_backup_result lib path source_commit =
     bind_r (load_document lib path) (\<lambda>result.
       if json_get result ''sourceCommit'' \<noteq> JStr source_commit \<or> json_get result ''restoreVerified'' \<noteq> JBool True
       then Inl (RecoveryError ''backup restore evidence is absent or belongs to another commit'')
       else (case json_get result ''databaseDumpSha256'' of
           JStr digest \<Rightarrow>
             if length digest \<noteq> 64 then Inl (RecoveryError ''backup evidence requires a database dump SHA-256'')
             else Inr (dl_sha256 lib (the (pv_content path)))
         | _ \<Rightarrow> Inl (RecoveryError ''backup evidence requires a database dump SHA-256'')))"

section \<open>The world of a scenario\<close>

text \<open>
  Commands give their stripped output or fail (a non-zero exit or a timeout); a probe answers with
  a status, fails to connect, or raises something else, such as a reset while the answer is read.
  Sleeping raises for a value that is no duration.
\<close>

datatype command = GitHead | ComposePs json | ComposeStop json | ComposeStart json | Inspect pytext

datatype probe_outcome = Status int | NoConnection | ProbeCrash

record 'w machine =
  mc_run :: "command \<Rightarrow> 'w \<Rightarrow> 'w \<times> pytext option"
  mc_probe :: "pytext \<Rightarrow> 'w \<Rightarrow> 'w \<times> probe_outcome"
  mc_sleep :: "json \<Rightarrow> 'w \<Rightarrow> 'w option"
  mc_now :: "'w \<Rightarrow> int"

type_synonym ('w, 'a) step = "('w, recovery_error, 'a) act"

definition run_command :: "'w machine \<Rightarrow> command \<Rightarrow> ('w, pytext) step" where
  "run_command mc c w = (case mc_run mc c w of (w', None) \<Rightarrow> (w', Inl CommandFailed) | (w', Some out) \<Rightarrow> (w', Inr out))"

text \<open>\<open>output.split("|", 1)\<close>, which must give two parts.\<close>

definition container_state :: "'w machine \<Rightarrow> pytext \<Rightarrow> ('w, pytext \<times> pytext) step" where
  "container_state mc container_id =
     bind_w (run_command mc (Inspect container_id)) (\<lambda>output.
       return_w (if 124 \<in> set output then Inr (split_first 124 output) else Inl RecoveryCrash))"

definition is_running :: "pytext \<Rightarrow> bool" where
  "is_running status \<longleftrightarrow> status = text_of ''running''"

fun wait_for_recovery :: "'w machine \<Rightarrow> pytext \<Rightarrow> nat \<Rightarrow> json \<Rightarrow> ('w, unit) step" where
  "wait_for_recovery mc container_id 0 interval_seconds =
     return_w (Inl (RecoveryError ''service did not recover within the bounded observation window''))"
| "wait_for_recovery mc container_id (Suc attempts) interval_seconds =
     bind_w (container_state mc container_id) (\<lambda>(status, health) w.
       if is_running status \<and> (health = [] \<or> health = text_of ''healthy'') then (w, Inr ())
       else (case mc_sleep mc interval_seconds w of
           None \<Rightarrow> (w, Inl RecoveryCrash)
         | Some w' \<Rightarrow> wait_for_recovery mc container_id attempts interval_seconds w'))"

section \<open>Probes\<close>

record probe_result =
  pr_expected_status :: json
  pr_actual_status :: int
  pr_passed :: bool

definition probe :: "'w machine \<Rightarrow> pytext \<Rightarrow> json \<Rightarrow> ('w, probe_result) step" where
  "probe mc url expected_status w =
     (case mc_probe mc url w of
        (w', ProbeCrash) \<Rightarrow> (w', Inl RecoveryCrash)
      | (w', outcome) \<Rightarrow>
          (let actual_status = (case outcome of Status s \<Rightarrow> s | _ \<Rightarrow> 0)
           in (w', Inr \<lparr>pr_expected_status = expected_status, pr_actual_status = actual_status,
                        pr_passed = py_eq_int expected_status actual_status\<rparr>)))"

definition item_field :: "json \<Rightarrow> string \<Rightarrow> recovery_error + json" where
  "item_field item k =
     (case item of
        JObj d \<Rightarrow> (case dict_get d (text_of k) of None \<Rightarrow> Inl RecoveryCrash | Some v \<Rightarrow> Inr v)
      | _ \<Rightarrow> Inl RecoveryCrash)"

text \<open>Each item's path and expected status are looked up just before its probe.\<close>

fun run_probe_items :: "'w machine \<Rightarrow> pytext \<Rightarrow> json list \<Rightarrow> ('w, probe_result list) step" where
  "run_probe_items mc origin [] = return_w (Inr [])"
| "run_probe_items mc origin (item # items) =
     bind_w (return_w (item_field item ''path'')) (\<lambda>path.
     bind_w (return_w (case path of JStr p \<Rightarrow> Inr p | _ \<Rightarrow> Inl RecoveryCrash)) (\<lambda>path.
     bind_w (return_w (item_field item ''expectedStatus'')) (\<lambda>expected.
     bind_w (probe mc (origin @ path) expected) (\<lambda>result.
     bind_w (run_probe_items mc origin items) (\<lambda>results. return_w (Inr (result # results)))))))"

definition run_probes :: "'w machine \<Rightarrow> json_dict \<Rightarrow> pytext \<Rightarrow> ('w, probe_result list) step" where
  "run_probes mc profile public_base_url =
     (let origin = strip_right (\<lambda>c. c = 47) public_base_url in
      bind_w (return_w (bind_r (item_field (JObj profile) ''execution'') (\<lambda>execution. item_field execution ''publicProbes'')))
        (\<lambda>probes. case probes of
             JList items \<Rightarrow> run_probe_items mc origin items
           | _ \<Rightarrow> return_w (Inl RecoveryCrash)))"

text \<open>
  The comparison of a duration in microseconds with the recovery time objective in seconds, and
  the count \<open>range\<close> takes.
\<close>

fun within_rto :: "int \<Rightarrow> json \<Rightarrow> recovery_error + bool" where
  "within_rto duration (JInt rto) = Inr (duration \<le> rto * 1000000)"
| "within_rto duration (JBool b) = Inr (duration \<le> (if b then 1000000 else 0))"
| "within_rto duration (JFloat rto) = Inr (fle (Fin (of_int duration / 1000000)) rto)"
| "within_rto duration _ = Inl RecoveryCrash"

fun range_count :: "json \<Rightarrow> recovery_error + nat" where
  "range_count (JInt n) = Inr (nat n)"
| "range_count (JBool b) = Inr (if b then 1 else 0)"
| "range_count _ = Inl RecoveryCrash"

definition evaluate_recovery :: "bool \<Rightarrow> bool \<Rightarrow> probe_result list \<Rightarrow> int \<Rightarrow> json \<Rightarrow> bool \<Rightarrow> recovery_error + bool" where
  "evaluate_recovery fault_observed container_preserved post_probes duration rto reconciliation_passed =
     bind_r (within_rto duration rto) (\<lambda>in_time.
       Inr (fault_observed \<and> container_preserved \<and> list_all pr_passed post_probes \<and> in_time \<and> reconciliation_passed))"

section \<open>A scenario\<close>

record recovery_args =
  ra_target :: "pytext option"
  ra_deployment_target :: "pytext option"
  ra_approved_window :: "pytext option"
  ra_project_name :: pytext
  ra_public_base_url :: pytext
  ra_env_file :: "path_view option"
  ra_backup_result :: "path_view option"
  ra_evidence_dir :: "path_view option"
  ra_accepted :: "path_view option"
  ra_recovered :: "path_view option"

definition absolute_file :: "path_view option \<Rightarrow> bool" where
  "absolute_file path \<longleftrightarrow> (case path of None \<Rightarrow> False | Some p \<Rightarrow> pv_absolute p \<and> pv_is_file p)"

definition validate_execution :: "document_lib \<Rightarrow> recovery_args \<Rightarrow> pytext \<Rightarrow> recovery_error + pytext" where
  "validate_execution lib args source_commit =
     (if ra_target args \<noteq> Some REQUIRED_TARGET \<or> ra_deployment_target args \<noteq> Some REQUIRED_TARGET
      then Inl (RecoveryError ''DEPLOYMENT_TARGET and --target must identify Server-01 production'')
      else if (case ra_approved_window args of None \<Rightarrow> True | Some window \<Rightarrow> py_strip window = [])
      then Inl (RecoveryError ''an approved maintenance window ID is required'')
      else if ra_project_name args \<noteq> text_of ''gcs-saker-m2-production''
      then Inl (RecoveryError ''production Compose project name is fixed'')
      else (case urlparse (dl_netloc_ok lib) (ra_public_base_url args) of
          None \<Rightarrow> Inl RecoveryCrash
        | Some origin \<Rightarrow>
            if url_scheme origin \<noteq> text_of ''https'' \<or> url_hostname origin \<noteq> text_of ''gcs-saker.com''
            then Inl (RecoveryError ''public recovery probes must use the production HTTPS origin'')
            else if \<not> absolute_file (ra_env_file args)
            then Inl (RecoveryError ''environment file must be an existing absolute file'')
            else if \<not> absolute_file (ra_backup_result args)
            then Inl (RecoveryError ''backup result must be an existing absolute file'')
            else if (case ra_evidence_dir args of None \<Rightarrow> True | Some d \<Rightarrow> \<not> (pv_absolute d \<and> pv_is_dir d))
            then Inl (RecoveryError ''evidence directory must be an existing absolute directory'')
            else verify_backup_result lib (the (ra_backup_result args)) source_commit))"

definition build_reconciliation ::
    "document_lib \<Rightarrow> 'w machine \<Rightarrow> path_view \<Rightarrow> path_view \<Rightarrow> ('w, reconciliation) step" where
  "build_reconciliation lib mc accepted recovered =
     bind_w (run_command mc GitHead) (\<lambda>source_commit.
       return_w (bind_r (load_record_ids lib accepted source_commit) (\<lambda>a.
                 bind_r (load_record_ids lib recovered source_commit) (\<lambda>r. reconcile_records a r))))"

text \<open>\<open>x in v\<close>: membership in a list or of a text in a text, a key of a dictionary.\<close>

definition py_contains :: "json \<Rightarrow> string \<Rightarrow> recovery_error + bool" where
  "py_contains v x =
     (case v of
        JList vs \<Rightarrow> Inr (JStr (text_of x) \<in> set vs)
      | JStr s \<Rightarrow> Inr (contains (text_of x) s)
      | JObj d \<Rightarrow> Inr (dict_get d (text_of x) \<noteq> None)
      | _ \<Rightarrow> Inl RecoveryCrash)"

definition scenario_reconciliation ::
    "document_lib \<Rightarrow> 'w machine \<Rightarrow> recovery_args \<Rightarrow> json_dict \<Rightarrow> ('w, reconciliation option) step" where
  "scenario_reconciliation lib mc args scenario =
     bind_w (return_w (py_contains (case dict_get scenario (text_of ''recoveryEvidence'') of None \<Rightarrow> JList [] | Some v \<Rightarrow> v)
                         ''accepted-record-reconciliation'')) (\<lambda>required.
       if \<not> required then return_w (Inr None)
       else (case (ra_accepted args, ra_recovered args) of
           (Some accepted, Some recovered) \<Rightarrow>
             if pv_is_file accepted \<and> pv_is_file recovered
             then bind_w (build_reconciliation lib mc accepted recovered) (\<lambda>result. return_w (Inr (Some result)))
             else return_w (Inl (RecoveryError ''accepted and recovered record evidence is required for this scenario''))
         | _ \<Rightarrow> return_w (Inl (RecoveryError ''accepted and recovered record evidence is required for this scenario''))))"

record scenario_result =
  sr_source_commit :: pytext
  sr_backup_sha256 :: pytext
  sr_started_at :: int
  sr_recovered_at :: int
  sr_container_preserved :: bool
  sr_fault_observed :: bool
  sr_pre_probes :: "probe_result list"
  sr_during_probes :: "probe_result list"
  sr_post_probes :: "probe_result list"
  sr_reconciliation :: "reconciliation option"
  sr_passed :: bool

definition bring_back :: "'w machine \<Rightarrow> json_dict \<Rightarrow> json \<Rightarrow> pytext \<Rightarrow> ('w, unit) step" where
  "bring_back mc profile service container_id =
     bind_w (run_command mc (ComposeStart service)) (\<lambda>_.
     bind_w (return_w (item_field (JObj profile) ''execution'')) (\<lambda>execution.
     bind_w (return_w (item_field execution ''maximumAttempts'')) (\<lambda>attempts.
     bind_w (return_w (item_field execution ''retryIntervalSeconds'')) (\<lambda>interval_seconds.
     bind_w (return_w (range_count attempts)) (\<lambda>attempts.
       wait_for_recovery mc container_id attempts interval_seconds)))))"

definition ensure_started :: "'w machine \<Rightarrow> json \<Rightarrow> pytext \<Rightarrow> ('w, unit) step" where
  "ensure_started mc service container_id =
     bind_w (container_state mc container_id) (\<lambda>(status, _).
       if is_running status then return_w (Inr ())
       else bind_w (run_command mc (ComposeStart service)) (\<lambda>_. return_w (Inr ())))"

definition read_clock :: "'w machine \<Rightarrow> ('w, int) step" where
  "read_clock mc w = (w, Inr (mc_now mc w))"

definition after_recovery ::
    "document_lib \<Rightarrow> 'w machine \<Rightarrow> recovery_args \<Rightarrow> json_dict \<Rightarrow> json_dict \<Rightarrow> json \<Rightarrow> pytext \<Rightarrow> int \<Rightarrow> bool \<Rightarrow>
       (int \<Rightarrow> probe_result list \<Rightarrow> reconciliation option \<Rightarrow> bool \<Rightarrow> bool \<Rightarrow> scenario_result) \<Rightarrow> ('w, scenario_result) step" where
  "after_recovery lib mc args profile scenario service container_id started_at fault_observed result =
     bind_w (read_clock mc) (\<lambda>recovered_at.
     bind_w (run_probes mc profile (ra_public_base_url args)) (\<lambda>post_probes.
     bind_w (scenario_reconciliation lib mc args scenario) (\<lambda>reconciled.
     bind_w (run_command mc (ComposePs service)) (\<lambda>current_id.
     bind_w (return_w (bind_r (item_field (JObj profile) ''thresholds'') (\<lambda>t. item_field t ''recoveryTimeObjectiveSeconds''))) (\<lambda>rto.
     bind_w (return_w (evaluate_recovery fault_observed (current_id = container_id) post_probes (recovered_at - started_at) rto
                         (case reconciled of None \<Rightarrow> True | Some r \<Rightarrow> rc_passed r))) (\<lambda>passed.
     bind_w (return_w (item_field (JObj scenario) ''id'')) (\<lambda>_.
       return_w (Inr (result recovered_at post_probes reconciled (current_id = container_id) passed)))))))))"

definition run_scenario ::
    "document_lib \<Rightarrow> 'w machine \<Rightarrow> recovery_args \<Rightarrow> json_dict \<Rightarrow> json_dict \<Rightarrow> ('w, scenario_result) step" where
  "run_scenario lib mc args profile scenario =
     bind_w (run_command mc GitHead) (\<lambda>source_commit.
     bind_w (return_w (validate_execution lib args source_commit)) (\<lambda>backup_sha256.
     bind_w (return_w (item_field (JObj scenario) ''service'')) (\<lambda>service.
     bind_w (run_command mc (ComposePs service)) (\<lambda>container_id.
     if container_id = [] then return_w (Inl (RecoveryError ''service is not running''))
     else bind_w (run_probes mc profile (ra_public_base_url args)) (\<lambda>pre_probes.
       if \<not> list_all pr_passed pre_probes then return_w (Inl (RecoveryError ''pre-injection public probes must pass''))
       else bind_w (read_clock mc) (\<lambda>started_at.
         bind_w (run_command mc (ComposeStop service)) (\<lambda>_.
         bind_w (container_state mc container_id) (\<lambda>(stopped_status, _).
         bind_w (run_probes mc profile (ra_public_base_url args)) (\<lambda>during_probes.
         bind_w (finally_w (bring_back mc profile service container_id) (ensure_started mc service container_id)) (\<lambda>_.
           after_recovery lib mc args profile scenario service container_id started_at (\<not> is_running stopped_status)
             (\<lambda>recovered_at post_probes reconciled preserved passed.
                \<lparr>sr_source_commit = source_commit, sr_backup_sha256 = backup_sha256, sr_started_at = started_at,
                 sr_recovered_at = recovered_at, sr_container_preserved = preserved,
                 sr_fault_observed = (\<not> is_running stopped_status), sr_pre_probes = pre_probes,
                 sr_during_probes = during_probes, sr_post_probes = post_probes, sr_reconciliation = reconciled,
                 sr_passed = passed\<rparr>)))))))))))"

section \<open>The command\<close>

text \<open>What the evidence directory holds; \<open>write_immutable\<close> opens its file for exclusive creation.\<close>

datatype evidence_file = OtherFile | ReconciliationFile reconciliation | ScenarioFile scenario_result

type_synonym evidence_files = "pytext \<Rightarrow> evidence_file option"

record output_path =
  op_path :: pytext
  op_absolute :: bool
  op_parent_is_dir :: bool

definition write_immutable :: "output_path \<Rightarrow> evidence_file \<Rightarrow> evidence_files \<Rightarrow> recovery_error + evidence_files" where
  "write_immutable output document files =
     (if \<not> op_absolute output \<or> \<not> op_parent_is_dir output
      then Inl (RecoveryError ''output must be inside an existing absolute directory'')
      else if files (op_path output) \<noteq> None then Inl RecoveryCrash
      else Inr (files(op_path output \<mapsto> document)))"

datatype recovery_mode =
    CheckProfile
  | Reconcile "path_view option" "path_view option" "output_path option"
  | RunScenario "pytext option"

text \<open>
  \<open>main\<close>; the file of a scenario is named by the scenario and the time after the run, so its path is
  an argument. A usage error of the parser ends the process before anything is done.
\<close>

definition recovery_main ::
    "document_lib \<Rightarrow> 'w machine \<Rightarrow> path_view \<Rightarrow> recovery_mode \<Rightarrow> recovery_args \<Rightarrow> ('w \<Rightarrow> output_path) \<Rightarrow> evidence_files \<Rightarrow>
       ('w, evidence_files) step" where
  "recovery_main lib mc profile_path mode args evidence_path files =
     bind_w (return_w (bind_r (load_document lib profile_path) (\<lambda>profile.
               bind_r (validate_profile profile) (\<lambda>scenarios. Inr (profile, scenarios))))) (\<lambda>(profile, scenarios).
     case mode of
       CheckProfile \<Rightarrow> return_w (Inr files)
     | Reconcile accepted recovered output \<Rightarrow>
         (case (accepted, recovered, output) of
            (Some a, Some r, Some out) \<Rightarrow>
              bind_w (build_reconciliation lib mc a r) (\<lambda>result. return_w (write_immutable out (ReconciliationFile result) files))
          | _ \<Rightarrow> return_w (Inl (RecoveryError ''--accepted, --recovered, and --output are required'')))
     | RunScenario scenario \<Rightarrow>
         (case Option.bind scenario (\<lambda>s. map_of scenarios (JStr s)) of
            None \<Rightarrow> return_w (Inl (RecoveryError ''--scenario must identify one controlled scenario''))
          | Some definition_of \<Rightarrow>
              bind_w (run_scenario lib mc args profile definition_of) (\<lambda>result w.
                (w, write_immutable (evidence_path w) (ScenarioFile result) files))))"

section \<open>The commands that are run\<close>

text \<open>
  A machine that writes down every command with its reply and the time when it was issued and when it ended.
\<close>

record machine_event =
  me_command :: command
  me_reply :: "pytext option"
  me_issued :: int
  me_ended :: int

definition traced_machine :: "'w machine \<Rightarrow> ('w \<times> machine_event list) machine" where
  "traced_machine mc =
     \<lparr>mc_run = (\<lambda>c (w, events). case mc_run mc c w of (w', reply) \<Rightarrow>
        ((w', events @ [\<lparr>me_command = c, me_reply = reply, me_issued = mc_now mc w, me_ended = mc_now mc w'\<rparr>]), reply)),
      mc_probe = (\<lambda>url (w, events). case mc_probe mc url w of (w', outcome) \<Rightarrow> ((w', events), outcome)),
      mc_sleep = (\<lambda>v (w, events). map_option (\<lambda>w'. (w', events)) (mc_sleep mc v w)),
      mc_now = (\<lambda>(w, events). mc_now mc w)\<rparr>"

text \<open>An event that gave this reply; a reply to an inspection that shows the container running, and running well.\<close>

definition replied :: "machine_event \<Rightarrow> command \<Rightarrow> pytext \<Rightarrow> bool" where
  "replied e c out \<longleftrightarrow> me_command e = c \<and> me_reply e = Some out"

definition shows_running :: "pytext \<Rightarrow> bool" where
  "shows_running out \<longleftrightarrow> is_running (fst (split_first 124 out))"

definition shows_recovered :: "pytext \<Rightarrow> bool" where
  "shows_recovered out \<longleftrightarrow> shows_running out \<and> snd (split_first 124 out) \<in> {[], text_of ''healthy''}"

text \<open>What \<open>ensure_started\<close> does: it sees the container running, or starts the service again.\<close>

definition ensured :: "json \<Rightarrow> pytext \<Rightarrow> machine_event list \<Rightarrow> bool" where
  "ensured service cid check \<longleftrightarrow>
     (\<exists>e out. check = [e] \<and> replied e (Inspect cid) out \<and> shows_running out) \<or>
     (\<exists>e e' out out'. check = [e, e'] \<and> replied e (Inspect cid) out \<and> \<not> shows_running out \<and> replied e' (ComposeStart service) out')"

lemma traced_run:
  assumes "run_command (traced_machine mc) c (w, es) = ((w', es'), Inr out)"
  shows "\<exists>e. es' = es @ [e] \<and> replied e c out \<and> me_issued e = mc_now mc w \<and> me_ended e = mc_now mc w'"
  using assms by (auto simp: run_command_def traced_machine_def replied_def split: prod.splits option.splits)

lemma traced_state:
  assumes "container_state (traced_machine mc) cid (w, es) = ((w', es'), Inr (status, health))"
  shows "\<exists>e out. es' = es @ [e] \<and> replied e (Inspect cid) out \<and> split_first 124 out = (status, health) \<and> me_ended e = mc_now mc w'"
  using assms traced_run by (fastforce simp: container_state_def bind_w_Inr split: if_splits)

lemma quiet_probe: "keeps snd (probe (traced_machine mc) url expected)"
  by (auto simp: keeps_def probe_def traced_machine_def split: prod.splits probe_outcome.splits)

lemma quiet_items: "keeps snd (run_probe_items (traced_machine mc) origin items)"
  by (induction items) (auto intro!: keeps_bind quiet_probe)

lemma quiet_probes: "keeps snd (run_probes (traced_machine mc) profile url)"
  by (auto simp: run_probes_def Let_def intro!: keeps_bind quiet_items split: json.split)

lemma traced_wait:
  "wait_for_recovery (traced_machine mc) cid n v (w, es) = ((w', es'), Inr ()) \<Longrightarrow>
     \<exists>polls e out. es' = es @ polls @ [e] \<and> list_all (\<lambda>e. me_command e = Inspect cid) polls \<and>
       replied e (Inspect cid) out \<and> shows_recovered out"
proof (induction n arbitrary: w es)
  case (Suc n)
  obtain w1 es1 status health where state: "container_state (traced_machine mc) cid (w, es) = ((w1, es1), Inr (status, health))"
      and rest: "(if is_running status \<and> (health = [] \<or> health = text_of ''healthy'') then ((w1, es1), Inr ())
       else (case mc_sleep (traced_machine mc) v (w1, es1) of
           None \<Rightarrow> ((w1, es1), Inl RecoveryCrash)
         | Some w' \<Rightarrow> wait_for_recovery (traced_machine mc) cid n v w')) = ((w', es'), Inr ())"
    using Suc.prems by (auto simp: bind_w_Inr simp del: text_of_simps)
  from traced_state [OF state] obtain e out where e: "es1 = es @ [e]" "replied e (Inspect cid) out" "split_first 124 out = (status, health)"
    by blast
  show ?case
  proof (cases "is_running status \<and> (health = [] \<or> health = text_of ''healthy'')")
    case True
    then have "shows_recovered out" "es' = es1" using e rest by (auto simp: shows_recovered_def shows_running_def simp del: text_of_simps)
    with e show ?thesis by - (rule exI [of _ "[]"], auto)
  next
    case False
    with rest obtain w2 where "wait_for_recovery (traced_machine mc) cid n v (w2, es1) = ((w', es'), Inr ())"
      by (auto simp: traced_machine_def simp del: text_of_simps split: option.splits)
    from Suc.IH [OF this] obtain polls e' out' where ih: "es' = es1 @ polls @ [e']" "list_all (\<lambda>e. me_command e = Inspect cid) polls"
        "replied e' (Inspect cid) out'" "shows_recovered out'"
      by blast
    with e show ?thesis
      by - (rule exI [of _ "e # polls"], rule exI [of _ e'], rule exI [of _ out'], simp add: replied_def)
  qed
qed simp

lemma traced_bring_back:
  assumes "bring_back (traced_machine mc) profile service cid (w, es) = ((w', es'), Inr u)"
  shows "\<exists>start polls e out out'. es' = es @ start # polls @ [e] \<and> replied start (ComposeStart service) out \<and>
    list_all (\<lambda>e. me_command e = Inspect cid) polls \<and> replied e (Inspect cid) out' \<and> shows_recovered out'"
proof -
  obtain w1 es1 out n v where "run_command (traced_machine mc) (ComposeStart service) (w, es) = ((w1, es1), Inr out)"
      "wait_for_recovery (traced_machine mc) cid n v (w1, es1) = ((w', es'), Inr ())"
    using assms by (auto simp: bring_back_def bind_w_Inr)
  from traced_run [OF this(1)] traced_wait [OF this(2)] show ?thesis by fastforce
qed

lemma traced_ensure:
  assumes "ensure_started (traced_machine mc) service cid (w, es) = ((w', es'), Inr u)"
  shows "\<exists>check. es' = es @ check \<and> ensured service cid check \<and> me_ended (last check) = mc_now mc w'"
proof -
  obtain w1 es1 status health where state: "container_state (traced_machine mc) cid (w, es) = ((w1, es1), Inr (status, health))"
      and rest: "(if is_running status then return_w (Inr ())
        else bind_w (run_command (traced_machine mc) (ComposeStart service)) (\<lambda>_. return_w (Inr ()))) (w1, es1) = ((w', es'), Inr u)"
    using assms by (auto simp: ensure_started_def bind_w_Inr)
  from traced_state [OF state] obtain e out where e: "es1 = es @ [e]" "replied e (Inspect cid) out" "split_first 124 out = (status, health)"
      "me_ended e = mc_now mc w1"
    by blast
  show ?thesis
  proof (cases "is_running status")
    case True
    with rest e show ?thesis by (intro exI [of _ "[e]"]) (auto simp: ensured_def shows_running_def)
  next
    case False
    with rest obtain out' where "run_command (traced_machine mc) (ComposeStart service) (w1, es1) = ((w', es'), Inr out')"
      by (auto simp: bind_w_Inr)
    from traced_run [OF this] obtain e' where "es' = es1 @ [e']" "replied e' (ComposeStart service) out'" "me_ended e' = mc_now mc w'"
      by blast
    with False e show ?thesis by (intro exI [of _ "[e, e']"]) (auto simp: ensured_def shows_running_def)
  qed
qed

lemma traced_reconciliation:
  assumes "scenario_reconciliation lib (traced_machine mc) args scenario (w, es) = ((w', es'), Inr r)"
  shows "\<exists>git. es' = es @ git \<and> list_all (\<lambda>e. me_command e = GitHead) git"
proof -
  have "\<exists>e out. es' = es @ [e] \<and> replied e GitHead out"
    if "run_command (traced_machine mc) GitHead (w, es) = ((w', es'), Inr out)" for out
    using traced_run [OF that] by blast
  then have "es' = es \<or> (\<exists>e out. es' = es @ [e] \<and> replied e GitHead out)"
    using assms by (auto simp: scenario_reconciliation_def build_reconciliation_def bind_w_Inr split: if_splits option.splits)
  then show ?thesis by (auto simp: replied_def intro: exI [of _ "[]"])
qed

lemma traced_after:
  assumes "after_recovery lib (traced_machine mc) args profile scenario service cid started_at fault_observed mk (w, es) = ((w', es'), Inr result)"
  shows "\<exists>git ps current post reconciled rto passed. es' = es @ git @ [ps] \<and> list_all (\<lambda>e. me_command e = GitHead) git \<and>
    replied ps (ComposePs service) current \<and>
    bind_r (item_field (JObj profile) ''thresholds'') (\<lambda>t. item_field t ''recoveryTimeObjectiveSeconds'') = Inr rto \<and>
    evaluate_recovery fault_observed (current = cid) post (mc_now mc w - started_at) rto
      (case reconciled of None \<Rightarrow> True | Some r \<Rightarrow> rc_passed r) = Inr passed \<and>
    result = mk (mc_now mc w) post reconciled (current = cid) passed"
proof -
  obtain post reconciled current rto passed w1 w2 w3 where
      probes: "run_probes (traced_machine mc) profile (ra_public_base_url args) (w, es) = (w1, Inr post)"
      and rec: "scenario_reconciliation lib (traced_machine mc) args scenario w1 = (w2, Inr reconciled)"
      and ps: "run_command (traced_machine mc) (ComposePs service) w2 = ((w', es'), Inr current)"
      and rto: "bind_r (item_field (JObj profile) ''thresholds'') (\<lambda>t. item_field t ''recoveryTimeObjectiveSeconds'') = Inr rto"
      and passed: "evaluate_recovery fault_observed (current = cid) post (mc_now mc w - started_at) rto
        (case reconciled of None \<Rightarrow> True | Some r \<Rightarrow> rc_passed r) = Inr passed"
      and result: "result = mk (mc_now mc w) post reconciled (current = cid) passed"
    using assms by (auto simp: after_recovery_def bind_w_Inr read_clock_def traced_machine_def [THEN arg_cong [where f = mc_now]])
  obtain v1 v2 es2 where w: "w1 = (v1, es)" "w2 = (v2, es2)"
    using keepsD [OF quiet_probes probes] by (cases w1; cases w2) auto
  from traced_reconciliation [OF rec [unfolded w]] obtain git where git: "es2 = es @ git" "list_all (\<lambda>e. me_command e = GitHead) git"
    by blast
  from traced_run [OF ps [unfolded w]] obtain e where "es' = es2 @ [e]" "replied e (ComposePs service) current" by blast
  with git rto passed result show ?thesis
    by - (rule exI [of _ git], rule exI [of _ e], rule exI [of _ current], rule exI [of _ post], rule exI [of _ reconciled],
      rule exI [of _ rto], rule exI [of _ passed], simp)
qed

lemma evaluate_recovery_Inr:
  "evaluate_recovery fault preserved post duration rto reconciled = Inr passed \<Longrightarrow>
     \<exists>in_time. within_rto duration rto = Inr in_time \<and> (passed \<longleftrightarrow> fault \<and> preserved \<and> list_all pr_passed post \<and> in_time \<and> reconciled)"
  by (auto simp: evaluate_recovery_def bind_r_eq_Inr)

section \<open>A machine with one service\<close>

text \<open>
  The world is whether the service is up; while it is down, probes either fail to connect or, when
  \<open>crash\<close> is set, raise.
\<close>

definition sample_machine :: "bool \<Rightarrow> bool machine" where
  "sample_machine crash =
     \<lparr>mc_run = (\<lambda>c w. case c of
          GitHead \<Rightarrow> (w, Some (text_of ''c1''))
        | ComposePs _ \<Rightarrow> (w, Some (text_of ''id1''))
        | ComposeStop _ \<Rightarrow> (False, Some [])
        | ComposeStart _ \<Rightarrow> (True, Some [])
        | Inspect _ \<Rightarrow> (w, Some (text_of (if w then ''running|healthy'' else ''exited|'')))),
      mc_probe = (\<lambda>_ w. (w, if w then Status 200 else if crash then ProbeCrash else NoConnection)),
      mc_sleep = (\<lambda>_ w. Some w), mc_now = (\<lambda>_. 0)\<rparr>"

lemma sample_states:
  "split_first 124 (text_of ''running|healthy'') = (text_of ''running'', text_of ''healthy'')"
  "split_first 124 (text_of ''exited|'') = (text_of ''exited'', [])"
  "124 \<in> set (text_of ''running|healthy'')" "124 \<in> set (text_of ''exited|'')"
  "is_running (text_of ''running'')" "\<not> is_running (text_of ''exited'')"
  by (simp_all add: split_first_def is_running_def)

definition sample_profile :: json_dict where
  "sample_profile =
     [(text_of ''execution'', JObj
        [(text_of ''publicProbes'', JList [JObj [(text_of ''path'', JStr (text_of ''/'')), (text_of ''expectedStatus'', JInt 200)]]),
         (text_of ''maximumAttempts'', JInt 3), (text_of ''retryIntervalSeconds'', JInt 5)]),
      (text_of ''thresholds'', JObj [(text_of ''recoveryTimeObjectiveSeconds'', JInt 60)])]"

definition sample_scenario :: json_dict where
  "sample_scenario = [(text_of ''id'', JStr (text_of ''r1'')), (text_of ''service'', JStr (text_of ''redis''))]"

definition sample_path :: path_view where
  "sample_path = \<lparr>pv_suffix = text_of ''.json'', pv_absolute = True, pv_is_file = True, pv_is_dir = True, pv_content = Some []\<rparr>"

definition sample_documents :: document_lib where
  "sample_documents =
     \<lparr>dl_json_loads = (\<lambda>_. Some (JObj [(text_of ''sourceCommit'', JStr (text_of ''c1'')), (text_of ''restoreVerified'', JBool True),
        (text_of ''databaseDumpSha256'', JStr (replicate 64 48))])),
      dl_yaml_load = (\<lambda>_. None), dl_sha256 = (\<lambda>_. []), dl_netloc_ok = (\<lambda>_. True)\<rparr>"

definition sample_args :: recovery_args where
  "sample_args =
     \<lparr>ra_target = Some REQUIRED_TARGET, ra_deployment_target = Some REQUIRED_TARGET, ra_approved_window = Some (text_of ''w1''),
      ra_project_name = text_of ''gcs-saker-m2-production'', ra_public_base_url = text_of ''https://gcs-saker.com'',
      ra_env_file = Some sample_path, ra_backup_result = Some sample_path, ra_evidence_dir = Some sample_path,
      ra_accepted = None, ra_recovered = None\<rparr>"

lemma sample_origin:
  "\<exists>u. urlparse (\<lambda>_. True) (text_of ''https://gcs-saker.com'') = Some u \<and> url_scheme u = text_of ''https'' \<and>
     url_hostname u = text_of ''gcs-saker.com''"
  by (simp add: url_evaluation url_hostname_def)

lemma sample_window: "py_strip (text_of ''w1'') \<noteq> []"
  by (simp add: py_strip_def strip_both_def strip_right_def py_space_def)

lemma sample_utf8: "read_text [] = Some []"
  by code_simp

lemma sample_backup: "verify_backup_result sample_documents sample_path (text_of ''c1'') = Inr []"
  by (simp add: verify_backup_result_def load_document_def sample_documents_def sample_path_def sample_utf8 json_get_def dict_get_def)

lemma sample_execution: "validate_execution sample_documents sample_args (text_of ''c1'') = Inr []"
proof -
  obtain u where u: "urlparse (\<lambda>_. True) (text_of ''https://gcs-saker.com'') = Some u" "url_scheme u = text_of ''https''"
    "url_hostname u = text_of ''gcs-saker.com''"
    using sample_origin by blast
  have "dl_netloc_ok sample_documents = (\<lambda>_. True)" by (simp add: sample_documents_def)
  with u sample_window sample_backup show ?thesis
    by (simp add: validate_execution_def sample_args_def absolute_file_def del: text_of_simps)
      (simp add: sample_path_def del: text_of_simps)
qed

text \<open>The sample machine with its record of commands, on which no time passes.\<close>

definition sample_event :: "command \<Rightarrow> pytext \<Rightarrow> machine_event" where
  "sample_event c reply = \<lparr>me_command = c, me_reply = Some reply, me_issued = 0, me_ended = 0\<rparr>"

lemma sample_probes:
  "run_probe_items (traced_machine (sample_machine crash)) origin
     [JObj [(text_of ''path'', JStr (text_of ''/'')), (text_of ''expectedStatus'', JInt 200)]] (w, es) =
     ((w, es), if w then Inr [\<lparr>pr_expected_status = JInt 200, pr_actual_status = 200, pr_passed = True\<rparr>]
         else if crash then Inl RecoveryCrash
         else Inr [\<lparr>pr_expected_status = JInt 200, pr_actual_status = 0, pr_passed = False\<rparr>])"
  by (simp add: bind_w_def return_w_def item_field_def probe_def sample_machine_def traced_machine_def dict_get_def)

lemma sample_run_probes:
  "run_probes (traced_machine (sample_machine crash)) sample_profile url (w, es) =
     ((w, es), if w then Inr [\<lparr>pr_expected_status = JInt 200, pr_actual_status = 200, pr_passed = True\<rparr>]
         else if crash then Inl RecoveryCrash
         else Inr [\<lparr>pr_expected_status = JInt 200, pr_actual_status = 0, pr_passed = False\<rparr>])"
proof -
  have "run_probes (traced_machine (sample_machine crash)) sample_profile url w =
     run_probe_items (traced_machine (sample_machine crash)) (strip_right (\<lambda>c. c = 47) url)
       [JObj [(text_of ''path'', JStr (text_of ''/'')), (text_of ''expectedStatus'', JInt 200)]] w" for w
    by (simp add: run_probes_def sample_profile_def item_field_def bind_w_def return_w_def dict_get_def Let_def bind_r_def)
  then show ?thesis by (simp only: sample_probes)
qed

lemma sample_fields:
  "item_field (JObj sample_scenario) ''service'' = Inr (JStr (text_of ''redis''))"
  "item_field (JObj sample_scenario) ''id'' = Inr (JStr (text_of ''r1''))"
  "bind_r (item_field (JObj sample_profile) ''thresholds'') (\<lambda>t. item_field t ''recoveryTimeObjectiveSeconds'') = Inr (JInt 60)"
  "py_contains (case dict_get sample_scenario (text_of ''recoveryEvidence'') of None \<Rightarrow> JList [] | Some v \<Rightarrow> v)
     ''accepted-record-reconciliation'' = Inr False"
  by (simp_all add: sample_scenario_def sample_profile_def item_field_def dict_get_def bind_r_def py_contains_def)

lemma sample_commands:
  "run_command (traced_machine (sample_machine crash)) GitHead (w, es) = ((w, es @ [sample_event GitHead (text_of ''c1'')]), Inr (text_of ''c1''))"
  "run_command (traced_machine (sample_machine crash)) (ComposePs s) (w, es) =
     ((w, es @ [sample_event (ComposePs s) (text_of ''id1'')]), Inr (text_of ''id1''))"
  "run_command (traced_machine (sample_machine crash)) (ComposeStop s) (w, es) = ((False, es @ [sample_event (ComposeStop s) []]), Inr [])"
  "run_command (traced_machine (sample_machine crash)) (ComposeStart s) (w, es) = ((True, es @ [sample_event (ComposeStart s) []]), Inr [])"
  "container_state (traced_machine (sample_machine crash)) c (w, es) =
     ((w, es @ [sample_event (Inspect c) (text_of (if w then ''running|healthy'' else ''exited|''))]),
      Inr (if w then (text_of ''running'', text_of ''healthy'') else (text_of ''exited'', [])))"
  by (simp_all add: run_command_def container_state_def bind_w_def return_w_def sample_machine_def traced_machine_def sample_event_def
      sample_states del: text_of_simps)

lemma sample_clock: "mc_now (traced_machine (sample_machine crash)) w = 0"
  by (simp add: sample_machine_def traced_machine_def split: prod.split)

lemma sample_id: "text_of ''id1'' \<noteq> []"
  by simp

lemma sample_bring_back: "bring_back (traced_machine (sample_machine crash)) sample_profile s c (w, es) =
    ((True, es @ [sample_event (ComposeStart s) [], sample_event (Inspect c) (text_of ''running|healthy'')]), Inr ())"
proof -
  have "item_field (JObj sample_profile) ''execution'' = Inr (JObj
      [(text_of ''publicProbes'', JList [JObj [(text_of ''path'', JStr (text_of ''/'')), (text_of ''expectedStatus'', JInt 200)]]),
       (text_of ''maximumAttempts'', JInt 3), (text_of ''retryIntervalSeconds'', JInt 5)])"
    by (simp add: sample_profile_def item_field_def dict_get_def)
  moreover have "item_field (JObj
      [(text_of ''publicProbes'', JList [JObj [(text_of ''path'', JStr (text_of ''/'')), (text_of ''expectedStatus'', JInt 200)]]),
       (text_of ''maximumAttempts'', JInt 3), (text_of ''retryIntervalSeconds'', JInt 5)]) k = 
      (if k = ''maximumAttempts'' then Inr (JInt 3) else Inr (JInt 5))"
    if "k \<in> {''maximumAttempts'', ''retryIntervalSeconds''}" for k
    using that by (auto simp: item_field_def dict_get_def)
  moreover have "wait_for_recovery (traced_machine (sample_machine crash)) c 3 v (True, es) =
      ((True, es @ [sample_event (Inspect c) (text_of ''running|healthy'')]), Inr ())" for v es
    by (simp add: numeral_3_eq_3 bind_w_def sample_commands sample_states del: text_of_simps)
  ultimately show ?thesis
    by (simp add: bring_back_def bind_w_def return_w_def sample_commands del: text_of_simps)
qed

section \<open>Properties\<close>

text \<open>
  A reconciliation passes exactly when the recovered identifiers are the accepted ones, each
  once and in any order; otherwise its lists name, in order, exactly the accepted identifiers that
  are missing, the recovered ones nobody accepted and those that came more than once.
\<close>

theorem reconciliation_passes_iff:
  assumes "reconcile_records accepted recovered = Inr r"
  shows "(rc_passed r \<longleftrightarrow> mset recovered = mset accepted) \<and>
    sorted (rc_missing_ids r) \<and> set (rc_missing_ids r) = {i. JStr i \<in> set accepted \<and> JStr i \<notin> set recovered} \<and>
    sorted (rc_unexpected_ids r) \<and> set (rc_unexpected_ids r) = {i. JStr i \<in> set recovered \<and> JStr i \<notin> set accepted} \<and>
    sorted (rc_duplicate_ids r) \<and> set (rc_duplicate_ids r) = {i. 1 < count (mset recovered) (JStr i)}"
proof -
  have texts: "list_all nonempty_text vs \<Longrightarrow> vs = map JStr (map text_value vs)" for vs
    by (induction vs) (auto elim: nonempty_text.elims)
  define a b where "a = map text_value accepted" and "b = map text_value recovered"
  from assms have ok: "list_all nonempty_text accepted" "list_all nonempty_text recovered" "distinct a"
    and r: "rc_missing_ids r = sort (filter (\<lambda>i. i \<notin> set b) a)"
      "rc_duplicate_ids r = sort (filter (\<lambda>i. 1 < count_list b i) (remdups b))"
      "rc_unexpected_ids r = sort (filter (\<lambda>i. i \<notin> set a) (remdups b))"
      "rc_passed r \<longleftrightarrow> rc_missing_ids r = [] \<and> rc_duplicate_ids r = [] \<and> rc_unexpected_ids r = []"
    by (auto simp: reconcile_records_def Let_def a_def b_def split: if_splits)
  have acc: "accepted = map JStr a" and rec: "recovered = map JStr b"
    using texts ok(1,2) by (simp_all add: a_def b_def)
  have counts: "count (image_mset JStr (mset xs)) (JStr i) = count_list xs i" for xs i
    by (induction xs) auto
  have dist: "distinct b \<longleftrightarrow> (\<forall>i \<in> set b. count_list b i \<le> 1)"
    by (metis count_list_0_iff count_mset distinct_count_atmost_1 le_refl less_one linorder_not_less nle_le set_mset_mset zero_le_one)
  have empty: "sort xs = [] \<longleftrightarrow> xs = []" for xs :: "pytext list"
    by (metis length_0_conv length_sort)
  have "mset recovered = mset accepted \<longleftrightarrow> mset b = mset a"
    unfolding acc rec by (metis (no_types, lifting) inj_onI json.inject(4) mset_map multiset.inj_map_strong)
  also have "\<dots> \<longleftrightarrow> set b = set a \<and> distinct b"
    using ok(3) by (metis mset_eq_imp_distinct_iff set_eq_iff_mset_eq_distinct set_mset_mset)
  also have "\<dots> \<longleftrightarrow> rc_passed r"
    unfolding r dist empty by (auto simp: filter_empty_conv not_less)
  finally have passes: "mset recovered = mset accepted \<longleftrightarrow> rc_passed r" .
  show ?thesis
    unfolding passes
    by (auto simp: r acc rec counts image_iff) (metis count_list_0_iff not_less_zero)
qed


lemma sample_run:
  "\<exists>events result. run_scenario sample_documents (traced_machine (sample_machine False)) sample_args sample_profile sample_scenario (True, [])
     = ((True, events), Inr result) \<and> sr_passed result"
  by (simp add: run_scenario_def bind_w_def sample_commands return_w_def sample_execution sample_fields sample_run_probes
      finally_w_def sample_bring_back ensure_started_def after_recovery_def read_clock_def
      scenario_reconciliation_def evaluate_recovery_def sample_states sample_clock sample_id del: text_of_simps)


text \<open>
  An error can leave the service down: between the stop and the \<open>try\<close> whose \<open>finally\<close> starts it
  again the scenario inspects the container and runs the probes, and a probe that raises there, as
  on a connection reset, ends the run after the stop with no start.
\<close>

theorem scenario_can_leave_service_down:
  "\<exists>events. run_scenario sample_documents (traced_machine (sample_machine True)) sample_args sample_profile sample_scenario (True, [])
       = ((False, events), Inl RecoveryCrash) \<and>
     ComposeStop (JStr (text_of ''redis'')) \<in> set (map me_command events) \<and>
     ComposeStart (JStr (text_of ''redis'')) \<notin> set (map me_command events)"
  by (simp add: run_scenario_def bind_w_def sample_commands return_w_def sample_execution sample_fields sample_run_probes
      read_clock_def sample_states sample_clock sample_id sample_event_def del: text_of_simps)

theorem reconciliation_passes_iff_witness:
  "\<exists>r. reconcile_records [JStr [97], JStr [98]] [JStr [98], JStr [97]] = Inr r \<and> rc_passed r"
proof -
  obtain r where "reconcile_records [JStr [97], JStr [98]] [JStr [98], JStr [97]] = Inr r"
    by (auto simp: reconcile_records_def Let_def)
  from this reconciliation_passes_iff [OF this] show ?thesis by (auto simp: add_mset_commute)
qed

section \<open>Evidence files\<close>

lemma write_immutable_Inr:
  "write_immutable output document files = Inr files' \<Longrightarrow> files (op_path output) = None \<and> files' = files(op_path output \<mapsto> document)"
  by (auto simp: write_immutable_def split: if_splits)

text \<open>
  Evidence is immutable and comes only from runs. A command that succeeds leaves every existing
  file as it was and adds at most one; a scenario file it adds is the result of a run of that scenario
  whose result was reported, and a reconciliation file is one of the two record files given.
\<close>

theorem evidence_written_once:
  assumes "recovery_main lib mc profile_path mode args evidence_path files w = (w', Inr files')"
  shows "files' = files \<or> (\<exists>path document. files path = None \<and> files' = files(path \<mapsto> document) \<and>
    (case document of
       OtherFile \<Rightarrow> False
     | ReconciliationFile r \<Rightarrow> (\<exists>a b out. mode = Reconcile (Some a) (Some b) (Some out) \<and> build_reconciliation lib mc a b w = (w', Inr r))
     | ScenarioFile r \<Rightarrow> (\<exists>profile scenario. run_scenario lib mc args profile scenario w = (w', Inr r))))"
proof (cases mode)
  case CheckProfile
  then show ?thesis using assms by (auto simp: recovery_main_def bind_w_Inr)
next
  case (Reconcile accepted recovered out_path)
  then obtain a b out result where "accepted = Some a" "recovered = Some b" "out_path = Some out"
      "build_reconciliation lib mc a b w = (w', Inr result)" "write_immutable out (ReconciliationFile result) files = Inr files'"
    using assms by (auto simp: recovery_main_def bind_w_Inr split: option.splits)
  then show ?thesis
    using Reconcile write_immutable_Inr [of out "ReconciliationFile result" files files']
    by (intro disjI2 exI [of _ "op_path out"] exI [of _ "ReconciliationFile result"]) simp
next
  case (RunScenario scenario)
  then obtain profile d result where run: "run_scenario lib mc args profile d w = (w', Inr result)"
      "write_immutable (evidence_path w') (ScenarioFile result) files = Inr files'"
    using assms by (auto simp: recovery_main_def bind_w_Inr split: option.splits)
  then show ?thesis
    using run write_immutable_Inr [OF run(2)]
    by (intro disjI2 exI [of _ "op_path (evidence_path w')"] exI [of _ "ScenarioFile result"]) auto
qed

end
