(* ===== verification/Release_Gate.thy ===== *)
theory Release_Gate
  imports Ops_Base
begin

text \<open>
  The release gate, \<open>scripts/ops/release_gate.py\<close>, and the generator of the administrator's MFA
  material, \<open>generate_admin_mfa_material.py\<close>: private files and their access lists, the environment
  file with the MFA secret and the TURN port ranges, the inventory of database migrations with
  Flyway's checksums, and the pinned application images. What the process sees is an argument
  (\<open>gate_machine\<close>): the environment, the two files, the output of the commands, the migrations in
  the order of their paths, SHA-256 and the Unicode tables of upper case and decimal digits.
\<close>

section \<open>The machine\<close>

text \<open>A \<open>RuntimeError\<close> with its message, which \<open>main\<close> reports, or any other exception.\<close>

datatype gate_error = GateError string | GateCrash

text \<open>A regular file: its size and mode, what \<open>getfacl\<close> prints for it, its octets if they can be read.\<close>

record secret_file =
  sf_size :: nat
  sf_mode :: nat
  sf_acl :: "pytext option"
  sf_content :: "bytes option"

datatype gate_command = GitStatus | GitHead | GitBranch | ComposeConfig

record gate_machine =
  gm_windows :: bool
  gm_getenv :: "string \<Rightarrow> pytext option"
  gm_env_file :: "secret_file option"
  gm_mqtt_file :: "secret_file option"
  gm_run :: "gate_command \<Rightarrow> pytext option"
  gm_compose_source :: "bytes option"
  gm_migrations :: "(pytext \<times> bytes option) list"
  gm_applied :: "bytes option option"
  gm_sha256 :: "bytes \<Rightarrow> pytext"
  gm_upper :: "pytext \<Rightarrow> pytext"
  gm_decimal :: "nat \<Rightarrow> nat option"

text \<open>\<open>run\<close>: a command that fails raises a \<open>RuntimeError\<close>.\<close>

definition run_gate_command :: "gate_machine \<Rightarrow> gate_command \<Rightarrow> gate_error + pytext" where
  "run_gate_command m c = (case gm_run m c of None \<Rightarrow> Inl (GateError ''command failed'') | Some out \<Rightarrow> Inr (py_strip out))"

definition gate_sha256 :: "gate_machine \<Rightarrow> bytes option \<Rightarrow> gate_error + pytext" where
  "gate_sha256 m content = (case content of None \<Rightarrow> Inl GateCrash | Some bs \<Rightarrow> Inr (gm_sha256 m bs))"

section \<open>Private files\<close>

definition expected_acl :: "pytext \<Rightarrow> pytext set" where
  "expected_acl uid =
     {text_of ''user::rw-'', text_of ''user:'' @ uid @ text_of '':r--'', text_of ''group::---'', text_of ''mask::r--'',
      text_of ''other::---''}"

definition acl_entries :: "pytext \<Rightarrow> pytext set" where
  "acl_entries out = set (filter (\<lambda>l. l \<noteq> []) (map py_strip (py_splitlines (py_strip out))))"

definition require_private_file :: "gate_machine \<Rightarrow> secret_file option \<Rightarrow> pytext option \<Rightarrow> gate_error + unit" where
  "require_private_file m file allowed_read_uid =
     (case file of
        None \<Rightarrow> Inl (GateError ''required non-empty file is missing'')
      | Some f \<Rightarrow>
          if sf_size f = 0 then Inl (GateError ''required non-empty file is missing'')
          else if gm_windows m \<or> sf_mode f mod 64 = 0 then Inr ()
          else (case allowed_read_uid of
                  None \<Rightarrow> Inl (GateError ''secret file must not be group/world accessible'')
                | Some uid \<Rightarrow>
                    (case sf_acl f of
                       None \<Rightarrow> Inl (GateError ''command failed'')
                     | Some out \<Rightarrow>
                         if acl_entries out \<noteq> expected_acl uid
                         then Inl (GateError ''secret file ACL grants access beyond owner and runtime uid'')
                         else Inr ())))"

section \<open>The environment file\<close>

definition environment_item :: "pytext \<Rightarrow> (pytext \<times> pytext) option" where
  "environment_item line =
     (let stripped = py_strip line in
      if stripped = [] \<or> starts_with [35] stripped \<or> 61 \<notin> set stripped then None
      else let (key, val) = split_first 61 stripped in Some (py_strip key, py_strip val))"

definition read_environment :: "bytes option \<Rightarrow> gate_error + (pytext, pytext) dict" where
  "read_environment content =
     (case Option.bind content read_text of
        None \<Rightarrow> Inl GateCrash
      | Some t \<Rightarrow>
          Inr (fold (\<lambda>line values. case environment_item line of None \<Rightarrow> values | Some (k, v) \<Rightarrow> dict_set k v values)
                 (py_splitlines t) []))"

definition RETIRED_PUBLIC_HOSTS :: "pytext list" where
  "RETIRED_PUBLIC_HOSTS = map text_of [''a4ai.tplinkdns.com'', ''a4ai.121-159-26-245.sslip.io'']"

definition PUBLIC_ENDPOINT_ENV_KEYS :: "pytext list" where
  "PUBLIC_ENDPOINT_ENV_KEYS =
     map text_of
       [''MEDIA_CONTROL_EXPECTED_PUBLIC_ORIGIN'', ''MEDIA_CONTROL_PUBLIC_HLS_BASE_URL'',
        ''MEDIA_CONTROL_PUBLIC_WEBRTC_BASE_URL'', ''MEDIA_CONTROL_STUN_URL'', ''MEDIA_CONTROL_TURN_PRIMARY_URL'',
        ''MEDIAMTX_PUBLIC_HLS_BASE_URL'', ''MEDIAMTX_PUBLIC_WEBRTC_BASE_URL'',
        ''MEDIAMTX_WEBRTC_ADDITIONAL_HOSTS'', ''VITE_DEV_PROXY_TARGET'', ''VITE_LOCAL_WEBCAM_WHIP_URL'',
        ''VITE_WEBRTC_STUN_URL'']"

definition validate_public_endpoint_environment :: "bytes option \<Rightarrow> gate_error + unit" where
  "validate_public_endpoint_environment content =
     bind_r (read_environment content) (\<lambda>values.
       if list_ex (\<lambda>(k, v). k \<in> set PUBLIC_ENDPOINT_ENV_KEYS \<and> list_ex (\<lambda>h. contains h v) RETIRED_PUBLIC_HOSTS) values
       then Inl (GateError ''public endpoint references a retired production hostname'') else Inr ())"

text \<open>A full match of the pattern \<open>[^\s]+@sha256:[0-9a-f]{64}\<close>.\<close>

definition immutable_image :: "pytext \<Rightarrow> bool" where
  "immutable_image s \<longleftrightarrow>
     72 < length s \<and> list_all (\<lambda>c. \<not> py_space c) (take (length s - 72) s) \<and>
     take 8 (drop (length s - 72) s) = text_of ''@sha256:'' \<and> hex_text 64 (drop (length s - 64) s)"

definition PLACEHOLDER_IMAGE_DIGEST :: pytext where
  "PLACEHOLDER_IMAGE_DIGEST = replicate 64 48"

definition MINIMUM_MFA_SECRET_BYTES :: nat where
  "MINIMUM_MFA_SECRET_BYTES = 20"

definition validate_admin_mfa_secret :: "(pytext \<Rightarrow> pytext) \<Rightarrow> pytext \<Rightarrow> gate_error + unit" where
  "validate_admin_mfa_secret unicode_upper encoded =
     (let padding = replicate ((8 - length encoded mod 8) mod 8) 61 in
      case b32decode (upper_text unicode_upper encoded @ padding) of
        None \<Rightarrow> Inl (GateError ''AUTH_POLICY_ADMIN_MFA_SECRET must be valid Base32'')
      | Some decoded \<Rightarrow>
          if length decoded < MINIMUM_MFA_SECRET_BYTES
          then Inl (GateError ''AUTH_POLICY_ADMIN_MFA_SECRET must contain at least 160 bits'') else Inr ())"

section \<open>Port ranges\<close>

definition TURN_NAMES :: "string list" where
  "TURN_NAMES =
     [''TURN_RELAY_MIN_PORT'', ''TURN_PRIMARY_RELAY_MAX_PORT'', ''TURN_SECONDARY_RELAY_MIN_PORT'', ''TURN_RELAY_MAX_PORT'',
      ''TURN_PRIMARY_RELAY_HOST_MIN_PORT'', ''TURN_PRIMARY_RELAY_HOST_MAX_PORT'',
      ''TURN_SECONDARY_RELAY_HOST_MIN_PORT'', ''TURN_SECONDARY_RELAY_HOST_MAX_PORT'']"

definition turn_port :: "(nat \<Rightarrow> nat option) \<Rightarrow> (pytext, pytext) dict \<Rightarrow> string \<Rightarrow> gate_error + (string \<times> int)" where
  "turn_port unicode_decimal values name =
     (case Option.bind (dict_get values (text_of name)) (text_int unicode_decimal) of
        None \<Rightarrow> Inl (GateError ''TURN relay ranges must be explicit integer values'')
      | Some p \<Rightarrow> Inr (name, p))"

definition port_of :: "(string, int) dict \<Rightarrow> string \<Rightarrow> gate_error + int" where
  "port_of ports name = (case dict_get ports name of None \<Rightarrow> Inl GateCrash | Some p \<Rightarrow> Inr p)"

definition range_sizes :: "(string, int) dict \<Rightarrow> string \<Rightarrow> string \<Rightarrow> string \<Rightarrow> string \<Rightarrow> gate_error + (int \<times> int)" where
  "range_sizes ports first_min first_max second_min second_max =
     bind_r (port_of ports first_min) (\<lambda>a.
     bind_r (port_of ports first_max) (\<lambda>b.
     bind_r (port_of ports second_min) (\<lambda>c.
     bind_r (port_of ports second_max) (\<lambda>d.
     let first = b - a + 1; second = d - c + 1 in
     if first \<le> 0 \<or> second \<le> 0 \<or> c \<noteq> b + 1
     then Inl (GateError ''TURN relay ranges must be positive and contiguous'')
     else Inr (first, second)))))"

definition validate_turn_ranges :: "(nat \<Rightarrow> nat option) \<Rightarrow> (pytext, pytext) dict \<Rightarrow> gate_error + unit" where
  "validate_turn_ranges unicode_decimal values =
     bind_r (map_r (turn_port unicode_decimal values) TURN_NAMES) (\<lambda>ports.
     bind_r (range_sizes ports ''TURN_RELAY_MIN_PORT'' ''TURN_PRIMARY_RELAY_MAX_PORT'' ''TURN_SECONDARY_RELAY_MIN_PORT''
               ''TURN_RELAY_MAX_PORT'') (\<lambda>internal.
     bind_r (range_sizes ports ''TURN_PRIMARY_RELAY_HOST_MIN_PORT'' ''TURN_PRIMARY_RELAY_HOST_MAX_PORT''
               ''TURN_SECONDARY_RELAY_HOST_MIN_PORT'' ''TURN_SECONDARY_RELAY_HOST_MAX_PORT'') (\<lambda>external.
     if internal \<noteq> external
     then Inl (GateError ''TURN internal and published relay range sizes must match'') else Inr ())))"

definition value_or_empty :: "(pytext, pytext) dict \<Rightarrow> string \<Rightarrow> pytext" where
  "value_or_empty values name = (case dict_get values (text_of name) of None \<Rightarrow> [] | Some v \<Rightarrow> v)"

definition validate_runtime_environment :: "gate_machine \<Rightarrow> bytes option \<Rightarrow> gate_error + unit" where
  "validate_runtime_environment m content =
     bind_r (read_environment content) (\<lambda>values.
     bind_r (validate_admin_mfa_secret (gm_upper m) (value_or_empty values ''AUTH_POLICY_ADMIN_MFA_SECRET'')) (\<lambda>_.
     let mobile_image = value_or_empty values ''MOBILE_PUBLISHER_IMAGE'' in
     if \<not> immutable_image mobile_image \<or> ends_with PLACEHOLDER_IMAGE_DIGEST mobile_image
     then Inl (GateError ''MOBILE_PUBLISHER_IMAGE must use an immutable sha256 digest'')
     else validate_turn_ranges (gm_decimal m) values))"

section \<open>Migrations\<close>

definition strip_bom :: "bytes \<Rightarrow> bytes" where
  "strip_bom bs = (if take 3 bs = [0xEF, 0xBB, 0xBF] then drop 3 bs else bs)"

text \<open>The checksum as Flyway stores it, a signed 32-bit integer.\<close>

definition flyway_checksum :: "bytes \<Rightarrow> gate_error + int" where
  "flyway_checksum content =
     (case read_text (strip_bom content) of
        None \<Rightarrow> Inl GateCrash
      | Some t \<Rightarrow>
          (case utf8_encode (concat (py_splitlines t)) of
             Inl _ \<Rightarrow> Inl GateCrash
           | Inr bs \<Rightarrow> let checksum = uint (crc32 bs) in Inr (if 2 ^ 31 \<le> checksum then checksum - 2 ^ 32 else checksum)))"

record migration =
  mg_path :: pytext
  mg_sha256 :: pytext
  mg_checksum :: int

definition inventory_item :: "gate_machine \<Rightarrow> pytext \<times> bytes option \<Rightarrow> gate_error + migration" where
  "inventory_item m = (\<lambda>(path, content).
     bind_r (case content of None \<Rightarrow> Inl GateCrash | Some bs \<Rightarrow> flyway_checksum bs) (\<lambda>checksum.
     bind_r (gate_sha256 m content) (\<lambda>digest.
       Inr \<lparr>mg_path = path, mg_sha256 = digest, mg_checksum = checksum\<rparr>)))"

definition migration_inventory :: "gate_machine \<Rightarrow> gate_error + migration list" where
  "migration_inventory m =
     (if gm_migrations m = [] then Inl (GateError ''no Flyway migrations found'')
      else map_r (inventory_item m) (gm_migrations m))"

text \<open>\<open>s.split(p, 1)[0]\<close>.\<close>

fun before_mark :: "pytext \<Rightarrow> pytext \<Rightarrow> pytext" where
  "before_mark p [] = []"
| "before_mark p (c # cs) = (if starts_with p (c # cs) then [] else c # before_mark p cs)"

definition version_of :: "pytext \<Rightarrow> pytext" where
  "version_of path = drop 1 (before_mark (text_of ''__'') (last (split_on 47 path)))"

text \<open>A line of the export: the version and the checksum, absent for a repeatable baseline.\<close>

definition applied_row :: "(nat \<Rightarrow> nat option) \<Rightarrow> pytext \<Rightarrow> gate_error + (pytext \<times> int option)" where
  "applied_row unicode_decimal line =
     (if 124 \<notin> set line then Inl GateCrash
      else let (version, checksum) = split_first 124 line in
        if checksum = [] then Inr (version, None)
        else (case text_int unicode_decimal checksum of None \<Rightarrow> Inl GateCrash | Some n \<Rightarrow> Inr (version, Some n)))"

definition check_applied :: "(pytext, migration) dict \<Rightarrow> pytext \<times> int option \<Rightarrow> gate_error + unit" where
  "check_applied source_by_version = (\<lambda>(version, checksum).
     case dict_get source_by_version version of
       None \<Rightarrow> Inl (GateError ''applied Flyway migration is absent from checkout'')
     | Some source \<Rightarrow>
         if checksum \<noteq> None \<and> checksum \<noteq> Some (mg_checksum source)
         then Inl (GateError ''Flyway checksum drift detected'') else Inr ())"

definition source_by_version :: "migration list \<Rightarrow> (pytext, migration) dict" where
  "source_by_version inventory = fold (\<lambda>item. dict_set (version_of (mg_path item)) item) inventory []"

definition validate_applied_migrations ::
    "(nat \<Rightarrow> nat option) \<Rightarrow> bytes option \<Rightarrow> migration list \<Rightarrow> gate_error + unit" where
  "validate_applied_migrations unicode_decimal content inventory =
     (case Option.bind content read_text of
        None \<Rightarrow> Inl GateCrash
      | Some t \<Rightarrow>
          bind_r (map_r (applied_row unicode_decimal) (py_splitlines t)) (\<lambda>applied.
          bind_r (map_r (check_applied (source_by_version inventory)) applied) (\<lambda>_. Inr ())))"

section \<open>Application images\<close>

definition image_variables :: "(string \<times> string) list" where
  "image_variables =
     [(''backend'', ''BACKEND_IMAGE''), (''auth-policy'', ''AUTH_POLICY_IMAGE''),
      (''media-control'', ''MEDIA_CONTROL_IMAGE''), (''dashboard'', ''DASHBOARD_IMAGE'')]"

definition application_prefix :: "string \<Rightarrow> pytext" where
  "application_prefix service = text_of ''ghcr.io/gcs-saker/gcs-saker-'' @ text_of service @ text_of ''@sha256:''"

definition application_image :: "pytext \<Rightarrow> bool" where
  "application_image reference \<longleftrightarrow>
     list_ex (\<lambda>(service, _).
       starts_with (application_prefix service) reference \<and> hex_text 64 (drop (length (application_prefix service)) reference))
       image_variables"

definition application_reference :: "gate_machine \<Rightarrow> string \<times> string \<Rightarrow> gate_error + (string \<times> pytext)" where
  "application_reference m = (\<lambda>(service, variable).
     let reference = (case gm_getenv m variable of None \<Rightarrow> [] | Some v \<Rightarrow> v) in
     if reference = [] then Inl (GateError ''variable must identify the release image'')
     else if \<not> application_image reference \<or> \<not> starts_with (application_prefix service) reference
     then Inl (GateError ''variable must use a verified digest'')
     else Inr (service, reference))"

definition application_image_inventory :: "gate_machine \<Rightarrow> gate_error + (string, pytext) dict" where
  "application_image_inventory m = map_r (application_reference m) image_variables"

section \<open>The gate\<close>

record gate_report =
  gr_commit :: pytext
  gr_branch :: pytext
  gr_compose_sha256 :: pytext
  gr_source_compose_sha256 :: pytext
  gr_environment_sha256 :: pytext
  gr_mqtt_sha256 :: pytext
  gr_images :: "(string, pytext) dict"
  gr_migrations :: "migration list"

definition mosquitto_uid :: "gate_machine \<Rightarrow> pytext" where
  "mosquitto_uid m = (case gm_getenv m ''MOSQUITTO_RUNTIME_UID'' of None \<Rightarrow> text_of ''1883'' | Some v \<Rightarrow> v)"

definition file_content :: "secret_file option \<Rightarrow> bytes option" where
  "file_content file = Option.bind file sf_content"

definition render_sha256 :: "gate_machine \<Rightarrow> pytext \<Rightarrow> gate_error + pytext" where
  "render_sha256 m t = (case utf8_encode t of Inl _ \<Rightarrow> Inl GateCrash | Inr bs \<Rightarrow> Inr (gm_sha256 m bs))"

definition gate_inputs :: "gate_machine \<Rightarrow> gate_error + unit" where
  "gate_inputs m =
     bind_r (require_private_file m (gm_env_file m) None) (\<lambda>_.
     bind_r (require_private_file m (gm_mqtt_file m) (Some (mosquitto_uid m))) (\<lambda>_.
     bind_r (validate_public_endpoint_environment (file_content (gm_env_file m))) (\<lambda>_.
       validate_runtime_environment m (file_content (gm_env_file m)))))"

definition gate_migrations :: "gate_machine \<Rightarrow> gate_error + migration list" where
  "gate_migrations m =
     bind_r (migration_inventory m) (\<lambda>migrations.
       case gm_applied m of
         None \<Rightarrow> Inr migrations
       | Some content \<Rightarrow> bind_r (validate_applied_migrations (gm_decimal m) content migrations) (\<lambda>_. Inr migrations))"

definition release_gate :: "gate_machine \<Rightarrow> bool \<Rightarrow> gate_error + gate_report" where
  "release_gate m allow_dirty =
     bind_r (gate_inputs m) (\<lambda>_.
     bind_r (run_gate_command m GitStatus) (\<lambda>status.
     if status \<noteq> [] \<and> \<not> allow_dirty
     then Inl (GateError ''release checkout is dirty; commit the source before deployment'')
     else
       bind_r (run_gate_command m GitHead) (\<lambda>commit.
       bind_r (run_gate_command m GitBranch) (\<lambda>branch.
       bind_r (run_gate_command m ComposeConfig) (\<lambda>compose_rendered.
       bind_r (gate_migrations m) (\<lambda>migrations.
       bind_r (render_sha256 m compose_rendered) (\<lambda>compose.
       bind_r (gate_sha256 m (gm_compose_source m)) (\<lambda>source.
       bind_r (gate_sha256 m (file_content (gm_env_file m))) (\<lambda>environment.
       bind_r (gate_sha256 m (file_content (gm_mqtt_file m))) (\<lambda>mqtt.
       bind_r (application_image_inventory m) (\<lambda>images.
       Inr \<lparr>gr_commit = commit, gr_branch = branch, gr_compose_sha256 = compose, gr_source_compose_sha256 = source,
            gr_environment_sha256 = environment, gr_mqtt_sha256 = mqtt, gr_images = images,
            gr_migrations = migrations\<rparr>)))))))))))"

section \<open>MFA material\<close>

text \<open>\<open>b32encode(token).decode("ascii").rstrip("=")\<close> and the grouping of a recovery code.\<close>

definition mfa_secret :: "bytes \<Rightarrow> pytext" where
  "mfa_secret token = strip_right (\<lambda>c. c = 61) (b32encode token)"

definition hex_upper :: "nat \<Rightarrow> nat" where
  "hex_upper d = (if d < 10 then 48 + d else 55 + d)"

text \<open>\<open>token_hex(8).upper()\<close> of the eight octets drawn.\<close>

definition token_text :: "bytes \<Rightarrow> pytext" where
  "token_text token = concat (map (\<lambda>b. [hex_upper (unat b div 16), hex_upper (unat b mod 16)]) token)"

definition recovery_code :: "bytes \<Rightarrow> pytext" where
  "recovery_code token =
     (let s = token_text token
      in join_with [45] [take 4 s, take 4 (drop 4 s), take 4 (drop 8 s), drop 12 s])"

record mfa_material =
  mm_account :: pytext
  mm_secret :: pytext
  mm_codes :: "pytext list"
  mm_code_hashes :: "pytext list"

definition mfa_payload :: "(bytes \<Rightarrow> pytext) \<Rightarrow> pytext \<Rightarrow> bytes \<Rightarrow> bytes list \<Rightarrow> mfa_material" where
  "mfa_payload sha256 account token code_tokens =
     (let codes = map recovery_code code_tokens in
      \<lparr>mm_account = account, mm_secret = mfa_secret token, mm_codes = codes,
       mm_code_hashes = map (\<lambda>code. sha256 (ascii_bytes code)) codes\<rparr>)"

section \<open>Lines and checksums\<close>

text \<open>Joining the lines leaves out the line breaks, whatever they are.\<close>

lemma joined_lines: "concat (py_splitlines s) = filter (\<lambda>c. \<not> line_break c) s"
proof (induction s rule: py_splitlines.induct)
  case (1 s)
  let ?w = "takeWhile (\<lambda>c. \<not> line_break c) s" and ?r = "dropWhile (\<lambda>c. \<not> line_break c) s"
  show ?case
  proof (cases "s = []")
    case False
    have "filter (\<lambda>c. \<not> line_break c) ?r = filter (\<lambda>c. \<not> line_break c) (drop 1 ?r)"
    proof (cases ?r)
      case (Cons c r)
      then have "line_break c" using hd_dropWhile [of "\<lambda>c. \<not> line_break c" s] by auto
      with Cons show ?thesis by simp
    next
      case Nil
      show ?thesis unfolding Nil by simp
    qed
    moreover have "filter (\<lambda>c. \<not> line_break c) ?w = ?w" by (auto simp: filter_id_conv dest: set_takeWhileD)
    moreover have "filter (\<lambda>c. \<not> line_break c) s = filter (\<lambda>c. \<not> line_break c) (?w @ ?r)" by simp
    ultimately have "filter (\<lambda>c. \<not> line_break c) s = ?w @ filter (\<lambda>c. \<not> line_break c) (drop 1 ?r)"
      by (simp only: filter_append)
    with 1 False show ?thesis by (simp add: py_splitlines.simps [of s])
  qed simp
qed

lemma filter_newlines: "filter (\<lambda>c. \<not> line_break c) (universal_newlines s) = filter (\<lambda>c. \<not> line_break c) s"
proof (induction s rule: universal_newlines.induct)
  case (2 c cs)
  have b: "line_break 13" "line_break 10" by (simp_all add: line_break_def)
  show ?case
  proof (cases "c = 13 \<and> take 1 cs = [10]")
    case True
    then obtain ds where "cs = 10 # ds" by (cases cs) auto
    with 2 True b show ?thesis by simp
  next
    case False
    with 2 b show ?thesis by auto
  qed
qed simp

definition strip_mark :: "pytext \<Rightarrow> pytext" where
  "strip_mark t = (if take 1 t = [0xFEFF] then drop 1 t else t)"

lemma utf8_encode_mark: "utf8_encode_char 0xFEFF = Inr [0xEF, 0xBB, 0xBF]"
  by (simp add: utf8_encode_char_def scalar_value_def is_surrogate_def octet_def)

lemma strip_bom_text: "utf8_encode t = Inr bs \<Longrightarrow> utf8_encode (strip_mark t) = Inr (strip_bom bs)"
proof (cases "take 1 t = [0xFEFF]")
  case True
  then obtain u where t: "t = 0xFEFF # u" by (cases t) auto
  assume "utf8_encode t = Inr bs"
  then show ?thesis
    using utf8_encode_mark by (auto simp: t utf8_encode_Cons strip_mark_def strip_bom_def bind_r_eq_Inr)
next
  case False
  assume e: "utf8_encode t = Inr bs"
  have "take 3 bs \<noteq> [0xEF, 0xBB, 0xBF]"
  proof
    assume "take 3 bs = [0xEF, 0xBB, 0xBF]"
    then have "bs = [0xEF, 0xBB, 0xBF] @ drop 3 bs" using append_take_drop_id [of 3 bs] by simp
    then obtain r where bs: "bs = 0xEF # 0xBB # 0xBF # r" by simp
    have "utf8_head (map unat bs) = Some (0xFEFF, 3)"
      by (simp add: bs utf8_head_def is_cont_def is_surrogate_def)
    moreover have "utf8_decode_octets (map unat bs) = Inr t" using utf8_decode_encode [OF e] by (simp add: utf8_decode_def)
    ultimately have "take 1 t = [0xFEFF]"
      by (subst (asm) utf8_decode_octets.simps) (auto simp: bs bind_r_eq_Inr)
    with False show False by simp
  qed
  with e False show ?thesis by (simp add: strip_mark_def strip_bom_def)
qed

text \<open>What a script contributes to its checksum: its text without the mark and without line breaks.\<close>

definition script_text :: "pytext \<Rightarrow> pytext" where
  "script_text t = filter (\<lambda>c. \<not> line_break c) (strip_mark t)"

lemma signed_word: "sint w = (if 2 ^ 31 \<le> uint w then uint w - 2 ^ 32 else uint w)" for w :: "32 word"
proof -
  have u: "uint w < 2 ^ 32" using uint_bounded [of w] by simp
  have "take_bit (Suc 31) (uint w - 2 ^ 32) = take_bit (Suc 31) (uint w)"
    by (simp add: take_bit_eq_mod)
  then have "signed_take_bit 31 (uint w - 2 ^ 32) = signed_take_bit 31 (uint w)"
    by (simp only: signed_take_bit_eq_iff_take_bit_eq)
  then show ?thesis
    using u signed_take_bit_int_eq_self [of 31 "uint w - 2 ^ 32"] signed_take_bit_int_eq_self [of 31 "uint w"]
    by (simp add: sint_uint order_trans [OF _ uint_nonnegative])
qed

lemma flyway_checksum_text:
  assumes "utf8_encode t = Inr bs" and "utf8_encode (script_text t) = Inr cs"
  shows "flyway_checksum bs = Inr (sint (crc32 cs))"
proof -
  have "read_text (strip_bom bs) = Some (universal_newlines (strip_mark t))"
    using utf8_decode_encode [OF strip_bom_text [OF assms(1)]] by (simp add: read_text_def)
  then have "flyway_checksum bs =
      (let checksum = uint (crc32 cs) in Inr (if 2 ^ 31 \<le> checksum then checksum - 2 ^ 32 else checksum))"
    using assms(2) by (simp add: flyway_checksum_def joined_lines filter_newlines script_text_def [symmetric])
  then show ?thesis using signed_word [of "crc32 cs"] by (simp add: Let_def)
qed

lemma encodable_sub: "set s \<subseteq> set t \<Longrightarrow> utf8_encode t = Inr bs \<Longrightarrow> \<exists>cs. utf8_encode s = Inr cs"
  using utf8_encode_Inr_iff [of s] utf8_encode_Inr_iff [of t] by (auto simp: encodable_def list_all_iff)

lemma utf8_encode_split:
  "utf8_encode (a @ x # b) = Inr bs \<Longrightarrow> x < 128 \<Longrightarrow>
     \<exists>p q. utf8_encode a = Inr p \<and> utf8_encode b = Inr q \<and> bs = p @ of_nat x # q"
proof (induction a arbitrary: bs)
  case Nil
  then show ?case by (auto simp: utf8_encode_Cons bind_r_eq_Inr utf8_encode_char_def octet_def)
next
  case (Cons c a)
  then obtain h r where h: "utf8_encode_char c = Inr h" "utf8_encode (a @ x # b) = Inr r" "bs = h @ r"
    by (auto simp: utf8_encode_Cons bind_r_eq_Inr)
  with Cons.IH [OF h(2) Cons.prems(2)] show ?case by (auto simp: utf8_encode_Cons)
qed

lemma checksums_differ:
  assumes "utf8_encode (a @ x # b) = Inr old" and "utf8_encode (a @ y # b) = Inr new"
    and "x < 128" and "y < 128" and "\<not> line_break x" and "\<not> line_break y" and "x \<noteq> y"
  shows "flyway_checksum old \<noteq> flyway_checksum new"
proof -
  have mark: "strip_mark (a @ z # b) = strip_mark a @ z # b" if "z < 128" for z
    using that by (cases a) (simp_all add: strip_mark_def)
  let ?A = "filter (\<lambda>c. \<not> line_break c) (strip_mark a)" and ?B = "filter (\<lambda>c. \<not> line_break c) b"
  have t: "script_text (a @ x # b) = ?A @ x # ?B" "script_text (a @ y # b) = ?A @ y # ?B"
    using assms(3-6) mark by (simp_all add: script_text_def)
  have sub: "set (?A @ z # ?B) \<subseteq> set (a @ z # b)" for z
    by (auto simp: strip_mark_def dest: in_set_dropD)
  obtain os ns where e: "utf8_encode (?A @ x # ?B) = Inr os" "utf8_encode (?A @ y # ?B) = Inr ns"
    using encodable_sub [OF sub assms(1)] encodable_sub [OF sub assms(2)] by blast
  obtain p q where o: "utf8_encode ?A = Inr p" "utf8_encode ?B = Inr q" "os = p @ of_nat x # q"
    using utf8_encode_split [OF e(1) assms(3)] by blast
  have n: "ns = p @ of_nat y # q" using utf8_encode_split [OF e(2) assms(4)] o(1,2) by auto
  have "unat (of_nat x :: byte) = x" "unat (of_nat y :: byte) = y"
    using assms(3,4) by (simp_all add: unat_of_nat)
  then have "(of_nat x :: byte) \<noteq> of_nat y" using assms(7) by metis
  then have "sint (crc32 os) \<noteq> sint (crc32 ns)" 
    using crc32_detects_octet [of p "of_nat x" q "of_nat y"] signed_word_eqI [of "crc32 os" "crc32 ns"] o(3) n by auto
  then show ?thesis
    using flyway_checksum_text [OF assms(1)] flyway_checksum_text [OF assms(2)] t e by simp
qed

section \<open>The environment file\<close>

definition clean_key :: "pytext \<Rightarrow> bool" where
  "clean_key k \<longleftrightarrow>
     k \<noteq> [] \<and> 61 \<notin> set k \<and> hd k \<noteq> 35 \<and> \<not> py_space (hd k) \<and> \<not> py_space (last k) \<and> list_all (\<lambda>c. \<not> line_break c) k"

definition clean_value :: "pytext \<Rightarrow> bool" where
  "clean_value v \<longleftrightarrow> (v = [] \<or> \<not> py_space (hd v) \<and> \<not> py_space (last v)) \<and> list_all (\<lambda>c. \<not> line_break c) v"

definition render_environment :: "(pytext, pytext) dict \<Rightarrow> pytext" where
  "render_environment values = concat (map (\<lambda>l. l @ [10]) (map (\<lambda>(k, v). k @ 61 # v) values))"

lemma environment_item_clean:
  assumes "clean_key k" and "clean_value v"
  shows "environment_item (k @ 61 # v) = Some (k, v)"
proof -
  have eq: "\<not> py_space 61" by (simp add: py_space_def)
  have "py_strip (k @ 61 # v) = k @ 61 # v"
    using assms eq by (intro py_strip_id) (auto simp: clean_key_def clean_value_def)
  moreover have "takeWhile (\<lambda>x. x \<noteq> 61) (k @ 61 # v) = k" "dropWhile (\<lambda>x. x \<noteq> 61) (k @ 61 # v) = 61 # v"
    using assms(1) by (auto simp: clean_key_def takeWhile_append dropWhile_append)
  moreover have "\<not> starts_with [35] (k @ 61 # v)" using assms(1) by (cases k) (auto simp: clean_key_def starts_with_def)
  moreover have "py_strip k = k" "py_strip v = v"
    using assms by (auto simp: clean_key_def clean_value_def intro: py_strip_id)
  ultimately show ?thesis by (simp add: environment_item_def split_first_def)
qed

lemma environment_read_back:
  assumes "\<forall>(k, v) \<in> set values. clean_key k \<and> clean_value v" and "dict_ok values"
    and "utf8_encode (render_environment values) = Inr bs"
  shows "read_environment (Some bs) = Inr values"
proof -
  let ?lines = "map (\<lambda>(k, v). k @ 61 # v) values"
  have lb: "\<not> line_break 61" "line_break 13" by (simp_all add: line_break_def)
  have lines: "\<forall>l \<in> set ?lines. list_all (\<lambda>c. \<not> line_break c) l"
    using assms(1) lb by (fastforce simp: clean_key_def clean_value_def)
  then have "13 \<notin> set (render_environment values)" using lb by (auto simp: render_environment_def list_all_iff)
  then have "read_text bs = Some (render_environment values)"
    using utf8_decode_encode [OF assms(3)] by (simp add: read_text_def universal_newlines_absent)
  moreover have "py_splitlines (render_environment values) = ?lines"
    unfolding render_environment_def using lines by (rule lines_read_back)
  moreover have "fold (\<lambda>line d. case environment_item line of None \<Rightarrow> d | Some (k, v) \<Rightarrow> dict_set k v d)
      (map (\<lambda>(k, v). k @ 61 # v) kvs) d = fold (\<lambda>kv. dict_set (fst kv) (snd kv)) kvs d"
    if "set kvs \<subseteq> set values" for kvs d
    using that
  proof (induction kvs arbitrary: d)
    case (Cons kv kvs)
    then have "environment_item (fst kv @ 61 # snd kv) = Some (fst kv, snd kv)"
      using assms(1) by (intro environment_item_clean) auto
    with Cons show ?case by (simp add: case_prod_beta)
  qed simp
  moreover have "fold (\<lambda>kv. dict_set (fst kv) (snd kv)) values [] = values"
    using fold_dict_set_distinct [of fst "values" "[]" snd] assms(2) by (simp add: dict_ok_def)
  ultimately show ?thesis by (simp add: read_environment_def)
qed

section \<open>Port ranges\<close>

definition port_value :: "(nat \<Rightarrow> nat option) \<Rightarrow> (pytext, pytext) dict \<Rightarrow> string \<Rightarrow> int option" where
  "port_value unicode_decimal values name = Option.bind (dict_get values (text_of name)) (text_int unicode_decimal)"

lemma turn_ports_Inr:
  "map_r (turn_port u values) names = Inr ports \<Longrightarrow> n \<in> set names \<Longrightarrow> \<exists>p. port_value u values n = Some p \<and> port_of ports n = Inr p"
proof (induction names arbitrary: ports)
  case (Cons name names)
  from Cons.prems(1) obtain p ps where p: "port_value u values name = Some p" "map_r (turn_port u values) names = Inr ps"
      "ports = (name, p) # ps"
    by (fastforce simp: bind_r_eq_Inr turn_port_def [of u "values" name] port_value_def split: option.splits)
  show ?case
  proof (cases "n = name")
    case True
    with p show ?thesis by (simp add: port_of_def dict_get_def)
  next
    case False
    with Cons p show ?thesis by (auto simp: port_of_def dict_get_def)
  qed
qed simp

lemma range_sizes_Inr:
  "range_sizes ports fmin fmax smin smax = Inr (m, n) \<longleftrightarrow>
     (\<exists>a b d. port_of ports fmin = Inr a \<and> port_of ports fmax = Inr b \<and> port_of ports smin = Inr (b + 1) \<and>
        port_of ports smax = Inr d \<and> a \<le> b \<and> b < d \<and> m = b - a + 1 \<and> n = d - b)"
proof
  assume "range_sizes ports fmin fmax smin smax = Inr (m, n)"
  then show "\<exists>a b d. port_of ports fmin = Inr a \<and> port_of ports fmax = Inr b \<and> port_of ports smin = Inr (b + 1) \<and>
        port_of ports smax = Inr d \<and> a \<le> b \<and> b < d \<and> m = b - a + 1 \<and> n = d - b"
    by (auto simp: range_sizes_def bind_r_eq_Inr Let_def split: if_splits)
qed (auto simp: range_sizes_def)

text \<open>The relay listens on the internal ports; the host publishes a range of the same size for each half.\<close>

lemma turn_ranges:
  assumes "validate_turn_ranges u values = Inr ()"
  obtains a b d a' b' d' where
    "port_value u values ''TURN_RELAY_MIN_PORT'' = Some a" "port_value u values ''TURN_PRIMARY_RELAY_MAX_PORT'' = Some b"
    "port_value u values ''TURN_SECONDARY_RELAY_MIN_PORT'' = Some (b + 1)" "port_value u values ''TURN_RELAY_MAX_PORT'' = Some d"
    "port_value u values ''TURN_PRIMARY_RELAY_HOST_MIN_PORT'' = Some a'"
    "port_value u values ''TURN_PRIMARY_RELAY_HOST_MAX_PORT'' = Some b'"
    "port_value u values ''TURN_SECONDARY_RELAY_HOST_MIN_PORT'' = Some (b' + 1)"
    "port_value u values ''TURN_SECONDARY_RELAY_HOST_MAX_PORT'' = Some d'"
    "a \<le> b" "b < d" "b' - a' = b - a" "d' - b' = d - b"
proof -
  obtain ports m n where p: "map_r (turn_port u values) TURN_NAMES = Inr ports"
      "range_sizes ports ''TURN_RELAY_MIN_PORT'' ''TURN_PRIMARY_RELAY_MAX_PORT'' ''TURN_SECONDARY_RELAY_MIN_PORT''
         ''TURN_RELAY_MAX_PORT'' = Inr (m, n)"
      "range_sizes ports ''TURN_PRIMARY_RELAY_HOST_MIN_PORT'' ''TURN_PRIMARY_RELAY_HOST_MAX_PORT''
         ''TURN_SECONDARY_RELAY_HOST_MIN_PORT'' ''TURN_SECONDARY_RELAY_HOST_MAX_PORT'' = Inr (m, n)"
    using assms by (auto simp: validate_turn_ranges_def bind_r_eq_Inr split: if_splits)
  have name: "port_value u values name = Some q" if "port_of ports name = Inr q" "name \<in> set TURN_NAMES" for name q
    using turn_ports_Inr [OF p(1) that(2)] that(1) by auto
  show ?thesis
    using p(2,3) unfolding range_sizes_Inr
    by (elim exE conjE) (rule that; (rule name, assumption, simp add: TURN_NAMES_def)?; linarith?)
qed

section \<open>Applied migrations\<close>

lemma check_applied_Inr:
  "check_applied d (version, checksum) = Inr () \<longleftrightarrow>
     (\<exists>source. dict_get d version = Some source \<and> (checksum = None \<or> checksum = Some (mg_checksum source)))"
  by (auto simp: check_applied_def split: option.splits)

lemma map_r_unit: "map_r f xs = Inr ys \<longleftrightarrow> (\<forall>x \<in> set xs. f x = Inr ()) \<and> ys = map (\<lambda>_. ()) xs"
  by (induction xs arbitrary: ys) (auto simp: bind_r_eq_Inr)

lemma accepted_rows:
  "(\<forall>row \<in> set rows. check_applied d row = Inr ()) \<longleftrightarrow>
     (\<forall>(version, checksum) \<in> set rows. \<exists>source. dict_get d version = Some source \<and>
        (checksum = None \<or> checksum = Some (mg_checksum source)))"
  unfolding check_applied_Inr [symmetric] by auto

lemma validate_applied_Inr:
  "validate_applied_migrations u content inventory = Inr () \<longleftrightarrow>
     (\<exists>bs t rows. content = Some bs \<and> read_text bs = Some t \<and> map_r (applied_row u) (py_splitlines t) = Inr rows \<and>
        (\<forall>(version, checksum) \<in> set rows. \<exists>source. dict_get (source_by_version inventory) version = Some source \<and>
           (checksum = None \<or> checksum = Some (mg_checksum source))))"
  unfolding accepted_rows [symmetric]
  by (cases content) (auto simp: validate_applied_migrations_def bind_r_eq_Inr map_r_unit split: option.splits)

lemma source_by_version_in: "dict_get (source_by_version inventory) v = Some item \<Longrightarrow> item \<in> set inventory \<and> version_of (mg_path item) = v"
proof -
  have "dict_get (fold (\<lambda>item. dict_set (version_of (mg_path item)) item) xs d) v = Some item \<Longrightarrow>
      dict_get d v = Some item \<or> item \<in> set xs \<and> version_of (mg_path item) = v" for xs d
    by (induction xs arbitrary: d) (fastforce split: if_splits)+
  from this [of inventory "[]"] show "dict_get (source_by_version inventory) v = Some item \<Longrightarrow> ?thesis"
    by (simp add: source_by_version_def)
qed

section \<open>Properties\<close>

text \<open>
  Accepted TURN ranges translate: the internal ports are two contiguous ranges, and adding one
  offset maps the primary and the secondary half exactly onto the ports the host publishes for them.
\<close>

theorem turn_ranges_translate:
  assumes "validate_turn_ranges u values = Inr ()"
  shows "\<exists>a b d a' b' d'.
    port_value u values ''TURN_RELAY_MIN_PORT'' = Some a \<and> port_value u values ''TURN_PRIMARY_RELAY_MAX_PORT'' = Some b \<and>
    port_value u values ''TURN_SECONDARY_RELAY_MIN_PORT'' = Some (b + 1) \<and> port_value u values ''TURN_RELAY_MAX_PORT'' = Some d \<and>
    port_value u values ''TURN_PRIMARY_RELAY_HOST_MIN_PORT'' = Some a' \<and>
    port_value u values ''TURN_PRIMARY_RELAY_HOST_MAX_PORT'' = Some b' \<and>
    port_value u values ''TURN_SECONDARY_RELAY_HOST_MIN_PORT'' = Some (b' + 1) \<and>
    port_value u values ''TURN_SECONDARY_RELAY_HOST_MAX_PORT'' = Some d' \<and>
    a \<le> b \<and> b < d \<and> (\<lambda>p. p + (a' - a)) ` {a..b} = {a'..b'} \<and> (\<lambda>p. p + (a' - a)) ` {b + 1..d} = {b' + 1..d'}"
proof -
  obtain a b d a' b' d' where r:
    "port_value u values ''TURN_RELAY_MIN_PORT'' = Some a" "port_value u values ''TURN_PRIMARY_RELAY_MAX_PORT'' = Some b"
    "port_value u values ''TURN_SECONDARY_RELAY_MIN_PORT'' = Some (b + 1)" "port_value u values ''TURN_RELAY_MAX_PORT'' = Some d"
    "port_value u values ''TURN_PRIMARY_RELAY_HOST_MIN_PORT'' = Some a'"
    "port_value u values ''TURN_PRIMARY_RELAY_HOST_MAX_PORT'' = Some b'"
    "port_value u values ''TURN_SECONDARY_RELAY_HOST_MIN_PORT'' = Some (b' + 1)"
    "port_value u values ''TURN_SECONDARY_RELAY_HOST_MAX_PORT'' = Some d'"
    "a \<le> b" "b < d" "b' - a' = b - a" "d' - b' = d - b" by (rule turn_ranges [OF assms])
  have "b + (a' - a) = b'" "b + 1 + (a' - a) = b' + 1" "d + (a' - a) = d'" using r(11,12) by simp_all
  then have "(\<lambda>p. p + (a' - a)) ` {a..b} = {a'..b'}" "(\<lambda>p. p + (a' - a)) ` {b + 1..d} = {b' + 1..d'}"
    by (simp_all add: image_add_atLeastAtMost')
  with r show ?thesis by blast
qed

text \<open>
  The MFA material that the generator writes passes the gate exactly when the token has at least
  160 bits: the secret, without its padding, decodes to the token.
\<close>

theorem mfa_material_accepted:
  "validate_admin_mfa_secret unicode_upper (mm_secret (mfa_payload sha256 account token code_tokens)) =
     (if 20 \<le> length token then Inr ()
      else Inl (GateError ''AUTH_POLICY_ADMIN_MFA_SECRET must contain at least 160 bits''))"
  using b32_repadding [of token] b32_roundtrip [of token]
  by (simp add: validate_admin_mfa_secret_def mfa_payload_def mfa_secret_def upper_text_def Let_def MINIMUM_MFA_SECRET_BYTES_def)

text \<open>
  C32: Drift of a migration is seen where the export tells its checksum: when a migration was applied with the
  checksum of its script then, one ASCII character of the script that is no line break has been replaced since by another
  such character, and the export of the applied migrations that is given to the gate names the
  version with this checksum, the check of the export refuses the checkout.
\<close>

theorem migration_drift_detected:
  assumes "utf8_encode (a @ x # b) = Inr old" and "utf8_encode (a @ y # b) = Inr new"
    and "x < 128" and "y < 128" and "\<not> line_break x" and "\<not> line_break y" and "x \<noteq> y"
    and "flyway_checksum old = Inr n" and "inventory_item m (path, Some new) = Inr item"
    and "dict_get (source_by_version inventory) (version_of path) = Some item"
    and "read_text export = Some t" and "map_r (applied_row u) (py_splitlines t) = Inr rows"
    and "(version_of path, Some n) \<in> set rows"
  shows "validate_applied_migrations u (Some export) inventory \<noteq> Inr ()"
proof -
  have "flyway_checksum new = Inr (mg_checksum item)" using assms(9) by (auto simp: inventory_item_def bind_r_eq_Inr)
  then have "mg_checksum item \<noteq> n" using checksums_differ [OF assms(1-7)] assms(8) by auto
  then show ?thesis using assms(10-13) by (fastforce simp: validate_applied_Inr)
qed

text \<open>
  Applied migrations are accepted exactly when every line of a readable export names a version
  of the checkout, with that migration's checksum when it gives one.
\<close>

theorem applied_migrations_accepted_iff:
  "validate_applied_migrations u content inventory = Inr () \<longleftrightarrow>
     (\<exists>bs t rows. content = Some bs \<and> read_text bs = Some t \<and> map_r (applied_row u) (py_splitlines t) = Inr rows \<and>
        (\<forall>(version, checksum) \<in> set rows. \<exists>source. dict_get (source_by_version inventory) version = Some source \<and>
           source \<in> set inventory \<and> version_of (mg_path source) = version \<and>
           (checksum = None \<or> checksum = Some (mg_checksum source))))"
proof -
  have "dict_get (source_by_version inventory) v = Some source \<and> source \<in> set inventory \<and> version_of (mg_path source) = v \<and> P \<longleftrightarrow>
      dict_get (source_by_version inventory) v = Some source \<and> P" for v source P
    using source_by_version_in by blast
  then show ?thesis unfolding validate_applied_Inr by (simp only:)
qed

text \<open>
  An environment file reads back as the variables written: one \<open>key=value\<close> line each, for keys
  and values without surrounding white space and without line breaks.
\<close>

theorem environment_roundtrip:
  assumes "\<forall>(k, v) \<in> set vars. clean_key k \<and> clean_value v" and "dict_ok vars"
    and "utf8_encode (render_environment vars) = Inr bs"
  shows "read_environment (Some bs) = Inr vars"
  by (rule environment_read_back [OF assms])

lemma application_references:
  "map_r (application_reference m) variables = Inr images \<Longrightarrow>
     map fst images = map fst variables \<and>
     (\<forall>(service, reference) \<in> set images. starts_with (application_prefix service) reference \<and> application_image reference)"
proof (induction variables arbitrary: images)
  case (Cons v variables)
  then show ?case by (fastforce simp: bind_r_eq_Inr application_reference_def [of m, THEN fun_cong, of v] Let_def split_beta split: if_splits)
qed simp

definition private_file_mode :: "gate_machine \<Rightarrow> secret_file option \<Rightarrow> bool" where
  "private_file_mode m file \<longleftrightarrow> (\<exists>f. file = Some f \<and> 0 < sf_size f \<and> (gm_windows m \<or> sf_mode f mod 64 = 0))"

definition shared_with :: "pytext \<Rightarrow> secret_file option \<Rightarrow> bool" where
  "shared_with uid file \<longleftrightarrow> (\<exists>f out. file = Some f \<and> 0 < sf_size f \<and> sf_acl f = Some out \<and> acl_entries out = expected_acl uid)"

lemma require_private_file_Inr:
  "require_private_file m f allowed = Inr () \<longleftrightarrow>
     private_file_mode m f \<or> (\<exists>uid. allowed = Some uid \<and> shared_with uid f)"
  by (cases f) (auto simp: require_private_file_def private_file_mode_def shared_with_def split: option.splits)

lemma read_environment_file:
  "validate_runtime_environment m content = Inr () \<Longrightarrow> \<exists>vars. read_environment content = Inr vars"
  by (auto simp: validate_runtime_environment_def bind_r_eq_Inr)

definition mfa_bytes :: "(pytext \<Rightarrow> pytext) \<Rightarrow> pytext \<Rightarrow> bytes option" where
  "mfa_bytes unicode_upper encoded =
     b32decode (upper_text unicode_upper encoded @ replicate ((8 - length encoded mod 8) mod 8) 61)"

lemma validate_admin_mfa_secret_Inr:
  "validate_admin_mfa_secret u s = Inr () \<longleftrightarrow> (\<exists>token. mfa_bytes u s = Some token \<and> 20 \<le> length token)"
  by (auto simp: validate_admin_mfa_secret_def mfa_bytes_def Let_def MINIMUM_MFA_SECRET_BYTES_def split: option.splits)

text \<open>What the gate asks of the variables of the environment file.\<close>

definition environment_safe :: "gate_machine \<Rightarrow> (pytext, pytext) dict \<Rightarrow> bool" where
  "environment_safe m vars \<longleftrightarrow>
     (\<forall>(k, v) \<in> set vars. k \<in> set PUBLIC_ENDPOINT_ENV_KEYS \<longrightarrow> (\<forall>h \<in> set RETIRED_PUBLIC_HOSTS. \<not> contains h v)) \<and>
     (\<exists>token. mfa_bytes (gm_upper m) (value_or_empty vars ''AUTH_POLICY_ADMIN_MFA_SECRET'') = Some token \<and> 20 \<le> length token) \<and>
     immutable_image (value_or_empty vars ''MOBILE_PUBLISHER_IMAGE'') \<and>
     \<not> ends_with PLACEHOLDER_IMAGE_DIGEST (value_or_empty vars ''MOBILE_PUBLISHER_IMAGE'') \<and>
     validate_turn_ranges (gm_decimal m) vars = Inr ()"

lemma environment_checks:
  "validate_public_endpoint_environment content = Inr () \<and> validate_runtime_environment m content = Inr () \<longleftrightarrow>
     (\<exists>vars. read_environment content = Inr vars \<and> environment_safe m vars)"
proof (cases "read_environment content")
  case (Inr vars)
  have "list_ex (\<lambda>(k, v). k \<in> set PUBLIC_ENDPOINT_ENV_KEYS \<and> list_ex (\<lambda>h. contains h v) RETIRED_PUBLIC_HOSTS) vars \<longleftrightarrow>
      \<not> (\<forall>(k, v) \<in> set vars. k \<in> set PUBLIC_ENDPOINT_ENV_KEYS \<longrightarrow> (\<forall>h \<in> set RETIRED_PUBLIC_HOSTS. \<not> contains h v))"
    by (auto simp: list_ex_iff)
  with Inr show ?thesis
    by (auto simp: validate_public_endpoint_environment_def validate_runtime_environment_def environment_safe_def Let_def
        bind_r_eq_Inr validate_admin_mfa_secret_Inr split: if_splits)
qed (auto simp: validate_public_endpoint_environment_def)

lemma gate_inputs_Inr:
  "gate_inputs m = Inr () \<longleftrightarrow>
     private_file_mode m (gm_env_file m) \<and>
     (private_file_mode m (gm_mqtt_file m) \<or> shared_with (mosquitto_uid m) (gm_mqtt_file m)) \<and>
     (\<exists>vars. read_environment (file_content (gm_env_file m)) = Inr vars \<and> environment_safe m vars)"
  unfolding environment_checks [symmetric]
  by (auto simp: gate_inputs_def bind_r_eq_Inr require_private_file_Inr)

lemma release_gate_Inr:
  assumes "release_gate m allow_dirty = Inr report"
  obtains out where "gate_inputs m = Inr ()" and "gm_run m GitStatus = Some out" and "py_strip out = [] \<or> allow_dirty"
    and "gate_migrations m = Inr (gr_migrations report)" and "application_image_inventory m = Inr (gr_images report)"
  using assms
  by (auto simp: release_gate_def bind_r_eq_Inr run_gate_command_def split: if_splits option.splits)

lemma accepted_source:
  assumes "\<forall>(version, checksum) \<in> set rows. \<exists>source. dict_get (source_by_version inventory) version = Some source \<and>
        (checksum = None \<or> checksum = Some (mg_checksum source))"
  shows "\<forall>(version, checksum) \<in> set rows. \<exists>source \<in> set inventory. version_of (mg_path source) = version \<and>
        (checksum = None \<or> checksum = Some (mg_checksum source))"
proof (rule ballI)
  fix row
  assume row: "row \<in> set rows"
  obtain v c where vc: "row = (v, c)" by (rule prod.exhaust)
  have "\<exists>source. dict_get (source_by_version inventory) v = Some source \<and> (c = None \<or> c = Some (mg_checksum source))"
    using bspec [OF assms row] unfolding vc prod.case .
  then obtain source where d: "dict_get (source_by_version inventory) v = Some source"
    and c: "c = None \<or> c = Some (mg_checksum source)" by (elim exE conjE)
  from source_by_version_in [OF d] c
  show "case row of (version, checksum) \<Rightarrow> \<exists>source \<in> set inventory. version_of (mg_path source) = version \<and>
        (checksum = None \<or> checksum = Some (mg_checksum source))"
    unfolding vc prod.case by (intro bexI [of _ source] conjI) simp_all
qed

lemma applied_accepted:
  assumes "validate_applied_migrations u content inventory = Inr ()"
  shows "\<exists>bs t rows. content = Some bs \<and> read_text bs = Some t \<and> map_r (applied_row u) (py_splitlines t) = Inr rows \<and>
     (\<forall>(version, checksum) \<in> set rows. \<exists>source \<in> set inventory. version_of (mg_path source) = version \<and>
        (checksum = None \<or> checksum = Some (mg_checksum source)))"
  using iffD1 [OF validate_applied_Inr assms]
  by (elim exE conjE) (intro exI conjI, assumption, assumption, assumption, rule accepted_source)

text \<open>
  C28: The gate fails closed. A release that passes has an environment file and an MQTT password file that are not
  empty; outside Windows, where the mode is not looked at, nobody but the owner may use the first, and nobody but the owner and
  the broker's user the second. Its settings are safe: no public endpoint names a retired host, the MFA secret has
  at least 160 bits, the publisher image is pinned, the TURN ranges match. The checkout is clean unless a
  dirty one was allowed. When an export of the applied migrations was given, each of its lines names a version of
  the checkout and, if it names a checksum, that migration's Flyway checksum. Each of the four application images is
  of its own repository under a digest.
\<close>

theorem gate_fails_closed:
  assumes "release_gate m allow_dirty = Inr report"
  shows "(\<exists>f. gm_env_file m = Some f \<and> 0 < sf_size f \<and> (gm_windows m \<or> sf_mode f mod 64 = 0)) \<and>
    (\<exists>f. gm_mqtt_file m = Some f \<and> 0 < sf_size f \<and>
       (gm_windows m \<or> sf_mode f mod 64 = 0 \<or> (\<exists>out. sf_acl f = Some out \<and> acl_entries out = expected_acl (mosquitto_uid m)))) \<and>
    (\<exists>vars. read_environment (file_content (gm_env_file m)) = Inr vars \<and> environment_safe m vars) \<and>
    (\<exists>out. gm_run m GitStatus = Some out \<and> (py_strip out = [] \<or> allow_dirty)) \<and>
    map_r (inventory_item m) (gm_migrations m) = Inr (gr_migrations report) \<and>
    (\<forall>export. gm_applied m = Some export \<longrightarrow>
       (\<exists>bs t rows. export = Some bs \<and> read_text bs = Some t \<and> map_r (applied_row (gm_decimal m)) (py_splitlines t) = Inr rows \<and>
          (\<forall>(version, checksum) \<in> set rows. \<exists>source \<in> set (gr_migrations report). version_of (mg_path source) = version \<and>
             (checksum = None \<or> checksum = Some (mg_checksum source))))) \<and>
    map fst (gr_images report) = [''backend'', ''auth-policy'', ''media-control'', ''dashboard''] \<and>
    (\<forall>(service, reference) \<in> set (gr_images report).
       starts_with (application_prefix service) reference \<and> application_image reference)"
proof -
  obtain out where r: "gate_inputs m = Inr ()" "gm_run m GitStatus = Some out" "py_strip out = [] \<or> allow_dirty"
      "gate_migrations m = Inr (gr_migrations report)" "application_image_inventory m = Inr (gr_images report)"
    by (rule release_gate_Inr [OF assms])
  have inventory: "map_r (inventory_item m) (gm_migrations m) = Inr (gr_migrations report)"
    and applied: "gm_applied m = Some export \<longrightarrow> validate_applied_migrations (gm_decimal m) export (gr_migrations report) = Inr ()" for export
    using r(4) by (auto simp: gate_migrations_def migration_inventory_def bind_r_eq_Inr split: if_splits option.splits)
  have "\<exists>bs t rows. export = Some bs \<and> read_text bs = Some t \<and> map_r (applied_row (gm_decimal m)) (py_splitlines t) = Inr rows \<and>
      (\<forall>(version, checksum) \<in> set rows. \<exists>source \<in> set (gr_migrations report). version_of (mg_path source) = version \<and>
         (checksum = None \<or> checksum = Some (mg_checksum source)))" if "gm_applied m = Some export" for export
    using applied_accepted [OF mp [OF applied that]] .
  moreover have "(\<exists>f. gm_env_file m = Some f \<and> 0 < sf_size f \<and> (gm_windows m \<or> sf_mode f mod 64 = 0)) \<and>
    (\<exists>f. gm_mqtt_file m = Some f \<and> 0 < sf_size f \<and>
       (gm_windows m \<or> sf_mode f mod 64 = 0 \<or> (\<exists>out. sf_acl f = Some out \<and> acl_entries out = expected_acl (mosquitto_uid m))))"
    using r(1) [unfolded gate_inputs_Inr] by (auto simp: private_file_mode_def shared_with_def)
  moreover have "map fst image_variables = [''backend'', ''auth-policy'', ''media-control'', ''dashboard'']"
    by (simp add: image_variables_def)
  moreover note application_references [OF r(5) [unfolded application_image_inventory_def]] r(1) [unfolded gate_inputs_Inr] inventory
  moreover have "\<exists>out. gm_run m GitStatus = Some out \<and> (py_strip out = [] \<or> allow_dirty)" using r(2,3) by simp
  ultimately show ?thesis by simp
qed

section \<open>A checkout\<close>

lemma crc_a: "crc32 [97] = 0xE8B7BE43"
  by code_simp

lemma sample_secret: "mfa_secret (replicate 20 0) = replicate 32 65"
  by code_simp

lemma sample_int: "text_int (\<lambda>_. None) (text_of ''-390611389'') = Some (- 390611389)"
  by (simp add: text_int_def int_space_def digits_int_def decimal_digit_def ascii_digit_def value_of_def strip_both_def strip_right_def)

lemma sample_checksum: "flyway_checksum [97] = Inr (- 390611389)"
proof -
  have "utf8_encode [97] = Inr [97]" "script_text [97] = [97]"
    by (simp_all add: utf8_encode_ascii ascii_bytes_def script_text_def strip_mark_def line_break_def)
  then show ?thesis using flyway_checksum_text [of "[97]" "[97]" "[97]"] by (simp add: crc_a signed_word)
qed

definition sample_vars :: "(pytext, pytext) dict" where
  "sample_vars =
     map (\<lambda>(k, v). (text_of k, v))
       [(''AUTH_POLICY_ADMIN_MFA_SECRET'', replicate 32 65),
        (''MOBILE_PUBLISHER_IMAGE'', text_of ''m@sha256:'' @ replicate 64 97),
        (''TURN_RELAY_MIN_PORT'', text_of ''10''), (''TURN_PRIMARY_RELAY_MAX_PORT'', text_of ''12''),
        (''TURN_SECONDARY_RELAY_MIN_PORT'', text_of ''13''), (''TURN_RELAY_MAX_PORT'', text_of ''14''),
        (''TURN_PRIMARY_RELAY_HOST_MIN_PORT'', text_of ''20''), (''TURN_PRIMARY_RELAY_HOST_MAX_PORT'', text_of ''22''),
        (''TURN_SECONDARY_RELAY_HOST_MIN_PORT'', text_of ''23''), (''TURN_SECONDARY_RELAY_HOST_MAX_PORT'', text_of ''24'')]"

lemma sample_vars_clean: "\<forall>(k, v) \<in> set sample_vars. clean_key k \<and> clean_value v" 
  by (simp add: sample_vars_def clean_key_def clean_value_def py_space_def line_break_def) (simp add: list_all_iff)

lemma sample_vars_ok: "dict_ok sample_vars"
  by (simp add: sample_vars_def dict_ok_def text_of_eq_iff del: text_of_simps)

lemma sample_vars_ascii: "list_all (\<lambda>c. c < 128) (render_environment sample_vars)"
  by code_simp

lemmas sample_environment_bytes = utf8_encode_ascii [OF sample_vars_ascii]

lemma sample_ports: "map_r (turn_port (\<lambda>_. None) sample_vars) TURN_NAMES =
   Inr (zip TURN_NAMES [10, 12, 13, 14, 20, 22, 23, 24])"
  by code_simp

lemma sample_turn: "validate_turn_ranges (\<lambda>_. None) sample_vars = Inr ()"
  by code_simp

lemma sample_mobile: "immutable_image (value_or_empty sample_vars ''MOBILE_PUBLISHER_IMAGE'')"
   "\<not> ends_with PLACEHOLDER_IMAGE_DIGEST (value_or_empty sample_vars ''MOBILE_PUBLISHER_IMAGE'')"
proof -
  have v: "value_or_empty sample_vars ''MOBILE_PUBLISHER_IMAGE'' = text_of ''m@sha256:'' @ replicate 64 97"
    by (simp add: value_or_empty_def sample_vars_def dict_get_def text_of_eq_iff del: text_of_simps)
  have "drop 9 (text_of ''m@sha256:'' @ replicate 64 97) = replicate 64 97" "hex_text 64 (replicate 64 97)"
    by (simp_all add: hex_text_def hex_char_def list_all_iff)
  then show "immutable_image (value_or_empty sample_vars ''MOBILE_PUBLISHER_IMAGE'')"
    unfolding v by (simp add: immutable_image_def py_space_def)
  have "take 1 (rev (text_of ''m@sha256:'' @ replicate 64 97)) = [97]" by (simp add: take_Cons')
  then show "\<not> ends_with PLACEHOLDER_IMAGE_DIGEST (value_or_empty sample_vars ''MOBILE_PUBLISHER_IMAGE'')"
    unfolding v by (auto simp: ends_with_def starts_with_iff PLACEHOLDER_IMAGE_DIGEST_def numeral_eq_Suc)
qed

lemma sample_no_endpoint: "\<forall>(k, v) \<in> set sample_vars. k \<notin> set PUBLIC_ENDPOINT_ENV_KEYS"
proof -
  have "\<forall>k \<in> set PUBLIC_ENDPOINT_ENV_KEYS. take 3 k = text_of ''MED'' \<or> take 3 k = text_of ''VIT''"
    by (simp add: PUBLIC_ENDPOINT_ENV_KEYS_def)
  moreover have "\<forall>(k, v) \<in> set sample_vars. take 3 k \<noteq> text_of ''MED'' \<and> take 3 k \<noteq> text_of ''VIT''"
    by (simp add: sample_vars_def)
  ultimately show ?thesis by blast
qed

lemma sample_token: "mfa_bytes id (value_or_empty sample_vars ''AUTH_POLICY_ADMIN_MFA_SECRET'') = Some (replicate 20 0)"
proof -
  have "value_or_empty sample_vars ''AUTH_POLICY_ADMIN_MFA_SECRET'' = mfa_secret (replicate 20 0)"
    unfolding sample_secret by (simp add: value_or_empty_def sample_vars_def dict_get_def del: text_of_simps)
  then show ?thesis
    using b32_repadding [of "replicate 20 0"] b32_roundtrip [of "replicate 20 0"]
    by (simp add: mfa_bytes_def mfa_secret_def upper_text_def)
qed

definition gate_sample :: gate_machine where
  "gate_sample =
     \<lparr>gm_windows = False,
      gm_getenv = (\<lambda>name. map_option (\<lambda>service. application_prefix service @ replicate 64 97)
                      (map_of (map (\<lambda>(s, v). (v, s)) image_variables) name)),
      gm_env_file = Some \<lparr>sf_size = 9, sf_mode = 384, sf_acl = None, sf_content = Some (ascii_bytes (render_environment sample_vars))\<rparr>,
      gm_mqtt_file = Some \<lparr>sf_size = 9, sf_mode = 384, sf_acl = None, sf_content = Some [97]\<rparr>,
      gm_run = (\<lambda>_. Some []), gm_compose_source = Some [], gm_migrations = [(text_of ''db/V1__a.sql'', Some [97])],
      gm_applied = None, gm_sha256 = \<lambda>_. [], gm_upper = id, gm_decimal = \<lambda>_. None\<rparr>"

lemma sample_inputs: "gate_inputs gate_sample = Inr ()"
proof -
  have "read_environment (Some (ascii_bytes (render_environment sample_vars))) = Inr sample_vars"
    by (rule environment_read_back [OF sample_vars_clean sample_vars_ok sample_environment_bytes])
  moreover have "environment_safe gate_sample sample_vars"
    using sample_no_endpoint sample_token sample_mobile sample_turn
    by (auto simp: environment_safe_def gate_sample_def)
  ultimately show ?thesis
    by (simp add: gate_inputs_Inr private_file_mode_def file_content_def gate_sample_def)
qed

lemma sample_images: "application_image_inventory gate_sample =
  Inr (map (\<lambda>(s, _). (s, application_prefix s @ replicate 64 97)) image_variables)"
proof -
  have prefix: "starts_with p (p @ q)" for p q by (auto simp: starts_with_iff)
  have hex: "hex_text 64 (replicate 64 97)" by (simp add: hex_text_def hex_char_def list_all_iff)
  have "application_image (application_prefix s @ replicate 64 97)" if "s \<in> fst ` set image_variables" for s
    using that prefix hex by (force simp: application_image_def list_ex_iff)
  moreover have "application_prefix s \<noteq> []" for s by (simp add: application_prefix_def)
  ultimately show ?thesis
    using prefix by (simp add: application_image_inventory_def image_variables_def application_reference_def gate_sample_def Let_def)
qed

lemma sample_item: "inventory_item gate_sample (text_of ''db/V1__a.sql'', Some [97]) =
   Inr \<lparr>mg_path = text_of ''db/V1__a.sql'', mg_sha256 = [], mg_checksum = - 390611389\<rparr>"
  by (simp add: inventory_item_def gate_sha256_def sample_checksum gate_sample_def del: text_of_simps)

lemma sample_changed: "\<exists>n. flyway_checksum [98] = Inr n"
proof -
  have "utf8_encode [98] = Inr [98]" "script_text [98] = [98]"
    by (simp_all add: utf8_encode_ascii ascii_bytes_def script_text_def strip_mark_def line_break_def)
  then show ?thesis using flyway_checksum_text [of "[98]" "[98]" "[98]"] by simp
qed

lemma sample_version: "version_of (text_of ''db/V1__a.sql'') = text_of ''1''"
  by (simp add: version_of_def starts_with_def)

lemma sample_export:
  "read_text (ascii_bytes (text_of ''1|-390611389'')) = Some (text_of ''1|-390611389'')"
  "map_r (applied_row (\<lambda>_. None)) (py_splitlines (text_of ''1|-390611389'')) = Inr [(text_of ''1'', Some (- 390611389))]"
proof -
  show "read_text (ascii_bytes (text_of ''1|-390611389'')) = Some (text_of ''1|-390611389'')"
    by (rule read_text_ascii) simp
  have "py_splitlines (text_of ''1|-390611389'') = [text_of ''1|-390611389'']"
    by (subst py_splitlines.simps) (simp add: line_break_def)
  then show "map_r (applied_row (\<lambda>_. None)) (py_splitlines (text_of ''1|-390611389'')) = Inr [(text_of ''1'', Some (- 390611389))]"
    using sample_int by (simp add: applied_row_def split_first_def)
qed

lemma gate_sample_fields:
  "gm_run gate_sample c = Some []" "gm_migrations gate_sample = [(text_of ''db/V1__a.sql'', Some [97])]"
  "gm_applied gate_sample = None" "gm_compose_source gate_sample = Some []"
  "\<exists>bs. file_content (gm_env_file gate_sample) = Some bs" "file_content (gm_mqtt_file gate_sample) = Some [97]"
  by (simp_all add: gate_sample_def file_content_def del: text_of_simps)

lemma sample_gate: "\<exists>report. release_gate gate_sample False = Inr report"
proof -
  obtain bs where "file_content (gm_env_file gate_sample) = Some bs" using gate_sample_fields(5) by blast
  then show ?thesis
    using sample_inputs sample_images sample_item
    by (simp add: release_gate_def run_gate_command_def gate_migrations_def migration_inventory_def gate_sha256_def
        render_sha256_def py_strip_id gate_sample_fields(1-4,6) del: text_of_simps)
qed

theorem gate_fails_closed_witness:
  "\<exists>report. release_gate gate_sample False = Inr report \<and> map fst (gr_images report) = [''backend'', ''auth-policy'', ''media-control'', ''dashboard'']"
proof -
  obtain report where r: "release_gate gate_sample False = Inr report" using sample_gate by blast
  have "map fst (gr_images report) = [''backend'', ''auth-policy'', ''media-control'', ''dashboard'']"
    using gate_fails_closed [OF r] by (elim conjE)
  with r show ?thesis by (intro exI conjI)
qed

theorem turn_ranges_translate_witness:
  "\<exists>a b. port_value (\<lambda>_. None) sample_vars ''TURN_RELAY_MIN_PORT'' = Some a \<and>
    port_value (\<lambda>_. None) sample_vars ''TURN_PRIMARY_RELAY_MAX_PORT'' = Some b \<and> a \<le> b"
  using turn_ranges_translate [OF sample_turn] by blast

theorem environment_roundtrip_witness:
  "read_environment (Some (ascii_bytes (render_environment sample_vars))) = Inr sample_vars"
  by (rule environment_roundtrip [OF sample_vars_clean sample_vars_ok sample_environment_bytes])

theorem migration_drift_detected_witness:
  "\<exists>item. inventory_item gate_sample (text_of ''db/V1__a.sql'', Some [98]) = Inr item \<and>
     validate_applied_migrations (\<lambda>_. None) (Some (ascii_bytes (text_of ''1|-390611389''))) [item] \<noteq> Inr ()"
proof -
  obtain n where n: "flyway_checksum [98] = Inr n" using sample_changed by blast
  let ?item = "\<lparr>mg_path = text_of ''db/V1__a.sql'', mg_sha256 = [], mg_checksum = n\<rparr>"
  have item: "inventory_item gate_sample (text_of ''db/V1__a.sql'', Some [98]) = Inr ?item"
    by (simp add: inventory_item_def gate_sha256_def n gate_sample_def del: text_of_simps)
  have "utf8_encode ([] @ 97 # []) = Inr [97]" "utf8_encode ([] @ 98 # []) = Inr [98]"
    by (simp_all add: utf8_encode_ascii ascii_bytes_def)
  moreover have "dict_get (source_by_version [?item]) (version_of (text_of ''db/V1__a.sql'')) = Some ?item"
    by (simp add: source_by_version_def dict_get_def del: text_of_simps)
  ultimately have "validate_applied_migrations (\<lambda>_. None) (Some (ascii_bytes (text_of ''1|-390611389''))) [?item] \<noteq> Inr ()"
    using migration_drift_detected [of "[]" 97 "[]" "[97]" 98 "[98]" "- 390611389" gate_sample "text_of ''db/V1__a.sql''" ?item]
      item sample_checksum sample_version sample_export by (auto simp: line_break_def simp del: text_of_simps)
  with item show ?thesis by blast
qed

end
