(* ===== verification/Release_Manifest.thy ===== *)
theory Release_Manifest
  imports Ops_Base "HOL-Library.List_Lexorder"
begin

text \<open>
  The signed release manifest, \<open>scripts/ops/release_manifest.py\<close>: the entry a build writes for each
  image, the assembly of the eight entries, and the validation that deployment relies on. SHA-256,
  the JSON reader, Python's texts of floats and containers and \<open>date.fromisoformat\<close> (dates as day
  numbers) are an argument (\<open>release_lib\<close>); the two files of the checkout and today's date are
  another (\<open>release_source\<close>).
\<close>

section \<open>Libraries, files and errors\<close>

record release_lib =
  rl_sha256 :: "bytes \<Rightarrow> pytext"
  rl_json_loads :: "pytext \<Rightarrow> json option"
  rl_str :: "json \<Rightarrow> pytext"
  rl_date :: "pytext \<Rightarrow> int option"

record release_source =
  rs_runtime_inventory :: "bytes option"
  rs_active_vex :: "bytes option"
  rs_today :: int

text \<open>
  A \<open>ReleaseManifestError\<close> with its message, or any other exception: \<open>OSError\<close>, \<open>ValueError\<close>,
  \<open>AttributeError\<close>.
\<close>

datatype release_error = ReleaseManifestError string | ReleaseCrash

definition SERVICES :: "pytext list" where
  "SERVICES =
     map text_of [''backend'', ''auth-policy'', ''media-control'', ''dashboard'', ''mqtt'', ''mediamtx'', ''turn'',
       ''mobile-publisher'']"

definition IMAGE_NAMES :: "pytext \<Rightarrow> pytext option" where
  "IMAGE_NAMES service =
     (if service \<notin> set SERVICES then None
      else if service = text_of ''mobile-publisher'' then Some (text_of ''gcs-mobile-publisher'')
      else Some (text_of ''gcs-saker-'' @ service))"

definition digest_text :: "pytext \<Rightarrow> bool" where
  "digest_text s \<longleftrightarrow> starts_with (text_of ''sha256:'') s \<and> hex_text 64 (drop 7 s)"

text \<open>A file is its octets, \<open>None\<close> when it cannot be read.\<close>

definition file_sha256 :: "release_lib \<Rightarrow> bytes option \<Rightarrow> release_error + pytext" where
  "file_sha256 lib content = (case content of None \<Rightarrow> Inl ReleaseCrash | Some bs \<Rightarrow> Inr (rl_sha256 lib bs))"

definition load_json :: "release_lib \<Rightarrow> bytes option \<Rightarrow> release_error + json_dict" where
  "load_json lib content =
     (case Option.bind (Option.bind content read_text) (rl_json_loads lib) of
        None \<Rightarrow> Inl ReleaseCrash
      | Some (JObj d) \<Rightarrow> Inr d
      | Some _ \<Rightarrow> Inl (ReleaseManifestError ''file must contain an object''))"

section \<open>Entries\<close>

definition image_prefix :: "pytext \<Rightarrow> pytext" where
  "image_prefix service =
     text_of ''ghcr.io/gcs-saker/'' @ (case IMAGE_NAMES service of None \<Rightarrow> [] | Some n \<Rightarrow> n) @ [64]"

definition valid_image_reference :: "pytext \<Rightarrow> pytext \<Rightarrow> bool" where
  "valid_image_reference service reference \<longleftrightarrow>
     starts_with (image_prefix service) reference \<and> digest_text (drop (length (image_prefix service)) reference)"

record entry_args =
  ea_service :: pytext
  ea_image :: pytext
  ea_digest :: pytext
  ea_sbom :: "bytes option"
  ea_license_report :: "bytes option"
  ea_notices :: "bytes option"
  ea_license_scope :: pytext

definition create_entry :: "release_lib \<Rightarrow> entry_args \<Rightarrow> release_error + json_dict" where
  "create_entry lib args =
     bind_r (load_json lib (ea_license_report args)) (\<lambda>license_report.
     let internal = (ea_license_scope args = text_of ''internal-service'');
         allowed_field = (if internal then ''internalDeploymentAllowed'' else ''releaseAllowed'') in
     if json_get license_report allowed_field \<noteq> JBool True
     then Inl (ReleaseManifestError ''license report does not permit the scope'')
     else let reference = ea_image args @ 64 # ea_digest args in
       if \<not> valid_image_reference (ea_service args) reference
       then Inl (ReleaseManifestError ''image must be an approved GHCR digest reference'')
       else
         bind_r (file_sha256 lib (ea_sbom args)) (\<lambda>sbom.
         bind_r (file_sha256 lib (ea_license_report args)) (\<lambda>report.
         bind_r (file_sha256 lib (ea_notices args)) (\<lambda>notices.
         Inr [(text_of ''service'', JStr (ea_service args)),
              (text_of ''image'', JStr reference),
              (text_of ''sbomSha256'', JStr sbom),
              (text_of ''licenseReportSha256'', JStr report),
              (text_of ''noticesSha256'', JStr notices),
              (text_of ''licenseScope'', JStr (ea_license_scope args)),
              (text_of ''licenseDeploymentAllowed'', JBool True),
              (text_of ''licenseReleaseAllowed'', JBool (json_get license_report ''releaseAllowed'' = JBool True))]))))"

definition valid_license :: "release_lib \<Rightarrow> json_dict \<Rightarrow> pytext \<Rightarrow> release_error + unit" where
  "valid_license lib entry service =
     (let scope = text_get (rl_str lib) entry ''licenseScope'' (text_of ''distribution'') in
      if scope = text_of ''internal-service''
      then (if service = text_of ''mobile-publisher'' \<or> json_get entry ''licenseDeploymentAllowed'' \<noteq> JBool True
            then Inl (ReleaseManifestError ''invalid internal-service license disposition'') else Inr ())
      else if scope \<noteq> text_of ''distribution'' \<or> json_get entry ''licenseReleaseAllowed'' \<noteq> JBool True
      then Inl (ReleaseManifestError ''release manifest contains a blocked distribution disposition'')
      else Inr ())"

definition entry_digest_ok :: "release_lib \<Rightarrow> json_dict \<Rightarrow> string \<Rightarrow> bool" where
  "entry_digest_ok lib entry field \<longleftrightarrow> hex_text 64 (text_get (rl_str lib) entry field [])"

text \<open>An entry that is not an object has no \<open>get\<close>.\<close>

definition validate_entry :: "release_lib \<Rightarrow> json \<Rightarrow> release_error + json_dict" where
  "validate_entry lib v =
     (case v of
        JObj entry \<Rightarrow>
          let service = text_get (rl_str lib) entry ''service'' [] in
          if service \<notin> set SERVICES \<or> \<not> valid_image_reference service (text_get (rl_str lib) entry ''image'' [])
          then Inl (ReleaseManifestError ''release manifest contains an invalid image entry'')
          else if \<not> list_all (entry_digest_ok lib entry) [''sbomSha256'', ''licenseReportSha256'', ''noticesSha256'']
          then Inl (ReleaseManifestError ''release manifest contains an invalid digest'')
          else bind_r (valid_license lib entry service) (\<lambda>_. Inr entry)
      | _ \<Rightarrow> Inl ReleaseCrash)"

section \<open>The runtime inventory and the vulnerability exceptions\<close>

definition component_evident :: "release_lib \<Rightarrow> json \<Rightarrow> release_error + unit" where
  "component_evident lib v =
     (case v of
        JObj c \<Rightarrow>
          if \<not> contains (text_of ''@sha256:'') (text_get (rl_str lib) c ''image'' []) \<or>
             \<not> truthy (json_get c ''projectLicenses'') \<or> \<not> truthy (json_get c ''licenseSource'')
          then Inl (ReleaseManifestError ''release manifest runtime component evidence is incomplete'')
          else Inr ()
      | _ \<Rightarrow> Inl ReleaseCrash)"

definition validate_runtime_inventory :: "release_lib \<Rightarrow> release_source \<Rightarrow> json_dict \<Rightarrow> release_error + unit" where
  "validate_runtime_inventory lib src manifest =
     (case json_get manifest ''runtimeInventory'' of
        JObj runtime_inventory \<Rightarrow>
          (case json_get runtime_inventory ''components'' of
             JList components \<Rightarrow>
               if length components < 3
               then Inl (ReleaseManifestError ''release manifest runtime inventory is incomplete'')
               else
                 bind_r (file_sha256 lib (rs_runtime_inventory src)) (\<lambda>digest.
                 if json_get manifest ''runtimeInventorySha256'' \<noteq> JStr digest
                 then Inl (ReleaseManifestError ''release manifest runtime inventory digest is invalid'')
                 else
                   bind_r (load_json lib (rs_runtime_inventory src)) (\<lambda>expected.
                   if \<not> py_eq (JObj runtime_inventory) (JObj expected)
                   then Inl (ReleaseManifestError ''release manifest runtime inventory does not match source'')
                   else bind_r (map_r (component_evident lib) components) (\<lambda>_. Inr ())))
           | _ \<Rightarrow> Inl (ReleaseManifestError ''release manifest runtime inventory is incomplete''))
      | _ \<Rightarrow> Inl (ReleaseManifestError ''release manifest runtime inventory is missing''))"

definition vex_required :: "string list" where
  "vex_required =
     [''vulnerability'', ''component'', ''status'', ''justification'', ''impactStatement'', ''mitigation'',
      ''owner'', ''approvedBy'', ''expiresAt'', ''removalCondition'']"

definition validate_vex_record :: "release_lib \<Rightarrow> int \<Rightarrow> json \<Rightarrow> release_error + unit" where
  "validate_vex_record lib today v =
     (case v of
        JObj r \<Rightarrow>
          if \<not> list_all (\<lambda>field. truthy (json_get r field)) vex_required
          then Inl (ReleaseManifestError ''vulnerability exception lacks approved VEX fields'')
          else (case rl_date lib (json_text (rl_str lib) (json_get r ''expiresAt'')) of
                  None \<Rightarrow> Inl ReleaseCrash
                | Some expires \<Rightarrow>
                    if expires < today
                    then Inl (ReleaseManifestError ''vulnerability exception VEX has expired'') else Inr ())
      | _ \<Rightarrow> Inl (ReleaseManifestError ''vulnerability exception lacks approved VEX fields''))"

definition validate_vex :: "release_lib \<Rightarrow> int \<Rightarrow> json \<Rightarrow> release_error + unit" where
  "validate_vex lib today records =
     (case records of
        JList rs \<Rightarrow> bind_r (map_r (validate_vex_record lib today) rs) (\<lambda>_. Inr ())
      | _ \<Rightarrow> Inl (ReleaseManifestError ''release manifest VEX inventory must be a list''))"

section \<open>The manifest\<close>

definition default_get :: "json_dict \<Rightarrow> string \<Rightarrow> json \<Rightarrow> json" where
  "default_get d k e = (case dict_get d (text_of k) of None \<Rightarrow> e | Some v \<Rightarrow> v)"

definition add_image :: "release_lib \<Rightarrow> json \<Rightarrow> (pytext, pytext) dict \<Rightarrow> release_error + (pytext, pytext) dict" where
  "add_image lib v inventory =
     bind_r (validate_entry lib v) (\<lambda>entry.
       Inr (dict_set (text_get (rl_str lib) entry ''service'' []) (text_get (rl_str lib) entry ''image'' []) inventory))"

definition validate_manifest ::
    "release_lib \<Rightarrow> release_source \<Rightarrow> json_dict \<Rightarrow> pytext \<Rightarrow> release_error + (pytext, pytext) dict" where
  "validate_manifest lib src manifest expected_commit =
     (if json_get manifest ''schemaVersion'' \<noteq> JStr (text_of ''gcs-saker.signed-release.v3'')
      then Inl (ReleaseManifestError ''unsupported release manifest schema'')
      else if \<not> hex_text 40 expected_commit \<or> json_get manifest ''sourceCommit'' \<noteq> JStr expected_commit
      then Inl (ReleaseManifestError ''release manifest source commit mismatch'')
      else
        case json_get manifest ''images'' of
          JList images \<Rightarrow>
            if length images \<noteq> length SERVICES
            then Inl (ReleaseManifestError ''release manifest image inventory is incomplete'')
            else
              bind_r (fold_r (add_image lib) images []) (\<lambda>inventory.
              if set (dict_keys inventory) \<noteq> set SERVICES
              then Inl (ReleaseManifestError ''release manifest service inventory is invalid'')
              else
                bind_r (validate_runtime_inventory lib src manifest) (\<lambda>_.
                bind_r (validate_vex lib (rs_today src) (default_get manifest ''vex'' (JList []))) (\<lambda>_.
                Inr inventory)))
        | _ \<Rightarrow> Inl (ReleaseManifestError ''release manifest image inventory is incomplete''))"

definition entry_service :: "release_lib \<Rightarrow> json_dict \<Rightarrow> pytext" where
  "entry_service lib entry = json_text (rl_str lib) (json_get entry ''service'')"

definition assemble_manifest ::
    "release_lib \<Rightarrow> release_source \<Rightarrow> bytes option list \<Rightarrow> pytext \<Rightarrow> pytext \<Rightarrow> pytext \<Rightarrow> release_error + json_dict" where
  "assemble_manifest lib src files source_commit workflow_run created_at =
     bind_r (map_r (load_json lib) files) (\<lambda>entries.
     if set (map (entry_service lib) entries) \<noteq> set SERVICES \<or> length entries \<noteq> length SERVICES
     then Inl (ReleaseManifestError ''release entries must cover each managed image exactly once'')
     else
       bind_r (load_json lib (rs_runtime_inventory src)) (\<lambda>inventory.
       bind_r (file_sha256 lib (rs_runtime_inventory src)) (\<lambda>digest.
       bind_r (load_json lib (rs_active_vex src)) (\<lambda>active_vex.
       let manifest =
         [(text_of ''schemaVersion'', JStr (text_of ''gcs-saker.signed-release.v3'')),
          (text_of ''sourceCommit'', JStr source_commit),
          (text_of ''workflowRun'', JStr workflow_run),
          (text_of ''createdAt'', JStr created_at),
          (text_of ''images'', JList (map JObj (sort_key (entry_service lib) entries))),
          (text_of ''runtimeInventory'', JObj inventory),
          (text_of ''runtimeInventorySha256'', JStr digest),
          (text_of ''vex'', default_get active_vex ''records'' (JList []))]
       in bind_r (validate_manifest lib src manifest source_commit) (\<lambda>_. Inr manifest)))))"

section \<open>What a valid entry is\<close>

abbreviation service_of :: "release_lib \<Rightarrow> json_dict \<Rightarrow> pytext" where
  "service_of lib e \<equiv> text_get (rl_str lib) e ''service'' []"

abbreviation image_of :: "release_lib \<Rightarrow> json_dict \<Rightarrow> pytext" where
  "image_of lib e \<equiv> text_get (rl_str lib) e ''image'' []"

definition pinned :: "pytext \<Rightarrow> pytext \<Rightarrow> bool" where
  "pinned service reference \<longleftrightarrow> (\<exists>h. hex_text 64 h \<and> reference = image_prefix service @ text_of ''sha256:'' @ h)"

definition licensed :: "release_lib \<Rightarrow> json_dict \<Rightarrow> bool" where
  "licensed lib e \<longleftrightarrow>
     json_get e ''licenseReleaseAllowed'' = JBool True \<or>
     text_get (rl_str lib) e ''licenseScope'' [] = text_of ''internal-service'' \<and>
       json_get e ''licenseDeploymentAllowed'' = JBool True \<and> service_of lib e \<noteq> text_of ''mobile-publisher''"

lemma SERVICES_distinct: "distinct SERVICES"
  by (simp add: SERVICES_def text_of_eq_iff del: text_of_simps)

lemma SERVICES_length: "length SERVICES = 8"
  by (simp add: SERVICES_def del: text_of_simps)

lemma digest_text_iff: "digest_text s \<longleftrightarrow> (\<exists>h. hex_text 64 h \<and> s = text_of ''sha256:'' @ h)"
proof -
  have "length (text_of ''sha256:'') = 7" by simp
  then show ?thesis by (auto simp: digest_text_def starts_with_iff simp del: text_of_simps)
qed

lemma valid_image_reference_iff: "valid_image_reference service reference \<longleftrightarrow> pinned service reference"
  by (auto simp: valid_image_reference_def pinned_def digest_text_iff starts_with_iff simp del: text_of_simps)

lemma validate_entry_Inr:
  "validate_entry lib v = Inr e \<longleftrightarrow>
     v = JObj e \<and> service_of lib e \<in> set SERVICES \<and> pinned (service_of lib e) (image_of lib e) \<and>
     list_all (entry_digest_ok lib e) [''sbomSha256'', ''licenseReportSha256'', ''noticesSha256''] \<and>
     valid_license lib e (service_of lib e) = Inr ()"
  by (cases v) (auto simp: validate_entry_def valid_image_reference_iff Let_def bind_r_eq_Inr simp del: text_of_simps)

lemma valid_license_licensed: "valid_license lib e (service_of lib e) = Inr () \<Longrightarrow> licensed lib e"
  by (auto simp: valid_license_def licensed_def Let_def text_get_def text_of_eq_iff split: if_splits option.splits simp del: text_of_simps)

lemma add_images_Inr:
  "fold_r (add_image lib) images d = Inr pins \<Longrightarrow>
     \<exists>entries. images = map JObj entries \<and> (\<forall>e \<in> set entries. validate_entry lib (JObj e) = Inr e) \<and>
       pins = fold (\<lambda>e. dict_set (service_of lib e) (image_of lib e)) entries d"
proof (induction images arbitrary: d)
  case (Cons v images)
  from Cons.prems obtain e where e: "validate_entry lib v = Inr e"
      "fold_r (add_image lib) images (dict_set (service_of lib e) (image_of lib e) d) = Inr pins"
    by (fastforce simp: bind_r_eq_Inr add_image_def [of lib v])
  moreover have "v = JObj e" using e(1) by (simp add: validate_entry_Inr)
  moreover obtain entries where "images = map JObj entries" "\<forall>e \<in> set entries. validate_entry lib (JObj e) = Inr e"
      "pins = fold (\<lambda>e. dict_set (service_of lib e) (image_of lib e)) entries (dict_set (service_of lib e) (image_of lib e) d)"
    using Cons.IH [OF e(2)] by blast
  ultimately show ?case by (intro exI [of _ "e # entries"]) simp
qed simp

lemma add_images_ok:
  "\<forall>e \<in> set entries. validate_entry lib (JObj e) = Inr e \<Longrightarrow>
     fold_r (add_image lib) (map JObj entries) d = Inr (fold (\<lambda>e. dict_set (service_of lib e) (image_of lib e)) entries d)"
  by (induction entries arbitrary: d) (simp_all add: add_image_def)

lemma validate_manifest_Inr:
  assumes "validate_manifest lib src m commit = Inr pins"
  obtains entries where "json_get m ''images'' = JList (map JObj entries)"
    and "\<forall>e \<in> set entries. validate_entry lib (JObj e) = Inr e"
    and "distinct (map (service_of lib) entries)" and "service_of lib ` set entries = set SERVICES"
    and "pins = map (\<lambda>e. (service_of lib e, image_of lib e)) entries"
    and "hex_text 40 commit" and "json_get m ''sourceCommit'' = JStr commit"
    and "validate_runtime_inventory lib src m = Inr ()"
    and "validate_vex lib (rs_today src) (default_get m ''vex'' (JList [])) = Inr ()"
proof -
  obtain images where i: "json_get m ''images'' = JList images" "length images = length SERVICES"
      "fold_r (add_image lib) images [] = Inr pins" "set (dict_keys pins) = set SERVICES"
      "hex_text 40 commit" "json_get m ''sourceCommit'' = JStr commit"
      "validate_runtime_inventory lib src m = Inr ()"
      "validate_vex lib (rs_today src) (default_get m ''vex'' (JList [])) = Inr ()"
    using assms by (auto simp: validate_manifest_def bind_r_eq_Inr simp del: text_of_simps split: if_splits json.splits)
  from add_images_Inr [OF i(3)] obtain entries where e: "images = map JObj entries"
      "\<forall>e \<in> set entries. validate_entry lib (JObj e) = Inr e"
      "pins = fold (\<lambda>e. dict_set (service_of lib e) (image_of lib e)) entries []" by blast
  have s: "service_of lib ` set entries = set SERVICES" using i(4) by (simp add: e(3) comprehension_keys)
  have d: "distinct (map (service_of lib) entries)"
    using same_set_distinct [of "map (service_of lib) entries" SERVICES] s i(2) SERVICES_distinct by (simp add: e(1))
  show ?thesis
    using i e s d fold_dict_set_distinct [of "service_of lib" entries "[]" "image_of lib"] by (intro that) simp_all
qed

section \<open>What a build writes\<close>

lemma create_entry_Inr:
  assumes "create_entry lib args = Inr e"
  obtains report sbom digest notices where
    "load_json lib (ea_license_report args) = Inr report"
    "json_get report (if ea_license_scope args = text_of ''internal-service'' then ''internalDeploymentAllowed'' else ''releaseAllowed'') =
       JBool True"
    "pinned (ea_service args) (ea_image args @ 64 # ea_digest args)"
    "file_sha256 lib (ea_sbom args) = Inr sbom" "file_sha256 lib (ea_license_report args) = Inr digest"
    "file_sha256 lib (ea_notices args) = Inr notices"
    "e = [(text_of ''service'', JStr (ea_service args)), (text_of ''image'', JStr (ea_image args @ 64 # ea_digest args)),
          (text_of ''sbomSha256'', JStr sbom), (text_of ''licenseReportSha256'', JStr digest),
          (text_of ''noticesSha256'', JStr notices), (text_of ''licenseScope'', JStr (ea_license_scope args)),
          (text_of ''licenseDeploymentAllowed'', JBool True),
          (text_of ''licenseReleaseAllowed'', JBool (json_get report ''releaseAllowed'' = JBool True))]"
  using assms
  by (auto simp: create_entry_def bind_r_eq_Inr Let_def valid_image_reference_iff simp del: text_of_simps split: if_splits)

lemma file_sha256_hex:
  "\<forall>bs. hex_text 64 (rl_sha256 lib bs) \<Longrightarrow> file_sha256 lib content = Inr h \<Longrightarrow> hex_text 64 h"
  by (auto simp: file_sha256_def split: option.splits)

definition scope_permitted :: "entry_args \<Rightarrow> bool" where
  "scope_permitted args \<longleftrightarrow>
     ea_service args \<in> set SERVICES \<and>
     (ea_license_scope args = text_of ''distribution'' \<or>
      ea_license_scope args = text_of ''internal-service'' \<and> ea_service args \<noteq> text_of ''mobile-publisher'')"

lemma created_entry_valid:
  assumes hash: "\<forall>bs. hex_text 64 (rl_sha256 lib bs)" and created: "create_entry lib args = Inr e"
  shows "validate_entry lib (JObj e) = Inr e \<longleftrightarrow> scope_permitted args"
proof -
  obtain report sbom digest notices where r:
    "json_get report (if ea_license_scope args = text_of ''internal-service'' then ''internalDeploymentAllowed'' else ''releaseAllowed'') =
       JBool True"
    "pinned (ea_service args) (ea_image args @ 64 # ea_digest args)"
    "file_sha256 lib (ea_sbom args) = Inr sbom" "file_sha256 lib (ea_license_report args) = Inr digest"
    "file_sha256 lib (ea_notices args) = Inr notices"
    and e: "e = [(text_of ''service'', JStr (ea_service args)), (text_of ''image'', JStr (ea_image args @ 64 # ea_digest args)),
          (text_of ''sbomSha256'', JStr sbom), (text_of ''licenseReportSha256'', JStr digest),
          (text_of ''noticesSha256'', JStr notices), (text_of ''licenseScope'', JStr (ea_license_scope args)),
          (text_of ''licenseDeploymentAllowed'', JBool True),
          (text_of ''licenseReleaseAllowed'', JBool (json_get report ''releaseAllowed'' = JBool True))]"
    using create_entry_Inr [OF created] by metis
  have hex: "hex_text 64 sbom" "hex_text 64 digest" "hex_text 64 notices"
    using file_sha256_hex [OF hash] r(3-5) by blast+
  show ?thesis
    using r(1,2) hex
    by (auto simp: validate_entry_Inr e text_get_Cons json_get_Cons entry_digest_ok_def valid_license_def scope_permitted_def
        Let_def text_of_eq_iff simp del: text_of_simps)
qed

lemma created_entry_fields:
  assumes "create_entry lib args = Inr e"
  shows "service_of lib e = ea_service args" and "image_of lib e = ea_image args @ 64 # ea_digest args"
    and "entry_service lib e = ea_service args"
  by (rule create_entry_Inr [OF assms],
      simp add: text_get_Cons json_get_Cons entry_service_def text_of_eq_iff del: text_of_simps)+

section \<open>From the builds to the manifest\<close>

text \<open>Files are written with sorted keys, so an entry is read back with its fields in another order.\<close>

definition same_fields :: "json_dict \<Rightarrow> json_dict \<Rightarrow> bool" where
  "same_fields e e' \<longleftrightarrow> (\<forall>k. dict_get e' k = dict_get e k)"

lemma same_fields_views:
  assumes "same_fields e e'"
  shows "text_get str_of e' = text_get str_of e" and "json_get e' = json_get e"
  using assms by (auto simp: same_fields_def intro: text_get_same json_get_same)

lemma same_fields_valid:
  assumes "same_fields e e'"
  shows "validate_entry lib (JObj e') = Inr e' \<longleftrightarrow> validate_entry lib (JObj e) = Inr e"
proof -
  note views = same_fields_views [OF assms]
  have "valid_license lib e' s = valid_license lib e s" for s
    by (simp only: valid_license_def views)
  moreover have "entry_digest_ok lib e' = entry_digest_ok lib e"
    by (simp add: entry_digest_ok_def fun_eq_iff views)
  ultimately show ?thesis by (simp only: validate_entry_Inr views simp_thms)
qed

definition inventory_evident :: "release_lib \<Rightarrow> json_dict \<Rightarrow> bool" where
  "inventory_evident lib inventory \<longleftrightarrow>
     (case json_get inventory ''components'' of
        JList components \<Rightarrow> 3 \<le> length components \<and> (\<forall>c \<in> set components. component_evident lib c = Inr ())
      | _ \<Rightarrow> False)"

lemma inventory_evident_valid:
  assumes "load_json lib (rs_runtime_inventory src) = Inr inventory" and "json_ok (JObj inventory)"
    and "inventory_evident lib inventory" and "file_sha256 lib (rs_runtime_inventory src) = Inr digest"
    and "json_get m ''runtimeInventory'' = JObj inventory" and "json_get m ''runtimeInventorySha256'' = JStr digest"
  shows "validate_runtime_inventory lib src m = Inr ()"
proof -
  obtain components where c: "json_get inventory ''components'' = JList components" "\<not> length components < 3"
      "\<forall>c \<in> set components. component_evident lib c = Inr ()"
    using assms(3) by (auto simp: inventory_evident_def split: json.splits)
  have "map_r (component_evident lib) components = Inr (map (\<lambda>_. ()) components)" using c(3) by (simp add: map_r_Inr_all)
  then show ?thesis
    using assms(1,4-6) c(1,2) py_eq_refl [OF assms(2)] by (simp add: validate_runtime_inventory_def del: py_eq.simps)
qed

lemma assembled:
  assumes "set (map (entry_service lib) entries) = set SERVICES" and "length entries = length SERVICES"
    and "\<forall>e \<in> set entries. validate_entry lib (JObj e) = Inr e \<and> entry_service lib e = service_of lib e"
    and "map_r (load_json lib) files = Inr entries"
    and "hex_text 40 commit"
    and "load_json lib (rs_runtime_inventory src) = Inr inventory" and "json_ok (JObj inventory)"
    and "inventory_evident lib inventory"
    and "load_json lib (rs_active_vex src) = Inr exceptions"
    and "validate_vex lib (rs_today src) (default_get exceptions ''records'' (JList [])) = Inr ()"
  shows "\<exists>m pins. assemble_manifest lib src files commit run created_at = Inr m \<and>
    validate_manifest lib src m commit = Inr pins \<and> (\<forall>e \<in> set entries. dict_get pins (service_of lib e) = Some (image_of lib e))"
proof -
  obtain digest where digest: "file_sha256 lib (rs_runtime_inventory src) = Inr digest"
    using assms(6) by (cases "rs_runtime_inventory src") (auto simp: load_json_def file_sha256_def)
  let ?es = "sort_key (entry_service lib) entries"
  let ?m = "[(text_of ''schemaVersion'', JStr (text_of ''gcs-saker.signed-release.v3'')),
          (text_of ''sourceCommit'', JStr commit),
          (text_of ''workflowRun'', JStr run),
          (text_of ''createdAt'', JStr created_at),
          (text_of ''images'', JList (map JObj ?es)),
          (text_of ''runtimeInventory'', JObj inventory),
          (text_of ''runtimeInventorySha256'', JStr digest),
          (text_of ''vex'', default_get exceptions ''records'' (JList []))]"
  let ?pins = "map (\<lambda>e. (service_of lib e, image_of lib e)) ?es"
  have keys: "service_of lib ` set entries = set SERVICES" using assms(1,3) by auto
  have d: "distinct (map (service_of lib) ?es)"
    using same_set_distinct [of "map (service_of lib) ?es" SERVICES] keys assms(2) SERVICES_distinct by simp
  have added: "fold_r (add_image lib) (map JObj ?es) [] = Inr ?pins"
    using add_images_ok [of ?es lib "[]"] assms(3) d fold_dict_set_distinct [of "service_of lib" ?es "[]" "image_of lib"] by simp
  have "set (dict_keys ?pins) = set SERVICES" using keys by (auto simp: dict_keys_def)
  moreover have "validate_runtime_inventory lib src ?m = Inr ()"
    by (rule inventory_evident_valid [OF assms(6,7,8) digest]) (simp_all add: json_get_Cons del: text_of_simps)
  moreover have "default_get ?m ''vex'' (JList []) = default_get exceptions ''records'' (JList [])"
    by (simp add: default_get_def [of ?m] dict_get_def text_of_eq_iff del: text_of_simps)
  ultimately have valid: "validate_manifest lib src ?m commit = Inr ?pins"
    using assms(2,5,10) added by (simp add: validate_manifest_def json_get_Cons text_of_eq_iff del: text_of_simps)
  have "assemble_manifest lib src files commit run created_at = Inr ?m"
    using assms(1,2,4,6,9) digest valid by (simp add: assemble_manifest_def Let_def del: text_of_simps)
  moreover have "dict_get ?pins (service_of lib e) = Some (image_of lib e)" if "e \<in> set entries" for e
    using that d by (intro dict_get_in) (auto simp: dict_ok_def o_def)
  ultimately show ?thesis using valid by blast
qed

lemma release_line:
  assumes "\<forall>bs. hex_text 64 (rl_sha256 lib bs)"
    and "map_r (create_entry lib) builds = Inr created" and "\<forall>a \<in> set builds. scope_permitted a"
    and "set (map ea_service builds) = set SERVICES" and "length builds = length SERVICES"
    and "map_r (load_json lib) files = Inr entries" and "list_all2 same_fields created entries"
    and "hex_text 40 commit"
    and "load_json lib (rs_runtime_inventory src) = Inr inventory" and "json_ok (JObj inventory)"
    and "inventory_evident lib inventory"
    and "load_json lib (rs_active_vex src) = Inr exceptions"
    and "validate_vex lib (rs_today src) (default_get exceptions ''records'' (JList [])) = Inr ()"
  shows "\<exists>m pins. assemble_manifest lib src files commit run created_at = Inr m \<and>
    validate_manifest lib src m commit = Inr pins \<and>
    (\<forall>a \<in> set builds. dict_get pins (ea_service a) = Some (ea_image a @ 64 # ea_digest a))"
proof -
  have n: "length created = length builds" "length entries = length builds"
    using map_r_length [OF assms(2)] list_all2_lengthD [OF assms(7)] by simp_all
  have step: "validate_entry lib (JObj (entries ! i)) = Inr (entries ! i) \<and>
      service_of lib (entries ! i) = ea_service (builds ! i) \<and>
      image_of lib (entries ! i) = ea_image (builds ! i) @ 64 # ea_digest (builds ! i) \<and>
      entry_service lib (entries ! i) = ea_service (builds ! i)" if "i < length builds" for i
  proof -
    have c: "create_entry lib (builds ! i) = Inr (created ! i)" using map_r_nth [OF assms(2) that] .
    have same: "same_fields (created ! i) (entries ! i)" using assms(7) n that by (simp add: list_all2_conv_all_nth)
    show ?thesis
      using created_entry_valid [OF assms(1) c] created_entry_fields [OF c] same_fields_valid [OF same, of lib]
        same_fields_views [OF same] assms(3) that by (simp add: entry_service_def)
  qed
  have services: "map (entry_service lib) entries = map ea_service builds"
    using step n by (intro nth_equalityI) simp_all
  have all: "\<forall>e \<in> set entries. validate_entry lib (JObj e) = Inr e \<and> entry_service lib e = service_of lib e"
    using step n(2) by (metis in_set_conv_nth)
  obtain m pins where m: "assemble_manifest lib src files commit run created_at = Inr m"
      "validate_manifest lib src m commit = Inr pins"
      "\<forall>e \<in> set entries. dict_get pins (service_of lib e) = Some (image_of lib e)"
    using assembled [OF _ _ all assms(6,8-13), of run created_at] arg_cong [OF services, of set] assms(4,5) n(2) by auto
  have "dict_get pins (ea_service a) = Some (ea_image a @ 64 # ea_digest a)" if "a \<in> set builds" for a
    using that step n(2) m(3) by (metis in_set_conv_nth)
  then show ?thesis using m(1,2) by blast
qed

section \<open>Properties\<close>

text \<open>
  C27: A manifest that validates pins the whole release: it is for the commit asked for, holds one
  entry for each of the eight services, each image is the service's own GHCR image under a SHA-256
  digest, each entry's licence disposition permits its scope (the mobile publisher is distributed,
  so an internal disposition does not do), and the inventory returned lists exactly these images.
\<close>

theorem validated_release_pinned:
  assumes "validate_manifest lib src m commit = Inr pins"
  shows "hex_text 40 commit \<and> json_get m ''sourceCommit'' = JStr commit \<and>
    (\<exists>entries. json_get m ''images'' = JList (map JObj entries) \<and>
       distinct (map (service_of lib) entries) \<and> service_of lib ` set entries = set SERVICES \<and>
       pins = map (\<lambda>e. (service_of lib e, image_of lib e)) entries \<and>
       (\<forall>e \<in> set entries. pinned (service_of lib e) (image_of lib e) \<and> licensed lib e))"
proof -
  obtain entries where "json_get m ''images'' = JList (map JObj entries)"
    "\<forall>e \<in> set entries. validate_entry lib (JObj e) = Inr e"
    "distinct (map (service_of lib) entries)" "service_of lib ` set entries = set SERVICES"
    "pins = map (\<lambda>e. (service_of lib e, image_of lib e)) entries"
    "hex_text 40 commit" "json_get m ''sourceCommit'' = JStr commit"
    by (rule validate_manifest_Inr [OF assms])
  then show ?thesis using valid_license_licensed by (auto simp: validate_entry_Inr)
qed

text \<open>
  The release line fits together: when every service has an entry that its build created in a
  permitted scope, the entries, read back with their fields in any order, are assembled into a
  manifest that validates and pins every service to the image and digest its build named, given a
  complete runtime inventory in the checkout and exceptions that have not expired.
\<close>

theorem release_line_accepted:
  assumes "\<forall>bs. hex_text 64 (rl_sha256 lib bs)"
    and "map_r (create_entry lib) builds = Inr created" and "\<forall>a \<in> set builds. scope_permitted a"
    and "set (map ea_service builds) = set SERVICES" and "length builds = length SERVICES"
    and "map_r (load_json lib) files = Inr entries" and "list_all2 same_fields created entries"
    and "hex_text 40 commit"
    and "load_json lib (rs_runtime_inventory src) = Inr inventory" and "json_ok (JObj inventory)"
    and "inventory_evident lib inventory"
    and "load_json lib (rs_active_vex src) = Inr exceptions"
    and "validate_vex lib (rs_today src) (default_get exceptions ''records'' (JList [])) = Inr ()"
  shows "\<exists>m pins. assemble_manifest lib src files commit run created_at = Inr m \<and>
    validate_manifest lib src m commit = Inr pins \<and>
    (\<forall>a \<in> set builds. dict_get pins (ea_service a) = Some (ea_image a @ 64 # ea_digest a))"
  by (rule release_line [OF assms])

text \<open>
  What a build may write is not what a release may hold: an entry that \<open>create_entry\<close> writes is
  accepted by \<open>validate_entry\<close> exactly when its service is a managed one and its scope is permitted
  for it; the entry of a mobile publisher in the internal scope is written and refused later.
\<close>

theorem created_entry_accepted_iff:
  assumes "\<forall>bs. hex_text 64 (rl_sha256 lib bs)" and "create_entry lib args = Inr e"
  shows "validate_entry lib (JObj e) = Inr e \<longleftrightarrow> scope_permitted args"
  by (rule created_entry_valid [OF assms])

section \<open>A release\<close>

definition build_args :: "pytext \<Rightarrow> entry_args" where
  "build_args service =
     \<lparr>ea_service = service, ea_image = butlast (image_prefix service), ea_digest = text_of ''sha256:'' @ replicate 64 98,
      ea_sbom = Some [1], ea_license_report = Some (ascii_bytes (text_of ''L'')), ea_notices = Some [2],
      ea_license_scope = text_of ''distribution''\<rparr>"

definition sample_report :: json_dict where
  "sample_report = [(text_of ''releaseAllowed'', JBool True)]"

definition sample_entry :: "pytext \<Rightarrow> json_dict" where
  "sample_entry service =
     [(text_of ''service'', JStr service),
      (text_of ''image'', JStr (butlast (image_prefix service) @ 64 # text_of ''sha256:'' @ replicate 64 98)),
      (text_of ''sbomSha256'', JStr (replicate 64 97)),
      (text_of ''licenseReportSha256'', JStr (replicate 64 97)),
      (text_of ''noticesSha256'', JStr (replicate 64 97)),
      (text_of ''licenseScope'', JStr (text_of ''distribution'')),
      (text_of ''licenseDeploymentAllowed'', JBool True),
      (text_of ''licenseReleaseAllowed'', JBool True)]"

definition sample_component :: json where
  "sample_component =
     JObj [(text_of ''image'', JStr (text_of ''redis@sha256:0'')), (text_of ''projectLicenses'', JStr (text_of ''BSD'')),
           (text_of ''licenseSource'', JStr (text_of ''LICENSE''))]"

definition sample_inventory :: json_dict where
  "sample_inventory = [(text_of ''components'', JList [sample_component, sample_component, sample_component])]"

definition build_loads :: "pytext \<Rightarrow> json option" where
  "build_loads t =
     (if t = text_of ''L'' then Some (JObj sample_report)
      else if t = text_of ''I'' then Some (JObj sample_inventory)
      else if t = text_of ''V'' then Some (JObj [(text_of ''records'', JList [])])
      else if t \<in> set SERVICES then Some (JObj (rev (sample_entry t)))
      else None)"

definition sample_lib :: release_lib where
  "sample_lib = \<lparr>rl_sha256 = \<lambda>_. replicate 64 97, rl_json_loads = build_loads, rl_str = \<lambda>_. [], rl_date = \<lambda>_. Some 0\<rparr>"

definition sample_source :: release_source where
  "sample_source =
     \<lparr>rs_runtime_inventory = Some (ascii_bytes (text_of ''I'')), rs_active_vex = Some (ascii_bytes (text_of ''V'')), rs_today = 7\<rparr>"

lemma services_ascii: "service \<in> set SERVICES \<Longrightarrow> list_all (\<lambda>c. c < 128 \<and> c \<noteq> 13) service"
  by (auto simp: SERVICES_def)

lemma letter_text: "read_text (ascii_bytes (text_of [c])) = Some (text_of [c])" if "of_char c < (128 :: nat)" "of_char c \<noteq> (13 :: nat)"
  using that by (intro read_text_ascii) simp

lemma sample_reads:
  "load_json sample_lib (Some (ascii_bytes (text_of ''L''))) = Inr sample_report"
  "load_json sample_lib (rs_runtime_inventory sample_source) = Inr sample_inventory"
  "load_json sample_lib (rs_active_vex sample_source) = Inr [(text_of ''records'', JList [])]"
  by (simp_all add: load_json_def letter_text sample_lib_def sample_source_def build_loads_def text_of_eq_iff del: text_of_simps)

lemma service_not_letter: "service \<in> set SERVICES \<Longrightarrow> service \<noteq> text_of [c]"
  by (auto simp: SERVICES_def text_of_eq_iff simp del: text_of_simps)

lemma sample_entries_read:
  "map_r (load_json sample_lib) (map (\<lambda>s. Some (ascii_bytes s)) SERVICES) = Inr (map (\<lambda>s. rev (sample_entry s)) SERVICES)"
proof -
  have "load_json sample_lib (Some (ascii_bytes s)) = Inr (rev (sample_entry s))" if "s \<in> set SERVICES" for s
    using that service_not_letter [OF that]
    by (simp add: load_json_def read_text_ascii services_ascii sample_lib_def build_loads_def del: text_of_simps)
  then have "map_r (\<lambda>s. load_json sample_lib (Some (ascii_bytes s))) SERVICES = Inr (map (\<lambda>s. rev (sample_entry s)) SERVICES)"
    by (rule map_r_Inr_all)
  moreover have "map_r f (map g xs) = map_r (\<lambda>x. f (g x)) xs" for f :: "bytes option \<Rightarrow> release_error + json_dict" and g and xs :: "pytext list"
    by (induction xs) simp_all
  ultimately show ?thesis by simp
qed

lemma sample_image: "pinned service (butlast (image_prefix service) @ 64 # text_of ''sha256:'' @ replicate 64 98)"
  by (auto simp: pinned_def hex_text_def hex_char_def list_all_iff image_prefix_def butlast_append simp del: text_of_simps)

lemma sample_created: "create_entry sample_lib (build_args service) = Inr (sample_entry service)"
  by (simp add: create_entry_def build_args_def sample_reads Let_def sample_report_def json_get_Cons text_of_eq_iff
      valid_image_reference_iff sample_image file_sha256_def sample_entry_def del: text_of_simps)
    (simp add: sample_lib_def)

lemma sample_hash: "\<forall>bs. hex_text 64 (rl_sha256 sample_lib bs)"
  by (simp add: sample_lib_def hex_text_def hex_char_def list_all_iff)

lemma sample_scope: "service \<in> set SERVICES \<Longrightarrow> scope_permitted (build_args service)"
  by (simp add: scope_permitted_def build_args_def del: text_of_simps)

lemma sample_component_evident: "component_evident sample_lib sample_component = Inr ()"
  by code_simp

lemma sample_inventory_ok: "json_ok (JObj sample_inventory)" "inventory_evident sample_lib sample_inventory"
  by (simp_all add: sample_inventory_def sample_component_def [abs_def] text_of_eq_iff inventory_evident_def json_get_Cons del: text_of_simps)
    (use sample_component_evident in \<open>simp_all add: sample_component_def del: text_of_simps\<close>)

lemma rev_same_fields: "distinct (map fst e) \<Longrightarrow> same_fields e (rev e)"
  using map_of_inject_set [of "rev e" e] by (simp add: same_fields_def dict_get_def rev_map [symmetric])

lemma sample_entry_distinct: "distinct (map fst (sample_entry service))"
  by (simp add: sample_entry_def text_of_eq_iff del: text_of_simps)

lemma sample_all_created: "map_r (create_entry sample_lib) (map build_args SERVICES) = Inr (map sample_entry SERVICES)"
proof -
  have "create_entry sample_lib a = Inr (sample_entry (ea_service a))" if "a \<in> set (map build_args SERVICES)" for a
    using that sample_created by (auto simp: build_args_def [THEN arg_cong [where f = ea_service]] simp del: text_of_simps)
  then show ?thesis
    using map_r_Inr_all [of "map build_args SERVICES" "create_entry sample_lib" "\<lambda>a. sample_entry (ea_service a)"]
    by (simp add: build_args_def [THEN arg_cong [where f = ea_service]] o_def del: text_of_simps)
qed

lemma sample_conditions:
  "\<forall>a \<in> set (map build_args SERVICES). scope_permitted a"
  "set (map ea_service (map build_args SERVICES)) = set SERVICES"
  "length (map build_args SERVICES) = length SERVICES"
  "list_all2 same_fields (map sample_entry SERVICES) (map (\<lambda>s. rev (sample_entry s)) SERVICES)"
  "hex_text 40 (replicate 40 97)"
  "validate_vex sample_lib (rs_today sample_source) (default_get [(text_of ''records'', JList [])] ''records'' (JList [])) = Inr ()"
  using sample_scope rev_same_fields [OF sample_entry_distinct]
  by (auto simp: build_args_def image_image list_all2_conv_all_nth hex_text_def hex_char_def list_all_iff validate_vex_def
      default_get_def dict_get_def simp del: text_of_simps)

theorem release_line_accepted_witness:
  "\<exists>m pins. assemble_manifest sample_lib sample_source (map (\<lambda>s. Some (ascii_bytes s)) SERVICES) (replicate 40 97) [49] [50] = Inr m \<and>
    validate_manifest sample_lib sample_source m (replicate 40 97) = Inr pins"
  using release_line_accepted [OF sample_hash sample_all_created sample_conditions(1-3) sample_entries_read sample_conditions(4,5)
      sample_reads(2) sample_inventory_ok sample_reads(3) sample_conditions(6)]
  by blast

lemma sample_manifest:
  "\<exists>m pins. validate_manifest sample_lib sample_source m (replicate 40 97) = Inr pins"
  using release_line [OF sample_hash sample_all_created sample_conditions(1-3) sample_entries_read sample_conditions(4,5)
      sample_reads(2) sample_inventory_ok sample_reads(3) sample_conditions(6)]
  by blast

theorem created_entry_accepted_iff_witness:
  "validate_entry sample_lib (JObj (sample_entry (text_of ''turn''))) = Inr (sample_entry (text_of ''turn'')) \<longleftrightarrow>
   scope_permitted (build_args (text_of ''turn''))"
  by (rule created_entry_accepted_iff [OF sample_hash sample_created])

theorem validated_release_pinned_witness:
  "\<exists>m. hex_text 40 (replicate 40 97) \<and> json_get m ''sourceCommit'' = JStr (replicate 40 97)"
proof -
  obtain m pins where "validate_manifest sample_lib sample_source m (replicate 40 97) = Inr pins"
    using sample_manifest by blast
  from validated_release_pinned [OF this] show ?thesis by blast
qed

end
