(* ===== verification/License.thy ===== *)
theory License
  imports Release_Manifest
begin

text \<open>
  The licence gate, \<open>scripts/reports/license_compliance.py\<close>: the effective licence of a package of an
  SBOM, its disposition under the policy, the audited resolutions and approvals, the report whose
  flags \<open>release_manifest.py\<close> relies on, and the notices. The readers of JSON and YAML, Python's texts
  of floats and containers and \<open>date.fromisoformat\<close> (dates as day numbers) are an argument
  (\<open>license_lib\<close>); a date that YAML reads is represented by its text, all the code looks at.
\<close>

section \<open>Libraries and errors\<close>

record license_lib =
  ll_json_loads :: "pytext \<Rightarrow> json option"
  ll_yaml_load :: "pytext \<Rightarrow> json option"
  ll_str :: "json \<Rightarrow> pytext"
  ll_date :: "pytext \<Rightarrow> int option"

datatype license_error = LicenseComplianceError string | LicenseCrash

definition UNKNOWN_EXPRESSIONS :: "pytext list" where
  "UNKNOWN_EXPRESSIONS = map text_of ['''', ''NOASSERTION'', ''NONE'', ''UNKNOWN'']"

definition AUDITED_LICENSE_REFS :: "pytext list" where
  "AUDITED_LICENSE_REFS = [text_of ''LicenseRef-Public-Domain'']"

definition LOGICAL_TOKENS :: "pytext list" where
  "LOGICAL_TOKENS = map text_of [''AND'', ''OR'', ''WITH'']"

record license_rules =
  lu_policy :: json_dict
  lu_approvals :: json
  lu_resolutions :: "(pytext, pytext \<times> pytext) dict"

definition load_yaml :: "license_lib \<Rightarrow> bytes option \<Rightarrow> license_error + json_dict" where
  "load_yaml lib content =
     (case Option.bind (Option.bind content read_text) (ll_yaml_load lib) of
        None \<Rightarrow> Inl LicenseCrash
      | Some (JObj d) \<Rightarrow> Inr d
      | Some _ \<Rightarrow> Inl (LicenseComplianceError ''file must contain an object''))"

text \<open>What a \<open>for\<close> loop sees: list items, characters, keys; other values cannot be iterated.\<close>

definition iter_items :: "json \<Rightarrow> license_error + json list" where
  "iter_items v =
     (case v of
        JList vs \<Rightarrow> Inr vs
      | JStr s \<Rightarrow> Inr (map (\<lambda>c. JStr [c]) s)
      | JObj d \<Rightarrow> Inr (map (\<lambda>(k, _). JStr k) d)
      | _ \<Rightarrow> Inl LicenseCrash)"

text \<open>The value as an object; anything else has no \<open>get\<close>.\<close>

definition as_object :: "json \<Rightarrow> license_error + json_dict" where
  "as_object v = (case v of JObj d \<Rightarrow> Inr d | _ \<Rightarrow> Inl LicenseCrash)"

section \<open>Packages and licence expressions\<close>

fun find_purl :: "license_lib \<Rightarrow> json list \<Rightarrow> license_error + pytext" where
  "find_purl lib [] = Inr []"
| "find_purl lib (v # vs) =
     bind_r (as_object v) (\<lambda>reference.
       if json_get reference ''referenceType'' = JStr (text_of ''purl'')
       then Inr (text_get (ll_str lib) reference ''referenceLocator'' [])
       else find_purl lib vs)"

definition package_purl :: "license_lib \<Rightarrow> json_dict \<Rightarrow> license_error + pytext" where
  "package_purl lib package = bind_r (iter_items (default_get package ''externalRefs'' (JList []))) (find_purl lib)"

definition spdx_char :: "nat \<Rightarrow> bool" where
  "spdx_char c \<longleftrightarrow> ascii_alnum c \<or> c = 46 \<or> c = 43 \<or> c = 45"

text \<open>\<open>findall\<close> of the pattern \<open>[A-Za-z0-9][A-Za-z0-9.+-]*\<close>.\<close>

function spdx_findall :: "pytext \<Rightarrow> pytext list" where
  "spdx_findall [] = []"
| "spdx_findall (c # cs) =
     (if ascii_alnum c then (c # takeWhile spdx_char cs) # spdx_findall (dropWhile spdx_char cs) else spdx_findall cs)"
  by pat_completeness auto
termination by (relation "measure length") (auto simp: length_dropWhile_le less_Suc_eq_le)

definition license_tokens :: "pytext \<Rightarrow> pytext set" where
  "license_tokens expression = set (filter (\<lambda>t. t \<notin> set LOGICAL_TOKENS) (spdx_findall expression))"

definition unresolved :: "pytext \<Rightarrow> bool" where
  "unresolved expression \<longleftrightarrow>
     expression \<in> set UNKNOWN_EXPRESSIONS \<or>
     starts_with (text_of ''LicenseRef-'') expression \<and> expression \<notin> set AUDITED_LICENSE_REFS"

section \<open>Resolutions\<close>

text \<open>\<open>re.search(r"#sha256=[0-9a-f]{64}$", source)\<close> on a text without surrounding white space.\<close>

definition image_evidence :: "pytext \<Rightarrow> bool" where
  "image_evidence source \<longleftrightarrow>
     starts_with (text_of ''image:/'') source \<and> 72 \<le> length source \<and>
     take 8 (drop (length source - 72) source) = text_of ''#sha256='' \<and> hex_text 64 (drop (length source - 64) source)"

definition stripped_get :: "license_lib \<Rightarrow> json_dict \<Rightarrow> string \<Rightarrow> pytext" where
  "stripped_get lib d k = py_strip (text_get (ll_str lib) d k [])"

definition add_resolution ::
    "license_lib \<Rightarrow> json \<Rightarrow> (pytext, pytext \<times> pytext) dict \<Rightarrow> license_error + (pytext, pytext \<times> pytext) dict" where
  "add_resolution lib v resolutions =
     (case v of
        JObj entry \<Rightarrow>
          let purl = stripped_get lib entry ''purl'';
              expression = stripped_get lib entry ''licenseExpression'';
              source = stripped_get lib entry ''source'';
              verified_by = stripped_get lib entry ''verifiedBy'';
              verified_on = stripped_get lib entry ''verifiedOn'' in
          if \<not> starts_with (text_of ''pkg:'') purl \<or> dict_get resolutions purl \<noteq> None
          then Inl (LicenseComplianceError ''invalid or duplicate resolution purl'')
          else if unresolved expression
          then Inl (LicenseComplianceError ''invalid resolved license'')
          else if \<not> (starts_with (text_of ''https://'') source \<or> image_evidence source)
          then Inl (LicenseComplianceError ''resolution source must use HTTPS or immutable image evidence'')
          else if verified_by = [] \<or> verified_on = []
          then Inl (LicenseComplianceError ''resolution audit fields are required'')
          else if ll_date lib verified_on = None
          then Inl (LicenseComplianceError ''invalid verifiedOn date'')
          else Inr (dict_set purl (expression, source) resolutions)
      | _ \<Rightarrow> Inl (LicenseComplianceError ''each license resolution must be an object''))"

definition load_resolutions :: "license_lib \<Rightarrow> bytes option \<Rightarrow> license_error + (pytext, pytext \<times> pytext) dict" where
  "load_resolutions lib content =
     bind_r (load_yaml lib content) (\<lambda>d.
       case default_get d ''resolutions'' (JList []) of
         JList entries \<Rightarrow> fold_r (add_resolution lib) entries []
       | _ \<Rightarrow> Inl (LicenseComplianceError ''license resolutions must be a list''))"

definition effective_license ::
    "license_lib \<Rightarrow> json_dict \<Rightarrow> (pytext, pytext \<times> pytext) dict \<Rightarrow> license_error + (pytext \<times> pytext)" where
  "effective_license lib package resolutions =
     (let declared = stripped_get lib package ''licenseDeclared'';
          concluded = stripped_get lib package ''licenseConcluded'' in
      bind_r (package_purl lib package) (\<lambda>purl.
        if declared \<notin> set UNKNOWN_EXPRESSIONS \<and> \<not> starts_with (text_of ''LicenseRef-'') declared
        then Inr (declared, text_of ''SBOM licenseDeclared'')
        else if concluded \<notin> set UNKNOWN_EXPRESSIONS \<and> \<not> starts_with (text_of ''LicenseRef-'') concluded
        then Inr (concluded, text_of ''SBOM licenseConcluded'')
        else (case dict_get resolutions purl of
                Some (license, source) \<Rightarrow> Inr (license, source)
              | None \<Rightarrow> Inr (declared, text_of ''SBOM licenseDeclared''))))"

section \<open>Dispositions\<close>

datatype disposition = FirstParty | Unknown | Denied | Allowed | ReviewApproved | ReviewRequired

definition disposition_text :: "disposition \<Rightarrow> pytext" where
  "disposition_text d =
     text_of (case d of FirstParty \<Rightarrow> ''FIRST_PARTY'' | Unknown \<Rightarrow> ''UNKNOWN'' | Denied \<Rightarrow> ''DENIED'' | Allowed \<Rightarrow> ''ALLOWED''
       | ReviewApproved \<Rightarrow> ''REVIEW_APPROVED'' | ReviewRequired \<Rightarrow> ''REVIEW_REQUIRED'')"

fun find_approval :: "license_lib \<Rightarrow> pytext \<Rightarrow> pytext \<Rightarrow> int \<Rightarrow> json list \<Rightarrow> license_error + json_dict option" where
  "find_approval lib purl expression today [] = Inr None"
| "find_approval lib purl expression today (v # vs) =
     bind_r (as_object v) (\<lambda>approval.
       if json_get approval ''purl'' \<noteq> JStr purl \<or> json_get approval ''licenseExpression'' \<noteq> JStr expression
       then find_approval lib purl expression today vs
       else (case ll_date lib (json_text (ll_str lib) (json_get approval ''expiresAt'')) of
               None \<Rightarrow> Inl LicenseCrash
             | Some expires \<Rightarrow>
                 if today \<le> expires \<and> truthy (json_get approval ''approvedBy'') \<and> truthy (json_get approval ''obligation'')
                 then Inr (Some approval)
                 else find_approval lib purl expression today vs))"

definition active_approval ::
    "license_lib \<Rightarrow> json \<Rightarrow> pytext \<Rightarrow> pytext \<Rightarrow> int \<Rightarrow> license_error + json_dict option" where
  "active_approval lib approvals purl expression today =
     bind_r (iter_items approvals) (find_approval lib purl expression today)"

text \<open>\<open>any(purl.startswith(prefix) for prefix in prefixes)\<close>; a prefix that is no text is a \<open>TypeError\<close>.\<close>

fun any_prefix :: "pytext \<Rightarrow> json list \<Rightarrow> license_error + bool" where
  "any_prefix purl [] = Inr False"
| "any_prefix purl (v # vs) =
     (case v of JStr p \<Rightarrow> if starts_with p purl then Inr True else any_prefix purl vs | _ \<Rightarrow> Inl LicenseCrash)"

text \<open>The texts of a collection used as a set; lists and objects cannot be hashed.\<close>

definition text_set :: "json \<Rightarrow> license_error + pytext set" where
  "text_set v =
     bind_r (iter_items v) (\<lambda>vs.
       if list_ex (\<lambda>v. case v of JList _ \<Rightarrow> True | JObj _ \<Rightarrow> True | _ \<Rightarrow> False) vs then Inl LicenseCrash
       else Inr (set (concat (map (\<lambda>v. case v of JStr s \<Rightarrow> [s] | _ \<Rightarrow> []) vs))))"

definition classify_package ::
    "license_lib \<Rightarrow> json_dict \<Rightarrow> license_rules \<Rightarrow> int \<Rightarrow> license_error + (disposition \<times> pytext \<times> pytext \<times> pytext)" where
  "classify_package lib package rules today =
     bind_r (effective_license lib package (lu_resolutions rules)) (\<lambda>(expression, source).
     bind_r (package_purl lib package) (\<lambda>purl.
     bind_r (bind_r (iter_items (default_get (lu_policy rules) ''firstPartyPurlPrefixes'' (JList []))) (any_prefix purl)) (\<lambda>first_party.
     if first_party then Inr (FirstParty, [], expression, source)
     else if unresolved expression
     then Inr (Unknown, text_of ''license metadata must be resolved'', expression, source)
     else
       let tokens = license_tokens expression in
       bind_r (text_set (default_get (lu_policy rules) ''deniedLicenses'' (JList []))) (\<lambda>denied_licenses.
       let denied = tokens \<inter> denied_licenses in
       if denied \<noteq> {}
       then Inr (Denied, text_of ''denied licenses: '' @ join_with (text_of '', '') (sorted_list_of_set denied), expression, source)
       else
         bind_r (text_set (default_get (lu_policy rules) ''allowedLicenses'' (JList []))) (\<lambda>allowed.
         if tokens \<noteq> {} \<and> tokens \<subseteq> allowed
         then Inr (Allowed, text_of ''retain copyright and license notice'', expression, source)
         else
           bind_r (active_approval lib (lu_approvals rules) purl expression today) (\<lambda>approval.
             case approval of
               Some a \<Rightarrow> Inr (ReviewApproved, json_text (ll_str lib) (json_get a ''obligation''), expression, source)
             | None \<Rightarrow> Inr (ReviewRequired, text_of ''legal and distribution-obligation review required'', expression, source)))))))"

section \<open>The report\<close>

record package_decision =
  pd_artifact :: pytext
  pd_name :: pytext
  pd_version :: pytext
  pd_purl :: pytext
  pd_license :: pytext
  pd_declared_license :: pytext
  pd_license_source :: pytext
  pd_disposition :: disposition
  pd_obligation :: pytext

text \<open>An SBOM file: the stem of its path and its octets.\<close>

type_synonym sbom_file = "pytext \<times> bytes option"

definition decide_package :: "license_lib \<Rightarrow> license_rules \<Rightarrow> int \<Rightarrow> pytext \<Rightarrow> json \<Rightarrow> license_error + package_decision" where
  "decide_package lib rules today stem v =
     bind_r (as_object v) (\<lambda>package.
     bind_r (classify_package lib package rules today) (\<lambda>(disposition, obligation, expression, source).
     bind_r (package_purl lib package) (\<lambda>purl.
     Inr \<lparr>pd_artifact = stem, pd_name = text_get (ll_str lib) package ''name'' (text_of ''unknown''),
          pd_version = text_get (ll_str lib) package ''versionInfo'' (text_of ''unknown''), pd_purl = purl,
          pd_license = expression,
          pd_declared_license = text_get (ll_str lib) package ''licenseDeclared'' (text_of ''NOASSERTION''),
          pd_license_source = source, pd_disposition = disposition, pd_obligation = obligation\<rparr>)))"

definition sbom_packages :: "license_lib \<Rightarrow> bytes option \<Rightarrow> license_error + json list" where
  "sbom_packages lib content =
     (case Option.bind (Option.bind content read_text) (ll_json_loads lib) of
        Some (JObj document) \<Rightarrow>
          (case json_get document ''packages'' of
             JList packages \<Rightarrow> Inr packages
           | _ \<Rightarrow> Inl (LicenseComplianceError ''no SPDX packages''))
      | _ \<Rightarrow> Inl LicenseCrash)"

definition scan_sbom :: "license_lib \<Rightarrow> license_rules \<Rightarrow> int \<Rightarrow> sbom_file \<Rightarrow> license_error + package_decision list" where
  "scan_sbom lib rules today = (\<lambda>(stem, content).
     bind_r (sbom_packages lib content) (map_r (decide_package lib rules today stem)))"

definition add_count :: "pytext \<Rightarrow> (pytext, int) dict \<Rightarrow> (pytext, int) dict" where
  "add_count key counts = dict_set key ((case dict_get counts key of None \<Rightarrow> 0 | Some n \<Rightarrow> n) + 1) counts"

definition decision_sort_key :: "package_decision \<Rightarrow> pytext list" where
  "decision_sort_key d = [pd_artifact d, pd_name d, pd_version d]"

record license_report =
  lr_generated_on :: pytext
  lr_counts :: "(pytext, int) dict"
  lr_release_allowed :: bool
  lr_internal_allowed :: bool
  lr_packages :: "package_decision list"

definition report_of :: "pytext \<Rightarrow> package_decision list \<Rightarrow> license_report" where
  "report_of generated_on decisions =
     (let counts = fold (\<lambda>d. add_count (disposition_text (pd_disposition d))) decisions [] in
      \<lparr>lr_generated_on = generated_on, lr_counts = sort_key fst counts,
       lr_release_allowed =
         \<not> list_ex (\<lambda>key. dict_get counts (text_of key) \<noteq> None) [''DENIED'', ''UNKNOWN'', ''REVIEW_REQUIRED''],
       lr_internal_allowed = (dict_get counts (text_of ''DENIED'') = None),
       lr_packages = sort_key decision_sort_key decisions\<rparr>)"

definition build_report ::
    "license_lib \<Rightarrow> license_rules \<Rightarrow> int \<Rightarrow> pytext \<Rightarrow> sbom_file list \<Rightarrow> license_error + license_report" where
  "build_report lib rules today generated_on paths =
     bind_r (map_r (scan_sbom lib rules today) paths) (\<lambda>decisions. Inr (report_of generated_on (concat decisions)))"

definition decision_document :: "package_decision \<Rightarrow> json" where
  "decision_document d =
     JObj [(text_of ''artifact'', JStr (pd_artifact d)), (text_of ''name'', JStr (pd_name d)),
           (text_of ''version'', JStr (pd_version d)), (text_of ''purl'', JStr (pd_purl d)),
           (text_of ''license'', JStr (pd_license d)),
           (text_of ''disposition'', JStr (disposition_text (pd_disposition d))),
           (text_of ''obligation'', JStr (pd_obligation d)),
           (text_of ''declaredLicense'', JStr (pd_declared_license d)),
           (text_of ''licenseSource'', JStr (pd_license_source d))]"

definition report_document :: "license_report \<Rightarrow> json_dict" where
  "report_document r =
     [(text_of ''schemaVersion'', JStr (text_of ''gcs-saker.license-compliance.v2'')),
      (text_of ''generatedOn'', JStr (lr_generated_on r)),
      (text_of ''counts'', JObj (map (\<lambda>(k, n). (k, JInt n)) (lr_counts r))),
      (text_of ''releaseAllowed'', JBool (lr_release_allowed r)),
      (text_of ''internalDeploymentAllowed'', JBool (lr_internal_allowed r)),
      (text_of ''packages'', JList (map decision_document (lr_packages r)))]"

section \<open>The notices\<close>

definition package_notice :: "package_decision \<Rightarrow> pytext list" where
  "package_notice d =
     [text_of ''## '' @ pd_name d @ text_of '' '' @ pd_version d, [],
      text_of ''- Artifact: `'' @ pd_artifact d @ text_of ''`'',
      text_of ''- Package URL: `'' @ (if pd_purl d = [] then text_of ''unavailable'' else pd_purl d) @ text_of ''`'',
      text_of ''- Effective license: `'' @ pd_license d @ text_of ''`'',
      text_of ''- SBOM declared license: `'' @ pd_declared_license d @ text_of ''`'',
      text_of ''- License source: '' @ pd_license_source d,
      text_of ''- Disposition: `'' @ disposition_text (pd_disposition d) @ text_of ''`'',
      text_of ''- Obligation: '' @ pd_obligation d, []]"

definition notice_lines :: "license_report \<Rightarrow> pytext list" where
  "notice_lines r =
     [text_of ''# Third-party notices'', [], text_of ''Generated: '' @ lr_generated_on r, []] @
     concat (map package_notice (filter (\<lambda>d. pd_disposition d \<noteq> FirstParty) (lr_packages r)))"

definition notice_markdown :: "license_report \<Rightarrow> pytext" where
  "notice_markdown r = join_with [10] (notice_lines r)"

section \<open>The command\<close>

record license_args =
  la_sboms :: "sbom_file list"
  la_policy :: "bytes option"
  la_approvals :: "bytes option"
  la_resolutions :: "bytes option"
  la_enforce :: bool
  la_internal :: bool

text \<open>The report and the notices it writes, and whether it fails after writing them.\<close>

definition license_main ::
    "license_lib \<Rightarrow> int \<Rightarrow> pytext \<Rightarrow> license_args \<Rightarrow> license_error + (license_report \<times> pytext \<times> bool)" where
  "license_main lib today generated_on args =
     bind_r (load_yaml lib (la_policy args)) (\<lambda>policy.
     bind_r (load_yaml lib (la_approvals args)) (\<lambda>approvals.
     bind_r (load_resolutions lib (la_resolutions args)) (\<lambda>resolutions.
     let rules = \<lparr>lu_policy = policy, lu_approvals = default_get approvals ''approvals'' (JList []),
                  lu_resolutions = resolutions\<rparr> in
     bind_r (build_report lib rules today generated_on (la_sboms args)) (\<lambda>report.
     let allowed = (if la_internal args then lr_internal_allowed report else lr_release_allowed report) in
     Inr (report, notice_markdown report, la_enforce args \<and> \<not> allowed)))))"

section \<open>Dispositions of a report\<close>

lemma add_count_get:
  "dict_get (add_count key counts) k = (if k = key then Some ((case dict_get counts key of None \<Rightarrow> 0 | Some n \<Rightarrow> n) + 1) else dict_get counts k)"
  by (simp add: add_count_def)

lemma counts_get:
  "dict_get (fold (\<lambda>d. add_count (f d)) ds counts) k =
     (let n = int (length (filter (\<lambda>d. f d = k) ds)) in
      case dict_get counts k of None \<Rightarrow> if n = 0 then None else Some n | Some m \<Rightarrow> Some (m + n))"
  by (induction ds arbitrary: counts) (auto simp: add_count_get Let_def split: option.splits)

lemma disposition_text_inj: "disposition_text a = disposition_text b \<longleftrightarrow> a = b"
  by (cases a; cases b) (simp_all add: disposition_text_def text_of_eq_iff del: text_of_simps)

lemma disposition_texts:
  "text_of ''DENIED'' = disposition_text Denied" "text_of ''UNKNOWN'' = disposition_text Unknown"
  "text_of ''REVIEW_REQUIRED'' = disposition_text ReviewRequired"
  by (simp_all add: disposition_text_def del: text_of_simps)

lemma count_absent:
  "dict_get (fold (\<lambda>d. add_count (disposition_text (pd_disposition d))) ds []) (disposition_text x) = None \<longleftrightarrow>
     (\<forall>d \<in> set ds. pd_disposition d \<noteq> x)"
  by (auto simp: counts_get Let_def disposition_text_inj filter_empty_conv)

lemma report_flags:
  "lr_release_allowed (report_of g ds) \<longleftrightarrow> (\<forall>d \<in> set ds. pd_disposition d \<in> {FirstParty, Allowed, ReviewApproved})"
  "lr_internal_allowed (report_of g ds) \<longleftrightarrow> (\<forall>d \<in> set ds. pd_disposition d \<noteq> Denied)"
  "set (lr_packages (report_of g ds)) = set ds"
proof -
  have "x \<in> {FirstParty, Allowed, ReviewApproved} \<longleftrightarrow> x \<noteq> Denied \<and> x \<noteq> Unknown \<and> x \<noteq> ReviewRequired" for x
    by (cases x) simp_all
  then show "lr_release_allowed (report_of g ds) \<longleftrightarrow> (\<forall>d \<in> set ds. pd_disposition d \<in> {FirstParty, Allowed, ReviewApproved})"
    by (auto simp: report_of_def Let_def disposition_texts count_absent simp del: text_of_simps)
qed (auto simp: report_of_def Let_def disposition_texts count_absent simp del: text_of_simps)

section \<open>SPDX expressions\<close>

text \<open>The expressions whose texts the gate reads.\<close>

datatype spdx = SpdxLicense pytext | SpdxAnd spdx spdx | SpdxOr spdx spdx | SpdxWith spdx pytext

definition spdx_name :: "pytext \<Rightarrow> bool" where
  "spdx_name s \<longleftrightarrow> s \<noteq> [] \<and> ascii_alnum (hd s) \<and> list_all spdx_char s \<and> s \<notin> set LOGICAL_TOKENS"

fun spdx_ok :: "spdx \<Rightarrow> bool" where
  "spdx_ok (SpdxLicense s) = spdx_name s"
| "spdx_ok (SpdxAnd a b) = (spdx_ok a \<and> spdx_ok b)"
| "spdx_ok (SpdxOr a b) = (spdx_ok a \<and> spdx_ok b)"
| "spdx_ok (SpdxWith a x) = (spdx_ok a \<and> spdx_name x)"

fun render_spdx :: "spdx \<Rightarrow> pytext" where
  "render_spdx (SpdxLicense s) = s"
| "render_spdx (SpdxAnd a b) = 40 # render_spdx a @ 32 # text_of ''AND'' @ 32 # render_spdx b @ [41]"
| "render_spdx (SpdxOr a b) = 40 # render_spdx a @ 32 # text_of ''OR'' @ 32 # render_spdx b @ [41]"
| "render_spdx (SpdxWith a x) = 40 # render_spdx a @ 32 # text_of ''WITH'' @ 32 # x @ [41]"

fun licenses_of :: "spdx \<Rightarrow> pytext set" where
  "licenses_of (SpdxLicense s) = {s}"
| "licenses_of (SpdxAnd a b) = licenses_of a \<union> licenses_of b"
| "licenses_of (SpdxOr a b) = licenses_of a \<union> licenses_of b"
| "licenses_of (SpdxWith a x) = insert x (licenses_of a)"

text \<open>What a set of permitted names permits, whichever side of an alternative is chosen.\<close>

fun permits :: "pytext set \<Rightarrow> spdx \<Rightarrow> bool" where
  "permits ns (SpdxLicense s) \<longleftrightarrow> s \<in> ns"
| "permits ns (SpdxAnd a b) \<longleftrightarrow> permits ns a \<and> permits ns b"
| "permits ns (SpdxOr a b) \<longleftrightarrow> permits ns a \<and> permits ns b"
| "permits ns (SpdxWith a x) \<longleftrightarrow> permits ns a \<and> x \<in> ns"

definition token_ends :: "pytext \<Rightarrow> bool" where
  "token_ends r \<longleftrightarrow> r = [] \<or> \<not> spdx_char (hd r)"

fun spdx_tokens :: "spdx \<Rightarrow> pytext list" where
  "spdx_tokens (SpdxLicense s) = [s]"
| "spdx_tokens (SpdxAnd a b) = spdx_tokens a @ text_of ''AND'' # spdx_tokens b"
| "spdx_tokens (SpdxOr a b) = spdx_tokens a @ text_of ''OR'' # spdx_tokens b"
| "spdx_tokens (SpdxWith a x) = spdx_tokens a @ [text_of ''WITH'', x]"

lemma findall_token:
  assumes "s \<noteq> []" and "ascii_alnum (hd s)" and "list_all spdx_char s" and "token_ends r"
  shows "spdx_findall (s @ r) = s # spdx_findall r"
proof -
  obtain c cs where s: "s = c # cs" using assms(1) by (cases s) auto
  have "takeWhile spdx_char (cs @ r) = cs" "dropWhile spdx_char (cs @ r) = r"
    using assms(3,4) s by (auto simp: token_ends_def takeWhile_append dropWhile_append list_all_iff takeWhile_eq_Nil_iff dropWhile_eq_self_iff)
  then show ?thesis using assms(2) s by simp
qed

lemma findall_skip: "\<not> ascii_alnum c \<Longrightarrow> spdx_findall (c # r) = spdx_findall r"
  by simp

lemma findall_words:
  "token_ends r \<Longrightarrow> spdx_findall (text_of ''AND'' @ r) = text_of ''AND'' # spdx_findall r"
  "token_ends r \<Longrightarrow> spdx_findall (text_of ''OR'' @ r) = text_of ''OR'' # spdx_findall r"
  "token_ends r \<Longrightarrow> spdx_findall (text_of ''WITH'' @ r) = text_of ''WITH'' # spdx_findall r"
  by (rule findall_token; simp add: ascii_alnum_def ascii_alpha_def spdx_char_def)+

lemma separators:
  "token_ends (32 # r)" "token_ends (41 # r)" "\<not> ascii_alnum 32" "\<not> ascii_alnum 40" "\<not> ascii_alnum 41"
  by (simp_all add: token_ends_def spdx_char_def ascii_alnum_def ascii_alpha_def ascii_digit_def)

lemma findall_render: "spdx_ok e \<Longrightarrow> token_ends r \<Longrightarrow> spdx_findall (render_spdx e @ r) = spdx_tokens e @ spdx_findall r"
proof (induction e arbitrary: r)
  case (SpdxLicense s)
  then show ?case using findall_token [of s r] by (simp add: spdx_name_def)
next
  case (SpdxWith a x)
  then have "spdx_findall (x @ 41 # r) = x # spdx_findall (41 # r)"
    using findall_token [of x "41 # r"] separators(2) by (simp add: spdx_name_def)
  with SpdxWith show ?case by (simp add: findall_skip findall_words separators del: spdx_findall.simps text_of_simps)
qed (simp_all add: findall_skip findall_words separators del: spdx_findall.simps text_of_simps)

lemma spdx_tokens_set: "spdx_ok e \<Longrightarrow> set (filter (\<lambda>t. t \<notin> set LOGICAL_TOKENS) (spdx_tokens e)) = licenses_of e"
proof (induction e)
  case (SpdxLicense s)
  then show ?case by (simp add: spdx_name_def)
next
  case (SpdxAnd a b)
  then show ?case by (simp add: LOGICAL_TOKENS_def image_Un del: text_of_simps)
next
  case (SpdxOr a b)
  then show ?case by (simp add: LOGICAL_TOKENS_def image_Un del: text_of_simps)
next
  case (SpdxWith a x)
  then show ?case by (simp add: LOGICAL_TOKENS_def spdx_name_def del: text_of_simps)
qed

lemma license_tokens_render: "spdx_ok e \<Longrightarrow> license_tokens (render_spdx e) = licenses_of e"
  using findall_render [of e "[]"] spdx_tokens_set [of e] by (simp add: license_tokens_def token_ends_def)

lemma permits_iff: "permits ns e \<longleftrightarrow> licenses_of e \<subseteq> ns"
  by (induction e) auto

section \<open>Permitted packages\<close>

definition first_party :: "license_rules \<Rightarrow> pytext \<Rightarrow> bool" where
  "first_party rules purl \<longleftrightarrow>
     (\<exists>vs p. iter_items (default_get (lu_policy rules) ''firstPartyPurlPrefixes'' (JList [])) = Inr vs \<and> JStr p \<in> set vs \<and>
        starts_with p purl)"

definition approved :: "license_lib \<Rightarrow> license_rules \<Rightarrow> int \<Rightarrow> pytext \<Rightarrow> pytext \<Rightarrow> bool" where
  "approved lib rules today purl expression \<longleftrightarrow>
     (\<exists>vs a expires. iter_items (lu_approvals rules) = Inr vs \<and> JObj a \<in> set vs \<and> json_get a ''purl'' = JStr purl \<and>
        json_get a ''licenseExpression'' = JStr expression \<and> truthy (json_get a ''approvedBy'') \<and>
        ll_date lib (json_text (ll_str lib) (json_get a ''expiresAt'')) = Some expires \<and> today \<le> expires)"

text \<open>
  First-party, or under a resolved expression with no denied licence that is allowed throughout or
  has an approval that is still valid.
\<close>

definition package_permitted :: "license_lib \<Rightarrow> license_rules \<Rightarrow> int \<Rightarrow> json_dict \<Rightarrow> bool" where
  "package_permitted lib rules today package \<longleftrightarrow>
     (\<exists>purl expression source denied allowed.
        package_purl lib package = Inr purl \<and> effective_license lib package (lu_resolutions rules) = Inr (expression, source) \<and>
        (first_party rules purl \<or>
         \<not> unresolved expression \<and>
         text_set (default_get (lu_policy rules) ''deniedLicenses'' (JList [])) = Inr denied \<and>
         text_set (default_get (lu_policy rules) ''allowedLicenses'' (JList [])) = Inr allowed \<and>
         license_tokens expression \<inter> denied = {} \<and>
         (license_tokens expression \<noteq> {} \<and> license_tokens expression \<subseteq> allowed \<or> approved lib rules today purl expression)))"

lemma any_prefix_True: "any_prefix purl vs = Inr True \<Longrightarrow> \<exists>p. JStr p \<in> set vs \<and> starts_with p purl"
  by (induction vs) (auto split: json.splits if_splits)

lemma find_approval_Some:
  "find_approval lib purl expression today vs = Inr (Some a) \<Longrightarrow>
     JObj a \<in> set vs \<and> json_get a ''purl'' = JStr purl \<and> json_get a ''licenseExpression'' = JStr expression \<and>
     truthy (json_get a ''approvedBy'') \<and>
     (\<exists>expires. ll_date lib (json_text (ll_str lib) (json_get a ''expiresAt'')) = Some expires \<and> today \<le> expires)"
  by (induction vs) (auto simp: bind_r_eq_Inr as_object_def split: json.splits if_splits option.splits)

lemma active_approval_approved:
  "active_approval lib (lu_approvals rules) purl expression today = Inr (Some a) \<Longrightarrow> approved lib rules today purl expression"
  by (auto simp: active_approval_def bind_r_eq_Inr approved_def dest!: find_approval_Some)

lemma classify_permitted:
  assumes "classify_package lib package rules today = Inr (d, obligation, expression, source)"
    and "d \<in> {FirstParty, Allowed, ReviewApproved}"
  shows "package_permitted lib rules today package"
proof -
  obtain purl fp where e: "effective_license lib package (lu_resolutions rules) = Inr (expression, source)"
      "package_purl lib package = Inr purl"
      "bind_r (iter_items (default_get (lu_policy rules) ''firstPartyPurlPrefixes'' (JList []))) (any_prefix purl) = Inr fp"
    using assms(1) by (auto simp: classify_package_def bind_r_eq_Inr Let_def split: if_splits option.splits simp del: text_of_simps)
  show ?thesis
  proof (cases fp)
    case True
    then have "first_party rules purl"
      using e(3) any_prefix_True by (fastforce simp: bind_r_eq_Inr first_party_def)
    with e show ?thesis by (auto simp: package_permitted_def)
  next
    case False
    with assms e obtain denied allowed where "\<not> unresolved expression"
        "text_set (default_get (lu_policy rules) ''deniedLicenses'' (JList [])) = Inr denied"
        "text_set (default_get (lu_policy rules) ''allowedLicenses'' (JList [])) = Inr allowed"
        "license_tokens expression \<inter> denied = {}"
        "license_tokens expression \<noteq> {} \<and> license_tokens expression \<subseteq> allowed \<or> approved lib rules today purl expression"
      by (auto simp: classify_package_def bind_r_eq_Inr Let_def dest!: active_approval_approved
          split: if_splits option.splits simp del: text_of_simps)
    with e show ?thesis unfolding package_permitted_def by blast
  qed
qed

lemma scanned_package:
  assumes "build_report lib rules today g sboms = Inr report" and "(stem, content) \<in> set sboms"
    and "sbom_packages lib content = Inr packages" and "v \<in> set packages"
  obtains d where "decide_package lib rules today stem v = Inr d" and "d \<in> set (lr_packages report)"
proof -
  obtain dss where d: "map_r (scan_sbom lib rules today) sboms = Inr dss" "report = report_of g (concat dss)"
    using assms(1) by (auto simp: build_report_def bind_r_eq_Inr)
  obtain i where i: "i < length sboms" "sboms ! i = (stem, content)" using assms(2) by (auto simp: in_set_conv_nth)
  have "scan_sbom lib rules today (stem, content) = Inr (dss ! i)" using map_r_nth [OF d(1) i(1)] i(2) by simp
  then have ds: "map_r (decide_package lib rules today stem) packages = Inr (dss ! i)"
    using assms(3) by (simp add: scan_sbom_def)
  obtain k where k: "k < length packages" "packages ! k = v" using assms(4) by (auto simp: in_set_conv_nth)
  have "decide_package lib rules today stem v = Inr (dss ! i ! k)" using map_r_nth [OF ds k(1)] k(2) by simp
  moreover have "dss ! i ! k \<in> set (lr_packages report)"
  proof -
    have "dss ! i \<in> set dss" "dss ! i ! k \<in> set (dss ! i)"
      using map_r_length [OF d(1)] map_r_length [OF ds] i(1) k(1) by simp_all
    then show ?thesis by (auto simp: d(2) report_flags(3))
  qed
  ultimately show ?thesis by (rule that)
qed

lemma decide_package_Inr:
  "decide_package lib rules today stem v = Inr d \<Longrightarrow>
     \<exists>package. v = JObj package \<and>
       (\<exists>source. classify_package lib package rules today = Inr (pd_disposition d, pd_obligation d, pd_license d, source))"
  by (auto simp: decide_package_def bind_r_eq_Inr as_object_def split: json.splits)

lemma report_document_get:
  "json_get (report_document r) ''releaseAllowed'' = JBool (lr_release_allowed r)"
  "json_get (report_document r) ''internalDeploymentAllowed'' = JBool (lr_internal_allowed r)"
  by (simp_all add: report_document_def json_get_Cons del: text_of_simps)

section \<open>Properties\<close>

text \<open>
  C29: From the SBOM to the release: when \<open>create_entry\<close> writes the entry of an image for distribution
  and the licence report it was given is the one \<open>build_report\<close> made, every package of every scanned
  SBOM is permitted: it is first-party, or its licence is resolved, not denied, and allowed
  throughout or covered by an approval that has not expired.
\<close>

theorem distributed_packages_permitted:
  assumes "create_entry rl args = Inr e" and "ea_license_scope args \<noteq> text_of ''internal-service''"
    and "load_json rl (ea_license_report args) = Inr d" and "same_fields (report_document report) d"
    and "build_report lib rules today g sboms = Inr report"
    and "(stem, content) \<in> set sboms" and "sbom_packages lib content = Inr packages" and "v \<in> set packages"
  shows "\<exists>package. v = JObj package \<and> package_permitted lib rules today package"
proof -
  have "json_get d ''releaseAllowed'' = JBool True"
    using assms(2,3) by (auto intro: create_entry_Inr [OF assms(1)])
  then have "lr_release_allowed report"
    using same_fields_views(2) [OF assms(4)] by (simp add: report_document_get)
  moreover obtain ds where "report = report_of g ds" using assms(5) by (auto simp: build_report_def bind_r_eq_Inr)
  moreover obtain dec where dec: "decide_package lib rules today stem v = Inr dec" "dec \<in> set (lr_packages report)"
    by (rule scanned_package [OF assms(5-8)])
  ultimately have "pd_disposition dec \<in> {FirstParty, Allowed, ReviewApproved}" by (simp add: report_flags)
  then show ?thesis using decide_package_Inr [OF dec(1)] classify_permitted by blast
qed

text \<open>
  The gate reads SPDX expressions as they are meant: the tokens it finds in the text of an
  expression are its licences and exceptions, so a set of names covers them exactly when it permits
  the expression whichever alternative is chosen.
\<close>

theorem spdx_tokens_are_licenses:
  assumes "spdx_ok e"
  shows "license_tokens (render_spdx e) = licenses_of e \<and> (license_tokens (render_spdx e) \<subseteq> ns \<longleftrightarrow> permits ns e)"
  using license_tokens_render [OF assms] by (simp add: permits_iff)

definition audited :: "pytext \<times> pytext \<times> pytext \<Rightarrow> bool" where
  "audited = (\<lambda>(purl, license, source).
     starts_with (text_of ''pkg:'') purl \<and> \<not> unresolved license \<and>
     (starts_with (text_of ''https://'') source \<or> image_evidence source))"

lemma add_resolutions_audited:
  "fold_r (add_resolution lib) entries r = Inr r' \<Longrightarrow> dict_ok r \<Longrightarrow> \<forall>x \<in> set r. audited x \<Longrightarrow>
     dict_ok r' \<and> (\<forall>x \<in> set r'. audited x) \<and> length r' = length r + length entries"
proof (induction entries arbitrary: r)
  case (Cons v entries)
  then obtain r1 where r1: "add_resolution lib v r = Inr r1" "fold_r (add_resolution lib) entries r1 = Inr r'"
    by (auto simp: bind_r_eq_Inr)
  obtain entry where v: "v = JObj entry" using r1(1) by (cases v) (simp_all add: add_resolution_def)
  define purl license source where "purl = stripped_get lib entry ''purl''" and "license = stripped_get lib entry ''licenseExpression''"
    and "source = stripped_get lib entry ''source''"
  with r1(1) have n: "r1 = dict_set purl (license, source) r" "audited (purl, license, source)" "dict_get r purl = None"
    by (auto simp: v add_resolution_def Let_def audited_def split: if_splits simp del: text_of_simps not_None_eq split_paired_Ex)
  have "r1 = r @ [(purl, license, source)]" using n(1,3) by (simp add: dict_get_None_iff dict_set_absent)
  moreover have "dict_ok r1" using n(1) Cons.prems(2) by simp
  ultimately show ?case using Cons.IH [OF r1(2)] Cons.prems(3) n(2) by simp
qed simp

text \<open>
  Resolutions are audited: each package is resolved once, under a package URL, to a resolved
  licence, with an HTTPS source or immutable image evidence.
\<close>

theorem resolutions_audited:
  assumes "load_resolutions lib content = Inr r"
  shows "dict_ok r \<and> (\<forall>x \<in> set r. audited x)"
proof -
  obtain d where d: "(case default_get d ''resolutions'' (JList []) of
         JList entries \<Rightarrow> fold_r (add_resolution lib) entries []
       | _ \<Rightarrow> Inl (LicenseComplianceError ''license resolutions must be a list'')) = Inr r"
    using assms by (auto simp: load_resolutions_def bind_r_eq_Inr)
  then obtain entries where "fold_r (add_resolution lib) entries [] = Inr r"
    by (cases "default_get d ''resolutions'' (JList [])") auto
  from add_resolutions_audited [OF this] show ?thesis by simp
qed

text \<open>Every package of another party is named in the notices with its licence.\<close>

lemma notices_cover:
  assumes "d \<in> set (lr_packages r)" and "pd_disposition d \<noteq> FirstParty"
  shows "\<exists>before after. notice_lines r = before @ package_notice d @ after"
proof -
  obtain xs ys where "filter (\<lambda>d. pd_disposition d \<noteq> FirstParty) (lr_packages r) = xs @ d # ys"
    using assms split_list [of d "filter (\<lambda>d. pd_disposition d \<noteq> FirstParty) (lr_packages r)"] by auto
  then show ?thesis
    by (intro exI [of _ "[text_of ''# Third-party notices'', [], text_of ''Generated: '' @ lr_generated_on r, []] @ concat (map package_notice xs)"]
        exI [of _ "concat (map package_notice ys)"]) (simp add: notice_lines_def del: text_of_simps)
qed

section \<open>A report\<close>

definition sample_package :: json_dict where
  "sample_package = [(text_of ''licenseDeclared'', JStr (text_of ''MIT''))]"

definition sample_rules :: license_rules where
  "sample_rules =
     \<lparr>lu_policy = [(text_of ''allowedLicenses'', JList [JStr (text_of ''MIT'')])], lu_approvals = JList [], lu_resolutions = []\<rparr>"

definition sample_resolution :: json where
  "sample_resolution =
     JObj [(text_of ''purl'', JStr (text_of ''pkg:a'')), (text_of ''licenseExpression'', JStr (text_of ''MIT'')),
           (text_of ''source'', JStr (text_of ''https://a'')), (text_of ''verifiedBy'', JStr (text_of ''b'')),
           (text_of ''verifiedOn'', JStr (text_of ''c''))]"

definition sample_license_lib :: license_lib where
  "sample_license_lib =
     \<lparr>ll_json_loads = \<lambda>_. Some (JObj [(text_of ''packages'', JList [JObj sample_package])]),
      ll_yaml_load = \<lambda>_. Some (JObj [(text_of ''resolutions'', JList [sample_resolution])]),
      ll_str = \<lambda>_. [], ll_date = \<lambda>_. Some 0\<rparr>"

definition sample_license_report :: license_report where
  "sample_license_report =
     (case build_report sample_license_lib sample_rules 0 [] [(text_of ''s'', Some [])] of Inr r \<Rightarrow> r | Inl _ \<Rightarrow> report_of [] [])"

definition report_lib :: release_lib where
  "report_lib = \<lparr>rl_sha256 = \<lambda>_. replicate 64 97, rl_json_loads = \<lambda>_. Some (JObj (report_document sample_license_report)),
     rl_str = \<lambda>_. [], rl_date = \<lambda>_. Some 0\<rparr>"

lemma read_nothing: "read_text [] = Some []"
  by (simp add: read_text_def utf8_decode_def utf8_decode_octets.simps)

lemma sample_packages: "sbom_packages sample_license_lib (Some []) = Inr [JObj sample_package]"
  by (simp add: sbom_packages_def read_nothing sample_license_lib_def json_get_Cons del: text_of_simps)

lemma sample_expression:
  "py_strip (text_of ''MIT'') = text_of ''MIT''" "\<not> unresolved (text_of ''MIT'')" "license_tokens (text_of ''MIT'') = {text_of ''MIT''}"
  "\<not> starts_with (text_of ''LicenseRef-'') (text_of ''MIT'')" "text_of ''MIT'' \<notin> set UNKNOWN_EXPRESSIONS"
proof -
  show "py_strip (text_of ''MIT'') = text_of ''MIT''" by (simp add: py_strip_def strip_both_def strip_right_def py_space_def)
  show r: "\<not> starts_with (text_of ''LicenseRef-'') (text_of ''MIT'')" "text_of ''MIT'' \<notin> set UNKNOWN_EXPRESSIONS"
    by (simp_all add: starts_with_def UNKNOWN_EXPRESSIONS_def)
  then show "\<not> unresolved (text_of ''MIT'')" by (simp add: unresolved_def del: text_of_simps)
  have "spdx_ok (SpdxLicense (text_of ''MIT''))"
    by (simp add: spdx_name_def LOGICAL_TOKENS_def spdx_char_def ascii_alnum_def ascii_alpha_def)
  from license_tokens_render [OF this] show "license_tokens (text_of ''MIT'') = {text_of ''MIT''}" by simp
qed

lemma sample_purl: "package_purl sample_license_lib sample_package = Inr []"
  by code_simp

lemma sample_decision: "classify_package sample_license_lib sample_package sample_rules 0 =
   Inr (Allowed, text_of ''retain copyright and license notice'', text_of ''MIT'', text_of ''SBOM licenseDeclared'')"
proof -
  have "stripped_get sample_license_lib sample_package ''licenseDeclared'' = text_of ''MIT''"
    by (simp add: stripped_get_def sample_package_def text_get_Cons sample_expression del: text_of_simps)
  then have "effective_license sample_license_lib sample_package r = Inr (text_of ''MIT'', text_of ''SBOM licenseDeclared'')" for r
    using sample_expression sample_purl by (simp add: effective_license_def Let_def del: text_of_simps)
  moreover have "default_get (lu_policy sample_rules) ''firstPartyPurlPrefixes'' e = e"
      "default_get (lu_policy sample_rules) ''deniedLicenses'' e = e"
      "default_get (lu_policy sample_rules) ''allowedLicenses'' e = JList [JStr (text_of ''MIT'')]" for e
    by (simp_all add: default_get_def sample_rules_def dict_get_def text_of_eq_iff del: text_of_simps)
  ultimately show ?thesis
    using sample_expression sample_purl
    by (simp add: classify_package_def Let_def iter_items_def text_set_def del: text_of_simps)
qed

lemma sample_report:
  "build_report sample_license_lib sample_rules 0 [] [(text_of ''s'', Some [])] = Inr sample_license_report"
  "lr_release_allowed sample_license_report"
proof -
  obtain d where d: "decide_package sample_license_lib sample_rules 0 (text_of ''s'') (JObj sample_package) = Inr d" "pd_disposition d = Allowed"
    by (simp add: decide_package_def as_object_def sample_decision sample_purl del: text_of_simps)
  then have b: "build_report sample_license_lib sample_rules 0 [] [(text_of ''s'', Some [])] = Inr (report_of [] [d])"
    by (simp add: build_report_def scan_sbom_def sample_packages del: text_of_simps)
  then show "build_report sample_license_lib sample_rules 0 [] [(text_of ''s'', Some [])] = Inr sample_license_report"
   "lr_release_allowed sample_license_report"
    using d(2) by (simp_all add: sample_license_report_def report_flags)
qed

lemma report_read: "load_json report_lib (Some (ascii_bytes (text_of ''L''))) = Inr (report_document sample_license_report)"
  by (simp add: load_json_def letter_text report_lib_def del: text_of_simps)

lemma report_entry: "\<exists>e. create_entry report_lib (build_args service) = Inr e"
  by (simp add: create_entry_def build_args_def report_read report_document_get sample_report(2) Let_def text_of_eq_iff
      valid_image_reference_iff sample_image file_sha256_def del: text_of_simps)

theorem distributed_packages_permitted_witness:
  "\<exists>package. JObj sample_package = JObj package \<and> package_permitted sample_license_lib sample_rules 0 package"
proof -
  obtain e where e: "create_entry report_lib (build_args (text_of ''turn'')) = Inr e" using report_entry by blast
  have "ea_license_scope (build_args (text_of ''turn'')) \<noteq> text_of ''internal-service''"
      "load_json report_lib (ea_license_report (build_args (text_of ''turn''))) = Inr (report_document sample_license_report)"
    using report_read by (simp_all add: build_args_def text_of_eq_iff del: text_of_simps)
  from distributed_packages_permitted [OF e this _ sample_report(1) _ sample_packages, of "text_of ''s''" "JObj sample_package"]
  show ?thesis by (simp add: same_fields_def)
qed

theorem spdx_tokens_are_licenses_witness:
  "license_tokens (render_spdx (SpdxOr (SpdxLicense (text_of ''MIT'')) (SpdxWith (SpdxLicense (text_of ''GPL-2.0+'')) (text_of ''x'')))) =
     {text_of ''MIT'', text_of ''GPL-2.0+'', text_of ''x''}"
proof -
  have "spdx_ok (SpdxOr (SpdxLicense (text_of ''MIT'')) (SpdxWith (SpdxLicense (text_of ''GPL-2.0+'')) (text_of ''x'')))"
    by code_simp
  from spdx_tokens_are_licenses [OF this] show ?thesis by (auto simp del: text_of_simps)
qed

lemma sample_strip:
  "py_strip (text_of ''pkg:a'') = text_of ''pkg:'' @ text_of ''a''" "py_strip (text_of ''https://a'') = text_of ''https://'' @ text_of ''a''"
  "py_strip (text_of ''b'') \<noteq> []" "py_strip (text_of ''c'') \<noteq> []"
  by (simp_all add: py_strip_def strip_both_def strip_right_def py_space_def)

lemma starts_with_append: "starts_with p (p @ q)"
  by (auto simp: starts_with_iff)

lemma sample_resolved: "\<exists>r. fold_r (add_resolution sample_license_lib) [sample_resolution] [] = Inr r"
proof -
  have "stripped_get sample_license_lib d k = py_strip (text_get (\<lambda>_. []) d k [])" for d k
    by (simp add: stripped_get_def sample_license_lib_def)
  then show ?thesis
    using sample_expression
    by (simp add: add_resolution_def sample_resolution_def text_get_Cons Let_def json_text_def sample_strip starts_with_append
        sample_license_lib_def del: text_of_simps)
qed

theorem resolutions_audited_witness:
  "\<exists>r. load_resolutions sample_license_lib (Some []) = Inr r \<and> (\<forall>x \<in> set r. audited x)"
proof -
  have "load_yaml sample_license_lib (Some []) = Inr [(text_of ''resolutions'', JList [sample_resolution])]"
    by (simp add: load_yaml_def read_nothing sample_license_lib_def)
  moreover obtain r where "fold_r (add_resolution sample_license_lib) [sample_resolution] [] = Inr r"
    using sample_resolved by blast
  ultimately have "load_resolutions sample_license_lib (Some []) = Inr r"
    by (simp add: load_resolutions_def default_get_def dict_get_def del: text_of_simps fold_r.simps)
  from this resolutions_audited [OF this] show ?thesis by blast
qed
end
