(* ===== verification/Firewall.thy ===== *)
theory Firewall
  imports Ops_Base "HOL-Library.List_Lexorder"
begin

text \<open>
  The read-only firewall drift check of the production server,
  \<open>scripts/ops/server01_firewall_drift_check.py\<close>: the published ports of the containers, the rules of
  Docker's user chain, the host firewall and the two rule back ends against one policy. The outputs
  of the commands, the JSON reader, the IPv6 addresses that are loopback, the order in which Python
  visits a set and the digits of Unicode are an argument (\<open>fw_lib\<close>).
\<close>

section \<open>Libraries, bindings and results\<close>

text \<open>
  An exception of a class the script names in an \<open>except\<close> clause, with its class name; \<open>FwCrash\<close> is
  one it catches nowhere: \<open>KeyError\<close>, \<open>TypeError\<close>, \<open>AttributeError\<close>.
\<close>

datatype fw_error = FwCaught string | FwCrash

datatype fw_command = DockerPs | DockerInspect "pytext list" | IptablesRules | UfwStatus | IptablesVersion | NftRuleset

record fw_lib =
  fl_run :: "fw_command \<Rightarrow> fw_error + pytext"
  fl_json_loads :: "pytext \<Rightarrow> json option"
  fl_str :: "json \<Rightarrow> pytext"
  fl_loopback6 :: "pytext \<Rightarrow> bool"
  fl_set_order :: "pytext list \<Rightarrow> pytext list"
  fl_decimal :: "nat \<Rightarrow> nat option"

record port_binding =
  pb_container :: pytext
  pb_protocol :: pytext
  pb_container_port :: int
  pb_host_ip :: pytext
  pb_host_port :: int

datatype check_status = Pass | Fail | Blocked

record check_result =
  cr_name :: string
  cr_status :: check_status
  cr_detail :: pytext

section \<open>Access to the policy\<close>

definition object_of :: "json \<Rightarrow> fw_error + json_dict" where
  "object_of v = (case v of JObj d \<Rightarrow> Inr d | _ \<Rightarrow> Inl FwCrash)"

text \<open>\<open>d[k]\<close> and \<open>d.get(k, e)\<close>.\<close>

definition item :: "json_dict \<Rightarrow> string \<Rightarrow> fw_error + json" where
  "item d k = (case dict_get d (text_of k) of None \<Rightarrow> Inl FwCrash | Some v \<Rightarrow> Inr v)"

definition get_or :: "json_dict \<Rightarrow> pytext \<Rightarrow> json \<Rightarrow> json" where
  "get_or d k e = (case dict_get d k of None \<Rightarrow> e | Some v \<Rightarrow> v)"

text \<open>The items a loop visits; \<open>v or []\<close> first for values that may be missing.\<close>

definition loop_items :: "json \<Rightarrow> fw_error + json list" where
  "loop_items v =
     (case v of
        JList vs \<Rightarrow> Inr vs
      | JStr s \<Rightarrow> Inr (map (\<lambda>c. JStr [c]) s)
      | JObj d \<Rightarrow> Inr (map (\<lambda>(k, _). JStr k) d)
      | _ \<Rightarrow> Inl FwCrash)"

section \<open>Published ports\<close>

definition remove_slash :: "pytext \<Rightarrow> pytext" where
  "remove_slash s = (if starts_with [47] s then drop 1 s else s)"

text \<open>\<open>int(v)\<close>: a text must be a number, a float is cut off.\<close>

definition port_number :: "fw_lib \<Rightarrow> json \<Rightarrow> fw_error + int" where
  "port_number lib v =
     (case v of
        JInt i \<Rightarrow> Inr i
      | JBool b \<Rightarrow> Inr (if b then 1 else 0)
      | JStr s \<Rightarrow> (case text_int (fl_decimal lib) s of None \<Rightarrow> Inl (FwCaught ''ValueError'') | Some i \<Rightarrow> Inr i)
      | JFloat (Fin q) \<Rightarrow> Inr (trunc_rat q)
      | JFloat NaN \<Rightarrow> Inl (FwCaught ''ValueError'')
      | _ \<Rightarrow> Inl FwCrash)"

definition host_binding :: "fw_lib \<Rightarrow> pytext \<Rightarrow> pytext \<Rightarrow> pytext \<Rightarrow> json \<Rightarrow> fw_error + port_binding" where
  "host_binding lib name port_text protocol v =
     (case text_int (fl_decimal lib) port_text of
        None \<Rightarrow> Inl (FwCaught ''ValueError'')
      | Some port \<Rightarrow>
          bind_r (object_of v) (\<lambda>b.
          bind_r (port_number lib (get_or b (text_of ''HostPort'') (JInt 0))) (\<lambda>host_port.
            Inr \<lparr>pb_container = name, pb_protocol = protocol, pb_container_port = port,
                 pb_host_ip = text_get (fl_str lib) b ''HostIp'' [], pb_host_port = host_port\<rparr>)))"

definition endpoint_bindings :: "fw_lib \<Rightarrow> pytext \<Rightarrow> pytext \<times> json \<Rightarrow> fw_error + port_binding list" where
  "endpoint_bindings lib name = (\<lambda>(container_endpoint, host_bindings).
     if 47 \<notin> set container_endpoint then Inl (FwCaught ''ValueError'')
     else let (port_text, protocol) = split_first 47 container_endpoint in
       if \<not> truthy host_bindings then Inr []
       else bind_r (loop_items host_bindings) (map_r (host_binding lib name port_text protocol)))"

definition container_bindings :: "fw_lib \<Rightarrow> json \<Rightarrow> fw_error + port_binding list" where
  "container_bindings lib v =
     bind_r (object_of v) (\<lambda>container.
     bind_r (object_of (get_or container (text_of ''NetworkSettings'') (JObj []))) (\<lambda>settings.
     let ports = get_or settings (text_of ''Ports'') (JObj []) in
     bind_r (if truthy ports then object_of ports else Inr []) (\<lambda>ports.
     bind_r (map_r (endpoint_bindings lib (remove_slash (text_get (fl_str lib) container ''Name'' []))) ports) (\<lambda>bs.
       Inr (concat bs)))))"

definition parse_bindings :: "fw_lib \<Rightarrow> json \<Rightarrow> fw_error + port_binding list" where
  "parse_bindings lib payload =
     bind_r (loop_items payload) (\<lambda>containers. bind_r (map_r (container_bindings lib) containers) (\<lambda>bs. Inr (concat bs)))"

text \<open>An IPv4 address: four decimal octets without leading zeros.\<close>

definition ipv4_octet :: "pytext \<Rightarrow> bool" where
  "ipv4_octet s \<longleftrightarrow>
     s \<noteq> [] \<and> length s \<le> 3 \<and> list_all ascii_digit s \<and> (hd s = 48 \<longrightarrow> length s = 1) \<and> digits_value s 0 \<le> 255"

definition is_loopback :: "fw_lib \<Rightarrow> pytext \<Rightarrow> bool" where
  "is_loopback lib host_ip =
     (let octets = split_on 46 host_ip in
      if 58 \<in> set host_ip then fl_loopback6 lib host_ip
      else length octets = 4 \<and> list_all ipv4_octet octets \<and> hd octets = text_of ''127'')"

definition longest_first :: "pytext list \<Rightarrow> pytext list" where
  "longest_first cs = sort_key (\<lambda>c. - int (length c)) cs"

definition service_name :: "pytext \<Rightarrow> pytext list \<Rightarrow> pytext" where
  "service_name container_name candidates =
     (case find (\<lambda>c. contains c container_name) (longest_first candidates) of Some c \<Rightarrow> c | None \<Rightarrow> container_name)"

text \<open>\<open>port in v\<close> and \<open>start <= port <= end\<close>.\<close>

definition port_in :: "int \<Rightarrow> json \<Rightarrow> fw_error + bool" where
  "port_in port v =
     (case v of
        JList vs \<Rightarrow> Inr (list_ex (\<lambda>v. py_eq_int v port) vs)
      | JObj _ \<Rightarrow> Inr False
      | _ \<Rightarrow> Inl FwCrash)"

definition number_of :: "json \<Rightarrow> fw_error + pyfloat" where
  "number_of v =
     (case v of JInt i \<Rightarrow> Inr (Fin (of_int i)) | JBool b \<Rightarrow> Inr (Fin (if b then 1 else 0)) | JFloat f \<Rightarrow> Inr f | _ \<Rightarrow> Inl FwCrash)"

definition in_range :: "int \<Rightarrow> json \<Rightarrow> fw_error + bool" where
  "in_range port v =
     bind_r (loop_items v) (\<lambda>vs.
       case vs of
         [a, b] \<Rightarrow>
           bind_r (number_of a) (\<lambda>low.
             if \<not> fle low (Fin (of_int port)) then Inr False
             else bind_r (number_of b) (\<lambda>high. Inr (fle (Fin (of_int port)) high)))
       | _ \<Rightarrow> Inl (FwCaught ''ValueError''))"

fun any_range :: "int \<Rightarrow> json list \<Rightarrow> fw_error + bool" where
  "any_range port [] = Inr False"
| "any_range port (v # vs) = bind_r (in_range port v) (\<lambda>b. if b then Inr True else any_range port vs)"

definition public_binding_allowed :: "fw_lib \<Rightarrow> json_dict \<Rightarrow> port_binding \<Rightarrow> fw_error + bool" where
  "public_binding_allowed lib policy binding =
     (if is_loopback lib (pb_host_ip binding) then Inr True
      else
        bind_r (bind_r (item policy ''dockerPublicBindings'') object_of) (\<lambda>public_bindings.
        let service = service_name (pb_container binding) (fl_set_order lib (dict_keys public_bindings)) in
        case get_or public_bindings service JNull of
          JNull \<Rightarrow> Inr False
        | v \<Rightarrow>
            bind_r (object_of v) (\<lambda>service_policy.
            bind_r (port_in (pb_container_port binding) (get_or service_policy (pb_protocol binding) (JList []))) (\<lambda>listed.
            if listed then Inr True
            else if pb_protocol binding \<noteq> text_of ''udp'' then Inr False
            else bind_r (loop_items (get_or service_policy (text_of ''udpRanges'') (JList []))) (any_range (pb_container_port binding))))))"

definition binding_text :: "port_binding \<Rightarrow> pytext" where
  "binding_text b =
     pb_container b @ [58] @ pb_host_ip b @ [58] @ show_text (pb_host_port b) @ text_of ''->'' @
     show_text (pb_container_port b) @ [47] @ pb_protocol b"

fun denied_bindings :: "fw_lib \<Rightarrow> json_dict \<Rightarrow> port_binding list \<Rightarrow> fw_error + port_binding list" where
  "denied_bindings lib policy [] = Inr []"
| "denied_bindings lib policy (b # bs) =
     bind_r (public_binding_allowed lib policy b) (\<lambda>allowed.
     bind_r (denied_bindings lib policy bs) (\<lambda>ds. Inr (if allowed then ds else b # ds)))"

definition check_public_bindings :: "fw_lib \<Rightarrow> json_dict \<Rightarrow> port_binding list \<Rightarrow> fw_error + check_result" where
  "check_public_bindings lib policy bindings =
     bind_r (denied_bindings lib policy bindings) (\<lambda>denied.
       if denied \<noteq> []
       then Inr \<lparr>cr_name = ''docker.public_bindings'', cr_status = Fail,
                 cr_detail = join_with (text_of '', '') (map binding_text denied)\<rparr>
       else Inr \<lparr>cr_name = ''docker.public_bindings'', cr_status = Pass,
                 cr_detail = text_of ''validated '' @ show_text (int (length bindings)) @ text_of '' bindings''\<rparr>)"

section \<open>Docker's user chain\<close>

definition verdict_of :: "string \<Rightarrow> bool \<Rightarrow> string \<Rightarrow> string \<Rightarrow> check_result" where
  "verdict_of name ok good bad =
     \<lparr>cr_name = name, cr_status = (if ok then Pass else Fail), cr_detail = text_of (if ok then good else bad)\<rparr>"

definition has :: "string \<Rightarrow> pytext \<Rightarrow> bool" where
  "has needle line \<longleftrightarrow> contains (text_of needle) line"

definition denies :: "pytext \<Rightarrow> bool" where
  "denies line \<longleftrightarrow> has ''-j DROP'' line \<or> has ''-j REJECT'' line"

definition rule_lines :: "pytext \<Rightarrow> pytext list" where
  "rule_lines rules = filter (\<lambda>l. l \<noteq> []) (map py_strip (py_splitlines rules))"

definition chain_rules :: "pytext list \<Rightarrow> pytext list" where
  "chain_rules = filter (starts_with (text_of ''-A DOCKER-USER''))"

definition established_rule :: "pytext \<Rightarrow> bool" where
  "established_rule line \<longleftrightarrow> has ''--ctstate RELATED,ESTABLISHED'' line \<and> has ''-j ACCEPT'' line"

text \<open>The rules before the first one that denies, and those after it.\<close>

definition before_deny :: "pytext list \<Rightarrow> pytext list" where
  "before_deny rules = takeWhile (\<lambda>l. \<not> denies l) rules"

definition after_deny :: "pytext list \<Rightarrow> pytext list" where
  "after_deny rules = drop 1 (dropWhile (\<lambda>l. \<not> denies l) rules)"

definition flag :: "json_dict \<Rightarrow> string \<Rightarrow> fw_error + bool" where
  "flag d k = bind_r (item d k) (\<lambda>v. Inr (truthy v))"

text \<open>A flag of the policy is read only when the expression around it needs it.\<close>

definition check_docker_user_rules :: "json_dict \<Rightarrow> pytext \<Rightarrow> fw_error + check_result list" where
  "check_docker_user_rules policy rules =
     bind_r (item policy ''firewall'') (\<lambda>firewall.
     let lines = rule_lines rules; chain = chain_rules lines in
     if text_of ''-N DOCKER-USER'' \<notin> set lines
     then Inr [\<lparr>cr_name = ''firewall.docker_user_chain'', cr_status = Fail, cr_detail = text_of ''DOCKER-USER chain is missing''\<rparr>]
     else
       let established = list_ex established_rule lines;
           terminal_deny = list_ex denies chain;
           unconditional_accept = (text_of ''-A DOCKER-USER -j ACCEPT'' \<in> set chain);
           return_before_deny = list_ex (has ''-j RETURN'') (before_deny chain);
           accept_after_deny = list_ex (has ''-j ACCEPT'') (after_deny chain) in
       bind_r (object_of firewall) (\<lambda>firewall_policy.
       bind_r (flag firewall_policy ''forbidUnconditionalAccept'') (\<lambda>forbid_accept.
       bind_r (if forbid_accept \<and> unconditional_accept then Inr False else flag firewall_policy ''forbidReturnBeforeDeny'') (\<lambda>forbid_return.
       let ordered = (\<not> (forbid_accept \<and> unconditional_accept \<or> forbid_return \<and> return_before_deny \<or> accept_after_deny)) in
       bind_r (if established then Inr True else bind_r (flag firewall_policy ''requireEstablishedReturn'') (\<lambda>b. Inr (\<not> b))) (\<lambda>established_ok.
       bind_r (if terminal_deny then Inr True else bind_r (flag firewall_policy ''requireTerminalDeny'') (\<lambda>b. Inr (\<not> b))) (\<lambda>deny_ok.
       Inr [verdict_of ''firewall.established_return'' established_ok ''RELATED,ESTABLISHED traffic is accepted'' ''stateful return rule is missing'',
            verdict_of ''firewall.default_deny'' deny_ok ''terminal deny rule is present'' ''terminal DROP/REJECT is missing'',
            verdict_of ''firewall.rule_order'' ordered ''allow rules precede terminal deny'' ''ACCEPT/RETURN bypasses terminal deny'']))))))"

section \<open>The host firewall and the rule back ends\<close>

definition ufw_allows_port :: "fw_lib \<Rightarrow> pytext \<Rightarrow> json \<Rightarrow> bool" where
  "ufw_allows_port lib line port \<longleftrightarrow>
     (let fields = py_words line in
      fields \<noteq> [] \<and> takeWhile (\<lambda>c. c \<noteq> 47) (hd fields) = json_text (fl_str lib) port \<and> text_of ''ALLOW'' \<in> set fields)"

definition check_ufw_status :: "fw_lib \<Rightarrow> json_dict \<Rightarrow> pytext \<Rightarrow> fw_error + check_result list" where
  "check_ufw_status lib policy status_output =
     bind_r (bind_r (item policy ''hostFirewall'') object_of) (\<lambda>firewall_policy.
     let active = has ''Status: active'' status_output;
         allow_lines = map py_strip (filter (has ''ALLOW'') (py_splitlines status_output)) in
     bind_r (bind_r (item firewall_policy ''requiredPublicTcp'') loop_items) (\<lambda>required.
     let missing = filter (\<lambda>port. \<not> list_ex (\<lambda>line. ufw_allows_port lib line port) allow_lines) required in
     bind_r (bind_r (item firewall_policy ''forbiddenPublicTcp'') loop_items) (\<lambda>forbidden_ports.
     let forbidden = filter (\<lambda>port. list_ex (\<lambda>line. ufw_allows_port lib line port) allow_lines) forbidden_ports in
     Inr [verdict_of ''firewall.ufw_active'' active ''UFW is active'' ''UFW is inactive'',
          \<lparr>cr_name = ''firewall.host_ingress_required'', cr_status = (if missing = [] then Pass else Fail),
           cr_detail = (if missing = [] then text_of ''required host ingress is present''
                        else text_of ''missing TCP ports: '' @ fl_str lib (JList missing))\<rparr>,
          \<lparr>cr_name = ''firewall.host_ingress_private'', cr_status = (if forbidden = [] then Pass else Fail),
           cr_detail = (if forbidden = [] then text_of ''private ports are not allowed by UFW''
                        else text_of ''forbidden TCP ports: '' @ fl_str lib (JList forbidden))\<rparr>])))"

definition check_firewall_backend :: "pytext \<Rightarrow> pytext \<Rightarrow> check_result" where
  "check_firewall_backend iptables_version nft_ruleset =
     (let uses_nft = has ''nf_tables'' iptables_version;
          nft_has_docker_chain = has ''chain DOCKER-USER'' nft_ruleset;
          nft_has_active_hooks = has '' hook input '' nft_ruleset \<or> has '' hook forward '' nft_ruleset;
          result = (\<lambda>st t. \<lparr>cr_name = ''firewall.backend_consistency'', cr_status = st, cr_detail = text_of t\<rparr>) in
      if uses_nft \<and> nft_has_docker_chain then result Pass ''iptables-nft and nftables agree''
      else if \<not> uses_nft \<and> \<not> nft_has_active_hooks then result Pass ''legacy iptables has no parallel nft hooks''
      else result Fail ''iptables and nftables rules are split'')"

section \<open>The check\<close>

definition inspect_running_containers :: "fw_lib \<Rightarrow> fw_error + json" where
  "inspect_running_containers lib =
     bind_r (fl_run lib DockerPs) (\<lambda>out.
     let ids = py_words out in
     if ids = [] then Inr (JList [])
     else bind_r (fl_run lib (DockerInspect ids)) (\<lambda>out.
       case fl_json_loads lib out of None \<Rightarrow> Inl (FwCaught ''JSONDecodeError'') | Some v \<Rightarrow> Inr v))"

text \<open>
  A caught exception becomes a blocked check. Only the check of the bindings catches \<open>ValueError\<close>
  and its subclasses.
\<close>

definition value_error :: "string \<Rightarrow> bool" where
  "value_error e \<longleftrightarrow> e \<in> {''ValueError'', ''JSONDecodeError'', ''UnicodeDecodeError''}"

definition or_blocked :: "string \<Rightarrow> bool \<Rightarrow> fw_error + check_result list \<Rightarrow> fw_error + check_result list" where
  "or_blocked name catches_values r =
     (case r of
        Inl (FwCaught e) \<Rightarrow>
          if value_error e \<and> \<not> catches_values then r
          else Inr [\<lparr>cr_name = name, cr_status = Blocked, cr_detail = text_of e\<rparr>]
      | _ \<Rightarrow> r)"

definition public_results :: "fw_lib \<Rightarrow> json_dict \<Rightarrow> fw_error + check_result list" where
  "public_results lib policy =
     bind_r (bind_r (inspect_running_containers lib) (parse_bindings lib)) (\<lambda>bindings.
     bind_r (check_public_bindings lib policy bindings) (\<lambda>r. Inr [r]))"

definition backend_results :: "fw_lib \<Rightarrow> fw_error + check_result list" where
  "backend_results lib =
     bind_r (fl_run lib IptablesVersion) (\<lambda>version.
     bind_r (fl_run lib NftRuleset) (\<lambda>rules. Inr [check_firewall_backend version rules]))"

definition collect_live_results :: "fw_lib \<Rightarrow> json_dict \<Rightarrow> fw_error + check_result list" where
  "collect_live_results lib policy =
     bind_r (or_blocked ''docker.public_bindings'' True (public_results lib policy)) (\<lambda>a.
     bind_r (or_blocked ''firewall.docker_user_chain'' False
               (bind_r (fl_run lib IptablesRules) (check_docker_user_rules policy))) (\<lambda>b.
     bind_r (or_blocked ''firewall.ufw_status'' False (bind_r (fl_run lib UfwStatus) (check_ufw_status lib policy))) (\<lambda>c.
     bind_r (or_blocked ''firewall.backend_consistency'' False (backend_results lib)) (\<lambda>d.
       Inr (a @ b @ c @ d)))))"

definition overall_status :: "check_result list \<Rightarrow> check_status" where
  "overall_status results =
     (if list_ex (\<lambda>r. cr_status r = Fail) results then Fail
      else if list_ex (\<lambda>r. cr_status r = Blocked) results then Blocked
      else Pass)"

definition load_policy :: "fw_lib \<Rightarrow> bytes option \<Rightarrow> fw_error + json_dict" where
  "load_policy lib content =
     (case content of
        None \<Rightarrow> Inl (FwCaught ''OSError'')
      | Some bs \<Rightarrow>
          (case read_text bs of
             None \<Rightarrow> Inl (FwCaught ''UnicodeDecodeError'')
           | Some t \<Rightarrow>
               (case fl_json_loads lib t of
                  None \<Rightarrow> Inl (FwCaught ''JSONDecodeError'')
                | Some v \<Rightarrow>
                    bind_r (object_of v) (\<lambda>policy.
                    if json_get policy ''schemaVersion'' \<noteq> JStr (text_of ''server01-docker-forwarding-policy-v1'') \<or>
                       json_get policy ''server'' \<noteq> JStr (text_of ''Server-01'')
                    then Inl (FwCaught ''ValueError'') else Inr policy))))"

definition drift_results :: "fw_lib \<Rightarrow> bytes option \<Rightarrow> fw_error + check_result list" where
  "drift_results lib content =
     (case load_policy lib content of
        Inl (FwCaught e) \<Rightarrow> Inr [\<lparr>cr_name = ''policy.load'', cr_status = Fail, cr_detail = text_of e\<rparr>]
      | Inl FwCrash \<Rightarrow> Inl FwCrash
      | Inr policy \<Rightarrow> collect_live_results lib policy)"

text \<open>\<open>main\<close> without \<open>--check\<close>: the report and the exit code.\<close>

definition drift_check :: "fw_lib \<Rightarrow> bytes option \<Rightarrow> fw_error + (check_result list \<times> check_status \<times> int)" where
  "drift_check lib content =
     bind_r (drift_results lib content) (\<lambda>results.
     let status = overall_status results in Inr (results, status, if status = Pass then 0 else 1))"

section \<open>What the rules of a chain do\<close>

text \<open>
  The abstract chain: a packet runs through the rules until one that settles it matches.
  \<open>RETURN\<close>, or the end of the chain, hands it to Docker's own rules, which accept published ports.
  \<open>-j\<close> names a built-in target, a chain of the user or an extension; \<open>-g\<close> goes to a chain and does not
  come back. What a named chain does with a packet is an argument (\<open>sub\<close>): \<open>FallsThrough\<close> when the packet
  reaches its end. A rule without target only counts.
\<close>

datatype fw_target =
  TAccept | TDrop | TReject | TReturn | TLog | TJump (jumped_to: pytext) | TGoto (gone_to: pytext) | TNone

datatype chain_rule = Rule (rule_match: pytext) (rule_target: fw_target) (rule_options: pytext)

datatype chain_verdict = Accepted | Refused | FallsThrough

text \<open>The verdict of a target, \<open>None\<close> when the packet goes on with the next rule.\<close>

definition target_verdict :: "(pytext \<Rightarrow> 'p \<Rightarrow> chain_verdict) \<Rightarrow> 'p \<Rightarrow> fw_target \<Rightarrow> chain_verdict option" where
  "target_verdict sub p t =
     (case t of
        TAccept \<Rightarrow> Some Accepted | TDrop \<Rightarrow> Some Refused | TReject \<Rightarrow> Some Refused | TReturn \<Rightarrow> Some FallsThrough
      | TLog \<Rightarrow> None | TNone \<Rightarrow> None
      | TJump c \<Rightarrow> (case sub c p of FallsThrough \<Rightarrow> None | v \<Rightarrow> Some v)
      | TGoto c \<Rightarrow> Some (sub c p))"

fun verdict :: "(pytext \<Rightarrow> 'p \<Rightarrow> bool) \<Rightarrow> (pytext \<Rightarrow> 'p \<Rightarrow> chain_verdict) \<Rightarrow> chain_rule list \<Rightarrow> 'p \<Rightarrow> chain_verdict" where
  "verdict m sub [] p = FallsThrough"
| "verdict m sub (r # rs) p =
     (if m (rule_match r) p
      then (case target_verdict sub p (rule_target r) of Some v \<Rightarrow> v | None \<Rightarrow> verdict m sub rs p)
      else verdict m sub rs p)"

text \<open>The name after \<open>-j\<close>, and the whole action as \<open>iptables -S\<close> prints it.\<close>

definition jump_name :: "fw_target \<Rightarrow> pytext option" where
  "jump_name t =
     (case t of
        TAccept \<Rightarrow> Some (text_of ''ACCEPT'') | TDrop \<Rightarrow> Some (text_of ''DROP'') | TReject \<Rightarrow> Some (text_of ''REJECT'')
      | TReturn \<Rightarrow> Some (text_of ''RETURN'') | TLog \<Rightarrow> Some (text_of ''LOG'') | TJump c \<Rightarrow> Some c | _ \<Rightarrow> None)"

definition action_text :: "fw_target \<Rightarrow> pytext" where
  "action_text t =
     (case jump_name t of
        Some n \<Rightarrow> text_of '' -j '' @ n
      | None \<Rightarrow> (case t of TGoto c \<Rightarrow> text_of '' -g '' @ c | _ \<Rightarrow> []))"

definition rule_head :: "chain_rule \<Rightarrow> pytext" where
  "rule_head r = text_of ''-A DOCKER-USER'' @ (if rule_match r = [] then [] else 32 # rule_match r)"

definition rule_text :: "chain_rule \<Rightarrow> pytext" where
  "rule_text r = rule_head r @ action_text (rule_target r) @ rule_options r"

definition chain_text :: "chain_rule list \<Rightarrow> pytext" where
  "chain_text rs = concat (map (\<lambda>l. l @ [10]) (text_of ''-N DOCKER-USER'' # map rule_text rs))"

text \<open>Matches, chain names and options hold no \<open>-j\<close> of their own, as a comment could; names hold no blank.\<close>

definition plain :: "pytext \<Rightarrow> bool" where
  "plain s \<longleftrightarrow> \<not> contains (text_of ''-j'') s \<and> list_all (\<lambda>c. \<not> line_break c) s \<and> (s = [] \<or> \<not> py_space (last s))"

definition chain_name :: "pytext \<Rightarrow> bool" where
  "chain_name c \<longleftrightarrow> plain c \<and> c \<noteq> [] \<and> list_all (\<lambda>x. \<not> py_space x) c"

definition plain_target :: "fw_target \<Rightarrow> bool" where
  "plain_target t \<longleftrightarrow> (case t of TJump c \<Rightarrow> chain_name c | TGoto c \<Rightarrow> chain_name c | _ \<Rightarrow> True)"

definition plain_rule :: "chain_rule \<Rightarrow> bool" where
  "plain_rule r \<longleftrightarrow>
     plain (rule_match r) \<and> plain_target (rule_target r) \<and>
     plain (rule_options r) \<and> (rule_options r = [] \<or> hd (rule_options r) = 32) \<and>
     (rule_match r = [] \<longrightarrow> rule_target r = TAccept \<longrightarrow> rule_options r = [])"

text \<open>The script searches for the start of a target's name, so a chain \<open>DROP_LOG\<close> counts as a refusal.\<close>

definition named :: "string \<Rightarrow> chain_rule \<Rightarrow> bool" where
  "named w r \<longleftrightarrow> (case jump_name (rule_target r) of None \<Rightarrow> False | Some n \<Rightarrow> starts_with (text_of w) n)"

definition denying :: "chain_rule \<Rightarrow> bool" where
  "denying r \<longleftrightarrow> named ''DROP'' r \<or> named ''REJECT'' r"

definition refusing :: "chain_rule \<Rightarrow> bool" where
  "refusing r \<longleftrightarrow> rule_target r = TDrop \<or> rule_target r = TReject"

section \<open>Lemmas on rule texts\<close>

lemma jump_unique:
  "\<not> contains [45, 106] a \<Longrightarrow> \<not> contains [45, 106] r \<Longrightarrow> t @ 45 # 106 # u = a @ 32 # 45 # 106 # 32 # r \<Longrightarrow> t = a @ [32] \<and> u = 32 # r"
proof (induction a arbitrary: t)
  case Nil
  from Nil(3) consider "t = []" | "t = [32]" | "t = [32, 45]" | "t = [32, 45, 106]" | v where "t = 32 # 45 # 106 # 32 # v" "r = v @ 45 # 106 # u"
    by (auto simp: Cons_eq_append_conv append_eq_Cons_conv)
  then show ?case
  proof cases
    case 5
    then have "contains [45, 106] r" by (auto simp: contains_iff)
    with Nil(2) show ?thesis by simp
  qed (use Nil(3) in auto)
next
  case (Cons c a)
  show ?case
  proof (cases t)
    case Nil
    with Cons.prems(3) have "c = 45" "106 # u = a @ 32 # 45 # 106 # 32 # r" by auto
    then have "contains [45, 106] (c # a) \<or> (106 :: nat) = 32" by (cases a) (auto simp: starts_with_def)
    with Cons.prems(1) show ?thesis by simp
  next
    case (Cons d t')
    have "\<not> contains [45, 106] a" using Cons.prems(1) by simp
    with Cons.IH [of t'] Cons.prems Cons show ?thesis by simp
  qed
qed

lemma jump_text:
  assumes "\<not> contains [45, 106] a" and "\<not> contains [45, 106] r"
  shows "contains (45 # 106 # 32 # w) (a @ 32 # 45 # 106 # 32 # r) \<longleftrightarrow> starts_with w r"
proof
  assume "contains (45 # 106 # 32 # w) (a @ 32 # 45 # 106 # 32 # r)"
  then obtain t u where "t @ 45 # 106 # (32 # w @ u) = a @ 32 # 45 # 106 # 32 # r" by (auto simp: contains_iff)
  from jump_unique [OF assms this] show "starts_with w r" by (auto simp: starts_with_iff)
next
  assume "starts_with w r"
  then obtain u where "r = w @ u" by (auto simp: starts_with_iff)
  then show "contains (45 # 106 # 32 # w) (a @ 32 # 45 # 106 # 32 # r)"
    unfolding contains_iff by (intro exI [of _ "a @ [32]"] exI [of _ u]) simp
qed

lemma jump_append:
  "\<not> contains [45, 106] a \<Longrightarrow> \<not> contains [45, 106] b \<Longrightarrow> a = [] \<or> last a \<noteq> 45 \<Longrightarrow> \<not> contains [45, 106] (a @ b)"
proof (induction a)
  case (Cons c a)
  then show ?case by (cases a) (auto simp: starts_with_def split: if_splits)
qed simp

lemma plain_jump: "plain s \<Longrightarrow> \<not> contains [45, 106] s"
  by (simp add: plain_def)

lemma jump_append_left:
  "\<not> contains [45, 106] a \<Longrightarrow> \<not> contains [45, 106] b \<Longrightarrow> b = [] \<or> hd b \<noteq> 106 \<Longrightarrow> \<not> contains [45, 106] (a @ b)"
proof (induction a)
  case (Cons c a)
  then show ?case by (cases a; cases b) (auto simp: starts_with_def split: if_splits)
qed simp

lemma head_jump: "plain_rule r \<Longrightarrow> \<not> contains [45, 106] (rule_head r)"
proof (cases "rule_match r = []")
  case True
  then show ?thesis by (simp add: rule_head_def starts_with_def)
next
  case False
  assume "plain_rule r"
  then have m: "\<not> contains [45, 106] (32 # rule_match r)" by (simp add: plain_rule_def plain_jump starts_with_def)
  have "\<not> contains [45, 106] (text_of ''-A DOCKER-USER'')" "last (text_of ''-A DOCKER-USER'') \<noteq> 45"
    by (simp_all add: starts_with_def)
  from jump_append [OF this(1) m] this(2) False show ?thesis by (simp add: rule_head_def del: text_of_simps)
qed

lemma options_jump: "plain_rule r \<Longrightarrow> \<not> contains [45, 106] (rule_options r) \<and> (rule_options r = [] \<or> hd (rule_options r) \<noteq> 106)"
  by (auto simp: plain_rule_def plain_jump)

lemma name_jump: "plain_rule r \<Longrightarrow> jump_name (rule_target r) = Some n \<Longrightarrow> \<not> contains [45, 106] n"
  by (cases "rule_target r")
    (auto simp: jump_name_def plain_rule_def plain_target_def chain_name_def starts_with_def dest: plain_jump)

lemma starts_with_Cons:
  "starts_with (c # w) [] \<longleftrightarrow> False" "starts_with (c # w) (d # s) \<longleftrightarrow> c = d \<and> starts_with w s"
  by (auto simp: starts_with_def)

lemma starts_with_options:
  "32 \<notin> set w \<Longrightarrow> o' = [] \<or> hd o' = 32 \<Longrightarrow> starts_with w (n @ o') \<longleftrightarrow> starts_with w n"
proof (induction w arbitrary: n)
  case (Cons c w)
  then show ?case by (cases n; cases o') (auto simp: starts_with_Cons)
qed (simp add: starts_with_def)

lemma unnamed_text:
  assumes "plain_rule r" and "jump_name (rule_target r) = None"
  shows "\<not> contains [45, 106] (rule_text r)"
proof -
  have "\<not> contains [45, 106] (action_text (rule_target r)) \<and> (action_text (rule_target r) = [] \<or> hd (action_text (rule_target r)) = 32)"
    using assms by (cases "rule_target r")
      (auto simp: action_text_def jump_name_def plain_rule_def plain_target_def chain_name_def plain_jump starts_with_def)
  moreover from this have "\<not> contains [45, 106] (action_text (rule_target r) @ rule_options r)"
    using options_jump [OF assms(1)] by (intro jump_append_left) auto
  ultimately have "\<not> contains [45, 106] (rule_head r @ action_text (rule_target r) @ rule_options r)"
    using head_jump [OF assms(1)] options_jump [OF assms(1)]
    by (intro jump_append_left) (auto simp: hd_append)
  then show ?thesis by (simp only: rule_text_def not_False_eq_True)
qed

lemma contains_shorter: "contains (a @ b) s \<Longrightarrow> contains a s"
  by (auto simp: contains_iff)

lemma has_jump:
  assumes "plain_rule r" and "\<forall>c \<in> set w. c \<noteq> CHR '' ''"
  shows "has (''-j '' @ w) (rule_text r) \<longleftrightarrow> named w r"
proof (cases "jump_name (rule_target r)")
  case None
  have "text_of (''-j '' @ w) = [45, 106] @ 32 # text_of w" by (simp add: text_of_append)
  with None unnamed_text [OF assms(1) None] show ?thesis
    by (auto simp: has_def named_def simp del: text_of_simps append_Cons dest: contains_shorter)
next
  case (Some n)
  have w: "32 \<notin> set (text_of w)"
  proof
    assume "32 \<in> set (text_of w)"
    then obtain c where "c \<in> set w" "of_char c = (32 :: nat)" by (auto simp: text_of_def)
    moreover have "of_char CHR '' '' = (32 :: nat)" by simp
    ultimately show False using assms(2) by (metis of_char_eq_iff)
  qed
  have opts: "rule_options r = [] \<or> hd (rule_options r) = 32" using assms(1) by (simp add: plain_rule_def)
  have "\<not> contains [45, 106] (n @ rule_options r)"
    using name_jump [OF assms(1) Some] options_jump [OF assms(1)] by (intro jump_append_left) auto
  from jump_text [OF head_jump [OF assms(1)] this, of "text_of w"] starts_with_options [OF w opts, of n] Some show ?thesis
    by (simp add: has_def rule_text_def action_text_def named_def text_of_append)
qed

lemma target_starts:
  assumes "plain_rule r"
  shows "has ''-j ACCEPT'' (rule_text r) \<longleftrightarrow> named ''ACCEPT'' r"
    and "has ''-j RETURN'' (rule_text r) \<longleftrightarrow> named ''RETURN'' r"
    and "denies (rule_text r) \<longleftrightarrow> denying r"
  using has_jump [OF assms, of "''ACCEPT''"] has_jump [OF assms, of "''RETURN''"] has_jump [OF assms, of "''DROP''"]
    has_jump [OF assms, of "''REJECT''"]
  by (simp_all add: denies_def denying_def)

lemma action_clean:
  assumes "plain_target t"
  shows "list_all (\<lambda>c. \<not> line_break c) (action_text t)" and "action_text t \<noteq> [] \<longrightarrow> \<not> py_space (last (action_text t))"
  using assms
  by (cases t; simp add: action_text_def jump_name_def plain_target_def chain_name_def plain_def line_break_def py_space_def)+

lemma rule_head_clean:
  assumes "plain_rule r"
  shows "list_all (\<lambda>c. \<not> line_break c) (rule_head r)" and "\<not> py_space (last (rule_head r))" and "rule_head r \<noteq> []"
proof -
  have b: "list_all (\<lambda>c. \<not> line_break c) (text_of ''-A DOCKER-USER'')" "\<not> py_space (last (text_of ''-A DOCKER-USER''))" "\<not> line_break 32"
    by (simp_all add: line_break_def py_space_def)
  show "list_all (\<lambda>c. \<not> line_break c) (rule_head r)" "\<not> py_space (last (rule_head r))"
    using assms b by (auto simp: rule_head_def plain_rule_def plain_def last_append simp del: text_of_simps)
  show "rule_head r \<noteq> []" by (simp add: rule_head_def)
qed

lemma rule_text_clean:
  assumes "plain_rule r"
  shows "list_all (\<lambda>c. \<not> line_break c) (rule_text r)" and "py_strip (rule_text r) = rule_text r"
    and "starts_with (text_of ''-A DOCKER-USER'') (rule_text r)" and "rule_text r \<noteq> []"
proof -
  have t: "plain_target (rule_target r)" using assms by (simp add: plain_rule_def)
  note a = action_clean [OF t]
  show "list_all (\<lambda>c. \<not> line_break c) (rule_text r)"
    using assms a(1) rule_head_clean(1) [OF assms] by (simp add: rule_text_def plain_rule_def plain_def)
  have "\<not> py_space (last (rule_text r))"
    using assms a(2) rule_head_clean(2) [OF assms]
    by (auto simp: rule_text_def last_append plain_rule_def plain_def)
  moreover have "hd (rule_text r) = 45" by (simp add: rule_text_def rule_head_def)
  ultimately show "py_strip (rule_text r) = rule_text r" by (intro py_strip_id) (simp add: py_space_def)
  show "starts_with (text_of ''-A DOCKER-USER'') (rule_text r)" "rule_text r \<noteq> []"
    by (auto simp: rule_text_def rule_head_def starts_with_iff simp del: text_of_simps) (simp add: text_of_def)
qed

lemma rule_lines_chain:
  assumes "\<forall>r \<in> set rules. plain_rule r"
  shows "rule_lines (chain_text rules) = text_of ''-N DOCKER-USER'' # map rule_text rules"
    and "chain_rules (text_of ''-N DOCKER-USER'' # map rule_text rules) = map rule_text rules"
proof -
  let ?n = "text_of ''-N DOCKER-USER''"
  have n: "list_all (\<lambda>c. \<not> line_break c) ?n" "py_strip ?n = ?n" "\<not> starts_with (text_of ''-A DOCKER-USER'') ?n" "?n \<noteq> []"
    by (simp_all add: line_break_def py_space_def starts_with_def py_strip_id)
  have "py_splitlines (chain_text rules) = ?n # map rule_text rules"
    unfolding chain_text_def using n(1) rule_text_clean(1) assms by (intro lines_read_back) auto
  then show "rule_lines (chain_text rules) = ?n # map rule_text rules"
    using assms rule_text_clean(2,4) n(2,4) by (simp add: rule_lines_def filter_id_conv map_idI del: text_of_simps cong: map_cong)
  show "chain_rules (?n # map rule_text rules) = map rule_text rules"
    using assms rule_text_clean(3) n(3) by (simp add: chain_rules_def filter_id_conv del: text_of_simps)
qed

section \<open>Chains that pass\<close>

definition strict_policy :: "json_dict \<Rightarrow> bool" where
  "strict_policy policy \<longleftrightarrow>
     (\<exists>fp. item policy ''firewall'' = Inr (JObj fp) \<and>
        (\<forall>k \<in> {''forbidUnconditionalAccept'', ''forbidReturnBeforeDeny'', ''requireEstablishedReturn'', ''requireTerminalDeny''}.
           flag fp k = Inr True))"

lemma split_chain:
  assumes "\<forall>r \<in> set rules. plain_rule r"
  shows "before_deny (map rule_text rules) = map rule_text (takeWhile (\<lambda>r. \<not> denying r) rules)"
    and "after_deny (map rule_text rules) = map rule_text (drop 1 (dropWhile (\<lambda>r. \<not> denying r) rules))"
  using assms target_starts(3)
  by (auto simp: before_deny_def after_deny_def takeWhile_map dropWhile_map o_def drop_map intro!: arg_cong [where f = "map rule_text"]
      arg_cong [where f = "drop (Suc 0)"] takeWhile_cong dropWhile_cong)

definition ordered_rules :: "chain_rule list \<Rightarrow> bool" where
  "ordered_rules rules \<longleftrightarrow>
     text_of ''-A DOCKER-USER -j ACCEPT'' \<notin> rule_text ` set rules \<and>
     (\<forall>r \<in> set (takeWhile (\<lambda>r. \<not> denying r) rules). \<not> named ''RETURN'' r) \<and>
     (\<forall>r \<in> set (drop 1 (dropWhile (\<lambda>r. \<not> denying r) rules)). \<not> named ''ACCEPT'' r)"

lemma list_ex_rules:
  assumes "\<forall>r \<in> set rs. plain_rule r"
  shows "list_ex denies (map rule_text rs) \<longleftrightarrow> (\<exists>r \<in> set rs. denying r)"
    and "list_ex (has ''-j RETURN'') (map rule_text rs) \<longleftrightarrow> (\<exists>r \<in> set rs. named ''RETURN'' r)"
    and "list_ex (has ''-j ACCEPT'') (map rule_text rs) \<longleftrightarrow> (\<exists>r \<in> set rs. named ''ACCEPT'' r)"
  using assms target_starts by (auto simp: list_ex_iff)

lemma check_chain:
  assumes "strict_policy policy" and "\<forall>r \<in> set rules. plain_rule r"
  shows "\<exists>established. check_docker_user_rules policy (chain_text rules) =
    Inr [verdict_of ''firewall.established_return'' established ''RELATED,ESTABLISHED traffic is accepted'' ''stateful return rule is missing'',
         verdict_of ''firewall.default_deny'' (\<exists>r \<in> set rules. denying r) ''terminal deny rule is present'' ''terminal DROP/REJECT is missing'',
         verdict_of ''firewall.rule_order'' (ordered_rules rules) ''allow rules precede terminal deny'' ''ACCEPT/RETURN bypasses terminal deny''] \<and>
    established = list_ex established_rule (text_of ''-N DOCKER-USER'' # map rule_text rules)"
proof -
  obtain fp where fp: "item policy ''firewall'' = Inr (JObj fp)" "flag fp ''forbidUnconditionalAccept'' = Inr True"
      "flag fp ''forbidReturnBeforeDeny'' = Inr True" "flag fp ''requireEstablishedReturn'' = Inr True"
      "flag fp ''requireTerminalDeny'' = Inr True"
    using assms(1) by (auto simp: strict_policy_def)
  have sub: "\<forall>r \<in> set (takeWhile (\<lambda>r. \<not> denying r) rules). plain_rule r"
      "\<forall>r \<in> set (drop 1 (dropWhile (\<lambda>r. \<not> denying r) rules)). plain_rule r"
    using assms(2) by (auto dest: set_takeWhileD in_set_dropD set_dropWhileD)
  have order: "\<not> (text_of ''-A DOCKER-USER -j ACCEPT'' \<in> set (map rule_text rules) \<or>
        list_ex (has ''-j RETURN'') (before_deny (map rule_text rules)) \<or> list_ex (has ''-j ACCEPT'') (after_deny (map rule_text rules)))
      \<longleftrightarrow> ordered_rules rules"
    unfolding split_chain [OF assms(2)] ordered_rules_def list_ex_rules [OF sub(1)] list_ex_rules [OF sub(2)] by auto
  then show ?thesis
    using fp list_ex_rules(1) [OF assms(2)]
    by (auto simp: check_docker_user_rules_def rule_lines_chain [OF assms(2)] Let_def object_of_def simp del: text_of_simps)
qed

text \<open>The rules that settle a packet; the verdict is that of the first one.\<close>

definition settles :: "(pytext \<Rightarrow> 'p \<Rightarrow> bool) \<Rightarrow> (pytext \<Rightarrow> 'p \<Rightarrow> chain_verdict) \<Rightarrow> 'p \<Rightarrow> chain_rule \<Rightarrow> bool" where
  "settles m sub p r \<longleftrightarrow> m (rule_match r) p \<and> target_verdict sub p (rule_target r) \<noteq> None"

lemma verdict_first:
  "verdict m sub rules p =
     (case find (settles m sub p) rules of None \<Rightarrow> FallsThrough | Some r \<Rightarrow> the (target_verdict sub p (rule_target r)))"
  by (induction rules) (auto simp: settles_def)

lemma passing_chain:
  assumes "strict_policy policy" and "\<forall>r \<in> set rules. plain_rule r"
    and "check_docker_user_rules policy (chain_text rules) = Inr results" and "\<forall>r \<in> set results. cr_status r = Pass"
  shows "\<exists>r \<in> set rules. denying r" and "ordered_rules rules"
  using check_chain [OF assms(1,2)] assms(3,4) by (auto simp: verdict_of_def split: if_splits)

lemma unconditional_accept_text: "plain_rule r \<Longrightarrow> rule_target r = TAccept \<Longrightarrow> rule_match r = [] \<Longrightarrow> rule_text r = text_of ''-A DOCKER-USER -j ACCEPT''"
  by (simp add: plain_rule_def rule_text_def rule_head_def action_text_def jump_name_def)

lemma target_names:
  "rule_target r = TDrop \<Longrightarrow> denying r" "rule_target r = TReject \<Longrightarrow> denying r" "rule_target r = TReturn \<Longrightarrow> named ''RETURN'' r"
  by (simp_all add: denying_def named_def jump_name_def starts_with_def)

lemma denying_target:
  "denying r \<Longrightarrow> refusing r \<or>
     (\<exists>c. rule_target r = TJump c \<and> (starts_with (text_of ''DROP'') c \<or> starts_with (text_of ''REJECT'') c))"
  by (cases "rule_target r") (auto simp: denying_def named_def jump_name_def refusing_def starts_with_def)

lemma before_denying:
  assumes "plain_rule r" and "\<not> denying r" and "\<not> named ''RETURN'' r" and "rule_text r \<noteq> text_of ''-A DOCKER-USER -j ACCEPT''"
  shows "rule_target r = TAccept \<and> rule_match r \<noteq> [] \<or> rule_target r = TLog \<or> rule_target r = TNone \<or>
    (\<exists>c. rule_target r = TJump c \<or> rule_target r = TGoto c)"
  using assms target_names [of r] unconditional_accept_text [OF assms(1)] by (cases "rule_target r") auto


definition strict_sample :: json_dict where
  "strict_sample =
     [(text_of ''firewall'', JObj [(text_of ''forbidUnconditionalAccept'', JBool True), (text_of ''forbidReturnBeforeDeny'', JBool True),
        (text_of ''requireEstablishedReturn'', JBool True), (text_of ''requireTerminalDeny'', JBool True)])]"

definition established_sample :: chain_rule where
  "established_sample = Rule (text_of ''-m conntrack --ctstate RELATED,ESTABLISHED'') TAccept []"

definition closed_sample :: "chain_rule list" where
  "closed_sample = [established_sample, Rule (text_of ''-p tcp'') (TJump (text_of ''AUDIT'')) [], Rule [] TDrop []]"

lemma strict_sample_strict: "strict_policy strict_sample"
  unfolding strict_policy_def by (rule exI [of _ "case strict_sample of (_, JObj fp) # _ \<Rightarrow> fp"]) code_simp

text \<open>The results of a chain whose rules pass.\<close>

definition passing_results :: "check_result list" where
  "passing_results =
     [verdict_of ''firewall.established_return'' True ''RELATED,ESTABLISHED traffic is accepted'' ''stateful return rule is missing'',
      verdict_of ''firewall.default_deny'' True ''terminal deny rule is present'' ''terminal DROP/REJECT is missing'',
      verdict_of ''firewall.rule_order'' True ''allow rules precede terminal deny'' ''ACCEPT/RETURN bypasses terminal deny'']"

lemma passing_results_pass: "\<forall>r \<in> set passing_results. cr_status r = Pass"
  by (simp add: passing_results_def verdict_of_def)

lemma sample_passes:
  assumes "strict_policy policy" and "\<forall>r \<in> set rules. plain_rule r" and "\<exists>r \<in> set rules. denying r" and "ordered_rules rules"
    and "list_ex established_rule (map rule_text rules)"
  shows "check_docker_user_rules policy (chain_text rules) = Inr passing_results"
  using check_chain [OF assms(1,2)] assms(3-5) by (auto simp: passing_results_def simp del: text_of_simps)

lemma established_sample_facts:
  "plain_rule established_sample" "established_rule (rule_text established_sample)"
  by (simp_all add: established_sample_def plain_rule_def plain_def starts_with_def line_break_def py_space_def
      established_rule_def has_def rule_text_def rule_head_def action_text_def jump_name_def plain_target_def)

lemma closed_sample_facts:
  "\<forall>r \<in> set closed_sample. plain_rule r" "\<exists>r \<in> set closed_sample. denying r" "ordered_rules closed_sample"
  "list_ex established_rule (map rule_text closed_sample)"
  using established_sample_facts
     apply (simp add: closed_sample_def plain_rule_def plain_target_def chain_name_def plain_def starts_with_def line_break_def py_space_def)
    apply (simp add: closed_sample_def denying_def named_def jump_name_def starts_with_def)
   apply (simp add: ordered_rules_def closed_sample_def established_sample_def denying_def named_def jump_name_def rule_text_def
      rule_head_def action_text_def starts_with_def)
  apply (simp add: closed_sample_def established_sample_facts del: text_of_simps)
  done


definition conditional_sample :: "chain_rule list" where
  "conditional_sample = [established_sample, Rule (text_of ''-s 203.0.113.9/32'') TDrop []]"

lemma conditional_sample_facts:
  "\<forall>r \<in> set conditional_sample. plain_rule r" "\<exists>r \<in> set conditional_sample. denying r" "ordered_rules conditional_sample"
  "list_ex established_rule (map rule_text conditional_sample)"
  using established_sample_facts
     apply (simp add: conditional_sample_def plain_rule_def plain_target_def chain_name_def plain_def starts_with_def line_break_def py_space_def)
    apply (simp add: conditional_sample_def denying_def named_def jump_name_def starts_with_def)
   apply (simp add: ordered_rules_def conditional_sample_def established_sample_def denying_def named_def jump_name_def rule_text_def
      rule_head_def action_text_def starts_with_def)
  apply (simp add: conditional_sample_def established_sample_facts del: text_of_simps)
  done

text \<open>
  C38: the conditions of refusals play no part in the check. A chain with an established rule, some rule that counts
  as a refusal, whatever its condition, and its rules in order passes every check; and a packet that matches none of
  its rules runs through to Docker's own rules, which accept published ports. So a chain that refuses one source
  address only passes for a terminal deny.
\<close>

theorem conditional_deny_passes:
  assumes "strict_policy policy" and "\<forall>r \<in> set rules. plain_rule r"
    and "list_ex established_rule (map rule_text rules)" and "\<exists>r \<in> set rules. denying r" and "ordered_rules rules"
    and "\<forall>r \<in> set rules. \<not> m (rule_match r) p"
  shows "check_docker_user_rules policy (chain_text rules) = Inr passing_results \<and>
    map cr_status passing_results = [Pass, Pass, Pass] \<and> verdict m sub rules p = FallsThrough"
proof (intro conjI)
  show "check_docker_user_rules policy (chain_text rules) = Inr passing_results"
    by (rule sample_passes [OF assms(1,2,4,5,3)])
  show "map cr_status passing_results = [Pass, Pass, Pass]" by (simp add: passing_results_def verdict_of_def)
  show "verdict m sub rules p = FallsThrough" using assms(6) by (induction rules) auto
qed

theorem conditional_deny_passes_witness:
  "check_docker_user_rules strict_sample (chain_text conditional_sample) = Inr passing_results \<and>
   map cr_status passing_results = [Pass, Pass, Pass] \<and>
   verdict (\<lambda>t p. t \<in> p) (\<lambda>_ _. FallsThrough) conditional_sample {} = FallsThrough"
  by (rule conditional_deny_passes [OF strict_sample_strict conditional_sample_facts(1,4,2,3)]) simp

text \<open>
  The check does not see \<open>-g\<close>, and takes a jump to a chain named \<open>DROP_LOG\<close> for the terminal deny: each of these
  chains passes every check, yet what it does with a packet is all up to the named chain.
\<close>

definition goto_sample :: "chain_rule list" where
  "goto_sample = [Rule [] (TGoto (text_of ''OPEN'')) [], established_sample, Rule [] TDrop []]"

definition drop_log_sample :: "chain_rule list" where
  "drop_log_sample = [established_sample, Rule [] (TJump (text_of ''DROP_LOG'')) []]"

lemma goto_sample_facts:
  "\<forall>r \<in> set goto_sample. plain_rule r" "\<exists>r \<in> set goto_sample. denying r" "ordered_rules goto_sample"
  "list_ex established_rule (map rule_text goto_sample)"
  using established_sample_facts
     apply (simp add: goto_sample_def plain_rule_def plain_target_def chain_name_def plain_def starts_with_def line_break_def py_space_def)
    apply (simp add: goto_sample_def denying_def named_def jump_name_def starts_with_def)
   apply (simp add: ordered_rules_def goto_sample_def established_sample_def denying_def named_def jump_name_def rule_text_def
      rule_head_def action_text_def starts_with_def)
  apply (simp add: goto_sample_def established_sample_facts del: text_of_simps)
  done

lemma drop_log_sample_facts:
  "\<forall>r \<in> set drop_log_sample. plain_rule r" "\<exists>r \<in> set drop_log_sample. denying r" "ordered_rules drop_log_sample"
  "list_ex established_rule (map rule_text drop_log_sample)"
  using established_sample_facts
     apply (simp add: drop_log_sample_def plain_rule_def plain_target_def chain_name_def plain_def starts_with_def line_break_def py_space_def)
    apply (simp add: drop_log_sample_def denying_def named_def jump_name_def starts_with_def)
   apply (simp add: ordered_rules_def drop_log_sample_def established_sample_def denying_def named_def jump_name_def rule_text_def
      rule_head_def action_text_def starts_with_def)
  apply (simp add: drop_log_sample_def established_sample_facts del: text_of_simps)
  done

theorem named_chains_bypass_check:
  "check_docker_user_rules strict_sample (chain_text goto_sample) = Inr passing_results \<and>
   (m [] p \<longrightarrow> verdict m sub goto_sample p = sub (text_of ''OPEN'') p) \<and>
   check_docker_user_rules strict_sample (chain_text drop_log_sample) = Inr passing_results \<and>
   (m [] p \<longrightarrow> \<not> m (rule_match established_sample) p \<longrightarrow> verdict m sub drop_log_sample p = sub (text_of ''DROP_LOG'') p)"
proof -
  have "m [] p \<longrightarrow> verdict m sub goto_sample p = sub (text_of ''OPEN'') p"
    by (simp add: goto_sample_def target_verdict_def del: text_of_simps)
  moreover have "m [] p \<longrightarrow> \<not> m (rule_match established_sample) p \<longrightarrow> verdict m sub drop_log_sample p = sub (text_of ''DROP_LOG'') p"
    by (simp add: drop_log_sample_def target_verdict_def del: text_of_simps split: chain_verdict.split)
  ultimately show ?thesis
    using sample_passes [OF strict_sample_strict goto_sample_facts] sample_passes [OF strict_sample_strict drop_log_sample_facts] by simp
qed

section \<open>What the exit code promises\<close>

lemma or_blocked_pass:
  "or_blocked n b r = Inr rs \<Longrightarrow> \<forall>x \<in> set rs. cr_status x \<noteq> Blocked \<Longrightarrow> r = Inr rs"
  by (auto simp: or_blocked_def split: sum.splits fw_error.splits if_splits)

lemma overall_pass: "overall_status rs = Pass \<longleftrightarrow> (\<forall>r \<in> set rs. cr_status r = Pass)"
proof -
  have "st = Pass \<longleftrightarrow> st \<noteq> Fail \<and> st \<noteq> Blocked" for st by (cases st) auto
  then show ?thesis by (auto simp: overall_status_def list_ex_iff)
qed

lemma denied_none:
  "denied_bindings lib policy bs = Inr [] \<longleftrightarrow> (\<forall>b \<in> set bs. public_binding_allowed lib policy b = Inr True)"
  by (induction bs) (auto simp: bind_r_eq_Inr split: if_splits)

lemma bindings_pass:
  assumes "check_public_bindings lib policy bs = Inr r" and "cr_status r = Pass"
  shows "\<forall>b \<in> set bs. public_binding_allowed lib policy b = Inr True"
  using assms unfolding check_public_bindings_def denied_none [symmetric] by (auto simp: bind_r_eq_Inr split: if_splits)

text \<open>
  the check fails closed. When it ends with exit code 0, the policy was read, every command ran,
  each published binding of the running containers is loopback or listed in the policy, and the rules of
  Docker's chain, of the host firewall and of the back ends passed.
\<close>

theorem drift_check_fails_closed:
  assumes "drift_check lib content = Inr (results, status, 0)"
  shows "\<exists>policy bindings rules ufw chain host backend.
    load_policy lib content = Inr policy \<and>
    bind_r (inspect_running_containers lib) (parse_bindings lib) = Inr bindings \<and>
    (\<forall>b \<in> set bindings. public_binding_allowed lib policy b = Inr True) \<and>
    fl_run lib IptablesRules = Inr rules \<and> check_docker_user_rules policy rules = Inr chain \<and>
    fl_run lib UfwStatus = Inr ufw \<and> check_ufw_status lib policy ufw = Inr host \<and> backend_results lib = Inr backend \<and>
    (\<forall>r \<in> set (chain @ host @ backend). cr_status r = Pass) \<and> status = Pass"
proof -
  from assms have pass: "\<forall>r \<in> set results. cr_status r = Pass" "status = Pass"
    and results: "drift_results lib content = Inr results"
    by (auto simp: drift_check_def Let_def overall_pass bind_r_eq_Inr split: if_splits)
  from results pass obtain policy where policy: "load_policy lib content = Inr policy"
      and live: "collect_live_results lib policy = Inr results"
    by (auto simp: drift_results_def split: sum.splits fw_error.splits)
  from live obtain a b c d where parts:
      "or_blocked ''docker.public_bindings'' True (public_results lib policy) = Inr a"
      "or_blocked ''firewall.docker_user_chain'' False (bind_r (fl_run lib IptablesRules) (check_docker_user_rules policy)) = Inr b"
      "or_blocked ''firewall.ufw_status'' False (bind_r (fl_run lib UfwStatus) (check_ufw_status lib policy)) = Inr c"
      "or_blocked ''firewall.backend_consistency'' False (backend_results lib) = Inr d"
      and split: "results = a @ b @ c @ d"
    by (auto simp: collect_live_results_def bind_r_eq_Inr)
  have "\<forall>r \<in> set (a @ b @ c @ d). cr_status r = Pass" using pass(1) split by auto
  note each = parts [THEN or_blocked_pass] this
  have "public_results lib policy = Inr a" using each by auto
  then obtain bindings r where bindings: "bind_r (inspect_running_containers lib) (parse_bindings lib) = Inr bindings"
      "check_public_bindings lib policy bindings = Inr r" "a = [r]"
    by (auto simp: public_results_def bind_r_eq_Inr)
  have "bind_r (fl_run lib IptablesRules) (check_docker_user_rules policy) = Inr b" using each by auto
  then obtain rules where rules: "fl_run lib IptablesRules = Inr rules" "check_docker_user_rules policy rules = Inr b"
    by (auto simp: bind_r_eq_Inr)
  have "bind_r (fl_run lib UfwStatus) (check_ufw_status lib policy) = Inr c" using each by auto
  then obtain ufw where ufw: "fl_run lib UfwStatus = Inr ufw" "check_ufw_status lib policy ufw = Inr c"
    by (auto simp: bind_r_eq_Inr)
  have "\<forall>b \<in> set bindings. public_binding_allowed lib policy b = Inr True"
    using bindings_pass [OF bindings(2)] bindings(3) each(5) by simp
  moreover have "backend_results lib = Inr d" using each by auto
  ultimately show ?thesis using policy bindings(1) rules ufw each(5) pass(2) by (intro exI conjI) auto
qed

definition drift_policy :: json_dict where
  "drift_policy =
     strict_sample @
     [(text_of ''schemaVersion'', JStr (text_of ''server01-docker-forwarding-policy-v1'')), (text_of ''server'', JStr (text_of ''Server-01'')),
      (text_of ''dockerPublicBindings'', JObj [(text_of ''gateway'', JObj [(text_of ''tcp'', JList [JInt 443])])]),
      (text_of ''hostFirewall'', JObj [(text_of ''requiredPublicTcp'', JList [JInt 22]), (text_of ''forbiddenPublicTcp'', JList [JInt 1883])])]"

definition drift_containers :: json where
  "drift_containers =
     JList [JObj [(text_of ''Name'', JStr (text_of ''/gateway-1'')),
       (text_of ''NetworkSettings'', JObj [(text_of ''Ports'', JObj [(text_of ''443/tcp'',
          JList [JObj [(text_of ''HostIp'', JStr (text_of ''0.0.0.0'')), (text_of ''HostPort'', JStr (text_of ''443''))]])])])]]"

definition drift_lib :: fw_lib where
  "drift_lib =
     \<lparr>fl_run = (\<lambda>c. Inr (case c of
          DockerPs \<Rightarrow> text_of ''4f''
        | DockerInspect _ \<Rightarrow> text_of ''[]''
        | IptablesRules \<Rightarrow> chain_text closed_sample
        | UfwStatus \<Rightarrow> concat (map (\<lambda>l. l @ [10]) [text_of ''Status: active'', text_of ''22/tcp ALLOW Anywhere''])
        | IptablesVersion \<Rightarrow> text_of ''nf_tables''
        | NftRuleset \<Rightarrow> text_of ''chain DOCKER-USER'')),
      fl_json_loads = (\<lambda>t. Some (if t = text_of ''{}'' then JObj drift_policy else drift_containers)),
      fl_str = (\<lambda>v. case v of JInt i \<Rightarrow> show_text i | _ \<Rightarrow> []),
      fl_loopback6 = (\<lambda>_. False), fl_set_order = (\<lambda>vs. vs), fl_decimal = (\<lambda>_. None)\<rparr>"

definition drift_binding :: port_binding where
  "drift_binding =
     \<lparr>pb_container = text_of ''gateway-1'', pb_protocol = text_of ''tcp'', pb_container_port = 443,
      pb_host_ip = text_of ''0.0.0.0'', pb_host_port = 443\<rparr>"

lemma drift_strict: "strict_policy drift_policy"
  unfolding strict_policy_def by (rule exI [of _ "case drift_policy of (_, JObj fp) # _ \<Rightarrow> fp"]) code_simp

lemma drift_lib_simps [simp]:
  "fl_decimal drift_lib = (\<lambda>_. None)"
  "fl_str drift_lib = (\<lambda>v. case v of JInt i \<Rightarrow> show_text i | _ \<Rightarrow> [])"
  "fl_set_order drift_lib = (\<lambda>vs. vs)"
  "fl_json_loads drift_lib = (\<lambda>t. Some (if t = text_of ''{}'' then JObj drift_policy else drift_containers))"
  "fl_run drift_lib DockerPs = Inr (text_of ''4f'')"
  "fl_run drift_lib (DockerInspect ids) = Inr (text_of ''[]'')"
  "fl_run drift_lib IptablesRules = Inr (chain_text closed_sample)"
  "fl_run drift_lib UfwStatus = Inr (concat (map (\<lambda>l. l @ [10]) [text_of ''Status: active'', text_of ''22/tcp ALLOW Anywhere'']))"
  "fl_run drift_lib IptablesVersion = Inr (text_of ''nf_tables'')"
  "fl_run drift_lib NftRuleset = Inr (text_of ''chain DOCKER-USER'')"
  by (simp_all add: drift_lib_def del: text_of_simps)

lemma drift_loaded: "load_policy drift_lib (Some (ascii_bytes (text_of ''{}''))) = Inr drift_policy"
proof -
  have "read_text (ascii_bytes (text_of ''{}'')) = Some (text_of ''{}'')" by (rule read_text_ascii) simp
  moreover have "json_get drift_policy ''schemaVersion'' = JStr (text_of ''server01-docker-forwarding-policy-v1'')"
      "json_get drift_policy ''server'' = JStr (text_of ''Server-01'')"
    by (simp_all add: drift_policy_def strict_sample_def json_get_Cons text_of_eq_iff del: text_of_simps)
  ultimately show ?thesis by (simp add: load_policy_def object_of_def del: text_of_simps)
qed

lemma dict_get_first: "dict_get ((k', v) # d) k = (if k' = k then Some v else dict_get d k)"
  by (simp add: dict_get_def)

lemma get_or_Cons:
  "get_or [] k e = e"
  "get_or ((k', v) # d) k e = (if k' = k then v else get_or d k e)"
  by (simp_all add: get_or_def dict_get_first)

lemma drift_port: "text_int (\<lambda>_. None) (text_of ''443'') = Some 443"
  by (simp add: text_int_def strip_both_def strip_right_def int_space_def digits_int_def decimal_digit_def ascii_digit_def
      value_of_def)

lemma drift_containers_parsed: "parse_bindings drift_lib drift_containers = Inr [drift_binding]"
proof -
  have "port_number drift_lib (JStr (text_of ''443'')) = Inr 443"
    using drift_port by (simp add: port_number_def del: text_of_simps)
  moreover have "split_first 47 (text_of ''443/tcp'') = (text_of ''443'', text_of ''tcp'')" "47 \<in> set (text_of ''443/tcp'')"
    by (simp_all add: split_first_def)
  ultimately have endpoint: "endpoint_bindings drift_lib (text_of ''gateway-1'') (text_of ''443/tcp'',
      JList [JObj [(text_of ''HostIp'', JStr (text_of ''0.0.0.0'')), (text_of ''HostPort'', JStr (text_of ''443''))]]) = Inr [drift_binding]"
    using drift_port
    by (simp add: endpoint_bindings_def host_binding_def loop_items_def object_of_def get_or_Cons text_get_Cons drift_binding_def
        text_of_eq_iff del: text_of_simps)
  have "remove_slash (text_of ''/gateway-1'') = text_of ''gateway-1''" by (simp add: remove_slash_def starts_with_def)
  with endpoint show ?thesis
    by (simp add: parse_bindings_def container_bindings_def drift_containers_def loop_items_def object_of_def get_or_Cons
        text_get_Cons text_of_eq_iff del: text_of_simps)
qed

lemma drift_bindings:
  "bind_r (inspect_running_containers drift_lib) (parse_bindings drift_lib) = Inr [drift_binding]"
proof -
  have "py_words (text_of ''4f'') = [text_of ''4f'']" by (simp add: py_words_def py_space_def)
  then have "inspect_running_containers drift_lib = Inr drift_containers"
    by (simp add: inspect_running_containers_def text_of_eq_iff del: text_of_simps)
  then show ?thesis by (simp add: drift_containers_parsed)
qed

lemma drift_allowed: "public_binding_allowed drift_lib drift_policy drift_binding = Inr True"
proof -
  let ?services = "JObj [(text_of ''gateway'', JObj [(text_of ''tcp'', JList [JInt 443])])]"
  have "\<not> is_loopback drift_lib (pb_host_ip drift_binding)" by (simp add: is_loopback_def drift_binding_def)
  moreover have "item drift_policy ''dockerPublicBindings'' = Inr ?services"
    by (simp add: item_def drift_policy_def strict_sample_def dict_get_first text_of_eq_iff del: text_of_simps)
  moreover have "service_name (pb_container drift_binding) [text_of ''gateway''] = text_of ''gateway''"
    by (simp add: service_name_def longest_first_def drift_binding_def starts_with_def)
  moreover have "port_in 443 (JList [JInt 443]) = Inr True" by (simp add: port_in_def)
  ultimately show ?thesis
    by (simp add: public_binding_allowed_def object_of_def get_or_Cons dict_keys_def text_of_eq_iff drift_binding_def del: text_of_simps)
qed

lemma drift_ufw:
  "check_ufw_status drift_lib drift_policy
     (concat (map (\<lambda>l. l @ [10]) [text_of ''Status: active'', text_of ''22/tcp ALLOW Anywhere''])) = Inr
     [verdict_of ''firewall.ufw_active'' True ''UFW is active'' ''UFW is inactive'',
      \<lparr>cr_name = ''firewall.host_ingress_required'', cr_status = Pass, cr_detail = text_of ''required host ingress is present''\<rparr>,
      \<lparr>cr_name = ''firewall.host_ingress_private'', cr_status = Pass, cr_detail = text_of ''private ports are not allowed by UFW''\<rparr>]"
proof -
  let ?a = "text_of ''Status: active''" and ?b = "text_of ''22/tcp ALLOW Anywhere''"
  have lines: "py_splitlines (concat (map (\<lambda>l. l @ [10]) [?a, ?b])) = [?a, ?b]"
    by (rule lines_read_back) (simp add: line_break_def)
  have host: "item drift_policy ''hostFirewall'' =
      Inr (JObj [(text_of ''requiredPublicTcp'', JList [JInt 22]), (text_of ''forbiddenPublicTcp'', JList [JInt 1883])])"
    by (simp add: item_def drift_policy_def strict_sample_def dict_get_first text_of_eq_iff del: text_of_simps)
  have active: "has ''Status: active'' (concat (map (\<lambda>l. l @ [10]) [?a, ?b]))"
    unfolding has_def contains_iff by (intro exI [of _ "[]"] exI [of _ "10 # ?b @ [10]"]) simp
  have allow: "\<not> has ''ALLOW'' ?a" "has ''ALLOW'' ?b" by (simp_all add: has_def starts_with_def)
  have strip: "py_strip ?b = ?b" by (rule py_strip_id) (simp add: py_space_def)
  have "py_words ?b = [text_of ''22/tcp'', text_of ''ALLOW'', text_of ''Anywhere'']" by (simp add: py_words_def py_space_def)
  moreover have "takeWhile (\<lambda>c. c \<noteq> 47) (text_of ''22/tcp'') = text_of ''22''" by simp
  moreover have "show_text 22 = text_of ''22''" "show_text 1883 = text_of ''1883''" by code_simp+
  ultimately have "ufw_allows_port drift_lib ?b (JInt 22)" "\<not> ufw_allows_port drift_lib ?b (JInt 1883)"
    by (simp_all add: ufw_allows_port_def text_of_eq_iff del: text_of_simps)
  with lines host active allow strip show ?thesis
    by (simp add: check_ufw_status_def object_of_def item_def dict_get_first loop_items_def text_of_eq_iff Let_def del: text_of_simps)
qed

lemma drift_backend: "backend_results drift_lib = Inr [\<lparr>cr_name = ''firewall.backend_consistency'', cr_status = Pass,
    cr_detail = text_of ''iptables-nft and nftables agree''\<rparr>]"
proof -
  have "has ''nf_tables'' (text_of ''nf_tables'')" "has ''chain DOCKER-USER'' (text_of ''chain DOCKER-USER'')"
    by (simp_all add: has_def starts_with_def)
  then show ?thesis by (simp add: backend_results_def check_firewall_backend_def del: text_of_simps)
qed

lemma drift_passes:
  "\<exists>results. drift_check drift_lib (Some (ascii_bytes (text_of ''{}''))) = Inr (results, Pass, 0)"
proof -
  have chain: "check_docker_user_rules drift_policy (chain_text closed_sample) = Inr passing_results"
    by (rule sample_passes [OF drift_strict closed_sample_facts])
  have public: "public_results drift_lib drift_policy = Inr [\<lparr>cr_name = ''docker.public_bindings'', cr_status = Pass,
      cr_detail = text_of ''validated '' @ show_text 1 @ text_of '' bindings''\<rparr>]"
    by (simp add: public_results_def drift_bindings check_public_bindings_def drift_allowed del: text_of_simps)
  have "\<exists>results. collect_live_results drift_lib drift_policy = Inr results \<and> (\<forall>r \<in> set results. cr_status r = Pass)"
    by (simp add: collect_live_results_def public chain drift_ufw drift_backend or_blocked_def passing_results_pass verdict_of_def
        ball_Un del: text_of_simps list.map concat.simps)
  then show ?thesis
    using drift_loaded by (auto simp: drift_check_def drift_results_def overall_pass [symmetric] Let_def simp del: text_of_simps)
qed

theorem drift_check_fails_closed_witness:
  "\<exists>policy bindings rules ufw chain host backend.
    load_policy drift_lib (Some (ascii_bytes (text_of ''{}''))) = Inr policy \<and>
    bind_r (inspect_running_containers drift_lib) (parse_bindings drift_lib) = Inr bindings \<and>
    (\<forall>b \<in> set bindings. public_binding_allowed drift_lib policy b = Inr True) \<and>
    fl_run drift_lib IptablesRules = Inr rules \<and> check_docker_user_rules policy rules = Inr chain \<and>
    fl_run drift_lib UfwStatus = Inr ufw \<and> check_ufw_status drift_lib policy ufw = Inr host \<and> backend_results drift_lib = Inr backend \<and>
    (\<forall>r \<in> set (chain @ host @ backend). cr_status r = Pass) \<and> Pass = Pass"
  using drift_passes by (elim exE) (rule drift_check_fails_closed)

end
