(* ===== verification/Turn.thy ===== *)
theory Turn
  imports Ops_Base
begin

text \<open>
  The TURN client of the relay check, \<open>scripts/smoke/turn_relay_smoke.py\<close>: the URL, the STUN messages
  with their integrity and fingerprint attributes, and the long-term credential dialogue. MD5,
  HMAC-SHA1, the text of an IPv6 address, \<open>parse_qs\<close>, the connection and the random transaction
  identifiers are arguments.
\<close>

section \<open>Constants and messages\<close>

definition MAGIC_COOKIE :: nat where "MAGIC_COOKIE = 0x2112A442"
definition ALLOCATE_REQUEST :: nat where "ALLOCATE_REQUEST = 0x0003"
definition ALLOCATE_SUCCESS_RESPONSE :: nat where "ALLOCATE_SUCCESS_RESPONSE = 0x0103"
definition ALLOCATE_ERROR_RESPONSE :: nat where "ALLOCATE_ERROR_RESPONSE = 0x0113"
definition ATTR_USERNAME :: nat where "ATTR_USERNAME = 0x0006"
definition ATTR_MESSAGE_INTEGRITY :: nat where "ATTR_MESSAGE_INTEGRITY = 0x0008"
definition ATTR_ERROR_CODE :: nat where "ATTR_ERROR_CODE = 0x0009"
definition ATTR_REALM :: nat where "ATTR_REALM = 0x0014"
definition ATTR_NONCE :: nat where "ATTR_NONCE = 0x0015"
definition ATTR_REQUESTED_TRANSPORT :: nat where "ATTR_REQUESTED_TRANSPORT = 0x0019"
definition ATTR_XOR_RELAYED_ADDRESS :: nat where "ATTR_XOR_RELAYED_ADDRESS = 0x0016"
definition ATTR_FINGERPRINT :: nat where "ATTR_FINGERPRINT = 0x8028"
definition TRANSPORT_UDP :: byte where "TRANSPORT_UDP = 17"

lemmas stun_constants = ALLOCATE_REQUEST_def ALLOCATE_SUCCESS_RESPONSE_def ALLOCATE_ERROR_RESPONSE_def ATTR_USERNAME_def
  ATTR_MESSAGE_INTEGRITY_def ATTR_ERROR_CODE_def ATTR_REALM_def ATTR_NONCE_def ATTR_REQUESTED_TRANSPORT_def
  ATTR_XOR_RELAYED_ADDRESS_def ATTR_FINGERPRINT_def

text \<open>The exceptions by class; \<open>TurnNetworkError\<close> is one of the socket.\<close>

datatype turn_error =
    TurnAllocationError "nat option"
  | TurnRuntimeError string
  | TurnValueError
  | TurnStructError
  | TurnNetworkError

record turn_target =
  tt_host :: pytext
  tt_port :: int
  tt_transport :: pytext

record stun_attribute =
  sa_type :: nat
  sa_value :: bytes

record stun_message =
  sm_type :: nat
  sm_transaction_id :: bytes
  sm_attributes :: "stun_attribute list"

record turn_lib =
  tl_md5 :: "bytes \<Rightarrow> bytes"
  tl_hmac_sha1 :: "bytes \<Rightarrow> bytes \<Rightarrow> bytes"
  tl_inet6 :: "bytes \<Rightarrow> pytext"
  tl_parse_qs :: "pytext \<Rightarrow> (pytext, pytext list) dict"
  tl_netloc_ok :: "pytext \<Rightarrow> bool"
  tl_decimal :: "nat \<Rightarrow> nat option"

section \<open>The URL\<close>

text \<open>\<open>parsed.port\<close>: absent, or a decimal number up to 65535.\<close>

definition url_port :: "url_parts \<Rightarrow> turn_error + int option" where
  "url_port u =
     (let hostinfo = last (split_on 64 (url_netloc u));
          after = (if 91 \<in> set hostinfo then dropWhile (\<lambda>c. c \<noteq> 93) (dropWhile (\<lambda>c. c \<noteq> 91) hostinfo) else hostinfo);
          port = drop 1 (dropWhile (\<lambda>c. c \<noteq> 58) after) in
      if port = [] then Inr None
      else if list_all ascii_digit port \<and> digits_value port 0 \<le> 65535 then Inr (Some (int (digits_value port 0)))
      else Inl TurnValueError)"

text \<open>\<open>s.rpartition(":")\<close> as the text before the last colon, if there is one, and the text after it.\<close>

definition split_last_colon :: "pytext \<Rightarrow> pytext option \<times> pytext" where
  "split_last_colon s =
     (if 58 \<in> set s
      then (Some (rev (drop 1 (dropWhile (\<lambda>c. c \<noteq> 58) (rev s)))), rev (takeWhile (\<lambda>c. c \<noteq> 58) (rev s)))
      else (None, s))"

text \<open>A URL without \<open>//\<close>, whose target stands in the path.\<close>

definition raw_target :: "turn_lib \<Rightarrow> pytext \<Rightarrow> turn_error + (pytext \<times> int \<times> pytext)" where
  "raw_target lib val =
     (let rest = (if starts_with (text_of ''turn:'') val then drop 5 val else val);
          target = takeWhile (\<lambda>c. c \<noteq> 63) rest;
          query = drop 1 (dropWhile (\<lambda>c. c \<noteq> 63) rest);
          (host, raw_port) = (case split_last_colon target of (None, s) \<Rightarrow> (s, []) | (Some h, p) \<Rightarrow> (h, p)) in
      if raw_port = [] then Inr (host, 3478, query)
      else case text_int (tl_decimal lib) raw_port of
          None \<Rightarrow> Inl TurnValueError
        | Some port \<Rightarrow> Inr (host, port, query))"

definition parse_turn_url :: "turn_lib \<Rightarrow> pytext \<Rightarrow> turn_error + turn_target" where
  "parse_turn_url lib val =
     (case urlparse (tl_netloc_ok lib) val of
        None \<Rightarrow> Inl TurnValueError
      | Some parsed \<Rightarrow>
          if url_scheme parsed \<noteq> text_of ''turn'' then Inl TurnValueError
          else
            bind_r (if url_hostname parsed \<noteq> []
                    then bind_r (url_port parsed) (\<lambda>p.
                      Inr (url_hostname parsed, case p of None \<Rightarrow> 3478 | Some i \<Rightarrow> if i = 0 then 3478 else i, url_query parsed))
                    else raw_target lib val) (\<lambda>(host, port, query).
            if host = [] then Inl TurnValueError
            else
              let transport = text_lower (hd (case dict_get (tl_parse_qs lib query) (text_of ''transport'') of
                                                None \<Rightarrow> [text_of ''udp''] | Some vs \<Rightarrow> vs)) in
              if transport \<notin> {text_of ''udp'', text_of ''tcp''} then Inl TurnValueError
              else Inr \<lparr>tt_host = host, tt_port = port, tt_transport = transport\<rparr>))"

section \<open>Encoding\<close>

text \<open>\<open>struct.pack\<close> of a 16-bit field.\<close>

definition pack_u16 :: "nat \<Rightarrow> turn_error + bytes" where
  "pack_u16 n = (if n < 65536 then Inr (to_bytes 2 n) else Inl TurnStructError)"

definition padding_of :: "nat \<Rightarrow> nat" where
  "padding_of n = (4 - n mod 4) mod 4"

definition padded :: "bytes \<Rightarrow> bytes" where
  "padded v = v @ replicate (padding_of (length v)) 0"

definition encode_attribute :: "nat \<Rightarrow> bytes \<Rightarrow> turn_error + bytes" where
  "encode_attribute attr_type v =
     bind_r (pack_u16 attr_type) (\<lambda>t. bind_r (pack_u16 (length v)) (\<lambda>n. Inr (t @ n @ padded v)))"

definition encode_requested_transport :: "turn_error + bytes" where
  "encode_requested_transport = encode_attribute ATTR_REQUESTED_TRANSPORT [TRANSPORT_UDP, 0, 0, 0]"

text \<open>\<open>struct.pack("!HHI12s", ...)\<close>: the identifier is cut or filled to twelve octets.\<close>

definition stun_header :: "nat \<Rightarrow> nat \<Rightarrow> bytes \<Rightarrow> turn_error + bytes" where
  "stun_header message_type body_length transaction_id =
     bind_r (pack_u16 message_type) (\<lambda>t.
     bind_r (pack_u16 body_length) (\<lambda>n.
       Inr (t @ n @ to_bytes 4 MAGIC_COOKIE @ take 12 (transaction_id @ replicate 12 0))))"

definition text_bytes :: "pytext \<Rightarrow> turn_error + bytes" where
  "text_bytes s = (case utf8_encode s of Inl _ \<Rightarrow> Inl TurnValueError | Inr bs \<Rightarrow> Inr bs)"

definition long_term_key :: "turn_lib \<Rightarrow> pytext \<Rightarrow> pytext \<Rightarrow> pytext \<Rightarrow> turn_error + bytes" where
  "long_term_key lib username realm password =
     bind_r (text_bytes (username @ [58] @ realm @ [58] @ password)) (\<lambda>bs. Inr (tl_md5 lib bs))"

definition append_fingerprint :: "nat \<Rightarrow> bytes \<Rightarrow> bytes \<Rightarrow> turn_error + bytes" where
  "append_fingerprint message_type transaction_id body =
     bind_r (stun_header message_type (length body + 8) transaction_id) (\<lambda>header.
     let checksum = xor (crc32 (header @ body)) 0x5354554E in
     bind_r (encode_attribute ATTR_FINGERPRINT (to_bytes 4 (unat checksum))) (\<lambda>fingerprint.
       Inr (header @ body @ fingerprint)))"

record turn_credentials =
  tc_username :: pytext
  tc_realm :: pytext
  tc_nonce :: pytext
  tc_password :: pytext

text \<open>\<open>username and realm and nonce and password\<close>.\<close>

definition credentials_of :: "pytext option \<Rightarrow> pytext option \<Rightarrow> pytext option \<Rightarrow> pytext option \<Rightarrow> turn_credentials option" where
  "credentials_of username realm nonce password =
     (case (username, realm, nonce, password) of
        (Some u, Some r, Some n, Some p) \<Rightarrow>
          if u \<noteq> [] \<and> r \<noteq> [] \<and> n \<noteq> [] \<and> p \<noteq> []
          then Some \<lparr>tc_username = u, tc_realm = r, tc_nonce = n, tc_password = p\<rparr> else None
      | _ \<Rightarrow> None)"

definition credential_attributes :: "turn_credentials \<Rightarrow> turn_error + bytes" where
  "credential_attributes c =
     bind_r (bind_r (text_bytes (tc_username c)) (encode_attribute ATTR_USERNAME)) (\<lambda>u.
     bind_r (bind_r (text_bytes (tc_realm c)) (encode_attribute ATTR_REALM)) (\<lambda>r.
     bind_r (bind_r (text_bytes (tc_nonce c)) (encode_attribute ATTR_NONCE)) (\<lambda>n.
       Inr (u @ r @ n))))"

definition integrity_attribute :: "turn_lib \<Rightarrow> bytes \<Rightarrow> turn_credentials \<Rightarrow> bytes \<Rightarrow> turn_error + bytes" where
  "integrity_attribute lib transaction_id c partial_body =
     bind_r (stun_header ALLOCATE_REQUEST (length partial_body + 24) transaction_id) (\<lambda>header.
     bind_r (long_term_key lib (tc_username c) (tc_realm c) (tc_password c)) (\<lambda>key.
       encode_attribute ATTR_MESSAGE_INTEGRITY (tl_hmac_sha1 lib key (header @ partial_body))))"

definition encode_allocate_request ::
    "turn_lib \<Rightarrow> bytes \<Rightarrow> pytext option \<Rightarrow> pytext option \<Rightarrow> pytext option \<Rightarrow> pytext option \<Rightarrow> turn_error + bytes" where
  "encode_allocate_request lib transaction_id username realm nonce password =
     (case credentials_of username realm nonce password of
        None \<Rightarrow> bind_r encode_requested_transport (append_fingerprint ALLOCATE_REQUEST transaction_id)
      | Some c \<Rightarrow>
          bind_r (credential_attributes c) (\<lambda>attributes.
          bind_r encode_requested_transport (\<lambda>transport.
          bind_r (integrity_attribute lib transaction_id c (attributes @ transport)) (\<lambda>integrity.
            append_fingerprint ALLOCATE_REQUEST transaction_id (attributes @ transport @ integrity)))))"

section \<open>Decoding\<close>

function parse_attributes :: "bytes \<Rightarrow> stun_attribute list" where
  "parse_attributes body =
     (if length body < 4 then []
      else let attr_length = from_bytes (take 2 (drop 2 body)) in
        \<lparr>sa_type = from_bytes (take 2 body), sa_value = take attr_length (drop 4 body)\<rparr> #
        parse_attributes (drop (4 + attr_length + padding_of attr_length) body))"
  by auto
termination by (relation "measure length") auto

declare parse_attributes.simps [simp del]

definition parse_message :: "bytes \<Rightarrow> turn_error + stun_message" where
  "parse_message payload =
     (if length payload < 20 then Inl (TurnRuntimeError ''STUN response is shorter than the header'')
      else if from_bytes (take 4 (drop 4 payload)) \<noteq> MAGIC_COOKIE
      then Inl (TurnRuntimeError ''STUN response has an invalid magic cookie'')
      else Inr \<lparr>sm_type = from_bytes (take 2 payload), sm_transaction_id = take 12 (drop 8 payload),
                sm_attributes = parse_attributes (take (from_bytes (take 2 (drop 2 payload))) (drop 20 payload))\<rparr>)"

definition get_attr :: "stun_message \<Rightarrow> nat \<Rightarrow> bytes option" where
  "get_attr message attr_type = map_option sa_value (find (\<lambda>a. sa_type a = attr_type) (sm_attributes message))"

definition decode_error_code :: "bytes option \<Rightarrow> nat option" where
  "decode_error_code v =
     (case v of
        None \<Rightarrow> None
      | Some bs \<Rightarrow> if length bs < 4 then None else Some (unat (bs ! 2) mod 8 * 100 + unat (bs ! 3)))"

text \<open>\<open>socket.inet_ntoa\<close>.\<close>

definition inet_ntoa :: "bytes \<Rightarrow> pytext" where
  "inet_ntoa address = join_with [46] (map (\<lambda>b. show_text (uint b)) address)"

definition decode_xor_relayed_address :: "turn_lib \<Rightarrow> bytes option \<Rightarrow> bytes \<Rightarrow> pytext option" where
  "decode_xor_relayed_address lib v transaction_id =
     (case v of
        None \<Rightarrow> None
      | Some bs \<Rightarrow>
          if length bs < 8 then None
          else
            let xport = xor (from_bytes (take 2 (drop 2 bs))) (MAGIC_COOKIE div 65536);
                tail = [58] @ show_text (int xport) in
            if bs ! 1 = 1
            then Some (inet_ntoa (to_bytes 4 (xor (from_bytes (take 4 (drop 4 bs))) MAGIC_COOKIE)) @ tail)
            else if bs ! 1 = 2 \<and> 20 \<le> length bs
            then let mask = to_bytes 4 MAGIC_COOKIE @ take 12 (transaction_id @ replicate 12 0) in
              Some ([91] @ tl_inet6 lib (map2 xor (take 16 (drop 4 bs)) mask) @ [93] @ tail)
            else None)"

section \<open>The dialogue\<close>

text \<open>The socket: connecting, and sending a request and receiving the next datagram or chunk.\<close>

record 's turn_net =
  tn_connect :: "turn_target \<Rightarrow> turn_error + 's"
  tn_exchange :: "'s \<Rightarrow> bytes \<Rightarrow> turn_error + (bytes \<times> 's)"

definition turn_send :: "'s turn_net \<Rightarrow> 's \<Rightarrow> bytes \<Rightarrow> turn_error + (stun_message \<times> 's)" where
  "turn_send net s payload =
     bind_r (tn_exchange net s payload) (\<lambda>(reply, s).
     bind_r (parse_message (take 2048 reply)) (\<lambda>message. Inr (message, s)))"

definition decode_text :: "bytes \<Rightarrow> turn_error + pytext" where
  "decode_text bs = (case utf8_decode bs of Inl _ \<Rightarrow> Inl TurnValueError | Inr s \<Rightarrow> Inr s)"

text \<open>The realm and the nonce of a challenge.\<close>

definition challenge_fields :: "stun_message \<Rightarrow> turn_error + (pytext \<times> pytext)" where
  "challenge_fields challenge =
     (case (get_attr challenge ATTR_REALM, get_attr challenge ATTR_NONCE) of
        (Some realm, Some nonce) \<Rightarrow>
          if realm = [] \<or> nonce = [] then Inl (TurnRuntimeError ''TURN challenge did not include realm and nonce'')
          else bind_r (decode_text realm) (\<lambda>r. bind_r (decode_text nonce) (\<lambda>n. Inr (r, n)))
      | _ \<Rightarrow> Inl (TurnRuntimeError ''TURN challenge did not include realm and nonce''))"

text \<open>The loop over the attempts; \<open>tids\<close> are the random identifiers still to be drawn.\<close>

fun authenticate ::
    "turn_lib \<Rightarrow> 's turn_net \<Rightarrow> (nat \<Rightarrow> bytes) \<Rightarrow> pytext \<Rightarrow> pytext \<Rightarrow> nat \<Rightarrow> stun_message \<Rightarrow> 's \<Rightarrow> turn_error + stun_message" where
  "authenticate lib net tids username password 0 challenge s =
     Inl (TurnRuntimeError ''TURN allocation failed after retrying stale nonce challenges'')"
| "authenticate lib net tids username password (Suc n) challenge s =
     bind_r (challenge_fields challenge) (\<lambda>(realm, nonce).
     bind_r (encode_allocate_request lib (tids 0) (Some username) (Some realm) (Some nonce) (Some password)) (\<lambda>request.
     bind_r (turn_send net s request) (\<lambda>(authenticated, s).
     if sm_type authenticated = ALLOCATE_SUCCESS_RESPONSE then Inr authenticated
     else
       let error_code = decode_error_code (get_attr authenticated ATTR_ERROR_CODE) in
       if sm_type authenticated = ALLOCATE_ERROR_RESPONSE \<and> error_code = Some 438
       then authenticate lib net (\<lambda>i. tids (Suc i)) username password n authenticated s
       else Inl (TurnAllocationError error_code))))"

definition run_turn_allocate ::
    "turn_lib \<Rightarrow> 's turn_net \<Rightarrow> (nat \<Rightarrow> bytes) \<Rightarrow> turn_target \<Rightarrow> pytext \<Rightarrow> pytext \<Rightarrow> turn_error + pytext" where
  "run_turn_allocate lib net tids target username password =
     bind_r (tn_connect net target) (\<lambda>s.
     bind_r (encode_allocate_request lib (tids 0) None None None None) (\<lambda>request.
     bind_r (turn_send net s request) (\<lambda>(challenge, s).
     if sm_type challenge \<noteq> ALLOCATE_ERROR_RESPONSE \<or> decode_error_code (get_attr challenge ATTR_ERROR_CODE) \<noteq> Some 401
     then Inl (TurnRuntimeError ''TURN server did not return the expected long-term credential challenge'')
     else
       bind_r (authenticate lib net (\<lambda>i. tids (Suc i)) username password 3 challenge s) (\<lambda>authenticated.
       case decode_xor_relayed_address lib (get_attr authenticated ATTR_XOR_RELAYED_ADDRESS) (sm_transaction_id authenticated) of
         None \<Rightarrow> Inl (TurnRuntimeError ''TURN allocation succeeded but did not return XOR-RELAYED-ADDRESS'')
       | Some relay \<Rightarrow> Inr relay))))"

definition verify_credential_denial ::
    "turn_lib \<Rightarrow> 's turn_net \<Rightarrow> (nat \<Rightarrow> bytes) \<Rightarrow> turn_target \<Rightarrow> pytext \<Rightarrow> pytext \<Rightarrow> turn_error + unit" where
  "verify_credential_denial lib net tids target username password =
     (case run_turn_allocate lib net tids target username (password @ text_of ''-invalid'') of
        Inr _ \<Rightarrow> Inl (TurnRuntimeError ''TURN accepted an invalid credential'')
      | Inl (TurnAllocationError code) \<Rightarrow>
          if code = Some 401 then Inr ()
          else Inl (TurnRuntimeError ''TURN invalid-credential check returned an unexpected error'')
      | Inl e \<Rightarrow> Inl e)"

text \<open>
  \<open>main\<close> with \<open>--run\<close>: the exit code. The two runs have a connection each and draw identifiers of their own, so each
  has a socket and a sequence of identifiers.
\<close>

definition turn_run ::
    "turn_lib \<Rightarrow> 's turn_net \<Rightarrow> 's turn_net \<Rightarrow> (nat \<Rightarrow> bytes) \<Rightarrow> (nat \<Rightarrow> bytes) \<Rightarrow> pytext \<Rightarrow> pytext option \<Rightarrow> pytext option \<Rightarrow> bool \<Rightarrow> turn_error + pytext" where
  "turn_run lib net denial_net tids denial_tids turn_url username password verify_denials =
     (case (username, password) of
        (Some u, Some p) \<Rightarrow>
          if u = [] \<or> p = [] then Inl (TurnRuntimeError ''WEBRTC_TURN_USERNAME and WEBRTC_TURN_PASSWORD are required for --run'')
          else
            bind_r (parse_turn_url lib turn_url) (\<lambda>target.
            bind_r (run_turn_allocate lib net tids target u p) (\<lambda>relay.
            bind_r (if verify_denials then verify_credential_denial lib denial_net denial_tids target u p else Inr ()) (\<lambda>_.
              Inr relay)))
      | _ \<Rightarrow> Inl (TurnRuntimeError ''WEBRTC_TURN_USERNAME and WEBRTC_TURN_PASSWORD are required for --run''))"

definition turn_main ::
    "turn_lib \<Rightarrow> 's turn_net \<Rightarrow> 's turn_net \<Rightarrow> (nat \<Rightarrow> bytes) \<Rightarrow> (nat \<Rightarrow> bytes) \<Rightarrow> pytext \<Rightarrow> pytext option \<Rightarrow> pytext option \<Rightarrow> bool \<Rightarrow> int" where
  "turn_main lib net denial_net tids denial_tids turn_url username password verify_denials =
     (case turn_run lib net denial_net tids denial_tids turn_url username password verify_denials of Inr _ \<Rightarrow> 0 | Inl _ \<Rightarrow> 1)"

section \<open>The codec\<close>

lemma to_bytes_small: "n < 256 ^ k \<Longrightarrow> from_bytes (to_bytes k n) = n"
proof -
  have "map unat (map octet (digits_of 256 k n)) = digits_of 256 k n"
    using digits_of_less [of 256 k n] by (auto simp: list_all_iff intro!: map_idI)
  then have "from_bytes (to_bytes k n) = n mod 256 ^ k" by (simp add: from_bytes_def to_bytes_def value_of_digits)
  then show "n < 256 ^ k \<Longrightarrow> from_bytes (to_bytes k n) = n" by simp
qed

lemma pack_u16_Inr: "pack_u16 n = Inr bs \<longleftrightarrow> n < 65536 \<and> bs = to_bytes 2 n"
  by (auto simp: pack_u16_def)

lemma encode_attribute_Inr:
  "encode_attribute t v = Inr bs \<longleftrightarrow> t < 65536 \<and> length v < 65536 \<and> bs = to_bytes 2 t @ to_bytes 2 (length v) @ padded v"
  by (auto simp: encode_attribute_def bind_r_eq_Inr pack_u16_Inr)

lemma stun_header_Inr:
  "stun_header m n tid = Inr h \<longleftrightarrow>
     m < 65536 \<and> n < 65536 \<and> h = to_bytes 2 m @ to_bytes 2 n @ to_bytes 4 MAGIC_COOKIE @ take 12 (tid @ replicate 12 0)"
  by (auto simp: stun_header_def bind_r_eq_Inr pack_u16_Inr)

lemma padded_length: "length (padded v) = length v + padding_of (length v)"
  by (simp add: padded_def)

lemma parse_encoded:
  assumes "encode_attribute t v = Inr e"
  shows "parse_attributes (e @ rest) = \<lparr>sa_type = t, sa_value = v\<rparr> # parse_attributes rest"
proof -
  have e: "e = to_bytes 2 t @ to_bytes 2 (length v) @ padded v" "t < 65536" "length v < 65536"
    using assms by (auto simp: encode_attribute_Inr)
  then have "from_bytes (to_bytes 2 t) = t" "from_bytes (to_bytes 2 (length v)) = length v" by (simp_all add: to_bytes_small)
  then show ?thesis using e(1) by (subst parse_attributes.simps) (simp add: padded_length padded_def)
qed

text \<open>The attributes and the message that the functions of the source write.\<close>

definition encoded_attributes :: "stun_attribute list \<Rightarrow> turn_error + bytes" where
  "encoded_attributes attributes =
     bind_r (map_r (\<lambda>a. encode_attribute (sa_type a) (sa_value a)) attributes) (\<lambda>es. Inr (concat es))"

definition stun_message_bytes :: "stun_message \<Rightarrow> turn_error + bytes" where
  "stun_message_bytes message =
     bind_r (encoded_attributes (sm_attributes message)) (\<lambda>body.
     bind_r (stun_header (sm_type message) (length body) (sm_transaction_id message)) (\<lambda>header. Inr (header @ body)))"

lemma encoded_attributes_simps [simp]:
  "encoded_attributes [] = Inr []"
  "encoded_attributes (a # as) =
     bind_r (encode_attribute (sa_type a) (sa_value a)) (\<lambda>e. bind_r (encoded_attributes as) (\<lambda>es. Inr (e @ es)))"
  by (simp_all add: encoded_attributes_def bind_r_assoc)

lemma encoded_attributes_append:
  "encoded_attributes (as @ bs) = bind_r (encoded_attributes as) (\<lambda>x. bind_r (encoded_attributes bs) (\<lambda>y. Inr (x @ y)))"
  by (induction as) (simp_all add: bind_r_assoc, cases "encoded_attributes bs", auto)

lemma parse_encoded_attributes: "encoded_attributes as = Inr body \<Longrightarrow> parse_attributes body = as"
  by (induction as arbitrary: body) (auto simp: bind_r_eq_Inr parse_encoded parse_attributes.simps [of "[]"])

lemma encoded_attributes_length: "encoded_attributes as = Inr body \<Longrightarrow> length body = (\<Sum>a \<leftarrow> as. 4 + length (padded (sa_value a)))"
  by (induction as arbitrary: body) (auto simp: bind_r_eq_Inr encode_attribute_Inr)

lemma parse_header:
  assumes "stun_header m n tid = Inr h" and "length tid = 12" and "length body = n"
  shows "parse_message (h @ body) = Inr \<lparr>sm_type = m, sm_transaction_id = tid, sm_attributes = parse_attributes body\<rparr>"
proof -
  have h: "m < 65536" "n < 65536" "h = to_bytes 2 m @ to_bytes 2 n @ to_bytes 4 MAGIC_COOKIE @ tid"
    using assms(1,2) by (auto simp: stun_header_Inr)
  moreover have "from_bytes (to_bytes 4 MAGIC_COOKIE) = MAGIC_COOKIE" by (rule to_bytes_small) (simp add: MAGIC_COOKIE_def)
  ultimately show ?thesis using assms(2,3) to_bytes_small [of m 2] to_bytes_small [of n 2] by (simp add: parse_message_def)
qed

lemma message_read_back:
  assumes "stun_message_bytes message = Inr bs" and "length (sm_transaction_id message) = 12"
  shows "parse_message bs = Inr message"
proof -
  obtain body h where "encoded_attributes (sm_attributes message) = Inr body"
      "stun_header (sm_type message) (length body) (sm_transaction_id message) = Inr h" "bs = h @ body"
    using assms(1) by (auto simp: stun_message_bytes_def bind_r_eq_Inr)
  with parse_header [OF this(2) assms(2) refl] parse_encoded_attributes show ?thesis by simp
qed

text \<open>The value of the fingerprint over what stands before it.\<close>

definition fingerprint_of :: "bytes \<Rightarrow> bytes" where
  "fingerprint_of prefix = to_bytes 4 (unat (xor (crc32 prefix) 0x5354554E))"

lemma append_fingerprint_message:
  assumes "encoded_attributes as = Inr body"
  shows "append_fingerprint m tid body =
    bind_r (stun_header m (length body + 8) tid) (\<lambda>h.
      stun_message_bytes \<lparr>sm_type = m, sm_transaction_id = tid,
        sm_attributes = as @ [\<lparr>sa_type = ATTR_FINGERPRINT, sa_value = fingerprint_of (h @ body)\<rparr>]\<rparr>)"
  using assms
  by (cases "stun_header m (length body + 8) tid")
    (auto simp: append_fingerprint_def stun_message_bytes_def encoded_attributes_append fingerprint_of_def encode_attribute_def
      pack_u16_def ATTR_FINGERPRINT_def padded_def padding_of_def Let_def)

section \<open>Authenticated requests\<close>

text \<open>
  What the integrity attribute covers: the attributes before it, under a header whose length reaches to
  the end of the integrity attribute, 24 octets later.
\<close>

definition integrity_input :: "stun_message \<Rightarrow> turn_error + bytes" where
  "integrity_input message =
     bind_r (encoded_attributes (takeWhile (\<lambda>a. sa_type a \<noteq> ATTR_MESSAGE_INTEGRITY) (sm_attributes message))) (\<lambda>partial.
     bind_r (stun_header (sm_type message) (length partial + 24) (sm_transaction_id message)) (\<lambda>header.
       Inr (header @ partial)))"

definition request_attributes :: "bytes \<Rightarrow> bytes \<Rightarrow> bytes \<Rightarrow> stun_attribute list" where
  "request_attributes username realm nonce =
     [\<lparr>sa_type = ATTR_USERNAME, sa_value = username\<rparr>, \<lparr>sa_type = ATTR_REALM, sa_value = realm\<rparr>,
      \<lparr>sa_type = ATTR_NONCE, sa_value = nonce\<rparr>, \<lparr>sa_type = ATTR_REQUESTED_TRANSPORT, sa_value = [TRANSPORT_UDP, 0, 0, 0]\<rparr>]"

definition signed_request :: "bytes \<Rightarrow> bytes \<Rightarrow> bytes \<Rightarrow> bytes \<Rightarrow> bytes \<Rightarrow> bytes \<Rightarrow> stun_message" where
  "signed_request tid username realm nonce digest fingerprint =
     \<lparr>sm_type = ALLOCATE_REQUEST, sm_transaction_id = tid,
      sm_attributes = request_attributes username realm nonce @
        [\<lparr>sa_type = ATTR_MESSAGE_INTEGRITY, sa_value = digest\<rparr>, \<lparr>sa_type = ATTR_FINGERPRINT, sa_value = fingerprint\<rparr>]\<rparr>"

lemma padding_small: "padding_of n \<le> 3"
  by (simp add: padding_of_def)

lemma encode_attribute_small: "t < 65536 \<Longrightarrow> length v < 65536 \<Longrightarrow> \<exists>e. encode_attribute t v = Inr e \<and> length e \<le> length v + 7"
  using padding_small [of "length v"] by (auto simp: encode_attribute_Inr padded_length)

lemma request_attributes_encoded:
  assumes "length ub + length rb + length nb \<le> 60000"
  shows "\<exists>partial. encoded_attributes (request_attributes ub rb nb) = Inr partial \<and> length partial \<le> 60029"
proof -
  obtain u r n where "encode_attribute ATTR_USERNAME ub = Inr u" "encode_attribute ATTR_REALM rb = Inr r"
      "encode_attribute ATTR_NONCE nb = Inr n" "length u \<le> length ub + 7" "length r \<le> length rb + 7" "length n \<le> length nb + 7"
    using encode_attribute_small [of ATTR_USERNAME ub] encode_attribute_small [of ATTR_REALM rb]
      encode_attribute_small [of ATTR_NONCE nb] assms
    by (auto simp: stun_constants)
  moreover have "encode_attribute ATTR_REQUESTED_TRANSPORT [TRANSPORT_UDP, 0, 0, 0] = Inr t \<Longrightarrow> length t = 8" for t
    by (auto simp: encode_attribute_Inr padded_length padding_of_def)
  moreover have "\<exists>t. encode_attribute ATTR_REQUESTED_TRANSPORT [TRANSPORT_UDP, 0, 0, 0] = Inr t"
    by (auto simp: encode_attribute_Inr stun_constants)
  ultimately show ?thesis using assms by (auto simp: request_attributes_def)
qed

lemma stun_header_ok: "m < 65536 \<Longrightarrow> n < 65536 \<Longrightarrow> \<exists>h. stun_header m n tid = Inr h"
  by (simp add: stun_header_Inr)

lemma request_message:
  assumes creds: "u \<noteq> []" "r \<noteq> []" "n \<noteq> []" "p \<noteq> []"
    and texts: "text_bytes u = Inr ub" "text_bytes r = Inr rb" "text_bytes n = Inr nb" "long_term_key lib u r p = Inr key"
    and sizes: "length ub + length rb + length nb \<le> 60000" "length tid = 12" "\<And>k m. length (tl_hmac_sha1 lib k m) = 20"
  shows "\<exists>req input f. encode_allocate_request lib tid (Some u) (Some r) (Some n) (Some p) = Inr req \<and>
    parse_message req = Inr (signed_request tid ub rb nb (tl_hmac_sha1 lib key input) f) \<and>
    integrity_input (signed_request tid ub rb nb (tl_hmac_sha1 lib key input) f) = Inr input \<and>
    f = fingerprint_of (take (length req - 8) req)"
proof -
  obtain partial where partial: "encoded_attributes (request_attributes ub rb nb) = Inr partial" "length partial \<le> 60029"
    using request_attributes_encoded [OF sizes(1)] by blast
  obtain h where h: "stun_header ALLOCATE_REQUEST (length partial + 24) tid = Inr h"
    using stun_header_ok [of ALLOCATE_REQUEST "length partial + 24" tid] partial(2) by (auto simp: stun_constants)
  let ?d = "tl_hmac_sha1 lib key (h @ partial)"
  let ?mi = "\<lparr>sa_type = ATTR_MESSAGE_INTEGRITY, sa_value = ?d\<rparr>"
  obtain mi where mi: "encode_attribute ATTR_MESSAGE_INTEGRITY ?d = Inr mi" "length mi = 24"
    by (auto simp: encode_attribute_Inr stun_constants padded_length padding_of_def sizes(3))
  have body: "encoded_attributes (request_attributes ub rb nb @ [?mi]) = Inr (partial @ mi)"
    using partial(1) mi(1) by (simp add: encoded_attributes_append)
  obtain h' where h': "stun_header ALLOCATE_REQUEST (length (partial @ mi) + 8) tid = Inr h'"
    using stun_header_ok [of ALLOCATE_REQUEST "length (partial @ mi) + 8" tid] partial(2) mi(2) by (auto simp: stun_constants)
  let ?f = "fingerprint_of (h' @ partial @ mi)"
  obtain fp where fp: "encode_attribute ATTR_FINGERPRINT ?f = Inr fp" "length fp = 8"
    by (auto simp: encode_attribute_Inr stun_constants padded_length padding_of_def fingerprint_of_def)
  have fingerprint: "append_fingerprint ALLOCATE_REQUEST tid (partial @ mi) = stun_message_bytes (signed_request tid ub rb nb ?d ?f)"
    using append_fingerprint_message [OF body, of ALLOCATE_REQUEST tid] h' by (simp add: signed_request_def)
  have message: "stun_message_bytes (signed_request tid ub rb nb ?d ?f) = Inr (h' @ partial @ mi @ fp)"
    using body fp h' by (simp add: stun_message_bytes_def signed_request_def encoded_attributes_append partial(1) mi add.commute)
  obtain c t where transport: "credential_attributes \<lparr>tc_username = u, tc_realm = r, tc_nonce = n, tc_password = p\<rparr> = Inr c"
      "encode_requested_transport = Inr t" "partial = c @ t"
    using partial(1) texts
    by (auto simp: credential_attributes_def encode_requested_transport_def request_attributes_def bind_r_eq_Inr)
  have "encode_allocate_request lib tid (Some u) (Some r) (Some n) (Some p) =
      append_fingerprint ALLOCATE_REQUEST tid (partial @ mi)"
    using creds texts h mi(1) by (simp add: encode_allocate_request_def credentials_of_def integrity_attribute_def transport)
  then have "encode_allocate_request lib tid (Some u) (Some r) (Some n) (Some p) = Inr (h' @ partial @ mi @ fp)"
    using fingerprint message by simp
  moreover have "parse_message (h' @ partial @ mi @ fp) = Inr (signed_request tid ub rb nb ?d ?f)"
    using message_read_back [OF message] sizes(2) by (simp add: signed_request_def)
  moreover have "integrity_input (signed_request tid ub rb nb ?d ?f) = Inr (h @ partial)"
  proof -
    have "takeWhile (\<lambda>a. sa_type a \<noteq> ATTR_MESSAGE_INTEGRITY) (sm_attributes (signed_request tid ub rb nb ?d ?f)) =
        request_attributes ub rb nb"
      by (simp add: signed_request_def request_attributes_def stun_constants)
    then show ?thesis using partial(1) h by (simp add: integrity_input_def signed_request_def)
  qed
  moreover have "fingerprint_of (take (length (h' @ partial @ mi @ fp) - 8) (h' @ partial @ mi @ fp)) = ?f"
    using fp(2) by simp
  ultimately show ?thesis
    by (intro exI [of _ "h' @ partial @ mi @ fp"] exI [of _ "h @ partial"] exI [of _ ?f] conjI) (simp_all only:)
qed

text \<open>
  C36: a request with credentials is a well-formed STUN message for the server. It parses back to an
  Allocate request with the drawn identifier and the attributes USERNAME, REALM, NONCE,
  REQUESTED-TRANSPORT, MESSAGE-INTEGRITY and FINGERPRINT in this order; the integrity value is the HMAC
  under the long-term key over what precedes it, with the header length the receiver uses, and the
  fingerprint is the masked CRC-32 of everything before it. For credentials of at most 60000 octets.
\<close>

theorem allocate_request_signed:
  assumes "u \<noteq> []" and "r \<noteq> []" and "n \<noteq> []" and "p \<noteq> []"
    and "text_bytes u = Inr ub" and "text_bytes r = Inr rb" and "text_bytes n = Inr nb" and "long_term_key lib u r p = Inr key"
    and "length ub + length rb + length nb \<le> 60000" and "length tid = 12" and "\<And>k m. length (tl_hmac_sha1 lib k m) = 20"
  shows "\<exists>req input f. encode_allocate_request lib tid (Some u) (Some r) (Some n) (Some p) = Inr req \<and>
    parse_message req = Inr (signed_request tid ub rb nb (tl_hmac_sha1 lib key input) f) \<and>
    integrity_input (signed_request tid ub rb nb (tl_hmac_sha1 lib key input) f) = Inr input \<and>
    f = fingerprint_of (take (length req - 8) req)"
  using assms by (rule request_message)

text \<open>
  C37: STUN messages read back. What the encoding functions write for a message with a twelve-octet
  identifier, \<open>parse_message\<close> reads as the same type, identifier and attributes, whatever the lengths
  of the values and their padding.
\<close>

theorem stun_message_roundtrip:
  assumes "stun_message_bytes message = Inr bs" and "length (sm_transaction_id message) = 12"
  shows "parse_message bs = Inr message"
  using assms by (rule message_read_back)

section \<open>The relayed address\<close>

lemma xor_less: "m < 2 ^ k \<Longrightarrow> n < 2 ^ k \<Longrightarrow> xor m n < 2 ^ k" for m n :: nat
  by (metis take_bit_nat_eq_self_iff take_bit_xor)

lemma xor_back: "xor (xor m c) c = m" for m c :: nat
  by (simp add: xor.assoc)

lemma xor_field:
  "m < 256 ^ k \<Longrightarrow> c < 256 ^ k \<Longrightarrow> xor (from_bytes (to_bytes k (xor m c))) c = m"
  using xor_less [of m "8 * k" c] by (simp add: to_bytes_small xor_back power_mult)

text \<open>The values of XOR-RELAYED-ADDRESS that a server writes, RFC 5766 and RFC 5389.\<close>

definition xor_relayed_v4 :: "bytes \<Rightarrow> nat \<Rightarrow> bytes" where
  "xor_relayed_v4 address port =
     [0, 1] @ to_bytes 2 (xor port (MAGIC_COOKIE div 65536)) @ to_bytes 4 (xor (from_bytes address) MAGIC_COOKIE)"

definition xor_relayed_v6 :: "bytes \<Rightarrow> bytes \<Rightarrow> nat \<Rightarrow> bytes" where
  "xor_relayed_v6 tid address port =
     [0, 2] @ to_bytes 2 (xor port (MAGIC_COOKIE div 65536)) @ map2 xor address (to_bytes 4 MAGIC_COOKIE @ tid)"

lemma decode_relayed_v4:
  assumes "length address = 4" and "port < 65536"
  shows "decode_xor_relayed_address lib (Some (xor_relayed_v4 address port)) tid =
    Some (inet_ntoa address @ [58] @ show_text (int port))"
proof -
  have "to_bytes 4 (from_bytes address) = address" using to_from_bytes [of address] assms(1) by simp
  moreover have "from_bytes address < 256 ^ 4" using from_bytes_less [of address] assms(1) by simp
  ultimately show ?thesis
    using xor_field [of port 2 "MAGIC_COOKIE div 65536"] xor_field [of "from_bytes address" 4 MAGIC_COOKIE] assms(2)
    by (simp add: decode_xor_relayed_address_def xor_relayed_v4_def MAGIC_COOKIE_def)
qed

lemma map2_xor_back: "length a \<le> length b \<Longrightarrow> map2 xor (map2 xor a b) b = (a :: bytes)"
  by (induction a b rule: list_induct2') (simp_all add: xor.assoc)

lemma decode_relayed_v6:
  assumes "length address = 16" and "port < 65536" and "length tid = 12"
  shows "decode_xor_relayed_address lib (Some (xor_relayed_v6 tid address port)) tid =
    Some ([91] @ tl_inet6 lib address @ [93, 58] @ show_text (int port))"
  using assms xor_field [of port 2 "MAGIC_COOKIE div 65536"]
    map2_xor_back [of address "to_bytes 4 MAGIC_COOKIE @ tid"]
  by (simp add: decode_xor_relayed_address_def xor_relayed_v6_def MAGIC_COOKIE_def)

text \<open>
  the relayed address survives the masking of the protocol. What a server writes for an IPv4 or an
  IPv6 address and a port, the client shows as this address and port.
\<close>

theorem relayed_address_roundtrip:
  assumes "port < 65536" and "length v4 = 4" and "length v6 = 16" and "length tid = 12"
  shows "decode_xor_relayed_address lib (Some (xor_relayed_v4 v4 port)) tid =
      Some (inet_ntoa v4 @ [58] @ show_text (int port)) \<and>
    decode_xor_relayed_address lib (Some (xor_relayed_v6 tid v6 port)) tid =
      Some ([91] @ tl_inet6 lib v6 @ [93, 58] @ show_text (int port))"
  using assms decode_relayed_v4 decode_relayed_v6 by blast

section \<open>A sample server\<close>

text \<open>
  A server for the sample runs at the end, no part of the scripts: the long-term credential mechanism of RFC 5389 with the allocation of RFC 5766, for one account. The
  state is the list of nonces the server will use; each but the last expires when it is first used.
\<close>

record turn_account =
  ac_username :: bytes
  ac_realm :: bytes
  ac_key :: bytes
  ac_address :: bytes
  ac_port :: nat

definition challenge_message :: "turn_account \<Rightarrow> nat \<Rightarrow> bytes \<Rightarrow> bytes \<Rightarrow> stun_message" where
  "challenge_message ac code tid nonce =
     \<lparr>sm_type = ALLOCATE_ERROR_RESPONSE, sm_transaction_id = tid,
      sm_attributes =
        [\<lparr>sa_type = ATTR_ERROR_CODE, sa_value = [0, 0, of_nat (code div 100), of_nat (code mod 100)]\<rparr>,
         \<lparr>sa_type = ATTR_REALM, sa_value = ac_realm ac\<rparr>, \<lparr>sa_type = ATTR_NONCE, sa_value = nonce\<rparr>]\<rparr>"

definition success_message :: "turn_account \<Rightarrow> bytes \<Rightarrow> stun_message" where
  "success_message ac tid =
     \<lparr>sm_type = ALLOCATE_SUCCESS_RESPONSE, sm_transaction_id = tid,
      sm_attributes = [\<lparr>sa_type = ATTR_XOR_RELAYED_ADDRESS, sa_value = xor_relayed_v4 (ac_address ac) (ac_port ac)\<rparr>]\<rparr>"

definition authentic :: "turn_lib \<Rightarrow> turn_account \<Rightarrow> stun_message \<Rightarrow> bool" where
  "authentic lib ac message \<longleftrightarrow>
     get_attr message ATTR_USERNAME = Some (ac_username ac) \<and> get_attr message ATTR_REALM = Some (ac_realm ac) \<and>
     (case integrity_input message of
        Inl _ \<Rightarrow> False
      | Inr input \<Rightarrow> get_attr message ATTR_MESSAGE_INTEGRITY = Some (tl_hmac_sha1 lib (ac_key ac) input))"

definition answer :: "turn_lib \<Rightarrow> turn_account \<Rightarrow> bytes list \<Rightarrow> stun_message \<Rightarrow> stun_message \<times> bytes list" where
  "answer lib ac nonces message =
     (let tid = sm_transaction_id message in
      if \<not> authentic lib ac message then (challenge_message ac 401 tid (hd nonces), nonces)
      else if get_attr message ATTR_NONCE \<noteq> Some (hd nonces) then (challenge_message ac 438 tid (hd nonces), nonces)
      else if tl nonces \<noteq> [] then (challenge_message ac 438 tid (hd (tl nonces)), tl nonces)
      else (success_message ac tid, nonces))"

definition turn_server :: "turn_lib \<Rightarrow> turn_account \<Rightarrow> bytes list \<Rightarrow> bytes list turn_net" where
  "turn_server lib ac nonces =
     \<lparr>tn_connect = (\<lambda>_. Inr nonces),
      tn_exchange = (\<lambda>nonces payload.
        bind_r (parse_message payload) (\<lambda>message.
        let (reply, nonces) = answer lib ac nonces message in
        bind_r (stun_message_bytes reply) (\<lambda>bs. Inr (bs, nonces))))\<rparr>"

definition account_ok :: "turn_account \<Rightarrow> pytext \<Rightarrow> pytext \<Rightarrow> bool" where
  "account_ok ac username realm \<longleftrightarrow>
     username \<noteq> [] \<and> realm \<noteq> [] \<and> text_bytes username = Inr (ac_username ac) \<and> text_bytes realm = Inr (ac_realm ac) \<and>
     length (ac_username ac) \<le> 500 \<and> length (ac_realm ac) \<le> 500 \<and> length (ac_address ac) = 4 \<and> ac_port ac < 65536"

definition nonce_ok :: "bytes \<Rightarrow> bool" where
  "nonce_ok nonce \<longleftrightarrow> nonce \<noteq> [] \<and> is_ok (utf8_decode nonce) \<and> length nonce \<le> 500"

lemma text_bytes_decode: "text_bytes s = Inr bs \<longleftrightarrow> decode_text bs = Inr s"
  using utf8_decode_encode [of s bs] utf8_encode_decode [of bs s]
  by (cases "utf8_encode s"; cases "utf8_decode bs") (auto simp: text_bytes_def decode_text_def)

lemma text_bytes_empty: "text_bytes s = Inr bs \<Longrightarrow> bs = [] \<longleftrightarrow> s = []"
  by (cases s) (auto simp: text_bytes_def utf8_encode_Cons bind_r_eq_Inr dest: utf8_encode_char_nonempty split: sum.splits)

lemma nonce_text: "nonce_ok nonce \<Longrightarrow> \<exists>n. n \<noteq> [] \<and> decode_text nonce = Inr n \<and> text_bytes n = Inr nonce"
  using text_bytes_empty unfolding text_bytes_decode
  by (auto simp: nonce_ok_def is_ok_iff decode_text_def)

lemma message_small:
  assumes "encoded_attributes (sm_attributes m) = Inr body" and "length body \<le> 2028"
    and "sm_type m < 65536" and "length (sm_transaction_id m) = 12"
  shows "\<exists>bs. stun_message_bytes m = Inr bs \<and> length bs \<le> 2048"
proof -
  obtain h where "stun_header (sm_type m) (length body) (sm_transaction_id m) = Inr h"
    using stun_header_ok [OF assms(3), of "length body"] assms(2) by auto
  moreover from this have "length h = 20" using assms(4) by (auto simp: stun_header_Inr)
  ultimately show ?thesis using assms(1,2) by (simp add: stun_message_bytes_def)
qed

lemma challenge_small:
  assumes "length (ac_realm ac) \<le> 500" and "length nonce \<le> 500" and "length tid = 12"
  shows "\<exists>bs. stun_message_bytes (challenge_message ac code tid nonce) = Inr bs \<and> length bs \<le> 2048"
proof -
  let ?code = "[0, 0, of_nat (code div 100), of_nat (code mod 100)] :: bytes"
  obtain c r n where "encode_attribute ATTR_ERROR_CODE ?code = Inr c" "length c \<le> 11"
      "encode_attribute ATTR_REALM (ac_realm ac) = Inr r" "length r \<le> 507"
      "encode_attribute ATTR_NONCE nonce = Inr n" "length n \<le> 507"
    using encode_attribute_small [of ATTR_ERROR_CODE ?code] encode_attribute_small [of ATTR_REALM "ac_realm ac"]
      encode_attribute_small [of ATTR_NONCE nonce] assms
    by (fastforce simp: stun_constants)
  then have "encoded_attributes (sm_attributes (challenge_message ac code tid nonce)) = Inr (c @ r @ n)" "length (c @ r @ n) \<le> 2028"
    by (simp_all add: challenge_message_def)
  from message_small [OF this] assms(3) show ?thesis by (simp add: challenge_message_def stun_constants)
qed

lemma success_small:
  assumes "length tid = 12" and "length (ac_address ac) = 4"
  shows "\<exists>bs. stun_message_bytes (success_message ac tid) = Inr bs \<and> length bs \<le> 2048"
proof -
  let ?v = "xor_relayed_v4 (ac_address ac) (ac_port ac)"
  obtain e where "encode_attribute ATTR_XOR_RELAYED_ADDRESS ?v = Inr e" "length e \<le> 15"
    using encode_attribute_small [of ATTR_XOR_RELAYED_ADDRESS ?v] by (auto simp: stun_constants xor_relayed_v4_def)
  then have "encoded_attributes (sm_attributes (success_message ac tid)) = Inr e" "length e \<le> 2028"
    by (simp_all add: success_message_def)
  from message_small [OF this] assms(1) show ?thesis by (simp add: success_message_def stun_constants)
qed

lemma server_reply:
  assumes "parse_message request = Inr message" and "answer lib ac nonces message = (reply, nonces')"
    and "\<exists>bs. stun_message_bytes reply = Inr bs \<and> length bs \<le> 2048" and "length (sm_transaction_id reply) = 12"
  shows "turn_send (turn_server lib ac start) nonces request = Inr (reply, nonces')"
  using assms message_read_back by (auto simp: turn_send_def turn_server_def)

section \<open>The dialogue with the server\<close>

lemma get_attr_challenge:
  "get_attr (challenge_message ac code tid nonce) ATTR_REALM = Some (ac_realm ac)"
  "get_attr (challenge_message ac code tid nonce) ATTR_NONCE = Some nonce"
  "sm_type (challenge_message ac code tid nonce) = ALLOCATE_ERROR_RESPONSE"
  "sm_transaction_id (challenge_message ac code tid nonce) = tid"
  by (simp_all add: get_attr_def challenge_message_def stun_constants)

lemma challenge_code:
  "decode_error_code (get_attr (challenge_message ac 401 tid nonce) ATTR_ERROR_CODE) = Some 401"
  "decode_error_code (get_attr (challenge_message ac 438 tid nonce) ATTR_ERROR_CODE) = Some 438"
  by (simp_all add: get_attr_def challenge_message_def decode_error_code_def)

lemma get_attr_signed:
  "get_attr (signed_request tid ub rb nb d f) ATTR_USERNAME = Some ub"
  "get_attr (signed_request tid ub rb nb d f) ATTR_REALM = Some rb"
  "get_attr (signed_request tid ub rb nb d f) ATTR_NONCE = Some nb"
  "get_attr (signed_request tid ub rb nb d f) ATTR_MESSAGE_INTEGRITY = Some d"
  "sm_transaction_id (signed_request tid ub rb nb d f) = tid"
  by (simp_all add: get_attr_def signed_request_def request_attributes_def stun_constants)

lemma challenge_fields_read:
  "ac_realm ac \<noteq> [] \<Longrightarrow> nonce \<noteq> [] \<Longrightarrow> decode_text (ac_realm ac) = Inr r \<Longrightarrow> decode_text nonce = Inr n \<Longrightarrow>
     challenge_fields (challenge_message ac code tid nonce) = Inr (r, n)"
  by (simp add: challenge_fields_def get_attr_challenge)

text \<open>One attempt: the request the client sends, and the server's answer to it.\<close>

lemma attempt:
  assumes ok: "account_ok ac u r" "nonce_ok nonce" "p \<noteq> []" "long_term_key lib u r p = Inr key"
    and lib: "\<And>k m. length (tl_hmac_sha1 lib k m) = 20" "length tid = 12"
  shows "\<exists>n request input f. challenge_fields (challenge_message ac code tid' nonce) = Inr (r, n) \<and>
    encode_allocate_request lib tid (Some u) (Some r) (Some n) (Some p) = Inr request \<and>
    parse_message request = Inr (signed_request tid (ac_username ac) (ac_realm ac) nonce (tl_hmac_sha1 lib key input) f) \<and>
    integrity_input (signed_request tid (ac_username ac) (ac_realm ac) nonce (tl_hmac_sha1 lib key input) f) = Inr input"
proof -
  from nonce_text [OF ok(2)] obtain n where n: "n \<noteq> []" "decode_text nonce = Inr n" "text_bytes n = Inr nonce" by blast
  from ok(1) have ac: "u \<noteq> []" "r \<noteq> []" "text_bytes u = Inr (ac_username ac)" "text_bytes r = Inr (ac_realm ac)"
      "length (ac_username ac) \<le> 500" "length (ac_realm ac) \<le> 500"
    by (simp_all add: account_ok_def)
  have "challenge_fields (challenge_message ac code tid' nonce) = Inr (r, n)"
    using challenge_fields_read ac n ok(2) text_bytes_empty [OF ac(4)] unfolding text_bytes_decode nonce_ok_def by blast
  moreover have "length (ac_username ac) + length (ac_realm ac) + length nonce \<le> 60000"
    using ac(5,6) ok(2) by (simp add: nonce_ok_def)
  from request_message [OF ac(1,2) n(1) ok(3) ac(3,4) n(3) ok(4) this lib(2,1)] obtain request input f where
      "encode_allocate_request lib tid (Some u) (Some r) (Some n) (Some p) = Inr request"
      "parse_message request = Inr (signed_request tid (ac_username ac) (ac_realm ac) nonce (tl_hmac_sha1 lib key input) f)"
      "integrity_input (signed_request tid (ac_username ac) (ac_realm ac) nonce (tl_hmac_sha1 lib key input) f) = Inr input"
    by blast
  ultimately show ?thesis by blast
qed

lemma authenticated_run:
  assumes ok: "account_ok ac u r" "p \<noteq> []" "long_term_key lib u r p = Inr (ac_key ac)"
    and lib: "\<And>k m. length (tl_hmac_sha1 lib k m) = 20" "\<And>i. length (tids i) = 12"
    and nonces: "nonces \<noteq> []" "\<forall>nonce \<in> set nonces. nonce_ok nonce"
  shows "authenticate lib (turn_server lib ac start) tids u p k (challenge_message ac code tid (hd nonces)) nonces =
    (if length nonces \<le> k then Inr (success_message ac (tids (length nonces - 1)))
     else Inl (TurnRuntimeError ''TURN allocation failed after retrying stale nonce challenges''))"
  using lib(2) nonces
proof (induction k arbitrary: tids code tid nonces)
  case 0
  then show ?case by (cases nonces) auto
next
  case (Suc k)
  obtain nonce rest where nonces: "nonces = nonce # rest" using Suc.prems(2) by (cases nonces) auto
  have size: "length (ac_realm ac) \<le> 500" "length (ac_address ac) = 4" using ok(1) by (simp_all add: account_ok_def)
  have small: "\<forall>n \<in> set nonces. length n \<le> 500" using Suc.prems(3) by (simp add: nonce_ok_def)
  from attempt [OF ok(1) _ ok(2,3) lib(1) Suc.prems(1) [of 0], of nonce code tid] Suc.prems(3) nonces
  obtain n request input f where attempt: "challenge_fields (challenge_message ac code tid nonce) = Inr (r, n)"
      "encode_allocate_request lib (tids 0) (Some u) (Some r) (Some n) (Some p) = Inr request"
      "parse_message request = Inr (signed_request (tids 0) (ac_username ac) (ac_realm ac) nonce (tl_hmac_sha1 lib (ac_key ac) input) f)"
      "integrity_input (signed_request (tids 0) (ac_username ac) (ac_realm ac) nonce (tl_hmac_sha1 lib (ac_key ac) input) f) = Inr input"
    by auto
  note answer = server_reply [OF attempt(3), of lib ac nonces]
  show ?case
  proof (cases rest)
    case Nil
    then have "turn_send (turn_server lib ac start) nonces request = Inr (success_message ac (tids 0), nonces)"
      using nonces success_small [OF Suc.prems(1) [of 0] size(2)] Suc.prems(1) [of 0] attempt(4)
      by (intro answer) (simp_all add: answer_def authentic_def get_attr_signed success_message_def)
    then show ?thesis using attempt(1,2) nonces Nil by (simp add: success_message_def stun_constants)
  next
    case (Cons next_nonce rest')
    let ?reply = "challenge_message ac 438 (tids 0) next_nonce"
    have "turn_send (turn_server lib ac start) nonces request = Inr (?reply, rest)"
      using nonces Cons challenge_small [OF size(1) _ Suc.prems(1) [of 0], of next_nonce 438] small Suc.prems(1) [of 0] attempt(4)
      by (intro answer) (simp_all add: answer_def authentic_def get_attr_signed get_attr_challenge)
    moreover have "authenticate lib (turn_server lib ac start) (\<lambda>i. tids (Suc i)) u p k ?reply rest =
        (if length rest \<le> k then Inr (success_message ac (tids (Suc (length rest - 1))))
         else Inl (TurnRuntimeError ''TURN allocation failed after retrying stale nonce challenges''))"
      using Suc.IH [of "\<lambda>i. tids (Suc i)" rest 438 "tids 0"] Suc.prems nonces Cons by simp
    ultimately show ?thesis
      using attempt(1,2) nonces Cons
      by (simp add: get_attr_challenge challenge_code ALLOCATE_ERROR_RESPONSE_def ALLOCATE_SUCCESS_RESPONSE_def)
  qed
qed

lemma first_challenge:
  assumes "account_ok ac u r" and "nonces \<noteq> []" and "\<forall>nonce \<in> set nonces. nonce_ok nonce" and "length tid = 12"
  shows "\<exists>request. encode_allocate_request lib tid None None None None = Inr request \<and>
    turn_send (turn_server lib ac nonces) nonces request = Inr (challenge_message ac 401 tid (hd nonces), nonces)"
proof -
  let ?t = "\<lparr>sa_type = ATTR_REQUESTED_TRANSPORT, sa_value = [TRANSPORT_UDP, 0, 0, 0]\<rparr>"
  obtain body where encoded: "encode_attribute ATTR_REQUESTED_TRANSPORT [TRANSPORT_UDP, 0, 0, 0] = Inr body" "length body = 8"
    by (auto simp: encode_attribute_Inr stun_constants padded_length padding_of_def)
  then have body: "encoded_attributes [?t] = Inr body" "encode_requested_transport = Inr body" "length body = 8"
    by (simp_all add: encode_requested_transport_def)
  obtain h where h: "stun_header ALLOCATE_REQUEST (length body + 8) tid = Inr h"
    using stun_header_ok [of ALLOCATE_REQUEST "length body + 8" tid] body(3) by (auto simp: stun_constants)
  let ?m = "\<lparr>sm_type = ALLOCATE_REQUEST, sm_transaction_id = tid,
      sm_attributes = [?t, \<lparr>sa_type = ATTR_FINGERPRINT, sa_value = fingerprint_of (h @ body)\<rparr>]\<rparr>"
  have "encode_allocate_request lib tid None None None None = stun_message_bytes ?m"
    using append_fingerprint_message [OF body(1), of ALLOCATE_REQUEST tid] h
    by (simp add: encode_allocate_request_def credentials_of_def body(2))
  moreover obtain request where request: "stun_message_bytes ?m = Inr request"
  proof -
    obtain fp where "encode_attribute ATTR_FINGERPRINT (fingerprint_of (h @ body)) = Inr fp" "length fp = 8"
      by (auto simp: encode_attribute_Inr stun_constants padded_length padding_of_def fingerprint_of_def)
    then have "stun_message_bytes ?m = Inr (h @ body @ fp)"
      using encoded h by (simp add: stun_message_bytes_def)
    then show thesis by (rule that)
  qed
  moreover have "parse_message request = Inr ?m" using message_read_back [OF request] assms(4) by simp
  then have "turn_send (turn_server lib ac nonces) nonces request = Inr (challenge_message ac 401 tid (hd nonces), nonces)"
    using assms challenge_small [of ac "hd nonces" tid 401]
    by (intro server_reply) (auto simp: answer_def authentic_def get_attr_def stun_constants get_attr_challenge account_ok_def nonce_ok_def)
  ultimately show ?thesis by auto
qed

lemma account_allocation:
  assumes "account_ok ac u r" and "p \<noteq> []" and "long_term_key lib u r p = Inr (ac_key ac)"
    and "\<And>k m. length (tl_hmac_sha1 lib k m) = 20" and "\<And>i. length (tids i) = 12"
    and "nonces \<noteq> []" and "\<forall>nonce \<in> set nonces. nonce_ok nonce"
  shows "run_turn_allocate lib (turn_server lib ac nonces) tids target u p =
    (if length nonces \<le> 3 then Inr (inet_ntoa (ac_address ac) @ [58] @ show_text (int (ac_port ac)))
     else Inl (TurnRuntimeError ''TURN allocation failed after retrying stale nonce challenges''))"
proof -
  let ?net = "turn_server lib ac nonces"
  have ac: "u \<noteq> []" "length (ac_address ac) = 4" "ac_port ac < 65536" using assms(1) by (simp_all add: account_ok_def)
  have "tn_connect ?net target = Inr nonces" by (simp add: turn_server_def)
  moreover from first_challenge [OF assms(1,6,7) assms(5) [of 0], of lib] obtain request where
      "encode_allocate_request lib (tids 0) None None None None = Inr request"
      "turn_send ?net nonces request = Inr (challenge_message ac 401 (tids 0) (hd nonces), nonces)"
    by blast
  moreover have "get_attr (success_message ac t) ATTR_XOR_RELAYED_ADDRESS = Some (xor_relayed_v4 (ac_address ac) (ac_port ac))" for t
    by (simp add: get_attr_def success_message_def)
  ultimately show ?thesis
    using authenticated_run [OF assms(1-4) assms(5) assms(6,7), where start = nonces and k = 3 and code = 401 and tid = "tids 0"]
      decode_relayed_v4 [OF ac(2,3)]
    by (simp add: run_turn_allocate_def get_attr_challenge challenge_code)
qed

text \<open>
  Against this server, with a hash that separates the password from the invalid one, a run with denial check yields
  the server's relayed address if the nonce expires at most twice, and otherwise reports that the
  retries for stale nonces are used up; the invalid password is always denied.
\<close>

lemma account_check:
  assumes "parse_turn_url lib url = Inr target" and "account_ok ac u r" and "p \<noteq> []"
    and "long_term_key lib u r p = Inr (ac_key ac)" and "long_term_key lib u r (p @ text_of ''-invalid'') = Inr wrong_key"
    and "\<And>m. tl_hmac_sha1 lib wrong_key m \<noteq> tl_hmac_sha1 lib (ac_key ac) m"
    and "\<And>k m. length (tl_hmac_sha1 lib k m) = 20" and "\<And>i. length (tids i) = 12" and "\<And>i. length (denial_tids i) = 12"
    and "nonces \<noteq> []" and "\<forall>nonce \<in> set nonces. nonce_ok nonce"
    and "later \<noteq> []" and "\<forall>nonce \<in> set later. nonce_ok nonce"
  shows "turn_run lib (turn_server lib ac nonces) (turn_server lib ac later) tids denial_tids url (Some u) (Some p) True =
    (if length nonces \<le> 3 then Inr (inet_ntoa (ac_address ac) @ [58] @ show_text (int (ac_port ac)))
     else Inl (TurnRuntimeError ''TURN allocation failed after retrying stale nonce challenges''))"
proof -
  let ?net = "turn_server lib ac later"
  have u: "u \<noteq> []" using assms(2) by (simp add: account_ok_def)
  have connect: "tn_connect ?net target = Inr later" by (simp add: turn_server_def)
  have "verify_credential_denial lib ?net denial_tids target u p = Inr ()"
  proof -
    from first_challenge [OF assms(2,12,13) assms(9) [of 0], of lib] obtain request where first:
        "encode_allocate_request lib (denial_tids 0) None None None None = Inr request"
        "turn_send ?net later request = Inr (challenge_message ac 401 (denial_tids 0) (hd later), later)"
      by blast
    have nonce: "nonce_ok (hd later)" using assms(12,13) by simp
    have "p @ text_of ''-invalid'' \<noteq> []" by simp
    from attempt [OF assms(2) nonce this assms(5,7) assms(9) [of 1], of 401 "denial_tids 0"] obtain n request input f where
        attempt: "challenge_fields (challenge_message ac 401 (denial_tids 0) (hd later)) = Inr (r, n)"
          "encode_allocate_request lib (denial_tids 1) (Some u) (Some r) (Some n) (Some (p @ text_of ''-invalid'')) = Inr request"
          "parse_message request = Inr (signed_request (denial_tids 1) (ac_username ac) (ac_realm ac) (hd later)
             (tl_hmac_sha1 lib wrong_key input) f)"
          "integrity_input (signed_request (denial_tids 1) (ac_username ac) (ac_realm ac) (hd later)
             (tl_hmac_sha1 lib wrong_key input) f) = Inr input"
      by blast
    have "turn_send ?net later request = Inr (challenge_message ac 401 (denial_tids 1) (hd later), later)"
      using attempt(4) assms(6) challenge_small [of ac "hd later" "denial_tids 1" 401] assms(2) nonce assms(9) [of 1]
      by (intro server_reply [OF attempt(3)])
        (simp_all add: answer_def authentic_def get_attr_signed get_attr_challenge account_ok_def nonce_ok_def)
    then have "authenticate lib ?net (\<lambda>i. denial_tids (Suc i)) u (p @ text_of ''-invalid'') 3
        (challenge_message ac 401 (denial_tids 0) (hd later)) later = Inl (TurnAllocationError (Some 401))"
      using attempt(1,2)
      by (simp add: numeral_3_eq_3 get_attr_challenge challenge_code ALLOCATE_ERROR_RESPONSE_def ALLOCATE_SUCCESS_RESPONSE_def
          del: text_of_simps)
    then show ?thesis
      using first connect
      by (simp add: verify_credential_denial_def run_turn_allocate_def get_attr_challenge challenge_code del: text_of_simps)
  qed
  with account_allocation [OF assms(2-4,7,8,10,11)] show ?thesis using assms(1,3) u by (simp add: turn_run_def)
qed

lemma authenticate_Inr:
  "authenticate lib net tids u p k challenge s = Inr message \<Longrightarrow>
     \<exists>i s' s'' realm nonce request reply. i < k \<and>
       encode_allocate_request lib (tids i) (Some u) (Some realm) (Some nonce) (Some p) = Inr request \<and>
       tn_exchange net s' request = Inr (reply, s'') \<and> parse_message (take 2048 reply) = Inr message \<and>
       sm_type message = ALLOCATE_SUCCESS_RESPONSE"
proof (induction k arbitrary: tids challenge s)
  case (Suc k)
  from Suc.prems obtain realm nonce request reply message' s' where step:
      "encode_allocate_request lib (tids 0) (Some u) (Some realm) (Some nonce) (Some p) = Inr request"
      "tn_exchange net s request = Inr (reply, s')" "parse_message (take 2048 reply) = Inr message'"
    and branch: "if sm_type message' = ALLOCATE_SUCCESS_RESPONSE then message' = message
      else authenticate lib net (\<lambda>i. tids (Suc i)) u p k message' s' = Inr message"
    by (auto simp: bind_r_eq_Inr turn_send_def Let_def split: if_splits)
  show ?case
  proof (cases "sm_type message' = ALLOCATE_SUCCESS_RESPONSE")
    case True
    with branch step show ?thesis by (intro exI [of _ 0] exI [of _ s] exI [of _ s'] exI conjI) auto
  next
    case False
    with branch have "authenticate lib net (\<lambda>i. tids (Suc i)) u p k message' s' = Inr message" by simp
    from Suc.IH [OF this] obtain i where "i < k" "\<exists>s' s'' realm nonce request reply.
        encode_allocate_request lib (tids (Suc i)) (Some u) (Some realm) (Some nonce) (Some p) = Inr request \<and>
        tn_exchange net s' request = Inr (reply, s'') \<and> parse_message (take 2048 reply) = Inr message \<and>
        sm_type message = ALLOCATE_SUCCESS_RESPONSE" by blast
    then show ?thesis by (intro exI [of _ "Suc i"]) simp
  qed
qed simp

text \<open>
  the client shows a relayed address only after an authenticated attempt, whatever the server does.
  A run that yields an address made at most three such attempts; the last one carried the credentials
  for a realm and a nonce, and its reply was a success whose address attribute is the one shown.
\<close>

theorem relay_only_after_attempt:
  assumes "run_turn_allocate lib net tids target u p = Inr relay"
  shows "\<exists>i s s' realm nonce request reply message. i < 3 \<and>
    encode_allocate_request lib (tids (Suc i)) (Some u) (Some realm) (Some nonce) (Some p) = Inr request \<and>
    tn_exchange net s request = Inr (reply, s') \<and> parse_message (take 2048 reply) = Inr message \<and>
    sm_type message = ALLOCATE_SUCCESS_RESPONSE \<and>
    decode_xor_relayed_address lib (get_attr message ATTR_XOR_RELAYED_ADDRESS) (sm_transaction_id message) = Some relay"
proof -
  from assms obtain challenge s message where
      "authenticate lib net (\<lambda>i. tids (Suc i)) u p 3 challenge s = Inr message"
      "decode_xor_relayed_address lib (get_attr message ATTR_XOR_RELAYED_ADDRESS) (sm_transaction_id message) = Some relay"
    by (auto simp: run_turn_allocate_def bind_r_eq_Inr split: if_splits option.splits)
  with authenticate_Inr [OF this(1)] show ?thesis by blast
qed

section \<open>What the check shows\<close>

text \<open>
  \<open>heard\<close>: over the socket, from a state of it, the requests were sent one after the other and the replies
  beside them came back. \<open>attempts\<close>: the requests after a challenge are authenticated ones with the credentials, each
  for the realm and nonce of the reply before, and every reply but the last is a stale nonce.
\<close>

fun heard :: "'s turn_net \<Rightarrow> 's \<Rightarrow> (bytes \<times> stun_message) list \<Rightarrow> bool" where
  "heard net s [] \<longleftrightarrow> True"
| "heard net s ((request, message) # xs) \<longleftrightarrow>
     (\<exists>reply s'. tn_exchange net s request = Inr (reply, s') \<and> parse_message (take 2048 reply) = Inr message \<and> heard net s' xs)"

definition error_answer :: "stun_message \<Rightarrow> nat \<Rightarrow> bool" where
  "error_answer message code \<longleftrightarrow>
     sm_type message = ALLOCATE_ERROR_RESPONSE \<and> decode_error_code (get_attr message ATTR_ERROR_CODE) = Some code"

fun attempts :: "turn_lib \<Rightarrow> (nat \<Rightarrow> bytes) \<Rightarrow> pytext \<Rightarrow> pytext \<Rightarrow> stun_message \<Rightarrow> (bytes \<times> stun_message) list \<Rightarrow> bool" where
  "attempts lib tids u p challenge [] \<longleftrightarrow> False"
| "attempts lib tids u p challenge ((request, message) # xs) \<longleftrightarrow>
     (\<exists>realm nonce. challenge_fields challenge = Inr (realm, nonce) \<and>
        encode_allocate_request lib (tids 0) (Some u) (Some realm) (Some nonce) (Some p) = Inr request) \<and>
     (xs = [] \<or> error_answer message 438 \<and> attempts lib (\<lambda>i. tids (Suc i)) u p message xs)"

text \<open>
  A whole dialogue: the connection, a request without credentials and its challenge with code 401, at most three
  attempts, and the last reply, which is no stale nonce.
\<close>

definition dialogue :: "turn_lib \<Rightarrow> 's turn_net \<Rightarrow> (nat \<Rightarrow> bytes) \<Rightarrow> turn_target \<Rightarrow> pytext \<Rightarrow> pytext \<Rightarrow> stun_message \<Rightarrow> bool" where
  "dialogue lib net tids target u p last_reply \<longleftrightarrow>
     (\<exists>s first challenge xs. tn_connect net target = Inr s \<and> heard net s ((first, challenge) # xs) \<and>
        encode_allocate_request lib (tids 0) None None None None = Inr first \<and> error_answer challenge 401 \<and>
        length xs \<le> 3 \<and> attempts lib (\<lambda>i. tids (Suc i)) u p challenge xs \<and> snd (last xs) = last_reply \<and>
        \<not> error_answer last_reply 438)"

definition allocated :: "stun_message \<Rightarrow> bool" where
  "allocated message \<longleftrightarrow> sm_type message = ALLOCATE_SUCCESS_RESPONSE"

lemma allocated_not_stale [simp]: "error_answer message c \<Longrightarrow> \<not> allocated message"
  by (simp add: error_answer_def allocated_def ALLOCATE_SUCCESS_RESPONSE_def ALLOCATE_ERROR_RESPONSE_def)

text \<open>Only the script itself raises a \<open>TurnAllocationError\<close>, and only for an answer of the server.\<close>

definition allocation_error :: "turn_error + 'a \<Rightarrow> bool" where
  "allocation_error r \<longleftrightarrow> (\<exists>code. r = Inl (TurnAllocationError code))"

lemma allocation_error_bind:
  "bind_r m f = Inl (TurnAllocationError code) \<longleftrightarrow>
     m = Inl (TurnAllocationError code) \<or> (\<exists>x. m = Inr x \<and> f x = Inl (TurnAllocationError code))"
  by (cases m) simp_all

lemma codec_no_allocation_error [simp]:
  "pack_u16 n \<noteq> Inl (TurnAllocationError code)"
  "encode_attribute t v \<noteq> Inl (TurnAllocationError code)"
  "stun_header m n tid \<noteq> Inl (TurnAllocationError code)"
  "text_bytes s \<noteq> Inl (TurnAllocationError code)"
  "decode_text bs \<noteq> Inl (TurnAllocationError code)"
  "parse_message payload \<noteq> Inl (TurnAllocationError code)"
  "challenge_fields challenge \<noteq> Inl (TurnAllocationError code)"
proof -
  show pack: "pack_u16 n \<noteq> Inl (TurnAllocationError code)" for n by (simp add: pack_u16_def)
  show "encode_attribute t v \<noteq> Inl (TurnAllocationError code)"
    by (auto simp: encode_attribute_def allocation_error_bind pack)
  show "stun_header m n tid \<noteq> Inl (TurnAllocationError code)" by (auto simp: stun_header_def allocation_error_bind pack)
  show "text_bytes s \<noteq> Inl (TurnAllocationError code)" by (simp add: text_bytes_def split: sum.splits)
  show decoded: "decode_text bs \<noteq> Inl (TurnAllocationError code)" for bs by (simp add: decode_text_def split: sum.splits)
  show "parse_message payload \<noteq> Inl (TurnAllocationError code)" by (simp add: parse_message_def)
  show "challenge_fields challenge \<noteq> Inl (TurnAllocationError code)"
    by (auto simp: challenge_fields_def allocation_error_bind decoded split: option.splits)
qed

lemma request_no_allocation_error [simp]: "encode_allocate_request lib tid u r n p \<noteq> Inl (TurnAllocationError code)"
  by (auto simp: encode_allocate_request_def encode_requested_transport_def credential_attributes_def integrity_attribute_def
      long_term_key_def append_fingerprint_def Let_def allocation_error_bind split: option.splits)

lemma send_heard:
  "turn_send net s request = Inr (message, s') \<longleftrightarrow>
     (\<exists>reply. tn_exchange net s request = Inr (reply, s') \<and> parse_message (take 2048 reply) = Inr message)"
  by (auto simp: turn_send_def bind_r_eq_Inr)

lemma send_no_allocation_error:
  assumes "\<And>s request. \<not> allocation_error (tn_exchange net s request)"
  shows "turn_send net s request \<noteq> Inl (TurnAllocationError code)"
  using assms by (auto simp: turn_send_def allocation_error_bind allocation_error_def)

lemma attempts_first:
  "attempts lib tids u p challenge xs \<Longrightarrow> \<exists>request message ys. xs = (request, message) # ys"
  by (cases xs) auto

text \<open>
  The loop returns or raises a \<open>TurnAllocationError\<close> exactly by the answer to the last of its attempts.
\<close>

definition attempt_verdict :: "stun_message \<Rightarrow> turn_error + stun_message" where
  "attempt_verdict message =
     (if allocated message then Inr message else Inl (TurnAllocationError (decode_error_code (get_attr message ATTR_ERROR_CODE))))"

lemma authenticate_verdict:
  assumes net: "\<And>s request. \<not> allocation_error (tn_exchange net s request)"
    and final: "(\<exists>message. r = Inr message) \<or> allocation_error r"
  shows "authenticate lib net tids u p k challenge s = r \<longleftrightarrow>
     (\<exists>xs. length xs \<le> k \<and> attempts lib tids u p challenge xs \<and> heard net s xs \<and>
        \<not> error_answer (snd (last xs)) 438 \<and> r = attempt_verdict (snd (last xs)))"
    (is "_ \<longleftrightarrow> (\<exists>xs. ?P k tids challenge s xs)")
proof (induction k arbitrary: tids challenge s)
  case 0
  show ?case using final by (auto simp: allocation_error_def)
next
  case (Suc k)
  show ?case
  proof
    assume run: "authenticate lib net tids u p (Suc k) challenge s = r"
    obtain realm nonce request m s' where step:
        "challenge_fields challenge = Inr (realm, nonce)"
        "encode_allocate_request lib (tids 0) (Some u) (Some realm) (Some nonce) (Some p) = Inr request"
        "turn_send net s request = Inr (m, s')"
      and branch: "\<not> error_answer m 438 \<and> r = attempt_verdict m \<or>
        error_answer m 438 \<and> authenticate lib net (\<lambda>i. tids (Suc i)) u p k m s' = r"
    proof (cases "\<exists>message. r = Inr message")
      case True
      then show ?thesis using run that
        by (auto simp: bind_r_eq_Inr Let_def allocated_def error_answer_def attempt_verdict_def stun_constants split: if_splits)
    next
      case False
      then obtain code where "r = Inl (TurnAllocationError code)" using final by (auto simp: allocation_error_def)
      then show ?thesis using run that send_no_allocation_error [OF net]
        by (auto simp: allocation_error_bind Let_def allocated_def error_answer_def attempt_verdict_def split: if_splits)
    qed
    from branch show "\<exists>xs. ?P (Suc k) tids challenge s xs"
    proof
      assume "\<not> error_answer m 438 \<and> r = attempt_verdict m"
      with step show ?thesis by (intro exI [of _ "[(request, m)]"]) (auto simp: send_heard)
    next
      assume stale: "error_answer m 438 \<and> authenticate lib net (\<lambda>i. tids (Suc i)) u p k m s' = r"
      then obtain xs where xs: "?P k (\<lambda>i. tids (Suc i)) m s' xs" using Suc.IH by blast
      with step stale show ?thesis
        by (intro exI [of _ "(request, m) # xs"]) (auto simp: send_heard)
    qed
  next
    assume "\<exists>xs. ?P (Suc k) tids challenge s xs"
    then obtain request m ys where p: "?P (Suc k) tids challenge s ((request, m) # ys)" using attempts_first by blast
    then obtain realm nonce s' where step:
        "challenge_fields challenge = Inr (realm, nonce)"
        "encode_allocate_request lib (tids 0) (Some u) (Some realm) (Some nonce) (Some p) = Inr request"
        "turn_send net s request = Inr (m, s')" and rest: "heard net s' ys"
      by (auto simp: send_heard)
    show "authenticate lib net tids u p (Suc k) challenge s = r"
    proof (cases "ys = []")
      case True
      with p step show ?thesis by (auto simp: allocated_def error_answer_def attempt_verdict_def)
    next
      case False
      with p rest have stale: "error_answer m 438" and "?P k (\<lambda>i. tids (Suc i)) m s' ys" by auto
      then have "authenticate lib net (\<lambda>i. tids (Suc i)) u p k m s' = r" using Suc.IH by blast
      with step stale allocated_not_stale [OF stale] show ?thesis by (simp add: allocated_def error_answer_def)
    qed
  qed
qed

lemma run_verdict:
  assumes net: "\<And>s request. \<not> allocation_error (tn_exchange net s request)" "\<And>target. \<not> allocation_error (tn_connect net target)"
  shows "run_turn_allocate lib net tids target u p = Inr relay \<longleftrightarrow>
      (\<exists>m. dialogue lib net tids target u p m \<and> allocated m \<and>
         decode_xor_relayed_address lib (get_attr m ATTR_XOR_RELAYED_ADDRESS) (sm_transaction_id m) = Some relay)"
    and "run_turn_allocate lib net tids target u p = Inl (TurnAllocationError code) \<longleftrightarrow>
      (\<exists>m. dialogue lib net tids target u p m \<and> \<not> allocated m \<and> decode_error_code (get_attr m ATTR_ERROR_CODE) = code)"
proof -
  have connect: "tn_connect net target \<noteq> Inl (TurnAllocationError c)" for c using net(2) by (simp add: allocation_error_def)
  let ?first = "\<lambda>s challenge s'. tn_connect net target = Inr s \<and> error_answer challenge 401 \<and>
      (\<exists>first. encode_allocate_request lib (tids 0) None None None None = Inr first \<and> turn_send net s first = Inr (challenge, s'))"
  let ?loop = "\<lambda>challenge s'. authenticate lib net (\<lambda>i. tids (Suc i)) u p 3 challenge s'"
  let ?relay = "\<lambda>m. decode_xor_relayed_address lib (get_attr m ATTR_XOR_RELAYED_ADDRESS) (sm_transaction_id m)"
  have loop: "(\<exists>s challenge s'. ?first s challenge s' \<and> ?loop challenge s' = r) \<longleftrightarrow>
      (\<exists>m. dialogue lib net tids target u p m \<and> r = attempt_verdict m)"
    if final: "(\<exists>m. r = Inr m) \<or> allocation_error r" for r
    unfolding authenticate_verdict [OF net(1) final] dialogue_def heard.simps send_heard by blast
  have relayed: "(case ro of None \<Rightarrow> Inl (TurnRuntimeError t) | Some r \<Rightarrow> Inr r) = Inr relay \<longleftrightarrow> ro = Some relay" for ro t
    by (simp split: option.split)
  have if_result: "(if b then x else Inl e) = Inr relay \<longleftrightarrow> b \<and> x = Inr relay" for b e and x :: "turn_error + pytext"
    by simp
  have allocate: "run_turn_allocate lib net tids target u p =
      bind_r (tn_connect net target) (\<lambda>s.
      bind_r (encode_allocate_request lib (tids 0) None None None None) (\<lambda>request.
      bind_r (turn_send net s request) (\<lambda>(challenge, s').
      if error_answer challenge 401
      then bind_r (?loop challenge s') (\<lambda>m. case ?relay m of
          None \<Rightarrow> Inl (TurnRuntimeError ''TURN allocation succeeded but did not return XOR-RELAYED-ADDRESS'') | Some r \<Rightarrow> Inr r)
      else Inl (TurnRuntimeError ''TURN server did not return the expected long-term credential challenge''))))"
    unfolding run_turn_allocate_def error_answer_def
    by (intro arg_cong2 [of _ _ _ _ bind_r] ext refl) (simp split: prod.split)
  have "run_turn_allocate lib net tids target u p = Inr relay \<longleftrightarrow>
      (\<exists>m. (\<exists>s challenge s'. ?first s challenge s' \<and> ?loop challenge s' = Inr m) \<and> ?relay m = Some relay)"
    unfolding allocate by (simp only: bind_r_eq_Inr split_paired_Ex prod.case if_result relayed) blast
  then show "run_turn_allocate lib net tids target u p = Inr relay \<longleftrightarrow>
      (\<exists>m. dialogue lib net tids target u p m \<and> allocated m \<and> ?relay m = Some relay)"
    by (subst (asm) loop) (auto simp: attempt_verdict_def split: if_splits)
  have "run_turn_allocate lib net tids target u p = Inl (TurnAllocationError code) \<longleftrightarrow>
      (\<exists>s challenge s'. ?first s challenge s' \<and> ?loop challenge s' = Inl (TurnAllocationError code))"
    using connect send_no_allocation_error [OF net(1)]
    unfolding allocate by (auto simp: allocation_error_bind split: option.splits if_splits)
  then show "run_turn_allocate lib net tids target u p = Inl (TurnAllocationError code) \<longleftrightarrow>
      (\<exists>m. dialogue lib net tids target u p m \<and> \<not> allocated m \<and> decode_error_code (get_attr m ATTR_ERROR_CODE) = code)"
    by (subst (asm) loop) (auto simp: attempt_verdict_def allocation_error_def split: if_splits)
qed

text \<open>
  C34: The relay check passes exactly when the server did what it checks. Whatever the server and the network do, a run with
  denial check yields a relayed address exactly when, on one connection, a request without credentials was challenged with code 401 and
  the last of at most three requests signed with the credentials, each for the realm and nonce of the answer before
  it, was answered with success and that address, and, on another, the same dialogue signed with the password followed by
  \<open>-invalid\<close> ended with an answer that is no success and has code 401. The socket raises no error of the script's own.
\<close>

theorem relay_check_passes_iff:
  assumes "\<And>s request. \<not> allocation_error (tn_exchange net s request)" and "\<And>target. \<not> allocation_error (tn_connect net target)"
    and "\<And>s request. \<not> allocation_error (tn_exchange denial_net s request)"
    and "\<And>target. \<not> allocation_error (tn_connect denial_net target)"
  shows "turn_run lib net denial_net tids denial_tids url (Some u) (Some p) True = Inr relay \<longleftrightarrow>
    u \<noteq> [] \<and> p \<noteq> [] \<and>
    (\<exists>target m denial. parse_turn_url lib url = Inr target \<and> dialogue lib net tids target u p m \<and> allocated m \<and>
       decode_xor_relayed_address lib (get_attr m ATTR_XOR_RELAYED_ADDRESS) (sm_transaction_id m) = Some relay \<and>
       dialogue lib denial_net denial_tids target u (p @ text_of ''-invalid'') denial \<and> \<not> allocated denial \<and>
       decode_error_code (get_attr denial ATTR_ERROR_CODE) = Some 401)"
proof -
  have denied: "verify_credential_denial lib denial_net denial_tids target u p = Inr () \<longleftrightarrow>
      run_turn_allocate lib denial_net denial_tids target u (p @ text_of ''-invalid'') = Inl (TurnAllocationError (Some 401))" for target
    by (auto simp: verify_credential_denial_def simp del: text_of_simps split: sum.splits turn_error.splits if_splits)
  have "turn_run lib net denial_net tids denial_tids url (Some u) (Some p) True = Inr relay \<longleftrightarrow> u \<noteq> [] \<and> p \<noteq> [] \<and>
      (\<exists>target. parse_turn_url lib url = Inr target \<and> run_turn_allocate lib net tids target u p = Inr relay \<and>
         verify_credential_denial lib denial_net denial_tids target u p = Inr ())"
    by (auto simp: turn_run_def bind_r_eq_Inr)
  then show ?thesis unfolding denied run_verdict [OF assms(1,2)] run_verdict [OF assms(3,4)] by blast
qed

section \<open>A sample account\<close>

definition sample_turn_lib :: turn_lib where
  "sample_turn_lib =
     \<lparr>tl_md5 = (\<lambda>bs. bs), tl_hmac_sha1 = (\<lambda>k m. take 20 (k @ replicate 20 0)), tl_inet6 = (\<lambda>_. []), tl_parse_qs = (\<lambda>_. []),
      tl_netloc_ok = (\<lambda>_. True), tl_decimal = (\<lambda>_. None)\<rparr>"

definition sample_account :: turn_account where
  "sample_account =
     \<lparr>ac_username = [117], ac_realm = [114], ac_key = [117, 58, 114, 58, 112], ac_address = [203, 0, 113, 7], ac_port = 49152\<rparr>"

lemma ascii_text_bytes: "list_all (\<lambda>c. c < 128) s \<Longrightarrow> text_bytes s = Inr (map octet s)"
  by (simp add: text_bytes_def utf8_encode_ascii ascii_bytes_def octet_def)

lemma sample_account_ok: "account_ok sample_account (text_of ''u'') (text_of ''r'')"
  by (simp add: account_ok_def sample_account_def ascii_text_bytes octet_def)

lemma sample_keys:
  "long_term_key sample_turn_lib (text_of ''u'') (text_of ''r'') (text_of ''p'') = Inr (ac_key sample_account)"
  "long_term_key sample_turn_lib (text_of ''u'') (text_of ''r'') (text_of ''p'' @ text_of ''-invalid'') =
     Inr [117, 58, 114, 58, 112, 45, 105, 110, 118, 97, 108, 105, 100]"
  by (simp_all add: long_term_key_def ascii_text_bytes sample_turn_lib_def sample_account_def octet_def)

lemma sample_hmac:
  "length (tl_hmac_sha1 sample_turn_lib k m) = 20"
  "tl_hmac_sha1 sample_turn_lib [117, 58, 114, 58, 112, 45, 105, 110, 118, 97, 108, 105, 100] m \<noteq>
     tl_hmac_sha1 sample_turn_lib (ac_key sample_account) m"
proof -
  have "replicate 15 (0 :: byte) = 0 # replicate 14 0" by (simp flip: replicate_Suc)
  then show "tl_hmac_sha1 sample_turn_lib [117, 58, 114, 58, 112, 45, 105, 110, 118, 97, 108, 105, 100] m \<noteq>
      tl_hmac_sha1 sample_turn_lib (ac_key sample_account) m"
    by (simp add: sample_turn_lib_def sample_account_def)
qed (simp add: sample_turn_lib_def)

lemma sample_nonce_ok: "nonce_ok [110]"
proof -
  have "text_bytes [110] = Inr [110]" by (simp add: ascii_text_bytes octet_def)
  then show ?thesis unfolding text_bytes_decode by (auto simp: nonce_ok_def decode_text_def is_ok_iff split: sum.splits)
qed

lemma sample_turn_url:
  "parse_turn_url sample_turn_lib (text_of ''turn:h'') = Inr \<lparr>tt_host = text_of ''h'', tt_port = 3478, tt_transport = text_of ''udp''\<rparr>"
  by (simp add: parse_turn_url_def urlparse_def split_scheme_def scheme_char_def ascii_alnum_def ascii_alpha_def ascii_digit_def
      text_lower_def ascii_lower_def split_netloc_def netloc_accepted_def url_hostname_def raw_target_def starts_with_def
      split_last_colon_def sample_turn_lib_def)

lemma server_no_allocation_error:
  "\<not> allocation_error (tn_exchange (turn_server lib ac nonces) s request)"
  "\<not> allocation_error (tn_connect (turn_server lib ac nonces) target)"
proof -
  have "encoded_attributes as \<noteq> Inl (TurnAllocationError code)" for as code
    by (induction as) (auto simp: encoded_attributes_def allocation_error_bind)
  then show "\<not> allocation_error (tn_exchange (turn_server lib ac nonces) s request)"
    by (auto simp: allocation_error_def turn_server_def allocation_error_bind stun_message_bytes_def split: prod.splits)
qed (simp add: allocation_error_def turn_server_def)

lemma sample_turn_check:
  "turn_run sample_turn_lib (turn_server sample_turn_lib sample_account [[110], [110]]) (turn_server sample_turn_lib sample_account [[110]])
     (\<lambda>_. replicate 12 1) (\<lambda>_. replicate 12 2) (text_of ''turn:h'') (Some (text_of ''u'')) (Some (text_of ''p'')) True =
   Inr (inet_ntoa (ac_address sample_account) @ [58] @ show_text (int (ac_port sample_account)))"
  by (subst account_check [OF sample_turn_url sample_account_ok _ sample_keys sample_hmac(2,1)]) (simp_all add: sample_nonce_ok)

theorem relay_check_passes_iff_witness:
  "\<exists>target m denial. parse_turn_url sample_turn_lib (text_of ''turn:h'') = Inr target \<and>
     dialogue sample_turn_lib (turn_server sample_turn_lib sample_account [[110], [110]]) (\<lambda>_. replicate 12 1) target
       (text_of ''u'') (text_of ''p'') m \<and> allocated m \<and>
     decode_xor_relayed_address sample_turn_lib (get_attr m ATTR_XOR_RELAYED_ADDRESS) (sm_transaction_id m) =
       Some (inet_ntoa (ac_address sample_account) @ [58] @ show_text (int (ac_port sample_account))) \<and>
     dialogue sample_turn_lib (turn_server sample_turn_lib sample_account [[110]]) (\<lambda>_. replicate 12 2) target
       (text_of ''u'') (text_of ''p'' @ text_of ''-invalid'') denial \<and> \<not> allocated denial \<and>
     decode_error_code (get_attr denial ATTR_ERROR_CODE) = Some 401"
  using sample_turn_check
  unfolding relay_check_passes_iff [OF server_no_allocation_error server_no_allocation_error] by (elim conjE)

lemma sample_allocation:
  "run_turn_allocate sample_turn_lib (turn_server sample_turn_lib sample_account [[110], [110]]) (\<lambda>_. replicate 12 1)
     \<lparr>tt_host = text_of ''h'', tt_port = 3478, tt_transport = text_of ''udp''\<rparr> (text_of ''u'') (text_of ''p'') =
   Inr (inet_ntoa (ac_address sample_account) @ [58] @ show_text (int (ac_port sample_account)))"
  using account_allocation [OF sample_account_ok _ sample_keys(1) sample_hmac(1)] by (simp add: sample_nonce_ok)

theorem relay_only_after_attempt_witness:
  "\<exists>i s s' realm nonce request reply message. i < (3 :: nat) \<and>
    encode_allocate_request sample_turn_lib (replicate 12 1) (Some (text_of ''u'')) (Some realm) (Some nonce) (Some (text_of ''p'')) = Inr request \<and>
    tn_exchange (turn_server sample_turn_lib sample_account [[110], [110]]) s request = Inr (reply, s') \<and>
    parse_message (take 2048 reply) = Inr message \<and> sm_type message = ALLOCATE_SUCCESS_RESPONSE \<and>
    decode_xor_relayed_address sample_turn_lib (get_attr message ATTR_XOR_RELAYED_ADDRESS) (sm_transaction_id message) =
      Some (inet_ntoa (ac_address sample_account) @ [58] @ show_text (int (ac_port sample_account)))"
  by (rule relay_only_after_attempt [OF sample_allocation])

theorem allocate_request_signed_witness:
  "\<exists>req input f. encode_allocate_request sample_turn_lib (replicate 12 1) (Some (text_of ''u'')) (Some (text_of ''r''))
      (Some [110]) (Some (text_of ''p'')) = Inr req \<and>
    parse_message req = Inr (signed_request (replicate 12 1) [117] [114] [110]
      (tl_hmac_sha1 sample_turn_lib (ac_key sample_account) input) f) \<and>
    integrity_input (signed_request (replicate 12 1) [117] [114] [110]
      (tl_hmac_sha1 sample_turn_lib (ac_key sample_account) input) f) = Inr input \<and>
    f = fingerprint_of (take (length req - 8) req)"
  by (rule allocate_request_signed [OF _ _ _ _ _ _ _ sample_keys(1)]) (simp_all add: ascii_text_bytes octet_def sample_hmac)

theorem stun_message_roundtrip_witness:
  "\<exists>bs. stun_message_bytes (success_message sample_account (replicate 12 1)) = Inr bs \<and>
    parse_message bs = Inr (success_message sample_account (replicate 12 1))"
proof -
  obtain bs where "stun_message_bytes (success_message sample_account (replicate 12 1)) = Inr bs"
    using success_small [of "replicate 12 1" sample_account] by (auto simp: sample_account_def)
  with stun_message_roundtrip [OF this] show ?thesis by (simp add: success_message_def)
qed

theorem relayed_address_roundtrip_witness:
  "decode_xor_relayed_address sample_turn_lib (Some (xor_relayed_v4 [203, 0, 113, 7] 49152)) (replicate 12 1) =
      Some (inet_ntoa [203, 0, 113, 7] @ [58] @ show_text (int 49152)) \<and>
    decode_xor_relayed_address sample_turn_lib (Some (xor_relayed_v6 (replicate 12 1) (replicate 16 2) 49152)) (replicate 12 1) =
      Some ([91] @ tl_inet6 sample_turn_lib (replicate 16 2) @ [93, 58] @ show_text (int 49152))"
  by (rule relayed_address_roundtrip) simp_all

end
