(* ===== verification/Runtime.thy ===== *)
theory Runtime
  imports Settings
begin

text \<open>
  The objects that live beside the application: the tracer provider and the spans of
  \<open>core/tracing.py\<close> and the gRPC client of \<open>modules/media_control_grpc/client.py\<close>. The libraries'
  objects are the values the code gives them; the files of the channel's certificates are an argument.
\<close>

section \<open>Tracing\<close>

datatype span_processor =
    SimpleProcessor span_exporter
  | BatchProcessor span_exporter (max_queue: int) (delay_millis: int) (max_batch: int) (timeout_millis: int)

record tracer_provider =
  tp_service_name :: pytext
  tp_processors :: "span_processor list"
  tp_global :: bool

definition SCHEDULE_DELAY_MILLIS :: int where
  "SCHEDULE_DELAY_MILLIS = 2000"

text \<open>\<open>int(seconds * 1_000)\<close>: an infinity or a NaN has no integer.\<close>

definition float_millis :: "pyfloat \<Rightarrow> int option" where
  "float_millis seconds = (case seconds of Fin q \<Rightarrow> Some (trunc_rat (round64 (q * 1000))) | _ \<Rightarrow> None)"

definition span_processor_for :: "tracing_settings \<Rightarrow> span_exporter \<Rightarrow> bool \<Rightarrow> span_processor option" where
  "span_processor_for s exporter explicit_exporter =
     (if explicit_exporter \<or> tx_exporter s \<noteq> TRACE_OTLP then Some (SimpleProcessor exporter)
      else map_option (BatchProcessor exporter (tx_max_queue_size s) SCHEDULE_DELAY_MILLIS (tx_max_export_batch_size s))
             (float_millis (tx_export_timeout_seconds s)))"

definition build_tracer_provider :: "tracing_settings \<Rightarrow> span_exporter option \<Rightarrow> tracer_provider option" where
  "build_tracer_provider s exporter =
     (let provider = \<lparr>tp_service_name = tx_service_name s, tp_processors = [], tp_global = False\<rparr> in
      case (case exporter of None \<Rightarrow> exporter_from_settings s | Some e \<Rightarrow> Some e) of
        None \<Rightarrow> Some provider
      | Some e \<Rightarrow> map_option (\<lambda>p. provider\<lparr>tp_processors := [p]\<rparr>) (span_processor_for s e (exporter \<noteq> None)))"

text \<open>The outer option is the exception, the inner one the absence of a provider.\<close>

definition configure_global_tracing :: "host \<Rightarrow> tracing_settings option \<Rightarrow> settings_error + tracer_provider option option" where
  "configure_global_tracing h settings =
     bind_r (case settings of None \<Rightarrow> tracing_from_env h | Some s \<Rightarrow> Inr s) (\<lambda>s.
       if \<not> tx_enabled s then Inr (Some None)
       else Inr (map_option (\<lambda>p. Some (p\<lparr>tp_global := True\<rparr>)) (build_tracer_provider s None)))"

datatype provider_call = ForceFlush int | Shutdown

definition shutdown_tracer_provider :: "tracer_provider option \<Rightarrow> provider_call list" where
  "shutdown_tracer_provider provider = (case provider of None \<Rightarrow> [] | Some _ \<Rightarrow> [ForceFlush 1000, Shutdown])"

datatype span_kind = ServerSpan | InternalSpan | ProducerSpan

record trace_span =
  sp_name :: pytext
  sp_kind :: span_kind
  sp_attributes :: "(string, pytext) dict"

text \<open>The carrier of the parent context: header names are looked up in lower case.\<close>

definition extract_trace_context :: "(pytext, pytext) dict \<Rightarrow> (string, pytext) dict" where
  "extract_trace_context headers =
     map (\<lambda>k. (k, case dict_get headers (text_of k) of None \<Rightarrow> [] | Some v \<Rightarrow> v)) [''traceparent'', ''tracestate'']"

definition route_template :: "pytext option \<Rightarrow> pytext \<Rightarrow> pytext" where
  "route_template route_path request_path =
     (case route_path of None \<Rightarrow> request_path | Some p \<Rightarrow> if p = [] then request_path else p)"

text \<open>The span of a request; a handler that raises leaves it without a status code.\<close>

definition request_span :: "tracing_settings \<Rightarrow> pytext \<Rightarrow> pytext option \<Rightarrow> pytext \<Rightarrow> int option \<Rightarrow> trace_span option" where
  "request_span s http_method route_path request_path status_code =
     (if \<not> tx_enabled s then None
      else
        let route = route_template route_path request_path in
        Some \<lparr>sp_name = text_of ''HTTP '' @ http_method @ [32] @ route, sp_kind = ServerSpan,
              sp_attributes =
                [(''gcs.component'', text_of ''python-fallback''), (''http.request.method'', http_method), (''http.route'', route)] @
                (case status_code of None \<Rightarrow> [] | Some c \<Rightarrow> [(''http.response.status_code'', show_text c)])\<rparr>)"

definition ai_sidecar_span :: "pytext \<Rightarrow> trace_span" where
  "ai_sidecar_span schema_version =
     \<lparr>sp_name = text_of ''ai.sidecar.detect'', sp_kind = InternalSpan,
      sp_attributes = [(''gcs.component'', text_of ''ai-sidecar''), (''gcs.schema_version'', schema_version)]\<rparr>"

definition mqtt_publish_span :: "pytext \<Rightarrow> trace_span" where
  "mqtt_publish_span destination_channel =
     \<lparr>sp_name = text_of ''mqtt.publish'', sp_kind = ProducerSpan,
      sp_attributes = [(''messaging.system'', text_of ''mqtt''), (''messaging.destination.channel'', destination_channel)]\<rparr>"

section \<open>The gRPC client\<close>

datatype grpc_error = GrpcClosed | GrpcOSError

text \<open>A secure channel has the root certificates, the key, the chain and the overridden server name.\<close>

datatype grpc_channel =
    Insecure (channel_target: pytext)
  | Secure (channel_target: pytext) (root_certificates: bytes) (private_key: bytes) (certificate_chain: bytes) (server_override: pytext)

definition create_channel :: "(pytext \<Rightarrow> bytes option) \<Rightarrow> media_control_grpc_settings \<Rightarrow> grpc_error + grpc_channel" where
  "create_channel read_bytes s =
     (if mg_allow_plaintext s then Inr (Insecure (mg_target s))
      else
        case (read_bytes (mg_ca_file s), read_bytes (mg_key_file s), read_bytes (mg_cert_file s)) of
          (Some ca, Some key, Some chain) \<Rightarrow> Inr (Secure (mg_target s) ca key chain (mg_server_name s))
        | _ \<Rightarrow> Inl GrpcOSError)"

definition GRPC_METHOD :: pytext where
  "GRPC_METHOD = text_of ''/gcs.saker.v1.SakerGatewayService/Exchange''"

record grpc_client =
  gc_settings :: media_control_grpc_settings
  gc_channel :: grpc_channel
  gc_closed :: bool

definition new_grpc_client ::
    "(pytext \<Rightarrow> bytes option) \<Rightarrow> media_control_grpc_settings \<Rightarrow> grpc_channel option \<Rightarrow> grpc_error + grpc_client" where
  "new_grpc_client read_bytes s channel =
     bind_r (case channel of None \<Rightarrow> create_channel read_bytes s | Some c \<Rightarrow> Inr c) (\<lambda>c.
       Inr \<lparr>gc_settings = s, gc_channel = c, gc_closed = False\<rparr>)"

text \<open>What the channel sees.\<close>

datatype channel_event =
    StreamStream pytext "bytes list" "(pytext \<times> pytext) list" pyfloat
  | ChannelClosed

definition exchange ::
    "grpc_client \<Rightarrow> bytes list \<Rightarrow> (pytext \<times> pytext) list \<Rightarrow> grpc_error + channel_event" where
  "exchange client payloads metadata =
     (if gc_closed client then Inl GrpcClosed
      else Inr (StreamStream GRPC_METHOD payloads metadata (mg_timeout_seconds (gc_settings client))))"

definition close_client :: "grpc_client \<Rightarrow> grpc_client \<times> channel_event list" where
  "close_client client =
     (if gc_closed client then (client, []) else (client\<lparr>gc_closed := True\<rparr>, [ChannelClosed]))"

text \<open>A use of the client: exchanges and closes in any order; leaving the \<open>with\<close> block is a close.\<close>

datatype grpc_use = Exchange "bytes list" "(pytext \<times> pytext) list" | Close

fun use_client :: "grpc_client \<Rightarrow> grpc_use list \<Rightarrow> grpc_client \<times> channel_event list \<times> (grpc_error + channel_event) list" where
  "use_client client [] = (client, [], [])"
| "use_client client (Exchange payloads metadata # us) =
     (let r = exchange client payloads metadata; (client', es, rs) = use_client client us in
      (client', (case r of Inl _ \<Rightarrow> es | Inr e \<Rightarrow> e # es), r # rs))"
| "use_client client (Close # us) =
     (let (client, e) = close_client client; (client', es, rs) = use_client client us in (client', e @ es, rs))"

section \<open>What the parts promise\<close>

lemma float_millis_bounds: "0 < q \<Longrightarrow> q \<le> 5 \<Longrightarrow> \<exists>t. float_millis (Fin q) = Some t \<and> 0 \<le> t \<and> t \<le> 5000"
proof -
  assume q: "0 < q" "q \<le> 5"
  have "double64 (of_int 0)" "double64 (of_int 5000)" by (rule double64_of_int, simp)+
  with q have r: "0 \<le> round64 (q * 1000)" "round64 (q * 1000) \<le> 5000"
    using round64_bounds [of 0 5000 "q * 1000"] by simp_all
  then have "\<lfloor>round64 (q * 1000)\<rfloor> \<le> 5000" "0 \<le> \<lfloor>round64 (q * 1000)\<rfloor>" by (simp_all add: floor_le_iff)
  with r(1) show ?thesis by (simp add: float_millis_def trunc_rat_def)
qed

lemma tracing_bounds:
  assumes "tracing_from_env h = Inr s"
  shows "tx_exporter s = TRACE_OTLP \<Longrightarrow> internal_collector h (tx_otlp_endpoint s)"
    and "\<exists>q. tx_export_timeout_seconds s = Fin q \<and> 0 < q \<and> q \<le> 5"
    and "64 \<le> tx_max_queue_size s" "tx_max_queue_size s \<le> 4096"
    and "1 \<le> tx_max_export_batch_size s" "tx_max_export_batch_size s \<le> tx_max_queue_size s"
proof -
  have t: "flt (Fin 0) (tx_export_timeout_seconds s) \<and> fle (tx_export_timeout_seconds s) (Fin 5)"
    using checked_field [OF tracing_from_env_parts(1) [OF assms]] by simp
  then show "\<exists>q. tx_export_timeout_seconds s = Fin q \<and> 0 < q \<and> q \<le> 5"
    by (cases "tx_export_timeout_seconds s") simp_all
  have "validate_exporter_boundary h s = Inr s" by (rule tracing_from_env_parts(4) [OF assms])
  then show "tx_exporter s = TRACE_OTLP \<Longrightarrow> internal_collector h (tx_otlp_endpoint s)"
    and "tx_max_export_batch_size s \<le> tx_max_queue_size s"
    by (auto simp: validate_exporter_boundary_def simp del: text_of_simps split: if_splits)
  show "64 \<le> tx_max_queue_size s" "tx_max_queue_size s \<le> 4096"
    using checked_field [OF tracing_from_env_parts(2) [OF assms]] by simp_all
  show "1 \<le> tx_max_export_batch_size s" using checked_field [OF tracing_from_env_parts(3) [OF assms]] by simp
qed

text \<open>What tracing may do to a process with accepted settings.\<close>

definition bounded_processor :: "host \<Rightarrow> span_processor \<Rightarrow> bool" where
  "bounded_processor h p =
     (case p of
        SimpleProcessor e \<Rightarrow> e = ConsoleExporter
      | BatchProcessor e queue delay batch timeout \<Rightarrow>
          (\<exists>endpoint t. e = OtlpExporter endpoint t \<and> internal_collector h endpoint) \<and>
          64 \<le> queue \<and> queue \<le> 4096 \<and> 1 \<le> batch \<and> batch \<le> queue \<and> 0 \<le> timeout \<and> timeout \<le> 5000)"

text \<open>
  C33: tracing cannot overload the process. With accepted settings the global provider is built without
  an exception, and its only processor writes to the console or exports to the internal collector from
  a queue of at most 4096 spans, in batches that fit it, with a timeout of at most five seconds.
\<close>

theorem tracing_export_bounded:
  assumes "tracing_from_env h = Inr s" and "tx_enabled s"
  shows "\<exists>p. configure_global_tracing h None = Inr (Some (Some p)) \<and> tp_global p \<and>
    length (tp_processors p) \<le> 1 \<and> (\<forall>x \<in> set (tp_processors p). bounded_processor h x)"
proof -
  note b = tracing_bounds [OF assms(1)]
  obtain q where q: "tx_export_timeout_seconds s = Fin q" "0 < q" "q \<le> 5" using b(2) by blast
  obtain t where t: "float_millis (Fin q) = Some t" "0 \<le> t" "t \<le> 5000" using float_millis_bounds [OF q(2,3)] by blast
  have "\<exists>p. build_tracer_provider s None = Some p \<and> length (tp_processors p) \<le> 1 \<and> (\<forall>x \<in> set (tp_processors p). bounded_processor h x)"
    using b q(1) t
    by (auto simp: build_tracer_provider_def exporter_from_settings_def span_processor_for_def bounded_processor_def
        TRACE_CONSOLE_def TRACE_OTLP_def)
  then show ?thesis using assms by (auto simp: configure_global_tracing_def)
qed

lemma use_closed: "gc_closed client \<Longrightarrow> use_client client us = (client, [], [Inl GrpcClosed. u \<leftarrow> us, u \<noteq> Close])"
  by (induction client us rule: use_client.induct) (auto simp: exchange_def close_client_def Let_def)

text \<open>The exchanges before the first close, as the channel sees them.\<close>

definition channel_calls :: "grpc_client \<Rightarrow> grpc_use list \<Rightarrow> channel_event list" where
  "channel_calls client us =
     [StreamStream GRPC_METHOD payloads metadata (mg_timeout_seconds (gc_settings client)).
        Exchange payloads metadata \<leftarrow> takeWhile (\<lambda>u. u \<noteq> Close) us]"

text \<open>
  however a fresh client is used, the channel sees the exchanges before the first close, each with
  the configured timeout, then at most one close, and nothing after it; every exchange after the close
  is refused.
\<close>

theorem grpc_channel_closed_once:
  assumes "new_grpc_client read_bytes s channel = Inr client"
  shows "use_client client us =
    (client\<lparr>gc_closed := Close \<in> set us\<rparr>, channel_calls client us @ (if Close \<in> set us then [ChannelClosed] else []),
     map Inr (channel_calls client us) @ [Inl GrpcClosed. u \<leftarrow> dropWhile (\<lambda>u. u \<noteq> Close) us, u \<noteq> Close])"
proof -
  have "\<not> gc_closed client" using assms by (auto simp: new_grpc_client_def bind_r_eq_Inr)
  then show ?thesis
  proof (induction us)
    case (Cons u us)
    then show ?case
      by (cases u) (auto simp: exchange_def close_client_def channel_calls_def use_closed Let_def)
  qed (simp add: channel_calls_def)
qed

text \<open>
  the channel of accepted settings is authenticated both ways unless plaintext was asked for: it
  carries the certificates, the key and the chain of the configured files and a server name to check.
\<close>

theorem grpc_channel_authenticated:
  assumes "media_control_grpc_from_env h = Inr s" and "new_grpc_client read_bytes s None = Inr client"
  shows "channel_target (gc_channel client) \<noteq> [] \<and>
    (mg_allow_plaintext s \<or>
     (\<exists>ca key chain. gc_channel client = Secure (mg_target s) ca key chain (mg_server_name s) \<and> mg_server_name s \<noteq> [] \<and>
        read_bytes (mg_ca_file s) = Some ca \<and> read_bytes (mg_key_file s) = Some key \<and> read_bytes (mg_cert_file s) = Some chain))"
proof -
  have "validate_transport s = Inr s"
    using assms(1) by (auto simp: media_control_grpc_from_env_def validate_transport_def bind_r_eq_Inr split: if_splits)
  then show ?thesis
    using assms(2) by (auto simp: new_grpc_client_def create_channel_def validate_transport_def bind_r_eq_Inr split: if_splits option.splits)
qed

section \<open>Samples\<close>

definition console_env :: "(string \<times> pytext) list" where
  "console_env = [(''OTEL_TRACES_ENABLED'', text_of ''true''), (''OTEL_TRACES_EXPORTER'', text_of ''console'')]"

lemma console_env_accepted:
  "\<exists>s. tracing_from_env (sample_host console_env) = Inr s \<and> tx_enabled s \<and> exporter_from_settings s = Some ConsoleExporter"
proof -
  have "normalize_exporter (sample_host console_env) (text_of ''console'') = TRACE_CONSOLE"
    by (simp add: normalize_exporter_def or_default_def empty_to_none_def py_strip_def strip_both_def strip_right_def
        py_space_def lower_text_def text_lower_def ascii_lower_def TRACE_CONSOLE_def Let_def)
  moreover have "TRACE_CONSOLE \<noteq> TRACE_OTLP" by (simp add: TRACE_CONSOLE_def TRACE_OTLP_def)
  ultimately show ?thesis
    by (simp add: tracing_from_env_def host_evaluation console_env_def validate_exporter_boundary_def exporter_from_settings_def
        del: text_of_simps)
qed

theorem tracing_export_bounded_witness:
  "\<exists>p. configure_global_tracing (sample_host console_env) None = Inr (Some (Some p)) \<and> tp_global p \<and>
    length (tp_processors p) \<le> 1 \<and> (\<forall>x \<in> set (tp_processors p). bounded_processor (sample_host console_env) x)"
  using console_env_accepted by (elim exE conjE) (rule tracing_export_bounded)

definition grpc_env :: "(string \<times> pytext) list" where
  "grpc_env = [(''MEDIA_CONTROL_GRPC_TARGET'', text_of ''h''), (''MEDIA_CONTROL_GRPC_CA_FILE'', text_of ''a''),
     (''MEDIA_CONTROL_GRPC_CERT_FILE'', text_of ''b''), (''MEDIA_CONTROL_GRPC_KEY_FILE'', text_of ''c''),
     (''MEDIA_CONTROL_GRPC_SERVER_NAME'', text_of ''s'')]"

definition grpc_sample :: media_control_grpc_settings where
  "grpc_sample =
     \<lparr>mg_target = text_of ''h'', mg_ca_file = text_of ''a'', mg_cert_file = text_of ''b'', mg_key_file = text_of ''c'',
      mg_server_name = text_of ''s'', mg_allow_plaintext = False, mg_timeout_seconds = Fin 2\<rparr>"

definition grpc_sample_client :: grpc_client where
  "grpc_sample_client =
     \<lparr>gc_settings = grpc_sample, gc_channel = Secure (text_of ''h'') [1] [1] [1] (text_of ''s''), gc_closed = False\<rparr>"

lemma grpc_env_accepted: "media_control_grpc_from_env (sample_host grpc_env) = Inr grpc_sample"
  by (simp add: media_control_grpc_from_env_def host_evaluation grpc_env_def validate_transport_def grpc_sample_def)

lemma grpc_sample_created: "new_grpc_client (\<lambda>_. Some [1]) grpc_sample None = Inr grpc_sample_client"
  by (simp add: new_grpc_client_def create_channel_def grpc_sample_def grpc_sample_client_def)

theorem grpc_channel_closed_once_witness:
  "use_client grpc_sample_client [Exchange [[1]] [], Close, Exchange [] [], Close] =
    (grpc_sample_client\<lparr>gc_closed := Close \<in> set [Exchange [[1]] [], Close, Exchange [] [], Close]\<rparr>,
     channel_calls grpc_sample_client [Exchange [[1]] [], Close, Exchange [] [], Close] @
       (if Close \<in> set [Exchange [[1]] [], Close, Exchange [] [], Close] then [ChannelClosed] else []),
     map Inr (channel_calls grpc_sample_client [Exchange [[1]] [], Close, Exchange [] [], Close]) @
       [Inl GrpcClosed. u \<leftarrow> dropWhile (\<lambda>u. u \<noteq> Close) [Exchange [[1]] [], Close, Exchange [] [], Close], u \<noteq> Close])"
  by (rule grpc_channel_closed_once [OF grpc_sample_created])

theorem grpc_channel_authenticated_witness:
  "channel_target (gc_channel grpc_sample_client) \<noteq> [] \<and>
    (mg_allow_plaintext grpc_sample \<or>
     (\<exists>ca key chain. gc_channel grpc_sample_client = Secure (mg_target grpc_sample) ca key chain (mg_server_name grpc_sample) \<and>
        mg_server_name grpc_sample \<noteq> [] \<and>
        (\<lambda>_. Some [1]) (mg_ca_file grpc_sample) = Some ca \<and> (\<lambda>_. Some [1]) (mg_key_file grpc_sample) = Some key \<and>
        (\<lambda>_. Some [1]) (mg_cert_file grpc_sample) = Some chain))"
  by (rule grpc_channel_authenticated [OF grpc_env_accepted grpc_sample_created])

end
