(* ===== verification/Lifecycle.thy ===== *)
theory Lifecycle
  imports Ops_Base World
begin

text \<open>
  Starting and stopping the production containers, \<open>scripts/ops/compose_lifecycle.py\<close>: the phases
  in the order of their dependencies, the checks of the rendered Compose document, the wait for a
  container's state and the commands. Docker, the clock and the output are an argument.
\<close>

section \<open>The phases\<close>

definition START_PHASES :: "(string \<times> string) list" where
  "START_PHASES =
     [(''postgres-geo'', ''healthy''), (''redis'', ''healthy''), (''mqtt'', ''healthy''), (''auth-policy'', ''healthy''),
      (''backend'', ''healthy''), (''media-control'', ''healthy''), (''mediamtx'', ''running''),
      (''turn-primary'', ''healthy''), (''dashboard'', ''healthy''), (''edge'', ''healthy'')]"

definition STOP_SERVICES :: "string list" where
  "STOP_SERVICES = map fst (rev START_PHASES)"

definition STATEFUL_SERVICES :: "string set" where
  "STATEFUL_SERVICES = {''postgres-geo'', ''redis'', ''mqtt''}"

definition COMMAND_TIMEOUT_SECONDS :: int where
  "COMMAND_TIMEOUT_SECONDS = 60"

section \<open>The host\<close>

text \<open>\<open>OutOfRounds\<close> is no error of the code: it ends the model of a loop that has no bound of its own.\<close>

datatype lifecycle_error = LifecycleError pytext | LifecycleCommand | LifecycleJson | LifecycleOSError | OutOfRounds

datatype lifecycle_output =
    LifecycleEvent string string string int
  | LifecycleFailure lifecycle_error
  | LifecyclePlan string "string list" bool

text \<open>
  A command gives its stripped output, or raises because it fails, cannot be run or exceeds its
  timeout in seconds. The clock is the monotonic one.
\<close>

record 'w docker_host =
  dh_run :: "pytext list \<Rightarrow> int \<Rightarrow> 'w \<Rightarrow> 'w \<times> pytext option"
  dh_sleep :: "pyfloat \<Rightarrow> 'w \<Rightarrow> 'w"
  dh_clock :: "'w \<Rightarrow> rat"
  dh_print :: "lifecycle_output \<Rightarrow> 'w \<Rightarrow> 'w"

text \<open>The file system; the size is missing when \<open>stat\<close> raises.\<close>

record file_lib =
  fl_is_file :: "pytext \<Rightarrow> bool"
  fl_is_dir :: "pytext \<Rightarrow> bool"
  fl_size :: "pytext \<Rightarrow> nat option"
  fl_json_loads :: "pytext \<Rightarrow> json option"
  fl_str_of :: "json \<Rightarrow> pytext"

record lifecycle_config =
  lc_compose_file :: pytext
  lc_env_file :: pytext
  lc_project_name :: pytext
  lc_deployment_target :: pytext
  lc_wait_seconds :: int
  lc_poll_seconds :: pyfloat

definition rejected :: "string \<Rightarrow> lifecycle_error + 'a" where
  "rejected message = Inl (LifecycleError (text_of message))"

definition is_absolute :: "pytext \<Rightarrow> bool" where
  "is_absolute path \<longleftrightarrow> take 1 path = [47]"

definition validate_config :: "file_lib \<Rightarrow> lifecycle_config \<Rightarrow> lifecycle_error + unit" where
  "validate_config lib cfg =
     (if lc_deployment_target cfg \<noteq> text_of ''server01-production''
      then rejected ''only Server-01 production is managed''
      else if lc_project_name cfg \<noteq> text_of ''gcs-saker-m2-production''
      then rejected ''invalid production project name''
      else if \<not> list_all (\<lambda>path. is_absolute path \<and> fl_is_file lib path) [lc_compose_file cfg, lc_env_file cfg]
      then rejected ''Compose and environment files must be existing absolute files''
      else if lc_wait_seconds cfg < 10 \<or> 600 < lc_wait_seconds cfg \<or>
        \<not> (fle (Fin (round64 (1 / 10))) (lc_poll_seconds cfg) \<and> fle (lc_poll_seconds cfg) (Fin 10))
      then rejected ''lifecycle wait bounds are invalid''
      else Inr ())"

definition compose :: "lifecycle_config \<Rightarrow> pytext list \<Rightarrow> pytext list" where
  "compose cfg arguments =
     [text_of ''docker'', text_of ''compose'', text_of ''--project-name'', lc_project_name cfg, text_of ''--env-file'',
      lc_env_file cfg, text_of ''-f'', lc_compose_file cfg] @ arguments"

definition inspect_state :: "pytext \<Rightarrow> pytext list" where
  "inspect_state container =
     [text_of ''docker'', text_of ''inspect'', text_of ''--format'',
      text_of ''{{if .State.Health}}{{.State.Health.Status}}{{else}}{{.State.Status}}{{end}}'', container]"

definition run_process :: "'w docker_host \<Rightarrow> pytext list \<Rightarrow> int \<Rightarrow> ('w, lifecycle_error, pytext) act" where
  "run_process h argv timeout w = (case dh_run h argv timeout w of (w', None) \<Rightarrow> (w', Inl LifecycleCommand) | (w', Some out) \<Rightarrow> (w', Inr out))"

definition clock_reading :: "'w docker_host \<Rightarrow> ('w, lifecycle_error, rat) act" where
  "clock_reading h w = (w, Inr (dh_clock h w))"

definition emit_event :: "'w docker_host \<Rightarrow> string \<Rightarrow> string \<Rightarrow> string \<Rightarrow> rat \<Rightarrow> ('w, lifecycle_error, unit) act" where
  "emit_event h operation service result started w =
     (dh_print h (LifecycleEvent operation service result
        (max 0 (half_even (round64 (round64 (dh_clock h w - started) * 1000))))) w, Inr ())"

section \<open>The checks of the rendered document\<close>

text \<open>\<open>Path(text)\<close>, where no text means the working directory, and \<open>path / name\<close>.\<close>

definition path_of :: "pytext \<Rightarrow> pytext" where
  "path_of s = (if s = [] then text_of ''.'' else s)"

definition child :: "pytext \<Rightarrow> string \<Rightarrow> pytext" where
  "child path name = path @ [47] @ text_of name"

definition file_size :: "file_lib \<Rightarrow> pytext \<Rightarrow> lifecycle_error + nat" where
  "file_size lib path = (case fl_size lib path of None \<Rightarrow> Inl LifecycleOSError | Some n \<Rightarrow> Inr n)"

definition nonempty_file :: "file_lib \<Rightarrow> pytext \<Rightarrow> lifecycle_error + bool" where
  "nonempty_file lib path = (if \<not> fl_is_file lib path then Inr False else bind_r (file_size lib path) (\<lambda>n. Inr (n \<noteq> 0)))"

definition runtime_secret_ok :: "file_lib \<Rightarrow> json \<Rightarrow> lifecycle_error + unit" where
  "runtime_secret_ok lib specification =
     (case specification of
        JObj d \<Rightarrow>
          let path = path_of (text_get (fl_str_of lib) d ''file'' []) in
          if \<not> is_absolute path then rejected ''required runtime secret file is unavailable''
          else bind_r (nonempty_file lib path) (\<lambda>ok.
            if ok then Inr () else rejected ''required runtime secret file is unavailable'')
      | _ \<Rightarrow> rejected ''rendered Compose secret is invalid'')"

definition validate_runtime_secrets :: "file_lib \<Rightarrow> json \<Rightarrow> lifecycle_error + unit" where
  "validate_runtime_secrets lib rendered =
     (case rendered of
        JObj d \<Rightarrow>
          (case json_get d ''secrets'' of
             JObj secrets \<Rightarrow> bind_r (map_r (\<lambda>(_, s). runtime_secret_ok lib s) secrets) (\<lambda>_. Inr ())
           | _ \<Rightarrow> rejected ''rendered Compose secrets are unavailable'')
      | _ \<Rightarrow> rejected ''rendered Compose secrets are unavailable'')"

definition is_pki_mount :: "file_lib \<Rightarrow> json \<Rightarrow> bool" where
  "is_pki_mount lib mount =
     (case mount of
        JObj d \<Rightarrow> starts_with (text_of ''/run/secrets/gcs-pki'') (text_get (fl_str_of lib) d ''target'' [])
      | _ \<Rightarrow> False)"

definition valid_pki_source :: "file_lib \<Rightarrow> json_dict \<Rightarrow> lifecycle_error + bool" where
  "valid_pki_source lib mount =
     (let source = path_of (text_get (fl_str_of lib) mount ''source'' []);
          target = text_get (fl_str_of lib) mount ''target'' [] in
      if target = text_of ''/run/secrets/gcs-pki''
      then if \<not> fl_is_dir lib source then Inr False else nonempty_file lib (child source ''ca.crl'')
      else nonempty_file lib source)"

text \<open>\<open>all(...)\<close> stops at the first source that is not valid.\<close>

fun all_pki_sources :: "file_lib \<Rightarrow> json list \<Rightarrow> lifecycle_error + bool" where
  "all_pki_sources lib [] = Inr True"
| "all_pki_sources lib (mount # mounts) =
     bind_r (case mount of JObj d \<Rightarrow> valid_pki_source lib d | _ \<Rightarrow> Inr False) (\<lambda>ok.
       if ok then all_pki_sources lib mounts else Inr False)"

definition validate_internal_pki :: "file_lib \<Rightarrow> json \<Rightarrow> lifecycle_error + unit" where
  "validate_internal_pki lib rendered =
     (case rendered of
        JObj d \<Rightarrow>
          (case json_get d ''services'' of
             JObj services \<Rightarrow>
               (case json_get services ''mqtt'' of
                  JObj mqtt \<Rightarrow>
                    (case json_get mqtt ''volumes'' of
                       JList volumes \<Rightarrow>
                         let pki_mounts = filter (is_pki_mount lib) volumes in
                         if pki_mounts = [] then rejected ''required internal PKI source is unavailable''
                         else bind_r (all_pki_sources lib pki_mounts) (\<lambda>ok.
                           if ok then Inr () else rejected ''required internal PKI source is unavailable'')
                     | _ \<Rightarrow> rejected ''MQTT PKI mounts are unavailable'')
                | _ \<Rightarrow> rejected ''MQTT PKI mounts are unavailable'')
           | _ \<Rightarrow> rejected ''rendered Compose services are unavailable'')
      | _ \<Rightarrow> rejected ''rendered Compose services are unavailable'')"

definition validate_rendered :: "file_lib \<Rightarrow> pytext \<Rightarrow> lifecycle_error + unit" where
  "validate_rendered lib out =
     (case fl_json_loads lib out of
        None \<Rightarrow> Inl LifecycleJson
      | Some rendered \<Rightarrow> bind_r (validate_runtime_secrets lib rendered) (\<lambda>_. validate_internal_pki lib rendered))"

definition config_command :: "lifecycle_config \<Rightarrow> pytext list" where
  "config_command cfg = compose cfg [text_of ''config'', text_of ''--format'', text_of ''json'']"

definition check_lifecycle :: "'w docker_host \<Rightarrow> file_lib \<Rightarrow> lifecycle_config \<Rightarrow> ('w, lifecycle_error, unit) act" where
  "check_lifecycle h lib cfg =
     bind_w (return_w (validate_config lib cfg)) (\<lambda>_.
     bind_w (run_process h (config_command cfg) COMMAND_TIMEOUT_SECONDS) (\<lambda>out.
       return_w (validate_rendered lib out)))"

section \<open>Starting and stopping\<close>

definition ps_command :: "lifecycle_config \<Rightarrow> string \<Rightarrow> pytext list" where
  "ps_command cfg service = compose cfg [text_of ''ps'', text_of ''-aq'', text_of service]"

definition start_command :: "lifecycle_config \<Rightarrow> string \<Rightarrow> pytext list" where
  "start_command cfg service = compose cfg [text_of ''start'', text_of service]"

definition stop_command :: "lifecycle_config \<Rightarrow> string \<Rightarrow> pytext list" where
  "stop_command cfg service = compose cfg [text_of ''stop'', text_of service]"

definition container_id :: "'w docker_host \<Rightarrow> lifecycle_config \<Rightarrow> string \<Rightarrow> ('w, lifecycle_error, pytext) act" where
  "container_id h cfg service = run_process h (ps_command cfg service) COMMAND_TIMEOUT_SECONDS"

definition failed_state :: "pytext \<Rightarrow> bool" where
  "failed_state state \<longleftrightarrow> state \<in> {text_of ''unhealthy'', text_of ''exited'', text_of ''dead''}"

text \<open>The \<open>while\<close> loop of \<open>wait\<close>, for a number of rounds.\<close>

fun wait_loop ::
    "'w docker_host \<Rightarrow> lifecycle_config \<Rightarrow> pytext \<Rightarrow> string \<Rightarrow> string \<Rightarrow> rat \<Rightarrow> rat \<Rightarrow> nat \<Rightarrow> ('w, lifecycle_error, unit) act" where
  "wait_loop h cfg container expected service started deadline 0 w = (w, Inl OutOfRounds)"
| "wait_loop h cfg container expected service started deadline (Suc n) w =
     (if \<not> dh_clock h w < deadline
      then (w, Inl (LifecycleError (text_of ''service readiness timed out: '' @ text_of service)))
      else
        bind_w (run_process h (inspect_state container) COMMAND_TIMEOUT_SECONDS) (\<lambda>state w.
          if state = text_of expected then emit_event h ''start'' service expected started w
          else if failed_state state
          then (w, Inl (LifecycleError (text_of ''service readiness failed: '' @ text_of service @ [61] @ state)))
          else wait_loop h cfg container expected service started deadline n (dh_sleep h (lc_poll_seconds cfg) w)) w)"

text \<open>A round takes at least a twentieth of a second, which bounds the rounds to the deadline.\<close>

definition wait_ready ::
    "'w docker_host \<Rightarrow> lifecycle_config \<Rightarrow> pytext \<Rightarrow> string \<Rightarrow> string \<Rightarrow> rat \<Rightarrow> ('w, lifecycle_error, unit) act" where
  "wait_ready h cfg container expected service started w =
     (let deadline = round64 (dh_clock h w + of_int (lc_wait_seconds cfg)) in
      wait_loop h cfg container expected service started deadline (nat \<lceil>20 * (deadline - dh_clock h w)\<rceil> + 2) w)"

definition start_service :: "'w docker_host \<Rightarrow> lifecycle_config \<Rightarrow> string \<times> string \<Rightarrow> ('w, lifecycle_error, unit) act" where
  "start_service h cfg phase =
     (let (service, expected) = phase in
      bind_w (clock_reading h) (\<lambda>started.
      bind_w (container_id h cfg service) (\<lambda>container.
      if container = []
      then return_w (Inl (LifecycleError (text_of (if service \<in> STATEFUL_SERVICES then ''stateful'' else ''managed'') @
        text_of '' service is absent: '' @ text_of service @ text_of ''; use approved deployment'')))
      else
        bind_w (run_process h (start_command cfg service) COMMAND_TIMEOUT_SECONDS) (\<lambda>_.
          wait_ready h cfg container expected service started))))"

definition start_all :: "'w docker_host \<Rightarrow> file_lib \<Rightarrow> lifecycle_config \<Rightarrow> ('w, lifecycle_error, unit) act" where
  "start_all h lib cfg = bind_w (check_lifecycle h lib cfg) (\<lambda>_. each_w (start_service h cfg) START_PHASES)"

definition stop_service :: "'w docker_host \<Rightarrow> lifecycle_config \<Rightarrow> string \<Rightarrow> ('w, lifecycle_error, unit) act" where
  "stop_service h cfg service =
     bind_w (container_id h cfg service) (\<lambda>container.
     if container = [] then return_w (Inr ())
     else
       bind_w (clock_reading h) (\<lambda>started.
       bind_w (run_process h (stop_command cfg service) (lc_wait_seconds cfg)) (\<lambda>_.
         emit_event h ''stop'' service ''stopped'' started)))"

definition stop_all :: "'w docker_host \<Rightarrow> file_lib \<Rightarrow> lifecycle_config \<Rightarrow> ('w, lifecycle_error, unit) act" where
  "stop_all h lib cfg = bind_w (return_w (validate_config lib cfg)) (\<lambda>_. each_w (stop_service h cfg) STOP_SERVICES)"

section \<open>The command line\<close>

datatype lifecycle_action = CheckAction | PlanStart | PlanStop | StartAction | StopAction

definition plan_output :: "string \<Rightarrow> lifecycle_output" where
  "plan_output action = LifecyclePlan action (if action = ''start'' then map fst START_PHASES else STOP_SERVICES) False"

definition print_plan :: "'w docker_host \<Rightarrow> file_lib \<Rightarrow> lifecycle_config \<Rightarrow> string \<Rightarrow> ('w, lifecycle_error, unit) act" where
  "print_plan h lib cfg action =
     bind_w (return_w (validate_config lib cfg)) (\<lambda>_ w. (dh_print h (plan_output action) w, Inr ()))"

definition run_action :: "'w docker_host \<Rightarrow> file_lib \<Rightarrow> lifecycle_config \<Rightarrow> lifecycle_action \<Rightarrow> ('w, lifecycle_error, unit) act" where
  "run_action h lib cfg action =
     (case action of
        PlanStart \<Rightarrow> print_plan h lib cfg ''start''
      | PlanStop \<Rightarrow> print_plan h lib cfg ''stop''
      | CheckAction \<Rightarrow> check_lifecycle h lib cfg
      | StartAction \<Rightarrow> start_all h lib cfg
      | StopAction \<Rightarrow> stop_all h lib cfg)"

definition lifecycle_main :: "'w docker_host \<Rightarrow> file_lib \<Rightarrow> lifecycle_config \<Rightarrow> lifecycle_action \<Rightarrow> 'w \<Rightarrow> 'w \<times> int" where
  "lifecycle_main h lib cfg action w =
     (case run_action h lib cfg action w of
        (w', Inr _) \<Rightarrow> (w', 0)
      | (w', Inl e) \<Rightarrow> (dh_print h (LifecycleFailure e) w', 1))"

section \<open>The commands that are run\<close>

text \<open>A host that writes down every command with its answer.\<close>

type_synonym run_event = "pytext list \<times> pytext option"

definition traced :: "'w docker_host \<Rightarrow> ('w \<times> run_event list) docker_host" where
  "traced h =
     \<lparr>dh_run = (\<lambda>argv timeout (w, events). case dh_run h argv timeout w of (w', out) \<Rightarrow> ((w', events @ [(argv, out)]), out)),
      dh_sleep = (\<lambda>seconds. map_prod (dh_sleep h seconds) id), dh_clock = dh_clock h \<circ> fst,
      dh_print = (\<lambda>out. map_prod (dh_print h out) id)\<rparr>"

text \<open>
  The record of one service that comes up: its container is found, started, seen in states that are
  neither the expected nor a failed one, and then in the expected state.
\<close>

definition unsettled :: "string \<Rightarrow> pytext \<Rightarrow> run_event \<Rightarrow> bool" where
  "unsettled expected container event \<longleftrightarrow>
     (\<exists>state. event = (inspect_state container, Some state) \<and> state \<noteq> text_of expected \<and> \<not> failed_state state)"

definition came_up :: "lifecycle_config \<Rightarrow> string \<times> string \<Rightarrow> run_event list \<Rightarrow> bool" where
  "came_up cfg phase events \<longleftrightarrow>
     (\<exists>container out polls. container \<noteq> [] \<and> list_all (unsettled (snd phase) container) polls \<and>
        events = [(ps_command cfg (fst phase), Some container), (start_command cfg (fst phase), Some out)] @ polls @
          [(inspect_state container, Some (text_of (snd phase)))])"

text \<open>Commands that concern one service.\<close>

definition concerns :: "lifecycle_config \<Rightarrow> string \<Rightarrow> run_event \<Rightarrow> bool" where
  "concerns cfg service event \<longleftrightarrow>
     fst event \<in> {ps_command cfg service, start_command cfg service} \<or> (\<exists>container. fst event = inspect_state container)"

lemma run_traced:
  "run_process (traced h) argv timeout (w, events) =
     (case dh_run h argv timeout w of (w', out) \<Rightarrow>
        ((w', events @ [(argv, out)]), case out of None \<Rightarrow> Inl LifecycleCommand | Some s \<Rightarrow> Inr s))"
  by (simp add: run_process_def traced_def split: prod.split option.split)

lemma run_traced_cases:
  assumes "run_process (traced h) argv timeout (w, events) = ((w', events'), r)"
  shows "(\<exists>out. r = Inr out \<and> events' = events @ [(argv, Some out)]) \<or> (r = Inl LifecycleCommand \<and> events' = events @ [(argv, None)])"
  using assms by (auto simp: run_traced split: prod.splits option.splits)

lemma traced_parts [simp]:
  "dh_clock (traced h) (w, events) = dh_clock h w"
  "dh_sleep (traced h) seconds (w, events) = (dh_sleep h seconds w, events)"
  "dh_print (traced h) out (w, events) = (dh_print h out w, events)"
  by (simp_all add: traced_def)

lemma wait_loop_traced:
  "wait_loop (traced h) cfg container expected service started deadline n (w, events) = ((w', events'), r) \<Longrightarrow>
     \<exists>polls last. events' = events @ polls @ last \<and> list_all (unsettled expected container) polls \<and>
       list_all (\<lambda>event. fst event = inspect_state container) last \<and>
       (r = Inr () \<longrightarrow> last = [(inspect_state container, Some (text_of expected))])"
proof (induction n arbitrary: w events)
  case (Suc n)
  show ?case
  proof (cases "dh_clock h w < deadline")
    case False
    with Suc.prems show ?thesis by (intro exI [of _ "[]"]) auto
  next
    case True
    obtain w1 reply where run: "dh_run h (inspect_state container) COMMAND_TIMEOUT_SECONDS w = (w1, reply)" by fastforce
    let ?e = "(inspect_state container, reply)"
    show ?thesis
    proof (cases "\<exists>state. reply = Some state \<and> state \<noteq> text_of expected \<and> \<not> failed_state state")
      case True
      then obtain state where state: "reply = Some state" "state \<noteq> text_of expected" "\<not> failed_state state" by blast
      with Suc.prems \<open>dh_clock h w < deadline\<close> run
      have "wait_loop (traced h) cfg container expected service started deadline n
          (dh_sleep h (lc_poll_seconds cfg) w1, events @ [?e]) = ((w', events'), r)"
        by (simp add: bind_w_def run_traced)
      from Suc.IH [OF this] obtain polls last where
          "events' = (events @ [?e]) @ polls @ last" "list_all (unsettled expected container) polls"
          "list_all (\<lambda>event. fst event = inspect_state container) last"
          "r = Inr () \<longrightarrow> last = [(inspect_state container, Some (text_of expected))]"
        by blast
      with state show ?thesis by - (rule exI [of _ "?e # polls"], rule exI [of _ last], simp add: unsettled_def list_all_iff)
    next
      case False
      with Suc.prems \<open>dh_clock h w < deadline\<close> run
      have "events' = events @ [?e] \<and> (r = Inr () \<longrightarrow> reply = Some (text_of expected))"
        by (auto simp: bind_w_def run_traced emit_event_def split: option.splits if_splits)
      then show ?thesis by - (rule exI [of _ "[]"], rule exI [of _ "[?e]"], auto)
    qed
  qed
qed (auto intro: exI [of _ "[]"])

lemma start_service_traced:
  assumes "start_service (traced h) cfg phase (w, events) = ((w', events'), r)"
  shows "\<exists>block. events' = events @ block \<and> list_all (concerns cfg (fst phase)) block \<and> (r = Inr () \<longrightarrow> came_up cfg phase block)"
proof -
  obtain service expected where phase: "phase = (service, expected)" by fastforce
  obtain w1 reply where ps: "dh_run h (ps_command cfg service) COMMAND_TIMEOUT_SECONDS w = (w1, reply)" by fastforce
  let ?ps = "(ps_command cfg service, reply)"
  show ?thesis
  proof (cases "\<exists>container. reply = Some container \<and> container \<noteq> []")
    case False
    with assms ps have "events' = events @ [?ps]" "r \<noteq> Inr ()"
      by (auto simp: phase start_service_def clock_reading_def container_id_def bind_w_def run_traced return_w_def
          split: option.splits if_splits)
    then show ?thesis by (intro exI [of _ "[?ps]"]) (simp add: phase concerns_def)
  next
    case True
    then obtain container where container: "reply = Some container" "container \<noteq> []" by blast
    obtain w2 out where start: "dh_run h (start_command cfg service) COMMAND_TIMEOUT_SECONDS w1 = (w2, out)" by fastforce
    let ?start = "(start_command cfg service, out)"
    show ?thesis
    proof (cases out)
      case None
      with assms ps container start have "events' = events @ [?ps, ?start]" "r \<noteq> Inr ()"
        by (auto simp: phase start_service_def clock_reading_def container_id_def bind_w_def run_traced split: if_splits)
      then show ?thesis by (intro exI [of _ "[?ps, ?start]"]) (simp add: phase concerns_def)
    next
      case (Some s)
      with assms ps container start obtain deadline n where
          "wait_loop (traced h) cfg container expected service (dh_clock h w) deadline n
             (w2, events @ [?ps, ?start]) = ((w', events'), r)"
        by (simp add: phase start_service_def clock_reading_def container_id_def bind_w_def run_traced wait_ready_def Let_def del: wait_loop.simps)
      from wait_loop_traced [OF this] obtain polls last where
          "events' = (events @ [?ps, ?start]) @ polls @ last" "list_all (unsettled expected container) polls"
          "list_all (\<lambda>event. fst event = inspect_state container) last"
          "r = Inr () \<longrightarrow> last = [(inspect_state container, Some (text_of expected))]"
        by blast
      moreover from this have "list_all (concerns cfg service) (polls @ last)"
        by (fastforce simp: list_all_iff concerns_def unsettled_def)
      ultimately show ?thesis using container(2) Some container(1)
        by (intro exI [of _ "[?ps, ?start] @ polls @ last"])
          (auto simp: phase concerns_def came_up_def)
    qed
  qed
qed

lemma start_phases_traced:
  "each_w (start_service (traced h) cfg) phases (w, events) = ((w', events'), r) \<Longrightarrow>
     \<exists>blocks rest. events' = events @ concat blocks @ rest \<and> length blocks \<le> length phases \<and>
       list_all2 (came_up cfg) (take (length blocks) phases) blocks \<and>
       (if r = Inr () then length blocks = length phases \<and> rest = []
        else length blocks < length phases \<and> list_all (concerns cfg (fst (phases ! length blocks))) rest)"
proof (induction phases arbitrary: w events)
  case (Cons phase phases)
  obtain w1 events1 r1 where first: "start_service (traced h) cfg phase (w, events) = ((w1, events1), r1)" by (metis prod.exhaust)
  from start_service_traced [OF first] obtain block where
      block: "events1 = events @ block" "list_all (concerns cfg (fst phase)) block" "r1 = Inr () \<longrightarrow> came_up cfg phase block"
    by blast
  show ?case
  proof (cases r1)
    case (Inl e)
    with Cons.prems first block show ?thesis by - (rule exI [of _ "[]"], rule exI [of _ block], auto simp: bind_w_def)
  next
    case (Inr u)
    with Cons.prems first have "each_w (start_service (traced h) cfg) phases (w1, events1) = ((w', events'), r)"
      by (simp add: bind_w_def)
    from Cons.IH [OF this] obtain blocks rest where ih:
        "events' = events1 @ concat blocks @ rest" "length blocks \<le> length phases"
        "list_all2 (came_up cfg) (take (length blocks) phases) blocks"
        "if r = Inr () then length blocks = length phases \<and> rest = []
         else length blocks < length phases \<and> list_all (concerns cfg (fst (phases ! length blocks))) rest"
      by blast
    with block Inr show ?thesis by - (rule exI [of _ "block # blocks"], rule exI [of _ rest], auto)
  qed
qed auto

lemma config_traced:
  assumes "check_lifecycle (traced h) lib cfg (w, events) = ((w', events'), r)"
  shows "\<exists>checks. events' = events @ checks \<and> length checks \<le> 1 \<and> list_all (\<lambda>event. fst event = config_command cfg) checks \<and>
    (r = Inr () \<longrightarrow> validate_config lib cfg = Inr () \<and>
       (\<exists>out. checks = [(config_command cfg, Some out)] \<and> validate_rendered lib out = Inr ()))"
proof (cases "validate_config lib cfg")
  case (Inl e)
  with assms show ?thesis by (auto simp: check_lifecycle_def return_w_def)
next
  case (Inr u)
  obtain w1 reply where "dh_run h (config_command cfg) COMMAND_TIMEOUT_SECONDS w = (w1, reply)" by fastforce
  with assms Inr have "events' = events @ [(config_command cfg, reply)] \<and> (r = Inr () \<longrightarrow> (\<exists>out. reply = Some out \<and> validate_rendered lib out = Inr ()))"
    by (auto simp: check_lifecycle_def bind_w_def run_traced return_w_def split: option.splits)
  with Inr show ?thesis by auto
qed

text \<open>The checks of the document know nothing of the loop.\<close>

definition timed_out :: "string \<Rightarrow> lifecycle_error" where
  "timed_out service = LifecycleError (text_of ''service readiness timed out: '' @ text_of service)"

definition wait_error :: "lifecycle_error \<Rightarrow> bool" where
  "wait_error e \<longleftrightarrow> e = OutOfRounds \<or> (\<exists>service. e = timed_out service)"

definition no_wait :: "lifecycle_error + 'a \<Rightarrow> bool" where
  "no_wait r \<longleftrightarrow> (\<forall>e. r = Inl e \<longrightarrow> \<not> wait_error e)"

lemma no_wait_rejected: "take 9 message \<noteq> ''service r'' \<Longrightarrow> no_wait (rejected message)"
  by (auto simp: no_wait_def wait_error_def timed_out_def rejected_def text_of_append [symmetric] text_of_eq_iff
      simp del: text_of_simps)

lemma no_wait_simps: "no_wait (Inr a)" "no_wait (Inl LifecycleOSError)" "no_wait (Inl LifecycleJson)" "no_wait (Inl LifecycleCommand)"
  by (simp_all add: no_wait_def wait_error_def timed_out_def)

lemma no_wait_bind: "no_wait m \<Longrightarrow> (\<And>a. no_wait (f a)) \<Longrightarrow> no_wait (bind_r m f)"
  by (auto simp: no_wait_def bind_r_eq_Inl)

lemma no_wait_map: "(\<And>x. no_wait (f x)) \<Longrightarrow> no_wait (map_r f xs)"
  unfolding no_wait_def by (blast dest: map_r_Inl)

lemmas no_wait_rules = no_wait_simps no_wait_bind no_wait_map

lemma no_wait_file: "no_wait (nonempty_file lib path)"
  by (auto simp: nonempty_file_def file_size_def intro!: no_wait_rules split: option.split)

lemma no_wait_pki: "no_wait (all_pki_sources lib mounts)"
  by (induction mounts) (auto simp: valid_pki_source_def Let_def intro!: no_wait_rules no_wait_file split: json.split)

lemma no_wait_secret: "no_wait (runtime_secret_ok lib s)"
  by (cases s) (auto simp: runtime_secret_ok_def Let_def intro!: no_wait_rules no_wait_file no_wait_rejected)

lemma no_wait_obj:
  "take 9 message \<noteq> ''service r'' \<Longrightarrow> (\<And>d. no_wait (f d)) \<Longrightarrow> no_wait (case v of JObj d \<Rightarrow> f d | _ \<Rightarrow> rejected message)"
  by (cases v) (simp_all add: no_wait_rejected)

lemma no_wait_list:
  "take 9 message \<noteq> ''service r'' \<Longrightarrow> (\<And>d. no_wait (f d)) \<Longrightarrow> no_wait (case v of JList d \<Rightarrow> f d | _ \<Rightarrow> rejected message)"
  by (cases v) (simp_all add: no_wait_rejected)

lemma no_wait_secrets: "no_wait (validate_runtime_secrets lib rendered)"
proof -
  have each: "no_wait ((\<lambda>(_, s). runtime_secret_ok lib s) x)" for x by (cases x) (simp add: no_wait_secret)
  show ?thesis
    unfolding validate_runtime_secrets_def by (intro no_wait_obj no_wait_bind no_wait_map no_wait_simps(1) each) simp_all
qed

lemma no_wait_internal_pki: "no_wait (validate_internal_pki lib rendered)"
proof -
  have "no_wait (if b then rejected ''required internal PKI source is unavailable''
      else bind_r (all_pki_sources lib mounts) (\<lambda>ok. if ok then Inr () else rejected ''required internal PKI source is unavailable''))"
    for b mounts
    by (auto intro!: no_wait_bind no_wait_pki no_wait_rejected no_wait_simps(1))
  then show ?thesis
    unfolding validate_internal_pki_def Let_def by (intro no_wait_obj no_wait_list) simp_all
qed

lemma validate_rendered_is_no_wait: "no_wait (validate_rendered lib out)"
  by (auto simp: validate_rendered_def intro!: no_wait_rules no_wait_secrets no_wait_internal_pki split: option.split)

lemma validate_config_is_no_wait: "no_wait (validate_config lib cfg)"
  unfolding validate_config_def by (simp add: no_wait_simps no_wait_rejected)

lemma validate_rendered_errors [simp]:
  "validate_rendered lib out \<noteq> Inl OutOfRounds" "validate_rendered lib out \<noteq> Inl (timed_out service)"
  using validate_rendered_is_no_wait [of lib out] by (auto simp: no_wait_def wait_error_def)

section \<open>Stopping\<close>

definition went_down :: "lifecycle_config \<Rightarrow> string \<Rightarrow> run_event list \<Rightarrow> bool" where
  "went_down cfg service events \<longleftrightarrow>
     events = [(ps_command cfg service, Some [])] \<or>
     (\<exists>container out. container \<noteq> [] \<and>
        events = [(ps_command cfg service, Some container), (stop_command cfg service, Some out)])"

lemma stop_service_traced:
  assumes "stop_service (traced h) cfg service (w, events) = ((w', events'), Inr ())"
  shows "\<exists>block. events' = events @ block \<and> went_down cfg service block"
proof -
  obtain w1 reply where ps: "dh_run h (ps_command cfg service) COMMAND_TIMEOUT_SECONDS w = (w1, reply)" by fastforce
  obtain w2 out where "dh_run h (stop_command cfg service) (lc_wait_seconds cfg) w1 = (w2, out)" by fastforce
  with assms ps show ?thesis
    by (auto simp: stop_service_def container_id_def bind_w_def run_traced return_w_def clock_reading_def emit_event_def
        went_down_def split: option.splits if_splits)
qed

lemma stop_services_traced:
  "each_w (stop_service (traced h) cfg) services (w, events) = ((w', events'), Inr ()) \<Longrightarrow>
     \<exists>blocks. events' = events @ concat blocks \<and> list_all2 (went_down cfg) services blocks"
proof (induction services arbitrary: w events)
  case (Cons service services)
  then obtain w1 events1 where "stop_service (traced h) cfg service (w, events) = ((w1, events1), Inr ())"
    and rest: "each_w (stop_service (traced h) cfg) services (w1, events1) = ((w', events'), Inr ())"
    by (auto simp: bind_w_Inr)
  from stop_service_traced [OF this(1)] obtain block where "events1 = events @ block" "went_down cfg service block" by blast
  with Cons.IH [OF rest] show ?case by (metis append.assoc concat.simps(2) list_all2_Cons)
qed auto

section \<open>How long a start takes\<close>

lemma poll_bound: "fle (Fin (round64 (1 / 10))) poll \<Longrightarrow> fle (Fin (1 / 20)) poll"
proof -
  have "double64 (of_int 1 / 2 ^ 4)" "double64 1" by (rule double64_dyadic) simp_all
  from round64_bounds [OF this, of "1 / 10"] have "(1 / 20 :: rat) \<le> round64 (1 / 10)" by simp
  then show "fle (Fin (round64 (1 / 10))) poll \<Longrightarrow> fle (Fin (1 / 20)) poll" by (cases poll) auto
qed

lemma validate_config_poll: "validate_config lib cfg = Inr () \<Longrightarrow> fle (Fin (1 / 20)) (lc_poll_seconds cfg)"
  by (rule poll_bound) (auto simp: validate_config_def rejected_def split: if_splits)

text \<open>
  The host in time, with a slack for what is not waiting itself: no step turns the clock back, a command ends
  within its timeout, a sleep takes about as long as it should, and printing takes no more than the slack.
\<close>

locale timely_host =
  fixes h :: "'w docker_host"
    and slack :: rat
  assumes slack: "0 \<le> slack"
    and run_clock: "dh_clock h w \<le> dh_clock h (fst (dh_run h argv timeout w))"
    and run_ends: "0 \<le> timeout \<Longrightarrow> dh_clock h (fst (dh_run h argv timeout w)) \<le> dh_clock h w + of_int timeout + slack"
    and sleep_clock: "1 / 20 \<le> q \<Longrightarrow> dh_clock h w + 1 / 20 \<le> dh_clock h (dh_sleep h (Fin q) w)"
    and sleep_ends: "0 \<le> q \<Longrightarrow> dh_clock h (dh_sleep h (Fin q) w) \<le> dh_clock h w + q + slack"
    and print_clock: "dh_clock h w \<le> dh_clock h (dh_print h out w)"
    and print_ends: "dh_clock h (dh_print h out w) \<le> dh_clock h w + slack"

text \<open>
  A step that takes at most \<open>T\<close> seconds, does not run out of rounds, and reports a service as not ready in time
  only after \<open>D\<close> seconds. The clock stays in the range where a reading is exact to the second.
\<close>

definition paced :: "'w docker_host \<Rightarrow> rat \<Rightarrow> rat \<Rightarrow> ('w, lifecycle_error, 'a) act \<Rightarrow> bool" where
  "paced h D T m \<longleftrightarrow>
     (\<forall>w. 0 \<le> dh_clock h w \<longrightarrow> dh_clock h w + T \<le> 2 ^ 52 \<longrightarrow>
        dh_clock h w \<le> dh_clock h (fst (m w)) \<and> dh_clock h (fst (m w)) \<le> dh_clock h w + T \<and>
        snd (m w) \<noteq> Inl OutOfRounds \<and> (\<forall>s. snd (m w) = Inl (timed_out s) \<longrightarrow> dh_clock h w + D \<le> dh_clock h (fst (m w))))"

lemma paced_bind:
  assumes m: "paced h D T m" and f: "\<And>a. paced h D U (f a)" and U: "0 \<le> U"
  shows "paced h D (T + U) (bind_w m f)"
  unfolding paced_def
proof (intro allI impI)
  fix w
  assume w: "0 \<le> dh_clock h w" "dh_clock h w + (T + U) \<le> 2 ^ 52"
  obtain w1 r where run: "m w = (w1, r)" by fastforce
  have 1: "dh_clock h w \<le> dh_clock h w1" "dh_clock h w1 \<le> dh_clock h w + T" "r \<noteq> Inl OutOfRounds"
      "\<forall>s. r = Inl (timed_out s) \<longrightarrow> dh_clock h w + D \<le> dh_clock h w1"
    using m w U by (auto simp: paced_def run dest!: spec [of _ w])
  show "dh_clock h w \<le> dh_clock h (fst (bind_w m f w)) \<and> dh_clock h (fst (bind_w m f w)) \<le> dh_clock h w + (T + U) \<and>
      snd (bind_w m f w) \<noteq> Inl OutOfRounds \<and>
      (\<forall>s. snd (bind_w m f w) = Inl (timed_out s) \<longrightarrow> dh_clock h w + D \<le> dh_clock h (fst (bind_w m f w)))"
  proof (cases r)
    case (Inl e)
    with run have b: "bind_w m f w = (w1, Inl e)" by (simp add: bind_w_def)
    show ?thesis unfolding b using 1 Inl U by auto
  next
    case (Inr a)
    with run have b: "bind_w m f w = f a w1" by (simp add: bind_w_def)
    have "0 \<le> dh_clock h w1" "dh_clock h w1 + U \<le> 2 ^ 52" using 1 w by linarith+
    then have 2: "dh_clock h w1 \<le> dh_clock h (fst (f a w1)) \<and> dh_clock h (fst (f a w1)) \<le> dh_clock h w1 + U \<and>
        snd (f a w1) \<noteq> Inl OutOfRounds \<and>
        (\<forall>s. snd (f a w1) = Inl (timed_out s) \<longrightarrow> dh_clock h w1 + D \<le> dh_clock h (fst (f a w1)))"
      using f [of a] unfolding paced_def by blast
    show ?thesis unfolding b using 1(1,2) 2 by auto
  qed
qed

lemma paced_return: "r \<noteq> Inl OutOfRounds \<Longrightarrow> (\<And>s. r \<noteq> Inl (timed_out s)) \<Longrightarrow> paced h D 0 (return_w r)"
  by (simp add: paced_def return_w_def)

lemma paced_each:
  "0 \<le> T \<Longrightarrow> (\<And>x. x \<in> set xs \<Longrightarrow> paced h D T (f x)) \<Longrightarrow> paced h D (of_nat (length xs) * T) (each_w f xs)"
proof (induction xs)
  case (Cons x xs)
  then have "paced h D (T + of_nat (length xs) * T) (bind_w (f x) (\<lambda>_. each_w f xs))" by (intro paced_bind) auto
  then show ?case by (simp add: algebra_simps)
qed (simp add: paced_return)

lemma round64_second:
  assumes "0 \<le> x" and "x \<le> 2 ^ 52 + 1000"
  shows "x - 1 \<le> round64 x" and "round64 x \<le> x + 1"
proof -
  have "double64 (of_int \<lfloor>x\<rfloor>)" "double64 (of_int \<lceil>x\<rceil>)"
    using assms by (auto intro!: double64_of_int)
  from round64_bounds [OF this, of x] have "of_int \<lfloor>x\<rfloor> \<le> round64 x" "round64 x \<le> of_int \<lceil>x\<rceil>" by auto
  then show "x - 1 \<le> round64 x" and "round64 x \<le> x + 1" by linarith+
qed

context timely_host
begin

lemma paced_process: "0 \<le> timeout \<Longrightarrow> paced h D (of_int timeout + slack) (run_process h argv timeout)"
  using run_clock [of _ argv timeout] run_ends [of timeout argv]
  by (auto simp: paced_def run_process_def timed_out_def split: prod.split option.split) (metis add.assoc fst_conv)+

text \<open>One wait ends within a command and a sleep after its deadline, and gives up only at the deadline.\<close>

lemma wait_loop_ends:
  assumes poll: "lc_poll_seconds cfg = Fin q" "1 / 20 \<le> q"
  shows "0 < n \<Longrightarrow> 20 * (deadline - dh_clock h w) + 1 < of_nat n \<Longrightarrow>
    wait_loop h cfg container expected service started deadline n w = (w', r) \<Longrightarrow>
    dh_clock h w \<le> dh_clock h w' \<and> dh_clock h w' \<le> max (dh_clock h w) (deadline + (60 + slack) + (q + slack)) \<and>
    r \<noteq> Inl OutOfRounds \<and> (\<forall>s. r = Inl (timed_out s) \<longrightarrow> deadline \<le> dh_clock h w')"
proof (induction n arbitrary: w)
  case (Suc n)
  show ?case
  proof (cases "dh_clock h w < deadline")
    case False
    with Suc.prems(3) show ?thesis by (auto simp: timed_out_def)
  next
    case True
    obtain w1 reply where run: "dh_run h (inspect_state container) COMMAND_TIMEOUT_SECONDS w = (w1, reply)" by fastforce
    have w1: "dh_clock h w \<le> dh_clock h w1" "dh_clock h w1 \<le> deadline + (60 + slack)"
      using run_clock [of w "inspect_state container" COMMAND_TIMEOUT_SECONDS]
        run_ends [of COMMAND_TIMEOUT_SECONDS "inspect_state container" w] run True
      by (simp_all add: COMMAND_TIMEOUT_SECONDS_def)
    have late: "dh_clock h w1 \<le> max (dh_clock h w) (deadline + (60 + slack) + (q + slack))"
      using w1(2) slack poll(2) by (intro order_trans [OF _ max.cobounded2]) linarith
    let ?w2 = "dh_sleep h (lc_poll_seconds cfg) w1"
    have failed: "Inl (LifecycleError (text_of ''service readiness failed: '' @ t)) \<noteq> Inl (timed_out s)" for s t
      by (simp add: timed_out_def)
    consider "r = Inl LifecycleCommand" "w' = w1" | "r = Inr ()" "\<exists>out. w' = dh_print h out w1"
      | t where "r = Inl (LifecycleError (text_of ''service readiness failed: '' @ t))" "w' = w1"
      | "wait_loop h cfg container expected service started deadline n ?w2 = (w', r)"
      using Suc.prems(3) True run
      by (auto simp: bind_w_def run_process_def emit_event_def simp del: text_of_simps split: option.splits if_splits)
    then show ?thesis
    proof cases
      case 1
      with w1 late show ?thesis by (simp add: timed_out_def)
    next
      case 2
      then obtain out where out: "w' = dh_print h out w1" by blast
      have "dh_clock h w \<le> dh_clock h w'" "dh_clock h w' \<le> deadline + (60 + slack) + (q + slack)"
        using w1 print_clock [of w1 out] print_ends [of out w1] slack poll(2) out by (auto intro: order_trans)
      with 2 show ?thesis by (simp add: max.coboundedI2)
    next
      case (3 t)
      with w1 late failed show ?thesis by (simp del: text_of_simps)
    next
      case 4
      have w2: "dh_clock h w1 + 1 / 20 \<le> dh_clock h ?w2" "dh_clock h ?w2 \<le> deadline + (60 + slack) + (q + slack)"
        using sleep_clock [OF poll(2), of w1] sleep_ends [of q w1] poll w1(2) by auto
      have n: "0 < n" "20 * (deadline - dh_clock h ?w2) + 1 < of_nat n"
        using Suc.prems(2) True w1(1) w2(1) by (cases n, simp_all)
      show ?thesis using Suc.IH [OF n 4] w1(1) w2 by auto
    qed
  qed
qed simp

lemma paced_wait:
  assumes valid: "validate_config lib cfg = Inr ()"
  shows "paced h (of_int (lc_wait_seconds cfg) - 1) (of_int (lc_wait_seconds cfg) + 1 + (60 + slack) + (10 + slack))
    (wait_ready h cfg container expected service started)"
  unfolding paced_def
proof (intro allI impI)
  fix w
  assume w: "0 \<le> dh_clock h w"
    "dh_clock h w + (of_int (lc_wait_seconds cfg) + 1 + (60 + slack) + (10 + slack)) \<le> 2 ^ 52"
  from valid have poll: "fle (Fin (1 / 20)) (lc_poll_seconds cfg)" "fle (lc_poll_seconds cfg) (Fin 10)"
      and W: "10 \<le> lc_wait_seconds cfg" "lc_wait_seconds cfg \<le> 600"
    using validate_config_poll [OF valid] by (auto simp: validate_config_def rejected_def split: if_splits)
  then obtain q where q: "lc_poll_seconds cfg = Fin q" "1 / 20 \<le> q" "q \<le> 10" by (cases "lc_poll_seconds cfg") auto
  define deadline where "deadline = round64 (dh_clock h w + of_int (lc_wait_seconds cfg))"
  have "0 \<le> dh_clock h w + of_int (lc_wait_seconds cfg)" using w(1) W(1) by simp
  moreover have "dh_clock h w + of_int (lc_wait_seconds cfg) \<le> 2 ^ 52 + 1000" using w(2) slack by simp
  ultimately have d: "dh_clock h w + of_int (lc_wait_seconds cfg) - 1 \<le> deadline"
      "deadline \<le> dh_clock h w + of_int (lc_wait_seconds cfg) + 1"
    unfolding deadline_def by (rule round64_second)+
  obtain w' r where run: "wait_ready h cfg container expected service started w = (w', r)" by fastforce
  have enough: "20 * x + 1 < of_nat (nat \<lceil>20 * x\<rceil> + 2)" for x :: rat by linarith
  from wait_loop_ends [OF q(1,2) _ enough run [unfolded wait_ready_def Let_def, folded deadline_def]]
  have ends: "dh_clock h w \<le> dh_clock h w'" "dh_clock h w' \<le> max (dh_clock h w) (deadline + (60 + slack) + (q + slack))"
      "r \<noteq> Inl OutOfRounds" "\<forall>s. r = Inl (timed_out s) \<longrightarrow> deadline \<le> dh_clock h w'"
    by auto
  moreover have "max (dh_clock h w) (deadline + (60 + slack) + (q + slack)) \<le>
      dh_clock h w + (of_int (lc_wait_seconds cfg) + 1 + (60 + slack) + (10 + slack))"
    using d(2) q slack W(1) by (intro max.boundedI) simp_all
  ultimately show "dh_clock h w \<le> dh_clock h (fst (wait_ready h cfg container expected service started w)) \<and>
      dh_clock h (fst (wait_ready h cfg container expected service started w))
        \<le> dh_clock h w + (of_int (lc_wait_seconds cfg) + 1 + (60 + slack) + (10 + slack)) \<and>
      snd (wait_ready h cfg container expected service started w) \<noteq> Inl OutOfRounds \<and>
      (\<forall>s. snd (wait_ready h cfg container expected service started w) = Inl (timed_out s) \<longrightarrow>
         dh_clock h w + (of_int (lc_wait_seconds cfg) - 1)
           \<le> dh_clock h (fst (wait_ready h cfg container expected service started w)))"
    using d(1) by (force simp: run)
qed

end

text \<open>
  What a start takes at most: the rendering, and for each of the ten services two commands and a wait, which
  ends within a command and a sleep of its deadline.
\<close>

definition start_budget :: "lifecycle_config \<Rightarrow> rat \<Rightarrow> rat" where
  "start_budget cfg slack =
     (60 + slack) + 10 * ((60 + slack) + (60 + slack) + (of_int (lc_wait_seconds cfg) + 1 + (60 + slack) + (10 + slack)))"

lemma absent_is_no_timeout:
  "LifecycleError (text_of (if b then ''stateful'' else ''managed'') @ text_of '' service is absent: '' @ t) \<noteq> timed_out s"
  by (simp add: timed_out_def)

context timely_host
begin

lemma paced_start:
  assumes valid: "validate_config lib cfg = Inr ()"
  shows "paced h (of_int (lc_wait_seconds cfg) - 1)
    ((60 + slack) + (60 + slack) + (of_int (lc_wait_seconds cfg) + 1 + (60 + slack) + (10 + slack)))
    (start_service h cfg phase)"
proof -
  let ?D = "of_int (lc_wait_seconds cfg) - 1 :: rat" and ?U = "of_int (lc_wait_seconds cfg) + 1 + (60 + slack) + (10 + slack)"
  have W: "10 \<le> lc_wait_seconds cfg" using valid by (auto simp: validate_config_def rejected_def split: if_splits)
  have U: "0 \<le> ?U" using W slack by simp
  have command: "paced h ?D (60 + slack) (run_process h argv COMMAND_TIMEOUT_SECONDS)" for argv
    using paced_process [of COMMAND_TIMEOUT_SECONDS ?D argv] by (simp add: COMMAND_TIMEOUT_SECONDS_def)
  obtain service expected where phase: "phase = (service, expected)" by fastforce
  have started: "paced h ?D 0 (clock_reading h)" by (simp add: paced_def clock_reading_def)
  have absent: "paced h ?D ((60 + slack) + ?U) (return_w (Inl (LifecycleError
      (text_of (if b then ''stateful'' else ''managed'') @ text_of '' service is absent: '' @ t))))" for b t
    using U slack absent_is_no_timeout [of b t] by (simp add: paced_def return_w_def del: text_of_simps)
  have up: "paced h ?D ((60 + slack) + ?U) (bind_w (run_process h (start_command cfg service) COMMAND_TIMEOUT_SECONDS)
      (\<lambda>_. wait_ready h cfg container expected service started))" for container started
    by (rule paced_bind [OF command paced_wait [OF valid] U])
  have rest: "paced h ?D ((60 + slack) + ?U)
      (if container = []
       then return_w (Inl (LifecycleError (text_of (if service \<in> STATEFUL_SERVICES then ''stateful'' else ''managed'') @
         text_of '' service is absent: '' @ text_of service @ text_of ''; use approved deployment'')))
       else bind_w (run_process h (start_command cfg service) COMMAND_TIMEOUT_SECONDS)
         (\<lambda>_. wait_ready h cfg container expected service started))" for container started
  proof (cases "container = []")
    case True
    show ?thesis unfolding if_P [OF True] by (rule absent)
  next
    case False
    show ?thesis unfolding if_not_P [OF False] by (rule up)
  qed
  have "paced h ?D (0 + ((60 + slack) + ((60 + slack) + ?U))) (start_service h cfg phase)"
    unfolding start_service_def phase Let_def prod.case container_id_def
    by (intro paced_bind [OF started] paced_bind [OF command rest]) (use U slack in simp_all)
  then show ?thesis by (simp add: algebra_simps)
qed

lemma paced_start_all:
  assumes valid: "validate_config lib cfg = Inr ()"
  shows "paced h (of_int (lc_wait_seconds cfg) - 1) (start_budget cfg slack) (start_all h lib cfg)"
proof -
  let ?D = "of_int (lc_wait_seconds cfg) - 1 :: rat"
    and ?S = "(60 + slack) + (60 + slack) + (of_int (lc_wait_seconds cfg) + 1 + (60 + slack) + (10 + slack))"
  have W: "10 \<le> lc_wait_seconds cfg" using valid by (auto simp: validate_config_def rejected_def split: if_splits)
  then have S: "0 \<le> ?S" using slack by simp
  have command: "paced h ?D (60 + slack) (run_process h argv COMMAND_TIMEOUT_SECONDS)" for argv
    using paced_process [of COMMAND_TIMEOUT_SECONDS ?D argv] by (simp add: COMMAND_TIMEOUT_SECONDS_def)
  have "paced h ?D ((60 + slack) + 0) (bind_w (run_process h (config_command cfg) COMMAND_TIMEOUT_SECONDS)
      (\<lambda>out. return_w (validate_rendered lib out)))"
    by (rule paced_bind [OF command paced_return]) (simp_all add: validate_rendered_errors)
  then have check: "paced h ?D (60 + slack) (check_lifecycle h lib cfg)" by (simp add: check_lifecycle_def valid)
  have "paced h ?D (of_nat (length START_PHASES) * ?S) (each_w (start_service h cfg) START_PHASES)"
    by (rule paced_each [OF S paced_start [OF valid]])
  then have "paced h ?D (10 * ?S) (each_w (start_service h cfg) START_PHASES)" by (simp add: START_PHASES_def)
  moreover have "0 \<le> 10 * ?S" using S by simp
  ultimately show ?thesis
    unfolding start_all_def start_budget_def by (intro paced_bind [OF check])
qed

end

section \<open>Properties\<close>

text \<open>
  C16: services come up one after the other, in the order of their dependencies. The commands of a
  start are the rendering of the document and, for some of the first phases, the record of a service
  that came up: its container found, started, observed, and seen in its expected state before
  anything is done for the next. A start that succeeds had its document accepted and brought up all
  ten; one that fails issued after these records only commands for the service it failed at.
\<close>

theorem start_gates_services:
  assumes "start_all (traced h) lib cfg (w, []) = ((w', events), r)"
  shows "\<exists>checks blocks rest. events = checks @ concat blocks @ rest \<and>
    list_all (\<lambda>event. fst event = config_command cfg) checks \<and>
    list_all2 (came_up cfg) (take (length blocks) START_PHASES) blocks \<and>
    (if r = Inr ()
     then length blocks = length START_PHASES \<and> rest = [] \<and>
       (\<exists>out. checks = [(config_command cfg, Some out)] \<and> validate_rendered lib out = Inr ())
     else length blocks < length START_PHASES \<and> list_all (concerns cfg (fst (START_PHASES ! length blocks))) rest)"
proof -
  obtain w1 events1 r1 where check: "check_lifecycle (traced h) lib cfg (w, []) = ((w1, events1), r1)" by (metis prod.exhaust)
  from config_traced [OF check] obtain checks where checks: "events1 = checks"
      "list_all (\<lambda>event. fst event = config_command cfg) checks"
      "r1 = Inr () \<longrightarrow> (\<exists>out. checks = [(config_command cfg, Some out)] \<and> validate_rendered lib out = Inr ())"
    by auto
  show ?thesis
  proof (cases r1)
    case (Inl e)
    with assms check checks show ?thesis
      by - (rule exI [of _ checks], rule exI [of _ "[]"], rule exI [of _ "[]"],
        auto simp: start_all_def bind_w_def START_PHASES_def)
  next
    case (Inr u)
    with assms check have "each_w (start_service (traced h) cfg) START_PHASES (w1, events1) = ((w', events), r)"
      by (simp add: start_all_def bind_w_def)
    from start_phases_traced [OF this] checks Inr show ?thesis by fastforce
  qed
qed


text \<open>
  A stop that succeeds goes through the services in the reverse order of their start, and stops
  exactly those that have a container; no command removes or creates one.
\<close>

theorem stop_in_reverse:
  assumes "stop_all (traced h) lib cfg (w, []) = ((w', events), Inr ())"
  shows "\<exists>blocks. events = concat blocks \<and> list_all2 (went_down cfg) (rev (map fst START_PHASES)) blocks"
proof -
  have "STOP_SERVICES = rev (map fst START_PHASES)" by (simp add: STOP_SERVICES_def rev_map)
  with assms stop_services_traced [of h cfg STOP_SERVICES w "[]" w' events] show ?thesis
    by (auto simp: stop_all_def bind_w_def return_w_def split: sum.splits)
qed

section \<open>A sample host\<close>

text \<open>Its world is the clock; containers have the names of their services and are always ready.\<close>

definition sample_answer :: "pytext list \<Rightarrow> pytext" where
  "sample_answer argv =
     (if length argv = 5 then (if argv ! 4 = text_of ''mediamtx'' then text_of ''running'' else text_of ''healthy'')
      else if argv ! 8 = text_of ''ps'' then argv ! 10 else [])"

definition docker_sample :: "rat docker_host" where
  "docker_sample =
     \<lparr>dh_run = (\<lambda>argv _ w. (w, Some (sample_answer argv))),
      dh_sleep = (\<lambda>seconds w. case seconds of Fin q \<Rightarrow> w + max 0 q | _ \<Rightarrow> w + 1), dh_clock = (\<lambda>w. w), dh_print = (\<lambda>_ w. w)\<rparr>"

text \<open>A world in which nothing but sleeping takes time.\<close>

interpretation sample_clock: timely_host docker_sample 0
  by unfold_locales (auto simp: docker_sample_def split: pyfloat.split)

definition sample_files :: file_lib where
  "sample_files =
     \<lparr>fl_is_file = (\<lambda>_. True), fl_is_dir = (\<lambda>_. True), fl_size = (\<lambda>_. Some 1),
      fl_json_loads = (\<lambda>_. Some (JObj
        [(text_of ''secrets'', JObj [(text_of ''s'', JObj [(text_of ''file'', JStr (text_of ''/s''))])]),
         (text_of ''services'', JObj [(text_of ''mqtt'', JObj [(text_of ''volumes'',
            JList [JObj [(text_of ''target'', JStr (text_of ''/run/secrets/gcs-pki'')), (text_of ''source'', JStr (text_of ''/p''))]])])])])),
      fl_str_of = (\<lambda>_. [])\<rparr>"

definition sample_config :: lifecycle_config where
  "sample_config =
     \<lparr>lc_compose_file = text_of ''/c'', lc_env_file = text_of ''/e'', lc_project_name = text_of ''gcs-saker-m2-production'',
      lc_deployment_target = text_of ''server01-production'', lc_wait_seconds = 10, lc_poll_seconds = Fin 2\<rparr>"

lemma sample_config_ok: "validate_config sample_files sample_config = Inr ()"
proof -
  have "double64 (of_int 1 / 2 ^ 4)" "double64 1" by (rule double64_dyadic) simp_all
  from round64_bounds [OF this, of "1 / 10"] have "round64 (1 / 10) \<le> 2" by simp
  then show ?thesis by (simp add: validate_config_def sample_config_def sample_files_def is_absolute_def del: text_of_simps) simp
qed

lemma sample_rendered_ok: "validate_rendered sample_files out = Inr ()"
  by (simp add: validate_rendered_def validate_runtime_secrets_def validate_internal_pki_def sample_files_def json_get_def dict_get_def
      runtime_secret_ok_def is_pki_mount_def valid_pki_source_def text_get_def path_of_def is_absolute_def nonempty_file_def
      file_size_def starts_with_def Let_def bind_r_def)

lemma sample_check: "check_lifecycle (traced docker_sample) sample_files sample_config (w, es) =
    ((w, es @ [(config_command sample_config, Some [])]), Inr ())"
proof -
  have "sample_answer (config_command sample_config) = []" by (simp add: sample_answer_def config_command_def compose_def)
  then show ?thesis
    by (simp add: check_lifecycle_def sample_config_ok sample_rendered_ok bind_w_def run_traced return_w_def docker_sample_def)
qed

definition sample_block :: "string \<times> string \<Rightarrow> run_event list" where
  "sample_block phase =
     [(ps_command sample_config (fst phase), Some (text_of (fst phase))), (start_command sample_config (fst phase), Some []),
      (inspect_state (text_of (fst phase)), Some (text_of (snd phase)))]"

lemma sample_answers:
  "sample_answer (ps_command sample_config service) = text_of service"
  "sample_answer (start_command sample_config service) = []"
  "sample_answer (stop_command sample_config service) = []"
  "sample_answer (inspect_state container) = (if container = text_of ''mediamtx'' then text_of ''running'' else text_of ''healthy'')"
  by (simp_all add: sample_answer_def ps_command_def start_command_def stop_command_def inspect_state_def compose_def)

lemma sample_parts:
  "dh_run docker_sample argv timeout w = (w, Some (sample_answer argv))" "dh_clock docker_sample w = w" "dh_print docker_sample out w = w"
  "lc_wait_seconds sample_config = 10"
  by (simp_all add: docker_sample_def sample_config_def)

lemma sample_start_service:
  assumes "phase \<in> set START_PHASES"
  shows "start_service (traced docker_sample) sample_config phase (0, es) = ((0, es @ sample_block phase), Inr ())"
proof -
  obtain service expected where phase: "phase = (service, expected)" by fastforce
  have names: "text_of service \<noteq> []" "sample_answer (inspect_state (text_of service)) = text_of expected"
    using assms by (auto simp: phase START_PHASES_def sample_answers text_of_eq_iff simp del: text_of_simps) (simp_all)
  have "double64 (of_int 10)" by (rule double64_of_int) simp
  then have "(0 :: rat) < round64 10" by simp
  with names(2) have "wait_loop (traced docker_sample) sample_config (text_of service) expected service 0 (round64 10) (Suc n) (0, es) =
      ((0, es @ [(inspect_state (text_of service), Some (text_of expected))]), Inr ())" for n es
    by (simp add: bind_w_def run_traced emit_event_def sample_parts)
  with names(1) show ?thesis
    by (simp add: phase start_service_def sample_block_def bind_w_def clock_reading_def container_id_def run_traced
        wait_ready_def sample_parts sample_answers Let_def del: wait_loop.simps)
qed

lemma sample_start_phases:
  "set phases \<subseteq> set START_PHASES \<Longrightarrow>
     each_w (start_service (traced docker_sample) sample_config) phases (0, es) = ((0, es @ concat (map sample_block phases)), Inr ())"
  by (induction phases arbitrary: es) (simp_all add: bind_w_def sample_start_service return_w_def)

lemma sample_start: "start_all (traced docker_sample) sample_files sample_config (0, []) =
    ((0, (config_command sample_config, Some []) # concat (map sample_block START_PHASES)), Inr ())"
  by (simp add: start_all_def bind_w_def sample_check sample_start_phases)

theorem start_gates_services_witness:
  "\<exists>checks blocks rest.
    (config_command sample_config, Some []) # concat (map sample_block START_PHASES) = checks @ concat blocks @ rest \<and>
    list_all2 (came_up sample_config) (take (length blocks) START_PHASES) blocks \<and>
    length blocks = length START_PHASES \<and> rest = []"
  using start_gates_services [OF sample_start] by auto


lemma sample_stop_services:
  "each_w (stop_service (traced docker_sample) sample_config) services (0, es) =
     ((0, es @ concat (map (\<lambda>s. (ps_command sample_config s, Some (text_of s)) #
        (if s = [] then [] else [(stop_command sample_config s, Some [])])) services)), Inr ())"
  by (induction services arbitrary: es)
    (auto simp: bind_w_def stop_service_def container_id_def clock_reading_def run_traced emit_event_def docker_sample_def
      sample_answers return_w_def text_of_def)

theorem stop_in_reverse_witness:
  "\<exists>events blocks. snd (fst (stop_all (traced docker_sample) sample_files sample_config (0, []))) = events \<and>
     events = concat blocks \<and> list_all2 (went_down sample_config) (rev (map fst START_PHASES)) blocks"
proof -
  obtain events where "stop_all (traced docker_sample) sample_files sample_config (0, []) = ((0, events), Inr ())"
    by (simp add: stop_all_def bind_w_def sample_config_ok return_w_def sample_stop_services)
  with stop_in_reverse [OF this] show ?thesis by simp
qed

end
