(* ===== verification/Secret_Files.thy ===== *)
theory Secret_Files
  imports Ops_Base World
begin

text \<open>
  The runtime secrets of a server, one file each: \<open>scripts/ops/materialize_secret_bundle.py\<close>, which
  writes them from a decrypted bundle, and \<open>enroll_legacy_runtime_secrets.py\<close>, which takes them over
  from environment files. The directory is the world; every operation on it may fail. The JSON
  reader, the Unicode tables, random texts and the order of Python's sets are arguments.
\<close>

section \<open>The allowlists and the bundle\<close>

datatype secret_file_error = SecretError string | SecretValueError | SecretOSError

record secret_lib =
  sl_alnum :: "nat \<Rightarrow> bool"
  sl_upper :: "pytext \<Rightarrow> pytext"
  sl_json_loads :: "pytext \<Rightarrow> json option"
  sl_set_order :: "pytext list \<Rightarrow> pytext list"

definition BUNDLE_SCHEMA_VERSION :: pytext where
  "BUNDLE_SCHEMA_VERSION = text_of ''gcs-saker.encrypted-secret-bundle.v1''"

definition MAX_SECRET_BYTES :: nat where
  "MAX_SECRET_BYTES = 16384"

text \<open>\<open>name.replace("_", "").isalnum()\<close> and \<open>name.upper() == name\<close>.\<close>

definition secret_name :: "secret_lib \<Rightarrow> pytext \<Rightarrow> bool" where
  "secret_name lib name \<longleftrightarrow>
     (let letters = filter (\<lambda>c. c \<noteq> 95) name in
      letters \<noteq> [] \<and> list_all (\<lambda>c. if c < 128 then ascii_alnum c else sl_alnum lib c) letters \<and>
      upper_text (sl_upper lib) name = name)"

definition load_names :: "secret_lib \<Rightarrow> bytes option \<Rightarrow> secret_file_error + pytext list" where
  "load_names lib content =
     (case content of
        None \<Rightarrow> Inl SecretOSError
      | Some bs \<Rightarrow>
          (case read_text bs of
             None \<Rightarrow> Inl SecretValueError
           | Some t \<Rightarrow>
               let names = remdups (filter (\<lambda>l. l \<noteq> []) (map py_strip (py_splitlines t))) in
               if names = [] \<or> \<not> list_all (secret_name lib) names
               then Inl (SecretError ''secret allowlist is invalid'') else Inr names))"

text \<open>The document on the standard input, \<open>None\<close> when it is no JSON.\<close>

definition load_bundle :: "json option \<Rightarrow> secret_file_error + json_dict" where
  "load_bundle document =
     (case document of
        None \<Rightarrow> Inl SecretValueError
      | Some (JObj d) \<Rightarrow>
          (case json_get d ''secrets'' of
             JObj secrets \<Rightarrow>
               if json_get d ''schemaVersion'' \<noteq> JStr BUNDLE_SCHEMA_VERSION
               then Inl (SecretError ''secret bundle schema is invalid'') else Inr secrets
           | _ \<Rightarrow> Inl (SecretError ''secret bundle schema is invalid''))
      | Some _ \<Rightarrow> Inl (SecretError ''secret bundle schema is invalid''))"

definition encode_secret :: "pytext \<Rightarrow> secret_file_error + bytes" where
  "encode_secret val = (case utf8_encode val of Inl _ \<Rightarrow> Inl SecretValueError | Inr bs \<Rightarrow> Inr bs)"

definition validate_secret :: "pytext \<times> json \<Rightarrow> secret_file_error + (pytext \<times> pytext)" where
  "validate_secret item =
     (case item of
        (name, JStr val) \<Rightarrow>
          if val = [] then Inl (SecretError ''secret value is invalid'')
          else bind_r (encode_secret val) (\<lambda>bs.
            if MAX_SECRET_BYTES < length bs then Inl (SecretError ''secret value is invalid'') else Inr (name, val))
      | _ \<Rightarrow> Inl (SecretError ''secret value is invalid''))"

definition validate_secrets :: "json_dict \<Rightarrow> pytext list \<Rightarrow> pytext list \<Rightarrow> secret_file_error + (pytext, pytext) dict" where
  "validate_secrets secrets required optional =
     (let names = dict_keys secrets in
      if \<not> list_all (\<lambda>n. n \<in> set names) required \<or> \<not> list_all (\<lambda>n. n \<in> set required \<or> n \<in> set optional) names
      then Inl (SecretError ''secret bundle keys do not match the allowlist'')
      else map_r validate_secret secrets)"

record output_view =
  ov_absolute :: bool
  ov_is_dir :: bool
  ov_is_symlink :: bool
  ov_mode :: nat
  ov_uid :: int

text \<open>The mode bits are the lowest twelve; the lowest six of them are those of group and others.\<close>

definition validate_output_directory :: "int \<Rightarrow> output_view \<Rightarrow> secret_file_error + unit" where
  "validate_output_directory euid v =
     (if \<not> ov_absolute v \<or> \<not> ov_is_dir v \<or> ov_is_symlink v
      then Inl (SecretError ''output directory must be an existing absolute directory'')
      else if ov_mode v mod 64 \<noteq> 0 \<or> ov_uid v \<noteq> euid
      then Inl (SecretError ''output directory must be owner-only'')
      else Inr ())"

section \<open>Writing one secret\<close>

text \<open>The group is missing where it is the one of the process.\<close>

record runtime_file =
  rf_content :: bytes
  rf_mode :: nat
  rf_gid :: "int option"

record directory =
  ds_files :: "pytext \<Rightarrow> runtime_file option"
  ds_step :: nat

text \<open>Which of the operations on the directory fail, and the random part of temporary names.\<close>

record secret_host =
  sh_fails :: "nat \<Rightarrow> bool"
  sh_suffix :: "directory \<Rightarrow> pytext"

definition fs_op ::
    "secret_host \<Rightarrow> ((pytext \<Rightarrow> runtime_file option) \<Rightarrow> pytext \<Rightarrow> runtime_file option) \<Rightarrow> (directory, secret_file_error, unit) act" where
  "fs_op h f d =
     (if sh_fails h (ds_step d) then (d\<lparr>ds_step := ds_step d + 1\<rparr>, Inl SecretOSError)
      else (d\<lparr>ds_files := f (ds_files d), ds_step := ds_step d + 1\<rparr>, Inr ()))"

text \<open>\<open>mkstemp\<close> creates a file that does not exist, or raises.\<close>

definition make_temporary :: "secret_host \<Rightarrow> pytext \<Rightarrow> (directory, secret_file_error, pytext) act" where
  "make_temporary h name d =
     (let temporary = [46] @ name @ [46] @ sh_suffix h d in
      if ds_files d temporary \<noteq> None then (d, Inl SecretOSError)
      else bind_w (fs_op h (\<lambda>files. files(temporary \<mapsto> \<lparr>rf_content = [], rf_mode = 384, rf_gid = None\<rparr>)))
             (\<lambda>_. return_w (Inr temporary)) d)"

definition change_file :: "pytext \<Rightarrow> (runtime_file \<Rightarrow> runtime_file) \<Rightarrow> (pytext \<Rightarrow> runtime_file option) \<Rightarrow> pytext \<Rightarrow> runtime_file option" where
  "change_file name f files = files(name := map_option f (files name))"

definition unlink_temporary :: "secret_host \<Rightarrow> pytext \<Rightarrow> (directory, secret_file_error, unit) act" where
  "unlink_temporary h temporary d =
     (if ds_files d temporary = None then (d, Inr ()) else fs_op h (\<lambda>files. files(temporary := None)) d)"

definition write_secret :: "secret_host \<Rightarrow> int option \<Rightarrow> pytext \<times> pytext \<Rightarrow> (directory, secret_file_error, unit) act" where
  "write_secret h runtime_gid item =
     (let (name, val) = item in
      bind_w (make_temporary h name) (\<lambda>temporary.
      finally_w
        (bind_w (if runtime_gid = None then return_w (Inr ()) else fs_op h (change_file temporary (rf_gid_update (\<lambda>_. runtime_gid)))) (\<lambda>_.
         bind_w (fs_op h (change_file temporary (rf_mode_update (\<lambda>_. if runtime_gid \<noteq> None then 288 else 384)))) (\<lambda>_.
         bind_w (return_w (encode_secret val)) (\<lambda>bs.
         bind_w (fs_op h (change_file temporary (rf_content_update (\<lambda>_. bs)))) (\<lambda>_.
           fs_op h (\<lambda>files. files(name := files temporary, temporary := None)))))))
        (unlink_temporary h temporary)))"

section \<open>The bundle becomes files\<close>

definition unlink_file :: "secret_host \<Rightarrow> pytext \<Rightarrow> (directory, secret_file_error, unit) act" where
  "unlink_file h name = fs_op h (\<lambda>files. files(name := None))"

record materialize_args =
  ma_allowlist :: "bytes option"
  ma_optional_allowlist :: "bytes option"
  ma_output :: output_view
  ma_euid :: int
  ma_runtime_gid :: "int option"

definition materialize ::
    "secret_host \<Rightarrow> secret_lib \<Rightarrow> materialize_args \<Rightarrow> json option \<Rightarrow> (directory, secret_file_error, (pytext, pytext) dict) act" where
  "materialize h lib args document =
     bind_w (return_w (validate_output_directory (ma_euid args) (ma_output args))) (\<lambda>_.
     bind_w (return_w (load_names lib (ma_optional_allowlist args))) (\<lambda>optional.
     bind_w (return_w (bind_r (load_bundle document) (\<lambda>bundle.
               bind_r (load_names lib (ma_allowlist args)) (\<lambda>required. validate_secrets bundle required optional)))) (\<lambda>secrets.
     bind_w (each_w (write_secret h (ma_runtime_gid args)) secrets) (\<lambda>_.
     bind_w (each_w (unlink_file h)
              (sl_set_order lib (filter (\<lambda>n. n \<notin> set (dict_keys secrets)) optional))) (\<lambda>_.
       return_w (Inr secrets))))))"

definition materialize_main :: "secret_host \<Rightarrow> secret_lib \<Rightarrow> materialize_args \<Rightarrow> json option \<Rightarrow> directory \<Rightarrow> directory \<times> int" where
  "materialize_main h lib args document d =
     (case materialize h lib args document d of (d', Inr _) \<Rightarrow> (d', 0) | (d', Inl _) \<Rightarrow> (d', 1))"

section \<open>Enrolment from environment files\<close>

definition DISABLED_SIGNUP_POLICY :: pytext where
  "DISABLED_SIGNUP_POLICY = text_of ''disabled''"

definition quoted_by :: "nat \<Rightarrow> pytext \<Rightarrow> bool" where
  "quoted_by q s \<longleftrightarrow> 2 \<le> length s \<and> hd s = q \<and> last s = q"

definition parse_env_value :: "secret_lib \<Rightarrow> pytext \<Rightarrow> secret_file_error + pytext" where
  "parse_env_value lib raw_value =
     (let val = py_strip raw_value in
      if quoted_by 39 val then Inr (butlast (tl val))
      else if quoted_by 34 val
      then (case sl_json_loads lib val of
              None \<Rightarrow> Inl SecretValueError
            | Some (JStr parsed) \<Rightarrow> Inr parsed
            | Some _ \<Rightarrow> Inl (SecretError ''quoted environment value is invalid''))
      else Inr val)"

definition strip_left :: "pytext \<Rightarrow> pytext" where
  "strip_left s = dropWhile py_space s"

definition env_line :: "secret_lib \<Rightarrow> pytext \<Rightarrow> (pytext, pytext) dict \<Rightarrow> secret_file_error + (pytext, pytext) dict" where
  "env_line lib raw_line values =
     (let stripped = py_strip raw_line in
      if stripped = [] \<or> starts_with [35] stripped then Inr values
      else
        let line = (if starts_with (text_of ''export '') stripped then strip_left (drop 7 stripped) else stripped) in
        if 61 \<notin> set line then Inl (SecretError ''legacy environment entry is invalid'')
        else
          let (name, raw_value) = split_first 61 line; normalized_name = py_strip name in
          if normalized_name = [] \<or> normalized_name \<in> set (dict_keys values)
          then Inl (SecretError ''legacy environment key is invalid or duplicated'')
          else bind_r (parse_env_value lib raw_value) (\<lambda>v. Inr (dict_set normalized_name v values)))"

record env_view =
  ev_absolute :: bool
  ev_is_file :: bool
  ev_is_symlink :: bool
  ev_content :: "bytes option"

definition read_legacy_environment :: "secret_lib \<Rightarrow> env_view \<Rightarrow> secret_file_error + (pytext, pytext) dict" where
  "read_legacy_environment lib v =
     (if \<not> ev_absolute v \<or> \<not> ev_is_file v \<or> ev_is_symlink v
      then Inl (SecretError ''legacy environment source is invalid'')
      else
        (case ev_content v of
           None \<Rightarrow> Inl SecretOSError
         | Some bs \<Rightarrow> (case read_text bs of None \<Rightarrow> Inl SecretValueError | Some t \<Rightarrow> fold_r (env_line lib) (py_splitlines t) [])))"

text \<open>\<open>combined.setdefault(name, value)\<close> for the items of a supplement.\<close>

definition add_supplement :: "secret_lib \<Rightarrow> env_view \<Rightarrow> (pytext, pytext) dict \<Rightarrow> secret_file_error + (pytext, pytext) dict" where
  "add_supplement lib supplement combined =
     bind_r (read_legacy_environment lib supplement) (\<lambda>items.
       Inr (fold (\<lambda>(name, v) c. if name \<in> set (dict_keys c) then c else dict_set name v c) items combined))"

definition collect_secrets :: "secret_lib \<Rightarrow> env_view \<Rightarrow> env_view list \<Rightarrow> pytext list \<Rightarrow> secret_file_error + (pytext, pytext) dict" where
  "collect_secrets lib primary supplements allowed =
     bind_r (read_legacy_environment lib primary) (\<lambda>combined.
     bind_r (fold_r (add_supplement lib) supplements combined) (\<lambda>combined.
       Inr (filter (\<lambda>(name, _). name \<in> set allowed) combined)))"

definition ensure_empty_target :: "directory \<Rightarrow> pytext list \<Rightarrow> secret_file_error + unit" where
  "ensure_empty_target d allowed =
     (if list_ex (\<lambda>n. ds_files d n \<noteq> None) allowed
      then Inl (SecretError ''runtime secret target already contains managed files'') else Inr ())"

record enroll_args =
  en_primary :: env_view
  en_supplements :: "env_view list"
  en_allowlist :: "bytes option"
  en_optional_allowlist :: "bytes option"
  en_output :: output_view
  en_euid :: int
  en_runtime_gid :: int
  en_disable_signup :: bool
  en_generate_password :: bool

definition added_secrets :: "enroll_args \<Rightarrow> pytext \<Rightarrow> (pytext, pytext) dict \<Rightarrow> (pytext, pytext) dict" where
  "added_secrets args generated enrolled =
     (let enrolled = (if en_disable_signup args
                      then dict_set (text_of ''AUTH_POLICY_SIGNUP_INVITES'') DISABLED_SIGNUP_POLICY enrolled else enrolled) in
      if en_generate_password args \<and> text_of ''MEDIAMTX_API_PASSWORD'' \<notin> set (dict_keys enrolled)
      then dict_set (text_of ''MEDIAMTX_API_PASSWORD'') generated enrolled else enrolled)"

text \<open>\<open>generated\<close> is what \<open>secrets.token_urlsafe\<close> returns.\<close>

definition enroll ::
    "secret_host \<Rightarrow> secret_lib \<Rightarrow> enroll_args \<Rightarrow> pytext \<Rightarrow> (directory, secret_file_error, (pytext, pytext) dict) act" where
  "enroll h lib args generated =
     bind_w (return_w (load_names lib (en_allowlist args))) (\<lambda>required.
     bind_w (return_w (load_names lib (en_optional_allowlist args))) (\<lambda>optional.
     bind_w (return_w (validate_output_directory (en_euid args) (en_output args))) (\<lambda>_.
     bind_w (\<lambda>d. (d, ensure_empty_target d (required @ optional))) (\<lambda>_.
     bind_w (return_w (bind_r (collect_secrets lib (en_primary args) (en_supplements args) (required @ optional)) (\<lambda>enrolled.
               validate_secrets (map (\<lambda>(n, v). (n, JStr v)) (added_secrets args generated enrolled)) required optional))) (\<lambda>validated.
     bind_w (each_w (write_secret h (Some (en_runtime_gid args))) validated) (\<lambda>_.
       return_w (Inr validated)))))))"

definition enroll_main :: "secret_host \<Rightarrow> secret_lib \<Rightarrow> enroll_args \<Rightarrow> pytext \<Rightarrow> directory \<Rightarrow> directory \<times> int" where
  "enroll_main h lib args generated d =
     (case enroll h lib args generated d of (d', Inr _) \<Rightarrow> (d', 0) | (d', Inl _) \<Rightarrow> (d', 1))"

section \<open>What a write leaves\<close>

text \<open>The file of a secret, with nothing missing.\<close>

definition secret_file_of :: "int option \<Rightarrow> pytext \<Rightarrow> runtime_file option" where
  "secret_file_of gid val =
     (case utf8_encode val of
        Inl _ \<Rightarrow> None
      | Inr bs \<Rightarrow> Some \<lparr>rf_content = bs, rf_mode = (if gid \<noteq> None then 288 else 384), rf_gid = gid\<rparr>)"

lemma fs_op_cases:
  assumes "fs_op h f d = (d', r)"
  shows "(r = Inr () \<and> ds_files d' = f (ds_files d)) \<or> (r = Inl SecretOSError \<and> ds_files d' = ds_files d)"
  using assms by (auto simp: fs_op_def split: if_splits)

lemma unlink_cases:
  assumes "unlink_temporary h t d = (d', r)"
  shows "(r = Inr () \<and> ds_files d' = (ds_files d)(t := None)) \<or> (r = Inl SecretOSError \<and> ds_files d' = ds_files d)"
  using assms by (auto simp: unlink_temporary_def fs_op_def split: if_splits)

text \<open>The steps before the temporary file takes the secret's name change no other file.\<close>

definition prepare_secret :: "secret_host \<Rightarrow> int option \<Rightarrow> pytext \<Rightarrow> pytext \<Rightarrow> (directory, secret_file_error, unit) act" where
  "prepare_secret h gid temporary val =
     bind_w (if gid = None then return_w (Inr ()) else fs_op h (change_file temporary (rf_gid_update (\<lambda>_. gid)))) (\<lambda>_.
     bind_w (fs_op h (change_file temporary (rf_mode_update (\<lambda>_. if gid \<noteq> None then 288 else 384)))) (\<lambda>_.
     bind_w (return_w (encode_secret val)) (\<lambda>bs.
       fs_op h (change_file temporary (rf_content_update (\<lambda>_. bs))))))"

lemma write_secret_prepare:
  "write_secret h gid (name, val) =
     bind_w (make_temporary h name) (\<lambda>temporary.
       finally_w (bind_w (prepare_secret h gid temporary val) (\<lambda>_. fs_op h (\<lambda>files. files(name := files temporary, temporary := None))))
         (unlink_temporary h temporary))"
  by (simp add: write_secret_def prepare_secret_def bind_w_assoc)

lemma make_temporary_eq:
  "make_temporary h name d =
     (let t = [46] @ name @ [46] @ sh_suffix h d in
      if ds_files d t \<noteq> None then (d, Inl SecretOSError)
      else if sh_fails h (ds_step d) then (d\<lparr>ds_step := ds_step d + 1\<rparr>, Inl SecretOSError)
      else (d\<lparr>ds_files := (ds_files d)(t \<mapsto> \<lparr>rf_content = [], rf_mode = 384, rf_gid = None\<rparr>), ds_step := ds_step d + 1\<rparr>, Inr t))"
  by (simp add: make_temporary_def fs_op_def bind_w_def return_w_def Let_def)

lemma prepare_secret_files:
  assumes "prepare_secret h gid t val d = (d', r)" and "ds_files d t = Some \<lparr>rf_content = c, rf_mode = m, rf_gid = None\<rparr>"
  shows "(\<forall>n. n \<noteq> t \<longrightarrow> ds_files d' n = ds_files d n) \<and>
    (r = Inr () \<longrightarrow> secret_file_of gid val \<noteq> None \<and> ds_files d' t = secret_file_of gid val)"
  using assms
  by (cases "utf8_encode val")
    (auto simp: prepare_secret_def bind_w_def return_w_def encode_secret_def fs_op_def change_file_def secret_file_of_def
      split: if_splits)

text \<open>
  A write that succeeds puts the whole secret under its name and nothing else; one that fails leaves
  every file as it was, or only the temporary one behind.
\<close>

lemma write_secret_files:
  assumes "write_secret h gid (name, val) d = (d', r)" and "take 1 name \<noteq> [46]"
  shows "if r = Inr () then secret_file_of gid val \<noteq> None \<and> ds_files d' = (ds_files d)(name := secret_file_of gid val)
    else \<forall>n. take 1 n \<noteq> [46] \<longrightarrow> ds_files d' n = ds_files d n \<or> n = name \<and> secret_file_of gid val \<noteq> None \<and> ds_files d' n = secret_file_of gid val"
proof -
  let ?t = "[46] @ name @ [46] @ sh_suffix h d"
  have t: "name \<noteq> ?t" "\<And>n. take 1 n \<noteq> [46] \<Longrightarrow> n \<noteq> ?t" using assms(2) by auto
  show ?thesis
  proof (cases "ds_files d ?t \<noteq> None \<or> sh_fails h (ds_step d)")
    case True
    with assms(1) have "ds_files d' = ds_files d" "r = Inl SecretOSError"
      by (auto simp: write_secret_prepare make_temporary_eq bind_w_def Let_def split: if_splits)
    then show ?thesis by simp
  next
    case False
    let ?new = "\<lparr>rf_content = [], rf_mode = 384, rf_gid = None\<rparr>"
    let ?d = "d\<lparr>ds_files := (ds_files d)(?t \<mapsto> ?new), ds_step := ds_step d + 1\<rparr>"
    obtain d1 r1 where prepare: "prepare_secret h gid ?t val ?d = (d1, r1)" by fastforce
    have d1: "\<And>n. n \<noteq> ?t \<Longrightarrow> ds_files d1 n = ds_files d n"
      "r1 = Inr () \<Longrightarrow> secret_file_of gid val \<noteq> None \<and> ds_files d1 ?t = secret_file_of gid val"
      using prepare_secret_files [OF prepare] by auto
    let ?move = "fs_op h (\<lambda>files. files(name := files ?t, ?t := None))"
    have all: "(case bind_w (prepare_secret h gid ?t val) (\<lambda>_. ?move) ?d of (w1, r1) \<Rightarrow>
        (case unlink_temporary h ?t w1 of (w2, Inl e) \<Rightarrow> (w2, Inl e) | (w2, Inr _) \<Rightarrow> (w2, r1))) = (d', r)"
      using assms(1) False by (simp add: write_secret_prepare make_temporary_eq bind_w_step Let_def finally_w_def)
    show ?thesis
    proof (cases r1)
      case (Inl e)
      obtain d2 r2 where "unlink_temporary h ?t d1 = (d2, r2)" by fastforce
      with all prepare Inl have "d' = d2" "r \<noteq> Inr ()" by (auto simp: bind_w_def split: sum.splits)
      with unlink_cases [OF \<open>unlink_temporary h ?t d1 = (d2, r2)\<close>] d1(1) t(2) show ?thesis by auto
    next
      case (Inr u)
      then have secret: "secret_file_of gid val \<noteq> None" "ds_files d1 ?t = secret_file_of gid val" using d1(2) by auto
      obtain d2 r2 where move: "?move d1 = (d2, r2)" by fastforce
      obtain d3 r3 where unlink: "unlink_temporary h ?t d2 = (d3, r3)" by fastforce
      have d': "d' = d3" "r = (case r3 of Inl e \<Rightarrow> Inl e | Inr _ \<Rightarrow> r2)"
        using all prepare Inr move unlink by (auto simp: bind_w_def split: sum.splits)
      from fs_op_cases [OF move] show ?thesis
      proof
        assume moved: "r2 = Inr () \<and> ds_files d2 = (ds_files d1)(name := ds_files d1 ?t, ?t := None)"
        then have gone: "d3 = d2" "r3 = Inr ()" using unlink by (auto simp: unlink_temporary_def)
        have "ds_files d' n = ((ds_files d)(name := secret_file_of gid val)) n" for n
          using moved gone d'(1) secret(2) d1(1) [of n] False t(1) by auto
        with moved gone d' secret(1) show ?thesis by auto
      next
        assume "r2 = Inl SecretOSError \<and> ds_files d2 = ds_files d1"
        with unlink_cases [OF unlink] d' d1(1) t(2) show ?thesis by (auto split: sum.splits)
      qed
    qed
  qed
qed

lemma write_secrets_any:
  "each_w (write_secret h gid) items d = (d', r) \<Longrightarrow> \<forall>x \<in> set items. take 1 (fst x) \<noteq> [46] \<Longrightarrow> take 1 n \<noteq> [46] \<Longrightarrow>
     ds_files d' n = ds_files d n \<or>
     (\<exists>v. (n, v) \<in> set items \<and> secret_file_of gid v \<noteq> None \<and> ds_files d' n = secret_file_of gid v)"
proof (induction items arbitrary: d)
  case (Cons item items)
  obtain name v where item: "item = (name, v)" by fastforce
  obtain d1 r1 where wrote: "write_secret h gid (name, v) d = (d1, r1)" by fastforce
  have first: "ds_files d1 n = ds_files d n \<or> n = name \<and> secret_file_of gid v \<noteq> None \<and> ds_files d1 n = secret_file_of gid v"
    using write_secret_files [OF wrote] Cons.prems(2,3) item by (auto split: if_splits)
  show ?case
  proof (cases r1)
    case (Inl e)
    with Cons.prems(1) wrote item first show ?thesis by (auto simp: bind_w_def)
  next
    case (Inr u)
    with Cons.prems(1) wrote item have "each_w (write_secret h gid) items d1 = (d', r)" by (simp add: bind_w_def)
    with Cons.IH [OF this] Cons.prems(2,3) first item show ?thesis by auto
  qed
qed auto

lemma write_secrets_ok:
  "each_w (write_secret h gid) items d = (d', Inr ()) \<Longrightarrow> \<forall>x \<in> set items. take 1 (fst x) \<noteq> [46] \<Longrightarrow> distinct (map fst items) \<Longrightarrow>
     (\<forall>(n, v) \<in> set items. secret_file_of gid v \<noteq> None) \<and>
     ds_files d' = (\<lambda>n. case map_of items n of Some v \<Rightarrow> secret_file_of gid v | None \<Rightarrow> ds_files d n)"
proof (induction items arbitrary: d)
  case (Cons item items)
  obtain name v where item: "item = (name, v)" by fastforce
  from Cons.prems(1) obtain d1 where wrote: "write_secret h gid (name, v) d = (d1, Inr ())"
    and rest: "each_w (write_secret h gid) items d1 = (d', Inr ())"
    by (auto simp: item bind_w_Inr)
  have "secret_file_of gid v \<noteq> None" "ds_files d1 = (ds_files d)(name := secret_file_of gid v)"
    using write_secret_files [OF wrote] Cons.prems(2) item by auto
  moreover have "map_of items name = None" using Cons.prems(3) by (simp add: item map_of_eq_None_iff)
  moreover have "(\<forall>(n, v) \<in> set items. secret_file_of gid v \<noteq> None) \<and>
      ds_files d' = (\<lambda>n. case map_of items n of Some v \<Rightarrow> secret_file_of gid v | None \<Rightarrow> ds_files d1 n)"
    using Cons.prems(2,3) by (intro Cons.IH [OF rest]) auto
  ultimately show ?case by (auto simp: item fun_eq_iff split: option.split)
qed auto

lemma unlinks_files:
  "each_w (unlink_file h) names d = (d', r) \<Longrightarrow>
     (\<forall>n. ds_files d' n = ds_files d n \<or> n \<in> set names \<and> ds_files d' n = None) \<and>
     (r = Inr () \<longrightarrow> ds_files d' = (\<lambda>n. if n \<in> set names then None else ds_files d n))"
proof (induction names arbitrary: d)
  case (Cons name names)
  obtain d1 r1 where first: "unlink_file h name d = (d1, r1)" by fastforce
  show ?case
  proof (cases r1)
    case (Inl e)
    with Cons.prems first fs_op_cases [OF first [unfolded unlink_file_def]] show ?thesis by (auto simp: bind_w_def)
  next
    case (Inr u)
    with Cons.prems first have "each_w (unlink_file h) names d1 = (d', r)" by (simp add: bind_w_def)
    from Cons.IH [OF this] fs_op_cases [OF first [unfolded unlink_file_def]] Inr show ?thesis
      by (auto simp: fun_eq_iff) (metis (full_types))+
  qed
qed auto

lemma load_names_visible: "load_names lib content = Inr names \<Longrightarrow> n \<in> set names \<Longrightarrow> take 1 n \<noteq> [46]"
proof -
  assume "load_names lib content = Inr names" "n \<in> set names"
  then have "secret_name lib n" by (auto simp: load_names_def Let_def list_all_iff split: option.splits if_splits)
  then show "take 1 n \<noteq> [46]"
    by (cases n) (auto simp: secret_name_def ascii_alnum_def ascii_alpha_def ascii_digit_def Let_def)
qed

lemma validate_secrets_Inr:
  assumes "validate_secrets bdl required optional = Inr secrets"
  shows "bdl = map (\<lambda>(n, v). (n, JStr v)) secrets" and "set required \<subseteq> set (dict_keys secrets)"
    and "set (dict_keys secrets) \<subseteq> set required \<union> set optional"
proof -
  have item: "validate_secret x = Inr y \<Longrightarrow> x = (fst y, JStr (snd y))" for x y
    by (cases x) (auto simp: validate_secret_def bind_r_eq_Inr split: json.splits if_splits)
  have "map_r validate_secret xs = Inr ys \<Longrightarrow> xs = map (\<lambda>(n, v). (n, JStr v)) ys" for xs ys
    by (induction xs arbitrary: ys) (auto simp: bind_r_eq_Inr dest!: item)
  then show b: "bdl = map (\<lambda>(n, v). (n, JStr v)) secrets"
    using assms by (auto simp: validate_secrets_def Let_def split: if_splits)
  have "dict_keys bdl = dict_keys secrets" unfolding b by (simp add: dict_keys_def case_prod_beta comp_def)
  with assms show "set required \<subseteq> set (dict_keys secrets)" "set (dict_keys secrets) \<subseteq> set required \<union> set optional"
    by (auto simp: validate_secrets_def Let_def list_all_iff split: if_splits)
qed

section \<open>Properties\<close>

text \<open>
  a run that reports success leaves exactly the secrets of the bundle. The bundle has every
  required name and no name outside the two lists; each of its secrets is the whole content of a file
  of its name with the mode and group of a runtime secret, each optional name without a secret
  has no file, and all other files of the directory are as they were.
\<close>

theorem materialized_directory:
  assumes "materialize h lib args document d = (d', Inr secrets)" and "distinct (map fst secrets)"
    and "\<And>names. set (sl_set_order lib names) = set names"
  shows "\<exists>required optional. load_names lib (ma_allowlist args) = Inr required \<and>
    load_names lib (ma_optional_allowlist args) = Inr optional \<and>
    load_bundle document = Inr (map (\<lambda>(n, v). (n, JStr v)) secrets) \<and>
    set required \<subseteq> set (dict_keys secrets) \<and> set (dict_keys secrets) \<subseteq> set required \<union> set optional \<and>
    (\<forall>(n, v) \<in> set secrets. secret_file_of (ma_runtime_gid args) v \<noteq> None) \<and>
    ds_files d' = (\<lambda>n. case map_of secrets n of Some v \<Rightarrow> secret_file_of (ma_runtime_gid args) v
      | None \<Rightarrow> if n \<in> set optional then None else ds_files d n)"
proof -
  from assms(1) obtain required optional bdl d1 where loaded: "load_names lib (ma_allowlist args) = Inr required"
      "load_names lib (ma_optional_allowlist args) = Inr optional" "load_bundle document = Inr bdl"
      "validate_secrets bdl required optional = Inr secrets"
    and wrote: "each_w (write_secret h (ma_runtime_gid args)) secrets d = (d1, Inr ())"
    and unlinked: "each_w (unlink_file h) (sl_set_order lib (filter (\<lambda>n. n \<notin> set (dict_keys secrets)) optional)) d1 = (d', Inr ())"
    by (auto simp: materialize_def bind_w_Inr bind_r_eq_Inr)
  note accepted = validate_secrets_Inr [OF loaded(4)]
  have "\<forall>x \<in> set secrets. take 1 (fst x) \<noteq> [46]"
    using accepted(3) load_names_visible [OF loaded(1)] load_names_visible [OF loaded(2)] by (fastforce simp: dict_keys_def)
  from write_secrets_ok [OF wrote this assms(2)] unlinks_files [OF unlinked]
  have "\<forall>(n, v) \<in> set secrets. secret_file_of (ma_runtime_gid args) v \<noteq> None"
    "ds_files d' = (\<lambda>n. case map_of secrets n of Some v \<Rightarrow> secret_file_of (ma_runtime_gid args) v
      | None \<Rightarrow> if n \<in> set optional then None else ds_files d n)"
    by (auto simp: assms(3) fun_eq_iff dict_keys_def split: option.split dest!: map_of_SomeD)
      (metis fst_conv image_eqI map_of_eq_None_iff option.distinct(1))+
  with loaded accepted show ?thesis by blast
qed

text \<open>
  C23: a run that fails on the way never leaves part of a secret. However the run ends, each visible
  file is as before, or the whole file of its secret in an accepted bundle, or it is gone because
  its name is optional and has no secret; so a refused bundle changes nothing.
\<close>

theorem materialize_never_partial:
  assumes "materialize h lib args document d = (d', r)" and "take 1 n \<noteq> [46]"
    and "\<And>names. set (sl_set_order lib names) = set names"
  shows "ds_files d' n = ds_files d n \<or>
    (\<exists>required optional bundle secrets. load_names lib (ma_allowlist args) = Inr required \<and>
      load_names lib (ma_optional_allowlist args) = Inr optional \<and> load_bundle document = Inr bundle \<and>
      validate_secrets bundle required optional = Inr secrets \<and>
      (if n \<in> set (dict_keys secrets)
       then \<exists>v. (n, v) \<in> set secrets \<and> secret_file_of (ma_runtime_gid args) v \<noteq> None \<and>
         ds_files d' n = secret_file_of (ma_runtime_gid args) v
       else n \<in> set optional \<and> ds_files d' n = None))"
proof (cases "\<exists>required optional bundle secrets. load_names lib (ma_allowlist args) = Inr required \<and>
      load_names lib (ma_optional_allowlist args) = Inr optional \<and> load_bundle document = Inr bundle \<and>
      validate_secrets bundle required optional = Inr secrets \<and> validate_output_directory (ma_euid args) (ma_output args) = Inr ()")
  case False
  with assms(1) have "d' = d"
    by (cases "validate_output_directory (ma_euid args) (ma_output args)"; cases "load_names lib (ma_optional_allowlist args)";
      cases "load_bundle document"; cases "load_names lib (ma_allowlist args)")
      (auto simp: materialize_def return_w_def bind_w_def split: sum.splits)
  then show ?thesis by simp
next
  case True
  then obtain required optional bdl secrets where loaded: "load_names lib (ma_allowlist args) = Inr required"
      "load_names lib (ma_optional_allowlist args) = Inr optional" "load_bundle document = Inr bdl"
      "validate_secrets bdl required optional = Inr secrets" "validate_output_directory (ma_euid args) (ma_output args) = Inr ()"
    by blast
  let ?absent = "sl_set_order lib (filter (\<lambda>n. n \<notin> set (dict_keys secrets)) optional)"
  obtain d1 r1 where wrote: "each_w (write_secret h (ma_runtime_gid args)) secrets d = (d1, r1)" by fastforce
  obtain d2 r2 where unlinked: "each_w (unlink_file h) ?absent d1 = (d2, r2)" by fastforce
  have "d' = d1 \<or> d' = d2"
    using assms(1) wrote unlinked loaded by (auto simp: materialize_def bind_w_def return_w_def split: sum.splits)
  moreover have "\<forall>x \<in> set secrets. take 1 (fst x) \<noteq> [46]"
    using validate_secrets_Inr(3) [OF loaded(4)] load_names_visible [OF loaded(1)] load_names_visible [OF loaded(2)]
    by (fastforce simp: dict_keys_def)
  note write_secrets_any [OF wrote this assms(2)]
  moreover have "ds_files d2 n = ds_files d1 n \<or> n \<in> set ?absent \<and> ds_files d2 n = None"
    using unlinks_files [OF unlinked] by blast
  moreover have "set ?absent = {n \<in> set optional. n \<notin> set (dict_keys secrets)}" by (auto simp: assms(3))
  moreover have "(n, v) \<in> set secrets \<Longrightarrow> n \<in> set (dict_keys secrets)" for v by (force simp: dict_keys_def)
  ultimately show ?thesis using loaded by (elim disjE exE conjE) (force split: if_splits)+
qed

section \<open>Enrolment\<close>

lemma env_line_ok: "env_line lib l values = Inr values' \<Longrightarrow> dict_ok values \<Longrightarrow> dict_ok values'"
  by (auto simp: env_line_def Let_def bind_r_eq_Inr split: prod.splits if_splits)

lemma legacy_environment_ok: "read_legacy_environment lib v = Inr values \<Longrightarrow> dict_ok values"
proof -
  have "fold_r (env_line lib) ls d = Inr d' \<Longrightarrow> dict_ok d \<Longrightarrow> dict_ok d'" for ls d d'
    by (induction ls arbitrary: d) (auto simp: bind_r_eq_Inr intro: env_line_ok)
  then show "read_legacy_environment lib v = Inr values \<Longrightarrow> dict_ok values"
    by (auto simp: read_legacy_environment_def split: if_splits option.splits)
qed

lemma add_supplement_ok: "add_supplement lib supplement combined = Inr c \<Longrightarrow> dict_ok combined \<Longrightarrow> dict_ok c"
proof -
  have "dict_ok c \<Longrightarrow> dict_ok (fold (\<lambda>(name, v) c. if name \<in> set (dict_keys c) then c else dict_set name v c) items c)"
    for items :: "(pytext, pytext) dict" and c
    by (induction items arbitrary: c) auto
  then show "add_supplement lib supplement combined = Inr c \<Longrightarrow> dict_ok combined \<Longrightarrow> dict_ok c"
    by (auto simp: add_supplement_def bind_r_eq_Inr)
qed

lemma collect_secrets_ok:
  assumes "collect_secrets lib primary supplements allowed = Inr enrolled"
  shows "dict_ok enrolled"
proof -
  have all: "fold_r (add_supplement lib) vs d = Inr d' \<Longrightarrow> dict_ok d \<Longrightarrow> dict_ok d'" for vs d d'
    by (induction vs arbitrary: d) (auto simp: bind_r_eq_Inr intro: add_supplement_ok)
  from assms obtain primary_items combined where "read_legacy_environment lib primary = Inr primary_items"
      "fold_r (add_supplement lib) supplements primary_items = Inr combined"
      "enrolled = filter (\<lambda>(name, _). name \<in> set allowed) combined"
    by (auto simp: collect_secrets_def bind_r_eq_Inr)
  with legacy_environment_ok all have "dict_ok combined" by blast
  with \<open>enrolled = _\<close> show ?thesis by (auto simp: dict_ok_def dict_keys_def distinct_map_filter)
qed

lemma added_secrets_ok: "dict_ok enrolled \<Longrightarrow> dict_ok (added_secrets args generated enrolled)"
  by (simp add: added_secrets_def Let_def)

text \<open>
  Enrolment never overwrites a secret. A run that succeeds found none of the managed files; it
  adds for each validated secret its whole file, readable by the runtime group only, and leaves all
  other files alone.
\<close>

theorem enroll_creates_only:
  assumes "enroll h lib args generated d = (d', Inr validated)"
  shows "(\<forall>n \<in> set (dict_keys validated). ds_files d n = None) \<and>
    (\<forall>(n, v) \<in> set validated. secret_file_of (Some (en_runtime_gid args)) v \<noteq> None) \<and>
    ds_files d' = (\<lambda>n. case map_of validated n of Some v \<Rightarrow> secret_file_of (Some (en_runtime_gid args)) v | None \<Rightarrow> ds_files d n)"
proof -
  from assms obtain required optional enrolled where loaded: "load_names lib (en_allowlist args) = Inr required"
      "load_names lib (en_optional_allowlist args) = Inr optional" "ensure_empty_target d (required @ optional) = Inr ()"
      "collect_secrets lib (en_primary args) (en_supplements args) (required @ optional) = Inr enrolled"
      "validate_secrets (map (\<lambda>(n, v). (n, JStr v)) (added_secrets args generated enrolled)) required optional = Inr validated"
    and wrote: "each_w (write_secret h (Some (en_runtime_gid args))) validated d = (d', Inr ())"
    by (auto simp: enroll_def bind_w_Inr bind_r_eq_Inr)
  note accepted = validate_secrets_Inr [OF loaded(5)]
  have "inj (\<lambda>(n :: pytext, v). (n, JStr v))" by (auto simp: inj_def)
  then have "validated = added_secrets args generated enrolled" using accepted(1) by (metis map_injective)
  then have "distinct (map fst validated)"
    using added_secrets_ok [OF collect_secrets_ok [OF loaded(4)]] by (simp add: dict_ok_def dict_keys_def)
  moreover have "\<forall>x \<in> set validated. take 1 (fst x) \<noteq> [46]"
    using accepted(3) load_names_visible [OF loaded(1)] load_names_visible [OF loaded(2)] by (fastforce simp: dict_keys_def)
  moreover have "\<forall>n \<in> set (dict_keys validated). ds_files d n = None"
    using accepted(3) loaded(3) by (auto simp: ensure_empty_target_def list_ex_iff split: if_splits)
  ultimately show ?thesis using write_secrets_ok [OF wrote] by blast
qed

section \<open>A sample directory\<close>

definition sample_secret_lib :: secret_lib where
  "sample_secret_lib =
     \<lparr>sl_alnum = (\<lambda>_. False), sl_upper = (\<lambda>s. s), sl_json_loads = (\<lambda>_. None), sl_set_order = (\<lambda>names. names)\<rparr>"

definition calm_host :: secret_host where
  "calm_host = \<lparr>sh_fails = (\<lambda>_. False), sh_suffix = (\<lambda>_. [116])\<rparr>"

definition sample_materialize :: materialize_args where
  "sample_materialize =
     \<lparr>ma_allowlist = Some [65], ma_optional_allowlist = Some [66],
      ma_output = \<lparr>ov_absolute = True, ov_is_dir = True, ov_is_symlink = False, ov_mode = 448, ov_uid = 0\<rparr>,
      ma_euid = 0, ma_runtime_gid = Some 7\<rparr>"

definition sample_bundle :: json where
  "sample_bundle =
     JObj [(text_of ''schemaVersion'', JStr BUNDLE_SCHEMA_VERSION), (text_of ''secrets'', JObj [([65], JStr [115])])]"

definition small_directory :: directory where
  "small_directory =
     \<lparr>ds_files = (\<lambda>n. if n \<in> {[66], [67]} then Some \<lparr>rf_content = [1], rf_mode = 384, rf_gid = None\<rparr> else None), ds_step = 0\<rparr>"

lemma sample_names: "load_names sample_secret_lib (Some [65]) = Inr [[65]]" "load_names sample_secret_lib (Some [66]) = Inr [[66]]"
proof -
  have "read_text [65] = Some [65]" "read_text [66] = Some [66]" by code_simp+
  moreover have "py_splitlines [65] = [[65]]" "py_splitlines [66] = [[66]]" by (simp_all add: py_splitlines.simps line_break_def)
  moreover have "py_strip [65] = [65]" "py_strip [66] = [66]" by (simp_all add: py_strip_id py_space_def)
  moreover have "secret_name sample_secret_lib [65]" "secret_name sample_secret_lib [66]"
    by (simp_all add: secret_name_def ascii_alnum_def ascii_alpha_def upper_text_def ascii_upper_def)
  ultimately show "load_names sample_secret_lib (Some [65]) = Inr [[65]]" "load_names sample_secret_lib (Some [66]) = Inr [[66]]"
    by (simp_all add: load_names_def)
qed

lemma sample_encode: "utf8_encode [115] = Inr [115]"
  by code_simp

lemma sample_validated:
  "load_bundle (Some sample_bundle) = Inr [([65], JStr [115])]"
  "validate_secrets [([65], JStr [115])] [[65]] [[66]] = Inr [([65], [115])]"
  by (simp_all add: load_bundle_def sample_bundle_def json_get_Cons validate_secrets_def validate_secret_def encode_secret_def
      sample_encode MAX_SECRET_BYTES_def dict_keys_def del: text_of_simps)

lemma sample_materialized:
  "\<exists>d'. materialize calm_host sample_secret_lib sample_materialize (Some sample_bundle) small_directory = (d', Inr [([65], [115])])"
proof -
  have parts: "ma_allowlist sample_materialize = Some [65]" "ma_optional_allowlist sample_materialize = Some [66]"
    "validate_output_directory (ma_euid sample_materialize) (ma_output sample_materialize) = Inr ()"
    "ma_runtime_gid sample_materialize = Some 7"
    by (simp_all add: sample_materialize_def validate_output_directory_def)
  have step: "fs_op calm_host f d = (d\<lparr>ds_files := f (ds_files d), ds_step := ds_step d + 1\<rparr>, Inr ())" for f d
    by (simp add: fs_op_def calm_host_def)
  have "\<exists>d1. write_secret calm_host (Some 7) ([65], [115]) small_directory = (d1, Inr ())"
    by (simp add: write_secret_def make_temporary_def bind_w_def return_w_def finally_w_def unlink_temporary_def step encode_secret_def
        sample_encode small_directory_def Let_def calm_host_def [THEN arg_cong [where f = sh_suffix]])
  then show ?thesis
    by (auto simp: materialize_def parts sample_names sample_validated bind_w_def return_w_def unlink_file_def step dict_keys_def
        sample_secret_lib_def [THEN arg_cong [where f = sl_set_order]])
qed

theorem materialized_directory_witness:
  "\<exists>d'. materialize calm_host sample_secret_lib sample_materialize (Some sample_bundle) small_directory = (d', Inr [([65], [115])]) \<and>
     ds_files d' [65] = secret_file_of (Some 7) [115] \<and> ds_files d' [66] = None \<and> ds_files d' [67] = ds_files small_directory [67]"
proof -
  obtain d' where d': "materialize calm_host sample_secret_lib sample_materialize (Some sample_bundle) small_directory = (d', Inr [([65], [115])])"
    using sample_materialized by blast
  have "set (sl_set_order sample_secret_lib names) = set names" for names by (simp add: sample_secret_lib_def)
  with materialized_directory [OF d'] have "\<exists>optional. load_names sample_secret_lib (ma_optional_allowlist sample_materialize) = Inr optional \<and>
      ds_files d' = (\<lambda>n. case map_of [([65], [115])] n of Some v \<Rightarrow> secret_file_of (ma_runtime_gid sample_materialize) v
        | None \<Rightarrow> if n \<in> set optional then None else ds_files small_directory n)"
    by fastforce
  moreover have "ma_optional_allowlist sample_materialize = Some [66]" "ma_runtime_gid sample_materialize = Some 7"
    by (simp_all add: sample_materialize_def)
  ultimately show ?thesis using d' by (auto simp: sample_names)
qed

theorem materialize_never_partial_witness:
  "ds_files (fst (materialize calm_host sample_secret_lib sample_materialize (Some (JObj [])) small_directory)) [66] \<noteq> None"
proof -
  obtain d' r where run: "materialize calm_host sample_secret_lib sample_materialize (Some (JObj [])) small_directory = (d', r)" by fastforce
  have "set (sl_set_order sample_secret_lib names) = set names" for names by (simp add: sample_secret_lib_def)
  moreover have "load_bundle (Some (JObj [])) = Inl (SecretError ''secret bundle schema is invalid'')"
    by (simp add: load_bundle_def json_get_def)
  ultimately have "ds_files d' [66] = ds_files small_directory [66]"
    using materialize_never_partial [OF run, of "[66]"] by auto
  with run show ?thesis by (simp add: small_directory_def)
qed

end
