(* ===== verification/Object_Lock.thy ===== *)
theory Object_Lock
  imports Ops_Base World
begin

text \<open>
  The copy of an audit anchor into an object store where nobody can delete it,
  \<open>scripts/ops/s3_object_lock_offload.py\<close>. The store behind the AWS command line is the world; the
  SHA-256 digest, Base64, the JSON reader and the texts of times are arguments. Times are
  microseconds since the epoch.
\<close>

section \<open>Requests\<close>

definition MINIMUM_RETENTION_DAYS :: int where
  "MINIMUM_RETENTION_DAYS = 30"

datatype lock_error = ObjectLockError string | LockCrash

record anchor_file =
  af_path :: pytext
  af_stem :: pytext
  af_absolute :: bool
  af_is_file :: bool
  af_content :: "bytes option"

record evidence_target =
  et_absolute :: bool
  et_exists :: bool

record offload_request =
  or_anchor :: anchor_file
  or_bucket :: pytext
  or_prefix :: pytext
  or_retention_days :: int
  or_evidence_output :: evidence_target
  or_endpoint_url :: "pytext option"
  or_expected_bucket_owner :: "pytext option"

text \<open>A time with a zone, or one without, which cannot be compared with the first.\<close>

datatype parsed_time = Aware int | Naive

record lock_lib =
  ll_sha256 :: "bytes \<Rightarrow> bytes"
  ll_b64encode :: "bytes \<Rightarrow> pytext"
  ll_isoformat :: "int \<Rightarrow> pytext"
  ll_fromisoformat :: "pytext \<Rightarrow> parsed_time option"
  ll_json_loads :: "pytext \<Rightarrow> json option"
  ll_str_of :: "json \<Rightarrow> pytext"

datatype aws_call =
    GetBucketVersioning pytext
  | GetObjectLockConfiguration pytext
  | PutObject pytext pytext (put_body: pytext) (put_retain_until: pytext) (put_metadata: pytext)
  | HeadObject pytext pytext pytext

text \<open>The arguments that every call ends with.\<close>

definition endpoint_arguments :: "offload_request \<Rightarrow> pytext list" where
  "endpoint_arguments request =
     (case or_endpoint_url request of None \<Rightarrow> [] | Some url \<Rightarrow> if url = [] then [] else [text_of ''--endpoint-url'', url]) @
     (case or_expected_bucket_owner request of None \<Rightarrow> []
      | Some owner \<Rightarrow> if owner = [] then [] else [text_of ''--expected-bucket-owner'', owner])"

text \<open>A call ends with a code and its output, or raises, for instance after thirty seconds.\<close>

record 'w aws =
  aw_run :: "aws_call \<Rightarrow> pytext list \<Rightarrow> 'w \<Rightarrow> 'w \<times> (int \<times> pytext) option"
  aw_now :: "'w \<Rightarrow> int"

definition run_aws :: "'w aws \<Rightarrow> lock_lib \<Rightarrow> offload_request \<Rightarrow> aws_call \<Rightarrow> ('w, lock_error, json_dict) act" where
  "run_aws a lib request call w =
     (case aw_run a call (endpoint_arguments request) w of
        (w', None) \<Rightarrow> (w', Inl LockCrash)
      | (w', Some (code, out)) \<Rightarrow>
          (w', if code \<noteq> 0 then Inl (ObjectLockError ''S3 Object Lock request failed'')
               else (case ll_json_loads lib (if out = [] then text_of ''{}'' else out) of
                       Some (JObj d) \<Rightarrow> Inr d
                     | _ \<Rightarrow> Inl (ObjectLockError ''S3 Object Lock response was invalid''))))"

section \<open>The steps\<close>

definition bucket_char :: "nat \<Rightarrow> bool" where
  "bucket_char c \<longleftrightarrow> ascii_digit c \<or> 97 \<le> c \<and> c \<le> 122"

text \<open>A full match of \<open>[a-z0-9][a-z0-9.-]{1,61}[a-z0-9]\<close>.\<close>

definition bucket_name :: "pytext \<Rightarrow> bool" where
  "bucket_name s \<longleftrightarrow>
     3 \<le> length s \<and> length s \<le> 63 \<and> bucket_char (hd s) \<and> bucket_char (last s) \<and>
     list_all (\<lambda>c. bucket_char c \<or> c = 46 \<or> c = 45) s"

definition validate_offload :: "offload_request \<Rightarrow> lock_error + unit" where
  "validate_offload request =
     (if \<not> af_absolute (or_anchor request) \<or> \<not> af_is_file (or_anchor request)
      then Inl (ObjectLockError ''audit anchor must be an existing absolute file'')
      else if \<not> et_absolute (or_evidence_output request) \<or> et_exists (or_evidence_output request)
      then Inl (ObjectLockError ''evidence path must be new and absolute'')
      else if \<not> bucket_name (or_bucket request) then Inl (ObjectLockError ''S3 bucket name is invalid'')
      else if or_retention_days request < MINIMUM_RETENTION_DAYS
      then Inl (ObjectLockError ''COMPLIANCE retention must be at least 30 days'')
      else if take 1 (or_prefix request) = [47] \<or> [46, 46] \<in> set (split_on 47 (or_prefix request))
      then Inl (ObjectLockError ''S3 object prefix is invalid'')
      else Inr ())"

text \<open>\<open>d.get(key, {}).get(name)\<close>.\<close>

definition nested_field :: "json_dict \<Rightarrow> string \<Rightarrow> string \<Rightarrow> lock_error + json" where
  "nested_field d key name =
     (case dict_get d (text_of key) of
        None \<Rightarrow> Inr JNull
      | Some (JObj e) \<Rightarrow> Inr (json_get e name)
      | Some _ \<Rightarrow> Inl LockCrash)"

definition require_locked_versioned_bucket :: "'w aws \<Rightarrow> lock_lib \<Rightarrow> offload_request \<Rightarrow> ('w, lock_error, unit) act" where
  "require_locked_versioned_bucket a lib request =
     bind_w (run_aws a lib request (GetBucketVersioning (or_bucket request))) (\<lambda>versioning.
     bind_w (run_aws a lib request (GetObjectLockConfiguration (or_bucket request))) (\<lambda>lock.
     return_w
       (if json_get versioning ''Status'' \<noteq> JStr (text_of ''Enabled'')
        then Inl (ObjectLockError ''S3 bucket versioning is not enabled'')
        else bind_r (nested_field lock ''ObjectLockConfiguration'' ''ObjectLockEnabled'') (\<lambda>enabled.
          if enabled \<noteq> JStr (text_of ''Enabled'') then Inl (ObjectLockError ''S3 Object Lock is not enabled'') else Inr ()))))"

definition nibble :: "nat \<Rightarrow> nat" where
  "nibble n = (if n < 10 then 48 + n else 87 + n)"

definition bytes_hex :: "bytes \<Rightarrow> pytext" where
  "bytes_hex bs = concat (map (\<lambda>b. [nibble (unat b div 16), nibble (unat b mod 16)]) bs)"

definition anchor_digests :: "lock_lib \<Rightarrow> anchor_file \<Rightarrow> lock_error + (pytext \<times> pytext)" where
  "anchor_digests lib anchor =
     (case af_content anchor of
        None \<Rightarrow> Inl LockCrash
      | Some payload \<Rightarrow> let digest = ll_sha256 lib payload in Inr (bytes_hex digest, ll_b64encode lib digest))"

definition object_key :: "offload_request \<Rightarrow> pytext \<Rightarrow> pytext" where
  "object_key request digest_hex =
     (let prefix = strip_both (\<lambda>c. c = 47) (or_prefix request);
          name = af_stem (or_anchor request) @ [45] @ digest_hex @ text_of ''.json'' in
      if prefix = [] then name else prefix @ [47] @ name)"

text \<open>\<open>text.replace("+00:00", "Z")\<close> and back.\<close>

fun replace_text :: "pytext \<Rightarrow> pytext \<Rightarrow> pytext \<Rightarrow> pytext" where
  "replace_text old new [] = []"
| "replace_text old new (c # s) =
     (if old \<noteq> [] \<and> starts_with old (c # s) then new @ replace_text old new (drop (length old - 1) s)
      else c # replace_text old new s)"

definition zulu :: "pytext \<Rightarrow> pytext" where
  "zulu s = replace_text (text_of ''+00:00'') [90] s"

definition upload_anchor ::
    "'w aws \<Rightarrow> lock_lib \<Rightarrow> offload_request \<Rightarrow> pytext \<Rightarrow> pytext \<Rightarrow> int \<Rightarrow> ('w, lock_error, pytext) act" where
  "upload_anchor a lib request key digest_hex retain_until =
     bind_w (run_aws a lib request
              (PutObject (or_bucket request) key (af_path (or_anchor request)) (zulu (ll_isoformat lib retain_until))
                (text_of ''sha256='' @ digest_hex))) (\<lambda>response.
       return_w (case json_get response ''VersionId'' of
           JStr v \<Rightarrow> if v = [] then Inl (ObjectLockError ''S3 upload did not return an object version'') else Inr v
         | _ \<Rightarrow> Inl (ObjectLockError ''S3 upload did not return an object version'')))"

definition head_accepted :: "lock_lib \<Rightarrow> json_dict \<Rightarrow> pytext \<Rightarrow> pytext \<Rightarrow> int \<Rightarrow> lock_error + unit" where
  "head_accepted lib response digest_hex checksum retain_until =
     (if json_get response ''ObjectLockMode'' \<noteq> JStr (text_of ''COMPLIANCE'')
      then Inl (ObjectLockError ''uploaded anchor is not COMPLIANCE locked'')
      else
        (case ll_fromisoformat lib (replace_text [90] (text_of ''+00:00'') (text_get (ll_str_of lib) response ''ObjectLockRetainUntilDate'' [])) of
           Some (Aware actual_until) \<Rightarrow>
             if actual_until < retain_until then Inl (ObjectLockError ''uploaded anchor retention is shorter than requested'')
             else if json_get response ''ChecksumSHA256'' \<noteq> JStr checksum
             then Inl (ObjectLockError ''uploaded anchor checksum does not match'')
             else bind_r (nested_field response ''Metadata'' ''sha256'') (\<lambda>digest.
               if digest \<noteq> JStr digest_hex then Inl (ObjectLockError ''uploaded anchor metadata digest does not match'')
               else Inr ())
         | _ \<Rightarrow> Inl LockCrash))"

definition verify_uploaded_version ::
    "'w aws \<Rightarrow> lock_lib \<Rightarrow> offload_request \<Rightarrow> pytext \<Rightarrow> pytext \<Rightarrow> pytext \<Rightarrow> pytext \<Rightarrow> int \<Rightarrow> ('w, lock_error, unit) act" where
  "verify_uploaded_version a lib request key version_id digest_hex checksum retain_until =
     bind_w (run_aws a lib request (HeadObject (or_bucket request) key version_id)) (\<lambda>response.
       return_w (head_accepted lib response digest_hex checksum retain_until))"

record lock_evidence =
  le_bucket :: pytext
  le_object_key :: pytext
  le_version_id :: pytext
  le_retain_until :: int
  le_sha256 :: pytext

text \<open>The latest time a \<open>datetime\<close> can hold.\<close>

definition LATEST_TIME :: int where
  "LATEST_TIME = 253402300799999999"

definition retain_until_of :: "int \<Rightarrow> int \<Rightarrow> lock_error + int" where
  "retain_until_of now days = (let t = now + days * 86400000000 in if LATEST_TIME < t then Inl LockCrash else Inr t)"

text \<open>The evidence file is created exclusively; \<open>write_ok\<close> tells whether that succeeds.\<close>

definition offload :: "'w aws \<Rightarrow> lock_lib \<Rightarrow> ('w \<Rightarrow> bool) \<Rightarrow> offload_request \<Rightarrow> ('w, lock_error, lock_evidence) act" where
  "offload a lib write_ok request =
     bind_w (return_w (validate_offload request)) (\<lambda>_.
     bind_w (require_locked_versioned_bucket a lib request) (\<lambda>_.
     bind_w (return_w (anchor_digests lib (or_anchor request))) (\<lambda>(digest_hex, checksum).
     let key = object_key request digest_hex in
     bind_w (\<lambda>w. (w, retain_until_of (aw_now a w) (or_retention_days request))) (\<lambda>retain_until.
     bind_w (upload_anchor a lib request key digest_hex retain_until) (\<lambda>version_id.
     bind_w (verify_uploaded_version a lib request key version_id digest_hex checksum retain_until) (\<lambda>_ w.
       (w, if write_ok w
           then Inr \<lparr>le_bucket = or_bucket request, le_object_key = key, le_version_id = version_id,
                     le_retain_until = retain_until, le_sha256 = digest_hex\<rparr>
           else Inl LockCrash)))))))"

section \<open>What the store promises\<close>

text \<open>
  A version of an object, with its content, its lock and the time until which it is held, where it has them. What
  a reply of the store reports of a version is true of it; a reply need not hold any of the fields, as for a
  version without lock or checksum. Base64 texts can be decoded, and no text is no time.
\<close>

record stored_version =
  sv_content :: bytes
  sv_mode :: "pytext option"
  sv_retain_until :: "int option"

definition reported_until :: "lock_lib \<Rightarrow> json_dict \<Rightarrow> parsed_time option" where
  "reported_until lib d =
     ll_fromisoformat lib (replace_text [90] (text_of ''+00:00'') (text_get (ll_str_of lib) d ''ObjectLockRetainUntilDate'' []))"

locale truthful_store =
  fixes a :: "'w aws" and lib :: lock_lib and version_of :: "'w \<Rightarrow> pytext \<Rightarrow> pytext \<Rightarrow> pytext \<Rightarrow> stored_version option"
  assumes head_truthful: "aw_run a (HeadObject bucket key version_id) endpoint w = (w', Some (0, out)) \<Longrightarrow>
      ll_json_loads lib (if out = [] then text_of ''{}'' else out) = Some (JObj d) \<Longrightarrow>
      \<exists>v. version_of w' bucket key version_id = Some v \<and>
        (\<forall>m. json_get d ''ObjectLockMode'' = JStr m \<longrightarrow> sv_mode v = Some m) \<and>
        (\<forall>t. dict_get d (text_of ''ObjectLockRetainUntilDate'') \<noteq> None \<longrightarrow> reported_until lib d = Some (Aware t) \<longrightarrow>
           (\<exists>u. sv_retain_until v = Some u \<and> t \<le> u)) \<and>
        (\<forall>c. json_get d ''ChecksumSHA256'' = JStr c \<longrightarrow> c = ll_b64encode lib (ll_sha256 lib (sv_content v)))"
    and b64_inj: "ll_b64encode lib x = ll_b64encode lib y \<Longrightarrow> x = y"
    and no_time: "ll_fromisoformat lib [] = None"
begin

lemma verified_version:
  assumes "verify_uploaded_version a lib request key version_id digest_hex (ll_b64encode lib digest) retain_until w = (w', Inr ())"
  shows "\<exists>v u. version_of w' (or_bucket request) key version_id = Some v \<and> sv_mode v = Some (text_of ''COMPLIANCE'') \<and>
    sv_retain_until v = Some u \<and> retain_until \<le> u \<and> ll_sha256 lib (sv_content v) = digest"
proof -
  from assms obtain d where run: "run_aws a lib request (HeadObject (or_bucket request) key version_id) w = (w', Inr d)"
    and head: "head_accepted lib d digest_hex (ll_b64encode lib digest) retain_until = Inr ()"
    by (auto simp: verify_uploaded_version_def bind_w_Inr)
  from run obtain out where out: "aw_run a (HeadObject (or_bucket request) key version_id) (endpoint_arguments request) w = (w', Some (0, out))"
      "ll_json_loads lib (if out = [] then text_of ''{}'' else out) = Some (JObj d)"
    by (auto simp: run_aws_def split: prod.splits option.splits json.splits if_splits)
  from head obtain t where t: "json_get d ''ObjectLockMode'' = JStr (text_of ''COMPLIANCE'')" "retain_until \<le> t"
      "reported_until lib d = Some (Aware t)" "json_get d ''ChecksumSHA256'' = JStr (ll_b64encode lib digest)"
    by (auto simp: head_accepted_def reported_until_def simp del: text_of_simps split: if_splits option.splits parsed_time.splits)
  have "dict_get d (text_of ''ObjectLockRetainUntilDate'') \<noteq> None"
    using t(3) no_time
    by (cases "dict_get d (text_of ''ObjectLockRetainUntilDate'')") (simp_all add: reported_until_def text_get_def del: text_of_simps)
  with head_truthful [OF out] t b64_inj show ?thesis by (fastforce simp del: text_of_simps)
qed

end

section \<open>Properties\<close>

text \<open>
  C25: evidence of an offload is true. When the tool reports success against a store whose replies report nothing
  false, the recorded version exists under the recorded key, its content has the SHA-256 digest of the anchor,
  which the evidence shows, and it is locked in compliance mode at least until the recorded time. This time is the
  requested number of days, at least thirty, after the time the clock shows once the bucket has been found locked
  and versioned, just before the upload.
\<close>

theorem offload_evidence_true:
  assumes "truthful_store a lib version_of" and "offload a lib write_ok request w = (w', Inr evidence)"
  shows "\<exists>v u anchor w1. version_of w' (le_bucket evidence) (le_object_key evidence) (le_version_id evidence) = Some v \<and>
    af_content (or_anchor request) = Some anchor \<and> ll_sha256 lib (sv_content v) = ll_sha256 lib anchor \<and>
    le_sha256 evidence = bytes_hex (ll_sha256 lib anchor) \<and> sv_mode v = Some (text_of ''COMPLIANCE'') \<and>
    sv_retain_until v = Some u \<and> le_retain_until evidence \<le> u \<and>
    require_locked_versioned_bucket a lib request w = (w1, Inr ()) \<and>
    le_retain_until evidence = aw_now a w1 + or_retention_days request * 86400000000 \<and> 30 \<le> or_retention_days request"
proof -
  from assms(2) obtain digest_hex checksum retain_until version_id w1 w2 where parts:
      "validate_offload request = Inr ()" "anchor_digests lib (or_anchor request) = Inr (digest_hex, checksum)"
      "retain_until_of (aw_now a w1) (or_retention_days request) = Inr retain_until"
      "verify_uploaded_version a lib request (object_key request digest_hex) version_id digest_hex checksum retain_until w2 = (w', Inr ())"
      "evidence = \<lparr>le_bucket = or_bucket request, le_object_key = object_key request digest_hex, le_version_id = version_id,
         le_retain_until = retain_until, le_sha256 = digest_hex\<rparr>"
      and bucket: "require_locked_versioned_bucket a lib request w = (w1, Inr ())"
    by (auto simp: offload_def bind_w_Inr Let_def split: if_splits)
  from parts(2) obtain anchor where anchor: "af_content (or_anchor request) = Some anchor"
      "digest_hex = bytes_hex (ll_sha256 lib anchor)" "checksum = ll_b64encode lib (ll_sha256 lib anchor)"
    by (auto simp: anchor_digests_def Let_def split: option.splits)
  have days: "30 \<le> or_retention_days request"
    using parts(1) by (auto simp: validate_offload_def MINIMUM_RETENTION_DAYS_def split: if_splits)
  have time: "retain_until = aw_now a w1 + or_retention_days request * 86400000000"
    using parts(3) by (auto simp: retain_until_of_def Let_def split: if_splits)
  from truthful_store.verified_version [OF assms(1) parts(4) [unfolded anchor(3)]] obtain v u where
      "version_of w' (or_bucket request) (object_key request digest_hex) version_id = Some v"
      "sv_mode v = Some (text_of ''COMPLIANCE'')" "sv_retain_until v = Some u" "retain_until \<le> u"
      "ll_sha256 lib (sv_content v) = ll_sha256 lib anchor"
    by blast
  with anchor(1,2) time days bucket parts(5) show ?thesis
    by - (rule exI [of _ v], rule exI [of _ u], rule exI [of _ anchor], rule exI [of _ w1], simp del: text_of_simps)
qed

section \<open>A sample store\<close>

text \<open>It keeps the place of one object, whose content is the anchor of the sample request.\<close>

definition sample_lock_lib :: lock_lib where
  "sample_lock_lib =
     \<lparr>ll_sha256 = (\<lambda>bs. bs), ll_b64encode = map unat, ll_isoformat = (\<lambda>_. []), ll_fromisoformat = (\<lambda>t. if t = [] then None else Some (Aware 2592000000000)),
      ll_json_loads = (\<lambda>out. Some (JObj
        (if out = [11] then [(text_of ''Status'', JStr (text_of ''Enabled''))]
         else if out = [12] then [(text_of ''ObjectLockConfiguration'', JObj [(text_of ''ObjectLockEnabled'', JStr (text_of ''Enabled''))])]
         else if out = [13] then [(text_of ''VersionId'', JStr [118])]
         else [(text_of ''ObjectLockMode'', JStr (text_of ''COMPLIANCE'')), (text_of ''ObjectLockRetainUntilDate'', JStr [49]),
               (text_of ''ChecksumSHA256'', JStr [17]),
               (text_of ''Metadata'', JObj [(text_of ''sha256'', JStr [49, 49])])]))),
      ll_str_of = (\<lambda>_. [])\<rparr>"

definition sample_store :: "(pytext \<times> pytext) option aws" where
  "sample_store =
     \<lparr>aw_run = (\<lambda>call endpoint w. case call of
          GetBucketVersioning _ \<Rightarrow> (w, Some (0, [11]))
        | GetObjectLockConfiguration _ \<Rightarrow> (w, Some (0, [12]))
        | PutObject bucket key _ _ _ \<Rightarrow> (Some (bucket, key), Some (0, [13]))
        | HeadObject bucket key v \<Rightarrow> (w, Some (if w = Some (bucket, key) \<and> v = [118] then (0, [14]) else (1, [])))),
      aw_now = (\<lambda>_. 0)\<rparr>"

definition sample_version_of :: "(pytext \<times> pytext) option \<Rightarrow> pytext \<Rightarrow> pytext \<Rightarrow> pytext \<Rightarrow> stored_version option" where
  "sample_version_of w bucket key v =
     (if w = Some (bucket, key) \<and> v = [118]
      then Some \<lparr>sv_content = [17], sv_mode = Some (text_of ''COMPLIANCE''), sv_retain_until = Some 2592000000000\<rparr> else None)"

lemma store_documents:
  "ll_json_loads sample_lock_lib [11] = Some (JObj [(text_of ''Status'', JStr (text_of ''Enabled''))])"
  "ll_json_loads sample_lock_lib [12] =
     Some (JObj [(text_of ''ObjectLockConfiguration'', JObj [(text_of ''ObjectLockEnabled'', JStr (text_of ''Enabled''))])])"
  "ll_json_loads sample_lock_lib [13] = Some (JObj [(text_of ''VersionId'', JStr [118])])"
  "ll_json_loads sample_lock_lib [14] =
     Some (JObj [(text_of ''ObjectLockMode'', JStr (text_of ''COMPLIANCE'')), (text_of ''ObjectLockRetainUntilDate'', JStr [49]),
                 (text_of ''ChecksumSHA256'', JStr [17]),
                 (text_of ''Metadata'', JObj [(text_of ''sha256'', JStr [49, 49])])])"
  "ll_fromisoformat sample_lock_lib t = (if t = [] then None else Some (Aware 2592000000000))" "ll_sha256 sample_lock_lib bs = bs"
  "ll_b64encode sample_lock_lib bs = map unat bs"
  by (simp_all add: sample_lock_lib_def)

lemma sample_replies:
  "aw_run sample_store (GetBucketVersioning b) e w = (w, Some (0, [11]))"
  "aw_run sample_store (GetObjectLockConfiguration b) e w = (w, Some (0, [12]))"
  "aw_run sample_store (PutObject b k body t m) e w = (Some (b, k), Some (0, [13]))"
  "aw_run sample_store (HeadObject b k v) e w = (w, Some (if w = Some (b, k) \<and> v = [118] then (0, [14]) else (1, [])))"
  "aw_now sample_store w = 0"
  by (simp_all add: sample_store_def)

interpretation sample_objects: truthful_store sample_store sample_lock_lib sample_version_of
proof unfold_locales
  fix bucket key version_id endpoint w w' out d
  assume run: "aw_run sample_store (HeadObject bucket key version_id) endpoint w = (w', Some (0, out))"
    and loads: "ll_json_loads sample_lock_lib (if out = [] then text_of ''{}'' else out) = Some (JObj d)"
  from run have w: "w' = w" "w = Some (bucket, key)" "version_id = [118]" "out = [14]"
    by (auto simp: sample_replies split: if_splits)
  with loads have d: "json_get d ''ObjectLockMode'' = JStr (text_of ''COMPLIANCE'')" "json_get d ''ChecksumSHA256'' = JStr [17]"
    by (auto simp: store_documents json_get_Cons text_of_eq_iff simp del: text_of_simps)
  have "t = 2592000000000" if "reported_until sample_lock_lib d = Some (Aware t)" for t
    using that by (simp add: reported_until_def store_documents split: if_splits)
  with w d show "\<exists>v. sample_version_of w' bucket key version_id = Some v \<and>
      (\<forall>m. json_get d ''ObjectLockMode'' = JStr m \<longrightarrow> sv_mode v = Some m) \<and>
      (\<forall>t. dict_get d (text_of ''ObjectLockRetainUntilDate'') \<noteq> None \<longrightarrow> reported_until sample_lock_lib d = Some (Aware t) \<longrightarrow>
         (\<exists>u. sv_retain_until v = Some u \<and> t \<le> u)) \<and>
      (\<forall>c. json_get d ''ChecksumSHA256'' = JStr c \<longrightarrow> c = ll_b64encode sample_lock_lib (ll_sha256 sample_lock_lib (sv_content v)))"
    by (auto simp: sample_version_of_def store_documents simp del: text_of_simps)
next
  show "ll_b64encode sample_lock_lib x = ll_b64encode sample_lock_lib y \<Longrightarrow> x = y" for x y
    by (metis store_documents(7) map_injective injI word_unat_eq_iff)
  show "ll_fromisoformat sample_lock_lib [] = None" by (simp add: store_documents)
qed

definition sample_offload_request :: offload_request where
  "sample_offload_request =
     \<lparr>or_anchor = \<lparr>af_path = text_of ''/a'', af_stem = text_of ''a'', af_absolute = True, af_is_file = True, af_content = Some [17]\<rparr>,
      or_bucket = text_of ''abc'', or_prefix = [], or_retention_days = 30,
      or_evidence_output = \<lparr>et_absolute = True, et_exists = False\<rparr>, or_endpoint_url = None, or_expected_bucket_owner = None\<rparr>"

lemma sample_offload: "\<exists>w' evidence. offload sample_store sample_lock_lib (\<lambda>_. True) sample_offload_request None = (w', Inr evidence)"
proof -
  have valid: "validate_offload sample_offload_request = Inr ()"
    by (simp add: validate_offload_def sample_offload_request_def MINIMUM_RETENTION_DAYS_def bucket_name_def bucket_char_def ascii_digit_def)
  have digests: "anchor_digests sample_lock_lib (or_anchor sample_offload_request) = Inr ([49, 49], [17])"
    by (simp add: anchor_digests_def sample_offload_request_def store_documents bytes_hex_def nibble_def)
  have calls: "run_aws sample_store sample_lock_lib r c w =
      (case aw_run sample_store c (endpoint_arguments r) w of (w', Some (code, out)) \<Rightarrow>
         (w', if code \<noteq> 0 then Inl (ObjectLockError ''S3 Object Lock request failed'')
              else (case ll_json_loads sample_lock_lib (if out = [] then text_of ''{}'' else out) of
                      Some (JObj d) \<Rightarrow> Inr d | _ \<Rightarrow> Inl (ObjectLockError ''S3 Object Lock response was invalid'')))
       | (w', None) \<Rightarrow> (w', Inl LockCrash))" for r c w
    by (simp add: run_aws_def split: prod.split option.split)
  show ?thesis
    by (simp add: offload_def valid digests text_get_Cons starts_with_def require_locked_versioned_bucket_def upload_anchor_def verify_uploaded_version_def
        head_accepted_def calls sample_replies store_documents bind_w_def return_w_def json_get_Cons nested_field_def dict_get_def
        retain_until_of_def LATEST_TIME_def Let_def sample_offload_request_def [THEN arg_cong [where f = or_retention_days]] bind_r_def text_of_eq_iff
        del: text_of_simps)
qed

theorem offload_evidence_true_witness:
  "\<exists>w' evidence v. offload sample_store sample_lock_lib (\<lambda>_. True) sample_offload_request None = (w', Inr evidence) \<and>
     sample_version_of w' (le_bucket evidence) (le_object_key evidence) (le_version_id evidence) = Some v \<and> sv_mode v = Some (text_of ''COMPLIANCE'')"
proof -
  obtain w' evidence where run: "offload sample_store sample_lock_lib (\<lambda>_. True) sample_offload_request None = (w', Inr evidence)"
    using sample_offload by blast
  with offload_evidence_true [OF sample_objects.truthful_store_axioms run] show ?thesis by (blast dest: sym)
qed

end
