(* ===== verification/Network_Audit.thy ===== *)
theory Network_Audit
  imports Ops_Base "HOL-Library.List_Lexorder"
begin

text \<open>
  The audit of a rendered Compose document against the network policy,
  \<open>scripts/ops/docker_network_path_audit.py\<close>: memberships, internal bridges, denied peers and
  published ports. The documents are parsed JSON; the IP address library, the Unicode decimal digits
  and the texts of other JSON values are arguments.
\<close>

section \<open>Documents\<close>

datatype network_error = NetworkAuditError string | NetworkValueError | NetworkCrash

record network_lib =
  nl_str_of :: "json \<Rightarrow> pytext"
  nl_loopback :: "pytext \<Rightarrow> bool"
  nl_decimal :: "nat \<Rightarrow> nat option"

definition NETWORK_SCHEMA_VERSION :: pytext where
  "NETWORK_SCHEMA_VERSION = text_of ''gcs-saker.network-path-policy.v1''"

record audit_check =
  ac_name :: string
  ac_passed :: bool
  ac_detail :: pytext

text \<open>The parsed file, or \<open>None\<close> when it cannot be read or parsed.\<close>

definition load_audit_json :: "json option \<Rightarrow> network_error + json_dict" where
  "load_audit_json document =
     (case document of
        None \<Rightarrow> Inl NetworkValueError
      | Some (JObj d) \<Rightarrow> Inr d
      | Some _ \<Rightarrow> Inl (NetworkAuditError ''JSON document must be an object''))"

definition load_network_policy :: "json option \<Rightarrow> network_error + json_dict" where
  "load_network_policy document =
     bind_r (load_audit_json document) (\<lambda>policy.
       if json_get policy ''schemaVersion'' \<noteq> JStr NETWORK_SCHEMA_VERSION
       then Inl (NetworkAuditError ''network policy schema is invalid'') else Inr policy)"

text \<open>\<open>d[key]\<close>, a dictionary, and what iterating a value gives.\<close>

definition item_of :: "json_dict \<Rightarrow> string \<Rightarrow> network_error + json" where
  "item_of d key = (case dict_get d (text_of key) of None \<Rightarrow> Inl NetworkCrash | Some v \<Rightarrow> Inr v)"

definition as_dict :: "json \<Rightarrow> network_error + json_dict" where
  "as_dict v = (case v of JObj d \<Rightarrow> Inr d | _ \<Rightarrow> Inl NetworkCrash)"

definition members :: "json \<Rightarrow> network_error + json list" where
  "members v =
     (case v of
        JList vs \<Rightarrow> Inr vs
      | JObj d \<Rightarrow> Inr (map JStr (dict_keys d))
      | JStr s \<Rightarrow> Inr (map (\<lambda>c. JStr [c]) s)
      | _ \<Rightarrow> Inl NetworkCrash)"

text \<open>\<open>set(v)\<close>.\<close>

definition member_set :: "json \<Rightarrow> network_error + json list" where
  "member_set v = bind_r (members v) (\<lambda>vs. if list_all hashable vs then Inr vs else Inl NetworkCrash)"

text \<open>\<open>d.get(name, {})\<close>.\<close>

definition get_or_empty :: "json_dict \<Rightarrow> json \<Rightarrow> network_error + json" where
  "get_or_empty d name =
     (if \<not> hashable name then Inl NetworkCrash
      else case name of
          JStr s \<Rightarrow> Inr (case dict_get d s of None \<Rightarrow> JObj [] | Some v \<Rightarrow> v)
        | _ \<Rightarrow> Inr (JObj []))"

section \<open>Networks\<close>

definition network_names :: "network_lib \<Rightarrow> json \<Rightarrow> network_error + pytext list" where
  "network_names lib service =
     bind_r (as_dict service) (\<lambda>d.
       case dict_get d (text_of ''networks'') of
         None \<Rightarrow> Inr []
       | Some (JList names) \<Rightarrow> Inr (map (json_text (nl_str_of lib)) names)
       | Some (JObj networks) \<Rightarrow> Inr (dict_keys networks)
       | Some _ \<Rightarrow> Inl (NetworkAuditError ''service networks are invalid''))"

definition same_members :: "pytext list \<Rightarrow> json list \<Rightarrow> bool" where
  "same_members actual expected \<longleftrightarrow>
     list_all (\<lambda>n. JStr n \<in> set expected) actual \<and> list_all (\<lambda>v. v \<in> JStr ` set actual) expected"

definition membership_fails :: "network_lib \<Rightarrow> json_dict \<Rightarrow> pytext \<times> json \<Rightarrow> network_error + (pytext \<times> bool)" where
  "membership_fails lib services item =
     (let (name, expected) = item in
      bind_r (get_or_empty services (JStr name)) (\<lambda>service.
      bind_r (network_names lib service) (\<lambda>actual.
      bind_r (member_set expected) (\<lambda>expected. Inr (name, \<not> same_members actual expected)))))"

definition failed_names :: "(pytext \<times> bool) list \<Rightarrow> pytext list" where
  "failed_names results = map fst (filter snd results)"

definition named_check :: "string \<Rightarrow> string \<Rightarrow> string \<Rightarrow> pytext list \<Rightarrow> audit_check" where
  "named_check name fine problem failures =
     \<lparr>ac_name = name, ac_passed = (failures = []),
      ac_detail = (if failures = [] then text_of fine else text_of problem @ join_with [44] failures)\<rparr>"

definition check_memberships :: "network_lib \<Rightarrow> json_dict \<Rightarrow> json_dict \<Rightarrow> network_error + audit_check" where
  "check_memberships lib services policy =
     bind_r (item_of policy ''memberships'') (\<lambda>m.
     bind_r (as_dict m) (\<lambda>memberships.
     bind_r (map_r (membership_fails lib services) memberships) (\<lambda>results.
       Inr (named_check ''network.memberships'' ''exact membership matrix'' ''mismatched services: '' (sort (failed_names results))))))"

definition internal_fails :: "json_dict \<Rightarrow> json \<Rightarrow> network_error + (json \<times> bool)" where
  "internal_fails networks name =
     bind_r (get_or_empty networks name) (\<lambda>network.
     bind_r (as_dict network) (\<lambda>d. Inr (name, json_get d ''internal'' \<noteq> JBool True)))"

definition name_text :: "json \<Rightarrow> network_error + pytext" where
  "name_text v = (case v of JStr s \<Rightarrow> Inr s | _ \<Rightarrow> Inl NetworkCrash)"

definition check_internal_networks :: "json_dict \<Rightarrow> json_dict \<Rightarrow> network_error + audit_check" where
  "check_internal_networks networks policy =
     bind_r (item_of policy ''internalNetworks'') (\<lambda>v.
     bind_r (members v) (\<lambda>names.
     bind_r (map_r (internal_fails networks) names) (\<lambda>results.
     bind_r (map_r name_text (map fst (filter snd results))) (\<lambda>failures.
       Inr (named_check ''network.internal_bridges'' ''private bridges are internal'' ''non-internal networks: '' (sort failures))))))"

text \<open>A pair is unpacked from exactly two members.\<close>

definition denied_pair :: "network_lib \<Rightarrow> json_dict \<Rightarrow> json \<Rightarrow> network_error + (pytext \<times> bool)" where
  "denied_pair lib services pair =
     bind_r (members pair) (\<lambda>vs.
       case vs of
         [source, target] \<Rightarrow>
           bind_r (get_or_empty services source) (\<lambda>s.
           bind_r (network_names lib s) (\<lambda>source_networks.
           bind_r (get_or_empty services target) (\<lambda>t.
           bind_r (network_names lib t) (\<lambda>target_networks.
             Inr (json_text (nl_str_of lib) source @ text_of ''->'' @ json_text (nl_str_of lib) target,
                  list_ex (\<lambda>n. n \<in> set target_networks) source_networks)))))
       | _ \<Rightarrow> Inl NetworkValueError)"

definition check_denied_peers :: "network_lib \<Rightarrow> json_dict \<Rightarrow> json_dict \<Rightarrow> network_error + audit_check" where
  "check_denied_peers lib services policy =
     bind_r (item_of policy ''deniedPeerPairs'') (\<lambda>v.
     bind_r (members v) (\<lambda>pairs.
     bind_r (map_r (denied_pair lib services) pairs) (\<lambda>results.
       Inr (named_check ''network.denied_peers'' ''denied peers share no network'' ''reachable denied peers: '' (failed_names results)))))"

section \<open>Published ports\<close>

text \<open>
  The default of \<open>${NAME:-default}\<close> at the start of a text: after the last \<open>:-\<close> with something
  before and behind it.
\<close>

fun last_default :: "pytext \<Rightarrow> pytext option" where
  "last_default [] = None"
| "last_default (c # s) =
     (case last_default s of
        Some t \<Rightarrow> Some t
      | None \<Rightarrow> if take 2 s = [58, 45] \<and> drop 2 s \<noteq> [] then Some (drop 2 s) else None)"

definition default_host :: "pytext \<Rightarrow> pytext option" where
  "default_host port =
     (if take 2 port \<noteq> [36, 123] then None
      else
        let inside = takeWhile (\<lambda>c. c \<noteq> 125) (drop 2 port) in
        if length inside = length (drop 2 port) then None else last_default inside)"

definition strip_suffix :: "pytext \<Rightarrow> pytext \<Rightarrow> pytext" where
  "strip_suffix suffix s = (if ends_with suffix s then take (length s - length suffix) s else s)"

text \<open>The search for \<open>:(\d+)(?:/(?:tcp|udp))?$\<close>, which also matches before a final line feed.\<close>

definition target_port :: "network_lib \<Rightarrow> pytext \<Rightarrow> network_error + int option" where
  "target_port lib port =
     (let s = strip_suffix [10] port;
          body = (if ends_with (text_of ''/tcp'') s \<or> ends_with (text_of ''/udp'') s then take (length s - 4) s else s);
          digits = rev (takeWhile (\<lambda>c. decimal_digit (nl_decimal lib) c \<noteq> None) (rev body)) in
      if digits = [] \<or> \<not> ends_with (58 # digits) body then Inr None
      else case digits_int (nl_decimal lib) digits of None \<Rightarrow> Inl NetworkValueError | Some n \<Rightarrow> Inr (Some n))"

definition service_port_bindings :: "network_lib \<Rightarrow> json \<Rightarrow> network_error + (int option \<times> pytext) list" where
  "service_port_bindings lib port =
     (case port of
        JObj d \<Rightarrow>
          let host = text_get (nl_str_of lib) d ''host_ip'' (text_of ''0.0.0.0'') in
          (case json_get d ''target'' of
             JInt n \<Rightarrow> Inr [(Some n, host)]
           | JBool b \<Rightarrow> Inr [(Some (if b then 1 else 0), host)]
           | _ \<Rightarrow> Inr [])
      | JStr s \<Rightarrow>
          bind_r (target_port lib s) (\<lambda>target.
            Inr [(target, case default_host s of Some h \<Rightarrow> h | None \<Rightarrow> takeWhile (\<lambda>c. c \<noteq> 58) s)])
      | _ \<Rightarrow> Inr [])"

definition published_bindings :: "network_lib \<Rightarrow> json \<Rightarrow> network_error + (int option \<times> pytext) list" where
  "published_bindings lib service =
     bind_r (as_dict service) (\<lambda>d.
       let ports = json_get d ''ports'' in
       bind_r (if truthy ports then members ports else Inr []) (\<lambda>ports.
       bind_r (map_r (service_port_bindings lib) ports) (\<lambda>bindings. Inr (concat bindings))))"

text \<open>Whether a target is among the values of a policy's set.\<close>

definition target_in :: "json list \<Rightarrow> int option \<Rightarrow> bool" where
  "target_in vs target = list_ex (\<lambda>v. case target of None \<Rightarrow> v = JNull | Some n \<Rightarrow> py_eq_int v n) vs"

definition publication_fails ::
    "network_lib \<Rightarrow> json list \<Rightarrow> json list \<Rightarrow> pytext \<times> json \<Rightarrow> network_error + (pytext \<times> bool)" where
  "publication_fails lib allowed forbidden item =
     (let (name, service) = item in
      bind_r (published_bindings lib service) (\<lambda>bindings.
        let public_targets = map fst (filter (\<lambda>(_, host). \<not> nl_loopback lib host) bindings) in
        Inr (name, public_targets \<noteq> [] \<and> JStr name \<notin> set allowed \<or> list_ex (target_in forbidden) public_targets)))"

definition check_published_ports :: "network_lib \<Rightarrow> json_dict \<Rightarrow> json_dict \<Rightarrow> network_error + audit_check" where
  "check_published_ports lib services policy =
     bind_r (bind_r (item_of policy ''publicPortServices'') member_set) (\<lambda>allowed.
     bind_r (bind_r (item_of policy ''forbiddenPublishedContainerPorts'') member_set) (\<lambda>forbidden.
     bind_r (map_r (publication_fails lib allowed forbidden) services) (\<lambda>results.
       Inr (named_check ''network.published_ports'' ''published ports follow ingress policy'' ''forbidden publications: ''
              (sort (failed_names results))))))"

section \<open>The audit\<close>

definition audit :: "network_lib \<Rightarrow> json_dict \<Rightarrow> json_dict \<Rightarrow> network_error + audit_check list" where
  "audit lib compose policy =
     (case (json_get compose ''services'', json_get compose ''networks'') of
        (JObj services, JObj networks) \<Rightarrow>
          bind_r (check_memberships lib services policy) (\<lambda>memberships.
          bind_r (check_internal_networks networks policy) (\<lambda>internal.
          bind_r (check_denied_peers lib services policy) (\<lambda>denied.
          bind_r (check_published_ports lib services policy) (\<lambda>published.
            Inr [memberships, internal, denied, published]))))
      | _ \<Rightarrow> Inl (NetworkAuditError ''rendered Compose document is invalid''))"

text \<open>The exit code of \<open>main\<close>; an exception it does not catch also ends the process with 1.\<close>

definition network_audit_main :: "network_lib \<Rightarrow> json option \<Rightarrow> json option \<Rightarrow> int" where
  "network_audit_main lib compose_document policy_document =
     (case bind_r (load_audit_json compose_document) (\<lambda>compose. bind_r (load_network_policy policy_document) (audit lib compose)) of
        Inl _ \<Rightarrow> 1
      | Inr checks \<Rightarrow> if list_all ac_passed checks then 0 else 1)"

section \<open>What a passed audit means\<close>

text \<open>The networks a service of the document is in, and its published bindings.\<close>

definition in_network :: "network_lib \<Rightarrow> json_dict \<Rightarrow> json \<Rightarrow> pytext \<Rightarrow> bool" where
  "in_network lib services name network \<longleftrightarrow>
     (case bind_r (get_or_empty services name) (network_names lib) of Inr names \<Rightarrow> network \<in> set names | Inl _ \<Rightarrow> False)"

definition publishes :: "network_lib \<Rightarrow> json_dict \<Rightarrow> pytext \<Rightarrow> int option \<Rightarrow> pytext \<Rightarrow> bool" where
  "publishes lib services name target host \<longleftrightarrow>
     (\<exists>service bindings. (name, service) \<in> set services \<and> published_bindings lib service = Inr bindings \<and> (target, host) \<in> set bindings)"

lemma map_r_in: "map_r f xs = Inr ys \<Longrightarrow> x \<in> set xs \<Longrightarrow> \<exists>y \<in> set ys. f x = Inr y"
  by (induction xs arbitrary: ys) (auto simp: bind_r_eq_Inr)

lemma named_check_passed [simp]: "ac_passed (named_check name fine problem failures) \<longleftrightarrow> failures = []"
  by (simp add: named_check_def)

lemma failed_names_none: "failed_names results = [] \<longleftrightarrow> (\<forall>r \<in> set results. \<not> snd r)"
  by (simp add: failed_names_def filter_empty_conv)

lemma sort_none: "sort xs = [] \<longleftrightarrow> xs = []" for xs :: "pytext list"
  by (metis length_0_conv length_sort)

lemma item_of_Inr: "item_of d key = Inr v \<Longrightarrow> json_get d key = v"
  by (simp add: item_of_def json_get_def split: option.splits)

lemma as_dict_Inr: "as_dict v = Inr d \<longleftrightarrow> v = JObj d"
  by (cases v) (auto simp: as_dict_def)

lemma member_set_Inr: "member_set v = Inr vs \<Longrightarrow> members v = Inr vs"
  by (auto simp: member_set_def bind_r_eq_Inr split: if_splits)

lemma memberships_exact:
  assumes "check_memberships lib services policy = Inr c" and "ac_passed c"
  shows "\<exists>memberships. json_get policy ''memberships'' = JObj memberships \<and>
    (\<forall>(name, expected) \<in> set memberships. \<exists>es. members expected = Inr es \<and>
       set es = JStr ` {n. in_network lib services (JStr name) n})"
proof -
  from assms obtain memberships results where m: "json_get policy ''memberships'' = JObj memberships"
      "map_r (membership_fails lib services) memberships = Inr results" "\<forall>r \<in> set results. \<not> snd r"
    by (auto simp: check_memberships_def bind_r_eq_Inr as_dict_Inr sort_none failed_names_none dest!: item_of_Inr simp del: text_of_simps)
  have "\<exists>es. members expected = Inr es \<and> set es = JStr ` {n. in_network lib services (JStr name) n}"
    if member: "(name, expected) \<in> set memberships" for name expected
  proof -
    from map_r_in [OF m(2) member] m(3) obtain service actual es where
        "get_or_empty services (JStr name) = Inr service" "network_names lib service = Inr actual"
        "member_set expected = Inr es" "same_members actual es"
      by (auto simp: membership_fails_def bind_r_eq_Inr)
    then show ?thesis
      by (intro exI [of _ es]) (auto simp: in_network_def member_set_def same_members_def list_all_iff bind_r_eq_Inr split: if_splits)
  qed
  with m(1) show ?thesis by auto
qed

lemma internal_networks:
  assumes "check_internal_networks networks policy = Inr c" and "ac_passed c"
  shows "\<exists>names. members (json_get policy ''internalNetworks'') = Inr names \<and>
    (\<forall>name \<in> set names. \<exists>d. get_or_empty networks name = Inr (JObj d) \<and> json_get d ''internal'' = JBool True)"
proof -
  from assms obtain names results failures where n: "members (json_get policy ''internalNetworks'') = Inr names"
      "map_r (internal_fails networks) names = Inr results" "map_r name_text (map fst (filter snd results)) = Inr failures" "failures = []"
    by (auto simp: check_internal_networks_def bind_r_eq_Inr sort_none dest!: item_of_Inr simp del: text_of_simps)
  then have "\<forall>r \<in> set results. \<not> snd r"
    using map_r_length [OF n(3)] by (auto simp: filter_empty_conv)
  note fine = this
  have "\<exists>d. get_or_empty networks name = Inr (JObj d) \<and> json_get d ''internal'' = JBool True" if name: "name \<in> set names" for name
  proof -
    from map_r_in [OF n(2) name] obtain r where "r \<in> set results" "internal_fails networks name = Inr r" by blast
    with fine show ?thesis by (auto simp: internal_fails_def bind_r_eq_Inr as_dict_Inr simp del: text_of_simps)
  qed
  with n(1) show ?thesis by auto
qed

lemma denied_pair_Inr:
  assumes "denied_pair lib services pair = Inr r"
  shows "\<exists>source target s source_networks t target_networks. members pair = Inr [source, target] \<and>
    get_or_empty services source = Inr s \<and> network_names lib s = Inr source_networks \<and>
    get_or_empty services target = Inr t \<and> network_names lib t = Inr target_networks \<and>
    snd r = list_ex (\<lambda>n. n \<in> set target_networks) source_networks"
proof -
  from assms obtain vs where vs: "members pair = Inr vs" by (auto simp: denied_pair_def bind_r_eq_Inr)
  have two: "vs = [vs ! 0, vs ! 1]"
  proof (cases vs)
    case (Cons source rest)
    with assms vs show ?thesis
      by (cases rest; cases "tl rest") (simp_all add: denied_pair_def)
  qed (use assms vs in \<open>simp add: denied_pair_def\<close>)
  obtain source target where "vs = [source, target]" using two by blast
  with assms vs show ?thesis by (auto simp: denied_pair_def bind_r_eq_Inr simp del: text_of_simps)
qed

lemma denied_peers:
  assumes "check_denied_peers lib services policy = Inr c" and "ac_passed c"
  shows "\<exists>pairs. members (json_get policy ''deniedPeerPairs'') = Inr pairs \<and>
    (\<forall>pair \<in> set pairs. \<exists>source target. members pair = Inr [source, target] \<and>
       \<not> (\<exists>n. in_network lib services source n \<and> in_network lib services target n))"
proof -
  from assms obtain pairs results where p: "members (json_get policy ''deniedPeerPairs'') = Inr pairs"
      "map_r (denied_pair lib services) pairs = Inr results" "\<forall>r \<in> set results. \<not> snd r"
    by (auto simp: check_denied_peers_def bind_r_eq_Inr failed_names_none dest!: item_of_Inr simp del: text_of_simps)
  have "\<exists>source target. members pair = Inr [source, target] \<and>
      \<not> (\<exists>n. in_network lib services source n \<and> in_network lib services target n)" if pair: "pair \<in> set pairs" for pair
  proof -
    from map_r_in [OF p(2) pair] obtain r where "r \<in> set results" "denied_pair lib services pair = Inr r" by blast
    from denied_pair_Inr [OF this(2)] this(1) p(3) obtain source target s source_networks t target_networks where
        "members pair = Inr [source, target]" "get_or_empty services source = Inr s" "network_names lib s = Inr source_networks"
        "get_or_empty services target = Inr t" "network_names lib t = Inr target_networks"
        "\<not> list_ex (\<lambda>n. n \<in> set target_networks) source_networks"
      by blast
    then show ?thesis by (auto simp: in_network_def list_ex_iff)
  qed
  with p(1) show ?thesis by auto
qed

lemma publications:
  assumes "check_published_ports lib services policy = Inr c" and "ac_passed c"
  shows "\<exists>allowed forbidden. members (json_get policy ''publicPortServices'') = Inr allowed \<and>
    members (json_get policy ''forbiddenPublishedContainerPorts'') = Inr forbidden \<and>
    (\<forall>name target host. publishes lib services name target host \<longrightarrow>
       nl_loopback lib host \<or> JStr name \<in> set allowed \<and> \<not> target_in forbidden target)"
proof -
  from assms obtain allowed forbidden results where p: "members (json_get policy ''publicPortServices'') = Inr allowed"
      "members (json_get policy ''forbiddenPublishedContainerPorts'') = Inr forbidden"
      "map_r (publication_fails lib allowed forbidden) services = Inr results" "\<forall>r \<in> set results. \<not> snd r"
    by (auto simp: check_published_ports_def bind_r_eq_Inr failed_names_none sort_none dest!: item_of_Inr member_set_Inr
        simp del: text_of_simps)
  have "nl_loopback lib host \<or> JStr name \<in> set allowed \<and> \<not> target_in forbidden target"
    if published: "publishes lib services name target host" for name target host
  proof -
    from published obtain service bindings where b: "(name, service) \<in> set services" "published_bindings lib service = Inr bindings"
        "(target, host) \<in> set bindings"
      by (auto simp: publishes_def)
    from map_r_in [OF p(3) b(1)] p(4) b(2,3) show ?thesis
      by (force simp: publication_fails_def Let_def list_ex_iff filter_empty_conv)
  qed
  with p(1,2) show ?thesis by blast
qed

text \<open>
  C24: exit code 0 means that the document keeps the policy: each listed service is in exactly its
  networks, the private bridges are internal, no two denied peers share a network, and everything
  published on an address that is not loopback belongs to an allowed service and is no forbidden port.
\<close>

theorem network_policy_kept:
  assumes "network_audit_main lib (Some (JObj compose)) (Some (JObj policy)) = 0"
  shows "\<exists>services networks memberships internal pairs allowed forbidden.
    json_get compose ''services'' = JObj services \<and> json_get compose ''networks'' = JObj networks \<and>
    json_get policy ''memberships'' = JObj memberships \<and> members (json_get policy ''internalNetworks'') = Inr internal \<and>
    members (json_get policy ''deniedPeerPairs'') = Inr pairs \<and> members (json_get policy ''publicPortServices'') = Inr allowed \<and>
    members (json_get policy ''forbiddenPublishedContainerPorts'') = Inr forbidden \<and>
    (\<forall>(name, expected) \<in> set memberships. \<exists>es. members expected = Inr es \<and>
       set es = JStr ` {n. in_network lib services (JStr name) n}) \<and>
    (\<forall>name \<in> set internal. \<exists>d. get_or_empty networks name = Inr (JObj d) \<and> json_get d ''internal'' = JBool True) \<and>
    (\<forall>pair \<in> set pairs. \<exists>source target. members pair = Inr [source, target] \<and>
       \<not> (\<exists>n. in_network lib services source n \<and> in_network lib services target n)) \<and>
    (\<forall>name target host. publishes lib services name target host \<longrightarrow>
       nl_loopback lib host \<or> JStr name \<in> set allowed \<and> \<not> target_in forbidden target)"
proof -
  obtain checks where audit: "audit lib compose policy = Inr checks" and all: "list_all ac_passed checks"
    using assms by (auto simp: network_audit_main_def load_audit_json_def load_network_policy_def simp del: text_of_simps
        split: sum.splits if_splits)
  obtain services networks where doc: "json_get compose ''services'' = JObj services" "json_get compose ''networks'' = JObj networks"
    using audit by (cases "json_get compose ''services''"; cases "json_get compose ''networks''") (simp_all add: audit_def)
  from audit all obtain c1 c2 c3 c4 where
    checks: "check_memberships lib services policy = Inr c1" "check_internal_networks networks policy = Inr c2"
      "check_denied_peers lib services policy = Inr c3" "check_published_ports lib services policy = Inr c4"
    and passed: "ac_passed c1" "ac_passed c2" "ac_passed c3" "ac_passed c4"
    by (auto simp: audit_def doc bind_r_eq_Inr)
  from memberships_exact [OF checks(1) passed(1)] internal_networks [OF checks(2) passed(2)]
    denied_peers [OF checks(3) passed(3)] publications [OF checks(4) passed(4)] doc
  show ?thesis by (elim exE conjE) (intro exI conjI, assumption+)
qed

section \<open>A sample document\<close>

definition sample_network_lib :: network_lib where
  "sample_network_lib = \<lparr>nl_str_of = (\<lambda>_. []), nl_loopback = (\<lambda>h. h = text_of ''127.0.0.1''), nl_decimal = (\<lambda>_. None)\<rparr>"

definition sample_compose :: json_dict where
  "sample_compose =
     [(text_of ''services'', JObj
        [([97], JObj [(text_of ''networks'', JList [JStr [120]]),
                      (text_of ''ports'', JList [JObj [(text_of ''target'', JInt 443)]])]),
         ([98], JObj [(text_of ''networks'', JList [JStr [121]])])]),
      (text_of ''networks'', JObj [([121], JObj [(text_of ''internal'', JBool True)])])]"

definition sample_policy :: json_dict where
  "sample_policy =
     [(text_of ''schemaVersion'', JStr NETWORK_SCHEMA_VERSION), (text_of ''memberships'', JObj [([97], JList [JStr [120]])]),
      (text_of ''internalNetworks'', JList [JStr [121]]), (text_of ''deniedPeerPairs'', JList [JList [JStr [97], JStr [98]]]),
      (text_of ''publicPortServices'', JList [JStr [97]]), (text_of ''forbiddenPublishedContainerPorts'', JList [JInt 5432])]"

lemma sample_audit: "network_audit_main sample_network_lib (Some (JObj sample_compose)) (Some (JObj sample_policy)) = 0"
  by (simp add: network_audit_main_def load_audit_json_def load_network_policy_def audit_def sample_compose_def sample_policy_def
      json_get_def dict_get_def check_memberships_def item_of_def as_dict_def membership_fails_def get_or_empty_def network_names_def
      json_text_simps member_set_def members_def same_members_def failed_names_def named_check_def check_internal_networks_def
      internal_fails_def check_denied_peers_def denied_pair_def check_published_ports_def publication_fails_def published_bindings_def
      service_port_bindings_def text_get_def target_in_def text_of_eq_iff bind_r_def Let_def del: text_of_simps)

theorem network_policy_kept_witness:
  "\<exists>services pairs. json_get sample_compose ''services'' = JObj services \<and>
     members (json_get sample_policy ''deniedPeerPairs'') = Inr pairs \<and>
     (\<forall>pair \<in> set pairs. \<exists>source target. members pair = Inr [source, target] \<and>
        \<not> (\<exists>n. in_network sample_network_lib services source n \<and> in_network sample_network_lib services target n))"
  using network_policy_kept [OF sample_audit] by blast

end
