(* ===== verification/Audit_Drill.thy ===== *)
theory Audit_Drill
  imports Audit_Log World
begin

text \<open>
  The rehearsal of an audit recovery, \<open>scripts/ops/audit_offload_restore_drill.py\<close>, on top of the
  check of a restored log. The files are the world; the directories, their devices and the shell
  script that copies the anchors are an argument.
\<close>

section \<open>Inputs\<close>

datatype drill_error = AuditDrillError string | DrillAudit audit_error | DrillCrash

record drill_inputs =
  di_original_export :: pytext
  di_anchor_directory :: pytext
  di_hmac_key_file :: pytext
  di_external_directory :: pytext
  di_restore_directory :: pytext
  di_evidence_output :: pytext

type_synonym file_map = "pytext \<Rightarrow> bytes option"

record drill_evidence =
  de_record_count :: nat
  de_anchor_sequence :: int
  de_source_sha256 :: pytext
  de_restored_sha256 :: pytext
  de_anchor_sha256 :: pytext

record drill_host =
  dr_is_dir :: "pytext \<Rightarrow> bool"
  dr_device :: "pytext \<Rightarrow> int"
  dr_names :: "file_map \<Rightarrow> pytext \<Rightarrow> pytext list"
  dr_key_mode :: "pytext \<Rightarrow> nat"
  dr_offload :: "pytext \<Rightarrow> pytext \<Rightarrow> file_map \<Rightarrow> file_map \<times> bool"
  dr_encode :: "drill_evidence \<Rightarrow> bytes"

definition drill_sha256 :: "audit_lib \<Rightarrow> pytext \<Rightarrow> file_map \<Rightarrow> drill_error + pytext" where
  "drill_sha256 lib path files = (case files path of None \<Rightarrow> Inl DrillCrash | Some bs \<Rightarrow> Inr (al_sha256 lib bs))"

definition validate_inputs :: "drill_host \<Rightarrow> drill_inputs \<Rightarrow> file_map \<Rightarrow> drill_error + unit" where
  "validate_inputs h inputs files =
     (if \<not> list_all (\<lambda>path. take 1 path = [47])
           [di_original_export inputs, di_anchor_directory inputs, di_hmac_key_file inputs, di_external_directory inputs,
            di_restore_directory inputs, di_evidence_output inputs]
      then Inl (AuditDrillError ''audit drill paths must be absolute'')
      else if files (di_original_export inputs) = None \<or> files (di_hmac_key_file inputs) = None
      then Inl (AuditDrillError ''audit drill source files are missing'')
      else if \<not> list_all (dr_is_dir h) [di_anchor_directory inputs, di_external_directory inputs, di_restore_directory inputs]
      then Inl (AuditDrillError ''audit drill directory is missing'')
      else if dr_device h (di_anchor_directory inputs) = dr_device h (di_external_directory inputs)
      then Inl (AuditDrillError ''external audit storage must be a different mounted device'')
      else if files (di_evidence_output inputs) \<noteq> None \<or> dr_is_dir h (di_evidence_output inputs)
      then Inl (AuditDrillError ''audit drill evidence overwrite denied'')
      else Inr ())"

text \<open>The names in a directory are sorted as texts.\<close>

definition latest_anchor :: "pytext list \<Rightarrow> drill_error + pytext" where
  "latest_anchor names =
     (let candidates = sort (filter anchor_name names) in
      if candidates = [] then Inl (AuditDrillError ''no audit anchor is available'') else Inr (last candidates))"

text \<open>The target is opened for exclusive creation before the source is read.\<close>

definition copy_exclusive :: "pytext \<Rightarrow> pytext \<Rightarrow> (file_map, drill_error, unit) act" where
  "copy_exclusive source target files =
     (if files target \<noteq> None then (files, Inl DrillCrash)
      else
        let opened = files(target \<mapsto> []) in
        case opened source of
          None \<Rightarrow> (opened, Inl DrillCrash)
        | Some bs \<Rightarrow> (opened(target \<mapsto> bs), Inr ()))"

definition write_drill_evidence :: "drill_host \<Rightarrow> pytext \<Rightarrow> drill_evidence \<Rightarrow> (file_map, drill_error, unit) act" where
  "write_drill_evidence h path payload files =
     (if files path \<noteq> None then (files, Inl DrillCrash) else (files(path \<mapsto> dr_encode h payload), Inr ()))"

definition child_path :: "pytext \<Rightarrow> pytext \<Rightarrow> pytext" where
  "child_path directory name = directory @ [47] @ name"

definition key_view :: "drill_host \<Rightarrow> pytext \<Rightarrow> file_map \<Rightarrow> key_file option" where
  "key_view h path files = map_option (\<lambda>bs. \<lparr>kf_mode = dr_key_mode h path, kf_content = bs\<rparr>) (files path)"

definition verify_step ::
    "audit_lib \<Rightarrow> drill_host \<Rightarrow> drill_inputs \<Rightarrow> pytext \<Rightarrow> pytext \<Rightarrow> (file_map, drill_error, nat) act" where
  "verify_step lib h inputs restored_export offloaded_anchor files =
     (files,
      case verify_recovery lib (files (di_original_export inputs)) (files restored_export) (files offloaded_anchor)
          (key_view h (di_hmac_key_file inputs) files) of
        Inl e \<Rightarrow> Inl (DrillAudit e)
      | Inr n \<Rightarrow> Inr n)"

definition drill_payload ::
    "audit_lib \<Rightarrow> drill_inputs \<Rightarrow> pytext \<Rightarrow> pytext \<Rightarrow> pytext \<Rightarrow> nat \<Rightarrow> file_map \<Rightarrow> drill_error + drill_evidence" where
  "drill_payload lib inputs anchor restored_export offloaded_anchor record_count files =
     bind_r (drill_sha256 lib (di_original_export inputs) files) (\<lambda>source_digest.
     bind_r (drill_sha256 lib restored_export files) (\<lambda>restored_digest.
     bind_r (drill_sha256 lib offloaded_anchor files) (\<lambda>anchor_sha256.
       Inr \<lparr>de_record_count = record_count, de_anchor_sequence = name_sequence anchor, de_source_sha256 = source_digest,
            de_restored_sha256 = restored_digest, de_anchor_sha256 = anchor_sha256\<rparr>)))"

text \<open>The shell script, whose failure raises.\<close>

definition offload_step :: "drill_host \<Rightarrow> drill_inputs \<Rightarrow> (file_map, drill_error, unit) act" where
  "offload_step h inputs files =
     (case dr_offload h (di_anchor_directory inputs) (di_external_directory inputs) files of
        (files', ok) \<Rightarrow> (files', if ok then Inr () else Inl DrillCrash))"

definition run_drill :: "audit_lib \<Rightarrow> drill_host \<Rightarrow> drill_inputs \<Rightarrow> (file_map, drill_error, drill_evidence) act" where
  "run_drill lib h inputs =
     bind_w (\<lambda>files. (files, validate_inputs h inputs files)) (\<lambda>_.
     bind_w (\<lambda>files. (files, latest_anchor (dr_names h files (di_anchor_directory inputs)))) (\<lambda>anchor.
     bind_w (offload_step h inputs) (\<lambda>_.
     let offloaded_anchor = child_path (di_external_directory inputs) anchor;
         restored_export = child_path (di_restore_directory inputs) (text_of ''audit-restored.jsonl'') in
     bind_w (copy_exclusive (di_original_export inputs) restored_export) (\<lambda>_.
     bind_w (verify_step lib h inputs restored_export offloaded_anchor) (\<lambda>record_count.
     bind_w (\<lambda>files. (files, drill_payload lib inputs anchor restored_export offloaded_anchor record_count files)) (\<lambda>payload.
     bind_w (write_drill_evidence h (di_evidence_output inputs) payload) (\<lambda>_.
       return_w (Inr payload))))))))"

section \<open>Properties\<close>

lemma copy_exclusive_Inr:
  "copy_exclusive source target files = (files', Inr ()) \<longleftrightarrow>
     files target = None \<and> source \<noteq> target \<and> files source \<noteq> None \<and> files' = files(target := files source) \<or>
     files target = None \<and> source = target \<and> files' = files(target \<mapsto> [])"
  by (auto simp: copy_exclusive_def Let_def split: option.splits if_splits)

lemma verify_step_Inr:
  "verify_step lib h inputs r a files = (files', Inr n) \<longleftrightarrow> files' = files \<and>
     verify_recovery lib (files (di_original_export inputs)) (files r) (files a) (key_view h (di_hmac_key_file inputs) files) = Inr n"
  by (auto simp: verify_step_def split: sum.splits)

text \<open>
  a drill that passes kept its evidence: nothing was overwritten, the external storage is
  another device, the restored export is the original octet by octet with the digests the evidence
  shows, and the log check accepted them with the off-loaded copy of the latest anchor.
\<close>

theorem drill_evidence_true:
  assumes "run_drill lib h inputs files = (files', Inr evidence)"
  shows "\<exists>anchor bs anchor_bytes key.
    dr_device h (di_anchor_directory inputs) \<noteq> dr_device h (di_external_directory inputs) \<and>
    latest_anchor (dr_names h files (di_anchor_directory inputs)) = Inr anchor \<and>
    files (di_evidence_output inputs) = None \<and> files' (di_evidence_output inputs) = Some (dr_encode h evidence) \<and>
    verify_recovery lib (Some bs) (Some bs) (Some anchor_bytes) key = Inr (de_record_count evidence) \<and>
    de_source_sha256 evidence = al_sha256 lib bs \<and> de_restored_sha256 evidence = al_sha256 lib bs \<and>
    de_anchor_sha256 evidence = al_sha256 lib anchor_bytes"
proof -
  let ?restored = "child_path (di_restore_directory inputs) (text_of ''audit-restored.jsonl'')"
  from assms obtain anchor f1 f2 n where valid: "validate_inputs h inputs files = Inr ()"
    and latest: "latest_anchor (dr_names h files (di_anchor_directory inputs)) = Inr anchor"
    and copy: "copy_exclusive (di_original_export inputs) ?restored f1 = (f2, Inr ())"
    and verify: "verify_recovery lib (f2 (di_original_export inputs)) (f2 ?restored) (f2 (child_path (di_external_directory inputs) anchor))
      (key_view h (di_hmac_key_file inputs) f2) = Inr n"
    and payload: "drill_payload lib inputs anchor ?restored (child_path (di_external_directory inputs) anchor) n f2 = Inr evidence"
    and wrote: "write_drill_evidence h (di_evidence_output inputs) evidence f2 = (files', Inr ())"
    using that by (auto simp: run_drill_def bind_w_Inr Let_def verify_step_Inr simp del: text_of_simps)
  from payload obtain bs rs anchor_bytes where contents: "f2 (di_original_export inputs) = Some bs" "f2 ?restored = Some rs"
      "f2 (child_path (di_external_directory inputs) anchor) = Some anchor_bytes"
    and evidence: "evidence = \<lparr>de_record_count = n, de_anchor_sequence = name_sequence anchor, de_source_sha256 = al_sha256 lib bs,
      de_restored_sha256 = al_sha256 lib rs, de_anchor_sha256 = al_sha256 lib anchor_bytes\<rparr>"
    by (auto simp: drill_payload_def bind_r_eq_Inr drill_sha256_def simp del: text_of_simps split: option.splits)
  have same: "rs = bs" using copy contents by (auto simp: copy_exclusive_Inr simp del: text_of_simps)
  have "files' (di_evidence_output inputs) = Some (dr_encode h evidence)"
    using wrote by (auto simp: write_drill_evidence_def split: if_splits)
  moreover have "dr_device h (di_anchor_directory inputs) \<noteq> dr_device h (di_external_directory inputs)"
    "files (di_evidence_output inputs) = None"
    using valid by (auto simp: validate_inputs_def split: if_splits)
  ultimately show ?thesis
    using latest verify contents evidence same
    by (intro exI [of _ anchor] exI [of _ bs] exI [of _ anchor_bytes] exI conjI) simp_all
qed

text \<open>The error of the comparison, which no other step raises.\<close>

definition not_restored :: audit_error where
  "not_restored = AuditError ''restored audit records differ from the source export''"

lemma read_lines_error: "read_json_lines lib content \<noteq> Inl not_restored"
  by (auto simp: read_json_lines_def read_json_line_def not_restored_def dest!: map_r_Inl split: option.splits json.splits)

lemma verify_records_error: "verify_records lib rs \<noteq> Inl not_restored"
proof -
  have "verify_records_from lib p i rs \<noteq> Inl not_restored" for p i
    by (induction lib p i rs rule: verify_records_from.induct)
      (auto simp: not_restored_def bind_r_eq_Inl calculate_record_hash_def canonical_payload_def split: sum.splits if_splits)
  then show ?thesis by (auto simp: verify_records_def bind_r_eq_Inl)
qed

lemma private_key_error: "require_private_key file \<noteq> Inl not_restored"
  by (auto simp: require_private_key_def not_restored_def split: option.splits if_splits)

lemma anchor_error: "verify_anchor_record lib anchor key \<noteq> Inl not_restored"
  by (auto simp: verify_anchor_record_def anchor_canonical_payload_def payload_field_def compare_digest_def not_restored_def
      bind_r_eq_Inl Let_def dest!: map_r_Inl split: option.splits sum.splits if_splits)

lemma read_records_ok:
  assumes "\<And>line v. al_json_loads lib line = Some v \<Longrightarrow> json_ok v"
  shows "read_json_lines lib content = Inr records \<Longrightarrow> py_eq_records records records"
proof -
  assume "read_json_lines lib content = Inr records"
  then obtain ls where "map_r (read_json_line lib) ls = Inr records"
    by (auto simp: read_json_lines_def split: option.splits)
  then have "\<forall>r \<in> set records. json_ok (JObj r)"
    by (induction ls arbitrary: records) (auto simp: bind_r_eq_Inr read_json_line_def dest!: assms split: option.splits json.splits)
  then show "py_eq_records records records"
    by (auto simp: py_eq_records_def list.rel_refl_strong py_eq_refl simp del: py_eq.simps)
qed

lemma same_bytes_restored:
  assumes "\<And>line v. al_json_loads lib line = Some v \<Longrightarrow> json_ok v"
  shows "verify_recovery lib content content anchor key \<noteq> Inl not_restored"
proof (cases "read_json_lines lib content")
  case (Inr records)
  show ?thesis
    using read_records_ok [OF assms Inr] verify_records_error private_key_error anchor_error
    by (auto simp: verify_recovery_def Inr bind_r_eq_Inl not_restored_def split: option.splits json.splits if_splits)
qed (use read_lines_error in \<open>auto simp: verify_recovery_def\<close>)

lemma drill_errors:
  "validate_inputs h inputs files \<noteq> Inl (DrillAudit e)"
  "latest_anchor names \<noteq> Inl (DrillAudit e)"
  "offload_step h inputs files \<noteq> (w, Inl (DrillAudit e))"
  "copy_exclusive source target files \<noteq> (w, Inl (DrillAudit e))"
  "drill_payload lib inputs anchor r a n files \<noteq> Inl (DrillAudit e)"
  "write_drill_evidence h path payload files \<noteq> (w, Inl (DrillAudit e))"
  by (auto simp: validate_inputs_def latest_anchor_def offload_step_def copy_exclusive_def drill_payload_def drill_sha256_def
      write_drill_evidence_def Let_def bind_r_eq_Inl split: option.splits prod.splits if_splits)

text \<open>
  C40: the drill does not test a restore. It compares the original export with the copy it has just
  made of that export itself, so the comparison of the records cannot fail: with a JSON reader that
  keeps one value per key, no drill ends with the error that the restored records differ, whatever the
  external storage holds.
\<close>

theorem drill_comparison_vacuous:
  assumes "\<And>line v. al_json_loads lib line = Some v \<Longrightarrow> json_ok v"
  shows "snd (run_drill lib h inputs files) \<noteq> Inl (DrillAudit (AuditError ''restored audit records differ from the source export''))"
proof -
  let ?restored = "child_path (di_restore_directory inputs) (text_of ''audit-restored.jsonl'')"
  have step: "verify_step lib h inputs ?restored a f2 \<noteq> (w, Inl (DrillAudit not_restored))"
    if "copy_exclusive (di_original_export inputs) ?restored f1 = (f2, Inr ())" for a f1 f2 w
  proof -
    from that have "f2 ?restored = f2 (di_original_export inputs)" by (auto simp: copy_exclusive_Inr)
    then show ?thesis
      using same_bytes_restored [OF assms] by (auto simp: verify_step_def not_restored_def split: sum.splits)
  qed
  show ?thesis
  proof
    assume "snd (run_drill lib h inputs files) = Inl (DrillAudit (AuditError ''restored audit records differ from the source export''))"
    then obtain w where "run_drill lib h inputs files = (w, Inl (DrillAudit not_restored))"
      by (cases "run_drill lib h inputs files") (simp add: not_restored_def)
    with step show False
      by (auto simp: run_drill_def bind_w_Inl Let_def drill_errors simp del: text_of_simps)
  qed
qed

section \<open>A sample drill\<close>

definition drill_sample_inputs :: drill_inputs where
  "drill_sample_inputs =
     \<lparr>di_original_export = [47, 111], di_anchor_directory = [47, 97], di_hmac_key_file = [47, 107],
      di_external_directory = [47, 120], di_restore_directory = [47, 114], di_evidence_output = [47, 101]\<rparr>"

definition sample_anchor_name :: pytext where
  "sample_anchor_name = text_of ''anchor-00000000000000000001.json''"

definition sample_drill_files :: file_map where
  "sample_drill_files path =
     (if path = [47, 111] then Some [97] else if path = [47, 107] then Some (kf_content sample_key) else None)"

definition sample_drill_host :: drill_host where
  "sample_drill_host =
     \<lparr>dr_is_dir = (\<lambda>path. path \<in> {[47, 97], [47, 120], [47, 114]}), dr_device = (\<lambda>path. if path = [47, 120] then 2 else 1),
      dr_names = (\<lambda>_ _. [sample_anchor_name]), dr_key_mode = (\<lambda>_. kf_mode sample_key),
      dr_offload = (\<lambda>_ _ files. (files(child_path [47, 120] sample_anchor_name \<mapsto> [98]), True)), dr_encode = (\<lambda>_. [])\<rparr>"

lemma sample_anchor_names: "latest_anchor [sample_anchor_name] = Inr sample_anchor_name"
proof -
  have "anchor_name sample_anchor_name" by code_simp
  then show ?thesis by (simp add: latest_anchor_def)
qed

lemma sample_drill_parts:
  "dr_names sample_drill_host f d = [sample_anchor_name]"
  "dr_offload sample_drill_host d e f = (f(child_path [47, 120] sample_anchor_name \<mapsto> [98]), True)"
  "dr_key_mode sample_drill_host path = kf_mode sample_key"
  "di_original_export drill_sample_inputs = [47, 111]" "di_hmac_key_file drill_sample_inputs = [47, 107]"
  "di_external_directory drill_sample_inputs = [47, 120]" "di_restore_directory drill_sample_inputs = [47, 114]"
  "di_evidence_output drill_sample_inputs = [47, 101]"
  "validate_inputs sample_drill_host drill_sample_inputs sample_drill_files = Inr ()"
  by (simp_all add: sample_drill_host_def drill_sample_inputs_def validate_inputs_def sample_drill_files_def)

lemma sample_drill: "\<exists>files' evidence. run_drill sample_audit_lib sample_drill_host drill_sample_inputs sample_drill_files = (files', Inr evidence)"
proof -
  have key: "\<lparr>kf_mode = kf_mode sample_key, kf_content = kf_content sample_key\<rparr> = sample_key" by simp
  let ?a = "child_path [47, 120] sample_anchor_name" and ?r = "child_path [47, 114] (text_of ''audit-restored.jsonl'')"
  have paths: "?a \<noteq> ?r" "[47, 111] \<noteq> ?a" "[47, 107] \<noteq> ?a" "[47, 101] \<noteq> ?a" "[47, 111] \<noteq> ?r" "[47, 107] \<noteq> ?r" "[47, 101] \<noteq> ?r"
    "?a \<noteq> [47, 111]" "?a \<noteq> [47, 107]" "?r \<noteq> [47, 111]" "?r \<noteq> [47, 107]" "?r \<noteq> ?a" "?a \<noteq> [47, 101]" "?r \<noteq> [47, 101]"
    by (simp_all add: child_path_def)
  show ?thesis
    using sample_recovery
    by (simp add: run_drill_def bind_w_def return_w_def sample_drill_parts sample_anchor_names offload_step_def Let_def
        copy_exclusive_def verify_step_def key_view_def drill_payload_def drill_sha256_def write_drill_evidence_def bind_r_def
        sample_drill_files_def paths key del: text_of_simps)
qed

theorem drill_evidence_true_witness:
  "\<exists>files' evidence bs. run_drill sample_audit_lib sample_drill_host drill_sample_inputs sample_drill_files = (files', Inr evidence) \<and>
     de_source_sha256 evidence = al_sha256 sample_audit_lib bs \<and> de_restored_sha256 evidence = al_sha256 sample_audit_lib bs"
  using sample_drill drill_evidence_true by blast

theorem drill_comparison_vacuous_witness:
  "snd (run_drill sample_audit_lib sample_drill_host drill_sample_inputs sample_drill_files) \<noteq>
     Inl (DrillAudit (AuditError ''restored audit records differ from the source export''))"
proof -
  have "json_ok (JObj sample_record)" "json_ok (JObj sample_anchor)" by code_simp+
  then have "al_json_loads sample_audit_lib line = Some v \<Longrightarrow> json_ok v" for line v
    by (auto simp: sample_audit_lib_def split: if_splits)
  then show ?thesis by (rule drill_comparison_vacuous)
qed

end
