(* ===== verification/Release_Evidence.thy ===== *)
theory Release_Evidence
  imports Ops_Base "HOL-Library.List_Lexorder"
begin

text \<open>
  Two checks of finished releases: \<open>scripts/ops/release_drift_report.py\<close> compares the manifests of two
  servers, and \<open>verify_mobile_release_evidence.py\<close> binds the entry of the mobile image to its archived
  Sigstore bundle. The JSON reader, Base64 and the texts of JSON values are arguments.
\<close>

section \<open>Drift between two servers\<close>

datatype evidence_error = EvidenceError string | EvidenceJson | EvidenceUnreadable | EvidenceCrash

definition COMPARABLE_FIELDS :: "string list" where
  "COMPARABLE_FIELDS = [''commit'', ''composeSha256'', ''sourceComposeSha256'', ''environmentSha256'', ''mqttPasswordFileSha256'']"

text \<open>The octets of a file, \<open>None\<close> when it cannot be read.\<close>

definition load_document_of :: "(pytext \<Rightarrow> json option) \<Rightarrow> bytes option \<Rightarrow> evidence_error + json" where
  "load_document_of json_loads content =
     (case content of
        None \<Rightarrow> Inl EvidenceUnreadable
      | Some bs \<Rightarrow>
          (case read_text bs of
             None \<Rightarrow> Inl EvidenceCrash
           | Some t \<Rightarrow> (case json_loads t of None \<Rightarrow> Inl EvidenceJson | Some v \<Rightarrow> Inr v)))"

definition load_manifest :: "(pytext \<Rightarrow> json option) \<Rightarrow> bytes option \<Rightarrow> evidence_error + json_dict" where
  "load_manifest json_loads content =
     bind_r (load_document_of json_loads content) (\<lambda>v.
       case v of
         JObj d \<Rightarrow> if py_eq_int (json_get d ''schemaVersion'') 1 then Inr d else Inl (EvidenceError ''unsupported release manifest'')
       | _ \<Rightarrow> Inl (EvidenceError ''unsupported release manifest''))"

definition migration_item :: "(json \<Rightarrow> pytext) \<Rightarrow> json \<Rightarrow> (pytext \<times> pytext) option" where
  "migration_item str_of item =
     (case item of
        JObj d \<Rightarrow>
          (case (dict_get d (text_of ''path''), dict_get d (text_of ''sha256'')) of
             (Some path, Some checksum) \<Rightarrow> Some (json_text str_of path, json_text str_of checksum)
           | _ \<Rightarrow> None)
      | _ \<Rightarrow> None)"

definition migration_map :: "(json \<Rightarrow> pytext) \<Rightarrow> json_dict \<Rightarrow> evidence_error + (pytext, pytext) dict" where
  "migration_map str_of manifest =
     (case json_get manifest ''flywayMigrations'' of
        JList items \<Rightarrow> Inr (fold (\<lambda>(path, checksum). dict_set path checksum) (List.map_filter (migration_item str_of) items) [])
      | _ \<Rightarrow> Inl (EvidenceError ''flywayMigrations must be an array''))"

datatype difference =
    FieldDifference string json json
  | MigrationDifference (left_only: "pytext list") (right_only: "pytext list") (checksum_mismatch: "pytext list")

definition same_dict :: "(pytext, pytext) dict \<Rightarrow> (pytext, pytext) dict \<Rightarrow> bool" where
  "same_dict d e \<longleftrightarrow> list_all (\<lambda>k. dict_get e k = dict_get d k) (dict_keys d) \<and> list_all (\<lambda>k. dict_get d k \<noteq> None) (dict_keys e)"

definition migration_difference :: "(pytext, pytext) dict \<Rightarrow> (pytext, pytext) dict \<Rightarrow> difference" where
  "migration_difference left right =
     MigrationDifference
       (sort (filter (\<lambda>p. p \<notin> set (dict_keys right)) (dict_keys left)))
       (sort (filter (\<lambda>p. p \<notin> set (dict_keys left)) (dict_keys right)))
       (sort (filter (\<lambda>p. p \<in> set (dict_keys right) \<and> dict_get left p \<noteq> dict_get right p) (dict_keys left)))"

definition compare_manifests :: "(json \<Rightarrow> pytext) \<Rightarrow> json_dict \<Rightarrow> json_dict \<Rightarrow> evidence_error + difference list" where
  "compare_manifests str_of left right =
     (let fields = map (\<lambda>f. FieldDifference f (json_get left f) (json_get right f))
                     (filter (\<lambda>f. \<not> py_eq (json_get left f) (json_get right f)) COMPARABLE_FIELDS) in
      bind_r (migration_map str_of left) (\<lambda>left_migrations.
      bind_r (migration_map str_of right) (\<lambda>right_migrations.
        Inr (fields @ (if same_dict left_migrations right_migrations then [] else [migration_difference left_migrations right_migrations])))))"

text \<open>The exit code: 0 in sync, 1 with differences, 2 when a manifest is refused.\<close>

definition drift_main :: "(json \<Rightarrow> pytext) \<Rightarrow> (pytext \<Rightarrow> json option) \<Rightarrow> bytes option \<Rightarrow> bytes option \<Rightarrow> int" where
  "drift_main str_of json_loads left right =
     (case bind_r (load_manifest json_loads left) (\<lambda>l. bind_r (load_manifest json_loads right) (compare_manifests str_of l)) of
        Inl _ \<Rightarrow> 2
      | Inr differences \<Rightarrow> if differences = [] then 0 else 1)"

section \<open>The evidence of the mobile release\<close>

record evidence_lib =
  ev_json_loads :: "pytext \<Rightarrow> json option"
  ev_b64decode :: "pytext \<Rightarrow> bytes option"

definition MOBILE_IMAGE_PREFIX :: pytext where
  "MOBILE_IMAGE_PREFIX = text_of ''ghcr.io/gcs-saker/gcs-mobile-publisher@sha256:''"

definition BUNDLE_MEDIA_TYPE :: pytext where
  "BUNDLE_MEDIA_TYPE = text_of ''application/vnd.dev.sigstore.bundle.v0.3+json''"

definition STATEMENT_TYPE :: pytext where
  "STATEMENT_TYPE = text_of ''https://in-toto.io/Statement/v1''"

definition PREDICATE_TYPE :: pytext where
  "PREDICATE_TYPE = text_of ''https://sigstore.dev/cosign/sign/v1''"

definition load_object :: "evidence_lib \<Rightarrow> bytes option \<Rightarrow> evidence_error + json_dict" where
  "load_object lib content =
     bind_r (load_document_of (ev_json_loads lib) content) (\<lambda>v.
       case v of JObj d \<Rightarrow> Inr d | _ \<Rightarrow> Inl (EvidenceError ''file must contain an object''))"

definition decode_statement :: "evidence_lib \<Rightarrow> json_dict \<Rightarrow> evidence_error + json_dict" where
  "decode_statement lib envelope_of =
     (case json_get envelope_of ''dsseEnvelope'' of
        JObj envelope \<Rightarrow>
          (case json_get envelope ''payload'' of
             JStr payload \<Rightarrow>
               (case Option.bind (ev_b64decode lib payload)
                       (\<lambda>bs. case utf8_decode bs of Inl _ \<Rightarrow> None | Inr t \<Rightarrow> ev_json_loads lib t) of
                  None \<Rightarrow> Inl (EvidenceError ''DSSE payload is invalid'')
                | Some (JObj statement) \<Rightarrow> Inr statement
                | Some _ \<Rightarrow> Inl (EvidenceError ''DSSE payload must contain an object''))
           | _ \<Rightarrow> Inl (EvidenceError ''DSSE envelope is missing its payload''))
      | _ \<Rightarrow> Inl (EvidenceError ''Sigstore bundle is missing its DSSE envelope''))"

definition validate_subject :: "json_dict \<Rightarrow> pytext \<Rightarrow> evidence_error + unit" where
  "validate_subject statement expected_digest =
     (if json_get statement ''_type'' \<noteq> JStr STATEMENT_TYPE then Inl (EvidenceError ''unexpected in-toto statement type'')
      else if json_get statement ''predicateType'' \<noteq> JStr PREDICATE_TYPE
      then Inl (EvidenceError ''unexpected Cosign predicate type'')
      else
        (case json_get statement ''subject'' of
           JList [subject] \<Rightarrow>
             (case (case subject of JObj s \<Rightarrow> json_get s ''digest'' | _ \<Rightarrow> JNull) of
                JObj digest \<Rightarrow>
                  if json_get digest ''sha256'' = JStr expected_digest then Inr ()
                  else Inl (EvidenceError ''statement subject does not match the mobile image digest'')
              | _ \<Rightarrow> Inl (EvidenceError ''statement subject does not match the mobile image digest''))
         | _ \<Rightarrow> Inl (EvidenceError ''statement must bind exactly one subject'')))"

text \<open>The digest in a full match of the image pattern.\<close>

definition image_digest :: "json \<Rightarrow> pytext option" where
  "image_digest reference =
     (case reference of
        JStr s \<Rightarrow>
          if starts_with MOBILE_IMAGE_PREFIX s \<and> hex_text 64 (drop (length MOBILE_IMAGE_PREFIX) s)
          then Some (drop (length MOBILE_IMAGE_PREFIX) s) else None
      | _ \<Rightarrow> None)"

definition verify_mobile :: "evidence_lib \<Rightarrow> bytes option \<Rightarrow> bytes option \<Rightarrow> evidence_error + unit" where
  "verify_mobile lib entry_file bundle_file =
     bind_r (load_object lib entry_file) (\<lambda>entry.
     case image_digest (json_get entry ''image'') of
       None \<Rightarrow> Inl (EvidenceError ''mobile release entry has an unapproved image reference'')
     | Some digest \<Rightarrow>
         if json_get entry ''service'' \<noteq> JStr (text_of ''mobile-publisher'')
         then Inl (EvidenceError ''mobile release entry has an unapproved image reference'')
         else if json_get entry ''licenseReleaseAllowed'' \<noteq> JBool True
         then Inl (EvidenceError ''mobile release entry is not approved for distribution'')
         else
           bind_r (load_object lib bundle_file) (\<lambda>sigstore.
           if json_get sigstore ''mediaType'' \<noteq> JStr BUNDLE_MEDIA_TYPE then Inl (EvidenceError ''unsupported Sigstore bundle format'')
           else if (case json_get sigstore ''verificationMaterial'' of JObj _ \<Rightarrow> False | _ \<Rightarrow> True)
           then Inl (EvidenceError ''Sigstore verification material is missing'')
           else bind_r (decode_statement lib sigstore) (\<lambda>statement. validate_subject statement digest)))"

text \<open>The exit code: 2 for a reported error, 1 for an exception that is not caught.\<close>

definition mobile_main :: "evidence_lib \<Rightarrow> bytes option \<Rightarrow> bytes option \<Rightarrow> int" where
  "mobile_main lib entry_file bundle_file =
     (case verify_mobile lib entry_file bundle_file of Inr _ \<Rightarrow> 0 | Inl EvidenceCrash \<Rightarrow> 1 | Inl _ \<Rightarrow> 2)"

section \<open>Properties\<close>

lemma migration_map_ok: "migration_map str_of manifest = Inr d \<Longrightarrow> dict_ok d"
proof -
  have "dict_ok d \<Longrightarrow> dict_ok (fold (\<lambda>(path, checksum). dict_set path checksum) xs d)" for xs :: "(pytext \<times> pytext) list" and d
    by (induction xs arbitrary: d) auto
  then show "migration_map str_of manifest = Inr d \<Longrightarrow> dict_ok d"
    by (auto simp: migration_map_def split: json.splits)
qed

lemma same_dict_iff: "same_dict d e \<longleftrightarrow> dict_get d = dict_get e"
proof
  assume "same_dict d e"
  then have "dict_get d k = dict_get e k" for k
    by (cases "k \<in> set (dict_keys d)"; cases "k \<in> set (dict_keys e)")
      (auto simp: same_dict_def list_all_iff dict_get_None_iff [symmetric])
  then show "dict_get d = dict_get e" ..
qed (simp add: same_dict_def list_all_iff dict_get_None_iff)

text \<open>
  the report finds every drift. Two accepted manifests are in sync exactly when all compared fields
  are equal and the migrations are, as maps from path to checksum; otherwise the lists of the
  migration difference hold, in order, the paths that only one of them has and the paths whose
  checksums differ.
\<close>

theorem drift_found_iff:
  assumes "migration_map str_of left = Inr l" and "migration_map str_of right = Inr r"
  shows "(compare_manifests str_of left right = Inr [] \<longleftrightarrow>
      (\<forall>f \<in> set COMPARABLE_FIELDS. py_eq (json_get left f) (json_get right f)) \<and> dict_get l = dict_get r) \<and>
    set (left_only (migration_difference l r)) = {p. dict_get l p \<noteq> None \<and> dict_get r p = None} \<and>
    set (right_only (migration_difference l r)) = {p. dict_get r p \<noteq> None \<and> dict_get l p = None} \<and>
    set (checksum_mismatch (migration_difference l r)) = {p. dict_get l p \<noteq> None \<and> dict_get r p \<noteq> None \<and> dict_get l p \<noteq> dict_get r p} \<and>
    sorted (left_only (migration_difference l r)) \<and> sorted (right_only (migration_difference l r)) \<and>
    sorted (checksum_mismatch (migration_difference l r))"
proof -
  have keys: "p \<in> set (dict_keys d) \<longleftrightarrow> dict_get d p \<noteq> None" for p and d :: "(pytext, pytext) dict"
    by (simp add: dict_get_None_iff)
  have "compare_manifests str_of left right = Inr [] \<longleftrightarrow>
      (\<forall>f \<in> set COMPARABLE_FIELDS. py_eq (json_get left f) (json_get right f)) \<and> same_dict l r"
    using assms by (auto simp: compare_manifests_def filter_empty_conv)
  then show ?thesis by (auto simp: same_dict_iff migration_difference_def keys)
qed

text \<open>
  an accepted mobile release is bound to its bundle. The entry is the one of the mobile publisher,
  approved for distribution, with an image of the project's registry by digest; the bundle's signed
  statement has the expected types and exactly one subject, whose digest is the one of that image.
\<close>

theorem mobile_release_bound:
  assumes "mobile_main lib entry_file bundle_file = 0"
  shows "\<exists>entry digest sigstore statement subject digests.
    load_object lib entry_file = Inr entry \<and> load_object lib bundle_file = Inr sigstore \<and>
    json_get entry ''service'' = JStr (text_of ''mobile-publisher'') \<and> json_get entry ''licenseReleaseAllowed'' = JBool True \<and>
    json_get entry ''image'' = JStr (MOBILE_IMAGE_PREFIX @ digest) \<and> hex_text 64 digest \<and>
    decode_statement lib sigstore = Inr statement \<and> json_get statement ''predicateType'' = JStr PREDICATE_TYPE \<and>
    json_get statement ''subject'' = JList [JObj subject] \<and> json_get subject ''digest'' = JObj digests \<and>
    json_get digests ''sha256'' = JStr digest"
proof -
  from assms have "verify_mobile lib entry_file bundle_file = Inr ()"
    by (auto simp: mobile_main_def split: sum.splits evidence_error.splits)
  then obtain entry digest sigstore statement where parts: "load_object lib entry_file = Inr entry"
      "image_digest (json_get entry ''image'') = Some digest" "json_get entry ''service'' = JStr (text_of ''mobile-publisher'')"
      "json_get entry ''licenseReleaseAllowed'' = JBool True" "load_object lib bundle_file = Inr sigstore"
      "decode_statement lib sigstore = Inr statement" "validate_subject statement digest = Inr ()"
    by (auto simp: verify_mobile_def bind_r_eq_Inr simp del: text_of_simps split: option.splits if_splits)
  from parts(2) have image: "json_get entry ''image'' = JStr (MOBILE_IMAGE_PREFIX @ digest) \<and> hex_text 64 digest"
    by (auto simp: image_digest_def starts_with_iff split: json.splits if_splits)
  from parts(7) obtain subject digests where "json_get statement ''predicateType'' = JStr PREDICATE_TYPE"
      "json_get statement ''subject'' = JList [JObj subject]" "json_get subject ''digest'' = JObj digests"
      "json_get digests ''sha256'' = JStr digest"
    by (auto simp: validate_subject_def split: if_splits json.splits list.splits)
  with parts(1,3-6) image show ?thesis by blast
qed

section \<open>Sample documents\<close>

definition drift_left :: json_dict where
  "drift_left =
     [(text_of ''flywayMigrations'', JList [JObj [(text_of ''path'', JStr [49]), (text_of ''sha256'', JStr [97])],
                                            JObj [(text_of ''path'', JStr [50]), (text_of ''sha256'', JStr [97])]])]"

definition drift_right :: json_dict where
  "drift_right = [(text_of ''flywayMigrations'', JList [JObj [(text_of ''path'', JStr [49]), (text_of ''sha256'', JStr [98])]])]"

lemma drift_maps:
  "migration_map str_of drift_left = Inr [([49], [97]), ([50], [97])]" "migration_map str_of drift_right = Inr [([49], [98])]"
  by (simp_all add: migration_map_def drift_left_def drift_right_def json_get_Cons migration_item_def dict_get_def text_of_eq_iff
      List.map_filter_def del: text_of_simps)

theorem drift_found_iff_witness:
  "compare_manifests (\<lambda>_. []) drift_left drift_right \<noteq> Inr [] \<and>
   set (left_only (migration_difference [([49], [97]), ([50], [97])] [([49], [98])])) = {[50]} \<and>
   set (checksum_mismatch (migration_difference [([49], [97]), ([50], [97])] [([49], [98])])) = {[49]}"
proof -
  have "dict_get [([49], [97]), ([50], [97])] [49] \<noteq> (dict_get [([49], [98])] ([49] :: pytext) :: pytext option)" by (simp add: dict_get_def)
  then have "dict_get [([49], [97]), ([50], [97])] \<noteq> (dict_get [([49], [98])] :: pytext \<Rightarrow> pytext option)" by metis
  with drift_found_iff [OF drift_maps, of "\<lambda>_. []"] show ?thesis by (auto simp: dict_get_def split: if_splits)
qed

definition mobile_digest :: pytext where
  "mobile_digest = replicate 64 97"

definition mobile_entry :: json_dict where
  "mobile_entry =
     [(text_of ''service'', JStr (text_of ''mobile-publisher'')), (text_of ''licenseReleaseAllowed'', JBool True),
      (text_of ''image'', JStr (MOBILE_IMAGE_PREFIX @ mobile_digest))]"

definition mobile_statement :: json_dict where
  "mobile_statement =
     [(text_of ''_type'', JStr STATEMENT_TYPE), (text_of ''predicateType'', JStr PREDICATE_TYPE),
      (text_of ''subject'', JList [JObj [(text_of ''digest'', JObj [(text_of ''sha256'', JStr mobile_digest)])]])]"

definition mobile_bundle :: json_dict where
  "mobile_bundle =
     [(text_of ''mediaType'', JStr BUNDLE_MEDIA_TYPE), (text_of ''verificationMaterial'', JObj []),
      (text_of ''dsseEnvelope'', JObj [(text_of ''payload'', JStr [99])])]"

definition mobile_lib :: evidence_lib where
  "mobile_lib =
     \<lparr>ev_json_loads = (\<lambda>t. Some (JObj (if t = [97] then mobile_entry else if t = [98] then mobile_bundle else mobile_statement))),
      ev_b64decode = (\<lambda>_. Some [99])\<rparr>"

lemma mobile_texts: "read_text [97] = Some [97]" "read_text [98] = Some [98]" "utf8_decode [99] = Inr [99]"
  by code_simp+

lemma mobile_accepted: "mobile_main mobile_lib (Some [97]) (Some [98]) = 0"
proof -
  have loaded: "load_object mobile_lib (Some [97]) = Inr mobile_entry" "load_object mobile_lib (Some [98]) = Inr mobile_bundle"
    by (simp_all add: load_object_def load_document_of_def mobile_texts mobile_lib_def)
  have "image_digest (json_get mobile_entry ''image'') = Some mobile_digest"
    by (simp add: mobile_entry_def json_get_Cons image_digest_def starts_with_iff mobile_digest_def hex_text_def hex_char_def list_all_iff del: text_of_simps)
  moreover have "json_get mobile_entry ''service'' = JStr (text_of ''mobile-publisher'')"
      "json_get mobile_entry ''licenseReleaseAllowed'' = JBool True"
    by (simp_all add: mobile_entry_def json_get_Cons del: text_of_simps)
  moreover have "json_get mobile_bundle ''mediaType'' = JStr BUNDLE_MEDIA_TYPE" "json_get mobile_bundle ''verificationMaterial'' = JObj []"
      "json_get mobile_bundle ''dsseEnvelope'' = JObj [(text_of ''payload'', JStr [99])]"
    by (simp_all add: mobile_bundle_def json_get_Cons del: text_of_simps)
  moreover from this have "decode_statement mobile_lib mobile_bundle = Inr mobile_statement"
    by (simp add: decode_statement_def json_get_Cons mobile_lib_def mobile_texts del: text_of_simps)
  moreover have "validate_subject mobile_statement mobile_digest = Inr ()"
    by (simp add: validate_subject_def mobile_statement_def json_get_Cons del: text_of_simps)
  ultimately show ?thesis by (simp add: mobile_main_def verify_mobile_def loaded)
qed

theorem mobile_release_bound_witness:
  "\<exists>statement subject digests. decode_statement mobile_lib mobile_bundle = Inr statement \<and>
     json_get statement ''subject'' = JList [JObj subject] \<and> json_get subject ''digest'' = JObj digests"
proof -
  have "load_object mobile_lib (Some [98]) = Inr mobile_bundle"
    by (simp add: load_object_def load_document_of_def mobile_texts mobile_lib_def)
  with mobile_release_bound [OF mobile_accepted] show ?thesis by fastforce
qed

end
