(* ===== verification/Health_Probe.thy ===== *)
theory Health_Probe
  imports Ops_Base
begin

text \<open>
  The health and readiness contract seen from outside, \<open>scripts/ops/health_readiness_check.py\<close>: the
  static check of the document, the MediaMTX configuration, the Compose file and the Dockerfile, and
  the probe of a running system. The network is an argument.
\<close>

section \<open>The static check\<close>

text \<open>A \<open>SystemExit\<close> with its message, or an exception that is not caught.\<close>

datatype probe_error = ProbeExit string | ProbeException

definition require_probe :: "bool \<Rightarrow> string \<Rightarrow> probe_error + unit" where
  "require_probe condition message = (if condition then Inr () else Inl (ProbeExit message))"

text \<open>The last term says in Korean that no sensitive information is exposed.\<close>

definition REQUIRED_DOC_TERMS :: "pytext list" where
  "REQUIRED_DOC_TERMS =
     map text_of [''/healthz'', ''/readyz'', ''/metrics'', ''MediaMTX'', ''Docker'', ''Nginx''] @
     [[0xBBFC, 0xAC10, 32, 0xC815, 0xBCF4, 0xB97C, 32, 0xB178, 0xCD9C, 0xD558, 0xC9C0, 32, 0xC54A, 0xB294, 0xB2E4]]"

definition MEDIAMTX_TERMS :: "(string \<times> string) list" where
  "MEDIAMTX_TERMS =
     [(''api: true'', ''MediaMTX API must be enabled for internal stream discovery''),
      (''apiAddress: :9997'', ''MediaMTX API must listen only inside the container network''),
      (''authInternalUsers:'', ''MediaMTX API access must be constrained by internal auth policy''),
      (''172.16.0.0/12'', ''MediaMTX API must allow Docker-internal backend access''),
      (''metrics: false'', ''MediaMTX metrics must stay disabled by default'')]"

definition published_port_lines :: "pytext \<Rightarrow> pytext list" where
  "published_port_lines compose_text = filter (starts_with [45]) (map py_strip (py_splitlines compose_text))"

definition read_probe_text :: "bytes option \<Rightarrow> probe_error + pytext" where
  "read_probe_text content = (case Option.bind content read_text of None \<Rightarrow> Inl ProbeException | Some t \<Rightarrow> Inr t)"

definition run_static_check :: "bytes option \<Rightarrow> bytes option \<Rightarrow> bytes option \<Rightarrow> bytes option \<Rightarrow> probe_error + unit" where
  "run_static_check doc_file mediamtx_file compose_file docker_file =
     bind_r (read_probe_text doc_file) (\<lambda>doc.
     bind_r (read_probe_text mediamtx_file) (\<lambda>mediamtx_config.
     bind_r (read_probe_text compose_file) (\<lambda>compose_text.
     bind_r (read_probe_text docker_file) (\<lambda>dockerfile.
     bind_r (map_r (\<lambda>t. require_probe (contains t doc) ''missing documented term'') REQUIRED_DOC_TERMS) (\<lambda>_.
     bind_r (map_r (\<lambda>(t, message). require_probe (contains (text_of t) mediamtx_config) message) MEDIAMTX_TERMS) (\<lambda>_.
     let lines = published_port_lines compose_text in
     bind_r (require_probe (\<not> list_ex (contains (text_of ''9997'')) lines) ''MediaMTX management API port must not be published'') (\<lambda>_.
     bind_r (require_probe (\<not> list_ex (contains (text_of ''9998'')) lines) ''MediaMTX metrics port must not be published'') (\<lambda>_.
       require_probe (contains (text_of ''HEALTHCHECK'') dockerfile \<and> contains (text_of ''/healthz'') dockerfile)
         ''backend Dockerfile needs healthz healthcheck''))))))))"

section \<open>The live probe\<close>

text \<open>\<open>urlopen\<close> answers with a status and a body, or raises an \<open>OSError\<close>, also for an error status.\<close>

record probe_network =
  pn_get :: "pytext \<Rightarrow> (int \<times> bytes) option"
  pn_connect :: "pytext \<Rightarrow> int \<Rightarrow> bool"
  pn_json_loads :: "pytext \<Rightarrow> json option"

definition fetch_json :: "probe_network \<Rightarrow> pytext \<Rightarrow> probe_error + json" where
  "fetch_json net url =
     (case pn_get net url of
        None \<Rightarrow> Inl (ProbeExit ''Failed to fetch'')
      | Some (status, body) \<Rightarrow>
          (case utf8_decode body of
             Inl _ \<Rightarrow> Inl ProbeException
           | Inr t \<Rightarrow>
               bind_r (require_probe (status = 200) ''unexpected status'') (\<lambda>_.
                 case pn_json_loads net t of None \<Rightarrow> Inl (ProbeExit ''Failed to fetch'') | Some v \<Rightarrow> Inr v)))"

definition status_ok :: "json \<Rightarrow> probe_error + bool" where
  "status_ok v = (case v of JObj d \<Rightarrow> Inr (json_get d ''status'' = JStr (text_of ''ok'')) | _ \<Rightarrow> Inl ProbeException)"

definition require_tcp :: "probe_network \<Rightarrow> pytext \<Rightarrow> int \<Rightarrow> probe_error + unit" where
  "require_tcp net host port = require_probe (pn_connect net host port) ''port is not reachable''"

record probe_args =
  pa_backend_url :: pytext
  pa_mediamtx_host :: pytext
  pa_hls_port :: int
  pa_webrtc_port :: int
  pa_playback_url :: pytext

definition run_live_probe :: "probe_network \<Rightarrow> probe_args \<Rightarrow> probe_error + unit" where
  "run_live_probe net args =
     (let base = strip_right (\<lambda>c. c = 47) (pa_backend_url args) in
      bind_r (fetch_json net (base @ text_of ''/healthz'')) (\<lambda>health.
      bind_r (fetch_json net (base @ text_of ''/readyz'')) (\<lambda>ready.
      bind_r (bind_r (status_ok health) (\<lambda>ok. require_probe ok ''backend /healthz is not ok'')) (\<lambda>_.
      bind_r (bind_r (status_ok ready) (\<lambda>ok. require_probe ok ''backend /readyz is not ok'')) (\<lambda>_.
      bind_r (require_tcp net (pa_mediamtx_host args) (pa_hls_port args)) (\<lambda>_.
      bind_r (require_tcp net (pa_mediamtx_host args) (pa_webrtc_port args)) (\<lambda>_.
        if pa_playback_url args = [] then Inr ()
        else (case pn_get net (pa_playback_url args) of
                None \<Rightarrow> Inl ProbeException
              | Some (status, _) \<Rightarrow> require_probe (200 \<le> status \<and> status < 500) ''unexpected playback status''))))))))"

section \<open>What a passed check shows\<close>

lemma require_probe_Inr [simp]: "require_probe c message = Inr u \<longleftrightarrow> c"
  by (simp add: require_probe_def)

lemma map_r_require: "map_r (\<lambda>x. require_probe (P x) (message x)) xs = Inr us \<Longrightarrow> \<forall>x \<in> set xs. P x"
  by (induction xs arbitrary: us) (auto simp: bind_r_eq_Inr)

text \<open>
  The check of the files passes only when no published port line of the Compose file names one of
  the management ports, and the document names every required term.
\<close>

theorem static_check_sound:
  assumes "run_static_check doc_file mediamtx_file compose_file docker_file = Inr ()"
  shows "\<exists>doc compose_text. read_probe_text doc_file = Inr doc \<and> read_probe_text compose_file = Inr compose_text \<and>
    (\<forall>t \<in> set REQUIRED_DOC_TERMS. contains t doc) \<and>
    (\<forall>l \<in> set (published_port_lines compose_text). \<not> contains (text_of ''9997'') l \<and> \<not> contains (text_of ''9998'') l)"
proof -
  from assms obtain doc compose_text us where "read_probe_text doc_file = Inr doc" "read_probe_text compose_file = Inr compose_text"
      "map_r (\<lambda>t. require_probe (contains t doc) ''missing documented term'') REQUIRED_DOC_TERMS = Inr us"
      "\<not> list_ex (contains (text_of ''9997'')) (published_port_lines compose_text)"
      "\<not> list_ex (contains (text_of ''9998'')) (published_port_lines compose_text)"
    by (auto simp: run_static_check_def bind_r_eq_Inr Let_def simp del: text_of_simps)
  with map_r_require show ?thesis by (fastforce simp: list_ex_iff)
qed

text \<open>The live probe passes only when both endpoints report \<open>ok\<close> and both media ports accept connections.\<close>

theorem live_probe_sound:
  assumes "run_live_probe net args = Inr ()"
  shows "(\<forall>path \<in> {''/healthz'', ''/readyz''}. \<exists>d. fetch_json net (strip_right (\<lambda>c. c = 47) (pa_backend_url args) @ text_of path) = Inr (JObj d) \<and>
      json_get d ''status'' = JStr (text_of ''ok'')) \<and>
    pn_connect net (pa_mediamtx_host args) (pa_hls_port args) \<and> pn_connect net (pa_mediamtx_host args) (pa_webrtc_port args)"
proof -
  have ok: "status_ok v = Inr True \<longleftrightarrow> (\<exists>d. v = JObj d \<and> json_get d ''status'' = JStr (text_of ''ok''))" for v
    by (cases v) (simp_all add: status_ok_def)
  show ?thesis
    using assms by (auto simp: run_live_probe_def bind_r_eq_Inr ok require_tcp_def Let_def simp del: text_of_simps)
qed

end
