(* ===== verification/Ice.thy ===== *)
theory Ice
  imports Ops_Base World
begin

text \<open>
  The check of the media path, \<open>scripts/smoke/webrtc_ice_smoke.py\<close> with \<open>ice_pair_observation.py\<close> and
  \<open>latency_budget.py\<close>: the session descriptions and their ICE candidates, the selected candidate pair,
  the relay-only policy, and a run from the offer to the first frames. The WebRTC runtime, the WHEP
  server and the clock are an argument (\<open>ice_session\<close>), as are the IP address library, the Unicode
  tables and \<open>float\<close>. What the run prints is left out.
\<close>

section \<open>Session descriptions\<close>

datatype ice_error = IceRuntimeError string | IceCrash

text \<open>\<open>il_private\<close>: an IP address that is private, loopback or link-local; other texts are not.\<close>

record ice_lib =
  il_private :: "pytext \<Rightarrow> bool"
  il_lower :: "pytext \<Rightarrow> pytext"
  il_upper :: "pytext \<Rightarrow> pytext"
  il_str_of :: "json \<Rightarrow> pytext"
  il_float :: "json \<Rightarrow> pyfloat option"

record candidate_summary =
  cs_total :: int
  cs_host :: int
  cs_srflx :: int
  cs_relay :: int
  cs_private_or_loopback :: int
  cs_public_or_dns :: int

record sdp_inspection =
  si_ice_ufrag :: bool
  si_ice_pwd :: bool
  si_fingerprint :: bool
  si_candidates :: candidate_summary
  si_video_media :: bool
  si_audio_media :: bool

definition si_candidate_count :: "sdp_inspection \<Rightarrow> int" where
  "si_candidate_count s = cs_total (si_candidates s)"

definition is_webrtc_ready :: "sdp_inspection \<Rightarrow> bool" where
  "is_webrtc_ready s \<longleftrightarrow> si_ice_ufrag s \<and> si_ice_pwd s \<and> si_fingerprint s \<and> 0 < si_candidate_count s"

definition candidate_type :: "pytext list \<Rightarrow> pytext" where
  "candidate_type parts =
     (case dropWhile (\<lambda>p. p \<noteq> text_of ''typ'') parts of _ # t # _ \<Rightarrow> t | _ \<Rightarrow> text_of ''unknown'')"

definition add_candidate :: "ice_lib \<Rightarrow> pytext \<Rightarrow> candidate_summary \<Rightarrow> candidate_summary" where
  "add_candidate lib line s =
     (let parts = py_words line;
          t = candidate_type parts;
          address = (if 4 < length parts then parts ! 4 else []);
          s = cs_total_update (\<lambda>n. n + 1) s;
          s = (if t = text_of ''host'' then cs_host_update (\<lambda>n. n + 1) s
               else if t = text_of ''srflx'' then cs_srflx_update (\<lambda>n. n + 1) s
               else if t = text_of ''relay'' then cs_relay_update (\<lambda>n. n + 1) s else s) in
      if il_private lib address then cs_private_or_loopback_update (\<lambda>n. n + 1) s
      else cs_public_or_dns_update (\<lambda>n. n + 1) s)"

definition summarize_candidates :: "ice_lib \<Rightarrow> pytext list \<Rightarrow> candidate_summary" where
  "summarize_candidates lib candidate_lines =
     fold (add_candidate lib) candidate_lines
       \<lparr>cs_total = 0, cs_host = 0, cs_srflx = 0, cs_relay = 0, cs_private_or_loopback = 0, cs_public_or_dns = 0\<rparr>"

definition is_candidate :: "pytext \<Rightarrow> bool" where
  "is_candidate line \<longleftrightarrow> starts_with (text_of ''a=candidate:'') line"

text \<open>\<open>str.splitlines\<close>, where a carriage return with or without a line feed is one break.\<close>

definition inspect_sdp :: "ice_lib \<Rightarrow> pytext \<Rightarrow> sdp_inspection" where
  "inspect_sdp lib sdp =
     (let lines = map py_strip (py_splitlines (universal_newlines sdp));
          has = (\<lambda>prefix. list_ex (starts_with (text_of prefix)) lines) in
      \<lparr>si_ice_ufrag = has ''a=ice-ufrag:'', si_ice_pwd = has ''a=ice-pwd:'', si_fingerprint = has ''a=fingerprint:'',
       si_candidates = summarize_candidates lib (filter is_candidate lines),
       si_video_media = has ''m=video '', si_audio_media = has ''m=audio ''\<rparr>)"

definition require_webrtc_sdp :: "ice_lib \<Rightarrow> pytext \<Rightarrow> ice_error + sdp_inspection" where
  "require_webrtc_sdp lib sdp =
     (let inspection = inspect_sdp lib sdp in
      if \<not> si_ice_ufrag inspection \<or> \<not> si_ice_pwd inspection \<or> \<not> si_fingerprint inspection \<or>
         si_candidate_count inspection = 0
      then Inl (IceRuntimeError ''SDP is missing WebRTC ICE data'') else Inr inspection)"

section \<open>Paths\<close>

datatype ice_path = DirectPath | RelayPath | UnknownPath

record selected_pair =
  sp_local_type :: pytext
  sp_remote_type :: pytext
  sp_protocol :: pytext
  sp_rtt_ms :: "pyfloat option"
  sp_path :: ice_path
  sp_relay_reason :: "string option"

record path_summary =
  ps_total :: nat
  ps_direct :: nat
  ps_relay :: nat
  ps_unknown :: nat
  ps_direct_ratio :: pyfloat
  ps_relay_ratio :: pyfloat

definition DIRECT_CANDIDATE_TYPES :: "pytext list" where
  "DIRECT_CANDIDATE_TYPES = map text_of [''host'', ''srflx'', ''prflx'']"

definition path_of_types :: "pytext \<Rightarrow> pytext \<Rightarrow> ice_path" where
  "path_of_types l r =
     (if text_of ''relay'' \<in> {l, r} then RelayPath
      else if {l, r} \<subseteq> set DIRECT_CANDIDATE_TYPES then DirectPath else UnknownPath)"

definition classify_ice_path :: "ice_lib \<Rightarrow> pytext \<Rightarrow> pytext \<Rightarrow> ice_path" where
  "classify_ice_path lib local_type remote_type =
     path_of_types (lower_text (il_lower lib) local_type) (lower_text (il_lower lib) remote_type)"

text \<open>\<open>round(n / d, digits)\<close> and \<open>round(x, digits)\<close>.\<close>

fun fround :: "nat \<Rightarrow> pyfloat \<Rightarrow> pyfloat" where
  "fround digits (Fin a) = mk_float (of_int (half_even (a * 10 ^ digits)) / 10 ^ digits)"
| "fround digits x = x"

definition summarize_ice_paths :: "selected_pair list \<Rightarrow> path_summary" where
  "summarize_ice_paths pairs =
     (let total = length pairs;
          direct = length (filter (\<lambda>p. sp_path p = DirectPath) pairs);
          relay = length (filter (\<lambda>p. sp_path p = RelayPath) pairs);
          ratio = (\<lambda>n. if total = 0 then Fin 0 else fround 4 (mk_float (of_nat n / of_nat total))) in
      \<lparr>ps_total = total, ps_direct = direct, ps_relay = relay, ps_unknown = total - direct - relay,
       ps_direct_ratio = ratio direct, ps_relay_ratio = ratio relay\<rparr>)"

definition infer_relay_fallback_reason ::
    "selected_pair option \<Rightarrow> sdp_inspection \<Rightarrow> sdp_inspection \<Rightarrow> string option" where
  "infer_relay_fallback_reason pair local_offer whep_answer =
     (case pair of
        None \<Rightarrow> Some ''selected_pair_unavailable''
      | Some p \<Rightarrow>
          if sp_path p \<noteq> RelayPath then None
          else if sp_local_type p = text_of ''relay'' \<and> sp_remote_type p = text_of ''relay''
          then Some ''both_sides_selected_relay_candidate''
          else if sp_local_type p = text_of ''relay'' then Some ''local_selected_relay_candidate''
          else if sp_remote_type p = text_of ''relay'' then Some ''remote_selected_relay_candidate''
          else if cs_srflx (si_candidates local_offer) = 0 \<and> cs_srflx (si_candidates whep_answer) = 0
          then Some ''server_reflexive_candidate_unavailable''
          else Some ''direct_candidate_failed_relay_selected'')"

section \<open>The selected pair in the statistics\<close>

text \<open>
  An entry of the statistics is the dictionary of its members, or of its attributes; an entry with
  neither is the empty one.
\<close>

definition stat_value :: "json_dict \<Rightarrow> string list \<Rightarrow> json \<Rightarrow> json" where
  "stat_value stat names fallback =
     (case List.find (\<lambda>n. dict_get stat (text_of n) \<noteq> None) names of None \<Rightarrow> fallback | Some n \<Rightarrow> json_get stat n)"

definition stats_by_id :: "ice_lib \<Rightarrow> json_dict list \<Rightarrow> (pytext, json_dict) dict" where
  "stats_by_id lib stats =
     fold (\<lambda>stat d. case stat_value stat [''id''] JNull of JNull \<Rightarrow> d | v \<Rightarrow> dict_set (json_text (il_str_of lib) v) stat d)
       stats []"

fun pair_from_transport :: "ice_lib \<Rightarrow> json_dict list \<Rightarrow> (pytext, json_dict) dict \<Rightarrow> json_dict option" where
  "pair_from_transport lib [] by_id = None"
| "pair_from_transport lib (stat # stats) by_id =
     (if stat_value stat [''type''] JNull \<noteq> JStr (text_of ''transport'') then pair_from_transport lib stats by_id
      else
        case stat_value stat [''selectedCandidatePairId'', ''selected_candidate_pair_id''] JNull of
          JNull \<Rightarrow> pair_from_transport lib stats by_id
        | v \<Rightarrow>
            (case dict_get by_id (json_text (il_str_of lib) v) of
               None \<Rightarrow> pair_from_transport lib stats by_id
             | Some p \<Rightarrow> Some p))"

definition pair_from_candidates :: "json_dict list \<Rightarrow> json_dict option" where
  "pair_from_candidates stats =
     (let pairs = filter (\<lambda>s. stat_value s [''type''] JNull = JStr (text_of ''candidate-pair'')) stats;
          succeeded = (\<lambda>s. stat_value s [''state''] JNull = JStr (text_of ''succeeded'')) in
      case List.find (\<lambda>s. stat_value s [''selected''] (JBool False) = JBool True) pairs of
        Some p \<Rightarrow> Some p
      | None \<Rightarrow>
          (case List.find (\<lambda>s. stat_value s [''nominated''] (JBool False) = JBool True \<and> succeeded s) pairs of
             Some p \<Rightarrow> Some p
           | None \<Rightarrow> List.find succeeded pairs))"

fun times_1000 :: "pyfloat \<Rightarrow> pyfloat" where
  "times_1000 (Fin a) = mk_float (a * 1000)"
| "times_1000 x = x"

definition extract_selected_ice_pair :: "ice_lib \<Rightarrow> json_dict list \<Rightarrow> ice_error + selected_pair option" where
  "extract_selected_ice_pair lib stats =
     (let by_id = stats_by_id lib stats;
          pair = (case pair_from_transport lib stats by_id of Some p \<Rightarrow> Some p | None \<Rightarrow> pair_from_candidates stats);
          text = json_text (il_str_of lib);
          candidate = (\<lambda>p names. case dict_get by_id (text (stat_value p names (JStr []))) of None \<Rightarrow> [] | Some c \<Rightarrow> c);
          type_of = (\<lambda>c. text (stat_value c [''candidateType'', ''candidate_type''] (JStr (text_of ''unknown'')))) in
      case pair of
        None \<Rightarrow> Inr None
      | Some p \<Rightarrow>
          let local = candidate p [''localCandidateId'', ''local_candidate_id''];
              remote = candidate p [''remoteCandidateId'', ''remote_candidate_id''];
              protocol = text (stat_value p [''protocol'']
                (stat_value local [''protocol''] (stat_value remote [''protocol''] (JStr (text_of ''unknown'')))));
              path = classify_ice_path lib (type_of local) (type_of remote) in
          bind_r (case stat_value p [''currentRoundTripTime'', ''current_round_trip_time''] JNull of
                    JNull \<Rightarrow> Inr None
                  | v \<Rightarrow> (case il_float lib v of None \<Rightarrow> Inl IceCrash | Some f \<Rightarrow> Inr (Some (fround 3 (times_1000 f))))) (\<lambda>rtt_ms.
          Inr (Some \<lparr>sp_local_type = type_of local, sp_remote_type = type_of remote, sp_protocol = protocol,
                     sp_rtt_ms = rtt_ms, sp_path = path,
                     sp_relay_reason = (if path = RelayPath then Some ''selected_pair_contains_relay_candidate'' else None)\<rparr>)))"

section \<open>The relay-only policy\<close>

text \<open>A connection inside the runtime: whether it and its policy have the attributes the code sets, and their values.\<close>

record ice_connection =
  ic_has_policy :: bool
  ic_has_relay :: bool
  ic_relay :: bool
  ic_use_ipv4 :: bool
  ic_use_ipv6 :: bool

fun enforce_transports :: "ice_connection option list \<Rightarrow> ice_connection option list \<times> (ice_error + unit)" where
  "enforce_transports [] = ([], Inr ())"
| "enforce_transports (None # ts) = (None # ts, Inl (IceRuntimeError ''relay-only policy is unsupported by this aiortc runtime''))"
| "enforce_transports (Some c # ts) =
     (if \<not> ic_has_policy c then (Some c # ts, Inl (IceRuntimeError ''relay-only policy is unsupported by this aiortc runtime''))
      else if \<not> ic_has_relay c then (Some c # ts, Inl (IceRuntimeError ''relay-only policy enum is unavailable''))
      else
        case enforce_transports ts of
          (ts', r) \<Rightarrow> (Some (c\<lparr>ic_relay := True, ic_use_ipv4 := False, ic_use_ipv6 := False\<rparr>) # ts', r))"

definition enforce_aiortc_relay_policy :: "ice_connection option list \<Rightarrow> ice_connection option list \<times> (ice_error + unit)" where
  "enforce_aiortc_relay_policy ts =
     (if ts = [] then (ts, Inl (IceRuntimeError ''relay-only policy could not find an ICE transport''))
      else enforce_transports ts)"

text \<open>\<open>s.replace("\r\n", "\n")\<close>.\<close>

fun crlf_to_lf :: "pytext \<Rightarrow> pytext" where
  "crlf_to_lf (a # b # s) = (if a = 13 \<and> b = 10 then 10 # crlf_to_lf s else a # crlf_to_lf (b # s))"
| "crlf_to_lf s = s"

definition relay_line :: "pytext \<Rightarrow> bool" where
  "relay_line line \<longleftrightarrow> is_candidate line \<and> contains (text_of '' typ relay '') (32 # line @ [32])"

definition relay_only_sdp :: "pytext \<Rightarrow> ice_error + pytext" where
  "relay_only_sdp sdp =
     (let lines = split_on 10 (crlf_to_lf sdp);
          relay_candidates = filter relay_line lines in
      if relay_candidates = [] then Inl (IceRuntimeError ''relay-only SDP has no relay candidate'')
      else Inr (join_with [13, 10] (filter (\<lambda>l. \<not> is_candidate l \<or> l \<in> set relay_candidates) lines)))"

text \<open>The runtime's nominated pairs: per transport a dictionary by component, if there is one.\<close>

record nominated_pair =
  np_local :: "(pytext \<times> pytext) option"
  np_remote :: "pytext option"

definition first_nominated :: "(int, nominated_pair option) dict \<Rightarrow> nominated_pair option" where
  "first_nominated d =
     (case dict_get d 1 of
        Some (Some p) \<Rightarrow> Some p
      | _ \<Rightarrow> (case d of [] \<Rightarrow> None | (_, p) # _ \<Rightarrow> p))"

fun observe_selected_pair :: "ice_lib \<Rightarrow> (int, nominated_pair option) dict option list \<Rightarrow> selected_pair option" where
  "observe_selected_pair lib [] = None"
| "observe_selected_pair lib (None # ts) = observe_selected_pair lib ts"
| "observe_selected_pair lib (Some d # ts) =
     (case first_nominated d of
        None \<Rightarrow> observe_selected_pair lib ts
      | Some p \<Rightarrow>
          (case (np_local p, np_remote p) of
             (Some (local_type, transport), Some remote_type) \<Rightarrow>
               Some \<lparr>sp_local_type = local_type, sp_remote_type = remote_type,
                     sp_protocol = lower_text (il_lower lib) transport, sp_rtt_ms = None,
                     sp_path = path_of_types local_type remote_type, sp_relay_reason = None\<rparr>
           | _ \<Rightarrow> observe_selected_pair lib ts))"

definition require_ice_path :: "selected_pair option \<Rightarrow> bool \<Rightarrow> ice_error + unit" where
  "require_ice_path observation relay_required =
     (case observation of
        None \<Rightarrow> Inl (IceRuntimeError ''selected ICE pair could not be observed'')
      | Some p \<Rightarrow>
          if relay_required \<and> sp_path p \<noteq> RelayPath
          then Inl (IceRuntimeError ''relay-only validation selected another ICE path'') else Inr ())"

section \<open>Latency budgets\<close>

datatype latency_profile = NoProfile | Playback | Talkback

datatype latency_class = LatencyPass | LatencyWarn | LatencyFail

record latency_budget =
  lb_warning_ms :: pyfloat
  lb_failure_ms :: pyfloat

definition BUDGETS :: "latency_profile \<Rightarrow> latency_budget option" where
  "BUDGETS profile =
     (case profile of
        Playback \<Rightarrow> Some \<lparr>lb_warning_ms = Fin 1000, lb_failure_ms = Fin 2000\<rparr>
      | Talkback \<Rightarrow> Some \<lparr>lb_warning_ms = Fin 500, lb_failure_ms = Fin 1000\<rparr>
      | NoProfile \<Rightarrow> None)"

definition classify_latency :: "latency_profile \<Rightarrow> pyfloat \<Rightarrow> ice_error + latency_class" where
  "classify_latency profile elapsed_ms =
     (case BUDGETS profile of
        None \<Rightarrow> Inl IceCrash
      | Some b \<Rightarrow>
          Inr (if fle (lb_failure_ms b) elapsed_ms then LatencyFail
               else if fle (lb_warning_ms b) elapsed_ms then LatencyWarn else LatencyPass))"

definition require_latency_budget :: "latency_profile \<Rightarrow> pyfloat \<Rightarrow> ice_error + unit" where
  "require_latency_budget profile elapsed_ms =
     bind_r (classify_latency profile elapsed_ms) (\<lambda>c.
     if c = LatencyFail then Inl (IceRuntimeError ''first-frame latency exceeded'') else Inr ())"

section \<open>A run\<close>

record ice_raw_args =
  ra_check :: bool
  ra_run :: bool
  ra_relay_only :: bool
  ra_require_relay_path :: bool
  ra_require_selected_pair :: bool
  ra_require_connected :: bool
  ra_require_video_frame :: bool
  ra_require_audio_frame :: bool
  ra_measure_sync :: bool
  ra_measure_keyframe_interval :: bool
  ra_enforce_latency_budget :: bool
  ra_latency_profile :: latency_profile
  ra_timeout_seconds :: pyfloat
  ra_hold_seconds :: pyfloat

text \<open>What \<open>parse_args\<close> derives from the options; \<open>None\<close> is the exit of the option parser.\<close>

definition derive_args :: "ice_raw_args \<Rightarrow> ice_raw_args option" where
  "derive_args a =
     (let a = (if ra_relay_only a then a\<lparr>ra_require_relay_path := True\<rparr> else a);
          a = (if ra_require_relay_path a then a\<lparr>ra_require_selected_pair := True\<rparr> else a) in
      if ra_check a \<and> ra_run a \<or> flt (ra_hold_seconds a) (Fin 0) then None
      else
        let a = (if ra_measure_sync a
                 then a\<lparr>ra_require_connected := True, ra_require_video_frame := True, ra_require_audio_frame := True\<rparr>
                 else a) in
        Some (if \<not> ra_check a \<and> \<not> ra_run a then a\<lparr>ra_check := True\<rparr> else a))"

record media_frame =
  mf_key_frame :: bool
  mf_pict_type :: pytext

definition is_keyframe :: "ice_lib \<Rightarrow> media_frame \<Rightarrow> bool" where
  "is_keyframe lib frame \<longleftrightarrow>
     mf_key_frame frame \<or>
     upper_text (il_upper lib) (mf_pict_type frame) \<in> text_of ` {''I'', ''1'', ''PICTURETYPE.I''}"

datatype whep_reply = WhepUnreachable | WhepReply "int option" bytes

text \<open>
  What one run meets. The states are those of the ICE connection: at the start of the wait, those its
  handler saw until the wait ended, and at its end; a frame is absent when it did not come in time.
\<close>

record ice_session =
  se_runtime :: bool
  se_transports :: "ice_connection option list"
  se_local_sdp :: "ice_connection option list \<Rightarrow> pytext option"
  se_whep :: "bytes \<Rightarrow> whep_reply"
  se_set_remote :: "pytext \<Rightarrow> bool"
  se_initial_state :: pytext
  se_seen_states :: "pytext list"
  se_final_state :: pytext
  se_stats :: "json_dict list option"
  se_nominated :: "(int, nominated_pair option) dict option list"
  se_started :: pyfloat
  se_video :: "(media_frame \<times> pyfloat) option"
  se_audio :: "(media_frame \<times> pyfloat) option"
  se_keyframe_interval_ms :: "pyfloat option"

record ice_world =
  iw_transports :: "ice_connection option list"
  iw_offers :: "bytes list"
  iw_closed :: bool

definition post_whep_offer :: "ice_session \<Rightarrow> pytext \<Rightarrow> (ice_world, ice_error, pytext) act" where
  "post_whep_offer s offer_sdp w =
     (case utf8_encode offer_sdp of
        Inl _ \<Rightarrow> (w, Inl IceCrash)
      | Inr body \<Rightarrow>
          (w\<lparr>iw_offers := iw_offers w @ [body]\<rparr>,
           (case se_whep s body of
              WhepUnreachable \<Rightarrow> Inl (IceRuntimeError ''WHEP answer request failed'')
            | WhepReply status payload \<Rightarrow>
                (case utf8_decode payload of
                   Inl _ \<Rightarrow> Inl IceCrash
                 | Inr answer \<Rightarrow>
                     if (case status of None \<Rightarrow> False | Some n \<Rightarrow> 400 \<le> n)
                     then Inl (IceRuntimeError ''WHEP answer request failed with HTTP status'')
                     else if py_strip answer = [] then Inl (IceRuntimeError ''WHEP answer response was empty'')
                     else Inr answer))))"

definition CONNECTED_ICE_STATES :: "pytext set" where
  "CONNECTED_ICE_STATES = text_of ` {''connected'', ''completed''}"

definition FAILED_ICE_STATES :: "pytext set" where
  "FAILED_ICE_STATES = text_of ` {''failed'', ''closed'', ''disconnected''}"

definition wait_for_ice_connected :: "ice_session \<Rightarrow> ice_error + unit" where
  "wait_for_ice_connected s =
     (if se_initial_state s \<in> CONNECTED_ICE_STATES then Inr ()
      else if \<not> list_ex (\<lambda>state. state \<in> CONNECTED_ICE_STATES \<union> FAILED_ICE_STATES) (se_seen_states s)
      then Inl (IceRuntimeError ''ICE connection did not reach connected/completed in time'')
      else if list_ex (\<lambda>state. state \<in> FAILED_ICE_STATES) (se_seen_states s)
      then Inl (IceRuntimeError ''ICE connection failed'')
      else if se_final_state s \<notin> CONNECTED_ICE_STATES
      then Inl (IceRuntimeError ''ICE connection did not reach connected/completed'')
      else Inr ())"

definition collect_selected_ice_pair :: "ice_lib \<Rightarrow> ice_session \<Rightarrow> ice_error + selected_pair option" where
  "collect_selected_ice_pair lib s =
     (case se_stats s of
        None \<Rightarrow> Inr None
      | Some stats \<Rightarrow>
          bind_r (extract_selected_ice_pair lib stats) (\<lambda>pair.
          Inr (case pair of Some p \<Rightarrow> Some p | None \<Rightarrow> observe_selected_pair lib (se_nominated s))))"

record first_frames =
  ff_video_frame :: "media_frame option"
  ff_video_elapsed_ms :: "pyfloat option"
  ff_audio_elapsed_ms :: "pyfloat option"
  ff_video_is_keyframe :: "bool option"
  ff_keyframe_interval_ms :: "pyfloat option"
  ff_keyframe_observation_ms :: "pyfloat option"

definition receive_required_frames :: "ice_lib \<Rightarrow> ice_session \<Rightarrow> ice_raw_args \<Rightarrow> ice_error + first_frames" where
  "receive_required_frames lib s a =
     (let elapsed = (\<lambda>r. times_1000 (fsub (snd r) (se_started s)));
          needed = (\<lambda>b r. if b then (case r of None \<Rightarrow> Inl IceCrash | Some r \<Rightarrow> Inr (Some r)) else Inr None) in
      if \<not> ra_require_video_frame a \<and> \<not> ra_require_audio_frame a
      then Inr \<lparr>ff_video_frame = None, ff_video_elapsed_ms = None, ff_audio_elapsed_ms = None,
                ff_video_is_keyframe = None, ff_keyframe_interval_ms = None, ff_keyframe_observation_ms = None\<rparr>
      else
        bind_r (needed (ra_require_video_frame a) (se_video s)) (\<lambda>video.
        bind_r (needed (ra_require_audio_frame a) (se_audio s)) (\<lambda>audio.
        Inr \<lparr>ff_video_frame = map_option fst video, ff_video_elapsed_ms = map_option elapsed video,
             ff_audio_elapsed_ms = map_option elapsed audio,
             ff_video_is_keyframe = map_option (\<lambda>r. is_keyframe lib (fst r)) video,
             ff_keyframe_interval_ms =
               (if video \<noteq> None \<and> ra_measure_keyframe_interval a then se_keyframe_interval_ms s else None),
             ff_keyframe_observation_ms =
               (if ra_measure_keyframe_interval a then Some (times_1000 (ra_timeout_seconds a)) else None)\<rparr>)))"

definition enforce_latency_budget :: "ice_raw_args \<Rightarrow> first_frames \<Rightarrow> ice_error + unit" where
  "enforce_latency_budget a frames =
     (if \<not> ra_enforce_latency_budget a \<or> ra_latency_profile a = NoProfile then Inr ()
      else
        case (case ff_video_elapsed_ms frames of Some e \<Rightarrow> Some e | None \<Rightarrow> ff_audio_elapsed_ms frames) of
          None \<Rightarrow> Inl (IceRuntimeError ''latency budget requires a decoded media frame'')
        | Some elapsed_ms \<Rightarrow> require_latency_budget (ra_latency_profile a) elapsed_ms)"

record smoke_result =
  sm_local_inspection :: sdp_inspection
  sm_answer_inspection :: sdp_inspection
  sm_selected_pair :: "selected_pair option"
  sm_path_summary :: path_summary
  sm_frames :: first_frames

definition relay_policy_step :: "bool \<Rightarrow> (ice_world, ice_error, unit) act" where
  "relay_policy_step relay_only w =
     (if relay_only
      then case enforce_aiortc_relay_policy (iw_transports w) of (ts, r) \<Rightarrow> (w\<lparr>iw_transports := ts\<rparr>, r)
      else (w, Inr ()))"

definition local_offer_step :: "ice_session \<Rightarrow> (ice_world, ice_error, pytext) act" where
  "local_offer_step s w =
     (w, case se_local_sdp s (iw_transports w) of
           None \<Rightarrow> Inl (IceRuntimeError ''Local WebRTC offer SDP was not created'')
         | Some sdp \<Rightarrow> if sdp = [] then Inl (IceRuntimeError ''Local WebRTC offer SDP was not created'') else Inr sdp)"

definition observe_media ::
    "ice_lib \<Rightarrow> ice_session \<Rightarrow> ice_raw_args \<Rightarrow> sdp_inspection \<Rightarrow> sdp_inspection \<Rightarrow> ice_error + smoke_result" where
  "observe_media lib s a local_inspection answer_inspection =
     bind_r (if ra_require_connected a \<or> ra_require_video_frame a then wait_for_ice_connected s else Inr ()) (\<lambda>_.
     bind_r (collect_selected_ice_pair lib s) (\<lambda>pair.
     bind_r (if ra_require_selected_pair a then require_ice_path pair (ra_require_relay_path a) else Inr ()) (\<lambda>_.
     let pair = map_option
           (\<lambda>p. p\<lparr>sp_relay_reason := infer_relay_fallback_reason (Some p) local_inspection answer_inspection\<rparr>) pair in
     bind_r (receive_required_frames lib s a) (\<lambda>frames.
     bind_r (enforce_latency_budget a frames) (\<lambda>_.
     Inr \<lparr>sm_local_inspection = local_inspection, sm_answer_inspection = answer_inspection, sm_selected_pair = pair,
          sm_path_summary = summarize_ice_paths (case pair of None \<Rightarrow> [] | Some p \<Rightarrow> [p]), sm_frames = frames\<rparr>)))))"

definition run_webrtc_smoke :: "ice_lib \<Rightarrow> ice_session \<Rightarrow> ice_raw_args \<Rightarrow> (ice_world, ice_error, smoke_result) act" where
  "run_webrtc_smoke lib s a =
     bind_w (return_w (if se_runtime s then Inr () else Inl (IceRuntimeError ''aiortc is required for --run''))) (\<lambda>_.
     finally_w
       (bind_w (relay_policy_step (ra_relay_only a)) (\<lambda>_.
        bind_w (local_offer_step s) (\<lambda>local_sdp.
        bind_w (return_w (require_webrtc_sdp lib local_sdp)) (\<lambda>local_inspection.
        bind_w (return_w (if ra_relay_only a then relay_only_sdp local_sdp else Inr local_sdp)) (\<lambda>offer_sdp.
        bind_w (post_whep_offer s offer_sdp) (\<lambda>answer_sdp.
        bind_w (return_w (require_webrtc_sdp lib answer_sdp)) (\<lambda>answer_inspection.
        bind_w (return_w (if se_set_remote s answer_sdp then Inr () else Inl IceCrash)) (\<lambda>_.
        return_w (observe_media lib s a local_inspection answer_inspection)))))))))
       (\<lambda>w. (w\<lparr>iw_closed := True\<rparr>, Inr ())))"

text \<open>The constant description of \<open>run_static_check\<close> has its lines joined by line ends.\<close>

definition STATIC_SDP :: pytext where
  "STATIC_SDP = join_with [13, 10] (map text_of
     [''v=0'', ''o=- 0 0 IN IP4 127.0.0.1'', ''s=-'', ''t=0 0'', ''a=ice-ufrag:sampleUfrag'', ''a=ice-pwd:samplePassword'',
      ''a=fingerprint:sha-256 00:11:22:33'', ''m=video 9 UDP/TLS/RTP/SAVPF 96'', ''m=audio 9 UDP/TLS/RTP/SAVPF 111'',
      ''a=candidate:1 1 udp 2130706431 127.0.0.1 8189 typ host''])"

definition run_static_sdp_check :: "ice_lib \<Rightarrow> ice_error + unit" where
  "run_static_sdp_check lib =
     bind_r (require_webrtc_sdp lib STATIC_SDP) (\<lambda>inspection.
     if \<not> si_video_media inspection then Inl (IceRuntimeError ''sample SDP should include a video media section'')
     else if \<not> si_audio_media inspection then Inl (IceRuntimeError ''sample SDP should include an audio media section'')
     else Inr ())"

definition ice_main :: "ice_lib \<Rightarrow> ice_session \<Rightarrow> ice_raw_args \<Rightarrow> ice_world \<Rightarrow> ice_world \<times> int" where
  "ice_main lib s raw w =
     (case derive_args raw of
        None \<Rightarrow> (w, 2)
      | Some a \<Rightarrow>
          if ra_check a then (w, if is_ok (run_static_sdp_check lib) then 0 else 1)
          else (case run_webrtc_smoke lib s a w of (w', r) \<Rightarrow> (w', if is_ok r then 0 else 1)))"

section \<open>Candidate counts and reasons\<close>

text \<open>
  The counts of a description: each candidate is counted once in the total and once as private or
  public, and at most once by its type.
\<close>

lemma candidates_counted:
  "cs_total (fold (add_candidate lib) ls s) = cs_total s + int (length ls) \<and>
   cs_private_or_loopback (fold (add_candidate lib) ls s) + cs_public_or_dns (fold (add_candidate lib) ls s) =
     cs_private_or_loopback s + cs_public_or_dns s + int (length ls) \<and>
   cs_host (fold (add_candidate lib) ls s) + cs_srflx (fold (add_candidate lib) ls s) + cs_relay (fold (add_candidate lib) ls s) \<le>
     cs_host s + cs_srflx s + cs_relay s + int (length ls)"
proof (induction ls arbitrary: s)
  case (Cons l ls)
  have "cs_total (add_candidate lib l s) = cs_total s + 1 \<and>
      cs_private_or_loopback (add_candidate lib l s) + cs_public_or_dns (add_candidate lib l s) =
        cs_private_or_loopback s + cs_public_or_dns s + 1 \<and>
      cs_host (add_candidate lib l s) + cs_srflx (add_candidate lib l s) + cs_relay (add_candidate lib l s) \<le>
        cs_host s + cs_srflx s + cs_relay s + 1"
    by (simp add: add_candidate_def Let_def)
  then show ?case using Cons.IH [of "add_candidate lib l s"] by simp
qed simp

theorem summary_counts_once:
  "cs_total (summarize_candidates lib ls) = int (length ls) \<and>
   cs_private_or_loopback (summarize_candidates lib ls) + cs_public_or_dns (summarize_candidates lib ls) = int (length ls) \<and>
   cs_host (summarize_candidates lib ls) + cs_srflx (summarize_candidates lib ls) + cs_relay (summarize_candidates lib ls) \<le> int (length ls)"
  unfolding summarize_candidates_def
  using candidates_counted [of lib ls "\<lparr>cs_total = 0, cs_host = 0, cs_srflx = 0, cs_relay = 0,
    cs_private_or_loopback = 0, cs_public_or_dns = 0\<rparr>"] by simp

text \<open>
  The reasons that name a missing server-reflexive candidate or a failed direct one are never given
  for a pair whose types are written in lower case, as the runtimes write them: such a pair takes the
  relay path only when one of its types is \<open>relay\<close>, which an earlier branch reports.
\<close>

theorem relay_reason_names_side:
  assumes "sp_path p = classify_ice_path lib (sp_local_type p) (sp_remote_type p)"
    and "lower_text (il_lower lib) (sp_local_type p) = sp_local_type p"
    and "lower_text (il_lower lib) (sp_remote_type p) = sp_remote_type p"
  shows "infer_relay_fallback_reason (Some p) local_offer whep_answer =
    (if sp_path p \<noteq> RelayPath then None
     else if sp_local_type p = sp_remote_type p then Some ''both_sides_selected_relay_candidate''
     else if sp_local_type p = text_of ''relay'' then Some ''local_selected_relay_candidate''
     else Some ''remote_selected_relay_candidate'')"
  using assms by (auto simp: infer_relay_fallback_reason_def classify_ice_path_def path_of_types_def split: if_splits
      simp del: text_of_simps)

section \<open>A relay-only run\<close>

lemma relay_only_lines:
  assumes "relay_only_sdp sdp = Inr offer"
  shows "offer = join_with [13, 10] (filter (\<lambda>l. is_candidate l \<longrightarrow> relay_line l) (split_on 10 (crlf_to_lf sdp)))"
    and "\<exists>l \<in> set (split_on 10 (crlf_to_lf sdp)). relay_line l"
proof -
  have "filter (\<lambda>l. \<not> is_candidate l \<or> l \<in> set (filter relay_line (split_on 10 (crlf_to_lf sdp)))) (split_on 10 (crlf_to_lf sdp)) =
      filter (\<lambda>l. is_candidate l \<longrightarrow> relay_line l) (split_on 10 (crlf_to_lf sdp))"
    by (rule filter_cong) auto
  with assms show "offer = join_with [13, 10] (filter (\<lambda>l. is_candidate l \<longrightarrow> relay_line l) (split_on 10 (crlf_to_lf sdp)))"
      "\<exists>l \<in> set (split_on 10 (crlf_to_lf sdp)). relay_line l"
    by (auto simp: relay_only_sdp_def Let_def filter_empty_conv split: if_splits)
qed

definition relay_only_connection :: "ice_connection option \<Rightarrow> bool" where
  "relay_only_connection t \<longleftrightarrow> (\<exists>c. t = Some c \<and> ic_relay c \<and> \<not> ic_use_ipv4 c \<and> \<not> ic_use_ipv6 c)"

lemma enforced_transports: "enforce_transports ts = (ts', Inr ()) \<Longrightarrow> length ts' = length ts \<and> list_all relay_only_connection ts'"
  by (induction ts arbitrary: ts' rule: enforce_transports.induct)
    (auto simp: relay_only_connection_def split: if_splits prod.splits)

lemma enforced_policy: "enforce_aiortc_relay_policy ts = (ts', Inr ()) \<Longrightarrow> ts' \<noteq> [] \<and> list_all relay_only_connection ts'"
  using enforced_transports [of ts ts'] by (auto simp: enforce_aiortc_relay_policy_def split: if_splits)

lemma post_whep_offer_Inr:
  "post_whep_offer s offer w = (w', Inr answer) \<Longrightarrow>
     \<exists>body. utf8_encode offer = Inr body \<and> w' = w\<lparr>iw_offers := iw_offers w @ [body]\<rparr>"
  by (auto simp: post_whep_offer_def split: sum.splits)

lemma derived_relay: "derive_args raw = Some a \<Longrightarrow> ra_relay_only raw \<Longrightarrow>
    ra_relay_only a \<and> ra_require_relay_path a \<and> ra_require_selected_pair a"
  by (auto simp: derive_args_def Let_def split: if_splits)

lemma observed_relay:
  assumes "observe_media lib s a li ai = Inr res" and "ra_require_relay_path a" and "ra_require_selected_pair a"
  shows "\<exists>p. sm_selected_pair res = Some p \<and> sp_path p = RelayPath"
  using assms by (auto simp: observe_media_def require_ice_path_def bind_r_eq_Inr Let_def split: option.splits if_splits)

text \<open>
  A relay-only run that passes went through the relay. Every connection of the runtime had the
  relay policy and no address family of its own; the only offer that was sent has, of the lines of the
  local description, all but the candidates that are not relayed, and at least one that is; and
  the selected pair takes the relay path.
\<close>

theorem relay_only_run:
  assumes "derive_args raw = Some a" and "ra_relay_only raw" and "run_webrtc_smoke lib s a w = (w', Inr res)"
  shows "\<exists>sdp lines body p. se_local_sdp s (iw_transports w') = Some sdp \<and>
    lines = filter (\<lambda>l. is_candidate l \<longrightarrow> relay_line l) (split_on 10 (crlf_to_lf sdp)) \<and> (\<exists>l \<in> set lines. relay_line l) \<and>
    utf8_encode (join_with [13, 10] lines) = Inr body \<and> iw_offers w' = iw_offers w @ [body] \<and>
    iw_transports w' \<noteq> [] \<and> list_all relay_only_connection (iw_transports w') \<and> iw_closed w' \<and>
    sm_selected_pair res = Some p \<and> sp_path p = RelayPath"
proof -
  note relay = derived_relay [OF assms(1,2)]
  from assms(3) relay obtain w1 w2 sdp offer answer li ai where
      policy: "relay_policy_step True w = (w1, Inr ())"
    and sdp: "se_local_sdp s (iw_transports w1) = Some sdp"
    and offer: "relay_only_sdp sdp = Inr offer"
    and post: "post_whep_offer s offer w1 = (w2, Inr answer)"
    and media: "observe_media lib s a li ai = Inr res"
    and closed: "w' = w2\<lparr>iw_closed := True\<rparr>"
    by (auto simp: run_webrtc_smoke_def bind_w_Inr finally_w_Inr local_offer_step_def split: option.splits if_splits)
  from policy have w1: "w1 = w\<lparr>iw_transports := iw_transports w1\<rparr>" "iw_transports w1 \<noteq> []" "list_all relay_only_connection (iw_transports w1)"
    using enforced_policy [of "iw_transports w" "iw_transports w1"] by (auto simp: relay_policy_step_def split: prod.splits)
  from post_whep_offer_Inr [OF post] obtain body where body: "utf8_encode offer = Inr body" "w2 = w1\<lparr>iw_offers := iw_offers w1 @ [body]\<rparr>"
    by blast
  have "iw_offers w1 = iw_offers w" by (subst w1(1)) simp
  with w1(2,3) body closed sdp relay_only_lines [OF offer] observed_relay [OF media] relay show ?thesis by auto
qed

text \<open>
  A run with an enforced budget that passes decoded a first frame that came before the failure limit
  of its profile.
\<close>

theorem budget_enforced:
  assumes "run_webrtc_smoke lib s a w = (w', Inr res)" and "ra_enforce_latency_budget a" and "BUDGETS (ra_latency_profile a) = Some b"
  shows "\<exists>elapsed_ms. (ff_video_elapsed_ms (sm_frames res) = Some elapsed_ms \<or>
      ff_video_elapsed_ms (sm_frames res) = None \<and> ff_audio_elapsed_ms (sm_frames res) = Some elapsed_ms) \<and>
    \<not> fle (lb_failure_ms b) elapsed_ms"
proof -
  from assms(1) obtain li ai where "observe_media lib s a li ai = Inr res"
    by (auto simp: run_webrtc_smoke_def bind_w_Inr finally_w_Inr)
  then have "enforce_latency_budget a (sm_frames res) = Inr ()"
    by (auto simp: observe_media_def bind_r_eq_Inr Let_def)
  with assms(2,3) show ?thesis
    by (auto simp: enforce_latency_budget_def require_latency_budget_def classify_latency_def BUDGETS_def bind_r_eq_Inr
        split: option.splits if_splits latency_profile.splits)
qed

end
