(* ===== verification/Hazards.thy ===== *)
theory Hazards
  imports Ops_Base "HOL-Library.List_Lexorder"
begin

text \<open>
  The closure of safety hazards, \<open>scripts/reports/hazard_closure_qualification.py\<close>: the profile, the
  evidence manifests, the accepted residual risks, and the verdict over all hazards of the log. The
  readers of JSON and YAML and \<open>date.fromisoformat\<close> (dates as day numbers), the files and the commit
  are arguments.
\<close>

section \<open>Documents\<close>

text \<open>\<open>HazardCrash\<close> is any other exception; \<open>HazardUsage\<close> the exit of the option parser.\<close>

datatype hazard_error = HazardClosureError string | HazardCrash | HazardUsage

record hazard_file =
  hf_json :: bool
  hf_absolute :: bool
  hf_is_file :: bool
  hf_content :: "bytes option"

record hazard_lib =
  hl_json_loads :: "pytext \<Rightarrow> json option"
  hl_yaml_load :: "pytext \<Rightarrow> json option"
  hl_date :: "pytext \<Rightarrow> int option"
  hl_file :: "pytext \<Rightarrow> hazard_file"

text \<open>A file without content cannot be read.\<close>

definition load_hazard_object :: "hazard_lib \<Rightarrow> hazard_file \<Rightarrow> hazard_error + json_dict" where
  "load_hazard_object lib f =
     (case Option.bind (Option.bind (hf_content f) read_text) (if hf_json f then hl_json_loads lib else hl_yaml_load lib) of
        None \<Rightarrow> Inl HazardCrash
      | Some (JObj d) \<Rightarrow> Inr d
      | Some _ \<Rightarrow> Inl (HazardClosureError ''must contain an object''))"

text \<open>What a \<open>for\<close> loop visits.\<close>

definition visited :: "json \<Rightarrow> hazard_error + json list" where
  "visited v =
     (case v of
        JList vs \<Rightarrow> Inr vs
      | JObj d \<Rightarrow> Inr (map JStr (dict_keys d))
      | JStr s \<Rightarrow> Inr (map (\<lambda>c. JStr [c]) s)
      | _ \<Rightarrow> Inl HazardCrash)"

definition value_or :: "json_dict \<Rightarrow> string \<Rightarrow> json \<Rightarrow> json" where
  "value_or d k e = (case dict_get d (text_of k) of None \<Rightarrow> e | Some v \<Rightarrow> v)"

text \<open>\<open>v.get\<close> needs a dictionary, \<open>d[k]\<close> the key.\<close>

definition dictionary_of :: "json \<Rightarrow> hazard_error + json_dict" where
  "dictionary_of v = (case v of JObj d \<Rightarrow> Inr d | _ \<Rightarrow> Inl HazardCrash)"

definition required_value :: "json_dict \<Rightarrow> string \<Rightarrow> hazard_error + json" where
  "required_value d k = (case dict_get d (text_of k) of None \<Rightarrow> Inl HazardCrash | Some v \<Rightarrow> Inr v)"

definition keyed_item :: "string \<Rightarrow> json \<Rightarrow> (pytext \<times> json_dict) option" where
  "keyed_item key item =
     (case item of JObj d \<Rightarrow> (case json_get d key of JStr s \<Rightarrow> Some (s, d) | _ \<Rightarrow> None) | _ \<Rightarrow> None)"

definition unique_entries :: "json \<Rightarrow> string \<Rightarrow> string \<Rightarrow> hazard_error + (pytext, json_dict) dict" where
  "unique_entries entries key label =
     (case entries of
        JList items \<Rightarrow>
          let indexed = fold (\<lambda>(k, d). dict_set k d) (List.map_filter (keyed_item key) items) [] in
          if length indexed \<noteq> length items then Inl (HazardClosureError (label @ '' IDs must be unique strings''))
          else Inr indexed
      | _ \<Rightarrow> Inl (HazardClosureError (label @ '' must be a list'')))"

definition input_file :: "hazard_lib \<Rightarrow> json_dict \<Rightarrow> string \<Rightarrow> hazard_error + hazard_file" where
  "input_file lib profile name =
     bind_r (required_value profile ''inputs'') (\<lambda>inputs.
     bind_r (dictionary_of inputs) (\<lambda>inputs.
     bind_r (required_value inputs name) (\<lambda>path.
     case path of JStr p \<Rightarrow> Inr (hl_file lib p) | _ \<Rightarrow> Inl HazardCrash)))"

definition validate_hazard_profile :: "json_dict \<Rightarrow> hazard_error + unit" where
  "validate_hazard_profile profile =
     (if json_get profile ''status'' \<noteq> JStr (text_of ''CONTROLLED_DRAFT_NOT_EXECUTED'')
      then Inl (HazardClosureError ''hazard closure profile must remain an unexecuted draft'')
      else if json_get profile ''standard'' \<noteq> JStr (text_of ''MIL-STD-882E Change 1'')
      then Inl (HazardClosureError ''hazard closure profile has an unsupported standard'')
      else
        bind_r (dictionary_of (value_or profile ''thresholds'' (JObj []))) (\<lambda>thresholds.
        if json_get thresholds ''status'' \<noteq> JStr (text_of ''PROPOSED_NOT_APPROVED'')
        then Inl (HazardClosureError ''hazard closure thresholds must remain proposed'')
        else
          bind_r (dictionary_of (value_or profile ''closureRequirements'' (JObj []))) (\<lambda>requirements.
          case json_get requirements ''residualRiskRequiredFields'' of
            JList names \<Rightarrow>
              if length names < 9 then Inl (HazardClosureError ''residual-risk closure fields are incomplete'') else Inr ()
          | _ \<Rightarrow> Inl (HazardClosureError ''residual-risk closure fields are incomplete''))))"

section \<open>Traces and manifests\<close>

type_synonym traces = "(pytext, json list) dict"

definition add_trace :: "json \<Rightarrow> json \<Rightarrow> traces \<Rightarrow> traces" where
  "add_trace requirement_id hazard result =
     (case hazard of
        JStr h \<Rightarrow>
          if starts_with (text_of ''HAZ-'') h
          then dict_set h ((case dict_get result h of None \<Rightarrow> [] | Some ids \<Rightarrow> ids) @ [requirement_id]) result
          else result
      | _ \<Rightarrow> result)"

definition trace_item :: "json \<Rightarrow> traces \<Rightarrow> hazard_error + traces" where
  "trace_item trace result =
     bind_r (dictionary_of trace) (\<lambda>trace.
     bind_r (visited (value_or trace ''threatsOrHazards'' (JList []))) (\<lambda>hs.
     Inr (fold (add_trace (json_get trace ''requirementId'')) hs result)))"

definition hazard_traces :: "json_dict \<Rightarrow> hazard_error + traces" where
  "hazard_traces traceability =
     bind_r (visited (value_or traceability ''traces'' (JList []))) (\<lambda>ts. fold_r trace_item ts [])"

definition artifact_ok :: "json \<Rightarrow> bool" where
  "artifact_ok artifact =
     (case artifact of
        JObj d \<Rightarrow>
          (case json_get d ''sha256'' of JStr s \<Rightarrow> length s = 64 \<and> truthy (json_get d ''immutableLocator'') | _ \<Rightarrow> False)
      | _ \<Rightarrow> False)"

definition MANIFEST_FIELDS :: "string list" where
  "MANIFEST_FIELDS = [''generatedAt'', ''environment'', ''procedure'', ''expectedResult'', ''actualResult'', ''reviewer'']"

definition validate_manifest_metadata :: "json_dict \<Rightarrow> hazard_error + unit" where
  "validate_manifest_metadata document =
     (if list_ex (\<lambda>field. \<not> truthy (json_get document field)) MANIFEST_FIELDS
      then Inl (HazardClosureError ''evidence manifest metadata is incomplete'')
      else
        case json_get document ''artifacts'' of
          JList artifacts \<Rightarrow>
            if artifacts = [] then Inl (HazardClosureError ''evidence manifest has no retained artifacts'')
            else if list_all artifact_ok artifacts then Inr ()
            else Inl (HazardClosureError ''evidence artifact metadata is invalid'')
        | _ \<Rightarrow> Inl (HazardClosureError ''evidence manifest has no retained artifacts''))"

type_synonym manifests = "(pytext, json_dict) dict"

definition add_manifest :: "hazard_lib \<Rightarrow> pytext \<Rightarrow> hazard_file \<Rightarrow> manifests \<Rightarrow> hazard_error + manifests" where
  "add_manifest lib source_commit path manifests =
     bind_r (load_hazard_object lib path) (\<lambda>document.
     case json_get document ''evidenceId'' of
       JStr evidence_id \<Rightarrow>
         if json_get document ''schemaVersion'' \<noteq> JStr (text_of ''gcs-saker.evidence-manifest.v1'')
         then Inl (HazardClosureError ''invalid evidence manifest'')
         else if evidence_id \<in> set (dict_keys manifests) then Inl (HazardClosureError ''duplicate evidence ID'')
         else if json_get document ''sourceCommit'' \<noteq> JStr source_commit
         then Inl (HazardClosureError ''evidence source commit mismatch'')
         else bind_r (validate_manifest_metadata document) (\<lambda>_. Inr (dict_set evidence_id document manifests))
     | _ \<Rightarrow> Inl (HazardClosureError ''invalid evidence manifest''))"

definition load_manifests :: "hazard_lib \<Rightarrow> hazard_file list \<Rightarrow> pytext \<Rightarrow> hazard_error + manifests" where
  "load_manifests lib paths source_commit = fold_r (add_manifest lib source_commit) paths []"

section \<open>Blockers\<close>

definition parse_date :: "hazard_lib \<Rightarrow> json \<Rightarrow> int option" where
  "parse_date lib v = (case v of JStr s \<Rightarrow> hl_date lib s | _ \<Rightarrow> None)"

text \<open>\<open>hazard_id in v\<close>: an equal item, a part of the text, or a key.\<close>

definition names_hazard :: "pytext \<Rightarrow> json \<Rightarrow> hazard_error + bool" where
  "names_hazard hazard_id v =
     (case v of
        JList vs \<Rightarrow> Inr (JStr hazard_id \<in> set vs)
      | JStr s \<Rightarrow> Inr (contains hazard_id s)
      | JObj d \<Rightarrow> Inr (hazard_id \<in> set (dict_keys d))
      | _ \<Rightarrow> Inl HazardCrash)"

definition sorted_set :: "pytext list \<Rightarrow> pytext list" where
  "sorted_set xs = sort (remdups xs)"

definition evidence_blockers :: "pytext \<Rightarrow> manifests \<Rightarrow> json \<Rightarrow> hazard_error + pytext list" where
  "evidence_blockers hazard_id manifests evidence_id =
     (if \<not> hashable evidence_id then Inl HazardCrash
      else
        case (case evidence_id of JStr e \<Rightarrow> dict_get manifests e | _ \<Rightarrow> None) of
          None \<Rightarrow> Inr [text_of ''evidence-manifest-not-supplied'']
        | Some manifest \<Rightarrow>
            if json_get manifest ''verdict'' \<noteq> JStr (text_of ''PASS'')
            then Inr [text_of ''evidence-not-pass-or-hazard-mismatch'']
            else
              bind_r (names_hazard hazard_id (value_or manifest ''hazardIds'' (JList []))) (\<lambda>named.
              Inr (if named then [] else [text_of ''evidence-not-pass-or-hazard-mismatch''])))"

definition manifest_blockers :: "pytext \<Rightarrow> json \<Rightarrow> manifests \<Rightarrow> hazard_error + pytext list" where
  "manifest_blockers hazard_id evidence_ids manifests =
     (case evidence_ids of
        JList ids \<Rightarrow>
          if ids = [] then Inr [text_of ''pass-evidence-missing'']
          else bind_r (map_r (evidence_blockers hazard_id manifests) ids) (\<lambda>bs. Inr (sorted_set (concat bs)))
      | _ \<Rightarrow> Inr [text_of ''pass-evidence-missing''])"

definition blocker :: "bool \<Rightarrow> string \<Rightarrow> pytext list" where
  "blocker b code = (if b then [text_of code] else [])"

definition review_blockers :: "int option \<Rightarrow> int \<Rightarrow> pytext list" where
  "review_blockers review_due as_of =
     (case review_due of
        None \<Rightarrow> [text_of ''review-date-invalid'']
      | Some due \<Rightarrow> blocker (due < as_of) ''acceptance-expired'')"

text \<open>\<open>set(v)\<close>: every member must be hashable.\<close>

definition set_members :: "json \<Rightarrow> hazard_error + json list" where
  "set_members v = bind_r (visited v) (\<lambda>vs. if list_all hashable vs then Inr vs else Inl HazardCrash)"

definition record_blockers ::
    "hazard_lib \<Rightarrow> pytext \<Rightarrow> json_dict \<Rightarrow> json_dict option \<Rightarrow> manifests \<Rightarrow> pytext \<Rightarrow> int \<Rightarrow> hazard_error + pytext list" where
  "record_blockers lib hazard_id hazard risk manifests source_commit as_of =
     (case risk of
        None \<Rightarrow> Inr [text_of ''missing-residual-risk-record'']
      | Some r \<Rightarrow>
          if \<not> hashable (json_get r ''residualRisk'') then Inl HazardCrash
          else
            bind_r (case json_get r ''verifiedControlRequirementIds'' of
                      JList vs \<Rightarrow> set_members (JList vs) | _ \<Rightarrow> Inr []) (\<lambda>verified.
            bind_r (required_value hazard ''safetyRequirements'') (\<lambda>requirements.
            bind_r (set_members requirements) (\<lambda>needed.
            bind_r (manifest_blockers hazard_id (json_get r ''evidenceManifestIds'') manifests) (\<lambda>evidence.
            Inr (blocker (json_get r ''sourceCommit'' \<noteq> JStr source_commit) ''residual-risk-source-commit-mismatch'' @
                 blocker (json_get r ''disposition'' \<noteq> JStr (text_of ''ACCEPT'')) ''residual-risk-not-accepted'' @
                 blocker (json_get r ''residualRisk'' \<in> {JNull, JStr (text_of ''UNASSESSED'')}) ''residual-risk-unassessed'' @
                 blocker (\<not> truthy (json_get r ''acceptanceAuthority'') \<or> parse_date lib (json_get r ''acceptedAt'') = None)
                   ''acceptance-decision-incomplete'' @
                 review_blockers (parse_date lib (json_get r ''reviewDueAt'')) as_of @
                 blocker (\<not> list_all (\<lambda>n. list_ex (py_eq n) verified) needed) ''safety-controls-unverified'' @
                 evidence))))))"

section \<open>The verdict\<close>

record hazard_result =
  hr_hazard_id :: pytext
  hr_closed :: bool
  hr_blockers :: "pytext list"

datatype technical_result = TechnicalPass | TechnicalFail | TechnicalBlocked

text \<open>There is no passing verdict: the thresholds of the profile are not approved.\<close>

datatype hazard_verdict = VerdictFail | VerdictBlocked

record hazard_evaluation =
  he_closed_count :: nat
  he_closure_ratio :: pyfloat
  he_untraced :: "pytext list"
  he_hazards :: "hazard_result list"
  he_technical :: technical_result
  he_verdict :: hazard_verdict

definition evaluate_hazard ::
    "hazard_lib \<Rightarrow> (pytext, json_dict) dict \<Rightarrow> traces \<Rightarrow> manifests \<Rightarrow> pytext \<Rightarrow> int \<Rightarrow> pytext \<times> json_dict \<Rightarrow>
     hazard_error + hazard_result" where
  "evaluate_hazard lib records traces manifests source_commit as_of item =
     (let (hazard_id, hazard) = item in
      bind_r (record_blockers lib hazard_id hazard (dict_get records hazard_id) manifests source_commit as_of) (\<lambda>more.
      let blockers =
            blocker (dict_get traces hazard_id \<in> {None, Some []}) ''missing-requirement-trace'' @
            blocker (json_get hazard ''status'' \<noteq> JStr (text_of ''CLOSED'')) ''hazard-status-open'' @ more in
      Inr \<lparr>hr_hazard_id = hazard_id, hr_closed = (blockers = []), hr_blockers = sorted_set blockers\<rparr>))"

definition evaluate_hazards ::
    "hazard_lib \<Rightarrow> (pytext, json_dict) dict \<Rightarrow> (pytext, json_dict) dict \<Rightarrow> traces \<Rightarrow> manifests \<Rightarrow> pytext \<Rightarrow> int \<Rightarrow>
     hazard_error + hazard_evaluation" where
  "evaluate_hazards lib hazards records traces manifests source_commit as_of =
     bind_r (map_r (evaluate_hazard lib records traces manifests source_commit as_of) hazards) (\<lambda>results.
     let closed_count = length (filter hr_closed results);
         invalid_declared_closed =
           list_ex (\<lambda>((_, hazard), r). json_get hazard ''status'' = JStr (text_of ''CLOSED'') \<and> hr_blockers r \<noteq> [])
             (zip hazards results);
         technical =
           (if invalid_declared_closed then TechnicalFail
            else if closed_count = length results then TechnicalPass else TechnicalBlocked) in
     Inr \<lparr>he_closed_count = closed_count,
          he_closure_ratio = (if results = [] then Fin 0 else mk_float (of_nat closed_count / of_nat (length results))),
          he_untraced = sort (filter (\<lambda>h. dict_get traces h \<in> {None, Some []}) (dict_keys hazards)),
          he_hazards = results, he_technical = technical,
          he_verdict = (if technical = TechnicalFail then VerdictFail else VerdictBlocked)\<rparr>)"

definition same_keys :: "('k, 'a) dict \<Rightarrow> ('k, 'b) dict \<Rightarrow> bool" where
  "same_keys d e \<longleftrightarrow> list_all (\<lambda>k. k \<in> set (dict_keys e)) (dict_keys d) \<and> list_all (\<lambda>k. k \<in> set (dict_keys d)) (dict_keys e)"

definition same_swci :: "(pytext, json_dict) dict \<Rightarrow> pytext \<times> json_dict \<Rightarrow> bool" where
  "same_swci assignments item \<longleftrightarrow>
     (let (key, hazard) = item in
      case dict_get assignments key of
        None \<Rightarrow> False
      | Some a \<Rightarrow> py_eq (json_get a ''swci'') (json_get hazard ''swci''))"

record hazard_report =
  hp_as_of :: int
  hp_source_commit :: pytext
  hp_evaluation :: hazard_evaluation

definition build_hazard_report ::
    "hazard_lib \<Rightarrow> json_dict \<Rightarrow> hazard_file list \<Rightarrow> pytext \<Rightarrow> int \<Rightarrow> hazard_error + hazard_report" where
  "build_hazard_report lib profile manifest_paths source_commit as_of =
     bind_r (validate_hazard_profile profile) (\<lambda>_.
     bind_r (input_file lib profile ''hazardLog'') (\<lambda>f.
     bind_r (load_hazard_object lib f) (\<lambda>hazard_log.
     bind_r (unique_entries (json_get hazard_log ''hazards'') ''id'' ''hazards'') (\<lambda>hazards.
     bind_r (bind_r (required_value profile ''closureRequirements'') dictionary_of) (\<lambda>requirements.
     bind_r (required_value requirements ''requiredHazardCount'') (\<lambda>expected_count.
     if \<not> py_eq_int expected_count (int (length hazards)) then Inl (HazardClosureError ''expected controlled hazards'')
     else
     bind_r (input_file lib profile ''levelOfRigor'') (\<lambda>f.
     bind_r (load_hazard_object lib f) (\<lambda>lor.
     bind_r (unique_entries (json_get lor ''assignments'') ''hazardId'' ''LOR assignments'') (\<lambda>assignments.
     if \<not> same_keys assignments hazards \<or> \<not> list_all (same_swci assignments) hazards
     then Inl (HazardClosureError ''hazard LOR assignments are incomplete or inconsistent'')
     else
     bind_r (input_file lib profile ''residualRiskRegister'') (\<lambda>f.
     bind_r (load_hazard_object lib f) (\<lambda>risk_register.
     bind_r (unique_entries (json_get risk_register ''records'') ''hazardId'' ''residual-risk records'') (\<lambda>records.
     if \<not> list_all (\<lambda>k. k \<in> set (dict_keys hazards)) (dict_keys records)
     then Inl (HazardClosureError ''residual-risk records reference unknown hazards'')
     else
     bind_r (input_file lib profile ''traceability'') (\<lambda>f.
     bind_r (load_hazard_object lib f) (\<lambda>traceability.
     bind_r (hazard_traces traceability) (\<lambda>traces.
     if \<not> list_all (\<lambda>k. k \<in> set (dict_keys hazards)) (dict_keys traces)
     then Inl (HazardClosureError ''traceability references unknown hazards'')
     else
     bind_r (load_manifests lib manifest_paths source_commit) (\<lambda>manifests.
     bind_r (evaluate_hazards lib hazards records traces manifests source_commit as_of) (\<lambda>evaluation.
     Inr \<lparr>hp_as_of = as_of, hp_source_commit = source_commit, hp_evaluation = evaluation\<rparr>)))))))))))))))))"

section \<open>The command\<close>

record output_place =
  op_absolute :: bool
  op_parent_dir :: bool

text \<open>The output is created exclusively; the world is the report that is there.\<close>

definition write_hazard_report ::
    "output_place \<Rightarrow> hazard_report \<Rightarrow> hazard_report option \<Rightarrow> hazard_error + hazard_report option" where
  "write_hazard_report path document old =
     (if \<not> op_absolute path \<or> \<not> op_parent_dir path
      then Inl (HazardClosureError ''output must use an existing absolute directory'')
      else if old \<noteq> None then Inl HazardCrash
      else Inr (Some document))"

record hazard_args =
  ha_check :: bool
  ha_manifests :: "hazard_file list"
  ha_as_of :: "int option"
  ha_output :: "output_place option"

definition hazard_main ::
    "hazard_lib \<Rightarrow> hazard_file \<Rightarrow> pytext option \<Rightarrow> hazard_args \<Rightarrow> hazard_report option \<Rightarrow>
     hazard_report option \<times> (hazard_error + int)" where
  "hazard_main lib profile_file commit args old =
     (let result =
        bind_r (load_hazard_object lib profile_file) (\<lambda>profile.
        bind_r (validate_hazard_profile profile) (\<lambda>_.
        if ha_check args then Inr old
        else
          case (ha_as_of args, ha_output args) of
            (Some as_of, Some place) \<Rightarrow>
              if \<not> list_all (\<lambda>f. hf_absolute f \<and> hf_is_file f) (ha_manifests args)
              then Inl (HazardClosureError ''every evidence manifest must be an existing absolute file'')
              else
                (case commit of
                   None \<Rightarrow> Inl HazardCrash
                 | Some c \<Rightarrow>
                     bind_r (build_hazard_report lib profile (ha_manifests args) c as_of) (\<lambda>report.
                     write_hazard_report place report old))
          | _ \<Rightarrow> Inl HazardUsage)) in
      case result of Inl e \<Rightarrow> (old, Inl e) | Inr new \<Rightarrow> (new, Inr 0))"

section \<open>What a closed hazard shows\<close>

lemma sorted_set_Nil [simp]: "sorted_set xs = [] \<longleftrightarrow> xs = []"
  unfolding sorted_set_def by (metis set_empty set_remdups set_sort)

lemma blocker_Nil [simp]: "blocker b code = [] \<longleftrightarrow> \<not> b"
  by (simp add: blocker_def)

lemma review_blockers_Nil: "review_blockers due as_of = [] \<longleftrightarrow> (\<exists>d. due = Some d \<and> as_of \<le> d)"
  by (cases due) (auto simp: review_blockers_def)

text \<open>Passing evidence: a supplied manifest with a passing verdict that names the hazard.\<close>

definition passing_evidence :: "pytext \<Rightarrow> manifests \<Rightarrow> json \<Rightarrow> bool" where
  "passing_evidence hazard_id manifests evidence_id \<longleftrightarrow>
     (\<exists>e m. evidence_id = JStr e \<and> dict_get manifests e = Some m \<and> json_get m ''verdict'' = JStr (text_of ''PASS'') \<and>
        names_hazard hazard_id (value_or m ''hazardIds'' (JList [])) = Inr True)"

lemma evidence_blockers_Nil: "evidence_blockers hazard_id manifests v = Inr [] \<Longrightarrow> passing_evidence hazard_id manifests v"
  by (auto simp: evidence_blockers_def passing_evidence_def bind_r_eq_Inr split: if_splits option.splits json.splits)

lemma manifest_blockers_Nil:
  assumes "manifest_blockers hazard_id v manifests = Inr []"
  shows "\<exists>ids. v = JList ids \<and> ids \<noteq> [] \<and> list_all (passing_evidence hazard_id manifests) ids"
proof -
  from assms obtain ids bs where ids: "v = JList ids" "ids \<noteq> []"
      "map_r (evidence_blockers hazard_id manifests) ids = Inr bs" "concat bs = []"
    by (auto simp: manifest_blockers_def bind_r_eq_Inr split: json.splits if_splits)
  have "passing_evidence hazard_id manifests x" if "x \<in> set ids" for x
  proof -
    from that obtain i where "i < length ids" "x = ids ! i" by (auto simp: in_set_conv_nth)
    with map_r_nth [OF ids(3), of i] map_r_length [OF ids(3)] ids(4)
    show ?thesis by (intro evidence_blockers_Nil) (auto simp: concat_eq_Nil_conv)
  qed
  with ids(1,2) show ?thesis by (auto simp: list_all_iff)
qed

text \<open>The residual risk of a hazard is accepted.\<close>

definition risk_accepted ::
    "hazard_lib \<Rightarrow> pytext \<Rightarrow> json_dict \<Rightarrow> json_dict \<Rightarrow> manifests \<Rightarrow> pytext \<Rightarrow> int \<Rightarrow> bool" where
  "risk_accepted lib hazard_id hazard r manifests source_commit as_of \<longleftrightarrow>
     json_get r ''sourceCommit'' = JStr source_commit \<and> json_get r ''disposition'' = JStr (text_of ''ACCEPT'') \<and>
     json_get r ''residualRisk'' \<notin> {JNull, JStr (text_of ''UNASSESSED'')} \<and> truthy (json_get r ''acceptanceAuthority'') \<and>
     parse_date lib (json_get r ''acceptedAt'') \<noteq> None \<and>
     (\<exists>due. parse_date lib (json_get r ''reviewDueAt'') = Some due \<and> as_of \<le> due) \<and>
     (\<exists>ids. json_get r ''evidenceManifestIds'' = JList ids \<and> ids \<noteq> [] \<and> list_all (passing_evidence hazard_id manifests) ids) \<and>
     (\<exists>requirements needed. required_value hazard ''safetyRequirements'' = Inr requirements \<and> visited requirements = Inr needed \<and>
        (needed = [] \<or> (\<exists>verified. json_get r ''verifiedControlRequirementIds'' = JList verified \<and>
           list_all (\<lambda>n. list_ex (py_eq n) verified) needed)))"

lemma record_blockers_Nil:
  assumes "record_blockers lib hazard_id hazard risk manifests source_commit as_of = Inr []"
  shows "\<exists>r. risk = Some r \<and> risk_accepted lib hazard_id hazard r manifests source_commit as_of"
proof -
  from assms obtain r where r: "risk = Some r" by (cases risk) (auto simp: record_blockers_def)
  with assms obtain verified requirements needed where parts:
      "(case json_get r ''verifiedControlRequirementIds'' of JList vs \<Rightarrow> set_members (JList vs) | _ \<Rightarrow> Inr []) = Inr verified"
      "required_value hazard ''safetyRequirements'' = Inr requirements" "set_members requirements = Inr needed"
      "manifest_blockers hazard_id (json_get r ''evidenceManifestIds'') manifests = Inr []"
      "json_get r ''sourceCommit'' = JStr source_commit" "json_get r ''disposition'' = JStr (text_of ''ACCEPT'')"
      "json_get r ''residualRisk'' \<notin> {JNull, JStr (text_of ''UNASSESSED'')}" "truthy (json_get r ''acceptanceAuthority'')"
      "parse_date lib (json_get r ''acceptedAt'') \<noteq> None" "review_blockers (parse_date lib (json_get r ''reviewDueAt'')) as_of = []"
      "list_all (\<lambda>n. list_ex (py_eq n) verified) needed"
    by (auto simp: record_blockers_def bind_r_eq_Inr split: if_splits)
  have "needed = [] \<or> json_get r ''verifiedControlRequirementIds'' = JList verified"
    using parts(1,11) by (cases "json_get r ''verifiedControlRequirementIds''"; cases needed)
      (auto simp: set_members_def visited_def split: if_splits)
  moreover have "visited requirements = Inr needed"
    using parts(3) by (auto simp: set_members_def bind_r_eq_Inr split: if_splits)
  ultimately show ?thesis
    using r parts manifest_blockers_Nil [OF parts(4)] unfolding risk_accepted_def review_blockers_Nil by blast
qed

lemma evaluate_hazard_closed:
  "evaluate_hazard lib records traces manifests source_commit as_of item = Inr r \<Longrightarrow> hr_closed r \<longleftrightarrow> hr_blockers r = []"
  by (cases item) (auto simp: evaluate_hazard_def bind_r_eq_Inr Let_def)

lemma all_counted: "length (filter p xs) = length xs \<longleftrightarrow> list_all p xs"
  by (metis filter_id_conv filter_True length_filter_less less_irrefl list_all_iff)

lemma evaluate_hazards_Inr:
  assumes "evaluate_hazards lib hazards records traces manifests source_commit as_of = Inr ev"
  shows "map_r (evaluate_hazard lib records traces manifests source_commit as_of) hazards = Inr (he_hazards ev)"
    and "he_technical ev =
      (if list_ex (\<lambda>((_, hazard), r). json_get hazard ''status'' = JStr (text_of ''CLOSED'') \<and> hr_blockers r \<noteq> [])
            (zip hazards (he_hazards ev)) then TechnicalFail
       else if list_all hr_closed (he_hazards ev) then TechnicalPass else TechnicalBlocked)"
    and "he_verdict ev = (if he_technical ev = TechnicalFail then VerdictFail else VerdictBlocked)"
  using assms by (auto simp: evaluate_hazards_def bind_r_eq_Inr Let_def all_counted)

text \<open>
  A hazard that the report shows as closed is declared closed in the log and traced to a requirement,
  and its residual risk is accepted for the commit under test: by a named authority, not yet due for
  review, with all safety requirements verified, and with evidence that all passes and names the hazard.
\<close>

theorem closed_hazard_evident:
  assumes "evaluate_hazards lib hazards records traces manifests source_commit as_of = Inr ev"
    and "r \<in> set (he_hazards ev)" and "hr_closed r"
  shows "\<exists>hazard risk. (hr_hazard_id r, hazard) \<in> set hazards \<and> json_get hazard ''status'' = JStr (text_of ''CLOSED'') \<and>
    dict_get traces (hr_hazard_id r) \<notin> {None, Some []} \<and> dict_get records (hr_hazard_id r) = Some risk \<and>
    risk_accepted lib (hr_hazard_id r) hazard risk manifests source_commit as_of"
proof -
  note mapped = evaluate_hazards_Inr(1) [OF assms(1)]
  from assms(2) obtain i where i: "i < length (he_hazards ev)" "r = he_hazards ev ! i" by (auto simp: in_set_conv_nth)
  with map_r_length [OF mapped] have bound: "i < length hazards" by simp
  obtain hazard_id hazard where item: "hazards ! i = (hazard_id, hazard)" by (cases "hazards ! i")
  from map_r_nth [OF mapped bound] i(2) item
  have "evaluate_hazard lib records traces manifests source_commit as_of (hazard_id, hazard) = Inr r" by simp
  with assms(3) record_blockers_Nil [of lib hazard_id hazard "dict_get records hazard_id" manifests source_commit as_of]
  have "hr_hazard_id r = hazard_id" "json_get hazard ''status'' = JStr (text_of ''CLOSED'')"
      "dict_get traces hazard_id \<notin> {None, Some []}"
      "\<exists>risk. dict_get records hazard_id = Some risk \<and> risk_accepted lib hazard_id hazard risk manifests source_commit as_of"
    by (auto simp: evaluate_hazard_def bind_r_eq_Inr Let_def)
  moreover have "(hazard_id, hazard) \<in> set hazards" using bound item by (metis nth_mem)
  ultimately show ?thesis by blast
qed

text \<open>
  The technical result: it passes exactly when every hazard is closed, and fails exactly when a hazard
  that the log declares closed is not.
\<close>

theorem hazard_result_iff:
  assumes "evaluate_hazards lib hazards records traces manifests source_commit as_of = Inr ev"
  shows "(he_technical ev = TechnicalPass \<longleftrightarrow> list_all hr_closed (he_hazards ev)) \<and>
    (he_technical ev = TechnicalFail \<longleftrightarrow>
      (\<exists>i < length hazards. json_get (snd (hazards ! i)) ''status'' = JStr (text_of ''CLOSED'') \<and> \<not> hr_closed (he_hazards ev ! i))) \<and>
    (he_verdict ev = VerdictFail \<longleftrightarrow> he_technical ev = TechnicalFail)"
proof -
  note mapped = evaluate_hazards_Inr(1) [OF assms]
  have len: "length (he_hazards ev) = length hazards" by (rule map_r_length [OF mapped])
  have closed: "hr_closed (he_hazards ev ! i) \<longleftrightarrow> hr_blockers (he_hazards ev ! i) = []" if "i < length hazards" for i
    by (rule evaluate_hazard_closed [OF map_r_nth [OF mapped that]])
  have "list_ex (\<lambda>((_, hazard), r). json_get hazard ''status'' = JStr (text_of ''CLOSED'') \<and> hr_blockers r \<noteq> [])
      (zip hazards (he_hazards ev)) \<longleftrightarrow>
    (\<exists>i < length hazards. json_get (snd (hazards ! i)) ''status'' = JStr (text_of ''CLOSED'') \<and> \<not> hr_closed (he_hazards ev ! i))"
    using len closed by (auto simp: list_ex_length case_prod_beta)
  moreover have "\<not> (\<exists>i < length hazards. \<not> hr_closed (he_hazards ev ! i))" if "list_all hr_closed (he_hazards ev)"
    using that len by (simp add: list_all_length)
  ultimately show ?thesis using evaluate_hazards_Inr(2,3) [OF assms] by auto
qed

end
