(* ===== verification/Performance.thy ===== *)
theory Performance
  imports Ops_Base "HOL-Library.Multiset"
begin

text \<open>
  The qualification of performance and stability, \<open>scripts/reports/performance_stability_qualification.py\<close>:
  the profile, the envelope of the measurements, percentiles of the latency samples, the continuous
  operation and the report. The readers of JSON and YAML, SHA-256 and the order Python gives to lists
  with a NaN are arguments.
\<close>

section \<open>Numbers\<close>

datatype performance_error = PerformanceError string | PerformanceCrash | PerformanceUsage

record performance_lib =
  pl_json_loads :: "pytext \<Rightarrow> json option"
  pl_yaml_load :: "pytext \<Rightarrow> json option"
  pl_str_of :: "json \<Rightarrow> pytext"
  pl_netloc_ok :: "pytext \<Rightarrow> bool"
  pl_sha256_hex :: "bytes \<Rightarrow> pytext"
  pl_sort_nan :: "pyfloat list \<Rightarrow> pyfloat list"

definition json_items :: "json \<Rightarrow> performance_error + json list" where
  "json_items v = (case v of JList vs \<Rightarrow> Inr vs | JObj d \<Rightarrow> Inr (map JStr (dict_keys d)) | JStr s \<Rightarrow> Inr (map (\<lambda>c. JStr [c]) s) | _ \<Rightarrow> Inl PerformanceCrash)"

definition as_mapping :: "json \<Rightarrow> performance_error + json_dict" where
  "as_mapping v = (case v of JObj d \<Rightarrow> Inr d | _ \<Rightarrow> Inl PerformanceCrash)"

definition required_item :: "json_dict \<Rightarrow> string \<Rightarrow> performance_error + json" where
  "required_item d k = (case dict_get d (text_of k) of None \<Rightarrow> Inl PerformanceCrash | Some v \<Rightarrow> Inr v)"

definition value_or_else :: "json_dict \<Rightarrow> string \<Rightarrow> json \<Rightarrow> json" where
  "value_or_else d k e = (case dict_get d (text_of k) of None \<Rightarrow> e | Some v \<Rightarrow> v)"

text \<open>The exact value of a number that is not infinite; a truth value is 0 or 1.\<close>

fun num_value :: "json \<Rightarrow> pyfloat option" where
  "num_value (JInt i) = Some (Fin (of_int i))"
| "num_value (JBool b) = Some (Fin (if b then 1 else 0))"
| "num_value (JFloat f) = Some f"
| "num_value _ = None"

text \<open>\<open>v < w\<close> and \<open>v <= w\<close>; a comparison with another type raises.\<close>

definition num_less :: "json \<Rightarrow> json \<Rightarrow> performance_error + bool" where
  "num_less v w = (case (num_value v, num_value w) of (Some a, Some b) \<Rightarrow> Inr (flt a b) | _ \<Rightarrow> Inl PerformanceCrash)"

definition num_le :: "json \<Rightarrow> json \<Rightarrow> performance_error + bool" where
  "num_le v w = (case (num_value v, num_value w) of (Some a, Some b) \<Rightarrow> Inr (fle a b) | _ \<Rightarrow> Inl PerformanceCrash)"

text \<open>\<open>isinstance(v, (int, float))\<close>, with or without truth values, and \<open>isinstance(v, int)\<close>.\<close>

fun is_number :: "json \<Rightarrow> bool" where
  "is_number (JInt _) = True"
| "is_number (JFloat _) = True"
| "is_number _ = False"

fun int_of :: "json \<Rightarrow> int option" where
  "int_of (JInt i) = Some i"
| "int_of (JBool b) = Some (if b then 1 else 0)"
| "int_of _ = None"

definition nonnegative_number :: "json \<Rightarrow> bool" where
  "nonnegative_number v \<longleftrightarrow> is_number v \<and> (case num_value v of Some f \<Rightarrow> \<not> flt f (Fin 0) | None \<Rightarrow> False)"

text \<open>\<open>float(v)\<close> of an integer rounds, and raises beyond the doubles.\<close>

definition to_float :: "json \<Rightarrow> performance_error + pyfloat" where
  "to_float v =
     (case v of
        JInt i \<Rightarrow> (case mk_float (of_int i) of Fin a \<Rightarrow> Inr (Fin a) | _ \<Rightarrow> Inl PerformanceCrash)
      | JFloat f \<Rightarrow> Inr f
      | _ \<Rightarrow> Inl PerformanceCrash)"

section \<open>Percentiles\<close>

fun insert_float :: "pyfloat \<Rightarrow> pyfloat list \<Rightarrow> pyfloat list" where
  "insert_float x [] = [x]"
| "insert_float x (y # ys) = (if flt x y then x # y # ys else y # insert_float x ys)"

definition sorted_floats :: "performance_lib \<Rightarrow> pyfloat list \<Rightarrow> pyfloat list" where
  "sorted_floats lib xs = (if NaN \<in> set xs then pl_sort_nan lib xs else fold insert_float xs [])"

text \<open>\<open>round((len(ordered) - 1) * ratio)\<close>: the product is rounded to a double, then to the nearest integer.\<close>

definition percentile_index :: "nat \<Rightarrow> rat \<Rightarrow> nat" where
  "percentile_index n ratio = nat (half_even (round64 (round64 (of_nat (n - 1)) * round64 ratio)))"

definition percentile :: "performance_lib \<Rightarrow> pyfloat list \<Rightarrow> rat \<Rightarrow> performance_error + pyfloat" where
  "percentile lib vs ratio =
     (let ordered = sorted_floats lib vs; i = percentile_index (length ordered) ratio in
      if i < length ordered then Inr (ordered ! i) else Inl PerformanceCrash)"

definition validate_latency_samples :: "json \<Rightarrow> json \<Rightarrow> performance_error + pyfloat list" where
  "validate_latency_samples vs minimum =
     (case vs of
        JList vs \<Rightarrow>
          bind_r (num_less (JInt (int (length vs))) minimum) (\<lambda>few.
          if few then Inl (PerformanceError ''each metric requires measured samples'')
          else if \<not> list_all nonnegative_number vs then Inl (PerformanceError ''latency samples must be non-negative numbers'')
          else map_r to_float vs)
      | _ \<Rightarrow> Inl (PerformanceError ''each metric requires measured samples''))"

section \<open>One metric\<close>

record metric_summary =
  mm_id :: json
  mm_category :: json
  mm_sample_count :: nat
  mm_request_errors :: json
  mm_backpressure :: json
  mm_queue_depth_maximum :: int
  mm_p50 :: pyfloat
  mm_p95 :: pyfloat
  mm_p99 :: pyfloat
  mm_threshold :: json
  mm_passed :: bool

text \<open>\<open>v in c\<close> for a list, a text or a dictionary.\<close>

definition value_in :: "json \<Rightarrow> json \<Rightarrow> performance_error + bool" where
  "value_in v c =
     (case c of
        JList vs \<Rightarrow> Inr (list_ex (py_eq v) vs)
      | JStr s \<Rightarrow> (case v of JStr t \<Rightarrow> Inr (contains t s) | _ \<Rightarrow> Inl PerformanceCrash)
      | JObj d \<Rightarrow> if hashable v then Inr (case v of JStr t \<Rightarrow> t \<in> set (dict_keys d) | _ \<Rightarrow> False) else Inl PerformanceCrash
      | _ \<Rightarrow> Inl PerformanceCrash)"

definition nonnegative_int :: "json \<Rightarrow> bool" where
  "nonnegative_int v \<longleftrightarrow> (case int_of v of Some i \<Rightarrow> 0 \<le> i | None \<Rightarrow> False)"

definition queue_depths :: "json \<Rightarrow> int list option" where
  "queue_depths v =
     (case v of
        JList vs \<Rightarrow> (case those (map (\<lambda>v. case v of JInt i \<Rightarrow> if 0 \<le> i then Some i else None | _ \<Rightarrow> None) vs) of
            None \<Rightarrow> None
          | Some ds \<Rightarrow> if ds = [] then None else Some ds)
      | _ \<Rightarrow> None)"

definition summarize_metric :: "performance_lib \<Rightarrow> json \<Rightarrow> json_dict \<Rightarrow> performance_error + metric_summary" where
  "summarize_metric lib metric profile =
     bind_r (as_mapping metric) (\<lambda>metric.
     let category = json_get metric ''category'' in
     bind_r (required_item profile ''requiredMetricCategories'') (\<lambda>categories.
     bind_r (value_in category categories) (\<lambda>supported.
     if \<not> supported then Inl (PerformanceError ''unsupported metric category'')
     else
     bind_r (bind_r (bind_r (required_item profile ''sampling'') as_mapping) (\<lambda>s. required_item s ''minimumMeasuredSamplesPerMetric'')) (\<lambda>minimum.
     bind_r (validate_latency_samples (json_get metric ''samplesMilliseconds'') minimum) (\<lambda>samples.
     if \<not> nonnegative_int (json_get metric ''requestErrors'') \<or> \<not> nonnegative_int (json_get metric ''backpressureEvents'')
     then Inl (PerformanceError ''error and backpressure counts must be non-negative integers'')
     else
       (case queue_depths (json_get metric ''queueDepthSamples'') of
          None \<Rightarrow> Inl (PerformanceError ''queue-depth samples are required'')
        | Some depths \<Rightarrow>
            let threshold_key = (if category = JStr (text_of ''control-plane'') then ''controlPlaneLatencyP95Milliseconds''
                                 else ''telemetryAcceptanceLatencyP95Milliseconds'') in
            bind_r (percentile lib samples (95 / 100)) (\<lambda>p95.
            bind_r (percentile lib samples (1 / 2)) (\<lambda>p50.
            bind_r (percentile lib samples (99 / 100)) (\<lambda>p99.
            bind_r (bind_r (bind_r (required_item profile ''thresholds'') as_mapping) (\<lambda>t. required_item t threshold_key)) (\<lambda>threshold.
            bind_r (num_le (JFloat p95) threshold) (\<lambda>fast.
            Inr \<lparr>mm_id = json_get metric ''id'', mm_category = category, mm_sample_count = length samples,
                 mm_request_errors = json_get metric ''requestErrors'', mm_backpressure = json_get metric ''backpressureEvents'',
                 mm_queue_depth_maximum = Max (set depths), mm_p50 = p50, mm_p95 = p95, mm_p99 = p99,
                 mm_threshold = threshold,
                 mm_passed = (fast \<and> py_eq_int (json_get metric ''requestErrors'') 0 \<and>
                   py_eq_int (json_get metric ''backpressureEvents'') 0)\<rparr>)))))))))))"

section \<open>Continuous operation\<close>

record continuous_summary =
  co_duration :: json
  co_disconnects :: int
  co_reconnects :: int
  co_unrecovered :: int
  co_resource_count :: nat
  co_cpu_maximum :: pyfloat
  co_memory_maximum :: pyfloat
  co_full_duration :: bool
  co_passed :: bool

definition resource_values :: "json list \<Rightarrow> string \<Rightarrow> performance_error + pyfloat list" where
  "resource_values resources field =
     (let vs = concat (map (\<lambda>r. case r of JObj d \<Rightarrow> [json_get d field] | _ \<Rightarrow> []) resources) in
      if length vs \<noteq> length resources \<or> \<not> list_all nonnegative_number vs
      then Inl (PerformanceError ''resource samples require non-negative values'')
      else map_r to_float vs)"

text \<open>\<open>max\<close> keeps the first of values none of which is greater.\<close>

definition py_max_float :: "pyfloat list \<Rightarrow> pyfloat" where
  "py_max_float xs = foldl (\<lambda>m x. if flt m x then x else m) (hd xs) (tl xs)"

definition summarize_continuous :: "json_dict \<Rightarrow> json_dict \<Rightarrow> performance_error + continuous_summary" where
  "summarize_continuous payload profile =
     (let duration = json_get payload ''durationSeconds'' in
      if (case num_value duration of Some f \<Rightarrow> flt f (Fin 0) | None \<Rightarrow> True)
      then Inl (PerformanceError ''continuous-operation duration is invalid'')
      else
        case (int_of (json_get payload ''disconnectEvents''), int_of (json_get payload ''reconnectSuccesses'')) of
          (Some disconnects, Some reconnects) \<Rightarrow>
            if disconnects < reconnects then Inl (PerformanceError ''disconnect and reconnect counts are invalid'')
            else
              (case json_get payload ''resourceSamples'' of
                 JList resources \<Rightarrow>
                   if resources = [] then Inl (PerformanceError ''resource samples are required'')
                   else
                     bind_r (resource_values resources ''cpuPercent'') (\<lambda>cpu.
                     bind_r (resource_values resources ''memoryPercent'') (\<lambda>memory.
                     bind_r (bind_r (bind_r (required_item profile ''thresholds'') as_mapping)
                       (\<lambda>t. required_item t ''continuousOperationSeconds'')) (\<lambda>seconds.
                     bind_r (num_le seconds duration) (\<lambda>full.
                     Inr \<lparr>co_duration = duration, co_disconnects = disconnects, co_reconnects = reconnects,
                          co_unrecovered = disconnects - reconnects, co_resource_count = length resources,
                          co_cpu_maximum = py_max_float cpu, co_memory_maximum = py_max_float memory,
                          co_full_duration = full, co_passed = (full \<and> disconnects - reconnects = 0)\<rparr>))))
               | _ \<Rightarrow> Inl (PerformanceError ''resource samples are required''))
        | _ \<Rightarrow> Inl (PerformanceError ''disconnect and reconnect counts are invalid''))"

section \<open>The report\<close>

definition REQUIRED_PERFORMANCE_TARGET :: pytext where
  "REQUIRED_PERFORMANCE_TARGET = text_of ''server01-production''"

definition validate_performance_profile :: "json_dict \<Rightarrow> performance_error + unit" where
  "validate_performance_profile profile =
     (if json_get profile ''status'' \<noteq> JStr (text_of ''CONTROLLED_DRAFT_NOT_EXECUTED'')
      then Inl (PerformanceError ''qualification profile must remain an unexecuted draft'')
      else if json_get profile ''target'' \<noteq> JStr REQUIRED_PERFORMANCE_TARGET
      then Inl (PerformanceError ''only Server-01 production is permitted'')
      else
        bind_r (as_mapping (value_or_else profile ''thresholds'' (JObj []))) (\<lambda>thresholds.
        if json_get thresholds ''status'' \<noteq> JStr (text_of ''PROPOSED_NOT_APPROVED'')
        then Inl (PerformanceError ''thresholds must remain proposed'')
        else
          bind_r (as_mapping (value_or_else profile ''sampling'' (JObj []))) (\<lambda>sampling.
          bind_r (num_less (value_or_else sampling ''minimumMeasuredSamplesPerMetric'' (JInt 0)) (JInt 30)) (\<lambda>few.
          if few \<or> json_get sampling ''retainRawSamples'' \<noteq> JBool True
          then Inl (PerformanceError ''at least 30 retained raw samples are required'') else Inr ()))))"

definition environment_complete :: "json_dict \<Rightarrow> json \<Rightarrow> performance_error + bool" where
  "environment_complete environment field =
     (if hashable field then Inr (case field of JStr f \<Rightarrow> (case dict_get environment f of None \<Rightarrow> False | Some v \<Rightarrow> truthy v) | _ \<Rightarrow> False)
      else Inl PerformanceCrash)"

text \<open>\<open>any(...)\<close> stops at the first field that is missing.\<close>

fun all_complete :: "json_dict \<Rightarrow> json list \<Rightarrow> performance_error + bool" where
  "all_complete environment [] = Inr True"
| "all_complete environment (field # names) =
     bind_r (environment_complete environment field) (\<lambda>ok. if ok then all_complete environment names else Inr False)"

definition validate_performance_envelope ::
    "performance_lib \<Rightarrow> json_dict \<Rightarrow> pytext \<Rightarrow> json_dict \<Rightarrow> performance_error + unit" where
  "validate_performance_envelope lib document source_commit profile =
     (if json_get document ''schemaVersion'' \<noteq> JStr (text_of ''gcs-saker.performance-samples.v1'') \<or>
         json_get document ''sourceCommit'' \<noteq> JStr source_commit
      then Inl (PerformanceError ''input schema or source commit does not match'')
      else if json_get document ''target'' \<noteq> JStr REQUIRED_PERFORMANCE_TARGET
      then Inl (PerformanceError ''evidence must target Server-01 production'')
      else
        case urlparse (pl_netloc_ok lib) (text_get (pl_str_of lib) document ''publicOrigin'' []) of
          None \<Rightarrow> Inl PerformanceCrash
        | Some origin \<Rightarrow>
            if url_scheme origin \<noteq> text_of ''https'' \<or> url_hostname origin \<noteq> text_of ''gcs-saker.com''
            then Inl (PerformanceError ''evidence must use the production HTTPS origin'')
            else if \<not> truthy (json_get document ''approvedWindowId'') \<or> \<not> truthy (json_get document ''loadProfileId'')
            then Inl (PerformanceError ''approved window and load profile IDs are required'')
            else
              bind_r (as_mapping (value_or_else document ''clock'' (JObj []))) (\<lambda>clock.
              if \<not> truthy (json_get clock ''source'') \<or> \<not> is_number (json_get clock ''measuredDriftMilliseconds'')
              then Inl (PerformanceError ''clock source and measured drift are required'')
              else
                bind_r (bind_r (bind_r (required_item profile ''sampling'') as_mapping) (\<lambda>s. required_item s ''minimumWarmupSamples'')) (\<lambda>minimum.
                bind_r (num_less (value_or_else document ''warmupSamples'' (JInt 0)) minimum) (\<lambda>few.
                if few then Inl (PerformanceError ''insufficient warmup samples'')
                else
                  (case json_get document ''environment'' of
                     JObj environment \<Rightarrow>
                       bind_r (bind_r (required_item profile ''requiredEnvironmentFields'') json_items) (\<lambda>required.
                       bind_r (all_complete environment required) (\<lambda>ok.
                       if ok then Inr () else Inl (PerformanceError ''environment qualification fields are incomplete'')))
                   | _ \<Rightarrow> Inl (PerformanceError ''environment qualification fields are incomplete''))))))"

text \<open>The verdict of a report that passed is \<open>BLOCKED\<close>, since its thresholds are not approved; else it is \<open>FAIL\<close>.\<close>

record performance_report =
  pr_source_commit :: pytext
  pr_approved_window :: json
  pr_load_profile :: json
  pr_metrics :: "metric_summary list"
  pr_continuous :: continuous_summary
  pr_passed :: bool

text \<open>The members of two lists are the same values; all must be hashable to be in a set.\<close>

definition same_value_sets :: "json list \<Rightarrow> json list \<Rightarrow> performance_error + bool" where
  "same_value_sets xs ys =
     (if list_all hashable (xs @ ys)
      then Inr (list_all (\<lambda>x. list_ex (py_eq x) ys) xs \<and> list_all (\<lambda>y. list_ex (py_eq y) xs) ys)
      else Inl PerformanceCrash)"

definition build_performance_report ::
    "performance_lib \<Rightarrow> json_dict \<Rightarrow> pytext \<Rightarrow> json_dict \<Rightarrow> performance_error + performance_report" where
  "build_performance_report lib document source_commit profile =
     bind_r (validate_performance_envelope lib document source_commit profile) (\<lambda>_.
     case json_get document ''metrics'' of
       JList metrics \<Rightarrow>
         if metrics = [] then Inl (PerformanceError ''metric evidence is required'')
         else
           bind_r (map_r (\<lambda>m. summarize_metric lib m profile) metrics) (\<lambda>summaries.
           bind_r (bind_r (required_item profile ''requiredMetricCategories'') json_items) (\<lambda>required.
           bind_r (same_value_sets (map mm_category summaries) required) (\<lambda>covered.
           if \<not> covered then Inl (PerformanceError ''required metric category coverage is incomplete'')
           else
             bind_r (as_mapping (value_or_else document ''continuousOperation'' (JObj []))) (\<lambda>payload.
             bind_r (summarize_continuous payload profile) (\<lambda>continuous.
             Inr \<lparr>pr_source_commit = source_commit, pr_approved_window = json_get document ''approvedWindowId'',
                  pr_load_profile = json_get document ''loadProfileId'', pr_metrics = summaries, pr_continuous = continuous,
                  pr_passed = (list_all mm_passed summaries \<and> co_passed continuous)\<rparr>)))))
     | _ \<Rightarrow> Inl (PerformanceError ''metric evidence is required''))"

record performance_file =
  pf_json :: bool
  pf_absolute :: bool
  pf_is_file :: bool
  pf_content :: "bytes option"

definition load_performance_object :: "performance_lib \<Rightarrow> performance_file \<Rightarrow> performance_error + json_dict" where
  "load_performance_object lib f =
     (case Option.bind (Option.bind (pf_content f) read_text) (if pf_json f then pl_json_loads lib else pl_yaml_load lib) of
        None \<Rightarrow> Inl PerformanceCrash
      | Some (JObj d) \<Rightarrow> Inr d
      | Some _ \<Rightarrow> Inl (PerformanceError ''must contain an object''))"

record performance_args =
  pa_check :: bool
  pa_input :: "performance_file option"
  pa_output :: "(bool \<times> bool) option"

text \<open>
  The output place is given by whether it is absolute and whether its directory exists; it holds the
  report with the digest of the input.
\<close>

definition performance_main ::
    "performance_lib \<Rightarrow> performance_file \<Rightarrow> pytext option \<Rightarrow> performance_args \<Rightarrow> (performance_report \<times> pytext) option \<Rightarrow>
     (performance_report \<times> pytext) option \<times> (performance_error + int)" where
  "performance_main lib profile_file commit args old =
     (case
        bind_r (load_performance_object lib profile_file) (\<lambda>profile.
        bind_r (validate_performance_profile profile) (\<lambda>_.
        if pa_check args then Inr old
        else
          case (pa_input args, pa_output args) of
            (Some input_file, Some (absolute, parent_dir)) \<Rightarrow>
              if \<not> pf_absolute input_file \<or> \<not> pf_is_file input_file
              then Inl (PerformanceError ''input must be an existing absolute file'')
              else
                (case commit of
                   None \<Rightarrow> Inl PerformanceCrash
                 | Some c \<Rightarrow>
                     bind_r (load_performance_object lib input_file) (\<lambda>document.
                     bind_r (build_performance_report lib document c profile) (\<lambda>report.
                     if \<not> absolute \<or> \<not> parent_dir
                     then Inl (PerformanceError ''output must use an existing absolute directory'')
                     else if old \<noteq> None then Inl PerformanceCrash
                     else Inr (Some (report, pl_sha256_hex lib (case pf_content input_file of None \<Rightarrow> [] | Some bs \<Rightarrow> bs))))))
          | _ \<Rightarrow> Inl PerformanceUsage)) of
        Inl e \<Rightarrow> (old, Inl e)
      | Inr new \<Rightarrow> (new, Inr 0))"

section \<open>What the numbers of a report mean\<close>

lemma insert_float_set [simp]: "set (insert_float x ys) = insert x (set ys)"
  by (induction ys) auto

lemma insert_float_mset: "mset (insert_float x ys) = add_mset x (mset ys)"
  by (induction ys) auto

lemma sorted_floats_mset: "NaN \<notin> set xs \<Longrightarrow> mset (sorted_floats lib xs) = mset xs"
proof -
  have "mset (fold insert_float xs ys) = mset ys + mset xs" for ys
    by (induction xs arbitrary: ys) (auto simp: insert_float_mset)
  then show "NaN \<notin> set xs \<Longrightarrow> mset (sorted_floats lib xs) = mset xs" by (simp add: sorted_floats_def)
qed

lemma fle_trans: "fle x y \<Longrightarrow> fle y z \<Longrightarrow> fle x z"
  by (cases x; cases y; cases z) auto

lemma not_flt: "x \<noteq> NaN \<Longrightarrow> y \<noteq> NaN \<Longrightarrow> \<not> flt x y \<longleftrightarrow> fle y x"
  by (cases x; cases y) auto

lemma flt_fle: "flt x y \<Longrightarrow> fle x y"
  by (cases x; cases y) auto

lemma insert_float_sorted:
  "sorted_wrt fle ys \<Longrightarrow> NaN \<notin> set (x # ys) \<Longrightarrow> sorted_wrt fle (insert_float x ys)"
proof (induction ys)
  case (Cons y ys)
  show ?case
  proof (cases "flt x y")
    case True
    with Cons.prems show ?thesis by (auto dest: flt_fle intro: fle_trans)
  next
    case False
    with Cons.prems have "fle y x" using not_flt [of x y] by auto
    with Cons False show ?thesis by auto
  qed
qed simp

lemma sorted_floats_sorted:
  assumes "NaN \<notin> set xs"
  shows "sorted_wrt fle (sorted_floats lib xs)"
proof -
  have "sorted_wrt fle ys \<Longrightarrow> NaN \<notin> set ys \<Longrightarrow> NaN \<notin> set zs \<Longrightarrow> sorted_wrt fle (fold insert_float zs ys)" for ys zs
    by (induction zs arbitrary: ys) (auto simp: insert_float_sorted)
  from this [of "[]" xs] assms show ?thesis by (simp add: sorted_floats_def)
qed

lemma filter_length_mset: "mset xs = mset ys \<Longrightarrow> length (filter P xs) = length (filter P ys)"
  by (metis mset_filter size_mset)

lemma rank_in_sorted:
  assumes "sorted_wrt fle ys" and "NaN \<notin> set ys" and "i < length ys"
  shows "i < length (filter (\<lambda>y. fle y (ys ! i)) ys)" and "length (filter (\<lambda>y. flt y (ys ! i)) ys) \<le> i"
proof -
  have nan: "ys ! j \<noteq> NaN" if "j < length ys" for j using assms(2) that by (metis nth_mem)
  have low: "fle (ys ! j) (ys ! i)" if "j \<le> i" for j
  proof (cases "j = i")
    case True
    then show ?thesis using nan [OF assms(3)] by (cases "ys ! i") auto
  next
    case False
    then show ?thesis using assms(1,3) that by (simp add: sorted_wrt_iff_nth_less)
  qed
  have high: "\<not> flt (ys ! j) (ys ! i)" if "i \<le> j" "j < length ys" for j
  proof (cases "j = i")
    case True
    then show ?thesis by (cases "ys ! i") auto
  next
    case False
    then have "fle (ys ! i) (ys ! j)" using assms(1) that by (simp add: sorted_wrt_iff_nth_less)
    then show ?thesis using not_flt nan that assms(3) by auto
  qed
  have split: "ys = take (Suc i) ys @ drop (Suc i) ys" "ys = take i ys @ drop i ys" by simp_all
  have "filter (\<lambda>y. fle y (ys ! i)) (take (Suc i) ys) = take (Suc i) ys"
    using low assms(3) by (auto simp: filter_id_conv in_set_conv_nth)
  then have "Suc i \<le> length (filter (\<lambda>y. fle y (ys ! i)) (take (Suc i) ys @ drop (Suc i) ys))"
    unfolding filter_append using assms(3) by simp
  then show "i < length (filter (\<lambda>y. fle y (ys ! i)) ys)" by simp
  have "filter (\<lambda>y. flt y (ys ! i)) (drop i ys) = []"
    using high by (auto simp: filter_empty_conv in_set_conv_nth)
  then have "length (filter (\<lambda>y. flt y (ys ! i)) (take i ys @ drop i ys)) \<le> i"
    unfolding filter_append by (simp add: le_trans [OF length_filter_le])
  then show "length (filter (\<lambda>y. flt y (ys ! i)) ys) \<le> i" by simp
qed

text \<open>
  A percentile is one of the samples; more samples than its index are not above it, and no more than
  its index are below it.
\<close>

theorem percentile_rank:
  assumes "percentile lib xs ratio = Inr p" and "NaN \<notin> set xs"
  shows "p \<in> set xs \<and> percentile_index (length xs) ratio < length (filter (\<lambda>x. fle x p) xs) \<and>
    length (filter (\<lambda>x. flt x p) xs) \<le> percentile_index (length xs) ratio"
proof -
  note same = sorted_floats_mset [OF assms(2), of lib]
  have len: "length (sorted_floats lib xs) = length xs" using same by (rule mset_eq_length)
  have set: "set (sorted_floats lib xs) = set xs" using same by (rule mset_eq_setD)
  from assms(1) have i: "percentile_index (length xs) ratio < length (sorted_floats lib xs)"
      "p = sorted_floats lib xs ! percentile_index (length xs) ratio"
    by (auto simp: percentile_def Let_def len split: if_splits)
  have "NaN \<notin> set (sorted_floats lib xs)" using assms(2) set by simp
  from rank_in_sorted [OF sorted_floats_sorted [OF assms(2), of lib] this i(1)] i filter_length_mset [OF same] set
  show ?thesis by (metis nth_mem)
qed

lemma as_mapping_Inr: "as_mapping v = Inr d \<longleftrightarrow> v = JObj d"
  by (cases v) (auto simp: as_mapping_def)

text \<open>
  A metric passes only when it had no errors and no back pressure and when of its samples more than the
  index of the 95th percentile are within the threshold.
\<close>

theorem passed_metric_within_threshold:
  assumes "summarize_metric lib metric profile = Inr s" and "mm_passed s"
  shows "\<exists>m minimum samples threshold. metric = JObj m \<and> num_value (mm_threshold s) = Some threshold \<and>
    py_eq_int (json_get m ''requestErrors'') 0 \<and> py_eq_int (json_get m ''backpressureEvents'') 0 \<and>
    validate_latency_samples (json_get m ''samplesMilliseconds'') minimum = Inr samples \<and>
    (NaN \<notin> set samples \<longrightarrow> percentile_index (length samples) (95 / 100) < length (filter (\<lambda>x. fle x threshold) samples))"
proof -
  from assms obtain m minimum samples p95 where m: "metric = JObj m"
      "validate_latency_samples (json_get m ''samplesMilliseconds'') minimum = Inr samples"
      "percentile lib samples (95 / 100) = Inr p95" "num_le (JFloat p95) (mm_threshold s) = Inr True"
      "py_eq_int (json_get m ''requestErrors'') 0" "py_eq_int (json_get m ''backpressureEvents'') 0"
    by (auto simp: summarize_metric_def bind_r_eq_Inr as_mapping_Inr Let_def simp del: text_of_simps split: if_split_asm option.split_asm)
  from m(4) obtain threshold where t: "num_value (mm_threshold s) = Some threshold" "fle p95 threshold"
    by (auto simp: num_le_def split: option.splits)
  have "percentile_index (length samples) (95 / 100) < length (filter (\<lambda>x. fle x threshold) samples)" if "NaN \<notin> set samples"
  proof -
    have "length (filter (\<lambda>x. fle x p95) samples) \<le> length (filter (\<lambda>x. fle x threshold) samples)"
      using t(2) fle_trans by (induction samples) auto
    with percentile_rank [OF m(3) that] show ?thesis by linarith
  qed
  with m t(1) show ?thesis by blast
qed

lemma continuous_passed:
  "summarize_continuous payload profile = Inr c \<Longrightarrow> co_passed c \<Longrightarrow> co_full_duration c \<and> co_unrecovered c = 0"
  by (auto simp: summarize_continuous_def Let_def bind_r_eq_Inr split: option.splits if_splits json.splits)

text \<open>
  A report that passed covers every required category, with all of its metrics passed, and the system
  ran for the required time with every disconnect recovered.
\<close>

theorem passed_report:
  assumes "build_performance_report lib document source_commit profile = Inr r" and "pr_passed r"
  shows "list_all mm_passed (pr_metrics r) \<and> co_full_duration (pr_continuous r) \<and> co_unrecovered (pr_continuous r) = 0 \<and>
    (\<exists>categories required. required_item profile ''requiredMetricCategories'' = Inr categories \<and> json_items categories = Inr required \<and>
      list_all (\<lambda>c. list_ex (\<lambda>m. py_eq c (mm_category m)) (pr_metrics r)) required)"
proof -
  from assms obtain required payload where r: "list_all mm_passed (pr_metrics r)" "co_passed (pr_continuous r)"
      "summarize_continuous payload profile = Inr (pr_continuous r)"
      "bind_r (required_item profile ''requiredMetricCategories'') json_items = Inr required"
      "same_value_sets (map mm_category (pr_metrics r)) required = Inr True"
    by (auto simp: build_performance_report_def bind_r_eq_Inr Let_def split: json.splits if_splits)
  note continuous_passed [OF r(3,2)]
  moreover have "list_all (\<lambda>c. list_ex (\<lambda>m. py_eq c (mm_category m)) (pr_metrics r)) required"
    using r(5) by (auto simp: same_value_sets_def list_all_iff list_ex_iff split: if_splits)
  ultimately show ?thesis using r(1,4) by (auto simp: bind_r_eq_Inr)
qed

end
