(* ===== verification/Spec2Isabelle.thy ===== *)
theory Spec2Isabelle
  imports Gateway_Wire Ai_Overlay Telemetry_Sink Streaming Settings Http_App Ai_Adapter Wire_Codec
    Audit_Log Backfill Recovery Release_Gate License Firewall Turn Runtime
    Lifecycle Secret_Files Object_Lock Network_Audit Audit_Drill Release_Evidence Health_Probe
    Ice Hazards Performance
begin

text \<open>
  \<^bold>\<open>A verification library for the Python backend of gcs-saker and its operations tools\<close>

  \<^bold>\<open>The program.\<close> The backend is a FastAPI service of a ground control station. Drones and gateways
  send telemetry as Protobuf messages; the service stores it behind a write buffer, lists and plays
  video streams through MediaMTX, takes AI detections from processors and shows them as overlays, and
  serves all of it to browsers that log in. Beside it, the scripts under \<open>scripts/ops\<close> build, check,
  start, audit and recover the production server. A message enters through the wire codec and the
  envelope classes; telemetry is converted to the legacy record, kept in the read model and in a
  buffer, and flushed to the database by one or several threads. A request passes the middleware of
  \<open>main.py\<close>, the role its router demands and then the endpoint, which calls a service. All parts
  take their settings from the environment and from secret files when the process starts.

  \<^bold>\<open>How code is represented.\<close> A class or schema is a record, an enumeration a datatype, a dictionary an
  insertion-ordered association list, a Python integer an \<open>int\<close>, a text the list of its code points, an
  octet an \<open>8 word\<close>. A float on the wire is its bit pattern, a \<open>64 word\<close>; a float that is computed with
  is a \<open>pyfloat\<close>, the rational of a finite double with rounding written out. A function that may raise
  returns a sum, \<open>Inl\<close> the exception by class and, where the code looks at it, message. State is passed
  explicitly. A script that acts on something outside (containers, an object store, files, a database)
  is a function on a world: it returns the world it leaves and its outcome, so that what was
  done before an exception stays done. Libraries, the machine and services are arguments; what is used
  of them is stated as a locale, and every locale is interpreted, on the model's own operations where
  they provide the interface and on an executable sample of the library otherwise.

  \<^bold>\<open>Foundations.\<close>
  \<^item> \<open>Prelude\<close>: sequencing of results, traversal of lists, dictionaries.
  \<^item> \<open>World\<close>: sequencing, \<open>try ... finally\<close> and loops of actions on a world; inversion of successful
    runs, preservation of facts and absence of errors.
  \<^item> \<open>Utf8\<close>, \<open>Text\<close>, \<open>Url\<close>, \<open>Float64\<close>, \<open>Base32\<close>, \<open>Json_Canon\<close>, \<open>Ops_Base\<close>: what the sources use of Python's
    \<open>str\<close>, \<open>bytes\<close>, \<open>urllib\<close>, \<open>float\<close>, \<open>base64\<close>, \<open>zlib\<close>, \<open>json\<close>, equality and files.

  \<^bold>\<open>Messages\<close> (\<open>backend/modules/protocol_v2\<close>, \<open>ai_contract\<close>).
  \<^item> \<open>Wire\<close>, \<open>Wire_Correct\<close> (\<open>wire.py\<close>, \<open>wire_helpers.py\<close>): the encoders, the decoding loop and the field
    accessors; the loop implements the grammar of the wire format and stays within the payload.
  \<^item> \<open>Wire_Codec\<close>: the locale \<open>wire_codec\<close>, the promise that decoding inverts encoding, and \<open>nested_codec\<close> for
    a message inside a message.
  \<^item> \<open>Telemetry_Wire\<close> (\<open>telemetry*.py\<close>, \<open>telemetry_wire\<close>), \<open>Gateway_Wire\<close> (\<open>gateway_service*.py\<close>,
    \<open>stream_control.py\<close>), \<open>Ai_Overlay\<close> (\<open>ai_overlay*.py\<close>): the message classes; each interprets \<open>wire_codec\<close>.
    The lemmas say when encoding succeeds, what the decoders refuse and which messages they identify.
  \<^item> \<open>Ai_Contract\<close> (\<open>ai_contract\<close>): the schemas with their validators, the mock provider and its endpoint.

  \<^bold>\<open>Telemetry storage\<close> (\<open>telemetry_ingest\<close>, \<open>telemetry_buffer\<close>, \<open>model/telemetry_model.py\<close>, \<open>sql/telemetry_sql.py\<close>, \<open>mqtt\<close>).
  \<^item> \<open>Telemetry_Model\<close>: the legacy record and its conversion, the names of its fields and the keys of the
    table's columns; the SQL table as locale \<open>sql_table\<close>, whose columns keep a value in their own form or refuse it.
  \<^item> \<open>Telemetry_Ingest\<close>: the repository, whose two upserts agree on the records that the one for PostgreSQL
    can write, the read model, which holds exactly the latest snapshots of the last keys, the endpoints and the MQTT sink's session.
  \<^item> \<open>Telemetry_Buffer\<close>: the memory and the Redis buffer; both interpret \<open>write_buffer\<close>, a queue with a
    latest value per key.
  \<^item> \<open>Telemetry_Sink\<close>: bulk statements and the write-behind sink, proved over \<open>write_buffer\<close>; the
    step relation \<open>flush_step\<close> interleaves threads, and accepted records are conserved by it.

  \<^bold>\<open>Streams\<close> (\<open>model/stream_model.py\<close>, \<open>modules/streaming\<close>, \<open>modules/ai_adapter\<close>).
  \<^item> \<open>Stream_Path\<close>: exactly the accepted paths and identifiers, and the bijection between them.
  \<^item> \<open>Streaming\<close>: repository (locale \<open>stream_store\<close>), playback URLs, the MediaMTX client with its snapshot
    cache, the merged registry and the endpoints.
  \<^item> \<open>Ai_Adapter\<close>: the analysis of a stream by a configured processor, and what it stores.

  \<^bold>\<open>Service\<close> (\<open>core\<close>, \<open>api\<close>, \<open>main.py\<close>, \<open>modules/health\<close>, \<open>modules/map_config\<close>).
  \<^item> \<open>Settings\<close>: every settings class over a \<open>host\<close>, the secret files, and what accepted settings guarantee.
  \<^item> \<open>Auth\<close>: tokens, roles, guards, cookies and the five endpoints, with the locales \<open>jwt_library\<close>,
    \<open>password_library\<close> and \<open>user_store\<close>; \<open>signups\<close> is the relation of repeated sign-ups.
  \<^item> \<open>Logging\<close>: the log processors and redaction. \<open>Runtime\<close>: the tracer provider and the gRPC client.
  \<^item> \<open>Http_App\<close>: routers with their roles, the middleware order, security headers and health endpoints.

  \<^bold>\<open>Operations\<close> (\<open>scripts/ops\<close>, three reports and two smoke tests).
  \<^item> \<open>Lifecycle\<close> (\<open>compose_lifecycle.py\<close>): services start in the order of their dependencies, each gated by
    the state of the one before; on a host whose commands end within their time-outs (\<open>timely_host\<close>) a start
    ends within a bound on its clock; a stop goes the other way.
  \<^item> \<open>Secret_Files\<close> (\<open>materialize_secret_bundle.py\<close>, \<open>enroll_legacy_runtime_secrets.py\<close>): no run leaves part of
    a secret, a successful one leaves exactly the bundle, and enrolment overwrites nothing.
  \<^item> \<open>Audit_Log\<close> (\<open>audit_chain_verify.py\<close>, \<open>audit_anchor_verify.py\<close>, \<open>verify_audit_recovery.py\<close>): a log that
    verifies is fixed by its head hash, up to a collision the theorem names. \<open>Audit_Drill\<close>
    (\<open>audit_offload_restore_drill.py\<close>) rehearses a recovery with it, and \<open>Object_Lock\<close>
    (\<open>s3_object_lock_offload.py\<close>) puts its anchors where nobody can delete them, over a store whose replies say nothing false
    (\<open>truthful_store\<close>) but may leave things out.
  \<^item> \<open>Backfill\<close> (\<open>telemetry_identity_backfill.py\<close>, \<open>telemetry_backfill_safety.py\<close>): authority, bounded
    batches, and the primary key at the end. \<open>Recovery\<close> (\<open>recovery_qualification*.py\<close>): the scenario
    that stops a service and must bring it back, over any machine: what is known of the service is what the
    commands of the run and their answers show (\<open>traced_machine\<close>).
  \<^item> \<open>Release_Manifest\<close>, \<open>Release_Gate\<close> (with \<open>generate_admin_mfa_material.py\<close>), \<open>License\<close>
    (\<open>reports/license_compliance.py\<close>), \<open>Release_Evidence\<close> (\<open>release_drift_report.py\<close>,
    \<open>verify_mobile_release_evidence.py\<close>): what may be released, and what an accepted release is pinned to.
    The licence report is an input of the manifest, and one theorem spans both.
  \<^item> \<open>Firewall\<close> (\<open>server01_firewall_drift_check.py\<close>), \<open>Network_Audit\<close> (\<open>docker_network_path_audit.py\<close>),
    \<open>Health_Probe\<close> (\<open>health_readiness_check.py\<close>), \<open>Turn\<close> (\<open>smoke/turn_relay_smoke.py\<close>), \<open>Ice\<close>
    (\<open>smoke/webrtc_ice_smoke.py\<close>, \<open>ice_pair_observation.py\<close>, \<open>latency_budget.py\<close>): checks of a deployment,
    with what a passed check shows of it. Chains the firewall check does not read and the TURN server are
    parameters: named chains may settle or return each packet, and the server may answer as it likes; only
    a sample run uses a server of the protocol.
  \<^item> \<open>Hazards\<close> (\<open>reports/hazard_closure_qualification.py\<close>): a hazard reported closed has its residual risk
    accepted on passing evidence. \<open>Performance\<close> (\<open>reports/performance_stability_qualification.py\<close>): the
    rank of a percentile, and what a passed report shows of the samples.

  \<^bold>\<open>Bounds and fuel.\<close> Recursion is structural or has a measure, except where the code counts attempts:
  there the count is the code's own (\<open>max_batches\<close> of the backfill, the attempts of the recovery probe, the
  three authentications of the TURN client). The one loop of the code without a count is the wait for
  a container. Its model has as many rounds as there are twentieths of a second to the deadline, plus
  two; every accepted poll interval is at least a twentieth of a second, so that on a \<open>timely_host\<close>
  the rounds never end before the deadline does; \<open>Lifecycle\<close> proves this and the bound on the clock in which a start
  ends, with the last inspection and sleep that the code may begin before the deadline. Times are
  seconds, milliseconds or microseconds as the code has them; a clock is read through an argument.

  \<^bold>\<open>What the modelling showed.\<close> Some theorems state what the code does where that is not what it means
  to do: a batch with a repeated key can never be flushed to PostgreSQL; the direct upsert there fails for every record
  that sets one of the seven fields whose column has another key, as all records converted from an envelope do; an overlay box may pass the guard
  and fail the schema; the terminal rule of the firewall check may be conditional, and gotos and jumps to chains with
  suitable names stand in for it; an exception in the recovery scenario leaves the service stopped; the fields of an anchor can be shifted under one
  signature; and the audit drill compares an export with its own copy.

  \<^bold>\<open>Not modelled.\<close> Error message texts, except where the code or its caller looks at them. Field declarations
  and re-exports without behaviour, and the classes that \<open>protoc\<close> generates. FastAPI's routing and
  validation of request bodies, SQLAlchemy, pydantic, structlog, OpenTelemetry, gRPC, PyJWT, passlib, Redis
  and the database: they are arguments, or the values the code gives them. Option parsers and the
  printing of results. The scripts under \<open>scripts/gates\<close>, \<open>scripts/smoke\<close>, \<open>scripts/benchmarks\<close>,
  \<open>scripts/github\<close>, \<open>backend/scripts\<close> and the remaining reports: they drive browsers, containers and
  brokers or measure them, or look for fixed words in the texts of the repository, and hold no logic of
  the service; of them the licence report, the two qualifications of hazards and performance, and
  the checks of TURN and of the media path, which decide or implement a protocol, are modelled. Tests, the web and mobile clients, the Go services and the
  deployment files are outside of the Python program.
\<close>

end
